(* ===== verification/Sil_Prelude.thy ===== *)
theory Sil_Prelude
  imports Main "HOL-Library.Word" "HOL-Library.Multiset" "HOL-Library.Monad_Syntax"
begin

text \<open>
  Shared vocabulary of the development: the fixed-width integer types of the C code, the status
  codes of \<^verbatim>\<open>Include/Sil-api.h\<close>, the option monad used for C assertions (\<open>None\<close> stands for a
  failed \<^verbatim>\<open>assert\<close>, that is, an aborted run of the default build), bounded loops in that monad,
  the align-up idiom \<^verbatim>\<open>(x + mask) & ~mask\<close>, and the lemmas on words and lists the components share.
\<close>

unbundle bit_operations_syntax

section \<open>Integer types\<close>

type_synonym u8 = "8 word"
type_synonym u16 = "16 word"
type_synonym u32 = "32 word"
type_synonym u64 = "64 word"

named_theorems sil_defs \<open>definitions unfolded when a closed model term is evaluated\<close>
named_theorems sil_align \<open>arithmetic of aligned addresses\<close>

section \<open>Status codes\<close>

text \<open>\<^verbatim>\<open>SIL_STATUS\<close> of \<^verbatim>\<open>Include/Sil-api.h\<close>, with the source's constructors.\<close>

datatype SIL_STATUS =
    SilPass
  | SilUnsupportedHardware
  | SilUnsupported
  | SilInvalidParameter
  | SilAborted
  | SilOutOfResources
  | SilNotFound
  | SilOutOfBounds
  | SilDeviceError
  | SilResetRequestColdImm
  | SilResetRequestColdDef
  | SilResetRequestWarmImm
  | SilResetRequestWarmDef

section \<open>Assertions and bounded loops\<close>

text \<open>
  \<^verbatim>\<open>SilCommon.h\<close> includes \<^verbatim>\<open>assert.h\<close> and leaves assertions enabled unless \<^verbatim>\<open>SIL_DEBUG_ENABLE\<close> is
  false: a failed assertion ends the run, here \<open>None\<close>.
\<close>

definition sil_assert :: "bool \<Rightarrow> unit option" where
  "sil_assert P = (if P then Some () else None)"

lemma sil_assert_bind [simp]: "(sil_assert P \<bind> f) = (if P then f () else None)"
  by (simp add: sil_assert_def)

text \<open>
  An assertion of a build in which assertions may be switched off: \<open>dbg\<close> is true in the default
  build. Functions whose code goes on after a failed assertion take it as a parameter.
\<close>

definition c_assert :: "bool \<Rightarrow> bool \<Rightarrow> unit option" where
  "c_assert dbg P = sil_assert (dbg \<longrightarrow> P)"

lemma c_assert_bind [simp]: "(c_assert dbg P \<bind> f) = (if dbg \<and> \<not> P then None else f ())"
  by (simp add: c_assert_def)

text \<open>A counted loop whose body may fail an assertion.\<close>

primrec for_each :: "('a \<Rightarrow> 's \<Rightarrow> 's option) \<Rightarrow> 'a list \<Rightarrow> 's \<Rightarrow> 's option" where
  "for_each f [] s = Some s"
| "for_each f (x # xs) s = (f x s \<bind> for_each f xs)"

lemma for_each_append: "for_each f (xs @ ys) s = (for_each f xs s \<bind> for_each f ys)"
proof (induction xs arbitrary: s)
  case Nil
  then show ?case by simp
next
  case (Cons x xs)
  then show ?case by (cases "f x s") auto
qed

lemma for_each_snoc: "for_each f (xs @ [x]) s = (for_each f xs s \<bind> f x)"
proof -
  have "for_each f [] = Some" by (rule ext) simp
  then have "for_each f [x] = f x" by (intro ext) simp
  then show ?thesis by (simp add: for_each_append)
qed

lemma for_each_ConsE:
  assumes "for_each f (x # xs) s = Some t"
  obtains s' where "f x s = Some s'" and "for_each f xs s' = Some t"
  using assms by (cases "f x s") auto

lemma for_each_invariant:
  assumes "for_each f xs s = Some t" and "I s"
    and "\<And>x s s'. x \<in> set xs \<Longrightarrow> I s \<Longrightarrow> f x s = Some s' \<Longrightarrow> I s'"
  shows "I t"
  using assms
proof (induction xs arbitrary: s)
  case Nil
  then show ?case by simp
next
  case (Cons x xs)
  from Cons.prems(1) obtain s' where s': "f x s = Some s'" "for_each f xs s' = Some t"
    by (auto split: bind_splits)
  have "I s'" by (rule Cons.prems(3) [OF _ Cons.prems(2) s'(1)]) simp
  show ?case
  proof (rule Cons.IH [OF s'(2) \<open>I s'\<close>])
    fix y u u'
    assume "y \<in> set xs" "I u" "f y u = Some u'"
    then show "I u'" by (intro Cons.prems(3) [of y u u']) simp_all
  qed
qed

lemma for_each_total:
  assumes "I s" and "\<And>x s. x \<in> set xs \<Longrightarrow> I s \<Longrightarrow> \<exists>s'. f x s = Some s' \<and> I s'"
  shows "\<exists>t. for_each f xs s = Some t \<and> I t"
  using assms
proof (induction xs arbitrary: s)
  case Nil
  then show ?case by simp
next
  case (Cons x xs)
  then obtain s' where "f x s = Some s'" "I s'" by fastforce
  with Cons.IH [of s'] Cons.prems(2) show ?case by simp
qed

section \<open>Words\<close>

lemma unat_plus_small:
  fixes x y :: "'a::len word"
  assumes "unat x + unat y < 2 ^ LENGTH('a)"
  shows "unat (x + y) = unat x + unat y"
  using assms by (simp add: unat_word_ariths)

lemma unat_minus_small:
  fixes x y :: "'a::len word"
  assumes "unat y \<le> unat x"
  shows "unat (x - y) = unat x - unat y"
  using assms by (simp add: unat_sub word_le_nat_alt)

lemma unat_drop_bit_div:
  fixes x :: "'a::len word"
  shows "unat (drop_bit n x) = unat x div 2 ^ n"
  unfolding unat_drop_bit_eq by (rule drop_bit_eq_div)

lemma unat_of_nat_small:
  assumes "n < 2 ^ LENGTH('a::len)"
  shows "unat (of_nat n :: 'a word) = n"
  using assms by (simp add: unsigned_of_nat take_bit_nat_eq_self)

lemma unat_ucast_widen:
  fixes x :: "'a::len word"
  assumes "LENGTH('a) \<le> LENGTH('b::len)"
  shows "unat (ucast x :: 'b word) = unat x"
proof -
  have "unat x < 2 ^ LENGTH('a)" using unsigned_less [of x, where ?'a = nat] by simp
  also have "\<dots> \<le> 2 ^ LENGTH('b)" using assms by simp
  finally show ?thesis by (simp add: unsigned_ucast_eq take_bit_nat_eq_self)
qed

lemma and_not_mask:
  fixes x :: "'a::len word"
  shows "x AND NOT (mask n) = push_bit n (drop_bit n x)"
  by (rule bit_word_eqI) (auto simp: bit_simps)

lemma unat_and_not_mask:
  fixes x :: "'a::len word"
  shows "unat (x AND NOT (mask n)) = unat x div 2 ^ n * 2 ^ n"
proof -
  have "push_bit n (drop_bit n x) = x - take_bit n x"
    using bits_ident [of n x] by (simp add: algebra_simps)
  moreover have "unat (take_bit n x) = unat x mod 2 ^ n"
    by (simp add: unsigned_take_bit_eq take_bit_eq_mod [symmetric])
  moreover have "unat (x - take_bit n x) = unat x - unat (take_bit n x)"
    by (rule unat_minus_small) (simp add: calculation)
  ultimately show ?thesis
    by (simp add: and_not_mask minus_mod_eq_div_mult)
qed

section \<open>Aligned addresses\<close>

text \<open>
  The resource manager describes an alignment by its bit map: \<^verbatim>\<open>0xFFFFF\<close> means 1 MB. Rounding an
  address up is \<^verbatim>\<open>(x + m) & ~m\<close> everywhere.
\<close>

definition align_up :: "u64 \<Rightarrow> u64 \<Rightarrow> u64" where
  "align_up m x = (x + m) AND NOT m"

definition align_mask :: "nat \<Rightarrow> u64 \<Rightarrow> bool" where
  "align_mask n m \<longleftrightarrow> n < 64 \<and> m = mask n"

lemma unat_mask_u64:
  assumes "n < 64"
  shows "unat (mask n :: u64) = 2 ^ n - 1"
proof -
  have "int (unat (mask n :: u64)) = mask n"
    using assms by (simp add: uint_mask_eq)
  then show ?thesis by (simp add: mask_eq_exp_minus_1 of_nat_eq_iff [symmetric, where 'a = int] of_nat_diff)
qed

lemma unat_align_mask: "align_mask n m \<Longrightarrow> unat m = 2 ^ n - 1"
  by (simp add: align_mask_def unat_mask_u64)

lemma unat_align_up [sil_align]:
  assumes "align_mask n m" and "unat x + unat m < 2 ^ 64"
  shows "unat (align_up m x) = (unat x + (2 ^ n - 1)) div 2 ^ n * 2 ^ n"
proof -
  have m: "m = mask n" using assms(1) by (simp add: align_mask_def)
  have "unat (x + m) = unat x + unat m"
    by (rule unat_plus_small) (use assms(2) in simp)
  then show ?thesis
    using unat_align_mask [OF assms(1)]
    by (simp add: align_up_def m unat_and_not_mask)
qed

lemma div_mult_ceil:
  fixes x d :: nat
  assumes "0 < d"
  shows "x \<le> (x + (d - 1)) div d * d" and "(x + (d - 1)) div d * d \<le> x + (d - 1)"
proof -
  show "(x + (d - 1)) div d * d \<le> x + (d - 1)" by (rule div_times_less_eq_dividend)
  have "(x + (d - 1)) mod d < d" using assms by simp
  moreover have "(x + (d - 1)) div d * d + (x + (d - 1)) mod d = x + (d - 1)" by simp
  ultimately show "x \<le> (x + (d - 1)) div d * d" by linarith
qed

lemma align_up_ge [sil_align]:
  assumes "align_mask n m" and "unat x + unat m < 2 ^ 64"
  shows "unat x \<le> unat (align_up m x)"
  using div_mult_ceil(1) [of "2 ^ n" "unat x"] by (simp add: unat_align_up [OF assms])

lemma align_up_le [sil_align]:
  assumes "align_mask n m" and "unat x + unat m < 2 ^ 64"
  shows "unat (align_up m x) \<le> unat x + unat m"
  using div_mult_ceil(2) [of "2 ^ n" "unat x"] unat_align_mask [OF assms(1)]
  by (simp add: unat_align_up [OF assms])

lemma align_up_dvd [sil_align]:
  assumes "align_mask n m" and "unat x + unat m < 2 ^ 64"
  shows "2 ^ n dvd unat (align_up m x)"
  by (simp add: unat_align_up [OF assms])

lemma align_up_and_mask:
  shows "align_up m x AND m = 0"
  by (simp add: align_up_def and.assoc)

lemma align_up_zero [simp]: "align_up 0 x = x"
  by (simp add: align_up_def)

section \<open>Ranges\<close>

text \<open>Half-open address ranges given by base and size, as the registers describe them.\<close>

definition range_of :: "nat \<Rightarrow> nat \<Rightarrow> nat set" where
  "range_of b n = {b ..< b + n}"

lemma range_of_disjointI:
  assumes "b + n \<le> c"
  shows "range_of b n \<inter> range_of c k = {}"
  using assms by (auto simp: range_of_def)

lemma range_of_subset: "b \<le> c \<Longrightarrow> c + k \<le> b + n \<Longrightarrow> range_of c k \<subseteq> range_of b n"
  by (auto simp: range_of_def)

end
