(* ===== verification/Sil_Memory.thy ===== *)
theory Sil_Memory
  imports Sil_Prelude
begin

text \<open>
  The host memory openSIL works in: a byte memory with little-endian multi-byte fields, as x86 lays
  C structures out. Addresses are natural numbers and the null pointer is 0. The lemmas are the
  read-over-write laws, stated once for any field width.
\<close>

type_synonym memory = "nat \<Rightarrow> u8"

primrec read_le :: "nat \<Rightarrow> memory \<Rightarrow> nat \<Rightarrow> nat" where
  "read_le 0 m a = 0"
| "read_le (Suc k) m a = unat (m a) + 256 * read_le k m (Suc a)"

primrec write_le :: "nat \<Rightarrow> memory \<Rightarrow> nat \<Rightarrow> nat \<Rightarrow> memory" where
  "write_le 0 m a v = m"
| "write_le (Suc k) m a v = (write_le k m (Suc a) (v div 256))(a := of_nat v)"

definition memset_zero :: "memory \<Rightarrow> nat \<Rightarrow> nat \<Rightarrow> memory" where
  "memset_zero m a n = (\<lambda>x. if a \<le> x \<and> x < a + n then 0 else m x)"

definition read8 :: "memory \<Rightarrow> nat \<Rightarrow> u8" where "read8 m a = m a"
definition read16 :: "memory \<Rightarrow> nat \<Rightarrow> u16" where "read16 m a = of_nat (read_le 2 m a)"
definition read32 :: "memory \<Rightarrow> nat \<Rightarrow> u32" where "read32 m a = of_nat (read_le 4 m a)"
definition read64 :: "memory \<Rightarrow> nat \<Rightarrow> u64" where "read64 m a = of_nat (read_le 8 m a)"

definition write8 :: "memory \<Rightarrow> nat \<Rightarrow> u8 \<Rightarrow> memory" where "write8 m a v = m(a := v)"
definition write16 :: "memory \<Rightarrow> nat \<Rightarrow> u16 \<Rightarrow> memory" where "write16 m a v = write_le 2 m a (unat v)"
definition write32 :: "memory \<Rightarrow> nat \<Rightarrow> u32 \<Rightarrow> memory" where "write32 m a v = write_le 4 m a (unat v)"
definition write64 :: "memory \<Rightarrow> nat \<Rightarrow> u64 \<Rightarrow> memory" where "write64 m a v = write_le 8 m a (unat v)"

lemmas mem_ops = read8_def read16_def read32_def read64_def
  write8_def write16_def write32_def write64_def

section \<open>Frame\<close>

lemma write_le_other: "x < a \<or> a + k \<le> x \<Longrightarrow> write_le k m a v x = m x"
  by (induction k arbitrary: a v) auto

lemma read_le_cong: "(\<And>x. a \<le> x \<Longrightarrow> x < a + k \<Longrightarrow> m x = m' x) \<Longrightarrow> read_le k m a = read_le k m' a"
proof (induction k arbitrary: a)
  case (Suc k)
  have "m a = m' a" using Suc.prems [of a] by simp
  moreover have "read_le k m (Suc a) = read_le k m' (Suc a)"
    by (rule Suc.IH) (use Suc.prems in auto)
  ultimately show ?case by simp
qed simp

lemma read_le_write_other:
  assumes "a + k \<le> b \<or> b + l \<le> a"
  shows "read_le k (write_le l m b v) a = read_le k m a"
  by (rule read_le_cong) (use assms in \<open>auto intro: write_le_other\<close>)

lemma read_le_memset_other:
  assumes "a + k \<le> b \<or> b + n \<le> a"
  shows "read_le k (memset_zero m b n) a = read_le k m a"
  by (rule read_le_cong) (use assms in \<open>auto simp: memset_zero_def\<close>)

section \<open>Read over write\<close>

lemma read_le_write_same: "read_le k (write_le k m a v) a = v mod 256 ^ k"
proof (induction k arbitrary: a v)
  case (Suc k)
  have "read_le k ((write_le k m (Suc a) (v div 256))(a := of_nat v)) (Suc a)
      = read_le k (write_le k m (Suc a) (v div 256)) (Suc a)"
    by (rule read_le_cong) simp
  then have "read_le (Suc k) (write_le (Suc k) m a v) a
      = v mod 256 + 256 * (v div 256 mod 256 ^ k)"
    using Suc.IH by (simp add: unsigned_of_nat take_bit_eq_mod)
  moreover have "v mod 256 ^ Suc k = v mod 256 + 256 * (v div 256 mod 256 ^ k)"
    by (simp add: mod_mult2_eq)
  ultimately show ?case by (simp only:)
qed simp

lemma read16_write16 [simp]: "read16 (write16 m a v) a = v"
  using unsigned_less [of v, where ?'a = nat] by (simp add: mem_ops read_le_write_same)

lemma read32_write32 [simp]: "read32 (write32 m a v) a = v"
  using unsigned_less [of v, where ?'a = nat] by (simp add: mem_ops read_le_write_same)

lemma read64_write64 [simp]: "read64 (write64 m a v) a = v"
  using unsigned_less [of v, where ?'a = nat] by (simp add: mem_ops read_le_write_same)

text \<open>
  Disjointness of two accesses, and the read-over-write laws for accesses that do not overlap. The
  side conditions are linear arithmetic over concrete field offsets.
\<close>

definition apart :: "nat \<Rightarrow> nat \<Rightarrow> nat \<Rightarrow> nat \<Rightarrow> bool" where
  "apart a k b l \<longleftrightarrow> a + k \<le> b \<or> b + l \<le> a"

lemma read_write_apart:
  "apart a 2 b 8 \<Longrightarrow> read16 (write64 m b v64) a = read16 m a"
  "apart a 4 b 8 \<Longrightarrow> read32 (write64 m b v64) a = read32 m a"
  "apart a 8 b 8 \<Longrightarrow> read64 (write64 m b v64) a = read64 m a"
  "apart a 1 b 8 \<Longrightarrow> read8 (write64 m b v64) a = read8 m a"
  "apart a 2 b 4 \<Longrightarrow> read16 (write32 m b v32) a = read16 m a"
  "apart a 4 b 4 \<Longrightarrow> read32 (write32 m b v32) a = read32 m a"
  "apart a 8 b 4 \<Longrightarrow> read64 (write32 m b v32) a = read64 m a"
  "apart a 1 b 4 \<Longrightarrow> read8 (write32 m b v32) a = read8 m a"
  "apart a 2 b 2 \<Longrightarrow> read16 (write16 m b v16) a = read16 m a"
  "apart a 4 b 2 \<Longrightarrow> read32 (write16 m b v16) a = read32 m a"
  "apart a 8 b 2 \<Longrightarrow> read64 (write16 m b v16) a = read64 m a"
  "apart a 1 b 2 \<Longrightarrow> read8 (write16 m b v16) a = read8 m a"
  "apart a 2 b 1 \<Longrightarrow> read16 (write8 m b v8) a = read16 m a"
  "apart a 4 b 1 \<Longrightarrow> read32 (write8 m b v8) a = read32 m a"
  "apart a 8 b 1 \<Longrightarrow> read64 (write8 m b v8) a = read64 m a"
  "apart a 1 b 1 \<Longrightarrow> read8 (write8 m b v8) a = read8 m a"
  unfolding mem_ops apart_def
  by (simp_all only: read_le_write_other)
    (auto intro!: arg_cong [where f = of_nat] read_le_cong write_le_other)

lemma read_memset_apart:
  "apart a 2 b n \<Longrightarrow> read16 (memset_zero m b n) a = read16 m a"
  "apart a 4 b n \<Longrightarrow> read32 (memset_zero m b n) a = read32 m a"
  "apart a 8 b n \<Longrightarrow> read64 (memset_zero m b n) a = read64 m a"
  "apart a 1 b n \<Longrightarrow> read8 (memset_zero m b n) a = read8 m a"
  unfolding mem_ops apart_def
  by (simp_all add: read_le_memset_other) (auto simp: memset_zero_def)

lemmas mem_apart = read_write_apart read_memset_apart

lemma write_other:
  "apart x 1 b 8 \<Longrightarrow> write64 m b v64 x = m x"
  "apart x 1 b 4 \<Longrightarrow> write32 m b v32 x = m x"
  "apart x 1 b 2 \<Longrightarrow> write16 m b v16 x = m x"
  "apart x 1 b 1 \<Longrightarrow> write8 m b v8 x = m x"
  "apart x 1 b n \<Longrightarrow> memset_zero m b n x = m x"
  unfolding mem_ops apart_def
  by (auto intro!: write_le_other simp: memset_zero_def)

lemma read8_write8 [simp]: "read8 (write8 m a v) a = v"
  by (simp add: mem_ops)

lemma read_cong:
  assumes "\<And>x. a \<le> x \<Longrightarrow> x < a + k \<Longrightarrow> m x = m' x"
  shows "k = 1 \<Longrightarrow> read8 m a = read8 m' a" and "k = 2 \<Longrightarrow> read16 m a = read16 m' a"
    and "k = 4 \<Longrightarrow> read32 m a = read32 m' a" and "k = 8 \<Longrightarrow> read64 m a = read64 m' a"
  unfolding mem_ops using assms read_le_cong [of a k m m'] by auto

end
