(* ===== verification/Sil_Store.thy ===== *)
theory Sil_Store
  imports Sil_Memory
begin

text \<open>
  The openSIL memory block: the global variables of \<^verbatim>\<open>xUSL/SilGbls.c\<close>, the private variables at the
  start of the block (\<^verbatim>\<open>SIL_BLOCK_VARIABLES\<close>), the information blocks that follow it, and the services
  of \<^verbatim>\<open>xUSL/CommonLib/SilServices.c\<close> and \<^verbatim>\<open>xSIM/xSIM.c\<close> that create and find blocks and keep the two
  tables of interface pointers. Structures are accessed at the byte offsets the C compiler gives
  them. The abstract view is a list of blocks; the lemmas relate the byte-level search and
  allocation to it.
\<close>

section \<open>Identifiers and layout\<close>

datatype SIL_DATA_BLOCK_ID =
    SilId_SocCommon | SilId_DfClass | SilId_CcxClass | SilId_FchClass | SilId_MultiFchClass
  | SilId_FchHwAcpiP | SilId_FchAb | SilId_FchSpi | SilId_FchHwAcpi | SilId_FchSata | SilId_FchEspi
  | SilId_FchUsb | SilId_MemClass | SilId_MultiFch | SilId_NorthBridgePcie | SilId_NbioClass
  | SilId_XmpClass | SilId_RcManager | SilId_SmuClass | SilId_MpioClass | SilId_SdciClass
  | SilId_CxlClass | SilId_RasClass | SilId_ListEnd

text \<open>The value of the enumerator. The services compare and index with this number.\<close>

fun id_val :: "SIL_DATA_BLOCK_ID \<Rightarrow> u32" where
  "id_val SilId_SocCommon = 0" | "id_val SilId_DfClass = 1" | "id_val SilId_CcxClass = 2"
| "id_val SilId_FchClass = 3" | "id_val SilId_MultiFchClass = 4" | "id_val SilId_FchHwAcpiP = 5"
| "id_val SilId_FchAb = 6" | "id_val SilId_FchSpi = 7" | "id_val SilId_FchHwAcpi = 8"
| "id_val SilId_FchSata = 9" | "id_val SilId_FchEspi = 10" | "id_val SilId_FchUsb = 11"
| "id_val SilId_MemClass = 12" | "id_val SilId_MultiFch = 13"
| "id_val SilId_NorthBridgePcie = 14" | "id_val SilId_NbioClass = 15"
| "id_val SilId_XmpClass = 16" | "id_val SilId_RcManager = 17" | "id_val SilId_SmuClass = 18"
| "id_val SilId_MpioClass = 19" | "id_val SilId_SdciClass = 20" | "id_val SilId_CxlClass = 21"
| "id_val SilId_RasClass = 22" | "id_val SilId_ListEnd = 23"

lemma id_val_inj: "id_val a = id_val b \<longleftrightarrow> a = b"
  by (cases a; cases b) simp_all

lemma id_val_le: "unat (id_val a) \<le> 23" and id_val_less: "unat (id_val a) < 23 \<longleftrightarrow> a \<noteq> SilId_ListEnd"
  by (cases a; simp)+

text \<open>
  Byte offsets and sizes of \<^verbatim>\<open>SIL_BLOCK_VARIABLES\<close>: three 32-bit counters, \<^verbatim>\<open>ACTIVE_SOC_DATA\<close> (2 bytes,
  padded), \<^verbatim>\<open>PLATFORM_DESC\<close> (8 bytes) and the two tables of 23 64-bit pointers.
\<close>

definition off_HostBlockSize :: nat where [sil_defs]: "off_HostBlockSize = 0"
definition off_FreeSpaceOffset :: nat where [sil_defs]: "off_FreeSpaceOffset = 4"
definition off_FreeSpaceLeft :: nat where [sil_defs]: "off_FreeSpaceLeft = 8"
definition off_Ip2IpApi :: nat where [sil_defs]: "off_Ip2IpApi = 24"
definition off_Common2RevXferTable :: nat where [sil_defs]: "off_Common2RevXferTable = 24 + 8 * 23"
definition sizeof_SIL_BLOCK_VARIABLES :: nat where
  [sil_defs]: "sizeof_SIL_BLOCK_VARIABLES = 24 + 8 * 23 + 8 * 23"

text \<open>Byte offsets of \<^verbatim>\<open>SIL_INFO_BLOCK_HEADER\<close>; the data follows the 12-byte header.\<close>

definition off_Id :: nat where [sil_defs]: "off_Id = 0"
definition off_Instance :: nat where [sil_defs]: "off_Instance = 4"
definition off_RevMajor :: nat where [sil_defs]: "off_RevMajor = 6"
definition off_RevMinor :: nat where [sil_defs]: "off_RevMinor = 7"
definition off_InfoBlockDataSize :: nat where [sil_defs]: "off_InfoBlockDataSize = 8"
definition sizeof_SIL_INFO_BLOCK_HEADER :: nat where [sil_defs]: "sizeof_SIL_INFO_BLOCK_HEADER = 12"

section \<open>State and services\<close>

text \<open>The globals of \<^verbatim>\<open>xUSL/SilGbls.c\<close> and \<^verbatim>\<open>xSIM.c\<close>, and the memory they point into.\<close>

record sil_state =
  mem :: memory
  mSilMemoryBase :: nat
  mHostDebugService :: nat
  mDeferredResetType :: SIL_STATUS

definition SilSetMemoryBase :: "nat \<Rightarrow> 'x sil_state_scheme \<Rightarrow> 'x sil_state_scheme" where
  "SilSetMemoryBase BaseAddress s = s\<lparr>mSilMemoryBase := BaseAddress\<rparr>"

definition SilGetMemoryBase :: "'x sil_state_scheme \<Rightarrow> nat" where
  "SilGetMemoryBase s = mSilMemoryBase s"

definition get_var32 :: "nat \<Rightarrow> 'x sil_state_scheme \<Rightarrow> u32" where
  "get_var32 off s = read32 (mem s) (mSilMemoryBase s + off)"

definition set_var32 :: "nat \<Rightarrow> u32 \<Rightarrow> 'x sil_state_scheme \<Rightarrow> 'x sil_state_scheme" where
  "set_var32 off v s = s\<lparr>mem := write32 (mem s) (mSilMemoryBase s + off) v\<rparr>"

abbreviation HostBlockSize :: "'x sil_state_scheme \<Rightarrow> u32" where
  "HostBlockSize s \<equiv> get_var32 off_HostBlockSize s"
abbreviation FreeSpaceOffset :: "'x sil_state_scheme \<Rightarrow> u32" where
  "FreeSpaceOffset s \<equiv> get_var32 off_FreeSpaceOffset s"
abbreviation FreeSpaceLeft :: "'x sil_state_scheme \<Rightarrow> u32" where
  "FreeSpaceLeft s \<equiv> get_var32 off_FreeSpaceLeft s"

text \<open>
  \<^verbatim>\<open>xUslFindStructure\<close>: the walk over the information blocks from the end of the private variables to
  the free space. The result is the address of the block's data, 0 for \<^verbatim>\<open>NULL\<close>; a walk that never
  ends (a block whose stored size is 0) is \<open>None\<close>.
\<close>

partial_function (option) find_loop :: "memory \<Rightarrow> u32 \<Rightarrow> u16 \<Rightarrow> nat \<Rightarrow> nat \<Rightarrow> nat option" where
  "find_loop m IpId InstanceNum FreeSpaceBase LclMemPtr =
     (if LclMemPtr < FreeSpaceBase then
        (if read32 m (LclMemPtr + off_Id) = IpId \<and> read16 m (LclMemPtr + off_Instance) = InstanceNum
         then Some (LclMemPtr + sizeof_SIL_INFO_BLOCK_HEADER)
         else find_loop m IpId InstanceNum FreeSpaceBase
                (LclMemPtr + unat (read32 m (LclMemPtr + off_InfoBlockDataSize))))
      else Some 0)"

definition xUslFindStructure :: "u32 \<Rightarrow> u16 \<Rightarrow> 'x sil_state_scheme \<Rightarrow> nat option" where
  "xUslFindStructure IpId InstanceNum s =
     find_loop (mem s) IpId InstanceNum
       (mSilMemoryBase s + unat (FreeSpaceOffset s))
       (mSilMemoryBase s + sizeof_SIL_BLOCK_VARIABLES)"

definition SilFindStructure :: "u32 \<Rightarrow> u16 \<Rightarrow> 'x sil_state_scheme \<Rightarrow> nat option" where
  "SilFindStructure structureID InstanceNum s = xUslFindStructure structureID InstanceNum s"

text \<open>\<^verbatim>\<open>RoundUp\<close> of \<^verbatim>\<open>xSIM.c\<close>, on \<^verbatim>\<open>size_t\<close>.\<close>

definition RoundUp :: "u64 \<Rightarrow> u64 \<Rightarrow> u64" where
  "RoundUp Data RoundTo = Data + RoundTo - (Data mod RoundTo)"

text \<open>
  \<^verbatim>\<open>SilCreateInfoBlock\<close>. \<open>dbg\<close> says whether assertions are compiled in; the result is the address of
  the new block's data, 0 for \<^verbatim>\<open>NULL\<close>.
\<close>

definition block_request :: "u64 \<Rightarrow> u64" where
  "block_request BlockSize = RoundUp (of_nat sizeof_SIL_INFO_BLOCK_HEADER + BlockSize) 4"

definition fill_header :: "memory \<Rightarrow> nat \<Rightarrow> u64 \<Rightarrow> u32 \<Rightarrow> u16 \<Rightarrow> u8 \<Rightarrow> u8 \<Rightarrow> memory" where
  "fill_header m Header RequestSize BlockTag Block_Instance Block_MajorRev Block_MinorRev =
     (let m = memset_zero m Header (unat RequestSize);
          m = write32 m (Header + off_Id) BlockTag;
          m = write32 m (Header + off_InfoBlockDataSize) (ucast RequestSize);
          m = write16 m (Header + off_Instance) Block_Instance;
          m = write8 m (Header + off_RevMajor) Block_MajorRev
      in write8 m (Header + off_RevMinor) Block_MinorRev)"

definition SilCreateInfoBlock ::
  "bool \<Rightarrow> u32 \<Rightarrow> u64 \<Rightarrow> u16 \<Rightarrow> u8 \<Rightarrow> u8 \<Rightarrow> 'x sil_state_scheme \<Rightarrow> (nat \<times> 'x sil_state_scheme) option"
  where
  "SilCreateInfoBlock dbg BlockTag BlockSize Block_Instance Block_MajorRev Block_MinorRev s =
     (if SilGetMemoryBase s = 0 then
        do { c_assert dbg False; Some (0, s) }
      else
        let RequestSize = block_request BlockSize;
            Header = SilGetMemoryBase s + unat (FreeSpaceOffset s)
        in if ucast (FreeSpaceLeft s) \<le> RequestSize then Some (0, s)
           else
             let s = set_var32 off_FreeSpaceOffset (FreeSpaceOffset s + ucast RequestSize) s;
                 s = set_var32 off_FreeSpaceLeft (FreeSpaceLeft s - ucast RequestSize) s
             in Some (Header + sizeof_SIL_INFO_BLOCK_HEADER,
                      s\<lparr>mem := fill_header (mem s) Header RequestSize BlockTag
                                 Block_Instance Block_MajorRev Block_MinorRev\<rparr>))"

text \<open>The two tables of interface pointers.\<close>

definition SilInitIp2IpApi ::
  "bool \<Rightarrow> u32 \<Rightarrow> u64 \<Rightarrow> 'x sil_state_scheme \<Rightarrow> (SIL_STATUS \<times> 'x sil_state_scheme) option" where
  "SilInitIp2IpApi dbg IpId IpApi s =
     do { c_assert dbg (IpId < id_val SilId_ListEnd);
          if id_val SilId_ListEnd \<le> IpId then Some (SilInvalidParameter, s)
          else Some (SilPass,
            s\<lparr>mem := write64 (mem s) (mSilMemoryBase s + off_Ip2IpApi + 8 * unat IpId) IpApi\<rparr>) }"

definition SilGetIp2IpApi ::
  "bool \<Rightarrow> u32 \<Rightarrow> 'x sil_state_scheme \<Rightarrow> (SIL_STATUS \<times> u64) option" where
  "SilGetIp2IpApi dbg IpId s =
     (let Api = read64 (mem s) (mSilMemoryBase s + off_Ip2IpApi + 8 * unat IpId)
      in if Api = 0 then do { c_assert dbg False; Some (SilNotFound, Api) }
         else Some (SilPass, Api))"

definition SilInitCommon2RevXferTable ::
  "bool \<Rightarrow> u32 \<Rightarrow> u64 \<Rightarrow> 'x sil_state_scheme \<Rightarrow> (SIL_STATUS \<times> 'x sil_state_scheme) option" where
  "SilInitCommon2RevXferTable dbg IpId XferTable s =
     do { c_assert dbg (IpId < id_val SilId_ListEnd);
          if id_val SilId_ListEnd \<le> IpId then Some (SilInvalidParameter, s)
          else Some (SilPass,
            s\<lparr>mem := write64 (mem s)
                 (mSilMemoryBase s + off_Common2RevXferTable + 8 * unat IpId) XferTable\<rparr>) }"

definition SilGetCommon2RevXferTable ::
  "bool \<Rightarrow> u32 \<Rightarrow> 'x sil_state_scheme \<Rightarrow> (SIL_STATUS \<times> u64) option" where
  "SilGetCommon2RevXferTable dbg IpId s =
     (let XferTable = read64 (mem s)
            (mSilMemoryBase s + off_Common2RevXferTable + 8 * unat IpId)
      in if XferTable = 0 then do { c_assert dbg False; Some (SilNotFound, XferTable) }
         else Some (SilPass, XferTable))"

definition SilDebugSetup ::
  "nat \<Rightarrow> 'x sil_state_scheme \<Rightarrow> SIL_STATUS \<times> 'x sil_state_scheme" where
  "SilDebugSetup HostDbgService s =
     (if mHostDebugService s \<noteq> 0 then (SilAborted, s)
      else if HostDbgService = 0 then (SilInvalidParameter, s)
      else (SilPass, s\<lparr>mHostDebugService := HostDbgService\<rparr>))"

section \<open>The abstract store: a list of blocks\<close>

record info_block =
  blk_Id :: u32
  blk_Instance :: u16
  blk_RevMajor :: u8
  blk_RevMinor :: u8
  blk_size :: nat

text \<open>\<open>chain m p bs q\<close>: the headers of \<open>bs\<close> lie in \<open>m\<close> one after another from \<open>p\<close> up to \<open>q\<close>.\<close>

definition header_at :: "memory \<Rightarrow> nat \<Rightarrow> info_block \<Rightarrow> bool" where
  "header_at m p b \<longleftrightarrow>
     read32 m (p + off_Id) = blk_Id b \<and> read16 m (p + off_Instance) = blk_Instance b
     \<and> read8 m (p + off_RevMajor) = blk_RevMajor b \<and> read8 m (p + off_RevMinor) = blk_RevMinor b
     \<and> unat (read32 m (p + off_InfoBlockDataSize)) = blk_size b"

fun chain :: "memory \<Rightarrow> nat \<Rightarrow> info_block list \<Rightarrow> nat \<Rightarrow> bool" where
  "chain m p [] q \<longleftrightarrow> p = q"
| "chain m p (b # bs) q \<longleftrightarrow>
     header_at m p b \<and> sizeof_SIL_INFO_BLOCK_HEADER \<le> blk_size b \<and> chain m (p + blk_size b) bs q"

text \<open>What a lookup promises: the data address of the first block with that identifier and instance.\<close>

fun spec_find :: "u32 \<Rightarrow> u16 \<Rightarrow> nat \<Rightarrow> info_block list \<Rightarrow> nat" where
  "spec_find i n p [] = 0"
| "spec_find i n p (b # bs) =
     (if blk_Id b = i \<and> blk_Instance b = n then p + sizeof_SIL_INFO_BLOCK_HEADER
      else spec_find i n (p + blk_size b) bs)"

definition blocks_size :: "info_block list \<Rightarrow> nat" where
  "blocks_size bs = sum_list (map blk_size bs)"

lemma blocks_size_simps [simp]:
  "blocks_size [] = 0" "blocks_size (b # bs) = blk_size b + blocks_size bs"
  "blocks_size (bs @ cs) = blocks_size bs + blocks_size cs"
  by (simp_all add: blocks_size_def)

lemma chain_end: "chain m p bs q \<Longrightarrow> q = p + blocks_size bs"
  by (induction bs arbitrary: p) (simp, metis add.assoc blocks_size_simps(2) chain.simps(2))

lemma chain_append:
  "chain m p (bs @ cs) q \<longleftrightarrow> chain m p bs (p + blocks_size bs) \<and> chain m (p + blocks_size bs) cs q"
  by (induction bs arbitrary: p) (auto simp: add.assoc)

lemma header_at_cong:
  assumes "\<And>x. p \<le> x \<Longrightarrow> x < p + sizeof_SIL_INFO_BLOCK_HEADER \<Longrightarrow> m x = m' x"
  shows "header_at m p b \<longleftrightarrow> header_at m' p b"
proof -
  have "read32 m (p + off_Id) = read32 m' (p + off_Id)"
    "read32 m (p + off_InfoBlockDataSize) = read32 m' (p + off_InfoBlockDataSize)"
    by (rule read_cong(3) [where k = 4]; use assms in \<open>simp add: sil_defs\<close>)+
  moreover have "read16 m (p + off_Instance) = read16 m' (p + off_Instance)"
    by (rule read_cong(2) [where k = 2]) (use assms in \<open>simp_all add: sil_defs\<close>)
  moreover have "read8 m (p + off_RevMajor) = read8 m' (p + off_RevMajor)"
    "read8 m (p + off_RevMinor) = read8 m' (p + off_RevMinor)"
    using assms by (simp_all add: read8_def sil_defs)
  ultimately show ?thesis by (simp add: header_at_def)
qed

lemma chain_cong:
  assumes "chain m p bs q" and "\<And>x. p \<le> x \<Longrightarrow> x < q \<Longrightarrow> m x = m' x"
  shows "chain m' p bs q"
  using assms
proof (induction bs arbitrary: p)
  case (Cons b bs)
  have q: "q = p + blk_size b + blocks_size bs" using chain_end [OF Cons.prems(1)] by simp
  have "header_at m p b \<longleftrightarrow> header_at m' p b"
    by (rule header_at_cong) (use Cons.prems q in auto)
  moreover have "chain m' (p + blk_size b) bs q"
    by (rule Cons.IH) (use Cons.prems in auto)
  ultimately show ?case using Cons.prems(1) by simp
qed simp

text \<open>The byte-level walk computes the abstract lookup, and so always ends on a well-formed chain.\<close>

lemma find_loop_chain:
  assumes "chain m p bs q"
  shows "find_loop m i n q p = Some (spec_find i n p bs)"
  using assms
proof (induction bs arbitrary: p)
  case Nil
  then show ?case by (subst find_loop.simps) simp
next
  case (Cons b bs)
  have "p < q" using chain_end [OF Cons.prems] Cons.prems by (simp add: sil_defs)
  moreover have "find_loop m i n q (p + blk_size b) = Some (spec_find i n (p + blk_size b) bs)"
    by (rule Cons.IH) (use Cons.prems in simp)
  ultimately show ?case
    using Cons.prems by (subst find_loop.simps) (simp add: header_at_def)
qed

lemma spec_find_append:
  "spec_find i n p (bs @ cs) =
     (if \<exists>b\<in>set bs. blk_Id b = i \<and> blk_Instance b = n then spec_find i n p bs
      else spec_find i n (p + blocks_size bs) cs)"
  by (induction bs arbitrary: p) (auto simp: add.assoc)

lemma spec_find_none_iff:
  "spec_find i n p bs = 0 \<longleftrightarrow> (\<forall>b\<in>set bs. \<not> (blk_Id b = i \<and> blk_Instance b = n))"
  by (induction bs arbitrary: p) (auto simp: sil_defs)

section \<open>Rounding\<close>

lemma unat_RoundUp:
  assumes "RoundTo \<noteq> 0" and "unat Data + unat RoundTo < 2 ^ 64"
  shows "unat (RoundUp Data RoundTo) = unat Data + unat RoundTo - unat Data mod unat RoundTo"
proof -
  have s: "unat (Data + RoundTo) = unat Data + unat RoundTo"
    by (rule unat_plus_small) (use assms in simp)
  have "0 < unat RoundTo" using assms(1) by (simp add: unat_gt_0)
  then have "unat (Data mod RoundTo) \<le> unat (Data + RoundTo)"
    unfolding s by (simp add: unat_mod_distrib trans_le_add2 less_imp_le)
  then show ?thesis
    unfolding RoundUp_def by (simp add: unat_minus_small s unat_mod_distrib)
qed

lemma RoundUp_bounds:
  assumes "RoundTo \<noteq> 0" and "unat Data + unat RoundTo < 2 ^ 64"
  shows "unat Data < unat (RoundUp Data RoundTo)"
    and "unat (RoundUp Data RoundTo) \<le> unat Data + unat RoundTo"
    and "unat RoundTo dvd unat (RoundUp Data RoundTo)"
proof -
  have r: "0 < unat RoundTo" using assms(1) by (simp add: unat_gt_0)
  then have "unat Data mod unat RoundTo < unat RoundTo" by simp
  then show "unat Data < unat (RoundUp Data RoundTo)"
    and "unat (RoundUp Data RoundTo) \<le> unat Data + unat RoundTo"
    by (simp_all add: unat_RoundUp [OF assms])
  have "unat (RoundUp Data RoundTo)
      = unat RoundTo + (unat Data - unat Data mod unat RoundTo)"
    by (simp add: unat_RoundUp [OF assms])
  then show "unat RoundTo dvd unat (RoundUp Data RoundTo)"
    by (simp only:) (intro dvd_add dvd_refl dvd_minus_mod)
qed

lemma block_request_bounds:
  assumes "unat BlockSize + 16 < 2 ^ 64"
  shows "12 + unat BlockSize < unat (block_request BlockSize)"
    and "unat (block_request BlockSize) \<le> 16 + unat BlockSize"
    and "4 dvd unat (block_request BlockSize)"
proof -
  have s: "unat (12 + BlockSize) = 12 + unat BlockSize"
    using unat_plus_small [of 12 BlockSize] assms by simp
  have p: "unat (12 + BlockSize) + unat (4 :: u64) < 2 ^ 64" using assms by (simp add: s)
  show "12 + unat BlockSize < unat (block_request BlockSize)"
    "unat (block_request BlockSize) \<le> 16 + unat BlockSize"
    "4 dvd unat (block_request BlockSize)"
    using RoundUp_bounds [OF _ p] by (simp_all add: block_request_def sizeof_SIL_INFO_BLOCK_HEADER_def s)
qed

section \<open>Allocation\<close>

text \<open>
  The invariant of the store: a base is set, the counters add up to the size the host gave, and the
  headers form a chain that ends where the free space starts.
\<close>

definition store_ok :: "info_block list \<Rightarrow> 'x sil_state_scheme \<Rightarrow> bool" where
  "store_ok bs s \<longleftrightarrow> mSilMemoryBase s \<noteq> 0
     \<and> unat (FreeSpaceOffset s) + unat (FreeSpaceLeft s) = unat (HostBlockSize s)
     \<and> chain (mem s) (mSilMemoryBase s + sizeof_SIL_BLOCK_VARIABLES) bs
         (mSilMemoryBase s + unat (FreeSpaceOffset s))"

lemma store_ok_offset:
  assumes "store_ok bs s"
  shows "unat (FreeSpaceOffset s) = sizeof_SIL_BLOCK_VARIABLES + blocks_size bs"
  using assms chain_end unfolding store_ok_def by fastforce

lemma xUslFindStructure_spec:
  assumes "store_ok bs s"
  shows "xUslFindStructure i n s
    = Some (spec_find i n (mSilMemoryBase s + sizeof_SIL_BLOCK_VARIABLES) bs)"
  using assms by (simp add: xUslFindStructure_def store_ok_def find_loop_chain)

definition new_block :: "u32 \<Rightarrow> u64 \<Rightarrow> u16 \<Rightarrow> u8 \<Rightarrow> u8 \<Rightarrow> info_block" where
  "new_block tag sz inst maj mnr = \<lparr>blk_Id = tag, blk_Instance = inst, blk_RevMajor = maj,
     blk_RevMinor = mnr, blk_size = unat (block_request sz)\<rparr>"

lemma fill_header_at:
  assumes "unat (ucast req :: u32) = n"
  shows "header_at (fill_header m h req tag inst maj mnr) h
    \<lparr>blk_Id = tag, blk_Instance = inst, blk_RevMajor = maj, blk_RevMinor = mnr, blk_size = n\<rparr>"
  using assms by (simp add: header_at_def fill_header_def Let_def sil_defs mem_apart apart_def)

lemma fill_header_other:
  assumes "x < h \<or> h + unat req \<le> x" and "12 \<le> unat req"
  shows "fill_header m h req tag inst maj mnr x = m x"
  using assms by (auto simp: fill_header_def Let_def sil_defs write_other apart_def)

lemma fill_header_data:
  assumes "h + 12 \<le> x" and "x < h + unat req"
  shows "fill_header m h req tag inst maj mnr x = 0"
  using assms by (simp add: fill_header_def Let_def sil_defs write_other apart_def memset_zero_def)

text \<open>Effect of a successful allocation, in one place: everything the callers rely on.\<close>

lemma SilCreateInfoBlock_success:
  assumes ok: "store_ok bs s" and szb: "unat sz + 16 < 2 ^ 64"
    and room: "unat (block_request sz) < unat (FreeSpaceLeft s)"
  obtains s' where
    "SilCreateInfoBlock dbg tag sz inst maj mnr s
       = Some (mSilMemoryBase s + unat (FreeSpaceOffset s) + 12, s')"
    and "store_ok (bs @ [new_block tag sz inst maj mnr]) s'"
    and "mSilMemoryBase s' = mSilMemoryBase s" and "HostBlockSize s' = HostBlockSize s"
    and "unat (FreeSpaceLeft s') = unat (FreeSpaceLeft s) - unat (block_request sz)"
    and "\<And>x. x < mSilMemoryBase s + 4 \<or> mSilMemoryBase s + 12 \<le> x
          \<and> x < mSilMemoryBase s + unat (FreeSpaceOffset s)
          \<or> mSilMemoryBase s + unat (FreeSpaceOffset s) + unat (block_request sz) \<le> x
        \<Longrightarrow> mem s' x = mem s x"
    and "\<And>x. mSilMemoryBase s + unat (FreeSpaceOffset s) + 12 \<le> x
          \<Longrightarrow> x < mSilMemoryBase s + unat (FreeSpaceOffset s) + unat (block_request sz)
          \<Longrightarrow> mem s' x = 0"
    and "sil_state.more s' = sil_state.more s" and "mDeferredResetType s' = mDeferredResetType s"
proof -
  define b where "b = mSilMemoryBase s"
  define off where "off = unat (FreeSpaceOffset s)"
  define req where "req = block_request sz"
  define s1 where "s1 = set_var32 off_FreeSpaceOffset (FreeSpaceOffset s + ucast req) s"
  define s2 where "s2 = set_var32 off_FreeSpaceLeft (FreeSpaceLeft s1 - ucast req) s1"
  define s' where "s' = s2\<lparr>mem := fill_header (mem s2) (b + off) req tag inst maj mnr\<rparr>"
  have b0: "b \<noteq> 0" using ok by (simp add: b_def store_ok_def)
  have req: "12 + unat sz < unat req" using block_request_bounds [OF szb] by (simp add: req_def)
  have left: "unat (FreeSpaceLeft s) < 2 ^ 32"
    using unsigned_less [of "FreeSpaceLeft s", where ?'a = nat] by simp
  have r32: "unat (ucast req :: u32) = unat req"
    using room left by (simp add: req_def unsigned_ucast_eq take_bit_nat_eq_self)
  have le: "\<not> ucast (FreeSpaceLeft s) \<le> req"
    using room left by (simp add: req_def word_le_nat_alt unsigned_ucast_eq take_bit_nat_eq_self)
  have off: "off = 392 + blocks_size bs" using store_ok_offset [OF ok] by (simp add: off_def sil_defs)
  have base: "mSilMemoryBase s1 = b" "mSilMemoryBase s2 = b" "mSilMemoryBase s' = b"
    by (simp_all add: s1_def s2_def s'_def set_var32_def b_def)
  have m12: "mem s2 x = mem s x" if "x < b + 4 \<or> b + 12 \<le> x" for x
    using that by (auto simp: s1_def s2_def set_var32_def b_def [symmetric] sil_defs write_other apart_def)
  have m2: "mem s' x = mem s x"
    if "x < b + 4 \<or> b + 12 \<le> x \<and> x < b + off \<or> b + off + unat req \<le> x" for x
  proof -
    have "x < b + off \<or> b + off + unat req \<le> x" using that off by auto
    then have "mem s' x = mem s2 x" using req by (simp add: s'_def fill_header_other)
    also have "\<dots> = mem s x" by (rule m12) (use that off in auto)
    finally show ?thesis .
  qed
  have f: "get_var32 o' s' = get_var32 o' s2" if "o' + 4 \<le> 392" for o'
  proof -
    have "read32 (mem s') (b + o') = read32 (mem s2) (b + o')"
      by (rule read_cong(3) [where k = 4]) (use that off req in \<open>auto simp: s'_def fill_header_other\<close>)
    then show ?thesis by (simp add: get_var32_def base)
  qed
  have vars: "FreeSpaceOffset s' = FreeSpaceOffset s + ucast req"
    "FreeSpaceLeft s' = FreeSpaceLeft s - ucast req" "HostBlockSize s' = HostBlockSize s"
    by (simp_all add: f sil_defs)
      (simp_all add: s2_def s1_def set_var32_def get_var32_def mem_apart apart_def sil_defs)
  have tot: "unat (FreeSpaceOffset s) + unat (FreeSpaceLeft s) = unat (HostBlockSize s)"
    using ok by (simp add: store_ok_def)
  have hb: "unat (HostBlockSize s) < 2 ^ 32"
    using unsigned_less [of "HostBlockSize s", where ?'a = nat] by simp
  have fo: "unat (FreeSpaceOffset s') = off + unat req"
    using tot hb room r32 by (simp add: vars off_def req_def unat_plus_small)
  have fl: "unat (FreeSpaceLeft s') = unat (FreeSpaceLeft s) - unat req"
    using room r32 by (simp add: vars req_def unat_minus_small)
  have hdr: "header_at (mem s') (b + off) (new_block tag sz inst maj mnr)"
    using fill_header_at [OF r32, of "mem s2" "b + off" tag inst maj mnr]
    by (simp add: s'_def new_block_def req_def)
  have "chain (mem s') (b + 392) bs (b + off)"
    using chain_cong [of "mem s" "b + 392" bs "b + off" "mem s'"] ok m2
    by (simp add: store_ok_def b_def off_def sil_defs)
  moreover have "b + off = b + 392 + blocks_size bs" by (simp add: off)
  moreover have "12 \<le> blk_size (new_block tag sz inst maj mnr)"
    "blk_size (new_block tag sz inst maj mnr) = unat req"
    using req by (simp_all add: new_block_def req_def)
  ultimately have "chain (mem s') (b + 392) (bs @ [new_block tag sz inst maj mnr]) (b + (off + unat req))"
    using hdr by (simp add: chain_append sil_defs add.assoc)
  then have ok': "store_ok (bs @ [new_block tag sz inst maj mnr]) s'"
    using tot room b0 by (simp add: store_ok_def base fo fl vars(3) off_def req_def
        sizeof_SIL_BLOCK_VARIABLES_def)
  have d: "mem s' x = 0" if "b + off + 12 \<le> x" "x < b + off + unat req" for x
    using that by (simp add: s'_def fill_header_data)
  have eq: "SilCreateInfoBlock dbg tag sz inst maj mnr s = Some (b + off + 12, s')"
    using b0 le by (simp add: SilCreateInfoBlock_def SilGetMemoryBase_def Let_def b_def off_def req_def
        s'_def s2_def s1_def sizeof_SIL_INFO_BLOCK_HEADER_def)
  have more: "sil_state.more s' = sil_state.more s" "mDeferredResetType s' = mDeferredResetType s"
    by (simp_all add: s'_def s2_def s1_def set_var32_def)
  show ?thesis
    by (rule that [of s']) (use eq ok' base vars fl m2 d more in \<open>simp_all add: b_def off_def req_def\<close>)
qed

lemma SilCreateInfoBlock_full:
  assumes "mSilMemoryBase s \<noteq> 0" and "unat (FreeSpaceLeft s) \<le> unat (block_request sz)"
  shows "SilCreateInfoBlock dbg tag sz inst maj mnr s = Some (0, s)"
proof -
  have "ucast (FreeSpaceLeft s) \<le> block_request sz"
    using assms(2) unsigned_less [of "FreeSpaceLeft s", where ?'a = nat]
    by (simp add: word_le_nat_alt unsigned_ucast_eq take_bit_nat_eq_self)
  then show ?thesis using assms(1) by (simp add: SilCreateInfoBlock_def SilGetMemoryBase_def Let_def)
qed

end
