(* ===== verification/Sil_Interfaces.thy ===== *)
theory Sil_Interfaces
  imports Sil_Store
begin

text \<open>
  What the rest of openSIL relies on when it uses the memory block: a keyed table of interface
  pointers and a store of tagged blocks. Each contract is a locale whose laws are discharged for the
  byte-level services; what follows for a whole sequence of registrations or allocations is proved
  once, from the laws.
\<close>

section \<open>Keyed tables of pointers\<close>

primrec register_all ::
  "(u32 \<Rightarrow> u64 \<Rightarrow> 's \<Rightarrow> (SIL_STATUS \<times> 's) option) \<Rightarrow> (u32 \<times> u64) list \<Rightarrow> 's \<Rightarrow> 's option" where
  "register_all init_entry [] s = Some s"
| "register_all init_entry (e # es) s =
     do { (st, s') \<leftarrow> init_entry (fst e) (snd e) s; register_all init_entry es s' }"

locale api_table =
  fixes init_entry :: "bool \<Rightarrow> u32 \<Rightarrow> u64 \<Rightarrow> 's \<Rightarrow> (SIL_STATUS \<times> 's) option"
    and get_entry :: "bool \<Rightarrow> u32 \<Rightarrow> 's \<Rightarrow> (SIL_STATUS \<times> u64) option"
  assumes init_in: "unat i < 23 \<Longrightarrow> \<exists>s'. init_entry dbg i v s = Some (SilPass, s')"
    and init_out: "23 \<le> unat i \<Longrightarrow>
          init_entry dbg i v s = (if dbg then None else Some (SilInvalidParameter, s))"
    and get_same: "init_entry dbg i v s = Some (SilPass, s') \<Longrightarrow>
          get_entry dbg' i s' = (if v \<noteq> 0 then Some (SilPass, v)
            else if dbg' then None else Some (SilNotFound, 0))"
    and get_other: "init_entry dbg i v s = Some (SilPass, s') \<Longrightarrow> j \<noteq> i \<Longrightarrow> unat j < 23 \<Longrightarrow>
          get_entry dbg' j s' = get_entry dbg' j s"
begin

lemma get_after_register_frame:
  assumes "register_all (init_entry dbg) es s = Some s'"
    and "\<forall>e\<in>set es. unat (fst e) < 23" and "j \<notin> fst ` set es" and "unat j < 23"
  shows "get_entry dbg' j s' = get_entry dbg' j s"
  using assms
proof (induction es arbitrary: s)
  case (Cons e es)
  obtain t where t: "init_entry dbg (fst e) (snd e) s = Some (SilPass, t)"
    using init_in [of "fst e" dbg "snd e" s] Cons.prems(2) by auto
  with Cons.prems have "get_entry dbg' j s' = get_entry dbg' j t" by (intro Cons.IH) auto
  also have "\<dots> = get_entry dbg' j s" by (rule get_other [OF t]) (use Cons.prems in auto)
  finally show ?case .
qed simp

lemma register_all_get:
  assumes "\<forall>e\<in>set es. unat (fst e) < 23 \<and> snd e \<noteq> 0" and "distinct (map fst es)"
  shows "\<exists>s'. register_all (init_entry dbg) es s = Some s'
    \<and> (\<forall>e\<in>set es. get_entry dbg' (fst e) s' = Some (SilPass, snd e))"
  using assms
proof (induction es arbitrary: s)
  case (Cons e es)
  obtain t where t: "init_entry dbg (fst e) (snd e) s = Some (SilPass, t)"
    using init_in [of "fst e" dbg "snd e" s] Cons.prems(1) by auto
  obtain s' where s': "register_all (init_entry dbg) es t = Some s'"
      "\<forall>e\<in>set es. get_entry dbg' (fst e) s' = Some (SilPass, snd e)"
    using Cons.IH [of t] Cons.prems by auto
  have "get_entry dbg' (fst e) s' = get_entry dbg' (fst e) t"
    by (rule get_after_register_frame [OF s'(1)]) (use Cons.prems in auto)
  also have "\<dots> = Some (SilPass, snd e)"
    using get_same [OF t] Cons.prems(1) by auto
  finally show ?case using t s' by auto
qed simp

end

lemma table_write_read:
  fixes i j :: u32
  shows "read64 (write64 m (a + 8 * unat i) v) (a + 8 * unat j)
    = (if i = j then v else read64 m (a + 8 * unat j))"
proof (cases "i = j")
  case False
  then have "unat i \<noteq> unat j" by (metis word_unat_eq_iff)
  then have "apart (a + 8 * unat j) 8 (a + 8 * unat i) 8" by (auto simp: apart_def)
  then show ?thesis using False by (simp add: read_write_apart)
qed simp

lemma id_list_end_iff:
  fixes i :: u32
  shows "23 \<le> i \<longleftrightarrow> 23 \<le> unat i" and "i < 23 \<longleftrightarrow> unat i < 23"
  by (simp_all add: word_le_nat_alt word_less_nat_alt)

lemmas table_defs = SilInitIp2IpApi_def SilGetIp2IpApi_def SilInitCommon2RevXferTable_def
  SilGetCommon2RevXferTable_def Let_def

interpretation ip2ip: api_table SilInitIp2IpApi SilGetIp2IpApi
  by unfold_locales
    (auto simp: table_defs id_list_end_iff table_write_read split: if_splits)

interpretation xfer: api_table SilInitCommon2RevXferTable SilGetCommon2RevXferTable
  by unfold_locales
    (auto simp: table_defs id_list_end_iff table_write_read split: if_splits)

text \<open>The two tables lie next to each other and do not disturb each other or the block chain.\<close>

lemma ip2ip_keeps_xfer:
  assumes "SilInitIp2IpApi dbg i v s = Some (SilPass, s')"
  shows "SilGetCommon2RevXferTable dbg' j s' = SilGetCommon2RevXferTable dbg' j s"
proof -
  have "unat i < 23" using assms by (auto simp: table_defs id_list_end_iff split: if_splits)
  then have "apart (mSilMemoryBase s + off_Common2RevXferTable + 8 * unat j) 8
      (mSilMemoryBase s + off_Ip2IpApi + 8 * unat i) 8"
    by (auto simp: apart_def sil_defs)
  then show ?thesis using assms
    by (auto simp: table_defs id_list_end_iff read_write_apart split: if_splits)
qed

lemma store_ok_mem_upd:
  assumes "store_ok bs s"
    and "\<And>x. x < mSilMemoryBase s + 12 \<or> mSilMemoryBase s + sizeof_SIL_BLOCK_VARIABLES \<le> x
      \<Longrightarrow> m x = mem s x"
  shows "store_ok bs (s\<lparr>mem := m\<rparr>)"
    and "xUslFindStructure i n (s\<lparr>mem := m\<rparr>) = xUslFindStructure i n s"
proof -
  have v: "get_var32 off (s\<lparr>mem := m\<rparr>) = get_var32 off s" if "off \<le> 8" for off
  proof -
    have "read32 m (mSilMemoryBase s + off) = read32 (mem s) (mSilMemoryBase s + off)"
      by (rule read_cong(3) [where k = 4]) (use assms(2) that in auto)
    then show ?thesis by (simp add: get_var32_def)
  qed
  have "chain m (mSilMemoryBase s + sizeof_SIL_BLOCK_VARIABLES) bs
      (mSilMemoryBase s + unat (FreeSpaceOffset s))"
    by (rule chain_cong [of "mem s"]) (use assms in \<open>auto simp: store_ok_def\<close>)
  then show ok: "store_ok bs (s\<lparr>mem := m\<rparr>)"
    using assms(1) v [of off_FreeSpaceOffset] v [of off_FreeSpaceLeft] v [of off_HostBlockSize]
    unfolding store_ok_def by (simp add: off_FreeSpaceOffset_def off_FreeSpaceLeft_def off_HostBlockSize_def)
  show "xUslFindStructure i n (s\<lparr>mem := m\<rparr>) = xUslFindStructure i n s"
    using xUslFindStructure_spec [OF ok] xUslFindStructure_spec [OF assms(1)] by simp
qed

lemma SilInitIp2IpApi_store_ok:
  assumes "store_ok bs s" and "SilInitIp2IpApi dbg i v s = Some (st, s')"
  shows "store_ok bs s'"
proof (cases "unat i < 23")
  case True
  then have "s' = s\<lparr>mem := write64 (mem s) (mSilMemoryBase s + off_Ip2IpApi + 8 * unat i) v\<rparr>"
    using assms(2) by (auto simp: table_defs id_list_end_iff split: if_splits)
  moreover have "store_ok bs (s\<lparr>mem := write64 (mem s) (mSilMemoryBase s + off_Ip2IpApi + 8 * unat i) v\<rparr>)"
    by (rule store_ok_mem_upd(1) [OF assms(1)])
      (use True in \<open>auto intro!: write_other simp: apart_def sil_defs\<close>)
  ultimately show ?thesis by simp
next
  case False
  then show ?thesis using assms by (auto simp: table_defs id_list_end_iff split: if_splits)
qed

section \<open>A store of tagged blocks\<close>

type_synonym block_key = "u32 \<times> u64 \<times> u16"

primrec create_all ::
  "(u32 \<Rightarrow> u64 \<Rightarrow> u16 \<Rightarrow> 's \<Rightarrow> (nat \<times> 's) option) \<Rightarrow> block_key list \<Rightarrow> 's \<Rightarrow> (nat list \<times> 's) option"
  where
  "create_all create [] s = Some ([], s)"
| "create_all create (k # ks) s =
     do { (p, s') \<leftarrow> create (fst k) (fst (snd k)) (snd (snd k)) s;
          (ps, s'') \<leftarrow> create_all create ks s';
          Some (p # ps, s'') }"

locale block_store =
  fixes create :: "u32 \<Rightarrow> u64 \<Rightarrow> u16 \<Rightarrow> 's \<Rightarrow> (nat \<times> 's) option"
    and find :: "u32 \<Rightarrow> u16 \<Rightarrow> 's \<Rightarrow> nat option"
    and ok :: "'s \<Rightarrow> bool" and room :: "'s \<Rightarrow> nat" and fits :: "u64 \<Rightarrow> bool" and cost :: "u64 \<Rightarrow> nat"
  assumes find_total: "ok s \<Longrightarrow> \<exists>p. find i n s = Some p"
    and create_full: "ok s \<Longrightarrow> room s \<le> cost sz \<Longrightarrow> create i sz n s = Some (0, s)"
    and create_room: "ok s \<Longrightarrow> fits sz \<Longrightarrow> cost sz < room s \<Longrightarrow>
      \<exists>p s'. create i sz n s = Some (p, s') \<and> p \<noteq> 0 \<and> ok s' \<and> room s' = room s - cost sz
        \<and> (\<forall>i' n'. find i' n' s' =
             (if i' = i \<and> n' = n \<and> find i' n' s = Some 0 then Some p else find i' n' s))"
begin

lemma create_all_found:
  assumes "ok s" and "\<forall>k\<in>set ks. fits (fst (snd k))"
    and "sum_list (map (\<lambda>k. cost (fst (snd k))) ks) < room s"
    and "distinct (map (\<lambda>k. (fst k, snd (snd k))) ks)"
    and "\<forall>k\<in>set ks. find (fst k) (snd (snd k)) s = Some 0"
  shows "\<exists>ps s'. create_all create ks s = Some (ps, s') \<and> length ps = length ks \<and> ok s'
    \<and> room s' = room s - sum_list (map (\<lambda>k. cost (fst (snd k))) ks)
    \<and> (\<forall>j<length ks. ps ! j \<noteq> 0 \<and> find (fst (ks ! j)) (snd (snd (ks ! j))) s' = Some (ps ! j))
    \<and> (\<forall>i n. (i, n) \<notin> (\<lambda>k. (fst k, snd (snd k))) ` set ks \<longrightarrow> find i n s' = find i n s)"
  using assms
proof (induction ks arbitrary: s)
  case (Cons k ks)
  obtain p t where t: "create (fst k) (fst (snd k)) (snd (snd k)) s = Some (p, t)" "p \<noteq> 0" "ok t"
      "room t = room s - cost (fst (snd k))"
      "\<And>i' n'. find i' n' t = (if i' = fst k \<and> n' = snd (snd k) \<and> find i' n' s = Some 0
          then Some p else find i' n' s)"
    using create_room [OF Cons.prems(1), of "fst (snd k)" "fst k" "snd (snd k)"] Cons.prems(2,3)
    by auto
  have dis: "(fst k, snd (snd k)) \<notin> (\<lambda>k. (fst k, snd (snd k))) ` set ks"
    using Cons.prems(4) by auto
  have pre: "\<forall>k'\<in>set ks. find (fst k') (snd (snd k')) t = Some 0"
    using Cons.prems(5) dis by (auto simp: t(5) rev_image_eqI)
  have less: "sum_list (map (\<lambda>k. cost (fst (snd k))) ks) < room t" using Cons.prems(3) t(4) by simp
  obtain ps s' where s': "create_all create ks t = Some (ps, s')" "length ps = length ks" "ok s'"
      "room s' = room t - sum_list (map (\<lambda>k. cost (fst (snd k))) ks)"
      "\<forall>j<length ks. ps ! j \<noteq> 0 \<and> find (fst (ks ! j)) (snd (snd (ks ! j))) s' = Some (ps ! j)"
      "\<forall>i n. (i, n) \<notin> (\<lambda>k. (fst k, snd (snd k))) ` set ks \<longrightarrow> find i n s' = find i n t"
    using Cons.IH [OF t(3) _ less _ pre] Cons.prems(2,4) by auto
  have k: "find (fst k) (snd (snd k)) s' = Some p"
    using s'(6) dis t(5) Cons.prems(5) by auto
  have nth: "\<forall>j<length (k # ks). (p # ps) ! j \<noteq> 0
      \<and> find (fst ((k # ks) ! j)) (snd (snd ((k # ks) ! j))) s' = Some ((p # ps) ! j)"
    using k t(2) s'(5) by (auto simp: nth_Cons split: nat.split)
  have frame: "find i n s' = find i n s"
    if "(i, n) \<notin> (\<lambda>k. (fst k, snd (snd k))) ` set (k # ks)" for i n
    using that s'(6) t(5) by auto
  have "create_all create (k # ks) s = Some (p # ps, s')" using t(1) s'(1) by simp
  moreover have "room s' = room s - sum_list (map (\<lambda>k. cost (fst (snd k))) (k # ks))"
    using s'(4) t(4) by simp
  ultimately show ?case
    using s'(2,3) nth frame by (intro exI [of _ "p # ps"] exI [of _ s']) auto
qed simp

end

definition some_store_ok :: "'x sil_state_scheme \<Rightarrow> bool" where
  "some_store_ok s \<longleftrightarrow> (\<exists>bs. store_ok bs s)"

lemma create_then_find:
  assumes "store_ok bs s" and "unat sz + 16 < 2 ^ 64"
    and "unat (block_request sz) < unat (FreeSpaceLeft s)"
  shows "\<exists>p s'. SilCreateInfoBlock dbg i sz n maj mnr s = Some (p, s') \<and> p \<noteq> 0
    \<and> store_ok (bs @ [new_block i sz n maj mnr]) s'
    \<and> unat (FreeSpaceLeft s') = unat (FreeSpaceLeft s) - unat (block_request sz)
    \<and> (\<forall>i' n'. xUslFindStructure i' n' s' =
         (if i' = i \<and> n' = n \<and> xUslFindStructure i' n' s = Some 0 then Some p
          else xUslFindStructure i' n' s))"
proof -
  obtain s' where s': "SilCreateInfoBlock dbg i sz n maj mnr s
        = Some (mSilMemoryBase s + unat (FreeSpaceOffset s) + 12, s')"
      "store_ok (bs @ [new_block i sz n maj mnr]) s'" "mSilMemoryBase s' = mSilMemoryBase s"
      "unat (FreeSpaceLeft s') = unat (FreeSpaceLeft s) - unat (block_request sz)"
    by (rule SilCreateInfoBlock_success [OF assms, where dbg = dbg and tag = i and inst = n
          and maj = maj and mnr = mnr]) blast
  have "xUslFindStructure i' n' s' =
      (if i' = i \<and> n' = n \<and> xUslFindStructure i' n' s = Some 0
       then Some (mSilMemoryBase s + unat (FreeSpaceOffset s) + 12)
       else xUslFindStructure i' n' s)" for i' n'
    unfolding xUslFindStructure_spec [OF s'(2)] xUslFindStructure_spec [OF assms(1)]
    using spec_find_none_iff [of i' n' "mSilMemoryBase s + sizeof_SIL_BLOCK_VARIABLES" bs]
      store_ok_offset [OF assms(1)]
    by (auto simp: spec_find_append s'(3) new_block_def sizeof_SIL_INFO_BLOCK_HEADER_def)
  then show ?thesis using s' by (intro exI conjI) (assumption | simp | blast)+
qed

interpretation blocks: block_store
  "\<lambda>i sz n. SilCreateInfoBlock dbg i sz n maj mnr" xUslFindStructure some_store_ok
  "\<lambda>s. unat (FreeSpaceLeft s)" "\<lambda>sz. unat sz + 16 < 2 ^ 64" "\<lambda>sz. unat (block_request sz)"
  for dbg maj mnr
proof (unfold_locales, goal_cases)
  case (1 s i n)
  then show ?case by (auto simp: some_store_ok_def dest: xUslFindStructure_spec)
next
  case (2 s sz i n)
  then show ?case by (intro SilCreateInfoBlock_full) (auto simp: some_store_ok_def store_ok_def)
next
  case (3 s sz i n)
  then obtain bs where "store_ok bs s" by (auto simp: some_store_ok_def)
  from create_then_find [OF this 3(2,3), of dbg i n maj mnr] show ?case
    unfolding some_store_ok_def by blast
qed

end
