(* ===== verification/Sil_XSim.thy ===== *)
theory Sil_XSim
  imports Sil_Interfaces
begin

text \<open>
  The host API of \<^verbatim>\<open>xSIM/xSIM.c\<close>: the IP record tables of \<^verbatim>\<open>xSIM/SoC/F19M10\<close>, the memory query, the
  memory assignment and the initialisation loops of the three time points. An IP's entry points
  (\<^verbatim>\<open>SetInput\<close>, \<^verbatim>\<open>Initialize\<close>, \<^verbatim>\<open>ApiInit\<close>) are function pointers of its record; here they are functions on
  the state, \<open>None\<close> for a null pointer. A result \<open>None\<close> of a loop is a failed assertion inside an
  entry point, a read past a table without an end marker, or a loop that never ends.
\<close>

section \<open>IP records and the tables\<close>

type_synonym 's entry_point = "'s \<Rightarrow> (SIL_STATUS \<times> 's) option"

record 's IP_RECORD =
  IpID :: SIL_DATA_BLOCK_ID
  BlkRequestSize :: u32
  SetInput :: "'s entry_point option"
  Initialize :: "'s entry_point option"
  ApiInit :: "'s entry_point option"

text \<open>
  The F19M10 tables name about forty functions and structure sizes of the IP directories. They are a
  parameter here, indexed by the IP the slot belongs to; which slots are null and the order of the
  records are the table's own content.
\<close>

record 's ip_handlers =
  h_size :: "SIL_DATA_BLOCK_ID \<Rightarrow> u32"
  h_SetInput :: "SIL_DATA_BLOCK_ID \<Rightarrow> 's entry_point"
  h_Initialize :: "SIL_DATA_BLOCK_ID \<Rightarrow> 's entry_point"
  h_ApiInit :: "SIL_DATA_BLOCK_ID \<Rightarrow> 's entry_point"

definition ip_record ::
  "'s ip_handlers \<Rightarrow> SIL_DATA_BLOCK_ID \<Rightarrow> bool \<Rightarrow> bool \<Rightarrow> bool \<Rightarrow> bool \<Rightarrow> 's IP_RECORD" where
  "ip_record h i sz si ini api =
     \<lparr>IpID = i, BlkRequestSize = (if sz then h_size h i else 0),
      SetInput = (if si then Some (h_SetInput h i) else None),
      Initialize = (if ini then Some (h_Initialize h i) else None),
      ApiInit = (if api then Some (h_ApiInit h i) else None)\<rparr>"

definition SocIpTblF19M10Tp1 :: "bool \<Rightarrow> 's ip_handlers \<Rightarrow> 's IP_RECORD list" where
  "SocIpTblF19M10Tp1 have_xmp h =
     [ip_record h SilId_RcManager True True True True,
      ip_record h SilId_DfClass True True True True,
      ip_record h SilId_SmuClass False False False True,
      ip_record h SilId_NbioClass True True True True,
      ip_record h SilId_NorthBridgePcie True False False False,
      ip_record h SilId_CcxClass True True True True,
      ip_record h SilId_FchClass True True False True,
      ip_record h SilId_FchHwAcpiP True True True True,
      ip_record h SilId_FchAb True True True False,
      ip_record h SilId_FchHwAcpi False False True False,
      ip_record h SilId_FchUsb True True True True,
      ip_record h SilId_FchSpi True True True False,
      ip_record h SilId_FchSata True True True True,
      ip_record h SilId_MultiFchClass False False True True,
      ip_record h SilId_RasClass False False False True,
      ip_record h SilId_MpioClass True True True True,
      ip_record h SilId_SdciClass True True True True,
      ip_record h SilId_CxlClass True True True True]
     @ (if have_xmp then [ip_record h SilId_XmpClass True True True True] else [])
     @ [ip_record h SilId_ListEnd False False False False]"

definition SocIpTblF19M10Tp2 :: "'s ip_handlers \<Rightarrow> 's IP_RECORD list" where
  "SocIpTblF19M10Tp2 h =
     map (\<lambda>i. ip_record h i False False False True)
       [SilId_DfClass, SilId_SmuClass, SilId_NbioClass, SilId_CcxClass, SilId_FchClass,
        SilId_FchHwAcpiP, SilId_FchUsb, SilId_FchSata, SilId_MultiFchClass, SilId_RasClass]
     @ [ip_record h SilId_ListEnd False False False False]"

definition SocIpTblF19M10Tp3 :: "'s ip_handlers \<Rightarrow> 's IP_RECORD list" where
  "SocIpTblF19M10Tp3 h =
     map (\<lambda>i. ip_record h i False False False True)
       [SilId_SmuClass, SilId_CcxClass, SilId_FchClass, SilId_FchHwAcpiP, SilId_FchUsb,
        SilId_FchSata, SilId_MultiFchClass, SilId_RasClass]
     @ [ip_record h SilId_ListEnd False False False False]"

text \<open>The table selection: the build has one SoC, and a static array is never null.\<close>

definition GetActiveSocIpListTp1 :: "bool \<Rightarrow> 's ip_handlers \<Rightarrow> 's IP_RECORD list" where
  "GetActiveSocIpListTp1 have_xmp h = SocIpTblF19M10Tp1 have_xmp h"
definition GetActiveSocIpListTp2 :: "'s ip_handlers \<Rightarrow> 's IP_RECORD list" where
  "GetActiveSocIpListTp2 h = SocIpTblF19M10Tp2 h"
definition GetActiveSocIpListTp3 :: "'s ip_handlers \<Rightarrow> 's IP_RECORD list" where
  "GetActiveSocIpListTp3 h = SocIpTblF19M10Tp3 h"

section \<open>Memory query and assignment\<close>

fun query_loop :: "u64 \<Rightarrow> 's IP_RECORD list \<Rightarrow> u64 option" where
  "query_loop RequestTotal [] = None"
| "query_loop RequestTotal (r # rs) =
     (if IpID r = SilId_ListEnd then Some RequestTotal
      else query_loop
        (if 0 < BlkRequestSize r
         then RequestTotal
              + RoundUp (of_nat sizeof_SIL_INFO_BLOCK_HEADER + ucast (BlkRequestSize r)) 4
         else RequestTotal) rs)"

definition xSimQueryMemoryRequirements :: "'s IP_RECORD list \<Rightarrow> u64 option" where
  "xSimQueryMemoryRequirements IpList =
     do { RequestTotal \<leftarrow> query_loop (of_nat sizeof_SIL_BLOCK_VARIABLES) IpList;
          Some (RoundUp RequestTotal (2 * 1024)) }"

fun xSimInitializeIpApis :: "'s IP_RECORD list \<Rightarrow> 's entry_point" where
  "xSimInitializeIpApis [] s = None"
| "xSimInitializeIpApis (r # rs) s =
     (if IpID r = SilId_ListEnd then Some (SilPass, s)
      else case ApiInit r of
             None \<Rightarrow> xSimInitializeIpApis rs s
           | Some f \<Rightarrow>
               do { (LclStatus, s) \<leftarrow> f s;
                    if LclStatus \<noteq> SilPass then Some (LclStatus, s)
                    else xSimInitializeIpApis rs s })"

fun assign_loop :: "'x sil_state_scheme IP_RECORD list \<Rightarrow> 'x sil_state_scheme entry_point" where
  "assign_loop [] s = None"
| "assign_loop (r # rs) s =
     (if IpID r = SilId_ListEnd then Some (SilPass, s)
      else if BlkRequestSize r = 0 then assign_loop rs s
      else if FreeSpaceLeft s < BlkRequestSize r then Some (SilOutOfResources, s)
      else case SetInput r of
             None \<Rightarrow> assign_loop rs s
           | Some f \<Rightarrow>
               do { (LclStatus, s) \<leftarrow> f s;
                    if LclStatus \<noteq> SilPass then Some (LclStatus, s)
                    else assign_loop rs s })"

definition fill_vars :: "u64 \<Rightarrow> 'x sil_state_scheme \<Rightarrow> 'x sil_state_scheme" where
  "fill_vars MemorySize s =
     (let s = set_var32 off_HostBlockSize (ucast MemorySize) s;
          s = set_var32 off_FreeSpaceOffset (of_nat sizeof_SIL_BLOCK_VARIABLES) s
      in set_var32 off_FreeSpaceLeft (ucast (MemorySize - of_nat sizeof_SIL_BLOCK_VARIABLES)) s)"

definition xSimAssignMemoryTp1 ::
  "'x sil_state_scheme IP_RECORD list \<Rightarrow> nat \<Rightarrow> u64 \<Rightarrow> 'x sil_state_scheme entry_point" where
  "xSimAssignMemoryTp1 IpRecordHead BaseAddress MemorySize s =
     (let s = fill_vars MemorySize (SilSetMemoryBase BaseAddress s)
      in do { (LclStatus, s) \<leftarrow> xSimInitializeIpApis IpRecordHead s;
              if LclStatus \<noteq> SilPass then Some (LclStatus, s)
              else assign_loop IpRecordHead s })"

definition xSimAssignMemoryTp2 ::
  "'x sil_state_scheme IP_RECORD list \<Rightarrow> nat \<Rightarrow> u64 \<Rightarrow> 'x sil_state_scheme entry_point" where
  "xSimAssignMemoryTp2 IpList BaseAddress MemorySize s =
     do { (LclStatus, s) \<leftarrow> xSimInitializeIpApis IpList (SilSetMemoryBase BaseAddress s);
          if LclStatus \<noteq> SilPass then Some (LclStatus, s) else Some (SilPass, s) }"

definition xSimAssignMemoryTp3 ::
  "'x sil_state_scheme IP_RECORD list \<Rightarrow> nat \<Rightarrow> u64 \<Rightarrow> 'x sil_state_scheme entry_point" where
  "xSimAssignMemoryTp3 IpList BaseAddress MemorySize s =
     do { (LclStatus, s) \<leftarrow> xSimInitializeIpApis IpList (SilSetMemoryBase BaseAddress s);
          if LclStatus \<noteq> SilPass then Some (LclStatus, s) else Some (SilPass, s) }"

section \<open>Initialisation\<close>

definition SetDeferredResetType ::
  "SIL_STATUS \<Rightarrow> 'x sil_state_scheme \<Rightarrow> 'x sil_state_scheme" where
  "SetDeferredResetType ResetType s =
     (if mDeferredResetType s \<noteq> SilResetRequestColdDef then
        if ResetType = SilResetRequestWarmDef \<or> ResetType = SilResetRequestColdDef
        then s\<lparr>mDeferredResetType := ResetType\<rparr>
        else s\<lparr>mDeferredResetType := SilResetRequestColdDef\<rparr>
      else s)"

definition is_deferred :: "SIL_STATUS \<Rightarrow> bool" where
  "is_deferred st \<longleftrightarrow> st = SilResetRequestColdDef \<or> st = SilResetRequestWarmDef"

text \<open>
  The \<^verbatim>\<open>while\<close> loop of \<^verbatim>\<open>xSimInitializeIps\<close>. After a deferred reset request the code executes \<^verbatim>\<open>continue\<close>
  before the record pointer is advanced, so the same record is visited again.
\<close>

partial_function (option) init_loop ::
  "'x sil_state_scheme IP_RECORD list \<Rightarrow> SIL_STATUS \<Rightarrow> 'x sil_state_scheme
     \<Rightarrow> (SIL_STATUS \<times> 'x sil_state_scheme) option" where
  "init_loop rs LclStatus s =
     (if rs = [] then None
      else if IpID (hd rs) = SilId_ListEnd then Some (LclStatus, s)
      else do {
        (LclStatus, s) \<leftarrow> (case Initialize (hd rs) of None \<Rightarrow> Some (SilPass, s) | Some f \<Rightarrow> f s);
        if LclStatus \<noteq> SilPass then
          if is_deferred LclStatus
          then init_loop rs LclStatus (SetDeferredResetType LclStatus s)
          else Some (LclStatus, s)
        else init_loop (tl rs) LclStatus s })"

definition xSimInitializeIps :: "'x sil_state_scheme IP_RECORD list \<Rightarrow> 'x sil_state_scheme entry_point"
  where
  "xSimInitializeIps IpList s =
     do { (LclStatus, s) \<leftarrow> init_loop IpList SilPass s;
          Some (if mDeferredResetType s \<noteq> SilPass then mDeferredResetType s else LclStatus, s) }"

definition InitializeSiTp1 :: "bool \<Rightarrow> 'x sil_state_scheme ip_handlers \<Rightarrow> 'x sil_state_scheme entry_point"
  where "InitializeSiTp1 have_xmp h s = xSimInitializeIps (GetActiveSocIpListTp1 have_xmp h) s"
definition InitializeSiTp2 :: "'x sil_state_scheme ip_handlers \<Rightarrow> 'x sil_state_scheme entry_point"
  where "InitializeSiTp2 h s = xSimInitializeIps (GetActiveSocIpListTp2 h) s"
definition InitializeSiTp3 :: "'x sil_state_scheme ip_handlers \<Rightarrow> 'x sil_state_scheme entry_point"
  where "InitializeSiTp3 h s = xSimInitializeIps (GetActiveSocIpListTp3 h) s"

section \<open>The records a scan visits\<close>

definition active_ips :: "'s IP_RECORD list \<Rightarrow> 's IP_RECORD list" where
  "active_ips rs = takeWhile (\<lambda>r. IpID r \<noteq> SilId_ListEnd) rs"

definition terminated :: "'s IP_RECORD list \<Rightarrow> bool" where
  "terminated rs \<longleftrightarrow> (\<exists>r\<in>set rs. IpID r = SilId_ListEnd)"

lemma active_ips_simps [simp]:
  "active_ips [] = []"
  "active_ips (r # rs) = (if IpID r = SilId_ListEnd then [] else r # active_ips rs)"
  by (simp_all add: active_ips_def)

lemma terminated_simps [simp]:
  "\<not> terminated []" "terminated (r # rs) \<longleftrightarrow> IpID r = SilId_ListEnd \<or> terminated rs"
  by (simp_all add: terminated_def)

lemma ip_record_sel [simp]:
  "IpID (ip_record h i a b c d) = i"
  "BlkRequestSize (ip_record h i a b c d) = (if a then h_size h i else 0)"
  "SetInput (ip_record h i a b c d) = (if b then Some (h_SetInput h i) else None)"
  "Initialize (ip_record h i a b c d) = (if c then Some (h_Initialize h i) else None)"
  "ApiInit (ip_record h i a b c d) = (if d then Some (h_ApiInit h i) else None)"
  by (simp_all add: ip_record_def)

text \<open>The memory a table asks for, as a plain sum.\<close>

definition request_of :: "'s IP_RECORD \<Rightarrow> nat" where
  "request_of r = (if BlkRequestSize r = 0 then 0 else unat (block_request (ucast (BlkRequestSize r))))"

definition total_request :: "'s IP_RECORD list \<Rightarrow> nat" where
  "total_request rs = sum_list (map request_of (active_ips rs))"

lemma total_request_simps [simp]:
  "total_request [] = 0"
  "total_request (r # rs) = (if IpID r = SilId_ListEnd then 0 else request_of r + total_request rs)"
  by (simp_all add: total_request_def)

lemma query_loop_total:
  assumes "terminated rs" and "unat t + total_request rs < 2 ^ 64"
  shows "\<exists>q. query_loop t rs = Some q \<and> unat q = unat t + total_request rs"
  using assms
proof (induction rs arbitrary: t)
  case (Cons r rs)
  show ?case
  proof (cases "IpID r = SilId_ListEnd")
    case False
    define t' where "t' = (if 0 < BlkRequestSize r then t + block_request (ucast (BlkRequestSize r)) else t)"
    have "unat t' = unat t + request_of r"
      using Cons.prems(2) False by (cases "BlkRequestSize r = 0")
        (auto simp: t'_def request_of_def unat_plus_small word_gt_0)
    moreover have "query_loop t (r # rs) = query_loop t' rs"
      using False by (simp add: t'_def block_request_def)
    ultimately show ?thesis using Cons.IH [of t'] Cons.prems False by (simp add: add.assoc)
  qed simp
qed simp

section \<open>Memory assignment\<close>

text \<open>
  What an IP's \<^verbatim>\<open>SetInput\<close> and \<^verbatim>\<open>ApiInit\<close> are expected to do: create one block of the requested size with
  the IP's identifier, respectively leave the blocks alone.
\<close>

definition set_input_contract :: "'x sil_state_scheme IP_RECORD \<Rightarrow> bool" where
  "set_input_contract r \<longleftrightarrow> (\<forall>f. SetInput r = Some f \<longrightarrow>
     (\<forall>bs s. store_ok bs s \<longrightarrow> request_of r < unat (FreeSpaceLeft s) \<longrightarrow>
       (\<exists>s' b. f s = Some (SilPass, s') \<and> store_ok (bs @ [b]) s'
          \<and> blk_Id b = id_val (IpID r) \<and> blk_Instance b = 0
          \<and> unat (FreeSpaceLeft s') = unat (FreeSpaceLeft s) - request_of r)))"

definition api_init_contract :: "'x sil_state_scheme IP_RECORD \<Rightarrow> bool" where
  "api_init_contract r \<longleftrightarrow> (\<forall>f. ApiInit r = Some f \<longrightarrow>
     (\<forall>bs s. store_ok bs s \<longrightarrow>
       (\<exists>s'. f s = Some (SilPass, s') \<and> store_ok bs s' \<and> FreeSpaceLeft s' = FreeSpaceLeft s)))"

definition has_input :: "'s IP_RECORD \<Rightarrow> bool" where
  "has_input r \<longleftrightarrow> BlkRequestSize r \<noteq> 0 \<and> SetInput r \<noteq> None"

lemma request_of_gt:
  assumes "BlkRequestSize r \<noteq> 0"
  shows "unat (BlkRequestSize r) < request_of r"
proof -
  have u: "unat (ucast (BlkRequestSize r) :: u64) = unat (BlkRequestSize r)"
    using unsigned_less [of "BlkRequestSize r", where ?'a = nat]
    by (simp add: unsigned_ucast_eq take_bit_nat_eq_self)
  then have "unat (ucast (BlkRequestSize r) :: u64) + 16 < 2 ^ 64"
    using unsigned_less [of "BlkRequestSize r", where ?'a = nat] by simp
  from block_request_bounds(1) [OF this] show ?thesis
    using assms by (simp add: request_of_def u)
qed

lemma xSimInitializeIpApis_pass:
  assumes "terminated rs" and "\<forall>r\<in>set (active_ips rs). api_init_contract r" and "store_ok bs s"
  shows "\<exists>s'. xSimInitializeIpApis rs s = Some (SilPass, s') \<and> store_ok bs s'
    \<and> FreeSpaceLeft s' = FreeSpaceLeft s"
  using assms
proof (induction rs s rule: xSimInitializeIpApis.induct)
  case (2 r rs s)
  show ?case
  proof (cases "IpID r = SilId_ListEnd \<or> ApiInit r = None")
    case True
    then show ?thesis using 2 by auto
  next
    case False
    then obtain f where f: "ApiInit r = Some f" by auto
    then obtain s1 where s1: "f s = Some (SilPass, s1)" "store_ok bs s1"
        "FreeSpaceLeft s1 = FreeSpaceLeft s"
      using 2(4,5) False unfolding api_init_contract_def by simp blast
    have "\<exists>s'. xSimInitializeIpApis rs s1 = Some (SilPass, s') \<and> store_ok bs s'
        \<and> FreeSpaceLeft s' = FreeSpaceLeft s1"
      by (rule 2(2) [OF _ f s1(1)]) (use 2(3,4) False s1 in auto)
    then show ?thesis using False f s1 by simp
  qed
qed simp

lemma assign_loop_pass:
  assumes "terminated rs" and "\<forall>r\<in>set (active_ips rs). set_input_contract r" and "store_ok bs s"
    and "total_request rs < unat (FreeSpaceLeft s)"
  shows "\<exists>s' cs. assign_loop rs s = Some (SilPass, s') \<and> store_ok (bs @ cs) s'
    \<and> map (\<lambda>b. (blk_Id b, blk_Instance b)) cs
        = map (\<lambda>r. (id_val (IpID r), 0)) (filter has_input (active_ips rs))"
  using assms
proof (induction rs arbitrary: bs s)
  case (Cons r rs)
  show ?case
  proof (cases "IpID r = SilId_ListEnd")
    case True
    then show ?thesis using Cons.prems(3) by (intro exI [of _ s] exI [of _ "[]"]) simp
  next
    case False
    note act = this
    show ?thesis
    proof (cases "has_input r")
      case True
      then obtain f where f: "SetInput r = Some f" and sz: "BlkRequestSize r \<noteq> 0"
        by (auto simp: has_input_def)
      have room: "request_of r < unat (FreeSpaceLeft s)" using Cons.prems(4) act by simp
      then have chk: "\<not> FreeSpaceLeft s < BlkRequestSize r"
        using request_of_gt [OF sz] by (simp add: word_less_nat_alt)
      obtain s1 b where s1: "f s = Some (SilPass, s1)" "store_ok (bs @ [b]) s1"
          "blk_Id b = id_val (IpID r)" "blk_Instance b = 0"
          "unat (FreeSpaceLeft s1) = unat (FreeSpaceLeft s) - request_of r"
        using Cons.prems(2,3) act f room unfolding set_input_contract_def by simp blast
      have "total_request rs < unat (FreeSpaceLeft s1)" using Cons.prems(4) act s1(5) by simp
      then obtain s' cs where "assign_loop rs s1 = Some (SilPass, s')" "store_ok ((bs @ [b]) @ cs) s'"
          "map (\<lambda>b. (blk_Id b, blk_Instance b)) cs
            = map (\<lambda>r. (id_val (IpID r), 0)) (filter has_input (active_ips rs))"
        using Cons.IH [OF _ _ s1(2)] Cons.prems(1,2) act by auto
      then show ?thesis using act sz chk f s1 True
        by (intro exI [of _ s'] exI [of _ "b # cs"]) simp
    next
      case False
      have "unat (FreeSpaceLeft s) > request_of r" using Cons.prems(4) act by simp
      then have "BlkRequestSize r \<noteq> 0 \<Longrightarrow> \<not> FreeSpaceLeft s < BlkRequestSize r"
        using request_of_gt [of r] by (simp add: word_less_nat_alt)
      then have "assign_loop (r # rs) s = assign_loop rs s"
        using act False by (auto simp: has_input_def)
      then show ?thesis using Cons.IH [of bs s] Cons.prems act False by simp
    qed
  qed
qed simp

lemma fill_vars_ok:
  assumes "mSilMemoryBase s \<noteq> 0" and "392 \<le> unat MemorySize" and "unat MemorySize < 2 ^ 32"
  shows "store_ok [] (fill_vars MemorySize s)"
    and "unat (FreeSpaceLeft (fill_vars MemorySize s)) = unat MemorySize - 392"
proof -
  have sub: "unat (MemorySize - 392) = unat MemorySize - 392"
    using assms(2) by (subst unat_minus_small) simp_all
  have u: "unat (ucast MemorySize :: u32) = unat MemorySize"
    "unat (ucast (MemorySize - 392) :: u32) = unat MemorySize - 392"
    using assms(3) sub by (simp_all add: unsigned_ucast_eq take_bit_nat_eq_self)
  show left: "unat (FreeSpaceLeft (fill_vars MemorySize s)) = unat MemorySize - 392"
    by (simp add: fill_vars_def Let_def set_var32_def get_var32_def sil_defs mem_apart apart_def u)
  show "store_ok [] (fill_vars MemorySize s)"
    using assms left
    by (simp add: store_ok_def fill_vars_def Let_def set_var32_def get_var32_def sil_defs mem_apart
        apart_def u)
qed

lemma query_covers:
  assumes "terminated rs" and "392 + total_request rs + 2048 < 2 ^ 64"
  shows "\<exists>q. xSimQueryMemoryRequirements rs = Some q \<and> 392 + total_request rs < unat q
    \<and> unat q \<le> 392 + total_request rs + 2048 \<and> 2048 dvd unat q"
proof -
  obtain t where t: "query_loop 392 rs = Some t" "unat t = 392 + total_request rs"
    using query_loop_total [OF assms(1), of 392] assms(2) by auto
  have b: "unat t + unat (2048 :: u64) < 2 ^ 64" using t(2) assms(2) by simp
  show ?thesis
    using RoundUp_bounds [OF _ b] t
    by (simp add: xSimQueryMemoryRequirements_def sizeof_SIL_BLOCK_VARIABLES_def)
qed

section \<open>The initialisation loop\<close>

text \<open>The runs of the loop as a big-step relation.\<close>

inductive ips_run ::
  "'x sil_state_scheme IP_RECORD list \<Rightarrow> SIL_STATUS \<Rightarrow> 'x sil_state_scheme
     \<Rightarrow> SIL_STATUS \<Rightarrow> 'x sil_state_scheme \<Rightarrow> bool" where
  run_end: "IpID r = SilId_ListEnd \<Longrightarrow> ips_run (r # rs) st s st s"
| run_null: "IpID r \<noteq> SilId_ListEnd \<Longrightarrow> Initialize r = None \<Longrightarrow> ips_run rs SilPass s st' s'
    \<Longrightarrow> ips_run (r # rs) st s st' s'"
| run_pass: "IpID r \<noteq> SilId_ListEnd \<Longrightarrow> Initialize r = Some f \<Longrightarrow> f s = Some (SilPass, t)
    \<Longrightarrow> ips_run rs SilPass t st' s' \<Longrightarrow> ips_run (r # rs) st s st' s'"
| run_defer: "IpID r \<noteq> SilId_ListEnd \<Longrightarrow> Initialize r = Some f \<Longrightarrow> f s = Some (d, t)
    \<Longrightarrow> is_deferred d \<Longrightarrow> ips_run (r # rs) d (SetDeferredResetType d t) st' s'
    \<Longrightarrow> ips_run (r # rs) st s st' s'"
| run_fail: "IpID r \<noteq> SilId_ListEnd \<Longrightarrow> Initialize r = Some f \<Longrightarrow> f s = Some (e, t)
    \<Longrightarrow> e \<noteq> SilPass \<Longrightarrow> \<not> is_deferred e \<Longrightarrow> ips_run (r # rs) st s e t"

inductive_cases ips_run_ConsE: "ips_run (r # rs) st s st' s'"

lemma is_deferred_simps [simp]:
  "\<not> is_deferred SilPass" "is_deferred SilResetRequestColdDef" "is_deferred SilResetRequestWarmDef"
  by (simp_all add: is_deferred_def)

lemma ips_run_init_loop: "ips_run rs st s st' s' \<Longrightarrow> init_loop rs st s = Some (st', s')"
proof (induction rule: ips_run.induct)
  case (run_defer r f s d t rs st' s' st)
  then have "d \<noteq> SilPass" by auto
  with run_defer show ?case by (subst init_loop.simps) simp
qed (subst init_loop.simps, simp)+

lemma init_loop_ips_run: "init_loop rs st s = Some (st', s') \<Longrightarrow> ips_run rs st s st' s'"
proof -
  have "ips_run rs st s (fst y) (snd y)" if "init_loop rs st s = Some y" for y
  proof (rule init_loop.raw_induct [OF _ that, where P = "\<lambda>rs st s y. ips_run rs st s (fst y) (snd y)"], goal_cases)
    case (1 loop rs st s y)
    from 1(2) obtain r rs' where rs: "rs = r # rs'" by (cases rs) (auto split: if_splits)
    show ?case
    proof (cases "IpID r = SilId_ListEnd \<or> Initialize r = None")
      case True
      with 1 rs show ?thesis by (auto intro: ips_run.intros split: if_splits)
    next
      case False
      then obtain f d t where f: "Initialize r = Some f" "f s = Some (d, t)"
        using 1(2) rs by (auto split: bind_splits)
      with False 1 rs show ?thesis
        by (cases "d = SilPass"; cases "is_deferred d") (auto intro: ips_run.intros)
    qed
  qed
  then show "init_loop rs st s = Some (st', s') \<Longrightarrow> ips_run rs st s st' s'" by fastforce
qed

lemma init_loop_iff: "init_loop rs st s = Some (st', s') \<longleftrightarrow> ips_run rs st s st' s'"
  using init_loop_ips_run ips_run_init_loop by metis

text \<open>A run without deferred requests is a plain run in table order that stops at the first error.\<close>

fun run_spec :: "'s IP_RECORD list \<Rightarrow> 's entry_point" where
  "run_spec [] s = Some (SilPass, s)"
| "run_spec (r # rs) s =
     (case Initialize r of None \<Rightarrow> run_spec rs s
      | Some f \<Rightarrow> do { (st, s') \<leftarrow> f s; if st = SilPass then run_spec rs s' else Some (st, s') })"

definition never_defers :: "'s IP_RECORD \<Rightarrow> bool" where
  "never_defers r \<longleftrightarrow> (\<forall>f s st s'. Initialize r = Some f \<longrightarrow> f s = Some (st, s') \<longrightarrow> \<not> is_deferred st)"

lemma init_loop_run_spec:
  assumes "terminated rs" and "\<forall>r\<in>set (active_ips rs). never_defers r"
  shows "init_loop rs SilPass s = run_spec (active_ips rs) s"
  using assms
proof (induction rs arbitrary: s)
  case (Cons r rs)
  show ?case
  proof (cases "IpID r = SilId_ListEnd \<or> Initialize r = None")
    case True
    then show ?thesis using Cons by (subst init_loop.simps) auto
  next
    case False
    then obtain f where f: "Initialize r = Some f" by auto
    show ?thesis
    proof (cases "f s")
      case None
      then show ?thesis using False f by (subst init_loop.simps) simp
    next
      case (Some x)
      obtain st t where x: "x = (st, t)" by force
      have "\<not> is_deferred st"
        using Cons.prems(2) False f Some x by (auto simp: never_defers_def)
      then show ?thesis using False f Some x Cons by (subst init_loop.simps) auto
    qed
  qed
qed simp

text \<open>A cold reset request is never downgraded.\<close>

definition keeps_reset :: "'x sil_state_scheme IP_RECORD \<Rightarrow> bool" where
  "keeps_reset r \<longleftrightarrow> (\<forall>f s st s'. Initialize r = Some f \<longrightarrow> f s = Some (st, s')
     \<longrightarrow> mDeferredResetType s' = mDeferredResetType s)"

definition reset_level :: "SIL_STATUS \<Rightarrow> nat" where
  "reset_level st = (if st = SilPass then 0 else if st = SilResetRequestWarmDef then 1 else 2)"

lemma SetDeferredResetType_level:
  assumes "is_deferred d"
  shows "reset_level (mDeferredResetType s) \<le> 2"
    and "mDeferredResetType s \<in> {SilPass, SilResetRequestWarmDef, SilResetRequestColdDef} \<Longrightarrow>
      reset_level (mDeferredResetType (SetDeferredResetType d s))
        = max (reset_level (mDeferredResetType s)) (reset_level d)"
    and "mDeferredResetType (SetDeferredResetType d s)
      \<in> {SilResetRequestWarmDef, SilResetRequestColdDef}"
  using assms by (auto simp: SetDeferredResetType_def reset_level_def is_deferred_def)

lemma ips_run_reset_mono:
  assumes "ips_run rs st s st' s'" and "\<forall>r\<in>set (active_ips rs). keeps_reset r"
    and "mDeferredResetType s \<in> {SilPass, SilResetRequestWarmDef, SilResetRequestColdDef}"
  shows "mDeferredResetType s' \<in> {SilPass, SilResetRequestWarmDef, SilResetRequestColdDef}
    \<and> reset_level (mDeferredResetType s) \<le> reset_level (mDeferredResetType s')"
  using assms
proof (induction rule: ips_run.induct)
  case (run_defer r f s d t rs st' s' st)
  have t: "mDeferredResetType t = mDeferredResetType s"
    using run_defer by (auto simp: keeps_reset_def)
  define u where "u = SetDeferredResetType d t"
  have u: "reset_level (mDeferredResetType s) \<le> reset_level (mDeferredResetType u)"
    "mDeferredResetType u \<in> {SilPass, SilResetRequestWarmDef, SilResetRequestColdDef}"
    using SetDeferredResetType_level [OF run_defer(4)] run_defer.prems(2) t unfolding u_def
    by (metis max.cobounded1, blast)
  then have "mDeferredResetType s' \<in> {SilPass, SilResetRequestWarmDef, SilResetRequestColdDef}
      \<and> reset_level (mDeferredResetType u) \<le> reset_level (mDeferredResetType s')"
    using run_defer.IH run_defer.prems(1) unfolding u_def by blast
  then show ?case using u(1) by auto
qed (auto simp: keeps_reset_def)

text \<open>An IP whose request persists is called again for ever.\<close>

lemma init_loop_persistent_defer:
  assumes "IpID r \<noteq> SilId_ListEnd" and "Initialize r = Some f"
    and "\<forall>s. \<exists>d t. f s = Some (d, t) \<and> is_deferred d"
  shows "init_loop (r # rs) st s = None"
proof -
  have "ips_run rs0 st s st' s' \<Longrightarrow> rs0 = r # rs \<Longrightarrow> False" for rs0 st s st' s'
  proof (induction rule: ips_run.induct)
    case (run_pass r' f' s t rs' st' s' st)
    then show ?case using assms by (metis Pair_inject is_deferred_simps(1) list.inject option.inject)
  next
    case (run_fail r' f' s e t rs' st)
    then show ?case using assms by (metis Pair_inject list.inject option.inject)
  qed (use assms in auto)
  then have "\<not> ips_run (r # rs) st s st' s'" for st' s' by blast
  then show ?thesis by (cases "init_loop (r # rs) st s") (auto simp: init_loop_iff)
qed

end
