(* ===== verification/Sil_Inputs.thy ===== *)
theory Sil_Inputs
  imports Sil_XSim
begin

text \<open>
  The \<^verbatim>\<open>SetInput\<close> entry points of the IPs: each creates the IP's input block and copies the defaults
  into it. The byte image of the defaults structure is a parameter (its length is the structure's
  \<^verbatim>\<open>sizeof\<close>). All of them meet the contract the memory assignment relies on.
\<close>

section \<open>Model\<close>

definition memcpy :: "memory \<Rightarrow> nat \<Rightarrow> u8 list \<Rightarrow> memory" where
  "memcpy m p src = (\<lambda>x. if p \<le> x \<and> x < p + length src then src ! (x - p) else m x)"

text \<open>
  The common body: \<^verbatim>\<open>SilCreateInfoBlock\<close> with instance 0, revision 0.1; \<^verbatim>\<open>SilAborted\<close> when it returns
  \<^verbatim>\<open>NULL\<close>; otherwise the defaults are copied.
\<close>

definition set_input_block ::
  "bool \<Rightarrow> SIL_DATA_BLOCK_ID \<Rightarrow> u8 list \<Rightarrow> 'x sil_state_scheme entry_point" where
  "set_input_block dbg i Dflts s =
     do { (Input, s) \<leftarrow> SilCreateInfoBlock dbg (id_val i) (of_nat (length Dflts)) 0 0 1 s;
          if Input = 0 then Some (SilAborted, s)
          else Some (SilPass, s\<lparr>mem := memcpy (mem s) Input Dflts\<rparr>) }"

definition DfSetInputBlk :: "bool \<Rightarrow> u8 list \<Rightarrow> 'x sil_state_scheme entry_point" where
  "DfSetInputBlk dbg mDfClassDflts = set_input_block dbg SilId_DfClass mDfClassDflts"

definition FchClassSetInputBlk :: "bool \<Rightarrow> u8 list \<Rightarrow> 'x sil_state_scheme entry_point" where
  "FchClassSetInputBlk dbg FchDataBlockParams = set_input_block dbg SilId_FchClass FchDataBlockParams"

definition FchHwAcpiPreliminarySetInputBlk :: "bool \<Rightarrow> u8 list \<Rightarrow> 'x sil_state_scheme entry_point" where
  "FchHwAcpiPreliminarySetInputBlk dbg mFchHwAcpiDefaults =
     set_input_block dbg SilId_FchHwAcpiP mFchHwAcpiDefaults"

definition FchUsbSetInputBlk :: "bool \<Rightarrow> u8 list \<Rightarrow> 'x sil_state_scheme entry_point" where
  "FchUsbSetInputBlk dbg mFchUsbDefaults = set_input_block dbg SilId_FchUsb mFchUsbDefaults"

definition FchSpiSetInputBlk :: "bool \<Rightarrow> u8 list \<Rightarrow> 'x sil_state_scheme entry_point" where
  "FchSpiSetInputBlk dbg mFchSpiDefaults = set_input_block dbg SilId_FchSpi mFchSpiDefaults"

definition FchAbSetInputBlk :: "bool \<Rightarrow> u8 list \<Rightarrow> 'x sil_state_scheme entry_point" where
  "FchAbSetInputBlk dbg mFchAbDefaults = set_input_block dbg SilId_FchAb mFchAbDefaults"

text \<open>The SATA block holds one structure per controller.\<close>

definition FchSataSetInputBlk :: "bool \<Rightarrow> u8 list list \<Rightarrow> 'x sil_state_scheme entry_point" where
  "FchSataSetInputBlk dbg mFchSataDefaults =
     set_input_block dbg SilId_FchSata (concat mFchSataDefaults)"

definition MpioClassSetInputBlock :: "bool \<Rightarrow> u8 list \<Rightarrow> 'x sil_state_scheme entry_point" where
  "MpioClassSetInputBlock dbg mMpioClassDflts = set_input_block dbg SilId_MpioClass mMpioClassDflts"

definition RasClassSetInputBlk :: "bool \<Rightarrow> u8 list \<Rightarrow> 'x sil_state_scheme entry_point" where
  "RasClassSetInputBlk dbg gRasConfigData = set_input_block dbg SilId_RasClass gRasConfigData"

definition CxlClassSetInputBlock :: "bool \<Rightarrow> u8 list \<Rightarrow> 'x sil_state_scheme entry_point" where
  "CxlClassSetInputBlock dbg CxlClassDflts = set_input_block dbg SilId_CxlClass CxlClassDflts"

definition SdciClassSetInputBlock :: "bool \<Rightarrow> u8 list \<Rightarrow> 'x sil_state_scheme entry_point" where
  "SdciClassSetInputBlock dbg SdciClassDflts = set_input_block dbg SilId_SdciClass SdciClassDflts"

text \<open>
  The resource manager's entry point ignores the result of the allocation: a failed allocation is
  reported as success.
\<close>

definition DfXRcMgrSetInputBlk :: "bool \<Rightarrow> u64 \<Rightarrow> 'x sil_state_scheme entry_point" where
  "DfXRcMgrSetInputBlk dbg sizeof_DFX_RCMGR_DATA_BLK s =
     do { (Input, s) \<leftarrow> SilCreateInfoBlock dbg (id_val SilId_RcManager) sizeof_DFX_RCMGR_DATA_BLK 0 0 1 s;
          Some (SilPass, s) }"

section \<open>The contract\<close>

lemma memcpy_other: "x < p \<or> p + length src \<le> x \<Longrightarrow> memcpy m p src x = m x"
  by (auto simp: memcpy_def)

lemma memcpy_read: "i < length src \<Longrightarrow> memcpy m p src (p + i) = src ! i"
  by (simp add: memcpy_def)

lemma chain_last_data:
  assumes "chain m p (bs @ [b]) q" and "\<And>x. x < p + blocks_size bs + 12 \<or> q \<le> x \<Longrightarrow> m' x = m x"
  shows "chain m' p (bs @ [b]) q"
proof -
  have c: "chain m p bs (p + blocks_size bs)" "header_at m (p + blocks_size bs) b"
    "12 \<le> blk_size b" "p + blocks_size bs + blk_size b = q"
    using assms(1) by (auto simp: chain_append sil_defs)
  have "chain m' p bs (p + blocks_size bs)"
    by (rule chain_cong [OF c(1)]) (use assms(2) in auto)
  moreover have "header_at m' (p + blocks_size bs) b \<longleftrightarrow> header_at m (p + blocks_size bs) b"
    by (rule header_at_cong) (use assms(2) in \<open>auto simp: sil_defs\<close>)
  ultimately show ?thesis using c by (simp add: chain_append sil_defs)
qed

text \<open>Writes into the data of the newest block keep the invariant and the counters.\<close>

lemma store_ok_data_write:
  assumes "store_ok (bs @ [b]) s"
    and "\<And>x. x < mSilMemoryBase s + sizeof_SIL_BLOCK_VARIABLES + blocks_size bs + 12
          \<or> mSilMemoryBase s + sizeof_SIL_BLOCK_VARIABLES + blocks_size (bs @ [b]) \<le> x \<Longrightarrow> m x = mem s x"
  shows "store_ok (bs @ [b]) (s\<lparr>mem := m\<rparr>)"
    and "get_var32 off (s\<lparr>mem := m\<rparr>) = get_var32 off s \<or> sizeof_SIL_BLOCK_VARIABLES < off + 4"
proof -
  have v: "get_var32 off (s\<lparr>mem := m\<rparr>) = get_var32 off s" if "off + 4 \<le> sizeof_SIL_BLOCK_VARIABLES" for off
  proof -
    have "read32 m (mSilMemoryBase s + off) = read32 (mem s) (mSilMemoryBase s + off)"
      by (rule read_cong(3) [where k = 4]) (use assms(2) that in auto)
    then show ?thesis by (simp add: get_var32_def)
  qed
  then show "get_var32 off (s\<lparr>mem := m\<rparr>) = get_var32 off s \<or> sizeof_SIL_BLOCK_VARIABLES < off + 4"
    by force
  have "chain m (mSilMemoryBase s + sizeof_SIL_BLOCK_VARIABLES) (bs @ [b])
      (mSilMemoryBase s + unat (FreeSpaceOffset s))"
    by (rule chain_last_data [of "mem s"])
      (use assms store_ok_offset [OF assms(1)] in \<open>auto simp: store_ok_def\<close>)
  then show "store_ok (bs @ [b]) (s\<lparr>mem := m\<rparr>)"
    using assms(1) v [of off_FreeSpaceOffset] v [of off_FreeSpaceLeft] v [of off_HostBlockSize]
    unfolding store_ok_def
    by (simp add: off_FreeSpaceOffset_def off_FreeSpaceLeft_def off_HostBlockSize_def
        sizeof_SIL_BLOCK_VARIABLES_def)
qed

lemma set_input_block_effect:
  assumes "store_ok bs s" and "length Dflts + 16 < 2 ^ 64"
    and "unat (block_request (of_nat (length Dflts))) < unat (FreeSpaceLeft s)"
  shows "\<exists>p s'. set_input_block dbg i Dflts s = Some (SilPass, s') \<and> p \<noteq> 0
    \<and> store_ok (bs @ [new_block (id_val i) (of_nat (length Dflts)) 0 0 1]) s'
    \<and> unat (FreeSpaceLeft s') = unat (FreeSpaceLeft s) - unat (block_request (of_nat (length Dflts)))
    \<and> (\<forall>j<length Dflts. mem s' (p + j) = Dflts ! j)
    \<and> p = mSilMemoryBase s + sizeof_SIL_BLOCK_VARIABLES + blocks_size bs + 12"
proof -
  define sz :: u64 where "sz = of_nat (length Dflts)"
  define b where "b = new_block (id_val i) sz 0 0 1"
  have l: "unat sz = length Dflts"
    using assms(2) by (simp add: sz_def unsigned_of_nat take_bit_nat_eq_self)
  then have szb: "unat sz + 16 < 2 ^ 64" using assms(2) by simp
  obtain s1 where s1: "SilCreateInfoBlock dbg (id_val i) sz 0 0 1 s
        = Some (mSilMemoryBase s + unat (FreeSpaceOffset s) + 12, s1)"
      "store_ok (bs @ [b]) s1" "mSilMemoryBase s1 = mSilMemoryBase s"
      "unat (FreeSpaceLeft s1) = unat (FreeSpaceLeft s) - unat (block_request sz)"
    by (rule SilCreateInfoBlock_success [OF assms(1) szb assms(3) [folded sz_def], where dbg = dbg
          and tag = "id_val i" and inst = 0 and maj = 0 and mnr = 1]) (use b_def in blast)
  define p where "p = mSilMemoryBase s + unat (FreeSpaceOffset s) + 12"
  define m where "m = memcpy (mem s1) p Dflts"
  have off: "p = mSilMemoryBase s + sizeof_SIL_BLOCK_VARIABLES + blocks_size bs + 12"
    using store_ok_offset [OF assms(1)] by (simp add: p_def)
  have bs: "length Dflts + 12 < blk_size b"
    using block_request_bounds(1) [OF szb] by (simp add: b_def new_block_def l)
  have m: "m x = mem s1 x" if "x < mSilMemoryBase s1 + sizeof_SIL_BLOCK_VARIABLES + blocks_size bs + 12
      \<or> mSilMemoryBase s1 + sizeof_SIL_BLOCK_VARIABLES + blocks_size (bs @ [b]) \<le> x" for x
    using that bs off unfolding m_def s1(3) by (intro memcpy_other) auto
  have "FreeSpaceLeft (s1\<lparr>mem := m\<rparr>) = FreeSpaceLeft s1"
    using store_ok_data_write(2) [OF s1(2) m, of off_FreeSpaceLeft] by (auto simp: sil_defs)
  moreover have "store_ok (bs @ [b]) (s1\<lparr>mem := m\<rparr>)" by (rule store_ok_data_write(1) [OF s1(2) m])
  moreover have "set_input_block dbg i Dflts s = Some (SilPass, s1\<lparr>mem := m\<rparr>)"
    using s1(1) by (simp add: set_input_block_def sz_def m_def p_def)
  moreover have "m (p + j) = Dflts ! j" if "j < length Dflts" for j
    using that by (simp add: m_def memcpy_read)
  ultimately show ?thesis
    using s1(4) off unfolding sz_def [symmetric] b_def [symmetric]
    by (intro exI [of _ p] exI [of _ "s1\<lparr>mem := m\<rparr>"]) simp
qed

lemma set_input_block_contract:
  assumes "SetInput r = Some (set_input_block dbg (IpID r) Dflts)"
    and "BlkRequestSize r = of_nat (length Dflts)" and "0 < length Dflts" and "length Dflts < 2 ^ 32"
  shows "set_input_contract r"
proof -
  have u: "unat (BlkRequestSize r) = length Dflts"
    using assms by (simp add: unsigned_of_nat take_bit_nat_eq_self)
  then have c: "ucast (BlkRequestSize r) = (of_nat (length Dflts) :: u64)"
    by (metis of_nat_unat)
  have nz: "BlkRequestSize r \<noteq> 0" using u assms(3) by auto
  then have req: "request_of r = unat (block_request (of_nat (length Dflts)))"
    by (simp add: request_of_def c)
  show ?thesis
    unfolding set_input_contract_def assms(1)
  proof (intro allI impI)
    fix f :: "'a sil_state_scheme entry_point" and bs and s :: "'a sil_state_scheme"
    assume f: "Some (set_input_block dbg (IpID r) Dflts) = Some f"
      and ok: "store_ok bs s" and room: "request_of r < unat (FreeSpaceLeft s)"
    have "unat (block_request (of_nat (length Dflts))) < unat (FreeSpaceLeft s)" using room req by simp
    from set_input_block_effect [OF ok _ this, of dbg "IpID r"] assms(4) obtain s' where
      "set_input_block dbg (IpID r) Dflts s = Some (SilPass, s')"
      "store_ok (bs @ [new_block (id_val (IpID r)) (of_nat (length Dflts)) 0 0 1]) s'"
      "unat (FreeSpaceLeft s') = unat (FreeSpaceLeft s) - unat (block_request (of_nat (length Dflts)))"
      by auto
    then show "\<exists>s' b. f s = Some (SilPass, s') \<and> store_ok (bs @ [b]) s' \<and> blk_Id b = id_val (IpID r)
        \<and> blk_Instance b = 0 \<and> unat (FreeSpaceLeft s') = unat (FreeSpaceLeft s) - request_of r"
      using f unfolding req
      by (intro exI [of _ s'] exI [of _ "new_block (id_val (IpID r)) (of_nat (length Dflts)) 0 0 1"])
        (simp add: new_block_def)
  qed
qed

end
