(* ===== verification/Sil_Utils.thy ===== *)
theory Sil_Utils
  imports Sil_Prelude
begin

text \<open>
  The bit utilities of \<^verbatim>\<open>xUSL/CommonLib/Utils.c\<close>. The two bit searches are unbounded shift loops and
  are modelled as \<open>partial_function (option)\<close>, so a run that never ends would be \<open>None\<close>; the lemmas
  show that they always return, and what they return in terms of the bits of the operand. The bit
  width and the bit count are loops with a decreasing operand.
\<close>

section \<open>Model\<close>

text \<open>\<^verbatim>\<open>for (pos = 0; 0 == (Operand & 1); pos++, Operand >>= 1);\<close>\<close>

partial_function (option) low_bit_loop :: "int \<Rightarrow> u32 \<Rightarrow> int option" where
  "low_bit_loop pos Operand =
     (if Operand AND 1 = 0 then low_bit_loop (pos + 1) (drop_bit 1 Operand) else Some pos)"

definition xUslLowBitSet32 :: "u32 \<Rightarrow> int option" where
  "xUslLowBitSet32 Operand = (if Operand = 0 then Some (- 1) else low_bit_loop 0 Operand)"

text \<open>\<^verbatim>\<open>for (pos = 31; (int)Operand > 0; pos--, Operand <<= 1);\<close>\<close>

partial_function (option) high_bit_loop :: "int \<Rightarrow> u32 \<Rightarrow> int option" where
  "high_bit_loop pos Operand =
     (if 0 < sint Operand then high_bit_loop (pos - 1) (push_bit 1 Operand) else Some pos)"

definition xUslHighBitSet32 :: "u32 \<Rightarrow> int option" where
  "xUslHighBitSet32 Operand = (if Operand = 0 then Some (- 1) else high_bit_loop 31 Operand)"

lemma drop_bit_1_less:
  fixes x :: "'a::len word"
  assumes "x \<noteq> 0"
  shows "unat (drop_bit 1 x) < unat x"
proof -
  have "0 < unat x" using assms by (simp add: unat_gt_0)
  then show ?thesis by (simp only: unat_drop_bit_div) simp
qed

function bit_width_loop :: "u8 \<Rightarrow> u64 \<Rightarrow> u8" where
  "bit_width_loop Width Number =
     (if Number \<noteq> 0 then bit_width_loop (Width + 1) (drop_bit 1 Number) else Width)"
  by pat_completeness auto
termination
  by (relation "measure (\<lambda>(w, n). unat n)") (use drop_bit_1_less in auto)

definition xUslBitWidth :: "u64 \<Rightarrow> u8" where
  "xUslBitWidth Number = bit_width_loop 0 Number"

lemma and_dec_less:
  fixes x :: "'a::len word"
  assumes "x \<noteq> 0"
  shows "unat (x AND (x - 1)) < unat x"
proof -
  have "unat (x AND (x - 1)) \<le> unat (x - 1)"
    using word_and_le1 [of x "x - 1"] by (simp add: word_le_nat_alt and.commute)
  moreover have "unat (x - 1) < unat x"
    using assms by (metis measure_unat)
  ultimately show ?thesis by simp
qed

function set_bit_count_loop :: "u32 \<Rightarrow> u32 \<Rightarrow> u32" where
  "set_bit_count_loop cnt Value =
     (if Value \<noteq> 0 then set_bit_count_loop (cnt + 1) (Value AND (Value - 1)) else cnt)"
  by pat_completeness auto
termination
  by (relation "measure (\<lambda>(c, v). unat v)") (use and_dec_less in auto)

definition xUslGetSetBitCount :: "u32 \<Rightarrow> u32" where
  "xUslGetSetBitCount Value = set_bit_count_loop 0 Value"

lemmas [simp del] = bit_width_loop.simps set_bit_count_loop.simps

section \<open>Lowest and highest set bit\<close>

definition lowest_bit :: "'a::len word \<Rightarrow> nat \<Rightarrow> bool" where
  "lowest_bit x p \<longleftrightarrow> bit x p \<and> (\<forall>q<p. \<not> bit x q)"

definition highest_bit :: "'a::len word \<Rightarrow> nat \<Rightarrow> bool" where
  "highest_bit x p \<longleftrightarrow> bit x p \<and> (\<forall>q>p. \<not> bit x q)"

lemma ex_lowest_bit:
  fixes x :: "'a::len word"
  assumes "x \<noteq> 0"
  shows "\<exists>p. lowest_bit x p"
proof -
  have "\<exists>p. bit x p" using assms bit_eq_iff [of x 0] by auto
  then show ?thesis unfolding lowest_bit_def by (metis LeastI_ex not_less_Least)
qed

lemma ex_highest_bit:
  fixes x :: "'a::len word"
  assumes "x \<noteq> 0"
  shows "\<exists>p. highest_bit x p"
proof -
  have ex: "\<exists>p. bit x p" using assms bit_eq_iff [of x 0] by auto
  have b: "\<forall>p. bit x p \<longrightarrow> p \<le> LENGTH('a)" using bit_imp_le_length less_imp_le by blast
  have "bit x (Greatest (bit x))" using GreatestI_ex_nat [OF ex, of "LENGTH('a)"] b by blast
  moreover have "q \<le> Greatest (bit x)" if "bit x q" for q
    using Greatest_le_nat [of "bit x", OF that, of "LENGTH('a)"] b by blast
  ultimately show ?thesis unfolding highest_bit_def by (meson not_less)
qed

lemma low_bit_loop_eq:
  assumes "lowest_bit x p"
  shows "low_bit_loop pos x = Some (pos + int p)"
  using assms
proof (induction p arbitrary: x pos)
  case 0
  then have "odd x" by (simp add: lowest_bit_def bit_0)
  then show ?case by (subst low_bit_loop.simps) (simp add: and_one_eq odd_iff_mod_2_eq_one)
next
  case (Suc p)
  then have "\<not> bit x 0" by (simp add: lowest_bit_def)
  then have "x AND 1 = 0" by (simp add: bit_0 and_one_eq even_iff_mod_2_eq_zero)
  moreover have "lowest_bit (drop_bit 1 x) p"
    using Suc.prems by (simp add: lowest_bit_def bit_drop_bit_eq)
  ultimately show ?case by (subst low_bit_loop.simps) (simp add: Suc.IH)
qed

lemma sint_pos_iff: "0 < sint (x :: u32) \<longleftrightarrow> x \<noteq> 0 \<and> \<not> bit x 31"
proof -
  have "sint x < 0 \<longleftrightarrow> bit x 31" using bit_last_iff [of x] by simp
  then show ?thesis by (metis less_le not_less sint_0 signed_eq_0_iff)
qed

lemma high_bit_loop_eq:
  assumes "highest_bit x p" and "p \<le> 31"
  shows "high_bit_loop pos x = Some (pos - int (31 - p))"
  using assms
proof (induction "31 - p" arbitrary: x p pos)
  case 0
  then have "bit x 31" by (auto simp: highest_bit_def)
  with 0 show ?case by (subst high_bit_loop.simps) (simp add: sint_pos_iff)
next
  case (Suc n)
  then have p: "p < 31" by simp
  then have "\<not> bit x 31" "x \<noteq> 0" using Suc.prems by (auto simp: highest_bit_def)
  then have pos: "0 < sint x" by (simp add: sint_pos_iff)
  have "highest_bit (push_bit 1 x) (Suc p)"
    using Suc.prems p by (auto simp: highest_bit_def bit_push_bit_iff simp del: push_bit_Suc)
  then have "high_bit_loop (pos - 1) (push_bit 1 x) = Some (pos - 1 - int (31 - Suc p))"
    using Suc.hyps(1) [of "Suc p" "push_bit 1 x" "pos - 1"] Suc.hyps(2) p by simp
  with pos p show ?case by (subst high_bit_loop.simps) (simp add: of_nat_diff)
qed

section \<open>Width and count\<close>

lemma bit_width_loop_le:
  assumes "unat n < 2 ^ k" and "unat w + k < 256"
  shows "unat n < 2 ^ (unat (bit_width_loop w n) - unat w)
    \<and> (n \<noteq> 0 \<longrightarrow> unat w < unat (bit_width_loop w n)
        \<and> 2 ^ (unat (bit_width_loop w n) - unat w - 1) \<le> unat n)
    \<and> unat w \<le> unat (bit_width_loop w n) \<and> unat (bit_width_loop w n) \<le> unat w + k"
  using assms
proof (induction k arbitrary: w n)
  case 0
  then have "n = 0" by (simp add: unat_eq_zero)
  then show ?case by (subst bit_width_loop.simps) (simp add: bit_width_loop.simps)
next
  case (Suc k)
  show ?case
  proof (cases "n = 0")
    case True
    then show ?thesis by (simp add: bit_width_loop.simps)
  next
    case False
    define n' where "n' = drop_bit 1 n"
    define r where "r = bit_width_loop (w + 1) n'"
    have r: "bit_width_loop w n = r"
      using False by (simp add: r_def n'_def bit_width_loop.simps [of w n])
    have w1: "unat (w + 1) = unat w + 1"
      using Suc.prems(2) by (subst unat_plus_small) simp_all
    have n': "unat n' = unat n div 2"
      using unat_drop_bit_div [of 1 n] by (simp add: n'_def)
    have "0 < unat n" using False by (simp add: unat_gt_0)
    from Suc.IH [of n' "w + 1"] Suc.prems w1 n'
    have ih: "unat n' < 2 ^ (unat r - (unat w + 1))"
      "n' \<noteq> 0 \<Longrightarrow> unat w + 1 < unat r \<and> 2 ^ (unat r - (unat w + 1) - 1) \<le> unat n'"
      "unat w + 1 \<le> unat r" "unat r \<le> unat w + 1 + k"
      by (auto simp: r_def)
    define d where "d = unat r - (unat w + 1)"
    have rd: "unat r = unat w + 1 + d" using ih(3) by (simp add: d_def)
    have up: "unat n < 2 ^ (d + 1)"
      using ih(1) unfolding n' d_def by (simp add: div_less_iff_less_mult mult.commute)
    have lo: "2 ^ d \<le> unat n"
    proof (cases "n' = 0")
      case True
      then have "r = w + 1" by (simp add: r_def bit_width_loop.simps)
      then have "d = 0" using rd w1 by simp
      then show ?thesis using \<open>0 < unat n\<close> by simp
    next
      case False
      then have "2 ^ (d - 1) \<le> unat n'" "0 < d" using ih(2) by (simp_all add: rd)
      then show ?thesis using n' by (cases d) simp_all
    qed
    show ?thesis unfolding r rd using up lo ih(4) rd by simp
  qed
qed

lemma xUslBitWidth_bounds:
  "unat Number < 2 ^ unat (xUslBitWidth Number)"
  "Number \<noteq> 0 \<Longrightarrow> 0 < unat (xUslBitWidth Number)
     \<and> 2 ^ (unat (xUslBitWidth Number) - 1) \<le> unat Number"
  "unat (xUslBitWidth Number) \<le> 64"
  using bit_width_loop_le [of Number 64 0] unsigned_less [of Number, where ?'a = nat]
  by (simp_all add: xUslBitWidth_def)

lemma bit_and_dec:
  fixes x :: "'a::len word"
  assumes "lowest_bit x p"
  shows "bit (x AND (x - 1)) i \<longleftrightarrow> bit x i \<and> i \<noteq> p"
proof -
  define h where "h = push_bit (Suc p) (drop_bit (Suc p) x)"
  have pl: "p < LENGTH('a)"
    using assms bit_imp_le_length by (auto simp: lowest_bit_def)
  have bh: "bit h i \<longleftrightarrow> p < i \<and> bit x i" for i
    by (auto simp: h_def bit_simps Suc_le_eq simp del: push_bit_Suc drop_bit_Suc
        dest: bit_imp_le_length)
  have "x = h OR 2 ^ p"
  proof (rule bit_word_eqI)
    fix n assume n: "n < LENGTH('a)"
    show "bit x n \<longleftrightarrow> bit (h OR 2 ^ p) n"
      using assms pl n by (cases n p rule: linorder_cases) (auto simp: bh lowest_bit_def bit_simps)
  qed
  moreover have "h AND 2 ^ p = 0"
    by (rule bit_word_eqI) (auto simp: bh bit_simps)
  ultimately have x: "x = h + 2 ^ p" by (metis disjunctive_add_eq_or)
  have "h AND mask p = 0"
    by (rule bit_word_eqI) (auto simp: bh bit_simps)
  then have "x - 1 = h OR mask p"
    by (simp add: x mask_eq_exp_minus_1 algebra_simps flip: disjunctive_add_eq_or)
  then show ?thesis
    using assms pl bh by (auto simp: lowest_bit_def bit_simps not_less)
qed

lemma card_bits_and_dec:
  fixes x :: "'a::len word"
  assumes "x \<noteq> 0"
  shows "card {i. bit x i} = Suc (card {i. bit (x AND (x - 1)) i})"
proof -
  obtain p where p: "lowest_bit x p" using ex_lowest_bit [OF assms] ..
  have fin: "finite {i. bit x i}"
    by (rule finite_subset [of _ "{..<LENGTH('a)}"]) (auto dest: bit_imp_le_length)
  have "{i. bit (x AND (x - 1)) i} = {i. bit x i} - {p}"
    using bit_and_dec [OF p] by auto
  moreover have "p \<in> {i. bit x i}" using p by (simp add: lowest_bit_def)
  ultimately show ?thesis using fin by (metis card.remove)
qed

lemma card_bits_le:
  fixes x :: "'a::len word"
  shows "card {i. bit x i} \<le> LENGTH('a)"
proof -
  have "card {i. bit x i} \<le> card {..<LENGTH('a)}"
    by (rule card_mono) (auto dest: bit_imp_le_length)
  then show ?thesis by simp
qed

lemma set_bit_count_loop_eq:
  "set_bit_count_loop c v = c + of_nat (card {i. bit v i})"
proof (induction c v rule: set_bit_count_loop.induct)
  case (1 c v)
  show ?case
  proof (cases "v = 0")
    case True
    then show ?thesis by (simp add: set_bit_count_loop.simps)
  next
    case False
    then show ?thesis
      using 1 by (subst set_bit_count_loop.simps) (simp add: card_bits_and_dec [OF False])
  qed
qed

end
