(* ===== verification/Sil_Core_Props.thy ===== *)
theory Sil_Core_Props
  imports Sil_Inputs Sil_Utils
begin

text \<open>
  The properties of the openSIL core: the memory block services, the host API of \<^verbatim>\<open>xSIM.c\<close> and the bit
  utilities.
\<close>

section \<open>Memory query and assignment\<close>

definition demo_state :: sil_state where
  "demo_state = \<lparr>mem = (\<lambda>_. 0), mSilMemoryBase = 0, mHostDebugService = 0, mDeferredResetType = SilPass\<rparr>"

definition demo_record :: "sil_state IP_RECORD" where
  "demo_record = \<lparr>IpID = SilId_FchSpi, BlkRequestSize = 4,
     SetInput = Some (FchSpiSetInputBlk True [1, 2, 3, 4]), Initialize = None, ApiInit = None\<rparr>"

definition demo_end :: "sil_state IP_RECORD" where
  "demo_end = \<lparr>IpID = SilId_ListEnd, BlkRequestSize = 0, SetInput = None, Initialize = None,
     ApiInit = None\<rparr>"




section \<open>Blocks\<close>

text \<open>C5: on a store whose headers form a chain, \<^verbatim>\<open>xUslFindStructure\<close> always returns, and it returns the
  data address of the first block with the requested identifier and instance, or \<^verbatim>\<open>NULL\<close> when there is
  none: the byte-level walk refines the lookup on the list of blocks.\<close>

theorem find_structure_refines:
  assumes "store_ok bs s"
  shows "xUslFindStructure IpId InstanceNum s
    = Some (spec_find IpId InstanceNum (mSilMemoryBase s + sizeof_SIL_BLOCK_VARIABLES) bs)"
  using assms by (rule xUslFindStructure_spec)

theorem find_structure_refines_witness:
  "xUslFindStructure 7 0 (fill_vars 2048 (SilSetMemoryBase 4096 demo_state)) = Some 0"
  using find_structure_refines [of "[]" "fill_vars 2048 (SilSetMemoryBase 4096 demo_state)" 7 0]
    fill_vars_ok [of "SilSetMemoryBase 4096 demo_state" 2048]
  by (simp add: SilSetMemoryBase_def)

text \<open>C4: \<^verbatim>\<open>SilCreateInfoBlock\<close> followed by \<^verbatim>\<open>SilFindStructure\<close> gives the new block back, and every other
  lookup is unchanged; the counters keep adding up and the new header is appended to the chain.\<close>

theorem create_find_roundtrip:
  assumes "store_ok bs s" and "unat BlockSize + 16 < 2 ^ 64"
    and "unat (block_request BlockSize) < unat (FreeSpaceLeft s)"
  shows "\<exists>p s'. SilCreateInfoBlock dbg BlockTag BlockSize Inst Maj Mnr s = Some (p, s') \<and> p \<noteq> 0
    \<and> store_ok (bs @ [new_block BlockTag BlockSize Inst Maj Mnr]) s'
    \<and> unat (FreeSpaceLeft s') = unat (FreeSpaceLeft s) - unat (block_request BlockSize)
    \<and> (\<forall>i n. SilFindStructure i n s' =
         (if i = BlockTag \<and> n = Inst \<and> SilFindStructure i n s = Some 0 then Some p
          else SilFindStructure i n s))"
  unfolding SilFindStructure_def using assms by (rule create_then_find)

theorem create_find_roundtrip_witness:
  "\<exists>p s'. SilCreateInfoBlock True 17 100 0 0 1 (fill_vars 2048 (SilSetMemoryBase 4096 demo_state))
      = Some (p, s') \<and> p \<noteq> 0 \<and> SilFindStructure 17 0 s' = Some p"
proof -
  let ?s = "fill_vars 2048 (SilSetMemoryBase 4096 demo_state)"
  have ok: "store_ok [] ?s" "unat (FreeSpaceLeft ?s) = 1656"
    using fill_vars_ok [of "SilSetMemoryBase 4096 demo_state" 2048] by (simp_all add: SilSetMemoryBase_def)
  have r: "unat (block_request 100) = 116" by (simp add: block_request_def RoundUp_def sil_defs)
  have "SilFindStructure 17 0 ?s = Some 0"
    using xUslFindStructure_spec [OF ok(1)] by (simp add: SilFindStructure_def)
  then show ?thesis
    using create_find_roundtrip [OF ok(1), of 100 True 17 0 0 1] ok(2) r by auto
qed

text \<open>When the free space does not exceed the request, \<^verbatim>\<open>SilCreateInfoBlock\<close> returns \<^verbatim>\<open>NULL\<close> and
  changes nothing; with no base assigned it trips its assertion, and returns \<^verbatim>\<open>NULL\<close> in a build without
  assertions.\<close>

theorem create_block_failure:
  "(mSilMemoryBase s \<noteq> 0 \<longrightarrow> unat (FreeSpaceLeft s) \<le> unat (block_request BlockSize) \<longrightarrow>
      SilCreateInfoBlock dbg BlockTag BlockSize Inst Maj Mnr s = Some (0, s))
   \<and> (mSilMemoryBase s = 0 \<longrightarrow>
      SilCreateInfoBlock dbg BlockTag BlockSize Inst Maj Mnr s = (if dbg then None else Some (0, s)))"
proof (intro conjI impI)
  assume "mSilMemoryBase s = 0"
  then show "SilCreateInfoBlock dbg BlockTag BlockSize Inst Maj Mnr s = (if dbg then None else Some (0, s))"
    by (simp add: SilCreateInfoBlock_def SilGetMemoryBase_def)
qed (rule SilCreateInfoBlock_full)

theorem create_block_failure_witness:
  "SilCreateInfoBlock True 17 100 0 0 1 demo_state = None
   \<and> SilCreateInfoBlock False 17 100 0 0 1 demo_state = Some (0, demo_state)"
  using create_block_failure [of demo_state 100 True 17 0 0 1]
    create_block_failure [of demo_state 100 False 17 0 0 1]
  by (simp add: demo_state_def)

text \<open>A whole sequence of allocations with distinct keys, whose requests together are less than the
  free space, succeeds; afterwards every block is found at the address its allocation returned, and the
  lookups of other keys are unchanged.\<close>

theorem create_sequence_found:
  assumes "some_store_ok s" and "\<forall>k\<in>set ks. unat (fst (snd k)) + 16 < 2 ^ 64"
    and "sum_list (map (\<lambda>k. unat (block_request (fst (snd k)))) ks) < unat (FreeSpaceLeft s)"
    and "distinct (map (\<lambda>k. (fst k, snd (snd k))) ks)"
    and "\<forall>k\<in>set ks. xUslFindStructure (fst k) (snd (snd k)) s = Some 0"
  shows "\<exists>ps s'. create_all (\<lambda>i sz n. SilCreateInfoBlock dbg i sz n maj mnr) ks s = Some (ps, s')
    \<and> length ps = length ks \<and> some_store_ok s'
    \<and> (\<forall>j<length ks. ps ! j \<noteq> 0
         \<and> xUslFindStructure (fst (ks ! j)) (snd (snd (ks ! j))) s' = Some (ps ! j))
    \<and> (\<forall>i n. (i, n) \<notin> (\<lambda>k. (fst k, snd (snd k))) ` set ks \<longrightarrow>
         xUslFindStructure i n s' = xUslFindStructure i n s)"
  using blocks.create_all_found [OF assms, of dbg maj mnr] by blast

theorem create_sequence_found_witness:
  "\<exists>p q s'. create_all (\<lambda>i sz n. SilCreateInfoBlock True i sz n 0 1) [(1, 8, 0), (2, 100, 0)]
      (fill_vars 2048 (SilSetMemoryBase 4096 demo_state)) = Some ([p, q], s')
    \<and> xUslFindStructure 1 0 s' = Some p \<and> xUslFindStructure 2 0 s' = Some q"
proof -
  let ?s = "fill_vars 2048 (SilSetMemoryBase 4096 demo_state)"
  have ok: "store_ok [] ?s" "unat (FreeSpaceLeft ?s) = 1656"
    using fill_vars_ok [of "SilSetMemoryBase 4096 demo_state" 2048] by (simp_all add: SilSetMemoryBase_def)
  have r: "unat (block_request 100) = 116" "unat (block_request 8) = 24"
    by (simp_all add: block_request_def RoundUp_def sil_defs)
  have f: "xUslFindStructure i n ?s = Some 0" for i n using xUslFindStructure_spec [OF ok(1)] by simp
  have o: "some_store_ok ?s" using ok(1) by (auto simp: some_store_ok_def)
  let ?ks = "[(1, 8, 0), (2, 100, 0)] :: block_key list"
  have "\<exists>ps s'. create_all (\<lambda>i sz n. SilCreateInfoBlock True i sz n 0 1) ?ks ?s = Some (ps, s')
      \<and> length ps = length ?ks \<and> (\<forall>j<length ?ks.
         xUslFindStructure (fst (?ks ! j)) (snd (snd (?ks ! j))) s' = Some (ps ! j))"
    using create_sequence_found [OF o, of ?ks True 0 1] r ok(2) f by fastforce
  then obtain ps s' where e: "create_all (\<lambda>i sz n. SilCreateInfoBlock True i sz n 0 1) ?ks ?s = Some (ps, s')"
    and l: "length ps = Suc (Suc 0)"
    and x: "\<forall>j<Suc (Suc 0). xUslFindStructure (fst (?ks ! j)) (snd (snd (?ks ! j))) s' = Some (ps ! j)"
    by auto
  from l obtain p q where ps: "ps = [p, q]" by (auto simp: length_Suc_conv)
  show ?thesis
    using e x [rule_format, of 0] x [rule_format, of 1] unfolding ps by (intro exI conjI) (assumption | simp)+
qed

text \<open>Registering interface pointers for distinct valid identifiers makes each of them available:
  \<^verbatim>\<open>SilGetIp2IpApi\<close> and \<^verbatim>\<open>SilGetCommon2RevXferTable\<close> return \<^verbatim>\<open>SilPass\<close> and the registered pointer, in either
  table.\<close>

theorem api_tables_registered:
  assumes "\<forall>e\<in>set es. unat (fst e) < 23 \<and> snd e \<noteq> 0" and "distinct (map fst es)"
  shows "(\<exists>s'. register_all (SilInitIp2IpApi dbg) es s = Some s'
      \<and> (\<forall>e\<in>set es. SilGetIp2IpApi dbg' (fst e) s' = Some (SilPass, snd e)))
    \<and> (\<exists>s'. register_all (SilInitCommon2RevXferTable dbg) es s = Some s'
      \<and> (\<forall>e\<in>set es. SilGetCommon2RevXferTable dbg' (fst e) s' = Some (SilPass, snd e)))"
  using ip2ip.register_all_get [OF assms] xfer.register_all_get [OF assms] by blast

theorem api_tables_registered_witness:
  "\<exists>s'. register_all (SilInitIp2IpApi True) [(1, 4096), (17, 8192)] demo_state = Some s'
    \<and> SilGetIp2IpApi True 17 s' = Some (SilPass, 8192) \<and> SilGetIp2IpApi True 1 s' = Some (SilPass, 4096)"
  using api_tables_registered [of "[(1, 4096), (17, 8192)]" True demo_state True] by auto

text \<open>The registration checks its index and the lookup does not: an identifier outside the table is
  refused by \<^verbatim>\<open>SilInitIp2IpApi\<close>, but \<^verbatim>\<open>SilGetIp2IpApi\<close> with the first such identifier (\<^verbatim>\<open>SilId_ListEnd\<close>) reads
  the neighbouring table and returns the transfer table registered for identifier 0.\<close>

lemma ip2ip_lookup_unchecked:
  assumes "v \<noteq> 0" and "SilInitCommon2RevXferTable dbg 0 v s = Some (SilPass, s')"
  shows "SilGetIp2IpApi dbg' (id_val SilId_ListEnd) s' = Some (SilPass, v)
    \<and> SilInitIp2IpApi dbg (id_val SilId_ListEnd) w s'
        = (if dbg then None else Some (SilInvalidParameter, s'))"
proof -
  have s': "s' = s\<lparr>mem := write64 (mem s) (mSilMemoryBase s + 208) v\<rparr>"
    using assms(2) by (simp add: table_defs sil_defs)
  have a: "mSilMemoryBase s' + off_Ip2IpApi + 8 * unat (id_val SilId_ListEnd) = mSilMemoryBase s + 208"
    by (simp add: s' sil_defs)
  have "SilGetIp2IpApi dbg' (id_val SilId_ListEnd) s' = Some (SilPass, v)"
    unfolding SilGetIp2IpApi_def a Let_def using assms(1) by (simp add: s')
  then show ?thesis by (simp add: SilInitIp2IpApi_def)
qed

lemma ip2ip_lookup_unchecked_witness:
  "\<exists>s'. SilInitCommon2RevXferTable True 0 4096 demo_state = Some (SilPass, s')
    \<and> SilGetIp2IpApi True (id_val SilId_ListEnd) s' = Some (SilPass, 4096)"
proof -
  obtain s' where s': "SilInitCommon2RevXferTable True 0 4096 demo_state = Some (SilPass, s')"
    using xfer.init_in [of 0 True 4096 demo_state] by auto
  show ?thesis using ip2ip_lookup_unchecked [OF _ s', of True 0] s' by simp
qed

section \<open>Initialisation of the IPs\<close>

text \<open>When no IP asks for a deferred reset, \<^verbatim>\<open>xSimInitializeIps\<close> returns, having called the
  \<^verbatim>\<open>Initialize\<close> functions of the records before the end marker in table order up to the first one that
  does not return \<^verbatim>\<open>SilPass\<close>; its status is that function's status unless a reset was already pending.\<close>

theorem initialize_ips_in_order:
  assumes "terminated tbl" and "\<forall>r\<in>set (active_ips tbl). never_defers r"
  shows "xSimInitializeIps tbl s =
    do { (st, s') \<leftarrow> run_spec (active_ips tbl) s;
         Some (if mDeferredResetType s' \<noteq> SilPass then mDeferredResetType s' else st, s') }"
  using init_loop_run_spec [OF assms] by (simp add: xSimInitializeIps_def)

definition failing_record :: "SIL_STATUS \<Rightarrow> sil_state IP_RECORD" where
  "failing_record st = demo_record\<lparr>Initialize := Some (\<lambda>s. Some (st, s))\<rparr>"

theorem initialize_ips_in_order_witness:
  "xSimInitializeIps [demo_record, failing_record SilDeviceError, demo_record, demo_end] demo_state
    = Some (SilDeviceError, demo_state)"
proof -
  have "active_ips [demo_record, failing_record SilDeviceError, demo_record, demo_end]
      = [demo_record, failing_record SilDeviceError, demo_record]"
    "terminated [demo_record, failing_record SilDeviceError, demo_record, demo_end]"
    by (simp_all add: demo_record_def demo_end_def failing_record_def)
  moreover have "never_defers demo_record" "never_defers (failing_record SilDeviceError)"
    by (auto simp: never_defers_def demo_record_def failing_record_def is_deferred_def)
  ultimately show ?thesis
    using initialize_ips_in_order [of "[demo_record, failing_record SilDeviceError, demo_record, demo_end]" demo_state]
    by (simp add: demo_record_def failing_record_def demo_state_def)
qed

text \<open>Whatever the IPs return, \<^verbatim>\<open>xSimInitializeIps\<close> returns exactly the results of the runs of the
  loop as a step relation, in which a deferred request is recorded and the same record is visited again.\<close>

theorem initialize_ips_runs:
  "xSimInitializeIps tbl s = Some (st, s') \<longleftrightarrow>
     (\<exists>st0. ips_run tbl SilPass s st0 s'
        \<and> st = (if mDeferredResetType s' \<noteq> SilPass then mDeferredResetType s' else st0))"
  by (auto simp: xSimInitializeIps_def init_loop_iff [symmetric] split: bind_splits)



text \<open>C37: an IP whose \<^verbatim>\<open>Initialize\<close> keeps asking for a deferred reset is called again for ever: the loop
  of \<^verbatim>\<open>xSimInitializeIps\<close> never returns and the IPs after it are never initialised.\<close>

theorem persistent_deferral_hangs:
  assumes "IpID r \<noteq> SilId_ListEnd" and "Initialize r = Some f"
    and "\<forall>s. \<exists>d t. f s = Some (d, t) \<and> is_deferred d"
  shows "xSimInitializeIps (r # rs) s = None"
  using init_loop_persistent_defer [OF assms] by (simp add: xSimInitializeIps_def)

theorem persistent_deferral_hangs_witness:
  "xSimInitializeIps [failing_record SilResetRequestWarmDef, demo_end] demo_state = None"
  by (rule persistent_deferral_hangs [where f = "\<lambda>s. Some (SilResetRequestWarmDef, s)"])
    (auto simp: failing_record_def demo_record_def)

text \<open>Time points 2 and 3 of the F19M10 SoC initialise nothing: whatever the handlers are,
  \<^verbatim>\<open>InitializeSiTp2\<close> and \<^verbatim>\<open>InitializeSiTp3\<close> leave the state alone and return the pending reset, or \<^verbatim>\<open>SilPass\<close>.\<close>

lemma later_timepoints_inert:
  "InitializeSiTp2 h s = Some (mDeferredResetType s, s)
   \<and> InitializeSiTp3 h s = Some (mDeferredResetType s, s)"
proof -
  have t: "terminated (SocIpTblF19M10Tp2 h)" "terminated (SocIpTblF19M10Tp3 h)"
    by (simp_all add: terminated_def SocIpTblF19M10Tp2_def SocIpTblF19M10Tp3_def)
  have n: "\<forall>r\<in>set (active_ips (SocIpTblF19M10Tp2 h)). never_defers r"
    "\<forall>r\<in>set (active_ips (SocIpTblF19M10Tp3 h)). never_defers r"
    by (simp_all add: SocIpTblF19M10Tp2_def SocIpTblF19M10Tp3_def never_defers_def)
  show ?thesis
    using init_loop_run_spec [OF t(1) n(1), of s] init_loop_run_spec [OF t(2) n(2), of s]
    by (simp add: InitializeSiTp2_def InitializeSiTp3_def GetActiveSocIpListTp2_def
        GetActiveSocIpListTp3_def xSimInitializeIps_def SocIpTblF19M10Tp2_def SocIpTblF19M10Tp3_def)
qed





section \<open>Bit utilities\<close>

text \<open>\<^verbatim>\<open>xUslLowBitSet32\<close> and \<^verbatim>\<open>xUslHighBitSet32\<close> return for every operand: -1 for zero, and otherwise
  the position of the lowest, respectively highest, bit set.\<close>

theorem bit_search_correct:
  "xUslLowBitSet32 0 = Some (- 1) \<and> xUslHighBitSet32 0 = Some (- 1)
   \<and> (Operand \<noteq> 0 \<longrightarrow>
       (\<exists>p. lowest_bit Operand p \<and> xUslLowBitSet32 Operand = Some (int p))
     \<and> (\<exists>p. highest_bit Operand p \<and> xUslHighBitSet32 Operand = Some (int p)))"
proof (intro conjI impI)
  assume nz: "Operand \<noteq> 0"
  obtain p where p: "lowest_bit Operand p" using ex_lowest_bit [OF nz] ..
  then show "\<exists>p. lowest_bit Operand p \<and> xUslLowBitSet32 Operand = Some (int p)"
    using nz low_bit_loop_eq [OF p, of 0] by (auto simp: xUslLowBitSet32_def)
  obtain q where q: "highest_bit Operand q" using ex_highest_bit [OF nz] ..
  then have "q \<le> 31" using bit_imp_le_length [of Operand q] by (auto simp: highest_bit_def)
  then show "\<exists>p. highest_bit Operand p \<and> xUslHighBitSet32 Operand = Some (int p)"
    using nz q high_bit_loop_eq [OF q, of 31] by (auto simp: xUslHighBitSet32_def of_nat_diff)
qed (simp_all add: xUslLowBitSet32_def xUslHighBitSet32_def)

theorem bit_search_correct_witness:
  "(40 :: u32) \<noteq> 0 \<and> (\<exists>p. lowest_bit (40 :: u32) p \<and> xUslLowBitSet32 40 = Some (int p))"
  using bit_search_correct [of 40] by simp

text \<open>\<^verbatim>\<open>xUslBitWidth\<close> is the width of its operand (the least \<open>w\<close> with \<open>Number < 2 ^ w\<close>), at most 64, and
  \<^verbatim>\<open>xUslGetSetBitCount\<close> is the number of bits set, although it is computed by clearing the lowest set bit
  repeatedly.\<close>

lemma bit_width_and_count:
  "unat Number < 2 ^ unat (xUslBitWidth Number)
   \<and> (\<forall>w. unat Number < 2 ^ w \<longrightarrow> unat (xUslBitWidth Number) \<le> w)
   \<and> unat (xUslBitWidth Number) \<le> 64
   \<and> unat (xUslGetSetBitCount Value) = card {i. bit Value i}"
proof (intro conjI allI impI)
  fix w assume w: "unat Number < 2 ^ w"
  show "unat (xUslBitWidth Number) \<le> w"
  proof (cases "Number = 0")
    case True
    then show ?thesis by (simp add: xUslBitWidth_def bit_width_loop.simps)
  next
    case False
    from xUslBitWidth_bounds(2) [OF False]
    have "0 < unat (xUslBitWidth Number)" and "(2 :: nat) ^ (unat (xUslBitWidth Number) - 1) < 2 ^ w"
      using le_less_trans [OF _ w] by blast+
    moreover from this(2) have "unat (xUslBitWidth Number) - 1 < w"
      by (rule power_less_imp_less_exp [rotated]) simp
    ultimately show ?thesis by simp
  qed
next
  have "card {i. bit Value i} \<le> 32" using card_bits_le [of Value] by simp
  then show "unat (xUslGetSetBitCount Value) = card {i. bit Value i}"
    by (simp add: xUslGetSetBitCount_def set_bit_count_loop_eq unsigned_of_nat take_bit_nat_eq_self)
qed (use xUslBitWidth_bounds in auto)

lemma bit_width_and_count_witness:
  "unat (40 :: u64) < 2 ^ 6 \<and> unat (xUslBitWidth 40) \<le> 6"
  using bit_width_and_count [of 40 0] by simp

end
