(* ===== verification/Sil_Apob.thy ===== *)
theory Sil_Apob
  imports Sil_Inputs
begin

text \<open>
  The AGESA PSP output block of \<^verbatim>\<open>xUSL/Apob.c\<close>: a memory-resident container of typed entries that the
  boot loader leaves behind. The model reads it from byte memory at the offsets of \<^verbatim>\<open>ApobCmn.h\<close>. The
  entry walk follows the stored sizes and may not end, so it is \<open>partial_function (option)\<close>; a result
  \<open>None\<close> also stands for the overflow of the caller's array of 255 entries.
\<close>

section \<open>Layout\<close>

text \<open>\<^verbatim>\<open>APOB_BASE_HEADER\<close> and \<^verbatim>\<open>APOB_TYPE_HEADER\<close> (16 bytes and a 32-byte HMAC).\<close>

definition hdr_Signature :: "memory \<Rightarrow> nat \<Rightarrow> u32" where "hdr_Signature m a = read32 m a"
definition hdr_Version :: "memory \<Rightarrow> nat \<Rightarrow> u32" where "hdr_Version m a = read32 m (a + 4)"
definition hdr_Size :: "memory \<Rightarrow> nat \<Rightarrow> u32" where "hdr_Size m a = read32 m (a + 8)"
definition hdr_OffsetOfFirstEntry :: "memory \<Rightarrow> nat \<Rightarrow> u32" where
  "hdr_OffsetOfFirstEntry m a = read32 m (a + 12)"

definition ent_GroupID :: "memory \<Rightarrow> nat \<Rightarrow> u32" where "ent_GroupID m a = read32 m a"
definition ent_DataTypeID :: "memory \<Rightarrow> nat \<Rightarrow> u32" where "ent_DataTypeID m a = read32 m (a + 4)"
definition ent_InstanceID :: "memory \<Rightarrow> nat \<Rightarrow> u32" where "ent_InstanceID m a = read32 m (a + 8)"
definition ent_TypeSize :: "memory \<Rightarrow> nat \<Rightarrow> u32" where "ent_TypeSize m a = read32 m (a + 12)"

definition APOB_SIGNATURE :: u32 where "APOB_SIGNATURE = 0x424F5041"
definition APOB_ENTRY_INSTANCE_MAX :: nat where "APOB_ENTRY_INSTANCE_MAX = 0xFF"
definition APOB_MEM :: u32 where "APOB_MEM = 1"
definition APOB_CCX :: u32 where "APOB_CCX = 3"
definition APOB_GEN :: u32 where "APOB_GEN = 7"
definition APOB_GEN_CONFIGURATION_INFO_TYPE :: u32 where "APOB_GEN_CONFIGURATION_INFO_TYPE = 3"
definition APOB_APCB_BOOT_INFO_TYPE :: u32 where "APOB_APCB_BOOT_INFO_TYPE = 16"
definition APOB_MEM_DIMM_SPD_DATA_TYPE :: u32 where "APOB_MEM_DIMM_SPD_DATA_TYPE = 17"
definition APOB_CCD_LOGICAL_TO_PHYSICAL_MAP_TYPE :: u32 where
  "APOB_CCD_LOGICAL_TO_PHYSICAL_MAP_TYPE = 3"
definition CCX_NOT_PRESENT :: u8 where "CCX_NOT_PRESENT = 0xFF"

text \<open>
  The CCD map: 12 \<^verbatim>\<open>LOGICAL_CCD_INFO\<close> of 51 bytes, each with 2 \<^verbatim>\<open>LOGICAL_COMPLEX_INFO\<close> of 25 bytes, each
  with 8 \<^verbatim>\<open>LOGICAL_CORE_INFO\<close> of 3 bytes (a number and two thread flags).
\<close>

definition ccd_at :: "nat \<Rightarrow> nat \<Rightarrow> nat" where "ccd_at e Ccd = e + 48 + 51 * Ccd"
definition complex_at :: "nat \<Rightarrow> nat \<Rightarrow> nat \<Rightarrow> nat" where
  "complex_at e Ccd Ccx = ccd_at e Ccd + 1 + 25 * Ccx"
definition core_at :: "nat \<Rightarrow> nat \<Rightarrow> nat \<Rightarrow> nat \<Rightarrow> nat" where
  "core_at e Ccd Ccx Core = complex_at e Ccd Ccx + 1 + 3 * Core"
definition thread_at :: "nat \<Rightarrow> nat \<Rightarrow> nat \<Rightarrow> nat \<Rightarrow> nat \<Rightarrow> nat" where
  "thread_at e Ccd Ccx Core Thread = core_at e Ccd Ccx Core + 1 + Thread"
definition sizeof_ccd_map :: nat where "sizeof_ccd_map = 48 + 51 * 12"

section \<open>Finding entries\<close>

record APOBLIB_INFO =
  Supported :: bool
  ApobSize :: u32
  ApobAddr :: nat

text \<open>\<open>plat\<close> is \<^verbatim>\<open>APOB_BASE_ADDRESS\<close>, the address configured for the platform.\<close>

definition ApobInit :: "nat \<Rightarrow> memory \<Rightarrow> nat \<Rightarrow> APOBLIB_INFO \<Rightarrow> SIL_STATUS \<times> APOBLIB_INFO" where
  "ApobInit plat m ApobBaseAddress g =
     (if \<not> Supported g then
        let ApobHeaderPtr = (if ApobBaseAddress \<noteq> 0 then ApobBaseAddress else plat)
        in if hdr_Signature m ApobHeaderPtr \<noteq> APOB_SIGNATURE then (SilUnsupported, g)
           else if hdr_Size m ApobHeaderPtr = 0 \<or> hdr_Size m ApobHeaderPtr = 0xFFFFFFFF
           then (SilOutOfResources, g)
           else (SilPass, \<lparr>Supported = True, ApobSize = hdr_Size m ApobHeaderPtr,
                           ApobAddr = ApobHeaderPtr\<rparr>)
      else (SilPass, g))"

text \<open>The output structure is passed by reference and never null at the only call.\<close>

definition AmdGetApobInfo ::
  "nat \<Rightarrow> memory \<Rightarrow> APOBLIB_INFO \<Rightarrow> APOBLIB_INFO \<Rightarrow> SIL_STATUS \<times> APOBLIB_INFO \<times> APOBLIB_INFO" where
  "AmdGetApobInfo plat m ApobInfo g =
     (if \<not> Supported g then
        let (st, g') = ApobInit plat m (ApobAddr ApobInfo) g
        in if st \<noteq> SilPass then (SilOutOfResources, ApobInfo, g')
           else (SilPass, g', g')
      else (SilPass, g, g))"

definition entry_matches :: "memory \<Rightarrow> u32 \<Rightarrow> u32 \<Rightarrow> nat \<Rightarrow> bool" where
  "entry_matches m GroupID DataTypeID a \<longleftrightarrow> ent_GroupID m a = GroupID \<and> ent_DataTypeID m a = DataTypeID"

partial_function (option) apob_walk ::
  "memory \<Rightarrow> u32 \<Rightarrow> u32 \<Rightarrow> nat \<Rightarrow> nat \<Rightarrow> nat list \<Rightarrow> nat list option" where
  "apob_walk m GroupID DataTypeID lim ApobEntry ApobEntries =
     (if ApobEntry < lim then
        apob_walk m GroupID DataTypeID lim (ApobEntry + unat (ent_TypeSize m ApobEntry))
          (if entry_matches m GroupID DataTypeID ApobEntry then ApobEntries @ [ApobEntry]
           else ApobEntries)
      else Some ApobEntries)"

text \<open>
  \<^verbatim>\<open>AmdGetApobEntry\<close>: the status, the entries written to the caller's array (their number is
  \<^verbatim>\<open>*NumofEntry\<close>) and the library's global information.
\<close>

definition AmdGetApobEntry ::
  "nat \<Rightarrow> memory \<Rightarrow> u32 \<Rightarrow> u32 \<Rightarrow> nat \<Rightarrow> APOBLIB_INFO \<Rightarrow> (SIL_STATUS \<times> nat list \<times> APOBLIB_INFO) option" where
  "AmdGetApobEntry plat m GroupID DataTypeID ApobBaseAddress g =
     (let (st, info, g') = AmdGetApobInfo plat m \<lparr>Supported = False, ApobSize = 0, ApobAddr = ApobBaseAddress\<rparr> g
      in if st \<noteq> SilPass then Some (st, [], g')
         else if \<not> Supported info then Some (SilUnsupported, [], g')
         else let h = ApobAddr info
              in if 5 \<le> hdr_Version m h then
                   do { es \<leftarrow> apob_walk m GroupID DataTypeID (h + unat (hdr_Size m h))
                                (h + unat (hdr_OffsetOfFirstEntry m h)) [];
                        Some (if es = [] then SilNotFound else SilPass, es, g') }
                 else Some (SilUnsupported, [], g'))"

fun scan_instance :: "memory \<Rightarrow> u32 \<Rightarrow> nat list \<Rightarrow> nat \<Rightarrow> nat \<Rightarrow> nat \<times> nat" where
  "scan_instance m InstanceID [] NumofInstance LclApobEntry = (NumofInstance, LclApobEntry)"
| "scan_instance m InstanceID (e # es) NumofInstance LclApobEntry =
     (if ent_InstanceID m e = InstanceID then scan_instance m InstanceID es (NumofInstance + 1) e
      else scan_instance m InstanceID es NumofInstance LclApobEntry)"

text \<open>\<^verbatim>\<open>AmdGetApobEntryInstance\<close>: status and \<^verbatim>\<open>*ApobEntry\<close> (0 for \<^verbatim>\<open>NULL\<close>).\<close>

definition AmdGetApobEntryInstance ::
  "nat \<Rightarrow> memory \<Rightarrow> u32 \<Rightarrow> u32 \<Rightarrow> u32 \<Rightarrow> nat \<Rightarrow> APOBLIB_INFO
     \<Rightarrow> (SIL_STATUS \<times> nat \<times> APOBLIB_INFO) option" where
  "AmdGetApobEntryInstance plat m GroupID DataTypeID InstanceID ApobBaseAddress g =
     do { (st, es, g') \<leftarrow> AmdGetApobEntry plat m GroupID DataTypeID ApobBaseAddress g;
          sil_assert (length es \<le> APOB_ENTRY_INSTANCE_MAX);
          if es = [] then Some (SilNotFound, 0, g')
          else let (n, e) = scan_instance m InstanceID es 0 0
               in if n = 0 then Some (SilNotFound, 0, g')
                  else if n = 1 then Some (SilPass, e, g')
                  else Some (SilUnsupported, 0, g') }"

section \<open>Topology and configuration queries\<close>

text \<open>
  The queries return the value through a pointer that is only written on success: \<open>None\<close> in the second
  component when it is left alone.
\<close>

type_synonym 'a query = "(SIL_STATUS \<times> 'a option \<times> APOBLIB_INFO) option"

definition with_entry ::
  "nat \<Rightarrow> memory \<Rightarrow> u32 \<Rightarrow> u32 \<Rightarrow> u32 \<Rightarrow> APOBLIB_INFO \<Rightarrow> (nat \<Rightarrow> 'a) \<Rightarrow> 'a query" where
  "with_entry plat m GroupID DataTypeID InstanceID g f =
     do { (st, e, g') \<leftarrow> AmdGetApobEntryInstance plat m GroupID DataTypeID InstanceID 0 g;
          Some (st, if st = SilPass then Some (f e) else None, g') }"

definition ApobGetPhysCcdNumber :: "nat \<Rightarrow> memory \<Rightarrow> u32 \<Rightarrow> nat \<Rightarrow> APOBLIB_INFO \<Rightarrow> u8 query" where
  "ApobGetPhysCcdNumber plat m ApobInstanceId CcdIndex g =
     with_entry plat m APOB_CCX APOB_CCD_LOGICAL_TO_PHYSICAL_MAP_TYPE ApobInstanceId g
       (\<lambda>e. m (ccd_at e CcdIndex))"

definition ApobGetPhysComplexNumber ::
  "nat \<Rightarrow> memory \<Rightarrow> u32 \<Rightarrow> nat \<Rightarrow> nat \<Rightarrow> APOBLIB_INFO \<Rightarrow> u8 query" where
  "ApobGetPhysComplexNumber plat m ApobInstanceId CcdIndex CcxIndex g =
     with_entry plat m APOB_CCX APOB_CCD_LOGICAL_TO_PHYSICAL_MAP_TYPE ApobInstanceId g
       (\<lambda>e. m (complex_at e CcdIndex CcxIndex))"

definition ApobGetPhysCoreNumber ::
  "nat \<Rightarrow> memory \<Rightarrow> u32 \<Rightarrow> nat \<Rightarrow> nat \<Rightarrow> nat \<Rightarrow> APOBLIB_INFO \<Rightarrow> u8 query" where
  "ApobGetPhysCoreNumber plat m ApobInstanceId CcdIndex CcxIndex CoreIndex g =
     with_entry plat m APOB_CCX APOB_CCD_LOGICAL_TO_PHYSICAL_MAP_TYPE ApobInstanceId g
       (\<lambda>e. m (core_at e CcdIndex CcxIndex CoreIndex))"

definition ApobGetIsThreadEnabled ::
  "nat \<Rightarrow> memory \<Rightarrow> u32 \<Rightarrow> nat \<Rightarrow> nat \<Rightarrow> nat \<Rightarrow> nat \<Rightarrow> APOBLIB_INFO \<Rightarrow> bool query" where
  "ApobGetIsThreadEnabled plat m ApobInstanceId CcdIndex CcxIndex CoreIndex ThreadIndex g =
     with_entry plat m APOB_CCX APOB_CCD_LOGICAL_TO_PHYSICAL_MAP_TYPE ApobInstanceId g
       (\<lambda>e. m (thread_at e CcdIndex CcxIndex CoreIndex ThreadIndex) \<noteq> 0)"

definition apob_instance :: "u32 \<Rightarrow> u32 \<Rightarrow> u32" where
  "apob_instance Socket Die = push_bit 8 Socket OR Die"

text \<open>\<^verbatim>\<open>ApobGetCcdLogToPhysMap\<close> copies the whole entry; the copy is returned as a byte memory at 0.\<close>

definition ApobGetCcdLogToPhysMap ::
  "nat \<Rightarrow> memory \<Rightarrow> u32 \<Rightarrow> u32 \<Rightarrow> APOBLIB_INFO \<Rightarrow> memory query" where
  "ApobGetCcdLogToPhysMap plat m Socket Die g =
     with_entry plat m APOB_CCX APOB_CCD_LOGICAL_TO_PHYSICAL_MAP_TYPE (apob_instance Socket Die) g
       (\<lambda>e. memcpy (\<lambda>_. 0) 0 (map m [e ..< e + sizeof_ccd_map]))"

text \<open>A counting loop that stops at the first index that fails the test.\<close>

function count_loop :: "(nat \<Rightarrow> bool) \<Rightarrow> nat \<Rightarrow> nat \<Rightarrow> u32 \<Rightarrow> u32" where
  "count_loop P Limit Index n =
     (if Index < Limit then if P Index then count_loop P Limit (Suc Index) (n + 1) else n else n)"
  by pat_completeness auto
termination by (relation "measure (\<lambda>(P, mx, i, n). mx - i)") auto

lemmas [simp del] = count_loop.simps

definition ApobGetCoreTopologyOnDie ::
  "nat \<Rightarrow> memory \<Rightarrow> u32 \<Rightarrow> u32 \<Rightarrow> APOBLIB_INFO \<Rightarrow> (u32 \<times> u32 \<times> u32 \<times> u32) query" where
  "ApobGetCoreTopologyOnDie plat m Socket Die g =
     do { (st, r, g') \<leftarrow> ApobGetCcdLogToPhysMap plat m Socket Die g;
          case r of None \<Rightarrow> Some (st, None, g')
          | Some c \<Rightarrow>
              Some (SilPass, Some
                (count_loop (\<lambda>i. c (ccd_at 0 i) \<noteq> CCX_NOT_PRESENT) 12 0 0,
                 count_loop (\<lambda>i. c (complex_at 0 0 i) \<noteq> CCX_NOT_PRESENT) 2 0 0,
                 count_loop (\<lambda>i. c (core_at 0 0 0 i) \<noteq> CCX_NOT_PRESENT) 8 0 0,
                 count_loop (\<lambda>i. c (thread_at 0 0 0 0 i) = 1) 2 0 0), g') }"

definition ApobGetSubProgram :: "nat \<Rightarrow> memory \<Rightarrow> APOBLIB_INFO \<Rightarrow> u32 query" where
  "ApobGetSubProgram plat m g =
     with_entry plat m APOB_GEN APOB_GEN_CONFIGURATION_INFO_TYPE 0 g (\<lambda>e. ucast (m (e + 101)))"

definition ApobGetActionOnBistFailure :: "nat \<Rightarrow> memory \<Rightarrow> APOBLIB_INFO \<Rightarrow> u8 query" where
  "ApobGetActionOnBistFailure plat m g =
     with_entry plat m APOB_MEM APOB_APCB_BOOT_INFO_TYPE 0 g (\<lambda>e. m (e + 48 + 4 + 12 * (2 * 12 * 1) + 2))"

text \<open>
  \<^verbatim>\<open>ApobGetDimmSpdData\<close>: the loop index is an 8-bit variable and the bound a 32-bit one. The loop has no
  break, so a later match overwrites an earlier one. The result is the bytes last copied, if any.
\<close>

definition spd_at :: "nat \<Rightarrow> nat \<Rightarrow> nat" where "spd_at e i = e + 52 + 1036 * i"

definition spd_matches :: "memory \<Rightarrow> nat \<Rightarrow> u8 \<Rightarrow> u8 \<Rightarrow> u8 \<Rightarrow> nat \<Rightarrow> bool" where
  "spd_matches m e Socket Channel Dimm i \<longleftrightarrow>
     m (spd_at e i + 8) = Socket \<and> m (spd_at e i + 9) = Channel \<and> m (spd_at e i + 10) = Dimm
     \<and> m (spd_at e i + 1) \<noteq> 0"

definition spd_copy :: "memory \<Rightarrow> nat \<Rightarrow> u32 \<Rightarrow> nat \<Rightarrow> u8 list" where
  "spd_copy m e BufSize i =
     (let n = (if 1024 < BufSize then 1024 else unat BufSize)
      in map m [spd_at e i + 12 ..< spd_at e i + 12 + n])"

partial_function (option) spd_loop ::
  "memory \<Rightarrow> nat \<Rightarrow> u8 \<Rightarrow> u8 \<Rightarrow> u8 \<Rightarrow> u32 \<Rightarrow> u32 \<Rightarrow> u8 \<Rightarrow> SIL_STATUS \<times> u8 list option
     \<Rightarrow> (SIL_STATUS \<times> u8 list option) option" where
  "spd_loop m e Socket Channel Dimm BufSize IndexCount Index r =
     (if ucast Index < IndexCount then
        spd_loop m e Socket Channel Dimm BufSize IndexCount (Index + 1)
          (if spd_matches m e Socket Channel Dimm (unat Index)
           then (SilPass, Some (spd_copy m e BufSize (unat Index))) else r)
      else Some r)"

definition spd_count :: "memory \<Rightarrow> nat \<Rightarrow> u32" where
  "spd_count m e = ucast ((ucast (ent_TypeSize m e) - 52 :: u64) div 1036)"

definition ApobGetDimmSpdData ::
  "nat \<Rightarrow> memory \<Rightarrow> u32 \<Rightarrow> u8 \<Rightarrow> u8 \<Rightarrow> u8 \<Rightarrow> u32 \<Rightarrow> APOBLIB_INFO \<Rightarrow> u8 list query" where
  "ApobGetDimmSpdData plat m ApobInstanceId Socket Channel Dimm BufSize g =
     do { (st, e, g') \<leftarrow> AmdGetApobEntryInstance plat m APOB_MEM APOB_MEM_DIMM_SPD_DATA_TYPE ApobInstanceId 0 g;
          if st = SilPass then
            do { (st', r) \<leftarrow> spd_loop m e Socket Channel Dimm BufSize (spd_count m e) 0 (SilNotFound, None);
                 Some (st', r, g') }
          else Some (st, None, g') }"

section \<open>The entry walk\<close>

text \<open>\<open>apob_chain m p es lim\<close>: the entries of the container from \<open>p\<close> to the limit start at \<open>es\<close>.\<close>

fun apob_chain :: "memory \<Rightarrow> nat \<Rightarrow> nat list \<Rightarrow> nat \<Rightarrow> bool" where
  "apob_chain m p [] lim \<longleftrightarrow> lim \<le> p"
| "apob_chain m p (e # es) lim \<longleftrightarrow>
     e = p \<and> p < lim \<and> ent_TypeSize m p \<noteq> 0 \<and> apob_chain m (p + unat (ent_TypeSize m p)) es lim"

lemma apob_walk_chain:
  assumes "apob_chain m p es lim"
  shows "apob_walk m g t lim p acc = Some (acc @ filter (entry_matches m g t) es)"
  using assms by (induction es arbitrary: p acc) (subst apob_walk.simps, simp)+

lemma apob_walk_stuck:
  assumes "p < lim" and "ent_TypeSize m p = 0"
  shows "apob_walk m g t lim p acc = None"
proof -
  have "\<not> (q < lim \<and> ent_TypeSize m q = 0)" if "apob_walk m g t lim q acc = Some y" for q acc y
  proof (rule apob_walk.raw_induct [OF _ that, where P = "\<lambda>m g t lim q acc y.
        \<not> (q < lim \<and> ent_TypeSize m q = 0)"], goal_cases)
    case (1 walk m g t lim q acc y)
    show ?case
    proof
      assume z: "q < lim \<and> ent_TypeSize m q = 0"
      then obtain acc' where "walk m g t lim q acc' = Some y" using 1(2) by (auto split: if_splits)
      from 1(1) [OF this] z show False by blast
    qed
  qed
  then show ?thesis using assms by (cases "apob_walk m g t lim p acc") blast+
qed

text \<open>The same for an entry of size 0 that the walk reaches after any number of steps.\<close>

lemma apob_steps_mono: "p \<le> ((\<lambda>p. p + unat (ent_TypeSize m p)) ^^ k) p"
proof (induction k)
  case (Suc k)
  then show ?case by (simp add: trans_le_add1)
qed simp

lemma apob_walk_stuck_later:
  assumes "((\<lambda>p. p + unat (ent_TypeSize m p)) ^^ k) p < lim"
    and "ent_TypeSize m (((\<lambda>p. p + unat (ent_TypeSize m p)) ^^ k) p) = 0"
  shows "apob_walk m g t lim p acc = None"
  using assms
proof (induction k arbitrary: p acc)
  case 0
  then show ?case by (simp add: apob_walk_stuck)
next
  case (Suc k)
  have "p < lim" using apob_steps_mono [where p = p and m = m and k = "Suc k"] Suc.prems(1) by linarith
  moreover have "((\<lambda>p. p + unat (ent_TypeSize m p)) ^^ Suc k) p
      = ((\<lambda>p. p + unat (ent_TypeSize m p)) ^^ k) (p + unat (ent_TypeSize m p))"
    by (simp only: funpow_Suc_right comp_apply)
  ultimately show ?case
    using Suc.IH [of "p + unat (ent_TypeSize m p)"] Suc.prems
    by (subst apob_walk.simps) (simp del: funpow.simps)
qed

lemma scan_instance_eq:
  "scan_instance m i es n e =
     (n + length (filter (\<lambda>e. ent_InstanceID m e = i) es),
      if filter (\<lambda>e. ent_InstanceID m e = i) es = [] then e
      else last (filter (\<lambda>e. ent_InstanceID m e = i) es))"
  by (induction es arbitrary: n e) auto

text \<open>The container is valid at \<open>h\<close>: supported version and a well-formed chain \<open>es\<close>.\<close>

definition apob_valid :: "memory \<Rightarrow> nat \<Rightarrow> nat list \<Rightarrow> bool" where
  "apob_valid m h es \<longleftrightarrow> 5 \<le> hdr_Version m h
     \<and> apob_chain m (h + unat (hdr_OffsetOfFirstEntry m h)) es (h + unat (hdr_Size m h))"

definition apob_instances :: "memory \<Rightarrow> u32 \<Rightarrow> u32 \<Rightarrow> u32 \<Rightarrow> nat list \<Rightarrow> nat list" where
  "apob_instances m g t i es = filter (\<lambda>e. entry_matches m g t e \<and> ent_InstanceID m e = i) es"

lemma AmdGetApobEntryInstance_valid:
  assumes "Supported g" and "apob_valid m (ApobAddr g) es"
    and "length (filter (entry_matches m gr ty) es) \<le> 255"
  shows "AmdGetApobEntryInstance plat m gr ty i base g =
    (case apob_instances m gr ty i es of
       [] \<Rightarrow> Some (SilNotFound, 0, g)
     | [e] \<Rightarrow> Some (SilPass, e, g)
     | _ \<Rightarrow> Some (SilUnsupported, 0, g))"
proof -
  let ?ms = "filter (entry_matches m gr ty) es"
  have "AmdGetApobEntry plat m gr ty base g
      = Some (if ?ms = [] then SilNotFound else SilPass, ?ms, g)"
    using assms(1,2) apob_walk_chain [of m _ es _ gr ty "[]"]
    by (simp add: AmdGetApobEntry_def AmdGetApobInfo_def Let_def apob_valid_def)
  moreover have "filter (\<lambda>e. ent_InstanceID m e = i) ?ms = apob_instances m gr ty i es"
    by (simp add: apob_instances_def conj_commute)
  ultimately show ?thesis
    using assms(3)
    by (auto simp: AmdGetApobEntryInstance_def APOB_ENTRY_INSTANCE_MAX_def scan_instance_eq Let_def
        apob_instances_def filter_empty_conv split: list.split)
qed

section \<open>Counting and the SPD scan\<close>

lemma count_loop_eq:
  assumes "i \<le> k"
  shows "count_loop P k i n = n + of_nat (length (takeWhile P [i ..< k]))"
  using assms
proof (induction "k - i" arbitrary: i n)
  case 0
  then show ?case by (simp add: count_loop.simps)
next
  case (Suc d)
  then have "i < k" by simp
  then show ?case
    using Suc.hyps(1) [of "Suc i" "n + 1"] Suc.hyps(2)
    by (subst count_loop.simps) (simp add: upt_conv_Cons)
qed

definition spd_hits :: "memory \<Rightarrow> nat \<Rightarrow> u8 \<Rightarrow> u8 \<Rightarrow> u8 \<Rightarrow> nat \<Rightarrow> nat \<Rightarrow> nat list" where
  "spd_hits m e s c d i k = filter (spd_matches m e s c d) [i ..< k]"

lemma spd_loop_eq:
  assumes "unat Index \<le> unat k" and "unat k < 256"
  shows "spd_loop m e s c d b k Index r =
    Some (if spd_hits m e s c d (unat Index) (unat k) = [] then r
          else (SilPass, Some (spd_copy m e b (last (spd_hits m e s c d (unat Index) (unat k))))))"
  using assms
proof (induction "unat k - unat Index" arbitrary: Index r)
  case 0
  then have "\<not> ucast Index < k"
    by (simp add: word_less_nat_alt unat_ucast_widen)
  then show ?case using 0 by (subst spd_loop.simps) (simp add: spd_hits_def)
next
  case (Suc n)
  have lt: "unat Index < unat k" using Suc.hyps(2) by simp
  then have c: "ucast Index < k"
    by (simp add: word_less_nat_alt unat_ucast_widen)
  have s: "unat (Index + 1) = Suc (unat Index)"
    using lt Suc.prems(2) by (subst unat_plus_small) simp_all
  have h: "spd_hits m e s c' d (unat Index) (unat k) =
      (if spd_matches m e s c' d (unat Index) then [unat Index] else [])
      @ spd_hits m e s c' d (Suc (unat Index)) (unat k)" for c'
    using lt by (simp add: spd_hits_def upt_conv_Cons)
  show ?case
    using Suc.hyps(1) [of "Index + 1"] Suc.hyps(2) Suc.prems(2) lt s c
    by (subst spd_loop.simps) (auto simp: h)
qed

lemma spd_loop_wraps:
  assumes "256 \<le> unat k"
  shows "spd_loop m e s c d b k Index r = None"
proof -
  have "\<not> (256 \<le> unat k)" if "spd_loop m e s c d b k Index r = Some y" for Index r y
  proof (rule spd_loop.raw_induct [OF _ that, where P = "\<lambda>m e s c d b k Index r y. \<not> (256 \<le> unat k)"],
      goal_cases)
    case (1 loop m e s c d b k Index r y)
    have "unat (ucast Index :: u32) < 256"
      using unsigned_less [of Index, where ?'a = nat]
      by (simp add: unat_ucast_widen)
    then show ?case using 1 by (auto simp: word_less_nat_alt split: if_splits)
  qed
  then show ?thesis using assms by (cases "spd_loop m e s c d b k Index r") blast+
qed

end
