(* ===== verification/Rc_Types.thy ===== *)
theory Rc_Types
  imports Sil_Prelude
begin

text \<open>
  The data of the fabric resource manager (\<^verbatim>\<open>xUSL/RcMgr\<close>): the structures of
  \<^verbatim>\<open>FabricResourceManager.h\<close>, \<^verbatim>\<open>RcMgrIp2Ip.h\<close> and \<^verbatim>\<open>RcManager4-api.h\<close> as records, and the constants. An array
  indexed by socket and root bridge is a function of two numbers; the code indexes it below the
  socket and root bridge counts of the input block.
\<close>

type_synonym 'a rb_array = "nat \<Rightarrow> nat \<Rightarrow> 'a"

definition rb_upd :: "'a rb_array \<Rightarrow> nat \<Rightarrow> nat \<Rightarrow> 'a \<Rightarrow> 'a rb_array" where
  "rb_upd a s r v = a(s := (a s)(r := v))"

lemma rb_upd_apply [simp]: "rb_upd a s r v s' r' = (if s' = s \<and> r' = r then v else a s' r')"
  by (simp add: rb_upd_def)

section \<open>Constants\<close>

definition RCMGR_MMIO_MIN_SIZE :: u64 where "RCMGR_MMIO_MIN_SIZE = 0x10000"
definition RCMGR_NON_PCI_MMIO_ALIGN_MASK :: u64 where "RCMGR_NON_PCI_MMIO_ALIGN_MASK = 0xFFFF"
definition RCMGR_NON_PCI_MMIO_ALIGN_MASK_ABOVE4G :: u64 where
  "RCMGR_NON_PCI_MMIO_ALIGN_MASK_ABOVE4G = 0xFFFFFFF"
definition MMIO_MIN_NON_PCI_SIZE_ABOVE4G :: u64 where "MMIO_MIN_NON_PCI_SIZE_ABOVE4G = 0x20200000"
definition DF_IO_LIMIT :: u32 where "DF_IO_LIMIT = 0x2000000"
definition X86IO_LIMIT :: u32 where "X86IO_LIMIT = 0x10000"
definition X86_LEGACY_IO_SIZE :: u32 where "X86_LEGACY_IO_SIZE = 0x1000"
definition RCMGR_IO_SIZE_MASK :: u64 where "RCMGR_IO_SIZE_MASK = 0xFFFFF000"
definition SIZE_16M_ALIGN :: u64 where "SIZE_16M_ALIGN = 0xFFFFFFFFFF000000"
definition BOTTOM_OF_COMPAT :: u64 where "BOTTOM_OF_COMPAT = 0xFEC00000"

definition MMIO_BELOW_4G :: u8 where "MMIO_BELOW_4G = 0"
definition MMIO_ABOVE_4G :: u8 where "MMIO_ABOVE_4G = 1"
definition P_MMIO_BELOW_4G :: u8 where "P_MMIO_BELOW_4G = 2"
definition P_MMIO_ABOVE_4G :: u8 where "P_MMIO_ABOVE_4G = 3"
definition NON_PCI_DEVICE_BELOW_4G :: u8 where "NON_PCI_DEVICE_BELOW_4G = 4"
definition NON_PCI_DEVICE_ABOVE_4G :: u8 where "NON_PCI_DEVICE_ABOVE_4G = 5"

lemmas mmio_types = MMIO_BELOW_4G_def MMIO_ABOVE_4G_def P_MMIO_BELOW_4G_def P_MMIO_ABOVE_4G_def
  NON_PCI_DEVICE_BELOW_4G_def NON_PCI_DEVICE_ABOVE_4G_def

lemmas rc_consts = RCMGR_MMIO_MIN_SIZE_def RCMGR_NON_PCI_MMIO_ALIGN_MASK_def
  RCMGR_NON_PCI_MMIO_ALIGN_MASK_ABOVE4G_def MMIO_MIN_NON_PCI_SIZE_ABOVE4G_def DF_IO_LIMIT_def
  X86IO_LIMIT_def X86_LEGACY_IO_SIZE_def RCMGR_IO_SIZE_MASK_def SIZE_16M_ALIGN_def
  BOTTOM_OF_COMPAT_def

section \<open>Structures\<close>

record FABRIC_ADDR_APERTURE =
  ap_Base :: u64
  ap_Size :: u64
  ap_Alignment :: u64

record FABRIC_RESOURCE_FOR_EACH_RB =
  NonPrefetchableMmioSizeAbove4G :: "FABRIC_ADDR_APERTURE rb_array"
  PrefetchableMmioSizeAbove4G :: "FABRIC_ADDR_APERTURE rb_array"
  NonPrefetchableMmioSizeBelow4G :: "FABRIC_ADDR_APERTURE rb_array"
  PrefetchableMmioSizeBelow4G :: "FABRIC_ADDR_APERTURE rb_array"
  PrimaryRbSecondNonPrefetchableMmioSizeBelow4G :: FABRIC_ADDR_APERTURE
  PrimaryRbSecondPrefetchableMmioSizeBelow4G :: FABRIC_ADDR_APERTURE
  IO_aperture :: "FABRIC_ADDR_APERTURE rb_array"
  PciBusNumber :: "u16 rb_array"

record FABRIC_ADDR_SPACE_SIZE =
  ss_IoSize :: u32
  ss_IoSizeReqInc :: u32
  ss_MmioSizeBelow4G :: u32
  ss_MmioSizeBelow4GReqInc :: u32
  ss_MmioSizeAbove4G :: u64
  ss_MmioSizeAbove4GReqInc :: u64

record FABRIC_MMIO_REGION =
  BaseNonPci :: u64
  SizeNonPci :: u64
  UsedSizeNonPci :: u64
  BaseNonPrefetch :: u64
  SizeNonPrefetch :: u64
  UsedSizeNonPrefetch :: u64
  BasePrefetch :: u64
  SizePrefetch :: u64
  UsedSizePrefetch :: u64
  AlignNonPrefetch :: u64
  AlignPrefetch :: u64

record FABRIC_MMIO_MANAGER =
  MmioRegionAbove4G :: "FABRIC_MMIO_REGION rb_array"
  MmioRegionBelow4G :: "FABRIC_MMIO_REGION rb_array"
  AllocateMmioAbove4GOnThisRb :: "bool rb_array"
  AllocateMmioBelow4GOnThisRb :: "bool rb_array"
  PrimaryRbHas2ndMmioBelow4G :: bool
  ReportToGcd :: bool
  PrimaryRb2ndMmioPairBelow4G :: u8

record FABRIC_IO_REGION =
  IoBase :: u32
  IoSize :: u32
  IoUsed :: u32

record FABRIC_IO_MANAGER =
  GlobalCtrl :: bool
  IoRegion :: "FABRIC_IO_REGION rb_array"

record RCMGR_INPUT_BLK =
  IoRcMgr :: FABRIC_IO_MANAGER
  MmioRcMgr :: FABRIC_MMIO_MANAGER
  SetRcBasedOnNv :: bool
  SocketNumber :: nat
  RbsPerSocket :: nat
  McptEnable :: bool
  PciExpressBaseAddress :: u64
  BottomMmioReservedForPrimaryRb :: u32
  MmioSizePerRbForNonPciDevice :: u32
  MmioAbove4GLimit :: u64
  Above4GMmioSizePerRbForNonPciDevice :: u32
  BmcSocket :: u8
  EarlyBmcLinkLaneNum :: u8
  ResourceDistributionNv :: "bool list"
  ResourceSizeForEachRb :: FABRIC_RESOURCE_FOR_EACH_RB

record FABRIC_TARGET =
  PciBusNum :: u8
  SocketNum :: nat
  RbNum :: nat
  TgtType :: nat
  PciSegNum :: u16

record FABRIC_MMIO_ATTRIBUTE =
  ReadEnable :: bool
  WriteEnable :: bool
  NonPosted :: bool
  CpuDis :: bool
  MmioType :: u8

end
