(* ===== verification/Sil_Bitfield.thy ===== *)
theory Sil_Bitfield
  imports Sil_Prelude
begin

text \<open>
  C bit-fields of 32-bit register unions: reading the field of width \<open>w\<close> at bit \<open>lo\<close>, and assigning to
  it, which truncates the value and leaves the other bits alone. The register formats of the
  components are built from these two operations.
\<close>

definition get_field :: "nat \<Rightarrow> nat \<Rightarrow> 'a::len word \<Rightarrow> 'a word" where
  "get_field lo w x = take_bit w (drop_bit lo x)"

definition set_field :: "nat \<Rightarrow> nat \<Rightarrow> 'a::len word \<Rightarrow> 'a word \<Rightarrow> 'a word" where
  "set_field lo w v x = (x AND NOT (push_bit lo (mask w))) OR push_bit lo (take_bit w v)"

lemma bit_get_field: "bit (get_field lo w x) n \<longleftrightarrow> n < w \<and> bit x (lo + n)"
  by (auto simp: get_field_def bit_simps)

lemma bit_set_field:
  fixes x :: "'a::len word"
  shows "bit (set_field lo w v x) n \<longleftrightarrow>
    n < LENGTH('a) \<and> (if lo \<le> n \<and> n < lo + w then bit v (n - lo) else bit x n)"
  by (auto simp: set_field_def bit_simps not_less dest: bit_imp_le_length)

lemma get_set_field_same [simp]:
  fixes x :: "'a::len word"
  assumes "lo + w \<le> LENGTH('a)"
  shows "get_field lo w (set_field lo w v x) = take_bit w v"
  using assms by (intro bit_word_eqI) (auto simp: bit_get_field bit_set_field bit_simps)

lemma get_set_field_other [simp]:
  fixes x :: "'a::len word"
  assumes "lo + w \<le> lo' \<or> lo' + w' \<le> lo"
  shows "get_field lo w (set_field lo' w' v x) = get_field lo w x"
  using assms
  by (intro bit_word_eqI) (auto simp: bit_get_field bit_set_field dest: bit_imp_le_length)

lemma get_field_zero [simp]: "get_field lo w 0 = 0"
  by (simp add: get_field_def)

lemma get_field_small:
  fixes x :: "'a::len word"
  shows "unat (get_field lo w x) < 2 ^ w"
proof -
  have "unat (get_field lo w x) = take_bit w (unat (drop_bit lo x))"
    by (simp add: get_field_def unsigned_take_bit_eq)
  then show ?thesis by simp
qed

lemma take_bit_small_word:
  fixes v :: "'a::len word"
  assumes "unat v < 2 ^ w"
  shows "take_bit w v = v"
  using assms by (simp add: word_unat_eq_iff unsigned_take_bit_eq take_bit_nat_eq_self)

end
