(* ===== verification/Sil_Pci.thy ===== *)
theory Sil_Pci
  imports Sil_Bitfield
begin

text \<open>
  PCI configuration access (\<^verbatim>\<open>xUSL/CommonLib/PciOps.c\<close>, \<^verbatim>\<open>xUSL/Include/Pci.h\<close>), SMN access through the
  index/data pair of the root complex (\<^verbatim>\<open>SmnAccess.c\<close>) and MMIO read-modify-write (\<^verbatim>\<open>MmioOps.c\<close>). The
  device behind the accesses is a parameter: a record of read and write functions on a hardware
  state, where a read may change the state too.
\<close>

section \<open>PCI addresses\<close>

text \<open>The union \<^verbatim>\<open>PCI_ADDR\<close>: the code zeroes the value and assigns the fields.\<close>

definition pci_addr :: "u32 \<Rightarrow> u32 \<Rightarrow> u32 \<Rightarrow> u32 \<Rightarrow> u32 \<Rightarrow> u32" where
  "pci_addr Segment Bus Device Function Register =
     set_field 0 12 Register (set_field 12 3 Function (set_field 15 5 Device
       (set_field 20 8 Bus (set_field 28 4 Segment 0))))"

definition addr_Register :: "u32 \<Rightarrow> u32" where "addr_Register a = get_field 0 12 a"
definition addr_Function :: "u32 \<Rightarrow> u32" where "addr_Function a = get_field 12 3 a"
definition addr_Device :: "u32 \<Rightarrow> u32" where "addr_Device a = get_field 15 5 a"
definition addr_Bus :: "u32 \<Rightarrow> u32" where "addr_Bus a = get_field 20 8 a"
definition addr_Segment :: "u32 \<Rightarrow> u32" where "addr_Segment a = get_field 28 4 a"

lemmas pci_addr_defs = pci_addr_def addr_Register_def addr_Function_def addr_Device_def addr_Bus_def
  addr_Segment_def

definition MAKE_SBDFO :: "u32 \<Rightarrow> u32 \<Rightarrow> u32 \<Rightarrow> u32 \<Rightarrow> u32 \<Rightarrow> u32" where
  "MAKE_SBDFO Seg Bus Dev Fun Off =
     push_bit 28 Seg OR push_bit 20 Bus OR push_bit 15 Dev OR push_bit 12 Fun OR Off"

section \<open>Accesses\<close>

record ('a, 'h) bus_ops =
  bus_rd8 :: "'a \<Rightarrow> 'h \<Rightarrow> u8 \<times> 'h"
  bus_rd16 :: "'a \<Rightarrow> 'h \<Rightarrow> u16 \<times> 'h"
  bus_rd32 :: "'a \<Rightarrow> 'h \<Rightarrow> u32 \<times> 'h"
  bus_rd64 :: "'a \<Rightarrow> 'h \<Rightarrow> u64 \<times> 'h"
  bus_wr8 :: "'a \<Rightarrow> u8 \<Rightarrow> 'h \<Rightarrow> 'h"
  bus_wr16 :: "'a \<Rightarrow> u16 \<Rightarrow> 'h \<Rightarrow> 'h"
  bus_wr32 :: "'a \<Rightarrow> u32 \<Rightarrow> 'h \<Rightarrow> 'h"
  bus_wr64 :: "'a \<Rightarrow> u64 \<Rightarrow> 'h \<Rightarrow> 'h"

type_synonym 'h pci_ops = "(u32, 'h) bus_ops"

definition xUSLPciRead8 :: "'h pci_ops \<Rightarrow> u32 \<Rightarrow> 'h \<Rightarrow> u8 \<times> 'h" where
  "xUSLPciRead8 ops Address = bus_rd8 ops Address"
definition xUSLPciWrite8 :: "'h pci_ops \<Rightarrow> u32 \<Rightarrow> u8 \<Rightarrow> 'h \<Rightarrow> 'h" where
  "xUSLPciWrite8 ops Address Value = bus_wr8 ops Address Value"
definition xUSLPciRead16 :: "'h pci_ops \<Rightarrow> u32 \<Rightarrow> 'h \<Rightarrow> u16 \<times> 'h" where
  "xUSLPciRead16 ops Address = bus_rd16 ops Address"
definition xUSLPciWrite16 :: "'h pci_ops \<Rightarrow> u32 \<Rightarrow> u16 \<Rightarrow> 'h \<Rightarrow> 'h" where
  "xUSLPciWrite16 ops Address Value = bus_wr16 ops Address Value"
definition xUSLPciRead32 :: "'h pci_ops \<Rightarrow> u32 \<Rightarrow> 'h \<Rightarrow> u32 \<times> 'h" where
  "xUSLPciRead32 ops Address = bus_rd32 ops Address"
definition xUSLPciWrite32 :: "'h pci_ops \<Rightarrow> u32 \<Rightarrow> u32 \<Rightarrow> 'h \<Rightarrow> 'h" where
  "xUSLPciWrite32 ops Address Value = bus_wr32 ops Address Value"
definition xUSLPciRead64 :: "'h pci_ops \<Rightarrow> u32 \<Rightarrow> 'h \<Rightarrow> u64 \<times> 'h" where
  "xUSLPciRead64 ops Address = bus_rd64 ops Address"
definition xUSLPciWrite64 :: "'h pci_ops \<Rightarrow> u32 \<Rightarrow> u64 \<Rightarrow> 'h \<Rightarrow> 'h" where
  "xUSLPciWrite64 ops Address Value = bus_wr64 ops Address Value"

definition xUSLPciReadModifyWrite8 :: "'h pci_ops \<Rightarrow> u32 \<Rightarrow> u8 \<Rightarrow> u8 \<Rightarrow> 'h \<Rightarrow> 'h" where
  "xUSLPciReadModifyWrite8 ops Address AndMask OrMask h =
     (let (Value, h) = xUSLPciRead8 ops Address h;
          Value = Value AND AndMask; Value = Value OR OrMask
      in xUSLPciWrite8 ops Address Value h)"

definition xUSLPciReadModifyWrite16 :: "'h pci_ops \<Rightarrow> u32 \<Rightarrow> u16 \<Rightarrow> u16 \<Rightarrow> 'h \<Rightarrow> 'h" where
  "xUSLPciReadModifyWrite16 ops Address AndMask OrMask h =
     (let (Value, h) = xUSLPciRead16 ops Address h;
          Value = Value AND AndMask; Value = Value OR OrMask
      in xUSLPciWrite16 ops Address Value h)"

definition xUSLPciReadModifyWrite32 :: "'h pci_ops \<Rightarrow> u32 \<Rightarrow> u32 \<Rightarrow> u32 \<Rightarrow> 'h \<Rightarrow> 'h" where
  "xUSLPciReadModifyWrite32 ops Address AndMask OrMask h =
     (let (Value, h) = xUSLPciRead32 ops Address h;
          Value = Value AND AndMask; Value = Value OR OrMask
      in xUSLPciWrite32 ops Address Value h)"

definition xUSLIndirectPciRead32 :: "'h pci_ops \<Rightarrow> u32 \<Rightarrow> u32 \<Rightarrow> 'h \<Rightarrow> u32 \<times> 'h" where
  "xUSLIndirectPciRead32 ops PciBase IndexAddress h =
     (let PciBase = PciBase OR 0xB8; h = xUSLPciWrite32 ops PciBase IndexAddress h
      in xUSLPciRead32 ops (PciBase + 4) h)"

definition xUSLIndirectPciWrite32 :: "'h pci_ops \<Rightarrow> u32 \<Rightarrow> u32 \<Rightarrow> u32 \<Rightarrow> 'h \<Rightarrow> 'h" where
  "xUSLIndirectPciWrite32 ops PciBase IndexAddress Value h =
     (let PciBase = PciBase OR 0xB8; h = xUSLPciWrite32 ops PciBase IndexAddress h
      in xUSLPciWrite32 ops (PciBase + 4) Value h)"

datatype ACCESS_WIDTH = AccessWidthNone | AccessWidth8 | AccessWidth16 | AccessWidth32 | AccessWidth64
  | AccessS3SaveWidth8 | AccessS3SaveWidth16 | AccessS3SaveWidth32 | AccessS3SaveWidth64

text \<open>
  \<^verbatim>\<open>xUSLPciRead\<close> and \<^verbatim>\<open>xUSLPciWrite\<close> access a caller's 32-bit variable through a pointer: a narrow read
  replaces only its low bytes, and an unsupported width leaves it as it is.
\<close>

definition xUSLPciRead :: "'h pci_ops \<Rightarrow> u32 \<Rightarrow> ACCESS_WIDTH \<Rightarrow> u32 \<Rightarrow> 'h \<Rightarrow> u32 \<times> 'h" where
  "xUSLPciRead ops Address Width var h =
     (if Width \<in> {AccessWidth8, AccessS3SaveWidth8}
        then let (v, h) = xUSLPciRead8 ops Address h in (set_field 0 8 (ucast v) var, h)
      else if Width \<in> {AccessWidth16, AccessS3SaveWidth16}
        then let (v, h) = xUSLPciRead16 ops Address h in (set_field 0 16 (ucast v) var, h)
      else if Width \<in> {AccessWidth32, AccessS3SaveWidth32} then xUSLPciRead32 ops Address h
      else (var, h))"

definition xUSLPciWrite :: "'h pci_ops \<Rightarrow> u32 \<Rightarrow> ACCESS_WIDTH \<Rightarrow> u32 \<Rightarrow> 'h \<Rightarrow> 'h" where
  "xUSLPciWrite ops Address Width var h =
     (if Width \<in> {AccessWidth8, AccessS3SaveWidth8} then xUSLPciWrite8 ops Address (ucast var) h
      else if Width \<in> {AccessWidth16, AccessS3SaveWidth16} then xUSLPciWrite16 ops Address (ucast var) h
      else if Width \<in> {AccessWidth32, AccessS3SaveWidth32} then xUSLPciWrite32 ops Address var h
      else h)"

text \<open>\<^verbatim>\<open>xUSLPciRMW\<close> declares its variable without initialising it: \<open>garbage\<close> is what the stack held.\<close>

definition xUSLPciRMW ::
  "'h pci_ops \<Rightarrow> u32 \<Rightarrow> u32 \<Rightarrow> ACCESS_WIDTH \<Rightarrow> u32 \<Rightarrow> u32 \<Rightarrow> 'h \<Rightarrow> 'h" where
  "xUSLPciRMW ops garbage Address Width Mask Value h =
     (let (Data, h) = xUSLPciRead ops Address Width garbage h;
          Data = (Data AND Mask) OR Value
      in xUSLPciWrite ops Address Width Data h)"

section \<open>SMN access\<close>

definition smn_index_addr :: "u32 \<Rightarrow> u32 \<Rightarrow> u32" where
  "smn_index_addr SegmentNumber IohcBus = pci_addr SegmentNumber IohcBus 0 0 0xB8"
definition smn_data_addr :: "u32 \<Rightarrow> u32 \<Rightarrow> u32" where
  "smn_data_addr SegmentNumber IohcBus = pci_addr SegmentNumber IohcBus 0 0 0xBC"

definition xUSLSmnRead :: "'h pci_ops \<Rightarrow> u32 \<Rightarrow> u32 \<Rightarrow> u32 \<Rightarrow> 'h \<Rightarrow> u32 \<times> 'h" where
  "xUSLSmnRead ops SegmentNumber IohcBus SmnAddress h =
     (let h = xUSLPciWrite32 ops (smn_index_addr SegmentNumber IohcBus) SmnAddress h
      in xUSLPciRead32 ops (smn_data_addr SegmentNumber IohcBus) h)"

definition xUSLSmnWrite :: "'h pci_ops \<Rightarrow> u32 \<Rightarrow> u32 \<Rightarrow> u32 \<Rightarrow> u32 \<Rightarrow> 'h \<Rightarrow> 'h" where
  "xUSLSmnWrite ops SegmentNumber IohcBus SmnAddress Value h =
     (let h = xUSLPciWrite32 ops (smn_index_addr SegmentNumber IohcBus) SmnAddress h
      in xUSLPciWrite32 ops (smn_data_addr SegmentNumber IohcBus) Value h)"

definition xUSLSmnReadModifyWrite :: "'h pci_ops \<Rightarrow> u32 \<Rightarrow> u32 \<Rightarrow> u32 \<Rightarrow> u32 \<Rightarrow> u32 \<Rightarrow> 'h \<Rightarrow> 'h" where
  "xUSLSmnReadModifyWrite ops SegmentNumber IohcBus SmnAddress AndMask OrMask h =
     (let (RegValue, h) = xUSLSmnRead ops SegmentNumber IohcBus SmnAddress h;
          RegValue = RegValue AND AndMask; RegValue = RegValue OR OrMask
      in xUSLSmnWrite ops SegmentNumber IohcBus SmnAddress RegValue h)"

definition xUSLSmnRead8 :: "'h pci_ops \<Rightarrow> u32 \<Rightarrow> u32 \<Rightarrow> u32 \<Rightarrow> 'h \<Rightarrow> u8 \<times> 'h" where
  "xUSLSmnRead8 ops SegmentNumber IohcBus SmnAddress h =
     (let h = xUSLPciWrite32 ops (smn_index_addr SegmentNumber IohcBus) (SmnAddress AND 0xFFFFFFFC) h
      in xUSLPciRead8 ops (smn_data_addr SegmentNumber IohcBus + (SmnAddress AND 3)) h)"

definition xUSLSmnWrite8 :: "'h pci_ops \<Rightarrow> u32 \<Rightarrow> u32 \<Rightarrow> u32 \<Rightarrow> u8 \<Rightarrow> 'h \<Rightarrow> 'h" where
  "xUSLSmnWrite8 ops SegmentNumber IohcBus SmnAddress Value8 h =
     (let h = xUSLPciWrite32 ops (smn_index_addr SegmentNumber IohcBus) (SmnAddress AND 0xFFFFFFFC) h
      in xUSLPciWrite8 ops (smn_data_addr SegmentNumber IohcBus + (SmnAddress AND 3)) Value8 h)"

definition xUSLSmnReadModifyWrite8 :: "'h pci_ops \<Rightarrow> u32 \<Rightarrow> u32 \<Rightarrow> u32 \<Rightarrow> u8 \<Rightarrow> u8 \<Rightarrow> 'h \<Rightarrow> 'h" where
  "xUSLSmnReadModifyWrite8 ops SegmentNumber IohcBus SmnAddress AndMask OrMask h =
     (let (RegValue, h) = xUSLSmnRead8 ops SegmentNumber IohcBus SmnAddress h;
          RegValue = RegValue AND AndMask; RegValue = RegValue OR OrMask
      in xUSLSmnWrite8 ops SegmentNumber IohcBus SmnAddress RegValue h)"

section \<open>MMIO\<close>

definition xUSLMemReadModifyWrite8 :: "(nat, 'h) bus_ops \<Rightarrow> nat \<Rightarrow> u8 \<Rightarrow> u8 \<Rightarrow> 'h \<Rightarrow> 'h" where
  "xUSLMemReadModifyWrite8 ops Addr AndMask OrMask h =
     (let (Value, h) = bus_rd8 ops Addr h; Value = Value AND AndMask; Value = Value OR OrMask
      in bus_wr8 ops Addr Value h)"

definition xUSLMemReadModifyWrite16 :: "(nat, 'h) bus_ops \<Rightarrow> nat \<Rightarrow> u16 \<Rightarrow> u16 \<Rightarrow> 'h \<Rightarrow> 'h" where
  "xUSLMemReadModifyWrite16 ops Addr AndMask OrMask h =
     (let (Value, h) = bus_rd16 ops Addr h; Value = Value AND AndMask; Value = Value OR OrMask
      in bus_wr16 ops Addr Value h)"

definition xUSLMemReadModifyWrite32 :: "(nat, 'h) bus_ops \<Rightarrow> nat \<Rightarrow> u32 \<Rightarrow> u32 \<Rightarrow> 'h \<Rightarrow> 'h" where
  "xUSLMemReadModifyWrite32 ops Addr AndMask OrMask h =
     (let (Value, h) = bus_rd32 ops Addr h; Value = Value AND AndMask; Value = Value OR OrMask
      in bus_wr32 ops Addr Value h)"

section \<open>The read-modify-write contract\<close>

text \<open>
  A register port with a read-modify-write routine. On a register that behaves like storage (a read
  gives the value last written and changes nothing else that a later read of it can see), the routine
  leaves \<open>(old AND m) OR o\<close> behind; bits outside the masks survive, and repeating it changes nothing.
\<close>

definition storage_like :: "('h \<Rightarrow> 'v \<times> 'h) \<Rightarrow> ('v \<Rightarrow> 'h \<Rightarrow> 'h) \<Rightarrow> bool" where
  "storage_like rd wr \<longleftrightarrow> (\<forall>h v. fst (rd (wr v h)) = v) \<and> (\<forall>h. fst (rd (snd (rd h))) = fst (rd h))"

locale rmw_port =
  fixes rd :: "'a \<Rightarrow> 'h \<Rightarrow> 'w::len word \<times> 'h" and wr :: "'a \<Rightarrow> 'w word \<Rightarrow> 'h \<Rightarrow> 'h"
    and rmw :: "'a \<Rightarrow> 'w word \<Rightarrow> 'w word \<Rightarrow> 'h \<Rightarrow> 'h"
  assumes rmw_eq: "rmw a am om h = wr a ((fst (rd a h) AND am) OR om) (snd (rd a h))"
begin

lemma rmw_value:
  assumes "storage_like (rd a) (wr a)"
  shows "fst (rd a (rmw a am om h)) = (fst (rd a h) AND am) OR om"
  using assms by (simp add: rmw_eq storage_like_def)

lemma rmw_keeps_other_bits:
  assumes "storage_like (rd a) (wr a)" and "bit am n" and "\<not> bit om n"
  shows "bit (fst (rd a (rmw a am om h))) n \<longleftrightarrow> bit (fst (rd a h)) n"
  using assms(2,3) by (simp add: rmw_value [OF assms(1)] bit_or_iff bit_and_iff)

lemma rmw_idempotent:
  assumes "storage_like (rd a) (wr a)"
  shows "fst (rd a (rmw a am om (rmw a am om h))) = fst (rd a (rmw a am om h))"
  using assms by (simp add: rmw_value bit_eq_iff bit_or_iff bit_and_iff) blast

end

interpretation pci8: rmw_port "xUSLPciRead8 ops" "xUSLPciWrite8 ops" "xUSLPciReadModifyWrite8 ops" for ops
  by unfold_locales (simp add: xUSLPciReadModifyWrite8_def split_def Let_def)

interpretation pci16: rmw_port "xUSLPciRead16 ops" "xUSLPciWrite16 ops" "xUSLPciReadModifyWrite16 ops" for ops
  by unfold_locales (simp add: xUSLPciReadModifyWrite16_def split_def Let_def)

interpretation pci32: rmw_port "xUSLPciRead32 ops" "xUSLPciWrite32 ops" "xUSLPciReadModifyWrite32 ops" for ops
  by unfold_locales (simp add: xUSLPciReadModifyWrite32_def split_def Let_def)

interpretation mem8: rmw_port "bus_rd8 ops" "bus_wr8 ops" "xUSLMemReadModifyWrite8 ops" for ops
  by unfold_locales (simp add: xUSLMemReadModifyWrite8_def split_def Let_def)

interpretation mem16: rmw_port "bus_rd16 ops" "bus_wr16 ops" "xUSLMemReadModifyWrite16 ops" for ops
  by unfold_locales (simp add: xUSLMemReadModifyWrite16_def split_def Let_def)

interpretation mem32: rmw_port "bus_rd32 ops" "bus_wr32 ops" "xUSLMemReadModifyWrite32 ops" for ops
  by unfold_locales (simp add: xUSLMemReadModifyWrite32_def split_def Let_def)

interpretation smn: rmw_port "xUSLSmnRead ops seg bus" "xUSLSmnWrite ops seg bus"
  "xUSLSmnReadModifyWrite ops seg bus" for ops seg bus
  by unfold_locales (simp add: xUSLSmnReadModifyWrite_def split_def Let_def)

interpretation smn8: rmw_port "xUSLSmnRead8 ops seg bus" "xUSLSmnWrite8 ops seg bus"
  "xUSLSmnReadModifyWrite8 ops seg bus" for ops seg bus
  by unfold_locales (simp add: xUSLSmnReadModifyWrite8_def split_def Let_def)

section \<open>Addresses\<close>

lemma pci_addr_fields:
  "addr_Register (pci_addr s b d f r) = take_bit 12 r"
  "addr_Function (pci_addr s b d f r) = take_bit 3 f"
  "addr_Device (pci_addr s b d f r) = take_bit 5 d"
  "addr_Bus (pci_addr s b d f r) = take_bit 8 b"
  "addr_Segment (pci_addr s b d f r) = take_bit 4 s"
  by (simp_all add: pci_addr_defs)

lemma pci_addr_of_fields:
  "pci_addr (addr_Segment a) (addr_Bus a) (addr_Device a) (addr_Function a) (addr_Register a) = a"
  by (rule bit_word_eqI) (auto simp: pci_addr_defs bit_set_field bit_get_field)

lemma MAKE_SBDFO_pci_addr:
  assumes "unat s < 2 ^ 4" and "unat b < 2 ^ 8" and "unat d < 2 ^ 5" and "unat f < 2 ^ 3"
    and "unat r < 2 ^ 12"
  shows "MAKE_SBDFO s b d f r = pci_addr s b d f r"
proof -
  have t: "take_bit 4 s = s" "take_bit 8 b = b" "take_bit 5 d = d" "take_bit 3 f = f" "take_bit 12 r = r"
    using assms by (simp_all only: take_bit_small_word)
  have bs: "bit s n \<Longrightarrow> n < 4" "bit b n \<Longrightarrow> n < 8" "bit d n \<Longrightarrow> n < 5" "bit f n \<Longrightarrow> n < 3" "bit r n \<Longrightarrow> n < 12" for n
    using t by (metis bit_take_bit_iff)+
  show ?thesis
    by (rule bit_word_eqI) (auto simp: MAKE_SBDFO_def pci_addr_def bit_set_field bit_simps dest: bs)
qed

lemma set_field_low_ucast8: "ucast (set_field 0 8 (ucast (v :: u8)) (x :: u32)) = v"
  by (rule bit_word_eqI) (auto simp: bit_ucast_iff bit_set_field)

lemma set_field_low_ucast16: "ucast (set_field 0 16 (ucast (v :: u16)) (x :: u32)) = v"
  by (rule bit_word_eqI) (auto simp: bit_ucast_iff bit_set_field)

lemma ucast_and_or:
  "ucast ((x AND m) OR v) = (ucast x AND ucast m) OR (ucast v :: 'b::len word)"
  by (rule bit_word_eqI) (auto simp: bit_ucast_iff bit_and_iff bit_or_iff)

end
