(* ===== verification/Df_Topology.thy ===== *)
theory Df_Topology
  imports Sil_Pci
begin

text \<open>
  The data fabric of the Genoa SoC: register access (\<^verbatim>\<open>DF/DfX/DfXFabricRegisterAcc.c\<close>,
  \<^verbatim>\<open>DF/Common/FabricRegisterAccCmn.c\<close>), the device and component tables and the topology queries
  (\<^verbatim>\<open>DF/DfX/DfXBaseFabricTopology.c\<close>, \<^verbatim>\<open>DF/Common/BaseFabricTopologyCmn.c\<close>). The common code reaches the
  revision-specific code through the transfer table and other IPs reach both through the
  \<^verbatim>\<open>DF_IP2IP_API\<close>; in this build both tables hold the functions below, so the calls are written directly.
  The PCI hardware is a parameter. \<open>None\<close> is a failed assertion or an index past the end of a table.
\<close>

section \<open>Register access\<close>

definition FABRIC_REG_ACC_BC :: u32 where "FABRIC_REG_ACC_BC = 0xFF"

definition MAX_CCX_PER_CCD :: nat where "MAX_CCX_PER_CCD = 2"
definition MAX_CCX_PER_CCD_GENOA :: nat where "MAX_CCX_PER_CCD_GENOA = 1"

definition DfFabricRegisterAccGetPciDeviceNumberOfDie :: "nat \<Rightarrow> u32" where
  "DfFabricRegisterAccGetPciDeviceNumberOfDie Socket = of_nat Socket + 0x18"

text \<open>\<^verbatim>\<open>FABRIC_INDIRECT_CONFIG_ACCESS_ADDRESS_REGISTER\<close>: the index half of the indirect access pair.\<close>

definition FICAA3_value :: "u32 \<Rightarrow> u32 \<Rightarrow> u32 \<Rightarrow> u32" where
  "FICAA3_value Function Offset Instance =
     set_field 16 8 Instance (set_field 11 3 Function
       (set_field 1 10 (drop_bit 2 Offset) (set_field 0 1 1 0)))"

definition acc_checks :: "nat \<Rightarrow> u32 \<Rightarrow> u32 \<Rightarrow> u32 \<Rightarrow> bool" where
  "acc_checks Socket Function Offset Instance \<longleftrightarrow>
     Socket < 2 \<and> Function < 8 \<and> Offset < 0x2000 \<and> Offset AND 3 = 0 \<and> Instance \<le> FABRIC_REG_ACC_BC"

definition DfXFabricRegisterAccRead ::
  "'h pci_ops \<Rightarrow> nat \<Rightarrow> u32 \<Rightarrow> u32 \<Rightarrow> u32 \<Rightarrow> 'h \<Rightarrow> (u32 \<times> 'h) option" where
  "DfXFabricRegisterAccRead ops Socket Function Offset Instance h =
     do { sil_assert (acc_checks Socket Function Offset Instance);
          let Device = DfFabricRegisterAccGetPciDeviceNumberOfDie Socket;
          if Instance = FABRIC_REG_ACC_BC then
            Some (xUSLPciRead32 ops (pci_addr 0 0 Device Function Offset) h)
          else
            let h = xUSLPciWrite32 ops (pci_addr 0 0 Device 4 0x8C)
                      (FICAA3_value Function Offset Instance) h
            in Some (xUSLPciRead32 ops (pci_addr 0 0 Device 4 0xB8) h) }"

definition DfXFabricRegisterAccWrite ::
  "'h pci_ops \<Rightarrow> nat \<Rightarrow> u32 \<Rightarrow> u32 \<Rightarrow> u32 \<Rightarrow> u32 \<Rightarrow> 'h \<Rightarrow> 'h option" where
  "DfXFabricRegisterAccWrite ops Socket Function Offset Instance Value h =
     do { sil_assert (acc_checks Socket Function Offset Instance);
          let Device = DfFabricRegisterAccGetPciDeviceNumberOfDie Socket;
          if Instance = FABRIC_REG_ACC_BC then
            Some (xUSLPciWrite32 ops (pci_addr 0 0 Device Function Offset) Value h)
          else
            let h = xUSLPciWrite32 ops (pci_addr 0 0 Device 4 0x8C)
                      (FICAA3_value Function Offset Instance) h
            in Some (xUSLPciWrite32 ops (pci_addr 0 0 Device 4 0xB8) Value h) }"

definition DfFabricRegisterAccRMW ::
  "'h pci_ops \<Rightarrow> nat \<Rightarrow> u32 \<Rightarrow> u32 \<Rightarrow> u32 \<Rightarrow> u32 \<Rightarrow> u32 \<Rightarrow> 'h \<Rightarrow> (u32 \<times> 'h) option" where
  "DfFabricRegisterAccRMW ops Socket Function Offset Instance NandValue OrValue h =
     do { sil_assert (acc_checks Socket Function Offset Instance);
          (v, h) \<leftarrow> DfXFabricRegisterAccRead ops Socket Function Offset Instance h;
          let RegisterValue = (v AND NOT NandValue) OR OrValue;
          h \<leftarrow> DfXFabricRegisterAccWrite ops Socket Function Offset Instance RegisterValue h;
          Some (RegisterValue, h) }"

section \<open>Tables\<close>

datatype COMPONENT_TYPE = PrimaryFch | SecondaryFch | FchTypeMax | PrimarySmu | SecondarySmu
  | SmuTypeMax | ComponentTypeMax

fun component_val :: "COMPONENT_TYPE \<Rightarrow> nat" where
  "component_val PrimaryFch = 0" | "component_val SecondaryFch = 1" | "component_val FchTypeMax = 2"
| "component_val PrimarySmu = 3" | "component_val SecondarySmu = 4" | "component_val SmuTypeMax = 5"
| "component_val ComponentTypeMax = 6"

record COMPONENT_LOCATION =
  cl_Socket :: nat
  cl_Die :: nat
  cl_IomsFabricId :: u32
  cl_Type :: COMPONENT_TYPE

record ROOT_BRIDGE_LOCATION =
  rb_Socket :: nat
  rb_Die :: nat
  rb_Index :: nat

datatype FABRIC_DEVICE_TYPE = Ccm | Gcm | Ncs | Ncm | Pie | Ioms | Cs | Tcdx | Cake | CsUmc | CsCxl
  | CsCmp | Acm | Iom | Ios | Icng | Cnli | Pfx | Spf | FabricDeviceTypeMax

record DEVICE_IDS =
  FabricID :: u32
  InstanceID :: u32

record DIE_DEVICE_MAP =
  dm_Type :: FABRIC_DEVICE_TYPE
  dm_IDs :: "DEVICE_IDS list"

abbreviation dev :: "u32 \<Rightarrow> u32 \<Rightarrow> DEVICE_IDS" where
  "dev f i \<equiv> \<lparr>FabricID = f, InstanceID = i\<rparr>"

definition GenoaPhysIos0FabricId :: u32 where "GenoaPhysIos0FabricId = 0x20"

definition GenoaComponentLocation :: "COMPONENT_LOCATION list" where
  "GenoaComponentLocation =
     [\<lparr>cl_Socket = 0, cl_Die = 0, cl_IomsFabricId = 0x22, cl_Type = PrimaryFch\<rparr>,
      \<lparr>cl_Socket = 1, cl_Die = 0, cl_IomsFabricId = 0x22, cl_Type = SecondaryFch\<rparr>,
      \<lparr>cl_Socket = 0, cl_Die = 0, cl_IomsFabricId = 0x22, cl_Type = PrimarySmu\<rparr>,
      \<lparr>cl_Socket = 1, cl_Die = 0, cl_IomsFabricId = 0x22, cl_Type = SecondarySmu\<rparr>]"

definition GenoaCsMap :: "DEVICE_IDS list" where
  "GenoaCsMap = [dev 0 0, dev 1 1, dev 2 2, dev 3 3, dev 4 4, dev 5 5, dev 6 6, dev 7 7, dev 8 8,
     dev 9 9, dev 0xA 0xA, dev 0xB 0xB, dev 0xC 0xC, dev 0xD 0xD, dev 0xE 0xE, dev 0xF 0xF]"
definition GenoaCsUmcMap :: "DEVICE_IDS list" where
  "GenoaCsUmcMap = [dev 0 0, dev 1 1, dev 2 2, dev 3 3, dev 4 4, dev 5 5, dev 6 6, dev 7 7, dev 8 8,
     dev 9 9, dev 0xA 0xA, dev 0xB 0xB]"
definition GenoaCsCmpMap :: "DEVICE_IDS list" where
  "GenoaCsCmpMap = [dev 0xC 0xC, dev 0xD 0xD, dev 0xE 0xE, dev 0xF 0xF]"
definition GenoaCcmMap :: "DEVICE_IDS list" where
  "GenoaCcmMap = [dev 0x60 0x10, dev 0x61 0x11, dev 0x62 0x12, dev 0x63 0x13, dev 0x64 0x14,
     dev 0x65 0x15, dev 0x66 0x16, dev 0x67 0x17]"
definition GenoaAcmMap :: "DEVICE_IDS list" where
  "GenoaAcmMap = [dev 0x6C 0x18, dev 0x6D 0x19, dev 0x6E 0x1A, dev 0x6F 0x1B]"
definition GenoaNcmMap :: "DEVICE_IDS list" where
  "GenoaNcmMap = [dev 0x70 0x1C, dev 0x71 0x1D, dev 0x72 0x1E, dev 0x73 0x1F]"
definition GenoaIomMap :: "DEVICE_IDS list" where
  "GenoaIomMap = [dev 0x78 0x20, dev 0x79 0x21, dev 0x7A 0x22, dev 0x7B 0x23]"
definition GenoaIosMap :: "DEVICE_IDS list" where
  "GenoaIosMap = [dev 0x20 0x24, dev 0x21 0x25, dev 0x22 0x26, dev 0x23 0x27]"
definition GenoaIcngMap :: "DEVICE_IDS list" where
  "GenoaIcngMap = [dev 0x7C 0x28, dev 0x7D 0x29, dev 0x7E 0x2A, dev 0x7F 0x2B]"
definition GenoaPieMap :: "DEVICE_IDS list" where
  "GenoaPieMap = [dev 0x77 0x2C]"

text \<open>The remaining tables have no fabric identifier, only consecutive instance identifiers.\<close>

definition no_fabric_id :: "nat \<Rightarrow> nat \<Rightarrow> DEVICE_IDS list" where
  "no_fabric_id first n = map (\<lambda>i. dev 0xFFFFFFFF (of_nat i)) [first ..< first + n]"

definition GenoaCakeMap :: "DEVICE_IDS list" where "GenoaCakeMap = no_fabric_id 0x2D 8"
definition GenoaCnliMap :: "DEVICE_IDS list" where "GenoaCnliMap = no_fabric_id 0x35 4"
definition GenoaPfxMap :: "DEVICE_IDS list" where "GenoaPfxMap = no_fabric_id 0x39 8"
definition GenoaSpfMap :: "DEVICE_IDS list" where "GenoaSpfMap = no_fabric_id 0x41 16"
definition GenoaTcdxMap :: "DEVICE_IDS list" where "GenoaTcdxMap = no_fabric_id 0x51 16"

definition GenoaDeviceMap :: "DIE_DEVICE_MAP list" where
  "GenoaDeviceMap =
     [\<lparr>dm_Type = Cs, dm_IDs = GenoaCsMap\<rparr>, \<lparr>dm_Type = CsUmc, dm_IDs = GenoaCsUmcMap\<rparr>,
      \<lparr>dm_Type = CsCmp, dm_IDs = GenoaCsCmpMap\<rparr>, \<lparr>dm_Type = Ccm, dm_IDs = GenoaCcmMap\<rparr>,
      \<lparr>dm_Type = Acm, dm_IDs = GenoaAcmMap\<rparr>, \<lparr>dm_Type = Ncm, dm_IDs = GenoaNcmMap\<rparr>,
      \<lparr>dm_Type = Iom, dm_IDs = GenoaIomMap\<rparr>, \<lparr>dm_Type = Ios, dm_IDs = GenoaIosMap\<rparr>,
      \<lparr>dm_Type = Icng, dm_IDs = GenoaIcngMap\<rparr>, \<lparr>dm_Type = Pie, dm_IDs = GenoaPieMap\<rparr>,
      \<lparr>dm_Type = Cake, dm_IDs = GenoaCakeMap\<rparr>, \<lparr>dm_Type = Cnli, dm_IDs = GenoaCnliMap\<rparr>,
      \<lparr>dm_Type = Pfx, dm_IDs = GenoaPfxMap\<rparr>, \<lparr>dm_Type = Spf, dm_IDs = GenoaSpfMap\<rparr>,
      \<lparr>dm_Type = Tcdx, dm_IDs = GenoaTcdxMap\<rparr>,
      \<lparr>dm_Type = FabricDeviceTypeMax, dm_IDs = []\<rparr>]"

definition DfXGetDeviceMapOnDie :: "DIE_DEVICE_MAP list" where
  "DfXGetDeviceMapOnDie = GenoaDeviceMap"

definition DfXFindComponentLocationMap :: "COMPONENT_LOCATION list \<times> u32" where
  "DfXFindComponentLocationMap = (GenoaComponentLocation, GenoaPhysIos0FabricId)"

section \<open>Lookups\<close>

text \<open>
  \<^verbatim>\<open>DfFindDeviceTypeEntryInMap\<close>: the scan stops at the end marker or at the type; the marker itself is
  returned when it is the type asked for. \<open>None\<close> outside: a table without marker; inside: \<^verbatim>\<open>NULL\<close>.
\<close>

fun find_device_type :: "DIE_DEVICE_MAP list \<Rightarrow> FABRIC_DEVICE_TYPE \<Rightarrow> DIE_DEVICE_MAP option option" where
  "find_device_type [] T = None"
| "find_device_type (d # ds) T =
     (if dm_Type d \<noteq> FabricDeviceTypeMax \<and> dm_Type d \<noteq> T then find_device_type ds T
      else Some (if dm_Type d = T then Some d else None))"

definition DfFindDeviceTypeEntryInMap :: "FABRIC_DEVICE_TYPE \<Rightarrow> DIE_DEVICE_MAP option option" where
  "DfFindDeviceTypeEntryInMap T = find_device_type DfXGetDeviceMapOnDie T"

text \<open>A lookup followed by \<^verbatim>\<open>assert (Entry != NULL)\<close>.\<close>

definition device_entry :: "FABRIC_DEVICE_TYPE \<Rightarrow> DEVICE_IDS list option" where
  "device_entry T = do { e \<leftarrow> DfFindDeviceTypeEntryInMap T; d \<leftarrow> e; Some (dm_IDs d) }"

definition DfGetNumberOfDiesOnSocket :: nat where "DfGetNumberOfDiesOnSocket = 1"

definition DfXGetDieSystemOffset :: "nat \<Rightarrow> u32" where
  "DfXGetDieSystemOffset Socket = push_bit 8 (of_nat Socket)"

definition DfGetHostBridgeSystemFabricID :: "nat \<Rightarrow> nat \<Rightarrow> u32 option" where
  "DfGetHostBridgeSystemFabricID Socket Index =
     do { IDs \<leftarrow> device_entry Ios;
          sil_assert (Index < length IDs);
          Some (DfXGetDieSystemOffset Socket + FabricID (IDs ! Index)) }"

fun find_fabric_id :: "u32 \<Rightarrow> nat \<Rightarrow> DEVICE_IDS list \<Rightarrow> nat option" where
  "find_fabric_id f j [] = None"
| "find_fabric_id f j (d # ds) = (if FabricID d = f then Some j else find_fabric_id f (Suc j) ds)"

fun find_component :: "COMPONENT_TYPE \<Rightarrow> COMPONENT_LOCATION list \<Rightarrow> COMPONENT_LOCATION option" where
  "find_component C [] = None"
| "find_component C (c # cs) = (if cl_Type c = C then Some c else find_component C cs)"

text \<open>\<^verbatim>\<open>DfGetSystemComponentRootBridgeLocation\<close>: \<open>Some None\<close> when the component is not in the table.\<close>

definition DfGetSystemComponentRootBridgeLocation ::
  "COMPONENT_TYPE \<Rightarrow> ROOT_BRIDGE_LOCATION option option" where
  "DfGetSystemComponentRootBridgeLocation Component =
     do { sil_assert (Component = PrimaryFch \<or> Component = PrimarySmu);
          case find_component Component (fst DfXFindComponentLocationMap) of
            None \<Rightarrow> Some None
          | Some c \<Rightarrow>
              do { IDs \<leftarrow> device_entry Ios;
                   j \<leftarrow> find_fabric_id (cl_IomsFabricId c) 0 IDs;
                   Some (Some \<lparr>rb_Socket = cl_Socket c, rb_Die = cl_Die c, rb_Index = j\<rparr>) } }"

definition component_at :: "(COMPONENT_TYPE \<Rightarrow> bool) \<Rightarrow> nat \<Rightarrow> nat \<Rightarrow> nat \<Rightarrow> bool option" where
  "component_at P Socket Die Index =
     do { IDs \<leftarrow> device_entry Ios;
          sil_assert (Index < length IDs);
          Some (\<exists>c\<in>set (fst DfXFindComponentLocationMap). P (cl_Type c) \<and> Socket = cl_Socket c
             \<and> Die = cl_Die c \<and> FabricID (IDs ! Index) = cl_IomsFabricId c) }"

definition DfHasFch :: "nat \<Rightarrow> nat \<Rightarrow> nat \<Rightarrow> bool option" where
  "DfHasFch = component_at (\<lambda>t. component_val t < component_val FchTypeMax)"

definition DfHasSmu :: "nat \<Rightarrow> nat \<Rightarrow> nat \<Rightarrow> bool option" where
  "DfHasSmu = component_at (\<lambda>t. component_val t < component_val SmuTypeMax
     \<and> component_val FchTypeMax < component_val t)"

definition DfXGetPhysRootBridgeNumber :: "nat \<Rightarrow> u32 option" where
  "DfXGetPhysRootBridgeNumber Index =
     do { IDs \<leftarrow> device_entry Ios;
          sil_assert (Index < length IDs);
          let FabricId = FabricID (IDs ! Index);
          sil_assert (GenoaPhysIos0FabricId \<le> FabricId);
          Some (FabricId - GenoaPhysIos0FabricId) }"

text \<open>\<^verbatim>\<open>SilGetPrimaryRb\<close> of \<^verbatim>\<open>RcMgr/FabricRcInit.c\<close>: where the primary FCH is, else socket 0 bridge 0.\<close>

definition SilGetPrimaryRb :: "(nat \<times> nat) option" where
  "SilGetPrimaryRb =
     do { l \<leftarrow> DfGetSystemComponentRootBridgeLocation PrimaryFch;
          Some (case l of Some loc \<Rightarrow> (rb_Socket loc, rb_Index loc) | None \<Rightarrow> (0, 0)) }"

section \<open>Counts and bus ranges\<close>

definition DfXGetNumberOfProcessorsPresent :: "'h pci_ops \<Rightarrow> 'h \<Rightarrow> (nat \<times> 'h) option" where
  "DfXGetNumberOfProcessorsPresent ops h =
     do { (v, h) \<leftarrow> DfXFabricRegisterAccRead ops 0 4 0x180 FABRIC_REG_ACC_BC h;
          Some (unat (get_field 8 1 v) + 1, h) }"

definition DfXGetNumberOfSystemDies :: "'h pci_ops \<Rightarrow> 'h \<Rightarrow> (nat \<times> 'h) option" where
  "DfXGetNumberOfSystemDies ops h =
     do { (v, h) \<leftarrow> DfXFabricRegisterAccRead ops 0 4 0x184 FABRIC_REG_ACC_BC h;
          Some (unat (v AND 0xFF), h) }"

definition DfXGetNumberOfSystemRootBridges :: "'h pci_ops \<Rightarrow> 'h \<Rightarrow> (nat \<times> 'h) option" where
  "DfXGetNumberOfSystemRootBridges ops h =
     do { (v, h) \<leftarrow> DfXFabricRegisterAccRead ops 0 4 0x184 FABRIC_REG_ACC_BC h;
          Some (unat (drop_bit 8 v AND 0xFF), h) }"

definition DfXGetNumberOfRootBridgesOnSocket :: "'h pci_ops \<Rightarrow> nat \<Rightarrow> 'h \<Rightarrow> (nat \<times> 'h) option" where
  "DfXGetNumberOfRootBridgesOnSocket ops Socket h =
     do { (v, h) \<leftarrow> DfXFabricRegisterAccRead ops Socket 4 0x184 FABRIC_REG_ACC_BC h;
          (n, h) \<leftarrow> DfXGetNumberOfProcessorsPresent ops h;
          Some (unat (drop_bit 8 v AND 0xFF) div n, h) }"

definition DfXGetNumberOfRootBridgesOnDie :: "'h pci_ops \<Rightarrow> nat \<Rightarrow> 'h \<Rightarrow> (nat \<times> 'h) option" where
  "DfXGetNumberOfRootBridgesOnDie ops Socket h =
     do { (v, h) \<leftarrow> DfXFabricRegisterAccRead ops Socket 4 0x184 FABRIC_REG_ACC_BC h;
          (n, h) \<leftarrow> DfXGetNumberOfProcessorsPresent ops h;
          let RbCount = unat (drop_bit 8 v AND 0xFF) div n;
          Some (RbCount div DfGetNumberOfDiesOnSocket, h) }"

text \<open>The configuration address map registers: base at \<open>0xC80 + 8 i\<close>, limit at \<open>0xC84 + 8 i\<close>.\<close>

definition CfgBase_RE :: "u32 \<Rightarrow> u32" where "CfgBase_RE v = get_field 0 1 v"
definition CfgBase_WE :: "u32 \<Rightarrow> u32" where "CfgBase_WE v = get_field 1 1 v"
definition CfgBase_SegmentNum :: "u32 \<Rightarrow> u32" where "CfgBase_SegmentNum v = get_field 8 8 v"
definition CfgBase_BusNumBase :: "u32 \<Rightarrow> u32" where "CfgBase_BusNumBase v = get_field 16 8 v"
definition CfgLimit_DstFabricID :: "u32 \<Rightarrow> u32" where "CfgLimit_DstFabricID v = get_field 0 12 v"
definition CfgLimit_BusNumLimit :: "u32 \<Rightarrow> u32" where "CfgLimit_BusNumLimit v = get_field 16 8 v"

definition cfg_base_reg :: "nat \<Rightarrow> u32" where "cfg_base_reg i = 0xC80 + of_nat i * 8"
definition cfg_limit_reg :: "nat \<Rightarrow> u32" where "cfg_limit_reg i = 0xC84 + of_nat i * 8"

text \<open>The scan both bus queries share: the first enabled entry that routes to the fabric identifier.\<close>

fun find_bus_region ::
  "'h pci_ops \<Rightarrow> nat \<Rightarrow> u32 \<Rightarrow> nat list \<Rightarrow> 'h \<Rightarrow> ((u32 \<times> u32) option \<times> 'h) option" where
  "find_bus_region ops Socket T [] h = Some (None, h)"
| "find_bus_region ops Socket T (i # is) h =
     do { (CfgLimit, h) \<leftarrow> DfXFabricRegisterAccRead ops Socket 0 (cfg_limit_reg i) FABRIC_REG_ACC_BC h;
          (CfgBase, h) \<leftarrow> DfXFabricRegisterAccRead ops Socket 0 (cfg_base_reg i) FABRIC_REG_ACC_BC h;
          if CfgBase_RE CfgBase = 1 \<and> CfgBase_WE CfgBase = 1 \<and> CfgLimit_DstFabricID CfgLimit = T
          then Some (Some (CfgBase, CfgLimit), h)
          else find_bus_region ops Socket T is h }"

definition DFX_NUMBER_OF_BUS_REGIONS :: nat where "DFX_NUMBER_OF_BUS_REGIONS = 8"

definition DfXGetHostBridgeBusBase :: "'h pci_ops \<Rightarrow> nat \<Rightarrow> nat \<Rightarrow> 'h \<Rightarrow> (u32 \<times> 'h) option" where
  "DfXGetHostBridgeBusBase ops Socket Index h =
     do { T \<leftarrow> DfGetHostBridgeSystemFabricID Socket Index;
          (r, h) \<leftarrow> find_bus_region ops Socket T [0 ..< DFX_NUMBER_OF_BUS_REGIONS] h;
          Some (case r of Some (b, l) \<Rightarrow> CfgBase_SegmentNum b * 0x100 + CfgBase_BusNumBase b
                | None \<Rightarrow> 0xFFFFFFFF, h) }"

definition DfXGetHostBridgeBusLimit :: "'h pci_ops \<Rightarrow> nat \<Rightarrow> nat \<Rightarrow> 'h \<Rightarrow> (u32 \<times> 'h) option" where
  "DfXGetHostBridgeBusLimit ops Socket Index h =
     do { T \<leftarrow> DfGetHostBridgeSystemFabricID Socket Index;
          (r, h) \<leftarrow> find_bus_region ops Socket T [0 ..< DFX_NUMBER_OF_BUS_REGIONS] h;
          Some (case r of Some (b, l) \<Rightarrow> CfgBase_SegmentNum b * 0x100 + CfgLimit_BusNumLimit l
                | None \<Rightarrow> 0xFF, h) }"

section \<open>Information queries\<close>

text \<open>
  The queries fill the outputs the caller asks for; here all of them. The status is checked before
  anything is computed.
\<close>

record root_bridge_info =
  ri_SystemFabricID :: u32
  ri_BusNumberBase :: u32
  ri_BusNumberLimit :: u32
  ri_PhysicalRootBridgeNumber :: u32
  ri_HasFchDevice :: bool
  ri_HasSystemMgmtUnit :: bool

definition DfGetRootBridgeInfo ::
  "'h pci_ops \<Rightarrow> nat \<Rightarrow> nat \<Rightarrow> nat \<Rightarrow> 'h \<Rightarrow> (SIL_STATUS \<times> root_bridge_info option \<times> 'h) option" where
  "DfGetRootBridgeInfo ops Socket Die Index h =
     do { (n, h) \<leftarrow> DfXGetNumberOfProcessorsPresent ops h;
          if n \<le> Socket then Some (SilInvalidParameter, None, h)
          else if DfGetNumberOfDiesOnSocket \<le> Die then Some (SilInvalidParameter, None, h)
          else do {
            (rb, h) \<leftarrow> DfXGetNumberOfRootBridgesOnDie ops Socket h;
            if rb \<le> Index then Some (SilInvalidParameter, None, h)
            else do {
              f \<leftarrow> DfGetHostBridgeSystemFabricID Socket Index;
              (b, h) \<leftarrow> DfXGetHostBridgeBusBase ops Socket Index h;
              (l, h) \<leftarrow> DfXGetHostBridgeBusLimit ops Socket Index h;
              p \<leftarrow> DfXGetPhysRootBridgeNumber Index;
              fch \<leftarrow> DfHasFch Socket Die Index;
              smu \<leftarrow> DfHasSmu Socket Die Index;
              Some (SilPass, Some \<lparr>ri_SystemFabricID = f, ri_BusNumberBase = b, ri_BusNumberLimit = l,
                ri_PhysicalRootBridgeNumber = p, ri_HasFchDevice = fch, ri_HasSystemMgmtUnit = smu\<rparr>, h) } } }"

definition DfGetDieInfo ::
  "'h pci_ops \<Rightarrow> nat \<Rightarrow> nat \<Rightarrow> 'h \<Rightarrow> (SIL_STATUS \<times> (nat \<times> u32 \<times> DIE_DEVICE_MAP list) option \<times> 'h) option"
  where
  "DfGetDieInfo ops Socket Die h =
     do { (n, h) \<leftarrow> DfXGetNumberOfProcessorsPresent ops h;
          if n \<le> Socket then Some (SilInvalidParameter, None, h)
          else if DfGetNumberOfDiesOnSocket \<le> Die then Some (SilInvalidParameter, None, h)
          else do {
            (rb, h) \<leftarrow> DfXGetNumberOfRootBridgesOnDie ops Socket h;
            Some (SilPass, Some (rb, DfXGetDieSystemOffset Socket, DfXGetDeviceMapOnDie), h) } }"

definition DfGetProcessorInfo ::
  "'h pci_ops \<Rightarrow> nat \<Rightarrow> 'h \<Rightarrow> (SIL_STATUS \<times> (nat \<times> nat) option \<times> 'h) option" where
  "DfGetProcessorInfo ops SocketIndex h =
     do { (n, h) \<leftarrow> DfXGetNumberOfProcessorsPresent ops h;
          if n \<le> SocketIndex then Some (SilInvalidParameter, None, h)
          else do {
            (rb, h) \<leftarrow> DfXGetNumberOfRootBridgesOnSocket ops SocketIndex h;
            Some (SilPass, Some (DfGetNumberOfDiesOnSocket, rb), h) } }"

record system_info =
  si_NumberOfInstalledProcessors :: nat
  si_TotalNumberOfDie :: nat
  si_TotalNumberOfRootBridges :: nat
  si_SystemFchRootBridgeLocation :: "ROOT_BRIDGE_LOCATION option"
  si_SystemSmuRootBridgeLocation :: "ROOT_BRIDGE_LOCATION option"

definition DfGetSystemInfo :: "'h pci_ops \<Rightarrow> 'h \<Rightarrow> (SIL_STATUS \<times> system_info \<times> 'h) option" where
  "DfGetSystemInfo ops h =
     do { (n, h) \<leftarrow> DfXGetNumberOfProcessorsPresent ops h;
          (d, h) \<leftarrow> DfXGetNumberOfSystemDies ops h;
          (rb, h) \<leftarrow> DfXGetNumberOfSystemRootBridges ops h;
          fch \<leftarrow> DfGetSystemComponentRootBridgeLocation PrimaryFch;
          smu \<leftarrow> DfGetSystemComponentRootBridgeLocation PrimarySmu;
          Some (SilPass, \<lparr>si_NumberOfInstalledProcessors = n, si_TotalNumberOfDie = d,
            si_TotalNumberOfRootBridges = rb, si_SystemFchRootBridgeLocation = fch,
            si_SystemSmuRootBridgeLocation = smu\<rparr>, h) }"

section \<open>Lemmas\<close>

lemma find_device_type_Some:
  assumes "\<exists>d\<in>set ds. dm_Type d = FabricDeviceTypeMax"
  shows "find_device_type ds T = Some r \<Longrightarrow>
    (case r of Some d \<Rightarrow> d \<in> set ds \<and> dm_Type d = T | None \<Rightarrow> T \<noteq> FabricDeviceTypeMax)"
    and "\<exists>r. find_device_type ds T = Some r"
  using assms by (induction ds) (auto split: option.splits if_splits)

lemma device_entries:
  "device_entry Ios = Some GenoaIosMap" "device_entry Iom = Some GenoaIomMap"
  "device_entry Ccm = Some GenoaCcmMap" "device_entry Acm = Some GenoaAcmMap"
  by (simp_all add: device_entry_def DfFindDeviceTypeEntryInMap_def DfXGetDeviceMapOnDie_def
      GenoaDeviceMap_def)

lemma GenoaIosMap_nth:
  assumes "i < 4"
  shows "FabricID (GenoaIosMap ! i) = 0x20 + of_nat i"
proof -
  consider "i = 0" | "i = 1" | "i = 2" | "i = 3" using assms by linarith
  then show ?thesis by cases (simp_all add: GenoaIosMap_def)
qed

lemma length_maps [simp]: "length GenoaIosMap = 4" "length GenoaIomMap = 4"
  by (simp_all add: GenoaIosMap_def GenoaIomMap_def)

lemma SilGetPrimaryRb_eq: "SilGetPrimaryRb = Some (0, 2)"
  by (simp add: SilGetPrimaryRb_def DfGetSystemComponentRootBridgeLocation_def device_entries
      DfXFindComponentLocationMap_def GenoaComponentLocation_def GenoaIosMap_def)

lemma DfGetHostBridgeSystemFabricID_eq:
  "DfGetHostBridgeSystemFabricID s i =
     (if i < 4 then Some (push_bit 8 (of_nat s) + 0x20 + of_nat i) else None)"
  by (auto simp: DfGetHostBridgeSystemFabricID_def device_entries DfXGetDieSystemOffset_def
      GenoaIosMap_nth add.assoc)

lemma unat_fabric_id:
  assumes "s < 256" and "i < 4"
  shows "unat (push_bit 8 (of_nat s) + 0x20 + of_nat i :: u32) = 256 * s + 32 + i"
proof -
  have "(push_bit 8 (of_nat s) + 0x20 + of_nat i :: u32) = of_nat (256 * s + 32 + i)"
    by (simp add: push_bit_eq_mult)
  moreover have "unat (of_nat (256 * s + 32 + i) :: u32) = 256 * s + 32 + i"
    by (rule unat_of_nat_small) (use assms in simp)
  ultimately show ?thesis by (simp only:)
qed

end
