(* ===== verification/Rc_Regs.thy ===== *)
theory Rc_Regs
  imports Rc_Types Df_Topology
begin

text \<open>
  The register writers of the resource manager, at the end of \<^verbatim>\<open>RcMgr/DfX/FabricRcInitBasedOnNv4.c\<close>: a
  base, limit and control register per MMIO pair, a base and limit per IO range, a base and limit per
  configuration bus range, and the map from logical to physical root bridges.
\<close>

section \<open>Register formats\<close>

definition mmio_base_reg :: "u8 \<Rightarrow> u32" where "mmio_base_reg i = 0xD80 + ucast i * 0x10"
definition mmio_limit_reg :: "u8 \<Rightarrow> u32" where "mmio_limit_reg i = 0xD84 + ucast i * 0x10"
definition mmio_ctrl_reg :: "u8 \<Rightarrow> u32" where "mmio_ctrl_reg i = 0xD88 + ucast i * 0x10"
definition io_base_reg :: "u8 \<Rightarrow> u32" where "io_base_reg i = 0xD00 + ucast i * 8"
definition io_limit_reg :: "u8 \<Rightarrow> u32" where "io_limit_reg i = 0xD04 + ucast i * 8"
definition CFGADDRESSCNTL_REG :: u32 where "CFGADDRESSCNTL_REG = 0xC04"

definition MmioAddrCtrl_value :: "u32 \<Rightarrow> u32" where
  "MmioAddrCtrl_value DstFabricID = set_field 16 12 DstFabricID (set_field 1 1 1 (set_field 0 1 1 0))"

definition IoBase_value :: "u32 \<Rightarrow> u32" where
  "IoBase_value base = set_field 16 13 (drop_bit 12 (base AND 0xFFFFF000))
     (set_field 1 1 1 (set_field 0 1 1 0))"

definition IoLimit_value :: "u32 \<Rightarrow> u32 \<Rightarrow> u32" where
  "IoLimit_value DstFabricID IoLast =
     set_field 16 13 (drop_bit 12 (IoLast AND 0xFFFFF000)) (set_field 0 12 DstFabricID 0)"

definition CfgAddrMap_value :: "u16 \<Rightarrow> u32" where
  "CfgAddrMap_value Base = set_field 16 8 (ucast Base) (set_field 1 1 1 (set_field 0 1 1 0))"

definition CfgAddrLimit_value :: "u32 \<Rightarrow> u16 \<Rightarrow> u32" where
  "CfgAddrLimit_value DstFabricID Limit = set_field 16 8 (ucast Limit) (set_field 0 12 DstFabricID 0)"

section \<open>Writers\<close>

text \<open>Every writer repeats its writes on every die of every socket.\<close>

definition each_die :: "nat \<Rightarrow> (nat \<Rightarrow> 'h \<Rightarrow> 'h option) \<Rightarrow> 'h \<Rightarrow> 'h option" where
  "each_die TotalSocket f h =
     for_each (\<lambda>i. for_each (\<lambda>j. f i) [0 ..< DfGetNumberOfDiesOnSocket]) [0 ..< TotalSocket] h"

definition SilSetMmioReg4 ::
  "bool \<Rightarrow> 'h pci_ops \<Rightarrow> nat \<Rightarrow> u8 \<Rightarrow> nat \<Rightarrow> nat \<Rightarrow> u64 \<Rightarrow> u64 \<Rightarrow> 'h \<Rightarrow> 'h option" where
  "SilSetMmioReg4 dbg ops TotalSocket MmioPairIndex SktNum Rb BaseAddress Length h =
     do { c_assert dbg (RCMGR_MMIO_MIN_SIZE \<le> Length);
          let BaseAddress = (BaseAddress + 0xFFFF) AND 0xFFFFFFFFFFFF0000;
          DstFabricID \<leftarrow> DfGetHostBridgeSystemFabricID SktNum Rb;
          each_die TotalSocket (\<lambda>i h. do {
            h \<leftarrow> DfXFabricRegisterAccWrite ops i 0 (mmio_base_reg MmioPairIndex) FABRIC_REG_ACC_BC
                   (ucast (drop_bit 16 BaseAddress)) h;
            h \<leftarrow> DfXFabricRegisterAccWrite ops i 0 (mmio_limit_reg MmioPairIndex) FABRIC_REG_ACC_BC
                   (ucast (drop_bit 16 (BaseAddress + Length - 1))) h;
            DfXFabricRegisterAccWrite ops i 0 (mmio_ctrl_reg MmioPairIndex) FABRIC_REG_ACC_BC
              (MmioAddrCtrl_value DstFabricID) h }) h }"

definition SilSetIoReg4 ::
  "'h pci_ops \<Rightarrow> nat \<Rightarrow> u8 \<Rightarrow> nat \<Rightarrow> nat \<Rightarrow> u32 \<Rightarrow> u32 \<Rightarrow> 'h \<Rightarrow> 'h option" where
  "SilSetIoReg4 ops TotalSocket RegIndex SktNum Rb base sz h =
     do { DstFabricID \<leftarrow> DfGetHostBridgeSystemFabricID SktNum Rb;
          each_die TotalSocket (\<lambda>i h. do {
            h \<leftarrow> DfXFabricRegisterAccWrite ops i 0 (io_limit_reg RegIndex) FABRIC_REG_ACC_BC
                   (IoLimit_value DstFabricID (base + sz - 1)) h;
            DfXFabricRegisterAccWrite ops i 0 (io_base_reg RegIndex) FABRIC_REG_ACC_BC
              (IoBase_value base) h }) h }"

text \<open>The IOM that carries the BMC link, from the lane number of the early link.\<close>

definition bmc_iom :: "u8 \<Rightarrow> nat" where
  "bmc_iom lane = (if lane < 16 \<or> lane = 128 \<or> lane = 129 then 0 else if lane < 64 then 1
                   else if lane < 96 then 3 else 2)"

text \<open>The IOM whose map is written: all of them, or with MCTP only the one of the BMC.\<close>

definition iom_written :: "RCMGR_INPUT_BLK \<Rightarrow> nat \<Rightarrow> nat \<Rightarrow> bool" where
  "iom_written d skt rb \<longleftrightarrow> \<not> McptEnable d
     \<or> (skt = unat (BmcSocket d) \<and> rb = bmc_iom (EarlyBmcLinkLaneNum d))"

definition write_cfg_map ::
  "'h pci_ops \<Rightarrow> nat \<Rightarrow> nat \<Rightarrow> u32 \<Rightarrow> u32 \<Rightarrow> u32 \<Rightarrow> 'h \<Rightarrow> 'h option" where
  "write_cfg_map ops i RegIndex instance_id b l h =
     do { h \<leftarrow> DfXFabricRegisterAccWrite ops i 0 (cfg_base_reg RegIndex) instance_id b h;
          DfXFabricRegisterAccWrite ops i 0 (cfg_limit_reg RegIndex) instance_id l h }"

definition SilSetCfgAddrMapReg4 ::
  "bool \<Rightarrow> 'h pci_ops \<Rightarrow> RCMGR_INPUT_BLK \<Rightarrow> nat \<Rightarrow> nat \<Rightarrow> nat \<Rightarrow> nat \<Rightarrow> u16 \<Rightarrow> u16 \<Rightarrow> 'h \<Rightarrow> 'h option" where
  "SilSetCfgAddrMapReg4 dbg ops d RbPerDie RegIndex SktNum Rb Base Limit h =
     do { c_assert dbg (Base < 0x100);
          c_assert dbg (Limit < 0x100);
          DstFabricID \<leftarrow> DfGetHostBridgeSystemFabricID SktNum (Rb mod RbPerDie);
          let b = CfgAddrMap_value Base;
          let l = CfgAddrLimit_value DstFabricID Limit;
          (RbCount, h) \<leftarrow> DfXGetNumberOfRootBridgesOnSocket ops 0 h;
          ccm \<leftarrow> device_entry Ccm;
          iom \<leftarrow> device_entry Iom;
          acm \<leftarrow> device_entry Acm;
          each_die (SocketNumber d) (\<lambda>i h. do {
            h \<leftarrow> for_each (\<lambda>e. write_cfg_map ops i RegIndex (InstanceID e) b l) ccm h;
            h \<leftarrow> for_each (\<lambda>e. write_cfg_map ops i RegIndex (InstanceID e) b l) acm h;
            for_each (\<lambda>rb h. if iom_written d i rb
                then do { sil_assert (rb < length iom);
                          write_cfg_map ops i RegIndex (InstanceID (iom ! rb)) b l h }
                else Some h) [0 ..< RbCount] h }) h }"

section \<open>The additional posted region\<close>

definition ADDITIONAL_POSTED_START :: u64 where "ADDITIONAL_POSTED_START = 0xFED00000"
definition ADDITIONAL_POSTED_END :: u64 where "ADDITIONAL_POSTED_END = 0xFED0FFFF"
definition DFX_MAX_HOST_BRIDGES_PER_SOCKET :: nat where "DFX_MAX_HOST_BRIDGES_PER_SOCKET = 4"
definition MAX_SOCKETS_SUPPORTED :: nat where "MAX_SOCKETS_SUPPORTED = 2"

text \<open>The pairs \<open>(i, j)\<close> of the nested search loops, in order.\<close>

definition all_pairs :: "(nat \<times> nat) list" where
  "all_pairs = List.product [0 ..< MAX_SOCKETS_SUPPORTED] [0 ..< DFX_MAX_HOST_BRIDGES_PER_SOCKET]"

definition second_pair :: "FABRIC_MMIO_MANAGER \<Rightarrow> nat \<times> nat" where
  "second_pair m = (unat (drop_bit 4 (PrimaryRb2ndMmioPairBelow4G m) AND 0xF),
                    unat (PrimaryRb2ndMmioPairBelow4G m AND 0xF))"

text \<open>
  The first spare register pair: which of the two of a root bridge, and which root bridge. The
  \<^verbatim>\<open>continue\<close> for the pair of the second region skips the check of the pair above 4G as well.
\<close>

fun find_spare :: "FABRIC_MMIO_MANAGER \<Rightarrow> (nat \<times> nat) list \<Rightarrow> (nat \<times> nat \<times> bool) option" where
  "find_spare m [] = None"
| "find_spare m ((i, j) # ps) =
     (if \<not> AllocateMmioBelow4GOnThisRb m i j then
        if PrimaryRbHas2ndMmioBelow4G m \<and> second_pair m = (i, j) then find_spare m ps
        else Some (i, j, False)
      else if \<not> AllocateMmioAbove4GOnThisRb m i j then Some (i, j, True)
      else find_spare m ps)"

definition pair_index :: "RCMGR_INPUT_BLK \<Rightarrow> nat \<Rightarrow> nat \<Rightarrow> bool \<Rightarrow> u8" where
  "pair_index d i j hi = of_nat ((i * RbsPerSocket d + j) * 2 + (if hi then 1 else 0))"

definition SilAdditionalMmioSetting4 ::
  "bool \<Rightarrow> 'h pci_ops \<Rightarrow> RCMGR_INPUT_BLK \<Rightarrow> u64 \<Rightarrow> bool \<Rightarrow> 'h \<Rightarrow> 'h option" where
  "SilAdditionalMmioSetting4 dbg ops d BottomOfCompat ReservedRegionAlreadySet h =
     do { (PrimarySocket, PrimaryRootBridge) \<leftarrow> SilGetPrimaryRb;
          let Size = ADDITIONAL_POSTED_END - ADDITIONAL_POSTED_START + 1;
          if (\<not> ReservedRegionAlreadySet \<or> BottomOfCompat \<le> ADDITIONAL_POSTED_END)
             \<and> RCMGR_MMIO_MIN_SIZE \<le> Size
          then case find_spare (MmioRcMgr d) all_pairs of
                 None \<Rightarrow> Some h
               | Some (i, j, hi) \<Rightarrow>
                   SilSetMmioReg4 dbg ops (SocketNumber d) (pair_index d i j hi)
                     PrimarySocket PrimaryRootBridge ADDITIONAL_POSTED_START Size h
          else Some h }"

section \<open>Logical to physical root bridges\<close>

record FABRIC_RB_LOG_TO_PHY_MAP =
  PhySktNum :: nat
  PhyRbNum :: nat
  PciBusBase :: u32
  PciBusLimit :: u32

text \<open>One entry of the map: an empty bus range goes to the end of the order.\<close>

definition log_to_phy_entry ::
  "'h pci_ops \<Rightarrow> nat \<Rightarrow> nat \<Rightarrow> nat \<Rightarrow> 'h \<Rightarrow> (FABRIC_RB_LOG_TO_PHY_MAP \<times> 'h) option" where
  "log_to_phy_entry ops i RbNumInSkt k h =
     do { (b, h) \<leftarrow> DfXGetHostBridgeBusBase ops i k h;
          (l, h) \<leftarrow> DfXGetHostBridgeBusLimit ops i k h;
          Some (\<lparr>PhySktNum = i, PhyRbNum = RbNumInSkt, PciBusBase = (if l < b then 0xFFFFFFFF else b),
                 PciBusLimit = (if l < b then 0 else l)\<rparr>, h) }"

definition log_to_phy_init ::
  "'h pci_ops \<Rightarrow> 'h \<Rightarrow> (FABRIC_RB_LOG_TO_PHY_MAP list \<times> 'h) option" where
  "log_to_phy_init ops h =
     do { (SocketCount, h) \<leftarrow> DfXGetNumberOfProcessorsPresent ops h;
          for_each (\<lambda>i (m, h). do {
            (RbCount, h) \<leftarrow> DfXGetNumberOfRootBridgesOnDie ops i h;
            for_each (\<lambda>(j, k) (m, h). do {
              (e, h) \<leftarrow> log_to_phy_entry ops i (j * RbCount + k) k h;
              Some (m @ [e], h) })
              (List.product [0 ..< DfGetNumberOfDiesOnSocket] [0 ..< RbCount]) (m, h) })
            [0 ..< SocketCount] ([], h) }"

text \<open>The exchange sort: pass \<open>i\<close> carries the smallest remaining bus base down to position \<open>i\<close>.\<close>

definition swap_step ::
  "('a \<Rightarrow> u32) \<Rightarrow> nat \<Rightarrow> 'a list \<Rightarrow> 'a list" where
  "swap_step key j m = (if key (m ! j) < key (m ! (j - 1))
     then m[j := m ! (j - 1), j - 1 := m ! j] else m)"

definition sort_pass :: "('a \<Rightarrow> u32) \<Rightarrow> nat \<Rightarrow> 'a list \<Rightarrow> 'a list" where
  "sort_pass key i m = fold (swap_step key) (rev [Suc i ..< length m]) m"

definition bus_sort :: "('a \<Rightarrow> u32) \<Rightarrow> 'a list \<Rightarrow> 'a list" where
  "bus_sort key m = fold (sort_pass key) [0 ..< length m] m"

text \<open>
  \<^verbatim>\<open>DfXSilGetPhySktRbNum\<close>: the map is built on the first call and kept by the caller. \<open>None\<close>: a
  position past the entries that were filled in.
\<close>

definition DfXSilGetPhySktRbNum ::
  "'h pci_ops \<Rightarrow> nat \<Rightarrow> nat \<Rightarrow> FABRIC_RB_LOG_TO_PHY_MAP list option \<Rightarrow> 'h
     \<Rightarrow> ((nat \<times> nat) \<times> FABRIC_RB_LOG_TO_PHY_MAP list option \<times> 'h) option" where
  "DfXSilGetPhySktRbNum ops LogSktNum LogRbNum LogToPhyMap h =
     do { (m, h) \<leftarrow> (case LogToPhyMap of Some m \<Rightarrow> Some (m, h)
                     | None \<Rightarrow> do { (m, h) \<leftarrow> log_to_phy_init ops h; Some (bus_sort PciBusBase m, h) });
          (RbNumInSkt, h) \<leftarrow> DfXGetNumberOfRootBridgesOnSocket ops 0 h;
          let n = LogSktNum * RbNumInSkt + LogRbNum;
          sil_assert (n < length m);
          Some ((PhySktNum (m ! n), PhyRbNum (m ! n)), Some m, h) }"

section \<open>Lemmas\<close>

lemma length_swap_step [simp]: "length (swap_step key j m) = length m"
  by (simp add: swap_step_def)

lemma mset_swap_step:
  assumes "0 < j" and "j < length m"
  shows "mset (swap_step key j m) = mset m"
  using assms by (auto simp: swap_step_def intro!: mset_swap)

text \<open>After the exchanges down to position \<open>a - 1\<close>, its element is the least of those from there on.\<close>

definition pass_done :: "('a \<Rightarrow> u32) \<Rightarrow> nat \<Rightarrow> 'a list \<Rightarrow> 'a list \<Rightarrow> bool" where
  "pass_done key p m m' \<longleftrightarrow> length m' = length m \<and> mset m' = mset m \<and> take p m' = take p m
     \<and> (\<forall>k. p \<le> k \<longrightarrow> k < length m \<longrightarrow> key (m' ! p) \<le> key (m' ! k))"

lemma pass_done_step:
  assumes "pass_done key (Suc p) m m'" and "Suc p < length m"
  shows "pass_done key p m (swap_step key (Suc p) m')"
proof -
  have len: "length m' = length m" and ms: "mset m' = mset m" and tk: "take (Suc p) m' = take (Suc p) m"
    and least: "\<And>k. Suc p \<le> k \<Longrightarrow> k < length m \<Longrightarrow> key (m' ! Suc p) \<le> key (m' ! k)"
    using assms(1) by (auto simp: pass_done_def)
  have "mset (swap_step key (Suc p) m') = mset m"
    using mset_swap_step [of "Suc p" m' key] assms(2) len ms by simp
  moreover have "take p (swap_step key (Suc p) m') = take p m"
  proof -
    have "take p m' = take p m" using arg_cong [OF tk, of "take p"] by (simp add: min_def)
    then show ?thesis by (simp add: swap_step_def take_update_cancel)
  qed
  moreover have "key (swap_step key (Suc p) m' ! p) \<le> key (swap_step key (Suc p) m' ! k)"
    if k: "p \<le> k" "k < length m" for k
  proof -
    consider "k = p" | "k = Suc p" | "Suc p < k" using k(1) by linarith
    then show ?thesis
    proof cases
      case 3
      then show ?thesis using least [of k] k assms(2) len
        by (auto simp: swap_step_def nth_list_update not_less intro: order.trans)
    qed (use assms(2) len in \<open>auto simp: swap_step_def nth_list_update not_less\<close>)
  qed
  ultimately show ?thesis using len by (simp add: pass_done_def)
qed

lemma sort_pass_done:
  assumes "p < length m"
  shows "pass_done key p m (sort_pass key p m)"
  unfolding sort_pass_def
  using assms
proof (induction "length m - Suc p" arbitrary: p)
  case 0
  then have "Suc p = length m" by simp
  then show ?case by (auto simp: pass_done_def) (metis le_antisym less_Suc_eq_le order_refl)
next
  case (Suc d)
  then have "pass_done key (Suc p) m (fold (swap_step key) (rev [Suc (Suc p) ..< length m]) m)" by simp
  moreover have "Suc p < length m" using Suc.hyps(2) by linarith
  ultimately show ?case using pass_done_step [of key p m] by (simp add: upt_rec [of "Suc p"])
qed

definition sorted_upto :: "('a \<Rightarrow> u32) \<Rightarrow> nat \<Rightarrow> 'a list \<Rightarrow> bool" where
  "sorted_upto key i m \<longleftrightarrow> (\<forall>p q. p < i \<longrightarrow> p < q \<longrightarrow> q < length m \<longrightarrow> key (m ! p) \<le> key (m ! q))"

lemma sorted_upto_pass:
  assumes "sorted_upto key i m" and "pass_done key i m m'" and "i < length m"
  shows "sorted_upto key (Suc i) m'"
proof (unfold sorted_upto_def, intro allI impI)
  fix p q assume pq: "p < Suc i" "p < q" "q < length m'"
  have len: "length m' = length m" and tk: "take i m' = take i m"
    using assms(2) by (auto simp: pass_done_def)
  have "mset (drop i m') = mset (drop i m)"
    using assms(2) unfolding pass_done_def
    by (metis add_left_cancel append_take_drop_id mset_append)
  then have dr: "set (drop i m') = set (drop i m)" by (metis set_mset_mset)
  show "key (m' ! p) \<le> key (m' ! q)"
  proof (cases "p = i")
    case True
    then show ?thesis using assms(2) pq len by (simp add: pass_done_def)
  next
    case False
    then have p: "p < i" using pq(1) by simp
    then have mp: "m' ! p = m ! p" using tk by (metis nth_take)
    show ?thesis
    proof (cases "q < i")
      case True
      then have "m' ! q = m ! q" using tk by (metis nth_take)
      then show ?thesis using assms(1) p pq mp len by (simp add: sorted_upto_def)
    next
      case False
      then have "m' ! q \<in> set (drop i m')"
        using pq(3) by (auto simp: in_set_conv_nth not_less intro!: exI [of _ "q - i"])
      then obtain k where "k < length m - i" "m' ! q = m ! (i + k)"
        unfolding dr by (auto simp: in_set_conv_nth)
      then show ?thesis using assms(1) p mp by (simp add: sorted_upto_def)
    qed
  qed
qed

lemma bus_sort_upto:
  "n \<le> length m \<Longrightarrow>
    (let m' = fold (sort_pass key) [0 ..< n] m
     in length m' = length m \<and> mset m' = mset m \<and> sorted_upto key n m')"
proof (induction n)
  case 0
  then show ?case by (simp add: sorted_upto_def)
next
  case (Suc n)
  define m' where "m' = fold (sort_pass key) [0 ..< n] m"
  have m': "length m' = length m" "mset m' = mset m" "sorted_upto key n m'"
    using Suc by (auto simp: m'_def Let_def)
  have "pass_done key n m' (sort_pass key n m')" using Suc.prems m'(1) by (intro sort_pass_done) simp
  moreover from this have "sorted_upto key (Suc n) (sort_pass key n m')"
    using sorted_upto_pass m'(1,3) Suc.prems by (metis Suc_le_eq)
  ultimately show ?case using m' by (simp add: m'_def [symmetric] Let_def pass_done_def)
qed

lemma bus_sort_mset: "mset (bus_sort key m) = mset m"
  using bus_sort_upto [of "length m" m key] by (simp add: bus_sort_def Let_def)

lemma bus_sort_sorted: "sorted (map key (bus_sort key m))"
  using bus_sort_upto [of "length m" m key]
  by (auto simp: bus_sort_def Let_def sorted_upto_def sorted_iff_nth_mono_less)

end
