(* ===== verification/Sil_MsrReg.thy ===== *)
theory Sil_MsrReg
  imports Sil_Prelude
begin

text \<open>
  The numbers of the model specific registers that more than one component uses: \<^verbatim>\<open>src/xUSL/Include/MsrReg.h\<close>.
  The registers of one component only are defined with it.
\<close>

definition MSR_TOM :: u32 where "MSR_TOM = 0xC001001A"
definition MSR_TOM2 :: u32 where "MSR_TOM2 = 0xC001001D"
definition MSR_MMIO_Cfg_Base :: u32 where "MSR_MMIO_Cfg_Base = 0xC0010058"
definition MSR_HWCR :: u32 where "MSR_HWCR = 0xC0010015"
definition MCA_CTL_MASK_LS_ADDRESS :: u32 where "MCA_CTL_MASK_LS_ADDRESS = 0xC0010400"
definition SIL_RESERVED2_919 :: u32 where "SIL_RESERVED2_919 = 0xC0011000"
definition SIL_RESERVED2_926 :: u32 where "SIL_RESERVED2_926 = 0xC0011022"

end
