(* ===== verification/Rc_Layout.thy ===== *)
theory Rc_Layout
  imports Rc_Types Sil_MsrReg
begin

text \<open>
  Aligned placement of consecutive regions, the arithmetic both MMIO planners share: each region starts
  at the next aligned address after the previous one.
\<close>

section \<open>Regions\<close>

text \<open>A region is a base and a size; regions are compared as sets of addresses without wrap-around.\<close>

definition region_in :: "u64 \<Rightarrow> u64 \<Rightarrow> u64 \<times> u64 \<Rightarrow> bool" where
  "region_in lo hi r \<longleftrightarrow> unat lo \<le> unat (fst r) \<and> unat (fst r) + unat (snd r) \<le> unat hi"

definition regions_apart :: "u64 \<times> u64 \<Rightarrow> u64 \<times> u64 \<Rightarrow> bool" where
  "regions_apart r q \<longleftrightarrow> snd r = 0 \<or> snd q = 0 \<or> unat (fst r) + unat (snd r) \<le> unat (fst q)
     \<or> unat (fst q) + unat (snd q) \<le> unat (fst r)"

lemma regions_apart_sym: "regions_apart r q \<Longrightarrow> regions_apart q r"
  by (auto simp: regions_apart_def)

lemma region_in_mono:
  "region_in lo hi r \<Longrightarrow> unat lo' \<le> unat lo \<Longrightarrow> unat hi \<le> unat hi' \<Longrightarrow> region_in lo' hi' r"
  by (simp add: region_in_def)

lemma regions_apart_windows:
  assumes "region_in lo hi r" and "region_in lo' hi' q" and "unat hi \<le> unat lo'"
  shows "regions_apart r q"
  using assms by (simp add: region_in_def regions_apart_def)

section \<open>Three aligned placements\<close>

lemma align_step:
  assumes "align_mask n m" and "unat x + unat m + unat s < 2 ^ 64"
  shows "unat x \<le> unat (align_up m x)" and "unat (align_up m x) \<le> unat x + unat m"
    and "unat (align_up m x + s) = unat (align_up m x) + unat s"
proof -
  have lim: "unat x + unat m < 2 ^ 64" using assms(2) by simp
  show ge: "unat x \<le> unat (align_up m x)" by (rule align_up_ge [OF assms(1) lim])
  show le: "unat (align_up m x) \<le> unat x + unat m" by (rule align_up_le [OF assms(1) lim])
  show "unat (align_up m x + s) = unat (align_up m x) + unat s"
    using le assms(2) by (intro unat_plus_small) simp
qed

text \<open>
  Placing three regions one after the other gives regions inside the window, pairwise apart, and a
  ceiling that is at most the start plus all sizes and masks.
\<close>

lemma place_three:
  assumes "align_mask n1 m1" and "align_mask n2 m2" and "align_mask n3 m3"
    and lim: "unat x + (unat m1 + unat s1) + (unat m2 + unat s2) + (unat m3 + unat s3) < 2 ^ 64"
    and b: "b1 = align_up m1 x" "b2 = align_up m2 (b1 + s1)" "b3 = align_up m3 (b2 + s2)"
      "e = b3 + s3"
  shows "region_in x e (b1, s1)" and "region_in x e (b2, s2)" and "region_in x e (b3, s3)"
    and "regions_apart (b1, s1) (b2, s2)" and "regions_apart (b1, s1) (b3, s3)"
    and "regions_apart (b2, s2) (b3, s3)"
    and "unat x \<le> unat e"
    and "unat e \<le> unat x + (unat m1 + unat s1) + (unat m2 + unat s2) + (unat m3 + unat s3)"
    and "unat b1 + unat s1 \<le> unat b2" and "unat b2 + unat s2 \<le> unat b3"
    and "unat (b1 + s1) = unat b1 + unat s1" and "unat (b2 + s2) = unat b2 + unat s2"
    and "unat (b3 + s3) = unat b3 + unat s3"
proof -
  have 1: "unat x \<le> unat b1" "unat b1 \<le> unat x + unat m1" "unat (b1 + s1) = unat b1 + unat s1"
    unfolding b(1) using align_step [OF assms(1), of x s1] lim by simp_all
  have 2: "unat b1 + unat s1 \<le> unat b2" "unat b2 \<le> unat b1 + unat s1 + unat m2"
    "unat (b2 + s2) = unat b2 + unat s2"
    unfolding b(2) using align_step [OF assms(2), of "b1 + s1" s2] lim 1 by simp_all
  have 3: "unat b2 + unat s2 \<le> unat b3" "unat b3 \<le> unat b2 + unat s2 + unat m3"
    "unat (b3 + s3) = unat b3 + unat s3"
    unfolding b(3) using align_step [OF assms(3), of "b2 + s2" s3] lim 1 2 by simp_all
  show "region_in x e (b1, s1)" "region_in x e (b2, s2)" "region_in x e (b3, s3)"
    using 1 2 3 by (simp_all add: region_in_def b(4))
  show "regions_apart (b1, s1) (b2, s2)" "regions_apart (b1, s1) (b3, s3)"
    "regions_apart (b2, s2) (b3, s3)"
    using 1 2 3 by (simp_all add: regions_apart_def)
  show "unat x \<le> unat e" using 1 2 3 by (simp add: b(4))
  show "unat e \<le> unat x + (unat m1 + unat s1) + (unat m2 + unat s2) + (unat m3 + unat s3)"
    using 1 2 3 by (simp add: b(4))
  show "unat b1 + unat s1 \<le> unat b2" "unat b2 + unat s2 \<le> unat b3" by (rule 2(1), rule 3(1))
  show "unat (b1 + s1) = unat b1 + unat s1" "unat (b2 + s2) = unat b2 + unat s2"
    "unat (b3 + s3) = unat b3 + unat s3" by (rule 1(3), rule 2(3), rule 3(3))
qed

section \<open>Hardware facts the planners read\<close>

text \<open>
  The model-specific registers and the physical address width: read by \<^verbatim>\<open>xUslRdMsr\<close>,
  \<^verbatim>\<open>xUslGetPhysAddrSize\<close> and \<^verbatim>\<open>xUslGetPhysAddrReduction\<close>, which are processor instructions; a parameter.
\<close>

record cpu_info =
  rdmsr :: "u32 \<Rightarrow> u64"
  PhysAddrSize :: u8
  PhysAddrReduction :: u8


text \<open>The PCI configuration space: 1 MB for each bus of the range in the MSR.\<close>

definition PciCfgSpace :: "cpu_info \<Rightarrow> u64" where
  "PciCfgSpace cpu = push_bit (unat (drop_bit 2 (rdmsr cpu MSR_MMIO_Cfg_Base) AND 0xF)) 1 * 0x100000"

definition TOM :: "cpu_info \<Rightarrow> u64" where "TOM cpu = rdmsr cpu MSR_TOM"
definition TOM2 :: "cpu_info \<Rightarrow> u64" where "TOM2 cpu = rdmsr cpu MSR_TOM2"

end
