(* ===== verification/Rc_Above4G.thy ===== *)
theory Rc_Above4G
  imports Rc_Regs Rc_Layout
begin

text \<open>
  MMIO above 4G: the window the address map leaves (the part of \<^verbatim>\<open>SilInitMmioBasedOnNvVariable4\<close> and of
  \<^verbatim>\<open>SilInitMmioEqually4\<close> that computes it) and \<^verbatim>\<open>SilArrangeMmioAbove4G\<close>, which places three pools for
  each root bridge in turn.
\<close>

section \<open>The window\<close>

definition above4G_start :: "cpu_info \<Rightarrow> u64" where
  "above4G_start cpu = (if 0x100000000 < TOM2 cpu then TOM2 cpu else 0x100000000)"

definition phys_bits :: "cpu_info \<Rightarrow> u64" where
  "phys_bits cpu = ucast (PhysAddrSize cpu) - ucast (PhysAddrReduction cpu)"

definition nv_limit :: "RCMGR_INPUT_BLK \<Rightarrow> cpu_info \<Rightarrow> u64" where
  "nv_limit d cpu =
     (let Limit = push_bit (unat (phys_bits cpu)) 1 - 0x300000000
      in if MmioAbove4GLimit d < Limit then
           let Limit = (MmioAbove4GLimit d + 1) AND 0xFFFFFFFFFFFF0000
           in if Limit \<le> above4G_start cpu then above4G_start cpu else Limit
         else Limit)"

text \<open>A PCI configuration space above 4G splits the window; the larger side is kept.\<close>

definition pcie_hole :: "bool \<Rightarrow> RCMGR_INPUT_BLK \<Rightarrow> cpu_info \<Rightarrow> u64 \<times> u64 \<Rightarrow> (u64 \<times> u64) option" where
  "pcie_hole dbg d cpu w =
     (case w of (Base, Limit) \<Rightarrow>
        if 0x100000000 \<le> PciExpressBaseAddress d then
          do { c_assert dbg (TOM2 cpu \<le> PciExpressBaseAddress d);
               c_assert dbg (PciExpressBaseAddress d + PciCfgSpace cpu < Limit);
               if PciExpressBaseAddress d - TOM2 cpu
                    < Limit - (PciExpressBaseAddress d + PciCfgSpace cpu)
               then Some (PciExpressBaseAddress d + PciCfgSpace cpu, Limit)
               else Some (Base, PciExpressBaseAddress d) }
        else Some (Base, Limit))"

text \<open>The reserved hole from \<^verbatim>\<open>0xFD_0000_0000\<close> to \<^verbatim>\<open>0x100_0000_0000\<close>; again the larger side is kept.\<close>

definition fd_hole :: "cpu_info \<Rightarrow> u64 \<times> u64 \<Rightarrow> u64 \<times> u64" where
  "fd_hole cpu w =
     (case w of (Base, Limit) \<Rightarrow>
        let MmioSizeBelowHole = (if Base < 0xFD00000000
              then (if Limit < 0xFD00000000 then Limit else 0xFD00000000) - Base else 0);
            MmioSizeAboveHole = (if 0x10000000000 < Limit
              then Limit - (if 0x10000000000 < Base then Base else 0x10000000000) else 0)
        in if MmioSizeBelowHole = 0 \<and> MmioSizeAboveHole = 0 then (Base, 0)
           else if MmioSizeBelowHole < MmioSizeAboveHole
             then (if 0x10000000000 < TOM2 cpu then TOM2 cpu else 0x10000000000, Limit)
             else (Base, if Limit < 0xFD00000000 then Limit else 0xFD00000000))"

definition nv_window :: "bool \<Rightarrow> RCMGR_INPUT_BLK \<Rightarrow> cpu_info \<Rightarrow> (u64 \<times> u64) option" where
  "nv_window dbg d cpu =
     do { w \<leftarrow> pcie_hole dbg d cpu (above4G_start cpu, nv_limit d cpu);
          Some (fd_hole cpu w) }"

section \<open>One root bridge\<close>

record FABRIC_MMIO_ABOVE_4G_QUEUE =
  q_MmioType :: u8
  q_AlignBit :: u64

definition swap_at :: "('a \<Rightarrow> 'a \<Rightarrow> bool) \<Rightarrow> nat \<Rightarrow> 'a list \<Rightarrow> 'a list" where
  "swap_at out j q = (if out (q ! j) (q ! (j + 1)) then q[j + 1 := q ! j, j := q ! (j + 1)] else q)"

definition MMIO_QUEUE_SIZE :: nat where "MMIO_QUEUE_SIZE = 3"

definition queue_sort :: "('a \<Rightarrow> 'a \<Rightarrow> bool) \<Rightarrow> 'a list \<Rightarrow> 'a list" where
  "queue_sort out q = fold (\<lambda>i. fold (swap_at out) [0 ..< MMIO_QUEUE_SIZE - i - 1]) [0 ..< MMIO_QUEUE_SIZE] q"

definition out_of_order :: "bool \<Rightarrow> FABRIC_MMIO_ABOVE_4G_QUEUE \<Rightarrow> FABRIC_MMIO_ABOVE_4G_QUEUE \<Rightarrow> bool" where
  "out_of_order BigAlignFirst a b =
     (if BigAlignFirst then q_AlignBit a < q_AlignBit b
      else (q_AlignBit b < q_AlignBit a \<or> q_AlignBit a = 0) \<and> q_AlignBit b \<noteq> 0)"

definition above_queue :: "FABRIC_ADDR_APERTURE \<Rightarrow> FABRIC_ADDR_APERTURE \<Rightarrow> FABRIC_MMIO_ABOVE_4G_QUEUE list" where
  "above_queue np p =
     [\<lparr>q_MmioType = NON_PCI_DEVICE_ABOVE_4G, q_AlignBit = RCMGR_NON_PCI_MMIO_ALIGN_MASK_ABOVE4G\<rparr>,
      \<lparr>q_MmioType = P_MMIO_ABOVE_4G, q_AlignBit = ap_Alignment p\<rparr>,
      \<lparr>q_MmioType = MMIO_ABOVE_4G, q_AlignBit = ap_Alignment np\<rparr>]"

text \<open>
  The running address and the three bases the queue assigns. No queue entry has another type; the
  assertion of the \<^verbatim>\<open>default\<close> case is out of reach.
\<close>

record above_bases =
  ab_next :: u64
  ab_NonPci :: u64
  ab_Prefetchable :: u64
  ab_NonPrefetchable :: u64

definition place_above ::
  "u64 \<Rightarrow> FABRIC_ADDR_APERTURE \<Rightarrow> FABRIC_ADDR_APERTURE \<Rightarrow> FABRIC_MMIO_ABOVE_4G_QUEUE \<Rightarrow> above_bases
     \<Rightarrow> above_bases" where
  "place_above NonPciSize np p e s =
     (if q_MmioType e = MMIO_ABOVE_4G then
        let b = align_up (ap_Alignment np) (ab_next s)
        in s\<lparr>ab_NonPrefetchable := b, ab_next := b + ap_Size np\<rparr>
      else if q_MmioType e = P_MMIO_ABOVE_4G then
        let b = align_up (ap_Alignment p) (ab_next s)
        in s\<lparr>ab_Prefetchable := b, ab_next := b + ap_Size p\<rparr>
      else if q_MmioType e = NON_PCI_DEVICE_ABOVE_4G then
        let b = align_up RCMGR_NON_PCI_MMIO_ALIGN_MASK_ABOVE4G (ab_next s)
        in s\<lparr>ab_NonPci := b, ab_next := b + NonPciSize\<rparr>
      else s)"

definition layout_above ::
  "u64 \<Rightarrow> FABRIC_ADDR_APERTURE \<Rightarrow> FABRIC_ADDR_APERTURE \<Rightarrow> bool \<Rightarrow> u64 \<Rightarrow> above_bases" where
  "layout_above NonPciSize np p BigAlignFirst Next =
     fold (place_above NonPciSize np p) (queue_sort (out_of_order BigAlignFirst) (above_queue np p))
       \<lparr>ab_next = Next, ab_NonPci = 0, ab_Prefetchable = 0, ab_NonPrefetchable = 0\<rparr>"

definition region_above ::
  "u64 \<Rightarrow> FABRIC_ADDR_APERTURE \<Rightarrow> FABRIC_ADDR_APERTURE \<Rightarrow> above_bases \<Rightarrow> FABRIC_MMIO_REGION" where
  "region_above NonPciSize np p s =
     \<lparr>BaseNonPci = ab_NonPci s, SizeNonPci = NonPciSize, UsedSizeNonPci = 0,
      BaseNonPrefetch = (if ap_Size np = 0 then 0 else ab_NonPrefetchable s),
      SizeNonPrefetch = ap_Size np, UsedSizeNonPrefetch = 0,
      BasePrefetch = (if ap_Size p = 0 then 0 else ab_Prefetchable s),
      SizePrefetch = ap_Size p, UsedSizePrefetch = 0,
      AlignNonPrefetch = ap_Alignment np, AlignPrefetch = ap_Alignment p\<rparr>"

section \<open>All root bridges\<close>

definition non_pci_size_above :: "RCMGR_INPUT_BLK \<Rightarrow> u64" where
  "non_pci_size_above d =
     (if MMIO_MIN_NON_PCI_SIZE_ABOVE4G < ucast (Above4GMmioSizePerRbForNonPciDevice d)
      then ucast (Above4GMmioSizePerRbForNonPciDevice d) else MMIO_MIN_NON_PCI_SIZE_ABOVE4G)"

record above_state =
  as_space :: "FABRIC_ADDR_SPACE_SIZE option"
  as_mgr :: FABRIC_MMIO_MANAGER
  as_next :: u64
  as_enough :: bool
  as_big_first :: bool

definition add_required ::
  "FABRIC_RESOURCE_FOR_EACH_RB \<Rightarrow> nat \<Rightarrow> nat \<Rightarrow> FABRIC_ADDR_SPACE_SIZE \<Rightarrow> FABRIC_ADDR_SPACE_SIZE" where
  "add_required sz s r sp =
     sp\<lparr>ss_MmioSizeAbove4G := ss_MmioSizeAbove4G sp
          + (ap_Size (PrefetchableMmioSizeAbove4G sz s r) + ap_Size (NonPrefetchableMmioSizeAbove4G sz s r)),
        ss_MmioSizeBelow4G := ss_MmioSizeBelow4G sp
          + ucast (ap_Size (PrefetchableMmioSizeBelow4G sz s r) + ap_Size (NonPrefetchableMmioSizeBelow4G sz s r))\<rparr>"

text \<open>
  The pool sizes of the code keep their value across root bridges, but every queue has all three types,
  so they are those of the root bridge at hand.
\<close>

definition arrange_above_rb ::
  "bool \<Rightarrow> 'h pci_ops \<Rightarrow> RCMGR_INPUT_BLK \<Rightarrow> u64 \<Rightarrow> bool \<Rightarrow> nat \<times> nat \<Rightarrow> above_state \<times> 'h
     \<Rightarrow> (above_state \<times> 'h) option" where
  "arrange_above_rb dbg ops d MmioLimitAbove4G SetDfRegisters sr sh =
     (case sr of (s, r) \<Rightarrow> case sh of (st, h) \<Rightarrow>
        let sz = ResourceSizeForEachRb d;
            np = NonPrefetchableMmioSizeAbove4G sz s r;
            p = PrefetchableMmioSizeAbove4G sz s r;
            n = non_pci_size_above d;
            st = st\<lparr>as_space := map_option (add_required sz s r) (as_space st)\<rparr>
        in if ap_Size np + ap_Size p + n = 0 then Some (st, h)
           else
             let l = layout_above n np p (as_big_first st) (as_next st);
                 st' = st\<lparr>as_big_first := \<not> as_big_first st, as_next := ab_next l,
                          as_enough := as_enough st \<and> ab_next l \<le> MmioLimitAbove4G\<rparr>
             in if SetDfRegisters \<and> as_enough st' \<and> \<not> (ap_Size np = 0 \<and> ap_Size p = 0 \<and> n = 0) then
                  do { h \<leftarrow> SilSetMmioReg4 dbg ops (SocketNumber d) (pair_index d s r True) s r
                             (as_next st) (ab_next l - as_next st) h;
                       let m = as_mgr st';
                       Some (st'\<lparr>as_mgr := m\<lparr>
                         AllocateMmioAbove4GOnThisRb := rb_upd (AllocateMmioAbove4GOnThisRb m) s r True,
                         MmioRegionAbove4G := rb_upd (MmioRegionAbove4G m) s r (region_above n np p l)\<rparr>\<rparr>, h) }
                else Some (st', h))"

definition all_rbs :: "RCMGR_INPUT_BLK \<Rightarrow> (nat \<times> nat) list" where
  "all_rbs d = List.product [0 ..< SocketNumber d] [0 ..< RbsPerSocket d]"

definition SilArrangeMmioAbove4G ::
  "bool \<Rightarrow> 'h pci_ops \<Rightarrow> RCMGR_INPUT_BLK \<Rightarrow> FABRIC_ADDR_SPACE_SIZE option \<Rightarrow> u64 \<Rightarrow> u64 \<Rightarrow> bool \<Rightarrow> 'h
     \<Rightarrow> (bool \<times> above_state \<times> 'h) option" where
  "SilArrangeMmioAbove4G dbg ops d SpaceStatus MmioBaseAddrNextRb MmioLimitAbove4G SetDfRegisters h =
     do { (st, h) \<leftarrow> for_each (arrange_above_rb dbg ops d MmioLimitAbove4G SetDfRegisters) (all_rbs d)
                      (\<lparr>as_space = SpaceStatus, as_mgr = MmioRcMgr d, as_next = MmioBaseAddrNextRb,
                        as_enough = True, as_big_first = True\<rparr>, h);
          Some (as_enough st, st, h) }"

section \<open>Lemmas\<close>

text \<open>The exchange sort of a queue of three.\<close>

lemma queue_sort_three:
  "queue_sort out [a, b, c] =
     (let (a, b) = if out a b then (b, a) else (a, b);
          (b, c) = if out b c then (c, b) else (b, c);
          (a, b) = if out a b then (b, a) else (a, b)
      in [a, b, c])"
  by (simp add: queue_sort_def MMIO_QUEUE_SIZE_def upt_rec swap_at_def)

lemma queue_sort_mset: "mset (queue_sort out [a, b, c]) = {#a, b, c#}"
  by (auto simp: queue_sort_three Let_def)

text \<open>The queue orders by decreasing alignment, or by increasing alignment with zeros last.\<close>

lemma queue_sort_ordered:
  "sorted_wrt (\<lambda>a b. \<not> out_of_order big a b) (queue_sort (out_of_order big) [a, b, c])"
  by (auto simp: queue_sort_three Let_def out_of_order_def)

definition rb_need :: "u64 \<Rightarrow> FABRIC_ADDR_APERTURE \<Rightarrow> FABRIC_ADDR_APERTURE \<Rightarrow> nat" where
  "rb_need n np p = (unat RCMGR_NON_PCI_MMIO_ALIGN_MASK_ABOVE4G + unat n)
     + (unat (ap_Alignment p) + unat (ap_Size p)) + (unat (ap_Alignment np) + unat (ap_Size np))"

definition aperture_ok :: "FABRIC_ADDR_APERTURE \<Rightarrow> bool" where
  "aperture_ok a \<longleftrightarrow> (\<exists>n. align_mask n (ap_Alignment a))"

lemma non_pci_mask_ok: "align_mask 28 RCMGR_NON_PCI_MMIO_ALIGN_MASK_ABOVE4G"
  by (simp add: align_mask_def RCMGR_NON_PCI_MMIO_ALIGN_MASK_ABOVE4G_def mask_eq_exp_minus_1)

text \<open>The three pools of one root bridge: inside the window, aligned and pairwise apart.\<close>

definition pools_ok :: "u64 \<Rightarrow> u64 \<Rightarrow> u64 \<times> u64 \<Rightarrow> u64 \<times> u64 \<Rightarrow> u64 \<times> u64 \<Rightarrow> bool" where
  "pools_ok lo hi a b c \<longleftrightarrow> region_in lo hi a \<and> region_in lo hi b \<and> region_in lo hi c
     \<and> regions_apart a b \<and> regions_apart a c \<and> regions_apart b c"

lemma pools_ok_perm: "pools_ok lo hi a b c \<Longrightarrow> pools_ok lo hi b a c"
  "pools_ok lo hi a b c \<Longrightarrow> pools_ok lo hi a c b"
  by (auto simp: pools_ok_def dest: regions_apart_sym)

lemma place_three_pools:
  assumes "align_mask n1 m1" and "align_mask n2 m2" and "align_mask n3 m3"
    and "unat x + ((unat m1 + unat s1) + (unat m2 + unat s2) + (unat m3 + unat s3)) < 2 ^ 64"
  shows "let b1 = align_up m1 x; b2 = align_up m2 (b1 + s1); b3 = align_up m3 (b2 + s2); e = b3 + s3
    in pools_ok x e (b1, s1) (b2, s2) (b3, s3) \<and> unat x \<le> unat e
       \<and> unat e \<le> unat x + ((unat m1 + unat s1) + (unat m2 + unat s2) + (unat m3 + unat s3))"
proof -
  have lim: "unat x + (unat m1 + unat s1) + (unat m2 + unat s2) + (unat m3 + unat s3) < 2 ^ 64"
    using assms(4) by simp
  show ?thesis
    using place_three [OF assms(1-3) lim refl refl refl refl] by (simp add: pools_ok_def Let_def)
qed

definition above_layout_ok :: "u64 \<Rightarrow> FABRIC_ADDR_APERTURE \<Rightarrow> FABRIC_ADDR_APERTURE \<Rightarrow> u64 \<Rightarrow> above_bases \<Rightarrow> bool" where
  "above_layout_ok n np p lo l \<longleftrightarrow>
     pools_ok lo (ab_next l) (ab_NonPci l, n) (ab_Prefetchable l, ap_Size p) (ab_NonPrefetchable l, ap_Size np)
     \<and> unat lo \<le> unat (ab_next l) \<and> unat (ab_next l) \<le> unat lo + rb_need n np p
     \<and> ab_NonPci l AND RCMGR_NON_PCI_MMIO_ALIGN_MASK_ABOVE4G = 0
     \<and> ab_Prefetchable l AND ap_Alignment p = 0 \<and> ab_NonPrefetchable l AND ap_Alignment np = 0"

lemma above_types_distinct [simp]:
  "NON_PCI_DEVICE_ABOVE_4G \<noteq> MMIO_ABOVE_4G" "NON_PCI_DEVICE_ABOVE_4G \<noteq> P_MMIO_ABOVE_4G"
  "P_MMIO_ABOVE_4G \<noteq> MMIO_ABOVE_4G"
  by (simp_all add: mmio_types)

lemmas place_above_eval = layout_above_def above_queue_def place_above_def Let_def
  align_up_and_mask above_layout_ok_def

lemma above_orders:
  "queue_sort out [a, b, c] \<in> {[a, b, c], [a, c, b], [b, a, c], [b, c, a], [c, a, b], [c, b, a]}"
  by (auto simp: queue_sort_three Let_def)

lemma layout_above_ok:
  assumes np: "align_mask i (ap_Alignment np)" and p: "align_mask j (ap_Alignment p)"
    and lim: "unat lo + rb_need n np p < 2 ^ 64"
  shows "above_layout_ok n np p lo (layout_above n np p big lo)"
proof -
  note M = non_pci_mask_ok
  note perm = pools_ok_perm
  note need = rb_need_def [of n np p]
  consider (1) "queue_sort (out_of_order big) (above_queue np p) = map ((!) (above_queue np p)) [0, 1, 2]"
    | (2) "queue_sort (out_of_order big) (above_queue np p) = map ((!) (above_queue np p)) [0, 2, 1]"
    | (3) "queue_sort (out_of_order big) (above_queue np p) = map ((!) (above_queue np p)) [1, 0, 2]"
    | (4) "queue_sort (out_of_order big) (above_queue np p) = map ((!) (above_queue np p)) [1, 2, 0]"
    | (5) "queue_sort (out_of_order big) (above_queue np p) = map ((!) (above_queue np p)) [2, 0, 1]"
    | (6) "queue_sort (out_of_order big) (above_queue np p) = map ((!) (above_queue np p)) [2, 1, 0]"
    unfolding above_queue_def using above_orders by fastforce
  then show ?thesis
  proof cases
    case 1
    then show ?thesis using place_three_pools [OF M p np, of lo n "ap_Size p" "ap_Size np"] lim need
      by (auto simp: place_above_eval intro: perm perm [OF perm(1)] perm [OF perm(2)])
  next
    case 2
    then show ?thesis using place_three_pools [OF M np p, of lo n "ap_Size np" "ap_Size p"] lim need
      by (auto simp: place_above_eval intro: perm perm [OF perm(1)] perm [OF perm(2)])
  next
    case 3
    then show ?thesis using place_three_pools [OF p M np, of lo "ap_Size p" n "ap_Size np"] lim need
      by (auto simp: place_above_eval intro: perm perm [OF perm(1)] perm [OF perm(2)])
  next
    case 4
    then show ?thesis using place_three_pools [OF p np M, of lo "ap_Size p" "ap_Size np" n] lim need
      by (auto simp: place_above_eval intro: perm perm [OF perm(1)] perm [OF perm(2)])
  next
    case 5
    then show ?thesis using place_three_pools [OF np M p, of lo "ap_Size np" n "ap_Size p"] lim need
      by (auto simp: place_above_eval intro: perm perm [OF perm(1)] perm [OF perm(2)])
  next
    case 6
    then show ?thesis using place_three_pools [OF np p M, of lo "ap_Size np" "ap_Size p" n] lim need
      by (auto simp: place_above_eval intro: perm perm [OF perm(1)] perm [OF perm(2)])
  qed
qed

text \<open>The pools a region record describes, without the empty ones.\<close>

definition pools :: "FABRIC_MMIO_REGION \<Rightarrow> (u64 \<times> u64) set" where
  "pools r = {q \<in> {(BaseNonPci r, SizeNonPci r), (BasePrefetch r, SizePrefetch r),
                    (BaseNonPrefetch r, SizeNonPrefetch r)}. snd q \<noteq> 0}"

definition region_ok :: "u64 \<Rightarrow> u64 \<Rightarrow> FABRIC_MMIO_REGION \<Rightarrow> bool" where
  "region_ok lo hi r \<longleftrightarrow> (\<forall>q\<in>pools r. region_in lo hi q)
     \<and> regions_apart (BaseNonPci r, SizeNonPci r) (BasePrefetch r, SizePrefetch r)
     \<and> regions_apart (BaseNonPci r, SizeNonPci r) (BaseNonPrefetch r, SizeNonPrefetch r)
     \<and> regions_apart (BasePrefetch r, SizePrefetch r) (BaseNonPrefetch r, SizeNonPrefetch r)"

lemma region_ok_mono:
  "region_ok lo hi r \<Longrightarrow> unat lo' \<le> unat lo \<Longrightarrow> unat hi \<le> unat hi' \<Longrightarrow> region_ok lo' hi' r"
  by (auto simp: region_ok_def intro: region_in_mono)

lemma region_ok_windows:
  assumes "region_ok lo hi r" and "region_ok lo' hi' r'" and "unat hi \<le> unat lo'"
    and "q \<in> pools r" and "q' \<in> pools r'"
  shows "regions_apart q q'"
proof (rule regions_apart_windows [OF _ _ assms(3)])
  show "region_in lo hi q" using assms(1,4) by (simp add: region_ok_def)
  show "region_in lo' hi' q'" using assms(2,5) by (simp add: region_ok_def)
qed

lemma region_above_ok:
  assumes "above_layout_ok n np p lo l"
  shows "region_ok lo (ab_next l) (region_above n np p l)"
  using assms
  by (auto simp: above_layout_ok_def pools_ok_def region_ok_def region_above_def pools_def regions_apart_def)

text \<open>What a root bridge may ask for above 4G: masks for alignments.\<close>

definition need_of :: "RCMGR_INPUT_BLK \<Rightarrow> nat \<times> nat \<Rightarrow> nat" where
  "need_of d p = rb_need (non_pci_size_above d)
     (NonPrefetchableMmioSizeAbove4G (ResourceSizeForEachRb d) (fst p) (snd p))
     (PrefetchableMmioSizeAbove4G (ResourceSizeForEachRb d) (fst p) (snd p))"

definition request_above_ok :: "RCMGR_INPUT_BLK \<Rightarrow> nat \<times> nat \<Rightarrow> bool" where
  "request_above_ok d p \<longleftrightarrow>
     aperture_ok (NonPrefetchableMmioSizeAbove4G (ResourceSizeForEachRb d) (fst p) (snd p))
     \<and> aperture_ok (PrefetchableMmioSizeAbove4G (ResourceSizeForEachRb d) (fst p) (snd p))"

lemma non_pci_size_above_pos: "non_pci_size_above d \<noteq> 0"
proof -
  have "unat MMIO_MIN_NON_PCI_SIZE_ABOVE4G \<le> unat (non_pci_size_above d)"
    by (auto simp: non_pci_size_above_def word_less_nat_alt)
  then show ?thesis by (auto simp: MMIO_MIN_NON_PCI_SIZE_ABOVE4G_def)
qed

lemma sum_not_zero:
  assumes "unat lo + rb_need n np p < 2 ^ 64" and "n \<noteq> 0"
  shows "ap_Size np + ap_Size p + n \<noteq> 0"
proof -
  have "unat (ap_Size np + ap_Size p) = unat (ap_Size np) + unat (ap_Size p)"
    using assms(1) by (intro unat_plus_small) (simp add: rb_need_def)
  moreover from this have "unat (ap_Size np + ap_Size p + n) = unat (ap_Size np) + unat (ap_Size p) + unat n"
    using assms(1) by (subst unat_plus_small) (simp_all add: rb_need_def)
  moreover have "0 < unat n" using assms(2) by (simp add: unat_gt_0)
  ultimately show ?thesis by (metis add_is_0 less_numeral_extra(3) unat_0)
qed

lemma arrange_above_rb_step:
  assumes "arrange_above_rb dbg ops d Limit True p (st, h) = Some (st', h')" and "as_enough st'"
    and "request_above_ok d p" and "unat (as_next st) + need_of d p < 2 ^ 64"
  shows "as_enough st" and "unat (as_next st) \<le> unat (as_next st')"
    and "unat (as_next st') \<le> unat (as_next st) + need_of d p"
    and "as_next st' \<le> Limit"
    and "region_ok (as_next st) (as_next st') (MmioRegionAbove4G (as_mgr st') (fst p) (snd p))"
    and "AllocateMmioAbove4GOnThisRb (as_mgr st') (fst p) (snd p)"
    and "q \<noteq> p \<Longrightarrow> MmioRegionAbove4G (as_mgr st') (fst q) (snd q) = MmioRegionAbove4G (as_mgr st) (fst q) (snd q)"
    and "q \<noteq> p \<Longrightarrow> AllocateMmioAbove4GOnThisRb (as_mgr st') (fst q) (snd q)
           = AllocateMmioAbove4GOnThisRb (as_mgr st) (fst q) (snd q)"
proof -
  obtain s r where p: "p = (s, r)" by force
  define np where "np = NonPrefetchableMmioSizeAbove4G (ResourceSizeForEachRb d) s r"
  define pf where "pf = PrefetchableMmioSizeAbove4G (ResourceSizeForEachRb d) s r"
  define n where "n = non_pci_size_above d"
  define l where "l = layout_above n np pf (as_big_first st) (as_next st)"
  have need: "need_of d p = rb_need n np pf" by (simp add: need_of_def p n_def np_def pf_def)
  have nz: "ap_Size np + ap_Size pf + n \<noteq> 0" and n0: "n \<noteq> 0"
    using sum_not_zero assms(4) non_pci_size_above_pos unfolding need n_def by blast+
  obtain i j where "align_mask i (ap_Alignment np)" "align_mask j (ap_Alignment pf)"
    using assms(3) by (auto simp: request_above_ok_def aperture_ok_def p np_def pf_def)
  then have ok: "above_layout_ok n np pf (as_next st) l"
    using assms(4) unfolding l_def need by (intro layout_above_ok)
  have st': "as_enough st" "ab_next l \<le> Limit" "as_next st' = ab_next l"
    "MmioRegionAbove4G (as_mgr st') = rb_upd (MmioRegionAbove4G (as_mgr st)) s r (region_above n np pf l)"
    "AllocateMmioAbove4GOnThisRb (as_mgr st') = rb_upd (AllocateMmioAbove4GOnThisRb (as_mgr st)) s r True"
    using assms(1,2) nz n0
    by (auto simp: arrange_above_rb_def p Let_def np_def [symmetric] pf_def [symmetric] n_def [symmetric]
        l_def [symmetric] split: if_splits bind_splits)
  show "as_enough st" "as_next st' \<le> Limit" using st' by simp_all
  show "unat (as_next st) \<le> unat (as_next st')" "unat (as_next st') \<le> unat (as_next st) + need_of d p"
    using ok st' need by (simp_all add: above_layout_ok_def)
  show "region_ok (as_next st) (as_next st') (MmioRegionAbove4G (as_mgr st') (fst p) (snd p))"
    using region_above_ok [OF ok] st' by (simp add: p)
  show "AllocateMmioAbove4GOnThisRb (as_mgr st') (fst p) (snd p)" using st' by (simp add: p)
  show "q \<noteq> p \<Longrightarrow> MmioRegionAbove4G (as_mgr st') (fst q) (snd q) = MmioRegionAbove4G (as_mgr st) (fst q) (snd q)"
    "q \<noteq> p \<Longrightarrow> AllocateMmioAbove4GOnThisRb (as_mgr st') (fst q) (snd q)
       = AllocateMmioAbove4GOnThisRb (as_mgr st) (fst q) (snd q)"
    using st' by (auto simp: p prod_eq_iff)
qed

lemma arrange_above_enough:
  assumes "arrange_above_rb dbg ops d Limit regs p (st, h) = Some (st', h')" and "as_enough st'"
  shows "as_enough st"
  using assms by (auto simp: arrange_above_rb_def Let_def split: if_splits bind_splits prod.splits)

lemma arrange_above_enough_all:
  assumes "for_each (arrange_above_rb dbg ops d Limit regs) ps (st, h) = Some (st', h')" and "as_enough st'"
  shows "as_enough st"
  using assms
proof (induction ps arbitrary: st h)
  case (Cons p ps)
  from Cons.prems(1) obtain st1 h1 where "arrange_above_rb dbg ops d Limit regs p (st, h) = Some (st1, h1)"
    "for_each (arrange_above_rb dbg ops d Limit regs) ps (st1, h1) = Some (st', h')"
    by (rule for_each_ConsE) (metis surj_pair)
  with Cons.IH [OF _ Cons.prems(2)] arrange_above_enough show ?case by metis
qed simp

text \<open>The outcome for a list of root bridges: their regions lie in consecutive windows.\<close>

definition above_result :: "(nat \<times> nat) list \<Rightarrow> u64 \<Rightarrow> u64 \<Rightarrow> FABRIC_MMIO_MANAGER \<Rightarrow> bool" where
  "above_result ps lo hi m \<longleftrightarrow>
     (\<forall>p\<in>set ps. AllocateMmioAbove4GOnThisRb m (fst p) (snd p)
        \<and> region_ok lo hi (MmioRegionAbove4G m (fst p) (snd p)))
     \<and> (\<forall>p\<in>set ps. \<forall>q\<in>set ps. p \<noteq> q \<longrightarrow>
          (\<forall>a\<in>pools (MmioRegionAbove4G m (fst p) (snd p)).
           \<forall>b\<in>pools (MmioRegionAbove4G m (fst q) (snd q)). regions_apart a b))"

lemma above_result_Cons:
  assumes head: "region_ok lo mid (MmioRegionAbove4G m (fst p) (snd p))"
      "AllocateMmioAbove4GOnThisRb m (fst p) (snd p)"
    and tail: "above_result ps mid hi m"
    and le: "unat lo \<le> unat mid" "unat mid \<le> unat hi" and "p \<notin> set ps"
  shows "above_result (p # ps) lo hi m"
proof -
  have in_tail: "region_ok mid hi (MmioRegionAbove4G m (fst q) (snd q))" if "q \<in> set ps" for q
    using tail that by (simp add: above_result_def)
  have apart: "regions_apart a b" if "q \<in> set ps" "a \<in> pools (MmioRegionAbove4G m (fst p) (snd p))"
    "b \<in> pools (MmioRegionAbove4G m (fst q) (snd q))" for q a b
    using region_ok_windows [OF head(1) in_tail] that by blast
  have wider: "region_ok lo hi (MmioRegionAbove4G m (fst q) (snd q))" if "q \<in> set (p # ps)" for q
    using that region_ok_mono [OF head(1), of lo hi] region_ok_mono [OF in_tail, of q lo hi] le
    by (cases "q = p") simp_all
  show ?thesis
    unfolding above_result_def
  proof (intro conjI ballI impI)
    fix q q' a b
    assume qs: "q \<in> set (p # ps)" "q' \<in> set (p # ps)" "q \<noteq> q'"
      and ab: "a \<in> pools (MmioRegionAbove4G m (fst q) (snd q))"
        "b \<in> pools (MmioRegionAbove4G m (fst q') (snd q'))"
    consider "q = p" "q' \<in> set ps" | "q' = p" "q \<in> set ps" | "q \<in> set ps" "q' \<in> set ps"
      using qs by auto
    then show "regions_apart a b"
    proof cases
      case 1
      then show ?thesis using apart [of q' a b] ab by simp
    next
      case 2
      then show ?thesis using regions_apart_sym [OF apart [of q b a]] ab by simp
    next
      case 3
      then show ?thesis using tail qs(3) ab by (simp add: above_result_def)
    qed
  qed (use wider head(2) tail in \<open>auto simp: above_result_def\<close>)
qed

lemma arrange_above_all:
  assumes "for_each (arrange_above_rb dbg ops d Limit True) ps (st, h) = Some (st', h')"
    and "as_enough st'" and "\<forall>p\<in>set ps. request_above_ok d p" and "distinct ps"
    and "unat (as_next st) + sum_list (map (need_of d) ps) < 2 ^ 64"
  shows "above_result ps (as_next st) (as_next st') (as_mgr st')
    \<and> unat (as_next st) \<le> unat (as_next st') \<and> (ps \<noteq> [] \<longrightarrow> as_next st' \<le> Limit)
    \<and> (\<forall>q. q \<notin> set ps \<longrightarrow>
         MmioRegionAbove4G (as_mgr st') (fst q) (snd q) = MmioRegionAbove4G (as_mgr st) (fst q) (snd q)
         \<and> AllocateMmioAbove4GOnThisRb (as_mgr st') (fst q) (snd q)
           = AllocateMmioAbove4GOnThisRb (as_mgr st) (fst q) (snd q))"
  using assms
proof (induction ps arbitrary: st h)
  case Nil
  then show ?case by (simp add: above_result_def)
next
  case (Cons p ps)
  obtain st1 h1 where 1: "arrange_above_rb dbg ops d Limit True p (st, h) = Some (st1, h1)"
    and 2: "for_each (arrange_above_rb dbg ops d Limit True) ps (st1, h1) = Some (st', h')"
    using Cons.prems(1) by (rule for_each_ConsE) (metis surj_pair)
  have e1: "as_enough st1" by (rule arrange_above_enough_all [OF 2 Cons.prems(2)])
  have "request_above_ok d p" "unat (as_next st) + need_of d p < 2 ^ 64" using Cons.prems(3,5) by auto
  note step = arrange_above_rb_step [OF 1 e1 this]
  have ih: "above_result ps (as_next st1) (as_next st') (as_mgr st')" "unat (as_next st1) \<le> unat (as_next st')"
    "ps \<noteq> [] \<longrightarrow> as_next st' \<le> Limit"
    "\<And>q. q \<notin> set ps \<Longrightarrow>
       MmioRegionAbove4G (as_mgr st') (fst q) (snd q) = MmioRegionAbove4G (as_mgr st1) (fst q) (snd q)
       \<and> AllocateMmioAbove4GOnThisRb (as_mgr st') (fst q) (snd q)
         = AllocateMmioAbove4GOnThisRb (as_mgr st1) (fst q) (snd q)"
    using Cons.IH [OF 2 Cons.prems(2)] Cons.prems(3-5) step(3) by auto
  have "above_result (p # ps) (as_next st) (as_next st') (as_mgr st')"
    using above_result_Cons [OF _ _ ih(1)] step(2,5,6) ih(2,4) Cons.prems(4) by simp
  moreover have "as_next st' \<le> Limit"
    using ih(3) step(4) 2 by (cases "ps = []") auto
  ultimately show ?case using step(2,7,8) ih(2,4) by auto
qed

end
