(* ===== verification/Rc_Combination.thy ===== *)
theory Rc_Combination
  imports Rc_Types
begin

text \<open>
  The search over which root bridges get their MMIO below the PCI configuration space
  (\<^verbatim>\<open>SilGetNextCombination\<close> and the loop of \<^verbatim>\<open>SilArrangeMmioBelow4G\<close>). A combination is the array
  \<^verbatim>\<open>MmioIsAbovePcieCfg\<close>; the theorem of this theory is that the successor function enumerates every
  arrangement of a given number of root bridges exactly once.
\<close>

section \<open>Model\<close>

text \<open>The index of the first element equal to \<open>v\<close> from \<open>i\<close> on, or \<open>lim\<close>; \<open>None\<close> reads past the array.\<close>

function find_value :: "bool \<Rightarrow> bool list \<Rightarrow> nat \<Rightarrow> nat \<Rightarrow> nat option" where
  "find_value v xs i lim =
     (if i < lim then
        if i < length xs then (if xs ! i = v then Some i else find_value v xs (Suc i) lim) else None
      else Some i)"
  by pat_completeness auto
termination by (relation "measure (\<lambda>(v, xs, i, lim). lim - i)") auto

declare find_value.simps [simp del]

definition bool_memset :: "nat \<Rightarrow> bool \<Rightarrow> nat \<Rightarrow> bool list \<Rightarrow> bool list option" where
  "bool_memset off v n xs =
     (if off + n \<le> length xs then Some (take off xs @ replicate n v @ drop (off + n) xs) else None)"

definition SilGetNextCombination :: "bool \<Rightarrow> nat \<Rightarrow> nat \<Rightarrow> bool list \<Rightarrow> (bool \<times> bool list) option" where
  "SilGetNextCombination dbg NumberOfRbBelowPcieCfg RbTotal xs =
     do { ResetTheseRbs \<leftarrow> find_value True xs 0 NumberOfRbBelowPcieCfg;
          if ResetTheseRbs = NumberOfRbBelowPcieCfg then Some (False, xs)
          else do {
            MoveThisOne \<leftarrow> find_value False xs (ResetTheseRbs + 1) RbTotal;
            c_assert dbg (MoveThisOne < RbTotal);
            sil_assert (MoveThisOne < length xs);
            xs \<leftarrow> bool_memset 0 True ResetTheseRbs (xs[MoveThisOne := True, MoveThisOne - 1 := False]);
            xs \<leftarrow> bool_memset (MoveThisOne - 1 - ResetTheseRbs) False ResetTheseRbs xs;
            Some (True, xs) } }"

text \<open>
  The inner loop of \<^verbatim>\<open>SilArrangeMmioBelow4G\<close> over the combinations of one size: \<open>allowed\<close> is the test on
  the primary root bridge, \<open>attempt\<close> the dry run with its accumulated results, \<open>nxt\<close> the successor. The
  result says whether a combination worked and which one.
\<close>

partial_function (option) comb_loop ::
  "(bool list \<Rightarrow> (bool \<times> bool list) option) \<Rightarrow> (bool list \<Rightarrow> bool) \<Rightarrow> (bool list \<Rightarrow> 'a \<Rightarrow> (bool \<times> 'a) option)
     \<Rightarrow> bool list \<Rightarrow> 'a \<Rightarrow> (bool \<times> bool list \<times> 'a) option" where
  "comb_loop nxt allowed attempt xs acc =
     do { (ok, acc) \<leftarrow> (if allowed xs then attempt xs acc else Some (False, acc));
          if ok then Some (True, xs, acc)
          else do { (more, xs) \<leftarrow> nxt xs;
                    if more then comb_loop nxt allowed attempt xs acc else Some (False, xs, acc) } }"

section \<open>The enumeration\<close>

text \<open>All arrangements of \<open>n\<close> root bridges below, of \<open>t\<close>, in the order of the code.\<close>

fun combos :: "nat \<Rightarrow> nat \<Rightarrow> bool list list" where
  "combos 0 n = (if n = 0 then [[]] else [])"
| "combos (Suc t) n =
     (if n = 0 then [] else map (\<lambda>c. c @ [False]) (combos t (n - 1))) @ map (\<lambda>c. c @ [True]) (combos t n)"

definition next_step :: "bool list \<Rightarrow> bool list \<Rightarrow> bool" where
  "next_step a b \<longleftrightarrow> (\<exists>r j zs. a = replicate r False @ replicate (Suc j) True @ False # zs
     \<and> b = replicate j True @ replicate (Suc r) False @ True # zs)"

lemma next_step_append: "next_step a b \<Longrightarrow> next_step (a @ zs) (b @ zs)"
  unfolding next_step_def by (metis append.assoc append_Cons)

lemma count_list_replicate [simp]: "count_list (replicate n x) y = (if x = y then n else 0)"
  by (induction n) auto

lemma set_combos: "set (combos t n) = {c. length c = t \<and> count_list c False = n}"
proof (induction t arbitrary: n)
  case 0
  show ?case by auto
next
  case (Suc t)
  have "c \<in> set (combos (Suc t) n) \<longleftrightarrow> length c = Suc t \<and> count_list c False = n" for c
  proof (cases c rule: rev_cases)
    case (snoc b x)
    have "count_list (b @ [x]) False = count_list b False + (if x then 0 else 1)" by simp
    then show ?thesis using Suc [of n] Suc [of "n - 1"] snoc by (cases x; cases n) auto
  qed auto
  then show ?case by blast
qed

lemma distinct_combos: "distinct (combos t n)"
  by (induction t arbitrary: n) (auto simp: distinct_map inj_on_def)

lemma combos_empty: "t < n \<Longrightarrow> combos t n = []"
  by (induction t arbitrary: n) auto

lemma combos_ends:
  assumes "n \<le> t"
  shows "combos t n \<noteq> []" and "hd (combos t n) = replicate (t - n) True @ replicate n False"
    and "last (combos t n) = replicate n False @ replicate (t - n) True"
  using assms
proof (induction t arbitrary: n)
  case (Suc t)
  {
    case 1
    then show ?case using Suc.IH(1) [of n] Suc.IH(1) [of "n - 1"] by (cases "n = 0") auto
  next
    case 2
    then show ?case using Suc.IH(1,2) [of n] Suc.IH(1,2) [of "n - 1"]
      by (cases n) (auto simp: hd_map replicate_append_same)
  next
    case 3
    then show ?case using Suc.IH(1,3) [of n] Suc.IH(1,3) [of "n - 1"] combos_empty [of t n]
      by (cases "n = Suc t") (auto simp: last_map replicate_append_same Suc_diff_le)
  }
qed auto

lemma successively_combos: "successively next_step (combos t n)"
proof (induction t arbitrary: n)
  case (Suc t)
  have ext: "successively next_step (map (\<lambda>c. c @ [x]) (combos t m))" for m x
    using Suc successively_mono [OF _ next_step_append] by (fastforce simp: successively_map)
  show ?case
  proof (cases "n = 0 \<or> t < n")
    case True
    then show ?thesis using ext by (auto simp: combos_empty)
  next
    case False
    then obtain k where n: "n = Suc k" and le: "Suc k \<le> t" by (cases n) auto
    have "next_step (last (map (\<lambda>c. c @ [False]) (combos t k))) (hd (map (\<lambda>c. c @ [True]) (combos t n)))"
    proof -
      have "last (combos t k) @ [False] = replicate k False @ replicate (Suc (t - Suc k)) True @ [False]"
        using combos_ends(3) [of k t] le by (simp add: Suc_diff_Suc)
      moreover have "hd (combos t n) @ [True] = replicate (t - Suc k) True @ replicate (Suc k) False @ [True]"
        using combos_ends(2) [of n t] le n by simp
      ultimately have "next_step (last (combos t k) @ [False]) (hd (combos t n) @ [True])"
        unfolding next_step_def by blast
      then show ?thesis using combos_ends(1) [of k t] combos_ends(1) [of n t] le n by (simp add: last_map hd_map)
    qed
    then show ?thesis using ext n by (simp add: successively_append_iff)
  qed
qed auto

section \<open>The successor function follows the enumeration\<close>

lemma find_value_run:
  assumes "i + k \<le> lim" and "i + k < length xs" and "\<forall>j<k. xs ! (i + j) \<noteq> v"
  shows "find_value v xs i lim = (if i + k = lim then Some lim else
    if xs ! (i + k) = v then Some (i + k) else find_value v xs (i + k) lim)"
  using assms
proof (induction k arbitrary: i)
  case 0
  then show ?case by (simp add: find_value.simps [of v xs i])
next
  case (Suc k)
  have "xs ! i \<noteq> v" using Suc.prems(3) by fastforce
  then have "find_value v xs i lim = find_value v xs (Suc i) lim"
    using Suc.prems by (simp add: find_value.simps [of v xs i])
  moreover have "\<forall>j<k. xs ! (Suc i + j) \<noteq> v"
    using Suc.prems(3) by (metis Suc_less_eq add_Suc_shift)
  ultimately show ?case using Suc.IH [of "Suc i"] Suc.prems(1,2) by simp
qed

lemma SilGetNextCombination_step:
  assumes xs: "xs = replicate r False @ replicate (Suc j) True @ False # zs"
    and "r < n" and "r + Suc j < N"
  shows "SilGetNextCombination dbg n N xs = Some (True, replicate j True @ replicate (Suc r) False @ True # zs)"
proof -
  let ?m = "r + Suc j"
  have len: "length xs = ?m + Suc (length zs)" by (simp add: xs)
  have at_r: "xs ! r" and at_m: "\<not> xs ! ?m" by (simp_all add: xs nth_append)
  have low: "\<forall>i<r. \<not> xs ! i" by (simp add: xs nth_append)
  have mid: "\<forall>i<j. xs ! (r + 1 + i)" by (simp add: xs nth_append)
  have 1: "find_value True xs 0 n = Some r"
    using find_value_run [of 0 r n xs True] assms(2) len at_r low by simp
  have 2: "find_value False xs (r + 1) N = Some ?m"
    using find_value_run [of "r + 1" j N xs False] assms(3) len at_m mid by simp
  have upd: "xs[?m := True, ?m - 1 := False]
      = replicate r False @ replicate j True @ False # True # zs"
  proof -
    have "xs = (replicate r False @ replicate j True) @ True # False # zs"
      by (simp add: xs replicate_app_Cons_same)
    moreover have "length (replicate r False @ replicate j True) = ?m - 1" by simp
    ultimately show ?thesis
      by (simp add: list_update_append)
  qed
  have f1: "bool_memset 0 True r (replicate r False @ replicate j True @ False # True # zs)
      = Some (replicate r True @ replicate j True @ False # True # zs)"
    by (simp add: bool_memset_def)
  have f2: "bool_memset (?m - 1 - r) False r (replicate r True @ replicate j True @ False # True # zs)
      = Some (replicate j True @ replicate (Suc r) False @ True # zs)"
  proof -
    have "replicate r True @ replicate j True @ False # True # zs
        = replicate j True @ replicate r True @ False # True # zs"
      by (metis append.assoc add.commute replicate_add)
    then show ?thesis by (simp only:) (simp add: bool_memset_def replicate_app_Cons_same)
  qed
  show ?thesis
    using assms(2,3) 1 2 upd f1 f2 len by (simp add: SilGetNextCombination_def)
qed

lemma SilGetNextCombination_last:
  assumes "xs = replicate n False @ zs"
  shows "SilGetNextCombination dbg n N xs = Some (False, xs)"
proof -
  have "find_value True xs i n = Some n" if "i \<le> n" for i
    using that
  proof (induction "n - i" arbitrary: i)
    case (Suc k)
    then show ?case using assms by (subst find_value.simps) (simp add: nth_append)
  qed (simp add: find_value.simps)
  then show ?thesis by (simp add: SilGetNextCombination_def)
qed

text \<open>
  On an array whose first \<open>N\<close> entries are a combination, the successor is the next arrangement of the
  enumeration, and the last one is reported.
\<close>

lemma SilGetNextCombination_combos:
  assumes "Suc i < length (combos N n)"
  shows "SilGetNextCombination dbg n N (combos N n ! i @ zs) = Some (True, combos N n ! Suc i @ zs)"
proof -
  have "next_step (combos N n ! i) (combos N n ! Suc i)"
    using successively_combos [of N n] assms by (simp add: successively_conv_nth)
  then obtain r j ys where a: "combos N n ! i = replicate r False @ replicate (Suc j) True @ False # ys"
    and b: "combos N n ! Suc i = replicate j True @ replicate (Suc r) False @ True # ys"
    unfolding next_step_def by blast
  have "combos N n ! i \<in> set (combos N n)" using assms by simp
  then have "length (combos N n ! i) = N" "count_list (combos N n ! i) False = n"
    by (auto simp: set_combos)
  then have "r < n" "r + Suc j < N" using a by auto
  from SilGetNextCombination_step [OF _ this, of _ "ys @ zs"] show ?thesis by (simp add: a b)
qed

section \<open>The search\<close>

text \<open>What the loop over the combinations amounts to: the first allowed one that works, else none.\<close>

fun search :: "(bool list \<Rightarrow> bool) \<Rightarrow> (bool list \<Rightarrow> 'a \<Rightarrow> (bool \<times> 'a) option) \<Rightarrow> bool list \<Rightarrow> bool list list \<Rightarrow> 'a
    \<Rightarrow> (bool \<times> bool list \<times> 'a) option" where
  "search allowed attempt xs [] acc = Some (False, xs, acc)"
| "search allowed attempt xs (c # cs) acc =
     do { (ok, acc) \<leftarrow> (if allowed c then attempt c acc else Some (False, acc));
          if ok then Some (True, c, acc) else search allowed attempt c cs acc }"

lemma comb_loop_search:
  assumes "\<forall>i. Suc i < length cs \<longrightarrow> nxt (cs ! i) = Some (True, cs ! Suc i)"
    and "cs \<noteq> []" and "nxt (last cs) = Some (False, last cs)"
  shows "comb_loop nxt allowed attempt (hd cs) acc = search allowed attempt xs cs acc"
  using assms
proof (induction cs arbitrary: acc xs)
  case (Cons c cs)
  show ?case
  proof (cases "cs = []")
    case True
    then show ?thesis using Cons.prems(3)
      by (subst comb_loop.simps) (auto split: bind_splits)
  next
    case False
    then have n: "nxt c = Some (True, hd cs)"
      using Cons.prems(1) [rule_format, of 0] by (simp add: hd_conv_nth)
    have rest: "comb_loop nxt allowed attempt (hd cs) a = search allowed attempt c cs a" for a
    proof (rule Cons.IH)
      show "\<forall>i. Suc i < length cs \<longrightarrow> nxt (cs ! i) = Some (True, cs ! Suc i)"
        using Cons.prems(1) by (metis Suc_less_eq length_Cons nth_Cons_Suc)
      show "nxt (last cs) = Some (False, last cs)" using Cons.prems(3) False by simp
    qed (rule False)
    show ?thesis by (subst comb_loop.simps) (auto simp: n rest split: bind_splits)
  qed
qed simp

text \<open>The search succeeds exactly when some allowed combination works.\<close>

lemma search_result:
  assumes "\<forall>c\<in>set cs. \<forall>acc. \<exists>acc'. attempt c acc = Some (works c, acc')"
  shows "\<exists>acc' c. search allowed attempt xs cs acc = Some (\<exists>c\<in>set cs. allowed c \<and> works c, c, acc')
    \<and> ((\<exists>c\<in>set cs. allowed c \<and> works c) \<longrightarrow> c \<in> set cs \<and> allowed c \<and> works c)"
  using assms
proof (induction cs arbitrary: acc xs)
  case (Cons c cs)
  obtain acc' where a: "attempt c acc = Some (works c, acc')"
    using Cons.prems by (meson list.set_intros(1))
  show ?case
  proof (cases "allowed c \<and> works c")
    case True
    then show ?thesis using a by auto
  next
    case False
    define acc1 where "acc1 = (if allowed c then acc' else acc)"
    have "search allowed attempt xs (c # cs) acc = search allowed attempt c cs acc1"
      using False a by (auto simp: acc1_def)
    then show ?thesis using Cons.IH [of c acc1] Cons.prems False by auto
  qed
qed simp

text \<open>
  The search over all arrangements of \<open>n\<close> of \<open>N\<close> root bridges, in an array with \<open>zs\<close> behind them.
\<close>

lemma comb_loop_combos:
  assumes "n \<le> N"
    and "\<forall>c\<in>set (combos N n). \<forall>acc. \<exists>acc'. attempt (c @ zs) acc = Some (works (c @ zs), acc')"
  shows "\<exists>acc' xs. comb_loop (SilGetNextCombination dbg n N) allowed attempt
      (replicate (N - n) True @ replicate n False @ zs) acc
      = Some (\<exists>c\<in>set (combos N n). allowed (c @ zs) \<and> works (c @ zs), xs, acc')
    \<and> ((\<exists>c\<in>set (combos N n). allowed (c @ zs) \<and> works (c @ zs)) \<longrightarrow>
         (\<exists>c\<in>set (combos N n). xs = c @ zs \<and> allowed xs \<and> works xs))"
proof -
  let ?cs = "map (\<lambda>c. c @ zs) (combos N n)"
  note ends = combos_ends [OF assms(1)]
  have hd: "hd ?cs = replicate (N - n) True @ replicate n False @ zs" using ends by (simp add: hd_map)
  have step: "\<forall>i. Suc i < length ?cs \<longrightarrow> SilGetNextCombination dbg n N (?cs ! i) = Some (True, ?cs ! Suc i)"
    by (simp add: SilGetNextCombination_combos)
  have "last ?cs = replicate n False @ replicate (N - n) True @ zs" using ends by (simp add: last_map)
  then have lst: "SilGetNextCombination dbg n N (last ?cs) = Some (False, last ?cs)"
    by (rule SilGetNextCombination_last)
  have "comb_loop (SilGetNextCombination dbg n N) allowed attempt (hd ?cs) acc
      = search allowed attempt [] ?cs acc"
    by (rule comb_loop_search [OF step _ lst]) (use ends in simp)
  then show ?thesis
    using search_result [of ?cs attempt works allowed "[]" acc] assms(2) by (simp add: hd) blast
qed

end
