(* ===== verification/Rc_Below4G.thy ===== *)
theory Rc_Below4G
  imports Rc_Above4G Rc_Combination
begin

text \<open>
  MMIO below 4G: \<^verbatim>\<open>SilTryThisCombination\<close>, which places the root bridges above or below the PCI
  configuration space as a combination says, and \<^verbatim>\<open>SilArrangeMmioBelow4G\<close>, which searches for a
  combination that fits. A try is split into the calculation for one root bridge, which is the same in
  a dry run and in the final run, and the programming, which only the final run does.
\<close>

section \<open>One root bridge\<close>

record below_layout =
  bl_Prefetchable :: u64
  bl_NonPrefetchable :: u64
  bl_NonPci :: u64
  bl_SizePrefetchable :: u64
  bl_SizeNonPrefetchable :: u64
  bl_Ceiling :: u64
  bl_DeltaSize :: u64

text \<open>The four orders: non-PCI last or first, and the larger or smaller alignment before the other.\<close>

definition layout_below ::
  "bool \<Rightarrow> u64 \<Rightarrow> FABRIC_ADDR_APERTURE \<Rightarrow> FABRIC_ADDR_APERTURE \<Rightarrow> u64 \<Rightarrow> below_layout" where
  "layout_below BigAlignFirst MmioBaseAddr np p NonPciSize =
     (let AlignMask = ap_Alignment np; AlignMaskP = ap_Alignment p;
          AlignMaskNonPci = RCMGR_NON_PCI_MMIO_ALIGN_MASK
      in if BigAlignFirst then
           if AlignMask \<le> AlignMaskP then
             let bP = align_up AlignMaskP MmioBaseAddr;
                 bNP = align_up AlignMask (bP + ap_Size p);
                 bN = align_up AlignMaskNonPci (bNP + ap_Size np)
             in \<lparr>bl_Prefetchable = bP, bl_NonPrefetchable = bNP, bl_NonPci = bN,
                 bl_SizePrefetchable = bNP - bP, bl_SizeNonPrefetchable = bN - bNP,
                 bl_Ceiling = bN + NonPciSize, bl_DeltaSize = bN - bNP - ap_Size np + NonPciSize\<rparr>
           else
             let bNP = align_up AlignMask MmioBaseAddr;
                 bP = align_up AlignMaskP (bNP + ap_Size np);
                 bN = align_up AlignMaskNonPci (bP + ap_Size p)
             in \<lparr>bl_Prefetchable = bP, bl_NonPrefetchable = bNP, bl_NonPci = bN,
                 bl_SizePrefetchable = bN - bP, bl_SizeNonPrefetchable = bP - bNP,
                 bl_Ceiling = bN + NonPciSize, bl_DeltaSize = bN - bP - ap_Size p + NonPciSize\<rparr>
         else
           if AlignMaskP \<le> AlignMask then
             let bN = align_up AlignMaskNonPci MmioBaseAddr;
                 bP = align_up AlignMaskP (bN + NonPciSize);
                 bNP = align_up AlignMask (bP + ap_Size p)
             in \<lparr>bl_Prefetchable = bP, bl_NonPrefetchable = bNP, bl_NonPci = bN,
                 bl_SizePrefetchable = bNP - bP, bl_SizeNonPrefetchable = ap_Size np,
                 bl_Ceiling = bNP + ap_Size np, bl_DeltaSize = bP - align_up AlignMaskP MmioBaseAddr\<rparr>
           else
             let bN = align_up AlignMaskNonPci MmioBaseAddr;
                 bNP = align_up AlignMask (bN + NonPciSize);
                 bP = align_up AlignMaskP (bNP + ap_Size np)
             in \<lparr>bl_Prefetchable = bP, bl_NonPrefetchable = bNP, bl_NonPci = bN,
                 bl_SizePrefetchable = ap_Size p, bl_SizeNonPrefetchable = bP - bNP,
                 bl_Ceiling = bP + ap_Size p, bl_DeltaSize = bNP - align_up AlignMask MmioBaseAddr\<rparr>)"

text \<open>A pool of size 0 has base 0.\<close>

definition clear_empty :: "below_layout \<Rightarrow> below_layout" where
  "clear_empty l = l\<lparr>bl_NonPrefetchable := (if bl_SizeNonPrefetchable l = 0 then 0 else bl_NonPrefetchable l),
                     bl_Prefetchable := (if bl_SizePrefetchable l = 0 then 0 else bl_Prefetchable l)\<rparr>"

section \<open>The calculation\<close>

text \<open>
  The variables of the loop: the next address on either side of the configuration space, which
  alignment order comes next on either side, the alignment of the first region on either side, whether
  the limits were exceeded and whether the non-PCI pool of the primary root bridge was moved.
\<close>

record below_state =
  b_above :: u64
  b_below :: u64
  b_bigAbove :: bool
  b_bigBelow :: bool
  b_gotAbove :: bool
  b_gotBelow :: bool
  b_alignAbove :: u64
  b_alignBelow :: u64
  b_over :: bool
  b_at2nd :: bool

definition below_start :: "u64 \<Rightarrow> u64 \<Rightarrow> below_state" where
  "below_start MmioBaseAddrAbovePcieCfg MmioBaseAddrBelowPcieCfg =
     \<lparr>b_above = MmioBaseAddrAbovePcieCfg, b_below = MmioBaseAddrBelowPcieCfg, b_bigAbove = True,
      b_bigBelow = True, b_gotAbove = False, b_gotBelow = False, b_alignAbove = 0, b_alignBelow = 0,
      b_over = False, b_at2nd = False\<rparr>"

definition limit_above :: "RCMGR_INPUT_BLK \<Rightarrow> u64" where
  "limit_above d = ucast (BottomMmioReservedForPrimaryRb d)"

definition limit_below :: "RCMGR_INPUT_BLK \<Rightarrow> u64" where
  "limit_below d = PciExpressBaseAddress d"

definition non_pci_size :: "RCMGR_INPUT_BLK \<Rightarrow> u64" where
  "non_pci_size d = ucast (MmioSizePerRbForNonPciDevice d)"

definition max_mask :: "u64 \<Rightarrow> u64 \<Rightarrow> u64" where
  "max_mask AlignMask AlignMaskP = (if AlignMaskP < AlignMask then AlignMask else AlignMaskP)"

text \<open>Which side the root bridge is on: the alignment order and the start of its region.\<close>

definition pick_side :: "bool \<Rightarrow> u64 \<Rightarrow> below_state \<Rightarrow> bool \<times> u64 \<times> below_state" where
  "pick_side hi mk st =
     (if hi then (b_bigAbove st, b_above st,
        st\<lparr>b_bigAbove := \<not> b_bigAbove st, b_gotAbove := True,
           b_alignAbove := (if b_gotAbove st then b_alignAbove st else mk)\<rparr>)
      else (b_bigBelow st, b_below st,
        st\<lparr>b_bigBelow := \<not> b_bigBelow st, b_gotBelow := True,
           b_alignBelow := (if b_gotBelow st then b_alignBelow st else mk)\<rparr>))"

definition check_space :: "RCMGR_INPUT_BLK \<Rightarrow> bool \<Rightarrow> u64 \<Rightarrow> below_state \<Rightarrow> below_state" where
  "check_space d hi MmioCeiling st =
     (if hi then st\<lparr>b_above := MmioCeiling, b_over := b_over st \<or> limit_above d < MmioCeiling\<rparr>
      else st\<lparr>b_below := MmioCeiling, b_over := b_over st \<or> limit_below d < MmioCeiling\<rparr>)"

text \<open>
  When the limits are exceeded, moving the non-PCI pool of the primary root bridge to a second region
  on the other side may help.
\<close>

definition can_move :: "RCMGR_INPUT_BLK \<Rightarrow> bool \<Rightarrow> u64 \<Rightarrow> below_state \<Rightarrow> bool" where
  "can_move d hi delta st =
     (if hi then b_above st - delta \<le> limit_above d
          \<and> b_below st \<le> (limit_below d - non_pci_size d) AND NOT RCMGR_NON_PCI_MMIO_ALIGN_MASK
      else b_below st - delta \<le> limit_below d
          \<and> b_above st \<le> (limit_above d - non_pci_size d) AND NOT RCMGR_NON_PCI_MMIO_ALIGN_MASK)"

definition move_non_pci ::
  "RCMGR_INPUT_BLK \<Rightarrow> bool \<Rightarrow> bool \<Rightarrow> bool \<Rightarrow> below_layout \<times> below_state \<Rightarrow> below_layout \<times> below_state" where
  "move_non_pci d is_primary hi BigAlignFirst ls =
     (case ls of (l, st) \<Rightarrow>
        if b_over st \<and> is_primary
           \<and> SocketNumber d * RbsPerSocket d < DFX_MAX_HOST_BRIDGES_PER_SOCKET * MAX_SOCKETS_SUPPORTED then
          let delta = bl_DeltaSize l;
              moved = can_move d hi delta st;
              st' = (if moved then
                       (if hi then st\<lparr>b_above := b_above st - delta\<rparr> else st\<lparr>b_below := b_below st - delta\<rparr>)
                         \<lparr>b_over := False, b_at2nd := True\<rparr>
                     else st);
              l' = (if moved then l\<lparr>bl_Ceiling := bl_Ceiling l - delta\<rparr> else l)
          in (if b_at2nd st' \<and> \<not> BigAlignFirst
              then l'\<lparr>bl_NonPrefetchable := bl_NonPrefetchable l' - delta,
                      bl_Prefetchable := bl_Prefetchable l' - delta\<rparr>
              else l', st')
        else (l, st))"

text \<open>The calculation for one root bridge: \<open>None\<close> when it asks for nothing.\<close>

definition calc_rb ::
  "RCMGR_INPUT_BLK \<Rightarrow> nat \<times> nat \<Rightarrow> nat \<times> nat \<Rightarrow> bool \<Rightarrow> below_state \<Rightarrow> below_state \<times> (u64 \<times> below_layout) option" where
  "calc_rb d primary p hi st =
     (let np = NonPrefetchableMmioSizeBelow4G (ResourceSizeForEachRb d) (fst p) (snd p);
          pf = PrefetchableMmioSizeBelow4G (ResourceSizeForEachRb d) (fst p) (snd p)
      in if ap_Size pf + ap_Size np + non_pci_size d = 0 then (st, None)
         else
           let (BigAlignFirst, MmioBaseAddr, st) = pick_side hi (max_mask (ap_Alignment np) (ap_Alignment pf)) st;
               l = clear_empty (layout_below BigAlignFirst MmioBaseAddr np pf (non_pci_size d));
               st = check_space d hi (bl_Ceiling l) st;
               (l, st) = move_non_pci d (p = primary) hi BigAlignFirst (l, st)
           in (st, Some (MmioBaseAddr, l)))"

section \<open>The programming\<close>

definition region_below ::
  "RCMGR_INPUT_BLK \<Rightarrow> nat \<times> nat \<Rightarrow> bool \<Rightarrow> below_layout \<Rightarrow> FABRIC_MMIO_REGION" where
  "region_below d p moved l =
     \<lparr>BaseNonPci = (if moved then 0 else bl_NonPci l), SizeNonPci = (if moved then 0 else non_pci_size d),
      UsedSizeNonPci = 0, BaseNonPrefetch = bl_NonPrefetchable l,
      SizeNonPrefetch = bl_SizeNonPrefetchable l, UsedSizeNonPrefetch = 0,
      BasePrefetch = bl_Prefetchable l, SizePrefetch = bl_SizePrefetchable l, UsedSizePrefetch = 0,
      AlignNonPrefetch = ap_Alignment (NonPrefetchableMmioSizeBelow4G (ResourceSizeForEachRb d) (fst p) (snd p)),
      AlignPrefetch = ap_Alignment (PrefetchableMmioSizeBelow4G (ResourceSizeForEachRb d) (fst p) (snd p))\<rparr>"

record 'h below_run =
  br_st :: below_state
  br_mgr :: FABRIC_MMIO_MANAGER
  br_reserved :: bool
  br_h :: 'h

text \<open>
  The registers and the manager entry of one root bridge. The primary root bridge takes everything up
  to the end of its side: up to the compatibility region, or up to the configuration space.
\<close>

definition program_rb ::
  "bool \<Rightarrow> 'h pci_ops \<Rightarrow> RCMGR_INPUT_BLK \<Rightarrow> nat \<times> nat \<Rightarrow> nat \<times> nat \<Rightarrow> bool \<Rightarrow> u64 \<Rightarrow> below_layout \<Rightarrow> 'h below_run
     \<Rightarrow> 'h below_run option" where
  "program_rb dbg ops d primary p hi MmioBaseAddr l rn =
     do { c_assert dbg (limit_above d \<le> BOTTOM_OF_COMPAT);
          let Length = (if p = primary then (if hi then BOTTOM_OF_COMPAT else limit_below d) - MmioBaseAddr
                        else bl_Ceiling l - MmioBaseAddr);
          h \<leftarrow> SilSetMmioReg4 dbg ops (SocketNumber d) (pair_index d (fst p) (snd p) False) (fst p) (snd p)
                 MmioBaseAddr Length (br_h rn);
          let st = br_st rn;
          let m = br_mgr rn;
          let moved = (p = primary \<and> b_at2nd st);
          Some \<lparr>br_st = (if p = primary then (if hi then st\<lparr>b_above := BOTTOM_OF_COMPAT\<rparr>
                                              else st\<lparr>b_below := limit_below d\<rparr>) else st),
            br_mgr = m\<lparr>AllocateMmioBelow4GOnThisRb := rb_upd (AllocateMmioBelow4GOnThisRb m) (fst p) (snd p) True,
                       MmioRegionBelow4G := rb_upd (MmioRegionBelow4G m) (fst p) (snd p) (region_below d p moved l)\<rparr>,
            br_reserved = (br_reserved rn \<or> (p = primary \<and> hi)), br_h = h\<rparr> }"

text \<open>One turn of the loop. The array is read at socket times 4 plus root bridge.\<close>

definition try_rb ::
  "bool \<Rightarrow> 'h pci_ops \<Rightarrow> RCMGR_INPUT_BLK \<Rightarrow> nat \<times> nat \<Rightarrow> bool list \<Rightarrow> bool \<Rightarrow> nat \<times> nat \<Rightarrow> 'h below_run
     \<Rightarrow> 'h below_run option" where
  "try_rb dbg ops d primary xs SetDfRegisters p rn =
     do { let i = fst p * DFX_MAX_HOST_BRIDGES_PER_SOCKET + snd p;
          sil_assert (i < length xs);
          let (st, pl) = calc_rb d primary p (xs ! i) (br_st rn);
          let rn = rn\<lparr>br_st := st\<rparr>;
          case pl of None \<Rightarrow> Some rn
          | Some (MmioBaseAddr, l) \<Rightarrow>
              if \<not> b_over st \<and> SetDfRegisters then program_rb dbg ops d primary p (xs ! i) MmioBaseAddr l rn
              else Some rn }"

text \<open>The root bridges from the last to the first without the primary one, then the primary one.\<close>

definition placement_order :: "RCMGR_INPUT_BLK \<Rightarrow> nat \<times> nat \<Rightarrow> (nat \<times> nat) list" where
  "placement_order d primary = filter (\<lambda>p. p \<noteq> primary) (rev (all_rbs d)) @ [primary]"

section \<open>The second region of the primary root bridge\<close>

text \<open>The search stops after socket 0 when an earlier run already recorded a second region.\<close>

definition find_unallocated :: "FABRIC_MMIO_MANAGER \<Rightarrow> (nat \<times> nat) option" where
  "find_unallocated m =
     find (\<lambda>(i, j). \<not> AllocateMmioBelow4GOnThisRb m i j)
       (if PrimaryRbHas2ndMmioBelow4G m then filter (\<lambda>(i, j). i = 0) all_pairs else all_pairs)"

text \<open>The split of the second region between the two kinds, in proportion to the request.\<close>

definition split_second ::
  "FABRIC_ADDR_APERTURE \<Rightarrow> FABRIC_ADDR_APERTURE \<Rightarrow> u64 \<Rightarrow> (u64 \<times> u64) option" where
  "split_second np p sz =
     (if ap_Size np = 0 then Some (sz, 0)
      else if ap_Size p = 0 then Some (0, sz)
      else let divisor = ucast (ucast (ap_Size p + ap_Size np) :: u32) :: u64
           in do { sil_assert (divisor \<noteq> 0);
                   let SizeP = (sz div divisor) * ap_Size p;
                   Some (SizeP, sz - SizeP) })"

definition layout_second ::
  "FABRIC_ADDR_APERTURE \<Rightarrow> FABRIC_ADDR_APERTURE \<Rightarrow> u64 \<Rightarrow> u64 \<Rightarrow> u64 \<times> u64 \<Rightarrow> u64 \<times> u64 \<Rightarrow> FABRIC_MMIO_REGION" where
  "layout_second np p MmioBaseAddr Size2nd nonpci sizes =
     (case sizes of (SizeP, SizeNP) \<Rightarrow>
        let bP = (if SizeP \<noteq> 0 then align_up (ap_Alignment p) MmioBaseAddr else MmioBaseAddr);
            bNP = (if SizeNP \<noteq> 0 then align_up (ap_Alignment np) (bP + SizeP) else bP + SizeP);
            SizeNP = (if SizeNP \<noteq> 0 then MmioBaseAddr + Size2nd - bNP else 0)
        in \<lparr>BaseNonPci = fst nonpci, SizeNonPci = snd nonpci, UsedSizeNonPci = 0,
            BaseNonPrefetch = (if SizeNP = 0 then 0 else bNP), SizeNonPrefetch = SizeNP, UsedSizeNonPrefetch = 0,
            BasePrefetch = (if SizeP = 0 then 0 else bP), SizePrefetch = SizeP, UsedSizePrefetch = 0,
            AlignNonPrefetch = ap_Alignment np, AlignPrefetch = ap_Alignment p\<rparr>)"

definition second_mmio ::
  "bool \<Rightarrow> 'h pci_ops \<Rightarrow> RCMGR_INPUT_BLK \<Rightarrow> nat \<times> nat \<Rightarrow> 'h below_run \<Rightarrow> 'h below_run option" where
  "second_mmio dbg ops d primary rn =
     (let st = br_st rn; m = br_mgr rn;
          np = PrimaryRbSecondNonPrefetchableMmioSizeBelow4G (ResourceSizeForEachRb d);
          p = PrimaryRbSecondPrefetchableMmioSizeBelow4G (ResourceSizeForEachRb d)
      in if (b_above st + RCMGR_MMIO_MIN_SIZE \<le> limit_above d \<or> b_below st + RCMGR_MMIO_MIN_SIZE \<le> limit_below d)
            \<and> (ap_Size np \<noteq> 0 \<or> ap_Size p \<noteq> 0 \<or> b_at2nd st)
            \<and> SocketNumber d * RbsPerSocket d < DFX_MAX_HOST_BRIDGES_PER_SOCKET * MAX_SOCKETS_SUPPORTED
         then case find_unallocated m of None \<Rightarrow> Some rn
           | Some (i, j) \<Rightarrow>
             let hi = (b_above st < limit_above d);
                 MmioBaseAddr = (if hi then b_above st else b_below st);
                 Size2nd = (if hi then limit_above d else limit_below d) - MmioBaseAddr;
                 bN = (MmioBaseAddr + Size2nd - non_pci_size d) AND NOT RCMGR_NON_PCI_MMIO_ALIGN_MASK;
                 nonpci = (if b_at2nd st then (bN, non_pci_size d) else (0, 0));
                 Size2nd = (if b_at2nd st then bN - MmioBaseAddr else Size2nd)
             in do {
               h \<leftarrow> SilSetMmioReg4 dbg ops (SocketNumber d) (pair_index d i j False) (fst primary) (snd primary)
                      MmioBaseAddr ((if hi then BOTTOM_OF_COMPAT else limit_below d) - MmioBaseAddr) (br_h rn);
               sizes \<leftarrow> split_second np p Size2nd;
               Some (rn\<lparr>br_mgr := m\<lparr>PrimaryRb2ndMmioPairBelow4G := of_nat (i * 16 + j),
                   MmioRegionBelow4G := rb_upd (MmioRegionBelow4G m) i j
                     (layout_second np p MmioBaseAddr Size2nd nonpci sizes),
                   PrimaryRbHas2ndMmioBelow4G := True\<rparr>,
                 br_reserved := br_reserved rn \<or> hi, br_h := h\<rparr>) }
         else Some rn)"

section \<open>A try\<close>

text \<open>How far a failed dry run exceeds the space, and the smallest excess so far.\<close>

definition record_oversize ::
  "RCMGR_INPUT_BLK \<Rightarrow> bool \<Rightarrow> below_state \<Rightarrow> u32 \<times> u32 \<Rightarrow> u32 \<times> u32" where
  "record_oversize d HasSpaceBelowPcie st acc =
     (case acc of (OverSizeBelowPcieMin, AlignmentMask) \<Rightarrow>
        if b_over st then
          let OverSizeAbove = (if limit_above d < b_above st then b_above st - limit_above d else 0);
              OverSizeBelow = (if limit_below d < b_below st then b_below st - limit_below d else 0)
          in if OverSizeAbove = 0 then
               if OverSizeBelow < ucast OverSizeBelowPcieMin then (ucast OverSizeBelow, ucast (b_alignBelow st))
               else acc
             else if \<not> HasSpaceBelowPcie then (ucast OverSizeAbove, ucast (b_alignAbove st))
             else acc
        else (0, AlignmentMask))"

definition SilTryThisCombination ::
  "bool \<Rightarrow> 'h pci_ops \<Rightarrow> RCMGR_INPUT_BLK \<Rightarrow> u64 \<Rightarrow> u64 \<Rightarrow> bool list \<Rightarrow> bool \<Rightarrow> u32 \<times> u32 \<Rightarrow> 'h
     \<Rightarrow> (bool \<times> (u32 \<times> u32) \<times> RCMGR_INPUT_BLK \<times> 'h) option" where
  "SilTryThisCombination dbg ops d BaseAbove BaseBelow xs SetDfRegisters acc h =
     do { primary \<leftarrow> SilGetPrimaryRb;
          rn \<leftarrow> for_each (try_rb dbg ops d primary xs SetDfRegisters) (placement_order d primary)
                  \<lparr>br_st = below_start BaseAbove BaseBelow, br_mgr = MmioRcMgr d, br_reserved = False, br_h = h\<rparr>;
          let acc = (if SetDfRegisters then acc
                     else record_oversize d (BaseBelow < limit_below d) (br_st rn) acc);
          if \<not> b_over (br_st rn) \<and> SetDfRegisters then
            do { rn \<leftarrow> second_mmio dbg ops d primary rn;
                 h \<leftarrow> SilAdditionalMmioSetting4 dbg ops (d\<lparr>MmioRcMgr := br_mgr rn\<rparr>) BOTTOM_OF_COMPAT
                        (br_reserved rn) (br_h rn);
                 Some (True, acc, d\<lparr>MmioRcMgr := br_mgr rn\<rparr>, h) }
          else Some (\<not> b_over (br_st rn), acc, d\<lparr>MmioRcMgr := br_mgr rn\<rparr>, br_h rn) }"

section \<open>The search for a combination\<close>

text \<open>A combination is tried when the primary root bridge is on the side it has room on.\<close>

definition primary_fits :: "nat \<times> nat \<Rightarrow> bool \<Rightarrow> bool list \<Rightarrow> bool" where
  "primary_fits primary EnoughAbove xs \<longleftrightarrow>
     xs ! (fst primary * DFX_MAX_HOST_BRIDGES_PER_SOCKET + snd primary) = EnoughAbove"

definition DFX_MAX_HOST_BRIDGES :: nat where
  "DFX_MAX_HOST_BRIDGES = MAX_SOCKETS_SUPPORTED * DFX_MAX_HOST_BRIDGES_PER_SOCKET"

definition first_combination :: "nat \<Rightarrow> nat \<Rightarrow> bool list option" where
  "first_combination N n =
     (let xs = replicate DFX_MAX_HOST_BRIDGES True
      in if 0 < n then bool_memset (N - n) False n xs else Some xs)"

text \<open>The dry run as a step of the search: nothing but the accumulated excess is kept.\<close>

definition dry_run ::
  "bool \<Rightarrow> 'h pci_ops \<Rightarrow> RCMGR_INPUT_BLK \<Rightarrow> u64 \<Rightarrow> u64 \<Rightarrow> 'h \<Rightarrow> bool list \<Rightarrow> u32 \<times> u32
     \<Rightarrow> (bool \<times> u32 \<times> u32) option" where
  "dry_run dbg ops d BaseAbove BaseBelow h xs acc =
     do { (ok, acc, d', h') \<leftarrow> SilTryThisCombination dbg ops d BaseAbove BaseBelow xs False acc h;
          Some (ok, acc) }"

fun size_loop ::
  "bool \<Rightarrow> 'h pci_ops \<Rightarrow> RCMGR_INPUT_BLK \<Rightarrow> u64 \<Rightarrow> u64 \<Rightarrow> nat \<times> nat \<Rightarrow> bool \<Rightarrow> 'h \<Rightarrow> nat list \<Rightarrow> bool list
     \<Rightarrow> u32 \<times> u32 \<Rightarrow> (bool \<times> bool list \<times> u32 \<times> u32) option" where
  "size_loop dbg ops d BaseAbove BaseBelow primary EnoughAbove h [] xs acc = Some (False, xs, acc)"
| "size_loop dbg ops d BaseAbove BaseBelow primary EnoughAbove h (n # ns) xs acc =
     do { let N = SocketNumber d * RbsPerSocket d;
          xs \<leftarrow> first_combination N n;
          (ok, xs, acc) \<leftarrow> comb_loop (SilGetNextCombination dbg n N) (primary_fits primary EnoughAbove)
                            (dry_run dbg ops d BaseAbove BaseBelow h) xs acc;
          if ok \<or> PciExpressBaseAddress d = BaseBelow then Some (ok, xs, acc)
          else size_loop dbg ops d BaseAbove BaseBelow primary EnoughAbove h ns xs acc }"

definition SilArrangeMmioBelow4G ::
  "bool \<Rightarrow> 'h pci_ops \<Rightarrow> RCMGR_INPUT_BLK \<Rightarrow> u64 \<Rightarrow> u64 \<Rightarrow> bool list \<Rightarrow> nat \<times> nat \<Rightarrow> bool \<Rightarrow> bool \<Rightarrow> u32 \<times> u32 \<Rightarrow> 'h
     \<Rightarrow> (bool \<times> bool list \<times> (u32 \<times> u32) \<times> RCMGR_INPUT_BLK \<times> 'h) option" where
  "SilArrangeMmioBelow4G dbg ops d BaseAbove BaseBelow xs primary SetDfRegisters EnoughAbove acc h =
     do { (ok, xs, acc) \<leftarrow> size_loop dbg ops d BaseAbove BaseBelow primary EnoughAbove h
                            [0 ..< SocketNumber d * RbsPerSocket d + 1] xs acc;
          if ok then
            do { (ok', acc, d, h) \<leftarrow> SilTryThisCombination dbg ops d BaseAbove BaseBelow xs SetDfRegisters acc h;
                 Some (True, xs, acc, d, h) }
          else Some (False, xs, acc, d, h) }"

section \<open>The layout of one root bridge\<close>

lemma non_pci_mask_below_ok: "align_mask 16 RCMGR_NON_PCI_MMIO_ALIGN_MASK"
  by (simp add: align_mask_def RCMGR_NON_PCI_MMIO_ALIGN_MASK_def mask_eq_exp_minus_1)

definition below_need :: "FABRIC_ADDR_APERTURE \<Rightarrow> FABRIC_ADDR_APERTURE \<Rightarrow> u64 \<Rightarrow> nat" where
  "below_need np p n = (unat (ap_Alignment p) + unat (ap_Size p)) + (unat (ap_Alignment np) + unat (ap_Size np))
     + (unat RCMGR_NON_PCI_MMIO_ALIGN_MASK + unat n)"

text \<open>
  The pools of a layout hold what was asked for, lie inside the window from the base to the ceiling,
  are pairwise apart, and start at aligned addresses.
\<close>

definition below_layout_ok ::
  "u64 \<Rightarrow> FABRIC_ADDR_APERTURE \<Rightarrow> FABRIC_ADDR_APERTURE \<Rightarrow> u64 \<Rightarrow> below_layout \<Rightarrow> bool" where
  "below_layout_ok lo np p n l \<longleftrightarrow>
     pools_ok lo (bl_Ceiling l) (bl_NonPci l, n) (bl_Prefetchable l, bl_SizePrefetchable l)
       (bl_NonPrefetchable l, bl_SizeNonPrefetchable l)
     \<and> unat (ap_Size p) \<le> unat (bl_SizePrefetchable l)
     \<and> unat (ap_Size np) \<le> unat (bl_SizeNonPrefetchable l)
     \<and> unat lo \<le> unat (bl_Ceiling l) \<and> unat (bl_Ceiling l) \<le> unat lo + below_need np p n
     \<and> bl_NonPci l AND RCMGR_NON_PCI_MMIO_ALIGN_MASK = 0
     \<and> bl_Prefetchable l AND ap_Alignment p = 0 \<and> bl_NonPrefetchable l AND ap_Alignment np = 0"

text \<open>Three placements in which a region is stretched to the start of the next one.\<close>

lemma place_stretched:
  assumes "align_mask n1 m1" and "align_mask n2 m2" and "align_mask n3 m3"
    and "unat x + (unat m1 + unat s1) + (unat m2 + unat s2) + (unat m3 + unat s3) < 2 ^ 64"
    and b: "b1 = align_up m1 x" "b2 = align_up m2 (b1 + s1)" "b3 = align_up m3 (b2 + s2)"
      "e = b3 + s3"
  shows "pools_ok x e (b1, b2 - b1) (b2, b3 - b2) (b3, s3)" and "pools_ok x e (b1, s1) (b2, b3 - b2) (b3, s3)"
    and "unat s1 \<le> unat (b2 - b1)" and "unat s2 \<le> unat (b3 - b2)"
    and "unat x \<le> unat e"
    and "unat e \<le> unat x + (unat m1 + unat s1) + (unat m2 + unat s2) + (unat m3 + unat s3)"
proof -
  note pl = place_three [OF assms(1-4) b]
  have d2: "unat (b2 - b1) = unat b2 - unat b1" and d3: "unat (b3 - b2) = unat b3 - unat b2"
    using pl(9,10) by (intro unat_minus_small; simp)+
  show "unat s1 \<le> unat (b2 - b1)" "unat s2 \<le> unat (b3 - b2)" using pl(9,10) d2 d3 by simp_all
  show "unat x \<le> unat e"
    "unat e \<le> unat x + (unat m1 + unat s1) + (unat m2 + unat s2) + (unat m3 + unat s3)"
    by (rule pl(7), rule pl(8))
  show "pools_ok x e (b1, b2 - b1) (b2, b3 - b2) (b3, s3)" "pools_ok x e (b1, s1) (b2, b3 - b2) (b3, s3)"
    using pl(1-3,9,10) d2 d3 by (simp_all add: pools_ok_def region_in_def regions_apart_def)
qed

lemma layout_below_ok:
  assumes np: "align_mask i (ap_Alignment np)" and p: "align_mask j (ap_Alignment p)"
    and lim: "unat lo + below_need np p n < 2 ^ 64"
  shows "below_layout_ok lo np p n (layout_below big lo np p n)"
proof -
  note M = non_pci_mask_below_ok
  note defs = layout_below_def below_layout_ok_def Let_def align_up_and_mask
  note perms = pools_ok_perm pools_ok_perm [OF pools_ok_perm(1)] pools_ok_perm [OF pools_ok_perm(2)]
  note lim' = lim below_need_def [of np p n]
  consider (1) "big" "ap_Alignment np \<le> ap_Alignment p" | (2) "big" "\<not> ap_Alignment np \<le> ap_Alignment p"
    | (3) "\<not> big" "ap_Alignment p \<le> ap_Alignment np" | (4) "\<not> big" "\<not> ap_Alignment p \<le> ap_Alignment np"
    by blast
  then show ?thesis
  proof cases
    case 1
    then show ?thesis
      using place_stretched [OF p np M _ refl refl refl refl, of lo "ap_Size p" "ap_Size np" n] lim'
      by (simp add: defs) (blast intro: perms)
  next
    case 2
    then show ?thesis
      using place_stretched [OF np p M _ refl refl refl refl, of lo "ap_Size np" "ap_Size p" n] lim'
      by (simp add: defs) (blast intro: perms)
  next
    case 3
    then show ?thesis
      using place_stretched [OF M p np _ refl refl refl refl, of lo n "ap_Size p" "ap_Size np"] lim'
      by (simp add: defs)
  next
    case 4
    then show ?thesis
      using place_stretched [OF M np p _ refl refl refl refl, of lo n "ap_Size np" "ap_Size p"] lim'
      by (simp add: defs) (blast intro: perms)
  qed
qed

section \<open>Dry runs and final runs\<close>

definition rb_index :: "nat \<times> nat \<Rightarrow> nat" where
  "rb_index p = fst p * DFX_MAX_HOST_BRIDGES_PER_SOCKET + snd p"

text \<open>The calculation of a try, without any programming.\<close>

definition calc_all ::
  "RCMGR_INPUT_BLK \<Rightarrow> nat \<times> nat \<Rightarrow> bool list \<Rightarrow> (nat \<times> nat) list \<Rightarrow> below_state \<Rightarrow> below_state" where
  "calc_all d primary xs = fold (\<lambda>p st. fst (calc_rb d primary p (xs ! rb_index p) st))"

definition works :: "RCMGR_INPUT_BLK \<Rightarrow> u64 \<Rightarrow> u64 \<Rightarrow> bool list \<Rightarrow> bool" where
  "works d BaseAbove BaseBelow xs \<longleftrightarrow>
     \<not> b_over (calc_all d (0, 2) xs (placement_order d (0, 2)) (below_start BaseAbove BaseBelow))"

lemma try_rb_dry:
  assumes "rb_index p < length xs"
  shows "try_rb dbg ops d primary xs False p rn
    = Some (rn\<lparr>br_st := fst (calc_rb d primary p (xs ! rb_index p) (br_st rn))\<rparr>)"
  using assms
  by (auto simp: try_rb_def rb_index_def Let_def split: prod.splits option.splits)

lemma for_each_dry:
  assumes "\<forall>p\<in>set ps. rb_index p < length xs"
  shows "for_each (try_rb dbg ops d primary xs False) ps rn
    = Some (rn\<lparr>br_st := calc_all d primary xs ps (br_st rn)\<rparr>)"
  using assms by (induction ps arbitrary: rn) (simp_all add: try_rb_dry calc_all_def)

lemma dry_run_works:
  assumes "\<forall>p\<in>set (placement_order d (0, 2)). rb_index p < length xs"
  shows "\<exists>acc'. SilTryThisCombination dbg ops d BaseAbove BaseBelow xs False acc h
      = Some (works d BaseAbove BaseBelow xs, acc', d, h)"
proof -
  let ?st = "calc_all d (0, 2) xs (placement_order d (0, 2)) (below_start BaseAbove BaseBelow)"
  have "SilTryThisCombination dbg ops d BaseAbove BaseBelow xs False acc h
      = Some (works d BaseAbove BaseBelow xs, record_oversize d (BaseBelow < limit_below d) ?st acc, d, h)"
    by (simp add: SilTryThisCombination_def SilGetPrimaryRb_eq works_def for_each_dry [OF assms])
  then show ?thesis by blast
qed

lemma program_rb_st:
  assumes "program_rb dbg ops d primary p hi base l rn = Some rn'"
  shows "b_over (br_st rn') = b_over (br_st rn)" and "p \<noteq> primary \<Longrightarrow> br_st rn' = br_st rn"
  using assms by (auto simp: program_rb_def Let_def split: bind_splits if_splits)

lemma try_rb_st:
  assumes "try_rb dbg ops d primary xs regs p rn = Some rn'"
  shows "b_over (br_st rn') = b_over (fst (calc_rb d primary p (xs ! rb_index p) (br_st rn)))"
    and "p \<noteq> primary \<Longrightarrow> br_st rn' = fst (calc_rb d primary p (xs ! rb_index p) (br_st rn))"
  using assms
  by (auto simp: try_rb_def rb_index_def Let_def dest: program_rb_st split: if_splits prod.splits option.splits)

lemma for_each_st:
  assumes "for_each (try_rb dbg ops d primary xs regs) ps rn = Some rn'" and "primary \<notin> set ps"
  shows "br_st rn' = calc_all d primary xs ps (br_st rn)"
  using assms
proof (induction ps arbitrary: rn)
  case (Cons p ps)
  from Cons.prems(1) obtain rn1 where 1: "try_rb dbg ops d primary xs regs p rn = Some rn1"
    and "for_each (try_rb dbg ops d primary xs regs) ps rn1 = Some rn'" by (rule for_each_ConsE)
  moreover have "br_st rn1 = fst (calc_rb d primary p (xs ! rb_index p) (br_st rn))"
    using try_rb_st(2) [OF 1] Cons.prems(2) by auto
  ultimately show ?case using Cons.IH Cons.prems(2) by (simp add: calc_all_def)
qed (simp add: calc_all_def)

text \<open>Programming does not change the outcome: the primary root bridge comes last.\<close>

lemma final_run_over:
  assumes "for_each (try_rb dbg ops d primary xs regs) (placement_order d primary) rn = Some rn'"
  shows "b_over (br_st rn') = b_over (calc_all d primary xs (placement_order d primary) (br_st rn))"
proof -
  let ?ps = "filter (\<lambda>p. p \<noteq> primary) (rev (all_rbs d))"
  obtain rn1 where 1: "for_each (try_rb dbg ops d primary xs regs) ?ps rn = Some rn1"
    and 2: "try_rb dbg ops d primary xs regs primary rn1 = Some rn'"
    using assms unfolding placement_order_def for_each_snoc by (auto simp: Option.bind_eq_Some_conv)
  have "br_st rn1 = calc_all d primary xs ?ps (br_st rn)" by (rule for_each_st [OF 1]) simp
  then show ?thesis using try_rb_st(1) [OF 2] by (simp add: placement_order_def calc_all_def)
qed

section \<open>The search is exhaustive\<close>

text \<open>The systems the arrays are dimensioned for.\<close>

definition system_ok :: "RCMGR_INPUT_BLK \<Rightarrow> bool" where
  "system_ok d \<longleftrightarrow> 0 < SocketNumber d \<and> SocketNumber d \<le> MAX_SOCKETS_SUPPORTED
     \<and> 0 < RbsPerSocket d \<and> RbsPerSocket d \<le> DFX_MAX_HOST_BRIDGES_PER_SOCKET"

lemma system_ok_bridges:
  assumes "system_ok d"
  shows "SocketNumber d * RbsPerSocket d \<le> DFX_MAX_HOST_BRIDGES"
  using assms unfolding system_ok_def DFX_MAX_HOST_BRIDGES_def by (intro mult_le_mono) simp_all

lemma placement_index:
  assumes "system_ok d" and "p \<in> set (placement_order d (0, 2))"
  shows "rb_index p < DFX_MAX_HOST_BRIDGES"
proof -
  have "p = (0, 2) \<or> fst p < 2 \<and> snd p < 4"
    using assms by (auto simp: placement_order_def all_rbs_def system_ok_def MAX_SOCKETS_SUPPORTED_def
        DFX_MAX_HOST_BRIDGES_PER_SOCKET_def)
  then show ?thesis
    by (auto simp: rb_index_def DFX_MAX_HOST_BRIDGES_def MAX_SOCKETS_SUPPORTED_def
        DFX_MAX_HOST_BRIDGES_PER_SOCKET_def)
qed

lemma dry_run_total:
  assumes "system_ok d" and "length xs = DFX_MAX_HOST_BRIDGES"
  shows "\<exists>acc'. dry_run dbg ops d BaseAbove BaseBelow h xs acc = Some (works d BaseAbove BaseBelow xs, acc')"
proof -
  have "\<forall>p\<in>set (placement_order d (0, 2)). rb_index p < length xs" using placement_index assms by simp
  from dry_run_works [OF this, of dbg ops BaseAbove BaseBelow acc h] obtain acc' where
    "SilTryThisCombination dbg ops d BaseAbove BaseBelow xs False acc h
      = Some (works d BaseAbove BaseBelow xs, acc', d, h)" by blast
  then show ?thesis by (simp add: dry_run_def)
qed

lemma first_combination_eq:
  assumes "n \<le> N" and "N \<le> DFX_MAX_HOST_BRIDGES"
  shows "first_combination N n = Some (replicate (N - n) True @ replicate n False
    @ replicate (DFX_MAX_HOST_BRIDGES - N) True)"
  using assms by (auto simp: first_combination_def bool_memset_def Let_def min_def replicate_add [symmetric])

text \<open>An arrangement of the root bridges, in the array with its unused tail.\<close>

definition arrangement :: "RCMGR_INPUT_BLK \<Rightarrow> bool list \<Rightarrow> nat \<Rightarrow> bool" where
  "arrangement d xs n \<longleftrightarrow> (\<exists>c. length c = SocketNumber d * RbsPerSocket d \<and> count_list c False = n
     \<and> xs = c @ replicate (DFX_MAX_HOST_BRIDGES - SocketNumber d * RbsPerSocket d) True)"

text \<open>The loop over the numbers of root bridges below the configuration space.\<close>

lemma size_loop_result:
  fixes d primary EnoughAbove BaseAbove BaseBelow
  defines "good xs \<equiv> primary_fits primary EnoughAbove xs \<and> works d BaseAbove BaseBelow xs"
  assumes "system_ok d" and "\<forall>n\<in>set ns. n \<le> SocketNumber d * RbsPerSocket d" and "ns \<noteq> []"
  shows "\<exists>ok xs' acc'. size_loop dbg ops d BaseAbove BaseBelow primary EnoughAbove h ns xs acc
      = Some (ok, xs', acc')
    \<and> (ok \<longleftrightarrow> (\<exists>n\<in>set (if PciExpressBaseAddress d = BaseBelow then [hd ns] else ns).
                 \<exists>xs. arrangement d xs n \<and> good xs))
    \<and> (ok \<longrightarrow> good xs' \<and> (\<exists>n\<in>set ns. arrangement d xs' n))"
  using assms(3,4)
proof (induction ns arbitrary: xs acc)
  case (Cons n ns)
  let ?N = "SocketNumber d * RbsPerSocket d"
  let ?tail = "replicate (DFX_MAX_HOST_BRIDGES - ?N) True"
  have n: "n \<le> ?N" using Cons.prems(1) by simp
  note N = system_ok_bridges [OF assms(2)]
  have arr: "arrangement d xs n \<longleftrightarrow> (\<exists>c\<in>set (combos ?N n). xs = c @ ?tail)" for xs
    by (auto simp: arrangement_def set_combos)
  have "\<forall>c\<in>set (combos ?N n). \<forall>acc. \<exists>acc'. dry_run dbg ops d BaseAbove BaseBelow h (c @ ?tail) acc
      = Some (works d BaseAbove BaseBelow (c @ ?tail), acc')"
    using N by (intro ballI allI dry_run_total [OF assms(2)]) (simp add: set_combos)
  moreover have ex: "(\<exists>c\<in>set (combos ?N n). primary_fits primary EnoughAbove (c @ ?tail)
      \<and> works d BaseAbove BaseBelow (c @ ?tail)) \<longleftrightarrow> (\<exists>xs. arrangement d xs n \<and> good xs)"
    by (auto simp: arr good_def)
  moreover have fnd: "(\<exists>c\<in>set (combos ?N n). xs = c @ ?tail \<and> primary_fits primary EnoughAbove xs
      \<and> works d BaseAbove BaseBelow xs) \<longleftrightarrow> arrangement d xs n \<and> good xs" for xs
    by (auto simp: arr good_def)
  ultimately
  obtain acc1 xs1 where loop: "comb_loop (SilGetNextCombination dbg n ?N) (primary_fits primary EnoughAbove)
      (dry_run dbg ops d BaseAbove BaseBelow h) (replicate (?N - n) True @ replicate n False @ ?tail) acc
      = Some (\<exists>xs. arrangement d xs n \<and> good xs, xs1, acc1)"
    and found: "(\<exists>xs. arrangement d xs n \<and> good xs) \<longrightarrow> arrangement d xs1 n \<and> good xs1"
    using comb_loop_combos [OF n, of "dry_run dbg ops d BaseAbove BaseBelow h" ?tail
        "works d BaseAbove BaseBelow" dbg "primary_fits primary EnoughAbove" acc]
    unfolding ex fnd by blast
  note first = first_combination_eq [OF n N]
  show ?case
  proof (cases "(\<exists>xs. arrangement d xs n \<and> good xs) \<or> PciExpressBaseAddress d = BaseBelow \<or> ns = []")
    case True
    then show ?thesis using found by (auto simp: first loop)
  next
    case False
    then show ?thesis
      using Cons.IH [of xs1 acc1] Cons.prems(1) by (auto simp: first loop)
  qed
qed simp

end
