(* ===== verification/Rc_Io.thy ===== *)
theory Rc_Io
  imports Rc_Regs Rc_Above4G
begin

text \<open>
  IO port space and PCI bus numbers: \<^verbatim>\<open>SilInitIoBasedOnNvVariable4\<close> and \<^verbatim>\<open>SilInitPciBusBasedOnNvVariable4\<close>
  of \<^verbatim>\<open>FabricRcInitBasedOnNv4.c\<close>, \<^verbatim>\<open>SilInitIoEqually4\<close> of \<^verbatim>\<open>FabricRcInitDfX.c\<close>. Both IO variants give the
  primary root bridge a range from port 0 and the others consecutive ranges after it; the last root
  bridge gets the rest.
\<close>

section \<open>IO ranges\<close>

text \<open>
  The range of the primary root bridge and where the others start: from 0, with the legacy ports added,
  when the system has more than one root bridge and the primary one is among them.
\<close>

definition primary_io :: "RCMGR_INPUT_BLK \<Rightarrow> nat \<times> nat \<Rightarrow> u32 \<Rightarrow> u32 \<times> u32" where
  "primary_io d primary sz =
     (if (SocketNumber d \<noteq> 1 \<or> RbsPerSocket d \<noteq> 1)
         \<and> fst primary < SocketNumber d \<and> snd primary < RbsPerSocket d
      then (sz + X86_LEGACY_IO_SIZE, sz + X86_LEGACY_IO_SIZE)
      else (DF_IO_LIMIT, 0))"

text \<open>The range of one root bridge and the start of the next one.\<close>

definition io_range :: "bool \<Rightarrow> bool \<Rightarrow> u32 \<Rightarrow> u32 \<Rightarrow> u32 \<Rightarrow> u32 \<times> u32 \<times> u32" where
  "io_range is_primary is_last IoSizeForPrimaryRb sz IoBaseForOthers =
     (let (b, n, others) = (if is_primary then (0, IoSizeForPrimaryRb, IoBaseForOthers)
                            else (IoBaseForOthers, sz, IoBaseForOthers + sz))
      in (b, if is_last then DF_IO_LIMIT - b else n, others))"

text \<open>What is reported: without the legacy ports, and up to the 16-bit limit for the last one.\<close>

definition io_region :: "bool \<Rightarrow> bool \<Rightarrow> u32 \<Rightarrow> u32 \<Rightarrow> FABRIC_IO_REGION" where
  "io_region is_primary is_last b n =
     (let base = (if is_primary then b + X86_LEGACY_IO_SIZE else b);
          sz = (if is_primary then n - X86_LEGACY_IO_SIZE else n)
      in \<lparr>IoBase = base, IoSize = (if is_last then X86IO_LIMIT - base else sz), IoUsed = 0\<rparr>)"

definition last_rb :: "RCMGR_INPUT_BLK \<Rightarrow> nat \<times> nat \<Rightarrow> bool" where
  "last_rb d p \<longleftrightarrow> fst p + 1 = SocketNumber d \<and> snd p + 1 = RbsPerSocket d"

record 'h io_run =
  io_mgr :: FABRIC_IO_MANAGER
  io_space :: "FABRIC_ADDR_SPACE_SIZE option"
  io_others :: u32
  io_index :: u8
  io_map :: "FABRIC_RB_LOG_TO_PHY_MAP list option"
  io_h :: 'h

definition set_io_region :: "nat \<times> nat \<Rightarrow> FABRIC_IO_REGION \<Rightarrow> FABRIC_IO_MANAGER \<Rightarrow> FABRIC_IO_MANAGER" where
  "set_io_region p r m = m\<lparr>IoRegion := rb_upd (IoRegion m) (fst p) (snd p) r\<rparr>"

section \<open>IO based on the NV variable\<close>

definition nv_io_size :: "RCMGR_INPUT_BLK \<Rightarrow> nat \<times> nat \<Rightarrow> u32" where
  "nv_io_size d p = ucast (ap_Size (IO_aperture (ResourceSizeForEachRb d) (fst p) (snd p)) AND RCMGR_IO_SIZE_MASK)"

definition nv_io_step ::
  "bool \<Rightarrow> 'h pci_ops \<Rightarrow> RCMGR_INPUT_BLK \<Rightarrow> nat \<times> nat \<Rightarrow> bool \<Rightarrow> nat \<times> nat \<Rightarrow> 'h io_run \<Rightarrow> 'h io_run option" where
  "nv_io_step dbg ops d primary SetDfRegisters p rn =
     do { (phy, map', h) \<leftarrow> DfXSilGetPhySktRbNum ops (fst p) (snd p) (io_map rn) (io_h rn);
          let (b, n, others) = io_range (phy = primary) (last_rb d p)
                (fst (primary_io d primary (nv_io_size d primary))) (nv_io_size d phy) (io_others rn);
          let rn = rn\<lparr>io_map := map', io_h := h, io_others := others,
            io_space := map_option (\<lambda>sp. sp\<lparr>ss_IoSize := ss_IoSize sp + nv_io_size d phy\<rparr>) (io_space rn)\<rparr>;
          c_assert dbg (b < X86IO_LIMIT);
          if n = 0 then Some rn
          else if SetDfRegisters then
            do { h \<leftarrow> SilSetIoReg4 ops (SocketNumber d) (io_index rn) (fst phy) (snd phy) b n (io_h rn);
                 Some (rn\<lparr>io_h := h, io_index := io_index rn + 1,
                   io_mgr := set_io_region phy (io_region (phy = primary) (last_rb d p) b n) (io_mgr rn)\<rparr>) }
          else Some (rn\<lparr>io_index := io_index rn + 1\<rparr>) }"

definition io_required :: "FABRIC_ADDR_SPACE_SIZE \<Rightarrow> FABRIC_ADDR_SPACE_SIZE" where
  "io_required sp = sp\<lparr>ss_IoSizeReqInc := (if X86IO_LIMIT < ss_IoSize sp then ss_IoSize sp - X86IO_LIMIT else 0)\<rparr>"

definition SilInitIoBasedOnNvVariable4 ::
  "bool \<Rightarrow> 'h pci_ops \<Rightarrow> RCMGR_INPUT_BLK \<Rightarrow> FABRIC_ADDR_SPACE_SIZE option \<Rightarrow> bool \<Rightarrow> 'h
     \<Rightarrow> (SIL_STATUS \<times> FABRIC_ADDR_SPACE_SIZE option \<times> RCMGR_INPUT_BLK \<times> 'h) option" where
  "SilInitIoBasedOnNvVariable4 dbg ops d SpaceStatus SetDfRegisters h =
     do { primary \<leftarrow> SilGetPrimaryRb;
          rn \<leftarrow> for_each (nv_io_step dbg ops d primary SetDfRegisters) (all_rbs d)
                  \<lparr>io_mgr = IoRcMgr d, io_space = SpaceStatus,
                   io_others = snd (primary_io d primary (nv_io_size d primary)),
                   io_index = 0, io_map = None, io_h = h\<rparr>;
          Some (SilPass, map_option io_required (io_space rn),
                d\<lparr>IoRcMgr := (io_mgr rn)\<lparr>GlobalCtrl := True\<rparr>\<rparr>, io_h rn) }"

section \<open>IO in equal shares\<close>

text \<open>The share; \<open>None\<close> divides by zero root bridges.\<close>

definition eq_io_size :: "RCMGR_INPUT_BLK \<Rightarrow> u32 option" where
  "eq_io_size d =
     do { sil_assert (SocketNumber d * RbsPerSocket d \<noteq> 0);
          Some (((0x10000 - X86_LEGACY_IO_SIZE) div of_nat (SocketNumber d * RbsPerSocket d)) AND 0xFFFFF000) }"

definition eq_io_step ::
  "'h pci_ops \<Rightarrow> RCMGR_INPUT_BLK \<Rightarrow> nat \<times> nat \<Rightarrow> u32 \<Rightarrow> nat \<times> nat \<Rightarrow> 'h io_run \<Rightarrow> 'h io_run option" where
  "eq_io_step ops d primary share p rn =
     do { (phy, map', h) \<leftarrow> DfXSilGetPhySktRbNum ops (fst p) (snd p) (io_map rn) (io_h rn);
          let (b, n, others) = io_range (phy = primary) (last_rb d p)
                (fst (primary_io d primary share)) share (io_others rn);
          h \<leftarrow> SilSetIoReg4 ops (SocketNumber d) (io_index rn) (fst phy) (snd phy) b n h;
          Some (rn\<lparr>io_map := map', io_h := h, io_others := others, io_index := io_index rn + 1,
            io_mgr := set_io_region phy (io_region (phy = primary) (last_rb d p) b n) (io_mgr rn)\<rparr>) }"

definition SilInitIoEqually4 ::
  "'h pci_ops \<Rightarrow> RCMGR_INPUT_BLK \<Rightarrow> 'h \<Rightarrow> (SIL_STATUS \<times> RCMGR_INPUT_BLK \<times> 'h) option" where
  "SilInitIoEqually4 ops d h =
     do { share \<leftarrow> eq_io_size d;
          primary \<leftarrow> SilGetPrimaryRb;
          rn \<leftarrow> for_each (eq_io_step ops d primary share) (all_rbs d)
                  \<lparr>io_mgr = IoRcMgr d, io_space = None, io_others = snd (primary_io d primary share),
                   io_index = 0, io_map = None, io_h = h\<rparr>;
          Some (SilPass, d\<lparr>IoRcMgr := (io_mgr rn)\<lparr>GlobalCtrl := True\<rparr>\<rparr>, io_h rn) }"

section \<open>PCI bus numbers\<close>

definition IosRbLoopToRbAssignOrder :: "nat list" where "IosRbLoopToRbAssignOrder = [2, 3, 1, 0]"

text \<open>Whether a bus range differs from the request; the inner loop stops at the first difference.\<close>

fun socket_differs ::
  "'h pci_ops \<Rightarrow> RCMGR_INPUT_BLK \<Rightarrow> nat \<Rightarrow> nat \<Rightarrow> nat list \<Rightarrow> 'h \<Rightarrow> (bool \<times> 'h) option" where
  "socket_differs ops d RbPerDie s [] h = Some (False, h)"
| "socket_differs ops d RbPerDie s (r # rs) h =
     do { (b, h) \<leftarrow> DfXGetHostBridgeBusBase ops s (r mod RbPerDie) h;
          (l, h) \<leftarrow> DfXGetHostBridgeBusLimit ops s (r mod RbPerDie) h;
          if l - b + 1 \<noteq> ucast (PciBusNumber (ResourceSizeForEachRb d) s r) then Some (True, h)
          else socket_differs ops d RbPerDie s rs h }"

definition need_reallocate ::
  "'h pci_ops \<Rightarrow> RCMGR_INPUT_BLK \<Rightarrow> nat \<Rightarrow> 'h \<Rightarrow> (bool \<times> 'h) option" where
  "need_reallocate ops d RbPerDie h =
     for_each (\<lambda>s (need, h). do { (n, h) \<leftarrow> socket_differs ops d RbPerDie s [0 ..< RbsPerSocket d] h;
                                    Some (need \<or> n, h) })
       [0 ..< SocketNumber d] (False, h)"

definition clear_cfg_maps :: "'h pci_ops \<Rightarrow> nat \<Rightarrow> u32 \<Rightarrow> 'h \<Rightarrow> 'h option" where
  "clear_cfg_maps ops s instance_id =
     for_each (\<lambda>i. DfXFabricRegisterAccWrite ops s 0 (cfg_base_reg i) instance_id 0) [0 ..< 8]"

definition clear_bus_maps :: "'h pci_ops \<Rightarrow> RCMGR_INPUT_BLK \<Rightarrow> 'h \<Rightarrow> 'h option" where
  "clear_bus_maps ops d h =
     do { ccm \<leftarrow> device_entry Ccm;
          iom \<leftarrow> device_entry Iom;
          acm \<leftarrow> device_entry Acm;
          ios \<leftarrow> device_entry Ios;
          each_die (SocketNumber d) (\<lambda>s h. do {
            h \<leftarrow> for_each (\<lambda>e. clear_cfg_maps ops s (InstanceID e)) ccm h;
            h \<leftarrow> for_each (\<lambda>e. clear_cfg_maps ops s (InstanceID e)) acm h;
            for_each (\<lambda>r h. do {
              sil_assert (r < length iom \<and> r < length ios);
              h \<leftarrow> (if iom_written d s r then clear_cfg_maps ops s (InstanceID (iom ! r)) h else Some h);
              DfXFabricRegisterAccWrite ops s 0 CFGADDRESSCNTL_REG (InstanceID (ios ! r)) 0 h })
              [0 ..< RbsPerSocket d] h }) h }"

text \<open>The bus range of one root bridge: its map registers and its secondary bus number.\<close>

definition assign_bus ::
  "bool \<Rightarrow> 'h pci_ops \<Rightarrow> RCMGR_INPUT_BLK \<Rightarrow> nat \<Rightarrow> nat \<Rightarrow> nat \<times> nat \<Rightarrow> u16 \<Rightarrow> u16 \<Rightarrow> 'h \<Rightarrow> 'h option" where
  "assign_bus dbg ops d RbPerDie RegIndex p b l h =
     do { ios \<leftarrow> device_entry Ios;
          h \<leftarrow> SilSetCfgAddrMapReg4 dbg ops d RbPerDie RegIndex (fst p) (snd p) b l h;
          sil_assert (snd p < length ios);
          DfXFabricRegisterAccWrite ops (fst p) 0 CFGADDRESSCNTL_REG (InstanceID (ios ! snd p))
            (set_field 0 8 (ucast b) 0) h }"

text \<open>
  The order after the primary root bridge: per socket the loop counts down and goes through the
  assignment table. Each entry says whether it is the last turn of the loop.
\<close>

definition bus_order :: "RCMGR_INPUT_BLK \<Rightarrow> nat \<times> nat \<Rightarrow> ((nat \<times> nat) \<times> bool) list" where
  "bus_order d primary =
     [((s, IosRbLoopToRbAssignOrder ! (k - 1)), s = SocketNumber d - 1 \<and> k = 1).
        s \<leftarrow> [0 ..< SocketNumber d], k \<leftarrow> rev [1 ..< RbsPerSocket d + 1],
        \<not> (s = fst primary \<and> IosRbLoopToRbAssignOrder ! (k - 1) = snd primary)]"

definition bus_count :: "RCMGR_INPUT_BLK \<Rightarrow> nat \<times> nat \<Rightarrow> u16" where
  "bus_count d p = PciBusNumber (ResourceSizeForEachRb d) (fst p) (snd p)"

definition bus_limit :: "RCMGR_INPUT_BLK \<Rightarrow> (nat \<times> nat) \<times> bool \<Rightarrow> u16 \<Rightarrow> u16" where
  "bus_limit d e b = (if snd e then 0xFF else b + bus_count d (fst e) - 1)"

definition SilInitPciBusBasedOnNvVariable4 ::
  "bool \<Rightarrow> 'h pci_ops \<Rightarrow> RCMGR_INPUT_BLK \<Rightarrow> 'h \<Rightarrow> (SIL_STATUS \<times> 'h) option" where
  "SilInitPciBusBasedOnNvVariable4 dbg ops d h =
     do { (RbPerDie, h) \<leftarrow> DfXGetNumberOfRootBridgesOnDie ops 0 h;
          (NeedReallocate, h) \<leftarrow> need_reallocate ops d RbPerDie h;
          if \<not> NeedReallocate then Some (SilPass, h)
          else do {
            h \<leftarrow> clear_bus_maps ops d h;
            primary \<leftarrow> SilGetPrimaryRb;
            sil_assert (RbsPerSocket d \<le> length IosRbLoopToRbAssignOrder);
            let l = bus_count d primary - 1;
            h \<leftarrow> assign_bus dbg ops d RbPerDie 0 primary 0 l h;
            (i, l, h) \<leftarrow> for_each (\<lambda>e (i, l, h). do {
                let i = i + 1;
                let b = l + 1;
                let l = bus_limit d e b;
                h \<leftarrow> assign_bus dbg ops d RbPerDie i (fst e) b l h;
                Some (i, l, h) }) (bus_order d primary) (0, l, h);
            Some (SilPass, h) } }"

section \<open>Consecutive ranges\<close>

text \<open>The ranges the IO loop assigns when the root bridges come in the physical order \<open>ps\<close>.\<close>

fun io_ranges :: "nat \<times> nat \<Rightarrow> u32 \<Rightarrow> (nat \<times> nat \<Rightarrow> u32) \<Rightarrow> (nat \<times> nat) list \<Rightarrow> u32 \<Rightarrow> ((nat \<times> nat) \<times> u32 \<times> u32) list" where
  "io_ranges primary psize sz [] others = []"
| "io_ranges primary psize sz (p # ps) others =
     (let (b, n, others') = io_range (p = primary) (ps = []) psize (sz p) others
      in (p, b, n) # io_ranges primary psize sz ps others')"

text \<open>The bus ranges the loop assigns, from the last bus of the previous one.\<close>

fun bus_ranges :: "RCMGR_INPUT_BLK \<Rightarrow> ((nat \<times> nat) \<times> bool) list \<Rightarrow> u16 \<Rightarrow> ((nat \<times> nat) \<times> u16 \<times> u16) list" where
  "bus_ranges d [] l = []"
| "bus_ranges d (e # es) l = (let b = l + 1; l' = bus_limit d e b in (fst e, b, l') # bus_ranges d es l')"

text \<open>Ranges one after the other, without gap, from \<open>lo\<close> up to \<open>hi\<close>.\<close>

fun consecutive :: "nat \<Rightarrow> nat \<Rightarrow> ('k \<times> nat \<times> nat) list \<Rightarrow> bool" where
  "consecutive lo hi [] \<longleftrightarrow> lo = hi"
| "consecutive lo hi ((p, b, n) # rs) \<longleftrightarrow> b = lo \<and> consecutive (lo + n) hi rs"

definition owner :: "('k \<times> nat \<times> nat) list \<Rightarrow> nat \<Rightarrow> 'k \<Rightarrow> bool" where
  "owner rs x p \<longleftrightarrow> (\<exists>b n. (p, b, n) \<in> set rs \<and> x \<in> range_of b n)"

lemma owner_Cons: "owner ((p, b, n) # rs) x q \<longleftrightarrow> (q = p \<and> x \<in> range_of b n) \<or> owner rs x q"
  by (auto simp: owner_def)

lemma owner_in_window:
  assumes "consecutive lo hi rs" and "owner rs x p"
  shows "lo \<le> x" and "x < hi"
proof -
  have "lo \<le> hi" if "consecutive lo hi rs" for lo hi and rs :: "('a \<times> nat \<times> nat) list"
    using that by (induction lo hi rs rule: consecutive.induct) auto
  then have "lo \<le> x \<and> x < hi"
    using assms
  proof (induction rs arbitrary: lo)
    case (Cons r rs)
    then show ?case by (cases r) (fastforce simp: owner_Cons range_of_def)
  qed (simp add: owner_def)
  then show "lo \<le> x" "x < hi" by simp_all
qed

text \<open>Every number of the window belongs to exactly one of the ranges.\<close>

lemma consecutive_owner:
  assumes "consecutive lo hi rs" and "distinct (map fst rs)" and "lo \<le> x" and "x < hi"
  shows "\<exists>!p. owner rs x p"
  using assms
proof (induction rs arbitrary: lo)
  case (Cons r rs)
  obtain p b n where r: "r = (p, b, n)" by (cases r)
  have rest: "consecutive (lo + n) hi rs" and b: "b = lo" using Cons.prems(1) r by auto
  show ?case
  proof (cases "x < lo + n")
    case True
    then have "\<not> owner rs x q" for q using owner_in_window(1) [OF rest] by fastforce
    then show ?thesis using True Cons.prems(3) b by (auto simp: r owner_Cons range_of_def)
  next
    case False
    then have "\<exists>!q. owner rs x q" using Cons.IH [OF rest] Cons.prems(2,4) by simp
    then show ?thesis using False b by (auto simp: r owner_Cons range_of_def)
  qed
qed simp

definition unat_range :: "('k \<times> 'a::len word \<times> 'a word) \<Rightarrow> 'k \<times> nat \<times> nat" where
  "unat_range r = (fst r, unat (fst (snd r)), unat (snd (snd r)))"

lemma owner_unat:
  "owner (map unat_range rs) x p \<longleftrightarrow> (\<exists>b n. (p, b, n) \<in> set rs \<and> unat b \<le> x \<and> x < unat b + unat n)"
  by (force simp: owner_def unat_range_def range_of_def image_iff)

lemma unat_DF_IO_LIMIT: "unat DF_IO_LIMIT = 0x2000000"
  by (simp add: DF_IO_LIMIT_def)

lemma io_ranges_fst: "map fst (io_ranges primary psize f ps others) = ps"
  by (induction ps arbitrary: others) (simp_all add: io_range_def Let_def split_def)

text \<open>The ranges of the root bridges other than the primary one fill the space after it.\<close>

lemma io_ranges_consecutive:
  assumes "ps \<noteq> []" and "last ps \<noteq> primary"
    and "unat others + sum_list (map (unat \<circ> f) (filter (\<lambda>p. p \<noteq> primary) (butlast ps))) \<le> 0x2000000"
  shows "consecutive (unat others) 0x2000000
    (map unat_range (filter (\<lambda>r. fst r \<noteq> primary) (io_ranges primary psize f ps others)))"
  using assms
proof (induction ps arbitrary: others)
  case (Cons p ps)
  show ?case
  proof (cases "p = primary")
    case True
    then show ?thesis
      using Cons by (cases "ps = []") (auto simp: io_range_def)
  next
    case np: False
    show ?thesis
    proof (cases "ps = []")
      case True
      have "unat (DF_IO_LIMIT - others) = 0x2000000 - unat others"
        using Cons.prems(3) True by (simp add: unat_minus_small unat_DF_IO_LIMIT)
      then show ?thesis using True np Cons.prems(3) by (simp add: io_range_def unat_range_def)
    next
      case False
      have "unat (others + f p) = unat others + unat (f p)"
        using Cons.prems(3) False np by (intro unat_plus_small) simp
      then show ?thesis
        using Cons.IH [of "others + f p"] Cons.prems False np by (simp add: io_range_def unat_range_def add.assoc)
    qed
  qed
qed simp

lemma io_ranges_primary:
  assumes "last ps \<noteq> primary"
  shows "(primary, b, n) \<in> set (io_ranges primary psize f ps others) \<Longrightarrow> b = 0 \<and> n = psize"
    and "primary \<in> set ps \<Longrightarrow> (primary, 0, psize) \<in> set (io_ranges primary psize f ps others)"
  using assms
  by (induction ps arbitrary: others) (auto simp: io_range_def Let_def split: if_splits)

lemma io_ranges_owner:
  assumes "distinct ps" and "primary \<in> set ps" and "last ps \<noteq> primary"
    and "unat psize + sum_list (map (unat \<circ> f) (filter (\<lambda>p. p \<noteq> primary) (butlast ps))) \<le> 0x2000000"
    and "x < 0x2000000"
  shows "\<exists>!p. owner (map unat_range (io_ranges primary psize f ps psize)) x p"
proof -
  let ?rs = "io_ranges primary psize f ps psize"
  let ?others = "map unat_range (filter (\<lambda>r. fst r \<noteq> primary) ?rs)"
  have ne: "ps \<noteq> []" using assms(2) by auto
  note con = io_ranges_consecutive [OF ne assms(3,4), of psize]
  have "map fst ?others = filter (\<lambda>p. p \<noteq> primary) ps"
    using filter_map [of "\<lambda>p. p \<noteq> primary" fst ?rs] by (simp add: comp_def unat_range_def io_ranges_fst)
  then have dist: "distinct (map fst ?others)" using assms(1) by simp
  have own: "owner (map unat_range ?rs) x p \<longleftrightarrow>
      (if p = primary then x < unat psize else owner ?others x p)" for p
  proof (cases "p = primary")
    case True
    have "(\<exists>b n. (primary, b, n) \<in> set ?rs \<and> unat b \<le> x \<and> x < unat b + unat n) \<longleftrightarrow> x < unat psize"
      using io_ranges_primary(1) [OF assms(3), of _ _ psize f psize]
        io_ranges_primary(2) [OF assms(3,2), of psize f psize] by fastforce
    then show ?thesis using True by (simp add: owner_unat)
  qed (auto simp: owner_unat)
  show ?thesis
  proof (cases "x < unat psize")
    case True
    then have "\<not> owner ?others x p" for p using owner_in_window(1) [OF con] by fastforce
    then show ?thesis using True by (auto simp: own)
  next
    case False
    then have "\<exists>!p. owner ?others x p" using consecutive_owner [OF con dist _ assms(5)] by simp
    moreover have "\<not> owner ?others x primary" by (auto simp: owner_def unat_range_def)
    ultimately show ?thesis unfolding own using False by metis
  qed
qed

section \<open>Bus numbers\<close>

lemma bus_order_one_socket:
  assumes "SocketNumber d = 1" and "RbsPerSocket d = 4"
  shows "bus_order d (0, 2) = [((0, 0), False), ((0, 1), False), ((0, 3), False)]"
  using assms by (simp add: bus_order_def IosRbLoopToRbAssignOrder_def upt_rec)

lemma bus_order_two_sockets:
  assumes "SocketNumber d = 2" and "RbsPerSocket d = 4"
  shows "bus_order d (0, 2) = [((0, 0), False), ((0, 1), False), ((0, 3), False),
    ((1, 0), False), ((1, 1), False), ((1, 3), False), ((1, 2), True)]"
  using assms by (simp add: bus_order_def IosRbLoopToRbAssignOrder_def upt_rec)

text \<open>A range from \<open>b\<close> to the last bus \<open>l\<close>, as a start and a length.\<close>

definition bus_span :: "('k \<times> u16 \<times> u16) \<Rightarrow> 'k \<times> nat \<times> nat" where
  "bus_span r = (fst r, unat (fst (snd r)), Suc (unat (snd (snd r))) - unat (fst (snd r)))"

lemma bus_limit_unat:
  assumes "\<not> snd e" and "0 < unat (bus_count d (fst e))" and "unat b + unat (bus_count d (fst e)) < 2 ^ 16"
  shows "unat (bus_limit d e b) = unat b + unat (bus_count d (fst e)) - 1"
proof -
  have "unat (b + bus_count d (fst e)) = unat b + unat (bus_count d (fst e))"
    using assms(3) by (intro unat_plus_small) simp
  moreover have "unat (b + bus_count d (fst e) - 1) = unat (b + bus_count d (fst e)) - 1"
    using calculation assms(2) by (subst unat_minus_small) simp_all
  ultimately show ?thesis using assms(1) by (simp add: bus_limit_def)
qed

lemma bus_ranges_fst: "map fst (bus_ranges d es l) = map fst es"
  by (induction es arbitrary: l) (simp_all add: Let_def)

text \<open>The bus ranges follow one another without gap; the one marked last ends at bus 255.\<close>

lemma bus_ranges_consecutive:
  assumes "\<forall>e\<in>set es. 0 < unat (bus_count d (fst e))"
    and "\<forall>e\<in>set (butlast es). \<not> snd e"
    and "Suc (unat l) + sum_list (map (\<lambda>e. unat (bus_count d (fst e))) es) \<le> 256"
  shows "consecutive (Suc (unat l))
    (if es \<noteq> [] \<and> snd (last es) then 256
     else Suc (unat l) + sum_list (map (\<lambda>e. unat (bus_count d (fst e))) es))
    (map bus_span (bus_ranges d es l))"
  using assms
proof (induction es arbitrary: l)
  case (Cons e es)
  have b: "unat (l + 1) = Suc (unat l)"
    using Cons.prems(3) by (subst unat_plus_small) simp_all
  show ?case
  proof (cases "snd e")
    case True
    then have "es = []" using Cons.prems(2) by (cases es) auto
    then show ?thesis using True b Cons.prems(3) by (simp add: bus_limit_def bus_span_def)
  next
    case False
    let ?n = "unat (bus_count d (fst e))"
    have l': "unat (bus_limit d e (l + 1)) = unat l + ?n"
      using bus_limit_unat [OF False, of d "l + 1"] Cons.prems(1,3) b by simp
    have "\<forall>e\<in>set (butlast es). \<not> snd e" using Cons.prems(2) by (cases es) auto
    then have "consecutive (Suc (unat l + ?n))
      (if es \<noteq> [] \<and> snd (last es) then 256
       else Suc (unat l + ?n) + sum_list (map (\<lambda>e. unat (bus_count d (fst e))) es))
      (map bus_span (bus_ranges d es (bus_limit d e (l + 1))))"
      using Cons.IH [of "bus_limit d e (l + 1)", unfolded l'] Cons.prems(1,3) by simp
    then show ?thesis using False b l' Cons.prems(1) by (auto simp: Let_def bus_span_def [of "(a, b)" for a b] add.assoc)
  qed
qed simp

section \<open>The IO loop assigns these ranges\<close>

text \<open>The manager after the loop, when the root bridges come in the physical order \<open>ps\<close>.\<close>

fun io_final ::
  "nat \<times> nat \<Rightarrow> u32 \<Rightarrow> (nat \<times> nat \<Rightarrow> u32) \<Rightarrow> (nat \<times> nat) list \<Rightarrow> u32 \<Rightarrow> FABRIC_IO_MANAGER \<Rightarrow> FABRIC_IO_MANAGER" where
  "io_final primary psize f [] others m = m"
| "io_final primary psize f (p # ps) others m =
     (let (b, n, others') = io_range (p = primary) (ps = []) psize (f p) others
      in io_final primary psize f ps others' (set_io_region p (io_region (p = primary) (ps = []) b n) m))"

text \<open>
  The physical order is that of the map. The hardware is assumed to report the same number of root
  bridges per socket at every reading.
\<close>

definition stable_count :: "'h pci_ops \<Rightarrow> nat \<Rightarrow> bool" where
  "stable_count ops R \<longleftrightarrow> (\<forall>h. \<exists>h'. DfXGetNumberOfRootBridgesOnSocket ops 0 h = Some (R, h'))"

definition phy_pair :: "FABRIC_RB_LOG_TO_PHY_MAP \<Rightarrow> nat \<times> nat" where
  "phy_pair e = (PhySktNum e, PhyRbNum e)"

text \<open>The map the loop works with: already there, or built on the next call.\<close>

definition map_ready :: "'h pci_ops \<Rightarrow> FABRIC_RB_LOG_TO_PHY_MAP list \<Rightarrow> 'h io_run \<Rightarrow> bool" where
  "map_ready ops m rn \<longleftrightarrow> io_map rn = Some m
     \<or> (io_map rn = None \<and> (\<exists>m0 h1. log_to_phy_init ops (io_h rn) = Some (m0, h1) \<and> m = bus_sort PciBusBase m0))"

lemma DfXSilGetPhySktRbNum_ready:
  assumes "stable_count ops R" and "map_ready ops m rn"
    and "DfXSilGetPhySktRbNum ops s r (io_map rn) (io_h rn) = Some (phy, map', h')"
  shows "map' = Some m" and "phy = phy_pair (m ! (s * R + r))"
proof -
  from assms(3) obtain m' h1 h2 n where
    pick: "(case io_map rn of Some m \<Rightarrow> Some (m, io_h rn)
       | None \<Rightarrow> do { (m, h) \<leftarrow> log_to_phy_init ops (io_h rn); Some (bus_sort PciBusBase m, h) }) = Some (m', h1)"
    and cnt: "DfXGetNumberOfRootBridgesOnSocket ops 0 h1 = Some (n, h2)"
    and out: "phy = (PhySktNum (m' ! (s * n + r)), PhyRbNum (m' ! (s * n + r)))" "map' = Some m'"
    unfolding DfXSilGetPhySktRbNum_def by (auto simp: Option.bind_eq_Some_conv Let_def split: if_splits)
  have "m' = m" using pick assms(2) by (auto simp: map_ready_def)
  moreover have "n = R" using cnt assms(1) unfolding stable_count_def by (metis option.inject prod.inject)
  ultimately show "map' = Some m" "phy = phy_pair (m ! (s * R + r))" using out by (simp_all add: phy_pair_def)
qed

lemma eq_io_loop:
  assumes "for_each (eq_io_step ops d primary share) ls rn = Some rn'"
    and "\<forall>i<length ls. last_rb d (ls ! i) \<longleftrightarrow> Suc i = length ls"
    and "\<forall>i<length ls. fst (ls ! i) * R + snd (ls ! i) = k + i" and "length m = k + length ls"
    and "stable_count ops R" and "map_ready ops m rn"
  shows "io_mgr rn' = io_final primary (fst (primary_io d primary share)) (\<lambda>_. share)
    (map phy_pair (drop k m)) (io_others rn) (io_mgr rn)"
  using assms
proof (induction ls arbitrary: rn k)
  case Nil
  then show ?case by simp
next
  case (Cons l ls)
  from Cons.prems(1) obtain rn1 where 1: "eq_io_step ops d primary share l rn = Some rn1"
    and 2: "for_each (eq_io_step ops d primary share) ls rn1 = Some rn'" by (rule for_each_ConsE)
  have lst: "last_rb d l \<longleftrightarrow> ls = []" using Cons.prems(2) [rule_format, of 0] by auto
  obtain phy map' h1 where get: "DfXSilGetPhySktRbNum ops (fst l) (snd l) (io_map rn) (io_h rn) = Some (phy, map', h1)"
    and io1: "io_map rn1 = map'" "io_others rn1 = snd (snd (io_range (phy = primary) (ls = [])
        (fst (primary_io d primary share)) share (io_others rn)))"
      "io_mgr rn1 = set_io_region phy (io_region (phy = primary) (ls = [])
        (fst (io_range (phy = primary) (ls = []) (fst (primary_io d primary share)) share (io_others rn)))
        (fst (snd (io_range (phy = primary) (ls = []) (fst (primary_io d primary share)) share (io_others rn)))))
        (io_mgr rn)"
    using 1 unfolding eq_io_step_def lst by (auto simp: Let_def Option.bind_eq_Some_conv split_def)
  have k: "fst l * R + snd l = k" using Cons.prems(3) [rule_format, of 0] by simp
  note phy = DfXSilGetPhySktRbNum_ready [OF Cons.prems(5,6) get, unfolded k]
  have split: "drop k m = m ! k # drop (Suc k) m" using Cons.prems(4) by (intro Cons_nth_drop_Suc [symmetric]) simp
  have emp: "(length m \<le> Suc k) = (ls = [])" using Cons.prems(4) by auto
  have "io_mgr rn' = io_final primary (fst (primary_io d primary share)) (\<lambda>_. share)
      (map phy_pair (drop (Suc k) m)) (io_others rn1) (io_mgr rn1)"
  proof (rule Cons.IH [OF 2 _ _ _ Cons.prems(5)])
    show "\<forall>i<length ls. last_rb d (ls ! i) \<longleftrightarrow> Suc i = length ls"
      using Cons.prems(2) by (metis Suc_less_eq length_Cons nat.inject nth_Cons_Suc)
    show "\<forall>i<length ls. fst (ls ! i) * R + snd (ls ! i) = Suc k + i"
      using Cons.prems(3) by (metis Suc_less_eq add_Suc add_Suc_right length_Cons nth_Cons_Suc)
    show "length m = Suc k + length ls" using Cons.prems(4) by simp
    show "map_ready ops m rn1" using phy(1) io1(1) by (simp add: map_ready_def)
  qed
  then show ?case using phy(2) by (simp add: split io1(2,3) emp split_def Let_def)
qed

lemma last_rb_all:
  assumes "i < length (all_rbs d)"
  shows "last_rb d (all_rbs d ! i) \<longleftrightarrow> Suc i = length (all_rbs d)"
proof -
  let ?R = "RbsPerSocket d" and ?S = "SocketNumber d"
  have len: "length (all_rbs d) = ?S * ?R" by (simp add: all_rbs_def)
  then have R: "0 < ?R" "0 < ?S" using assms by (cases "?R = 0"; cases "?S = 0"; simp)+
  have i: "i div ?R < ?S" using assms len R by (simp add: less_mult_imp_div_less)
  have nth: "all_rbs d ! i = (i div ?R, i mod ?R)"
    using assms len R i by (simp add: all_rbs_def product_nth)
  have "last_rb d (all_rbs d ! i) \<longleftrightarrow> Suc (i div ?R) = ?S \<and> Suc (i mod ?R) = ?R" by (simp add: last_rb_def nth)
  also have "\<dots> \<longleftrightarrow> Suc i = ?S * ?R"
  proof
    assume "Suc (i div ?R) = ?S \<and> Suc (i mod ?R) = ?R"
    then show "Suc i = ?S * ?R"
      by (metis add_Suc_right div_mult_mod_eq mult_Suc add.commute)
  next
    assume eq: "Suc i = ?S * ?R"
    obtain S' R' where SR: "?S = Suc S'" "?R = Suc R'" using R by (cases "?S"; cases "?R") auto
    then have "i = R' + S' * Suc R'" using eq by simp
    then have "i div ?R = ?S - 1" "i mod ?R = ?R - 1" unfolding SR by (simp_all only: div_mult_self1 mod_mult_self1) simp_all
    then show "Suc (i div ?R) = ?S \<and> Suc (i mod ?R) = ?R" using R by simp
  qed
  finally show ?thesis by (simp add: len)
qed

lemma all_rbs_index:
  assumes "i < length (all_rbs d)"
  shows "fst (all_rbs d ! i) * RbsPerSocket d + snd (all_rbs d ! i) = i"
proof -
  have "i < SocketNumber d * RbsPerSocket d" using assms by (simp add: all_rbs_def)
  moreover from this have "0 < RbsPerSocket d" by (cases "RbsPerSocket d") auto
  ultimately show ?thesis by (simp add: all_rbs_def product_nth less_mult_imp_div_less)
qed

lemma io_final_keeps:
  "p \<notin> set ps \<Longrightarrow> IoRegion (io_final primary psize f ps others m) (fst p) (snd p) = IoRegion m (fst p) (snd p)"
  by (induction ps arbitrary: others m) (auto simp: Let_def split_def set_io_region_def prod_eq_iff)

text \<open>Each root bridge reports the range it was assigned.\<close>

lemma io_final_region:
  assumes "distinct ps" and "(p, b, n) \<in> set (io_ranges primary psize f ps others)"
  shows "IoRegion (io_final primary psize f ps others m) (fst p) (snd p) = io_region (p = primary) (p = last ps) b n"
  using assms
proof (induction ps arbitrary: others m)
  case (Cons q ps)
  obtain b' n' o' where r: "io_range (q = primary) (ps = []) psize (f q) others = (b', n', o')"
    by (metis surj_pair)
  show ?case
  proof (cases "(p, b, n) = (q, b', n')")
    case True
    have "q \<noteq> last ps" if "ps \<noteq> []" using that Cons.prems(1) by auto
    then show ?thesis
      using True Cons.prems(1) io_final_keeps [of q ps primary psize f o'] r by (auto simp: set_io_region_def)
  next
    case False
    then have "(p, b, n) \<in> set (io_ranges primary psize f ps o')" using Cons.prems(2) r by auto
    then show ?thesis using Cons.IH [of o'] Cons.prems(1) r by (cases "ps = []") auto
  qed
qed simp

end
