(* ===== verification/Rc_Equally.thy ===== *)
theory Rc_Equally
  imports Rc_Above4G
begin

text \<open>
  \<^verbatim>\<open>SilInitMmioEqually4\<close> of \<^verbatim>\<open>RcMgr/DfX/FabricRcInitDfX.c\<close>: the fallback that gives every root bridge the
  same share of the MMIO space below 4G, from the top down, and of the window above 4G, from the bottom
  up. Each share is split into a prefetchable part of four fifths, a non-prefetchable part and a fixed
  part for devices that are not PCI.
\<close>

section \<open>Shares below 4G\<close>

definition SystemRbNumber :: "RCMGR_INPUT_BLK \<Rightarrow> nat" where
  "SystemRbNumber d = (RbsPerSocket d * SocketNumber d) mod 256"

record eq_sizes =
  es_above :: u64
  es_below :: u64
  es_aboveTooSmall :: bool
  es_belowTooSmall :: bool
  es_total :: u64

text \<open>The sanity checks of the input; the status is returned when they fail and assertions are off.\<close>

definition eq_checks :: "bool \<Rightarrow> RCMGR_INPUT_BLK \<Rightarrow> cpu_info \<Rightarrow> SIL_STATUS option" where
  "eq_checks dbg d cpu =
     (let P = PciExpressBaseAddress d; R = (ucast (BottomMmioReservedForPrimaryRb d) :: u64)
      in if P < 0x100000000 \<and> \<not> P + PciCfgSpace cpu \<le> R then do { c_assert dbg False; Some SilAborted }
         else if P < 0x100000000 \<and> \<not> TOM cpu \<le> P then do { c_assert dbg False; Some SilAborted }
         else if \<not> R \<le> BOTTOM_OF_COMPAT then do { c_assert dbg False; Some SilAborted }
         else Some SilPass)"

text \<open>
  The sizes on either side of the configuration space. A side smaller than 80 percent of a share of the
  other side is left out.
\<close>

definition eq_sizes_of :: "RCMGR_INPUT_BLK \<Rightarrow> cpu_info \<Rightarrow> eq_sizes" where
  "eq_sizes_of d cpu =
     (let P = PciExpressBaseAddress d; R = (ucast (BottomMmioReservedForPrimaryRb d) :: u64);
          above4G = 0x100000000 \<le> P;
          SizeAbove = (if above4G then 0 else R - P - PciCfgSpace cpu);
          SizeBelow = (if above4G then R - TOM cpu else P - TOM cpu);
          n = of_nat (SystemRbNumber d);
          multi = 1 < SystemRbNumber d;
          a = (multi \<and> SizeAbove < (SizeBelow div n * 8) div 10);
          b = (multi \<and> SizeBelow < (SizeAbove div n * 8) div 10)
      in \<lparr>es_above = SizeAbove, es_below = SizeBelow, es_aboveTooSmall = a, es_belowTooSmall = b,
          es_total = SizeAbove + SizeBelow - (if a then SizeAbove else 0) - (if b then SizeBelow else 0)\<rparr>)"

text \<open>
  How many root bridges go above the configuration space, the share and the size of the first region.
  \<open>None\<close> divides by zero.
\<close>

record eq_plan =
  ep_above :: nat
  ep_size16 :: u64
  ep_remained :: u64
  ep_base :: u64

definition top_of_below :: "RCMGR_INPUT_BLK \<Rightarrow> u64" where
  "top_of_below d = (if 0x100000000 \<le> PciExpressBaseAddress d then ucast (BottomMmioReservedForPrimaryRb d)
                     else PciExpressBaseAddress d)"

definition eq_plan_of :: "RCMGR_INPUT_BLK \<Rightarrow> eq_sizes \<Rightarrow> eq_plan option" where
  "eq_plan_of d es =
     do { sil_assert (SystemRbNumber d \<noteq> 0);
          let MmioSize = es_total es div of_nat (SystemRbNumber d);
          if \<not> es_aboveTooSmall es then
            do { let divisor = (ucast (ucast MmioSize :: u32) :: u64);
                 sil_assert (divisor \<noteq> 0);
                 let n = unat (ucast (es_above es div divisor) :: u8);
                 let n = (if MmioSize div 2 < es_above es - MmioSize * of_nat n then (n + 1) mod 256 else n);
                 let n = (if n = 0 then 1 else n);
                 let MmioSize = es_above es div of_nat n;
                 let Size16 = MmioSize AND SIZE_16M_ALIGN;
                 Some \<lparr>ep_above = n, ep_size16 = Size16, ep_remained = es_above es - Size16 * of_nat (n - 1),
                       ep_base = ucast (BottomMmioReservedForPrimaryRb d)\<rparr> }
          else
            (let Size16 = MmioSize AND SIZE_16M_ALIGN
             in Some \<lparr>ep_above = 0, ep_size16 = Size16,
                      ep_remained = es_below es - Size16 * of_nat (SystemRbNumber d - 1),
                      ep_base = top_of_below d\<rparr>) }"

text \<open>The three pools of a share: prefetchable, non-prefetchable, then the others at the top.\<close>

definition region_equally :: "RCMGR_INPUT_BLK \<Rightarrow> u64 \<Rightarrow> u64 \<Rightarrow> FABRIC_MMIO_REGION" where
  "region_equally d MmioBaseAddr MmioSize =
     (let n = ucast (MmioSizePerRbForNonPciDevice d);
          SizeP = (((MmioSize - n) * 4) div 5) AND SIZE_16M_ALIGN;
          bN = (MmioBaseAddr + MmioSize - n) AND NOT RCMGR_NON_PCI_MMIO_ALIGN_MASK
      in \<lparr>BaseNonPci = bN, SizeNonPci = n, UsedSizeNonPci = 0,
          BaseNonPrefetch = MmioBaseAddr + SizeP, SizeNonPrefetch = bN - (MmioBaseAddr + SizeP),
          UsedSizeNonPrefetch = 0, BasePrefetch = MmioBaseAddr, SizePrefetch = SizeP, UsedSizePrefetch = 0,
          AlignNonPrefetch = 0, AlignPrefetch = 0\<rparr>)"

definition set_below :: "nat \<times> nat \<Rightarrow> FABRIC_MMIO_REGION \<Rightarrow> FABRIC_MMIO_MANAGER \<Rightarrow> FABRIC_MMIO_MANAGER" where
  "set_below p r m = m\<lparr>AllocateMmioBelow4GOnThisRb := rb_upd (AllocateMmioBelow4GOnThisRb m) (fst p) (snd p) True,
                       MmioRegionBelow4G := rb_upd (MmioRegionBelow4G m) (fst p) (snd p) r\<rparr>"

text \<open>The loop over the other root bridges; it may run out of space half way.\<close>

record 'h eq_run =
  er_mgr :: FABRIC_MMIO_MANAGER
  er_above :: nat
  er_inited :: nat
  er_base :: u64
  er_size16 :: u64
  er_remained :: u64
  er_h :: 'h

definition eq_next ::
  "RCMGR_INPUT_BLK \<Rightarrow> eq_sizes \<Rightarrow> nat \<Rightarrow> 'h eq_run \<Rightarrow> 'h eq_run option option" where
  "eq_next d es RbNumberAbovePcieCfgCopy rn =
     (if er_above rn \<noteq> 0 then
        let rem = (if er_inited rn = 1 then er_size16 rn else er_remained rn)
        in Some (Some (rn\<lparr>er_remained := rem, er_base := er_base rn - rem, er_above := er_above rn - 1\<rparr>))
      else if \<not> es_belowTooSmall es then
        do { let k = SystemRbNumber d - er_inited rn;
             rn \<leftarrow> (if RbNumberAbovePcieCfgCopy = er_inited rn then
                      do { sil_assert (k \<noteq> 0);
                           let Size16 = (es_below es div of_nat k) AND SIZE_16M_ALIGN;
                           Some (rn\<lparr>er_size16 := Size16, er_remained := es_below es - Size16 * of_nat (k - 1),
                                    er_base := top_of_below d\<rparr>) }
                    else Some rn);
             let rem = (if er_inited rn = RbNumberAbovePcieCfgCopy + 1 then er_size16 rn else er_remained rn);
             Some (Some (rn\<lparr>er_remained := rem, er_base := er_base rn - rem\<rparr>)) }
      else Some None)"

fun eq_others ::
  "bool \<Rightarrow> 'h pci_ops \<Rightarrow> RCMGR_INPUT_BLK \<Rightarrow> eq_sizes \<Rightarrow> nat \<Rightarrow> (nat \<times> nat) list \<Rightarrow> 'h eq_run
     \<Rightarrow> (SIL_STATUS \<times> 'h eq_run) option" where
  "eq_others dbg ops d es copy [] rn = Some (SilPass, rn)"
| "eq_others dbg ops d es copy (p # ps) rn =
     do { let m = er_mgr rn;
          let rn = rn\<lparr>er_mgr := m\<lparr>AllocateMmioBelow4GOnThisRb :=
            rb_upd (AllocateMmioBelow4GOnThisRb m) (fst p) (snd p) True\<rparr>\<rparr>;
          r \<leftarrow> eq_next d es copy rn;
          case r of None \<Rightarrow> Some (SilOutOfResources, rn)
          | Some rn \<Rightarrow>
            do { h \<leftarrow> SilSetMmioReg4 dbg ops (SocketNumber d) (pair_index d (fst p) (snd p) False) (fst p) (snd p)
                        (er_base rn) (er_remained rn) (er_h rn);
                 eq_others dbg ops d es copy ps
                   (rn\<lparr>er_h := h, er_inited := (er_inited rn + 1) mod 256,
                       er_mgr := set_below p (region_equally d (er_base rn) (er_remained rn)) (er_mgr rn)\<rparr>) } }"

text \<open>The primary root bridge comes first, at the top of its side.\<close>

definition eq_primary ::
  "bool \<Rightarrow> 'h pci_ops \<Rightarrow> RCMGR_INPUT_BLK \<Rightarrow> eq_sizes \<Rightarrow> eq_plan \<Rightarrow> nat \<times> nat \<Rightarrow> FABRIC_MMIO_MANAGER \<Rightarrow> 'h
     \<Rightarrow> (SIL_STATUS \<times> 'h eq_run) option" where
  "eq_primary dbg ops d es ep p m h =
     (let m = m\<lparr>AllocateMmioBelow4GOnThisRb := rb_upd (AllocateMmioBelow4GOnThisRb m) (fst p) (snd p) True\<rparr>;
          base = ep_base ep - ep_remained ep;
          rn = \<lparr>er_mgr = m, er_above = ep_above ep - 1, er_inited = 1, er_base = base,
                er_size16 = ep_size16 ep, er_remained = ep_remained ep, er_h = h\<rparr>
      in if ep_above ep = 0 \<and> es_belowTooSmall es then Some (SilOutOfResources, rn)
         else do {
           h \<leftarrow> SilSetMmioReg4 dbg ops (SocketNumber d) (pair_index d (fst p) (snd p) False) (fst p) (snd p) base
                  (if es_aboveTooSmall es then ep_remained ep
                   else ep_remained ep + BOTTOM_OF_COMPAT - ucast (BottomMmioReservedForPrimaryRb d)) h;
           Some (SilPass, rn\<lparr>er_h := h, er_mgr := set_below p (region_equally d base (ep_remained ep)) m\<rparr>) })"

section \<open>The second region of the primary root bridge\<close>

definition eq_second ::
  "bool \<Rightarrow> 'h pci_ops \<Rightarrow> RCMGR_INPUT_BLK \<Rightarrow> cpu_info \<Rightarrow> eq_sizes \<Rightarrow> nat \<times> nat \<Rightarrow> FABRIC_MMIO_MANAGER \<Rightarrow> 'h
     \<Rightarrow> (bool \<times> FABRIC_MMIO_MANAGER \<times> 'h) option" where
  "eq_second dbg ops d cpu es primary m h =
     (if SystemRbNumber d < DFX_MAX_HOST_BRIDGES_PER_SOCKET * MAX_SOCKETS_SUPPORTED
         \<and> (es_aboveTooSmall es \<and> es_above es \<noteq> 0
            \<or> es_below es \<noteq> 0 \<and> (es_belowTooSmall es \<or> SystemRbNumber d = 1))
      then case find (\<lambda>(i, j). \<not> AllocateMmioBelow4GOnThisRb m i j)
                  (if PrimaryRbHas2ndMmioBelow4G m then filter (\<lambda>(i, j). i = 0) all_pairs else all_pairs) of
             None \<Rightarrow> Some (False, m, h)
           | Some (i, j) \<Rightarrow>
             let hi = es_aboveTooSmall es;
                 base = (if hi then PciExpressBaseAddress d + PciCfgSpace cpu else TOM cpu);
                 sz = (if hi then es_above es else es_below es)
             in do {
               h \<leftarrow> SilSetMmioReg4 dbg ops (SocketNumber d) (pair_index d i j False) (fst primary) (snd primary) base
                      (if hi then sz + BOTTOM_OF_COMPAT - ucast (BottomMmioReservedForPrimaryRb d) else sz) h;
               Some (hi, m\<lparr>PrimaryRb2ndMmioPairBelow4G := of_nat (i * 16 + j), PrimaryRbHas2ndMmioBelow4G := True,
                 MmioRegionBelow4G := rb_upd (MmioRegionBelow4G m) i j
                   \<lparr>BaseNonPci = 0, SizeNonPci = 0, UsedSizeNonPci = 0, BaseNonPrefetch = 0, SizeNonPrefetch = 0,
                    UsedSizeNonPrefetch = 0, BasePrefetch = base, SizePrefetch = sz, UsedSizePrefetch = 0,
                    AlignNonPrefetch = 0, AlignPrefetch = 0\<rparr>\<rparr>, h) }
      else Some (False, m, h))"

section \<open>Shares above 4G\<close>

definition eq_limit :: "RCMGR_INPUT_BLK \<Rightarrow> cpu_info \<Rightarrow> u64" where
  "eq_limit d cpu =
     (let Limit = push_bit (unat (phys_bits cpu AND 0x3F)) 1 - 0x300000000
      in if MmioAbove4GLimit d < Limit then (MmioAbove4GLimit d + 1) AND 0xFFFFFFFFFFFF0000 else Limit)"

definition eq_window :: "bool \<Rightarrow> RCMGR_INPUT_BLK \<Rightarrow> cpu_info \<Rightarrow> (u64 \<times> u64) option" where
  "eq_window dbg d cpu =
     do { w \<leftarrow> pcie_hole dbg d cpu (above4G_start cpu, eq_limit d cpu);
          Some (fd_hole cpu w) }"

definition region_above_equally :: "RCMGR_INPUT_BLK \<Rightarrow> u64 \<Rightarrow> u64 \<Rightarrow> FABRIC_MMIO_REGION" where
  "region_above_equally d MmioBaseAddr MmioSize =
     (let n = non_pci_size_above d;
          bN = align_up RCMGR_NON_PCI_MMIO_ALIGN_MASK_ABOVE4G MmioBaseAddr;
          bP = bN + n;
          SizeP = (((MmioBaseAddr + MmioSize - bN - n) * 4) div 5) AND SIZE_16M_ALIGN
      in \<lparr>BaseNonPci = bN, SizeNonPci = n, UsedSizeNonPci = 0,
          BaseNonPrefetch = bP + SizeP, SizeNonPrefetch = MmioBaseAddr + MmioSize - (bP + SizeP),
          UsedSizeNonPrefetch = 0, BasePrefetch = bP, SizePrefetch = SizeP, UsedSizePrefetch = 0,
          AlignNonPrefetch = 0, AlignPrefetch = 0\<rparr>)"

text \<open>A share too small for the fixed part is skipped, but counts as allocated.\<close>

definition eq_above_step ::
  "bool \<Rightarrow> 'h pci_ops \<Rightarrow> RCMGR_INPUT_BLK \<Rightarrow> u64 \<Rightarrow> u64 \<Rightarrow> u64 \<Rightarrow> nat \<times> nat
     \<Rightarrow> FABRIC_MMIO_MANAGER \<times> u64 \<times> 'h \<Rightarrow> (FABRIC_MMIO_MANAGER \<times> u64 \<times> 'h) option" where
  "eq_above_step dbg ops d Limit share rest p st =
     (case st of (m, MmioBaseAddr, h) \<Rightarrow>
        let m = m\<lparr>AllocateMmioAbove4GOnThisRb := rb_upd (AllocateMmioAbove4GOnThisRb m) (fst p) (snd p) True\<rparr>;
            is_last = (fst p + 1 = SocketNumber d \<and> snd p + 1 = RbsPerSocket d);
            sz = (if is_last then rest else share)
        in if sz < MMIO_MIN_NON_PCI_SIZE_ABOVE4G then Some (m, MmioBaseAddr, h)
           else do {
             h \<leftarrow> SilSetMmioReg4 dbg ops (SocketNumber d) (pair_index d (fst p) (snd p) True) (fst p) (snd p)
                    MmioBaseAddr (if is_last then Limit - MmioBaseAddr else sz) h;
             Some (m\<lparr>MmioRegionAbove4G := rb_upd (MmioRegionAbove4G m) (fst p) (snd p)
                       (region_above_equally d MmioBaseAddr sz)\<rparr>, MmioBaseAddr + sz, h) })"

definition eq_above4G ::
  "bool \<Rightarrow> 'h pci_ops \<Rightarrow> RCMGR_INPUT_BLK \<Rightarrow> u64 \<times> u64 \<Rightarrow> FABRIC_MMIO_MANAGER \<Rightarrow> 'h
     \<Rightarrow> (FABRIC_MMIO_MANAGER \<times> 'h) option" where
  "eq_above4G dbg ops d w m h =
     (case w of (Base, Limit) \<Rightarrow>
        if Base < Limit then
          do { let MmioSize = Limit - Base;
               let share = (MmioSize div of_nat (SystemRbNumber d)) AND SIZE_16M_ALIGN;
               let rest = MmioSize - share * of_nat (SystemRbNumber d - 1);
               (m, b, h) \<leftarrow> for_each (eq_above_step dbg ops d Limit share rest) (all_rbs d) (m, Base, h);
               Some (m, h) }
        else Some (m, h))"

section \<open>The whole function\<close>

definition SilInitMmioEqually4 ::
  "bool \<Rightarrow> 'h pci_ops \<Rightarrow> cpu_info \<Rightarrow> RCMGR_INPUT_BLK \<Rightarrow> 'h \<Rightarrow> (SIL_STATUS \<times> RCMGR_INPUT_BLK \<times> 'h) option" where
  "SilInitMmioEqually4 dbg ops cpu d h =
     do { primary \<leftarrow> SilGetPrimaryRb;
          check \<leftarrow> eq_checks dbg d cpu;
          if check \<noteq> SilPass then Some (check, d, h)
          else
            let es = eq_sizes_of d cpu
            in if (1 < SystemRbNumber d \<and> es_total es = 0) \<or> (es_aboveTooSmall es \<and> es_belowTooSmall es)
               then Some (SilOutOfResources, d, h)
               else do {
                 ep \<leftarrow> eq_plan_of d es;
                 (st, rn) \<leftarrow> eq_primary dbg ops d es ep primary (MmioRcMgr d) h;
                 if st \<noteq> SilPass then Some (st, d\<lparr>MmioRcMgr := er_mgr rn\<rparr>, er_h rn)
                 else do {
                   (st, rn) \<leftarrow> eq_others dbg ops d es (ep_above ep) (filter (\<lambda>p. p \<noteq> primary) (all_rbs d)) rn;
                   if st \<noteq> SilPass then Some (st, d\<lparr>MmioRcMgr := er_mgr rn\<rparr>, er_h rn)
                   else do {
                     (hi, m, h) \<leftarrow> eq_second dbg ops d cpu es primary (er_mgr rn) (er_h rn);
                     w \<leftarrow> eq_window dbg d cpu;
                     (m, h) \<leftarrow> eq_above4G dbg ops d w m h;
                     let d = d\<lparr>MmioRcMgr := m\<rparr>;
                     h \<leftarrow> SilAdditionalMmioSetting4 dbg ops d BOTTOM_OF_COMPAT (\<not> es_aboveTooSmall es \<or> hi) h;
                     Some (SilPass, d, h) } } } }"

section \<open>Lemmas\<close>

lemma size_16M_align: "SIZE_16M_ALIGN = NOT (mask 24)"
  by (simp add: SIZE_16M_ALIGN_def mask_eq_exp_minus_1)

lemma non_pci_mask_64K: "RCMGR_NON_PCI_MMIO_ALIGN_MASK = mask 16"
  by (simp add: RCMGR_NON_PCI_MMIO_ALIGN_MASK_def mask_eq_exp_minus_1)

text \<open>Four fifths, rounded down to 16 MB.\<close>

lemma unat_four_fifths:
  fixes a :: u64
  assumes "unat a < 2 ^ 62"
  shows "unat (((a * 4) div 5) AND SIZE_16M_ALIGN) = unat a * 4 div 5 div 2 ^ 24 * 2 ^ 24"
proof -
  have "unat (a * 4) = unat a * 4" using assms by (simp add: unat_word_ariths)
  then show ?thesis by (simp add: size_16M_align unat_and_not_mask unat_div)
qed

lemma div_mult_mono_dvd:
  fixes x y k :: nat
  assumes "k dvd x" and "x \<le> y"
  shows "x \<le> y div k * k"
proof -
  have "x div k * k = x" using assms(1) by simp
  moreover have "x div k \<le> y div k" using assms(2) by (rule div_le_mono)
  ultimately show ?thesis by (metis mult_le_mono1)
qed

text \<open>
  A share is tiled by its pools: the prefetchable one from the base, the non-prefetchable one directly
  after it, the non-PCI one after that, and all of them end inside the share.
\<close>

lemma region_equally_tiles:
  assumes lim: "unat base + unat sz < 2 ^ 64" and big: "unat sz < 2 ^ 62"
    and al: "2 ^ 16 dvd unat base"
    and n: "unat (MmioSizePerRbForNonPciDevice d) \<le> unat sz"
  defines "r \<equiv> region_equally d base sz"
  shows "BasePrefetch r = base"
    and "unat (BaseNonPrefetch r) = unat base + unat (SizePrefetch r)"
    and "unat (BaseNonPci r) = unat (BaseNonPrefetch r) + unat (SizeNonPrefetch r)"
    and "unat (BaseNonPci r) + unat (SizeNonPci r) \<le> unat base + unat sz"
    and "unat base + unat sz < unat (BaseNonPci r) + unat (SizeNonPci r) + 2 ^ 16"
proof -
  define np :: u64 where "np = ucast (MmioSizePerRbForNonPciDevice d)"
  have un: "unat np = unat (MmioSizePerRbForNonPciDevice d)"
    unfolding np_def by (rule unat_ucast_widen) simp
  have a: "unat (sz - np) = unat sz - unat np" using n un by (intro unat_minus_small) simp
  define SizeP where "SizeP = (((sz - np) * 4) div 5) AND SIZE_16M_ALIGN"
  have up: "unat SizeP = (unat sz - unat np) * 4 div 5 div 2 ^ 24 * 2 ^ 24"
    unfolding SizeP_def a [symmetric] by (rule unat_four_fifths) (use a big in simp)
  have le: "unat SizeP \<le> unat sz - unat np"
  proof -
    have "unat SizeP \<le> (unat sz - unat np) * 4 div 5" unfolding up by (rule div_times_less_eq_dividend)
    then show ?thesis by linarith
  qed
  have bs: "unat (base + sz) = unat base + unat sz" using lim by (intro unat_plus_small) simp
  have bsn: "unat (base + sz - np) = unat base + unat sz - unat np"
    using n un bs by (subst unat_minus_small) simp_all
  define bN where "bN = (base + sz - np) AND NOT RCMGR_NON_PCI_MMIO_ALIGN_MASK"
  have ubN: "unat bN = (unat base + unat sz - unat np) div 2 ^ 16 * 2 ^ 16"
    unfolding bN_def non_pci_mask_64K unat_and_not_mask bsn by (rule refl)
  have bp: "unat (base + SizeP) = unat base + unat SizeP"
    using lim le n un by (intro unat_plus_small) simp
  have "(2 ^ 16 :: nat) dvd unat SizeP"
    unfolding up by (rule dvd_mult) (simp add: dvd_def; presburger)
  then have "2 ^ 16 dvd unat base + unat SizeP" using al by (rule dvd_add [rotated])
  then have ord: "unat base + unat SizeP \<le> unat bN"
    unfolding ubN using le n un by (intro div_mult_mono_dvd) simp_all
  have r: "BasePrefetch r = base" "SizePrefetch r = SizeP" "BaseNonPrefetch r = base + SizeP"
    "BaseNonPci r = bN" "SizeNonPci r = np" "SizeNonPrefetch r = bN - (base + SizeP)"
    by (simp_all add: r_def region_equally_def Let_def np_def SizeP_def bN_def)
  show "BasePrefetch r = base" by (rule r(1))
  show "unat (BaseNonPrefetch r) = unat base + unat (SizePrefetch r)" unfolding r by (rule bp)
  have "unat (bN - (base + SizeP)) = unat bN - unat (base + SizeP)"
    using ord bp by (intro unat_minus_small) simp
  then show "unat (BaseNonPci r) = unat (BaseNonPrefetch r) + unat (SizeNonPrefetch r)"
    unfolding r using ord bp by simp
  have "unat bN \<le> unat base + unat sz - unat np" unfolding ubN by (rule div_times_less_eq_dividend)
  moreover have "unat base + unat sz - unat np < unat bN + 2 ^ 16"
    unfolding ubN using dividend_less_div_times [of "2 ^ 16" "unat base + unat sz - unat np"] by simp
  ultimately show "unat (BaseNonPci r) + unat (SizeNonPci r) \<le> unat base + unat sz"
    "unat base + unat sz < unat (BaseNonPci r) + unat (SizeNonPci r) + 2 ^ 16"
    unfolding r using n un by linarith+
qed

end
