(* ===== verification/Rc_Pool.thy ===== *)
theory Rc_Pool
  imports Rc_Types Df_Topology
begin

text \<open>
  Reservation of MMIO space after the initial distribution: \<^verbatim>\<open>RcMgr/DfX/FabricResourceManager.c\<close>. Each
  root bridge has three pools per region (non-prefetchable, prefetchable, non-PCI), each a base, a
  size and a used size that only grows. One contract covers the three pools.
\<close>

section \<open>Model\<close>

definition is_npf :: "u8 \<Rightarrow> bool" where "is_npf t \<longleftrightarrow> t = MMIO_BELOW_4G \<or> t = MMIO_ABOVE_4G"
definition is_pf :: "u8 \<Rightarrow> bool" where "is_pf t \<longleftrightarrow> t = P_MMIO_BELOW_4G \<or> t = P_MMIO_ABOVE_4G"
definition is_non_pci :: "u8 \<Rightarrow> bool" where
  "is_non_pci t \<longleftrightarrow> t = NON_PCI_DEVICE_BELOW_4G \<or> t = NON_PCI_DEVICE_ABOVE_4G"

text \<open>The pool a type selects: where its free part starts and how much is left; \<open>(0, 0)\<close> otherwise.\<close>

definition pool_free :: "FABRIC_MMIO_REGION \<Rightarrow> u8 \<Rightarrow> u64 \<times> u64" where
  "pool_free r t =
     (if is_npf t then (BaseNonPrefetch r + UsedSizeNonPrefetch r, SizeNonPrefetch r - UsedSizeNonPrefetch r)
      else if is_pf t then (BasePrefetch r + UsedSizePrefetch r, SizePrefetch r - UsedSizePrefetch r)
      else if is_non_pci t then (BaseNonPci r + UsedSizeNonPci r, SizeNonPci r - UsedSizeNonPci r)
      else (0, 0))"

definition FabricGetRemainingSizeForThisRegion :: "FABRIC_MMIO_REGION \<Rightarrow> u64 \<Rightarrow> u8 \<Rightarrow> u64 option" where
  "FabricGetRemainingSizeForThisRegion MmioRegion Alignment t =
     do { sil_assert (is_npf t \<or> is_pf t \<or> is_non_pci t);
          let (Base, Size) = pool_free MmioRegion t;
          let BaseAligned = (Base + Alignment) AND NOT Alignment;
          Some (if BaseAligned - Base \<le> Size then Size - (BaseAligned - Base) else 0) }"

definition add_used :: "u8 \<Rightarrow> u64 \<Rightarrow> FABRIC_MMIO_REGION \<Rightarrow> FABRIC_MMIO_REGION" where
  "add_used t n r =
     (if is_npf t then r\<lparr>UsedSizeNonPrefetch := UsedSizeNonPrefetch r + n\<rparr>
      else if is_pf t then r\<lparr>UsedSizePrefetch := UsedSizePrefetch r + n\<rparr>
      else if is_non_pci t then r\<lparr>UsedSizeNonPci := UsedSizeNonPci r + n\<rparr>
      else r)"

definition FabricGetBaseAddress ::
  "FABRIC_MMIO_REGION \<Rightarrow> u64 \<Rightarrow> u64 \<Rightarrow> u8 \<Rightarrow> u64 \<times> FABRIC_MMIO_REGION" where
  "FabricGetBaseAddress MmioRegion Length Alignment t =
     (let (MmioBaseAddress, MmioRemainingSize) = pool_free MmioRegion t
      in if MmioBaseAddress \<noteq> 0 \<and> MmioRemainingSize \<noteq> 0 then
           let MmioBaseAddressAligned = (MmioBaseAddress + Alignment) AND NOT Alignment;
               n = Length + MmioBaseAddressAligned - MmioBaseAddress
           in if n \<le> MmioRemainingSize then (MmioBaseAddressAligned, add_used t n MmioRegion)
              else (0, MmioRegion)
         else (0, MmioRegion))"

text \<open>\<^verbatim>\<open>FabricReserveMmio\<close>: the root bridge a PCI bus belongs to.\<close>

fun find_cfg_map ::
  "'h pci_ops \<Rightarrow> FABRIC_TARGET \<Rightarrow> nat list \<Rightarrow> 'h \<Rightarrow> (u32 option \<times> 'h) option" where
  "find_cfg_map ops Target [] h = Some (None, h)"
| "find_cfg_map ops Target (i # is) h =
     do { (CfgLimit, h) \<leftarrow> DfXFabricRegisterAccRead ops 0 0 (cfg_limit_reg i) FABRIC_REG_ACC_BC h;
          (CfgBase, h) \<leftarrow> DfXFabricRegisterAccRead ops 0 0 (cfg_base_reg i) FABRIC_REG_ACC_BC h;
          if CfgBase_RE CfgBase = 1 \<and> CfgBase_WE CfgBase = 1
             \<and> ucast (PciBusNum Target) \<le> CfgLimit_BusNumLimit CfgLimit
             \<and> CfgBase_BusNumBase CfgBase \<le> ucast (PciBusNum Target)
             \<and> CfgBase_SegmentNum CfgBase = ucast (PciSegNum Target)
          then Some (Some (CfgLimit_DstFabricID CfgLimit), h)
          else find_cfg_map ops Target is h }"

fun find_rb :: "nat \<Rightarrow> u32 \<Rightarrow> nat \<Rightarrow> nat list \<Rightarrow> nat option option" where
  "find_rb i DstFabricID RbPerDieCount [] = Some None"
| "find_rb i DstFabricID RbPerDieCount (j # js) =
     do { f \<leftarrow> DfGetHostBridgeSystemFabricID i (j mod RbPerDieCount);
          if f = DstFabricID then Some (Some j) else find_rb i DstFabricID RbPerDieCount js }"

definition find_skt_rb :: "u32 \<Rightarrow> nat \<Rightarrow> nat \<Rightarrow> nat \<Rightarrow> (nat \<times> nat) option" where
  "find_skt_rb DstFabricID SocketCount RbPerDieCount RbPerSktCount =
     for_each (\<lambda>i sr. do { r \<leftarrow> find_rb i DstFabricID RbPerDieCount [0 ..< RbPerSktCount];
                            Some (case r of Some j \<Rightarrow> (i, j) | None \<Rightarrow> sr) })
       [0 ..< SocketCount] (0xFF, 0xFF)"

text \<open>
  The root bridge the reservation is for. \<open>Some None\<close>: no bus region decodes the bus, the call is
  aborted.
\<close>

definition find_target ::
  "'h pci_ops \<Rightarrow> FABRIC_TARGET \<Rightarrow> nat \<Rightarrow> nat \<Rightarrow> nat \<Rightarrow> 'h \<Rightarrow> ((nat \<times> nat) option \<times> 'h) option" where
  "find_target ops Target SocketCount RbPerDieCount RbPerSktCount h =
     (if TgtType Target = 0 then
        do { (d, h) \<leftarrow> find_cfg_map ops Target [0 ..< DFX_NUMBER_OF_BUS_REGIONS] h;
             case d of None \<Rightarrow> Some (None, h)
             | Some DstFabricID \<Rightarrow>
                 do { sil_assert (DstFabricID \<noteq> 0xFFFFFFFF);
                      (Socket, Rb) \<leftarrow> find_skt_rb DstFabricID SocketCount RbPerDieCount RbPerSktCount;
                      sil_assert (Socket \<noteq> 0xFF);
                      sil_assert (Rb \<noteq> 0xFF);
                      Some (Some (Socket, Rb), h) } }
      else Some (Some (SocketNum Target,
             if RbPerSktCount \<le> RbNum Target then RbPerSktCount - 1 else RbNum Target), h))"

text \<open>
  The allocation below 4G: the primary root bridge may own a second region, recorded under another
  root bridge; the smaller of the two is tried first. The result: the base (0 when there is no room),
  the two sizes and the manager.
\<close>

definition alloc_at ::
  "FABRIC_MMIO_REGION rb_array \<Rightarrow> nat \<times> nat \<Rightarrow> u64 \<Rightarrow> u64 \<Rightarrow> u8 \<Rightarrow> u64 \<times> FABRIC_MMIO_REGION rb_array" where
  "alloc_at rs p Length Alignment t =
     (let (b, r) = FabricGetBaseAddress (rs (fst p) (snd p)) Length Alignment t
      in (b, rb_upd rs (fst p) (snd p) r))"

definition reserve_below4G ::
  "FABRIC_MMIO_MANAGER \<Rightarrow> nat \<times> nat \<Rightarrow> nat \<times> nat \<Rightarrow> u64 \<Rightarrow> u64 \<Rightarrow> u8
     \<Rightarrow> (u64 \<times> u64 \<times> u64 \<times> FABRIC_MMIO_MANAGER) option" where
  "reserve_below4G mgr here primary Length Alignment t =
     do { let rs = MmioRegionBelow4G mgr;
          SizeA \<leftarrow> FabricGetRemainingSizeForThisRegion (rs (fst here) (snd here)) Alignment t;
          let pair = PrimaryRb2ndMmioPairBelow4G mgr;
          let second = (unat (drop_bit 4 pair AND 0xF), unat (pair AND 0xF));
          (p, q, SizeA, SizeB) \<leftarrow>
            (if PrimaryRbHas2ndMmioBelow4G mgr \<and> here = primary then
               do { SizeB \<leftarrow> FabricGetRemainingSizeForThisRegion (rs (fst second) (snd second)) Alignment t;
                    Some (if SizeB < SizeA \<and> SizeB \<noteq> 0 then (second, here, SizeB, SizeA)
                          else (here, second, SizeA, SizeB)) }
             else Some (here, here, SizeA, 0));
          let (b, rs) = (if Length \<le> SizeA then alloc_at rs p Length Alignment t
                         else if Length \<le> SizeB then alloc_at rs q Length Alignment t
                         else (0, rs));
          Some (b, SizeA, SizeB, mgr\<lparr>MmioRegionBelow4G := rs\<rparr>) }"

definition reserve_above4G ::
  "FABRIC_MMIO_MANAGER \<Rightarrow> nat \<times> nat \<Rightarrow> u64 \<Rightarrow> u64 \<Rightarrow> u8
     \<Rightarrow> (u64 \<times> u64 \<times> u64 \<times> FABRIC_MMIO_MANAGER) option" where
  "reserve_above4G mgr here Length Alignment t =
     do { let rs = MmioRegionAbove4G mgr;
          SizeA \<leftarrow> FabricGetRemainingSizeForThisRegion (rs (fst here) (snd here)) Alignment t;
          let (b, rs) = (if Length \<le> SizeA then alloc_at rs here Length Alignment t else (0, rs));
          Some (b, SizeA, 0, mgr\<lparr>MmioRegionAbove4G := rs\<rparr>) }"

record reserve_result =
  rr_Status :: SIL_STATUS
  rr_BaseAddress :: u64
  rr_Length :: u64
  rr_Attributes :: FABRIC_MMIO_ATTRIBUTE
  rr_data :: "RCMGR_INPUT_BLK option"

text \<open>
  The end of the function: a zero base is \<^verbatim>\<open>SilOutOfResources\<close> with the largest size that was left, and
  trips an assertion for both types the function supports.
\<close>

definition reserve_finish ::
  "bool \<Rightarrow> FABRIC_MMIO_ATTRIBUTE \<Rightarrow> u64 \<Rightarrow> RCMGR_INPUT_BLK \<Rightarrow> u64 \<times> u64 \<times> u64 \<times> FABRIC_MMIO_MANAGER
     \<Rightarrow> reserve_result option" where
  "reserve_finish dbg Attributes Length blk res =
     (case res of (b, SizeA, SizeB, mgr) \<Rightarrow>
        let d = Some (blk\<lparr>MmioRcMgr := mgr\<rparr>)
        in if b = 0 then
             do { c_assert dbg (\<not> is_non_pci (MmioType Attributes));
                  Some \<lparr>rr_Status = SilOutOfResources, rr_BaseAddress = 0,
                        rr_Length = (if SizeB < SizeA then SizeA else SizeB),
                        rr_Attributes = Attributes, rr_data = d\<rparr> }
           else Some \<lparr>rr_Status = SilPass, rr_BaseAddress = b, rr_Length = Length,
                      rr_Attributes = Attributes\<lparr>NonPosted := False, ReadEnable := True,
                        WriteEnable := True, CpuDis := False\<rparr>, rr_data = d\<rparr>)"

definition FabricReserveMmio ::
  "bool \<Rightarrow> 'h pci_ops \<Rightarrow> u64 \<Rightarrow> u64 \<Rightarrow> u64 \<Rightarrow> FABRIC_TARGET \<Rightarrow> FABRIC_MMIO_ATTRIBUTE
     \<Rightarrow> RCMGR_INPUT_BLK option \<Rightarrow> 'h \<Rightarrow> (reserve_result \<times> 'h) option" where
  "FabricReserveMmio dbg ops BaseAddress Length Alignment Target Attributes RcMgrData h =
     (case RcMgrData of
        None \<Rightarrow> Some (\<lparr>rr_Status = SilNotFound, rr_BaseAddress = BaseAddress, rr_Length = Length,
                       rr_Attributes = Attributes, rr_data = None\<rparr>, h)
      | Some blk \<Rightarrow>
          let stop = (\<lambda>st. \<lparr>rr_Status = st, rr_BaseAddress = 0, rr_Length = Length,
                            rr_Attributes = Attributes, rr_data = Some blk\<rparr>)
          in do {
            (SocketCount, h) \<leftarrow> DfXGetNumberOfProcessorsPresent ops h;
            (RbPerDieCount, h) \<leftarrow> DfXGetNumberOfRootBridgesOnDie ops 0 h;
            (RbPerSktCount, h) \<leftarrow> DfXGetNumberOfRootBridgesOnSocket ops 0 h;
            primary \<leftarrow> SilGetPrimaryRb;
            if Length = 0 then Some (stop SilPass, h)
            else if \<not> is_non_pci (MmioType Attributes) then Some (stop SilAborted, h)
            else do {
              (t, h) \<leftarrow> find_target ops Target SocketCount RbPerDieCount RbPerSktCount h;
              case t of None \<Rightarrow> Some (stop SilAborted, h)
              | Some (Socket, Rb) \<Rightarrow>
                  if 2 \<le> Socket \<or> 20 \<le> Rb then do { c_assert dbg False; Some (stop SilAborted, h) }
                  else if MmioType Attributes = NON_PCI_DEVICE_BELOW_4G then
                    if \<not> AllocateMmioBelow4GOnThisRb (MmioRcMgr blk) Socket Rb then Some (stop SilAborted, h)
                    else do {
                      res \<leftarrow> reserve_below4G (MmioRcMgr blk) (Socket, Rb) primary Length Alignment
                               (MmioType Attributes);
                      r \<leftarrow> reserve_finish dbg Attributes Length blk res;
                      Some (r, h) }
                  else
                    if \<not> AllocateMmioAbove4GOnThisRb (MmioRcMgr blk) Socket Rb then Some (stop SilAborted, h)
                    else do {
                      res \<leftarrow> reserve_above4G (MmioRcMgr blk) (Socket, Rb) Length Alignment
                               (MmioType Attributes);
                      r \<leftarrow> reserve_finish dbg Attributes Length blk res;
                      Some (r, h) } } })"

section \<open>The pool contract\<close>

definition pool_ok :: "u64 \<Rightarrow> u64 \<Rightarrow> u64 \<Rightarrow> bool" where
  "pool_ok base sz used \<longleftrightarrow> unat used \<le> unat sz \<and> unat base + unat sz < 2 ^ 64"

text \<open>A sequence of reservations from one pool; the addresses handed out (0 for a refusal).\<close>

primrec alloc_all :: "('r \<Rightarrow> u64 \<Rightarrow> u64 \<Rightarrow> u64 \<times> 'r) \<Rightarrow> (u64 \<times> u64) list \<Rightarrow> 'r \<Rightarrow> u64 list \<times> 'r" where
  "alloc_all alloc [] r = ([], r)"
| "alloc_all alloc (q # qs) r =
     (let (a, r') = alloc r (fst q) (snd q); (as, r'') = alloc_all alloc qs r' in (a # as, r''))"

text \<open>A request: a length and an alignment mask that do not overflow the address space together.\<close>

definition request_ok :: "u64 \<times> u64 \<Rightarrow> u64 \<Rightarrow> u64 \<Rightarrow> bool" where
  "request_ok q base sz \<longleftrightarrow> (\<exists>n. align_mask n (snd q)) \<and> unat (fst q) + unat (snd q) < 2 ^ 64
     \<and> unat base + unat sz + unat (snd q) < 2 ^ 64"

locale mmio_pool =
  fixes base :: "'r \<Rightarrow> u64" and sz :: "'r \<Rightarrow> u64" and used :: "'r \<Rightarrow> u64"
    and grow :: "u64 \<Rightarrow> 'r \<Rightarrow> 'r"
    and remaining :: "'r \<Rightarrow> u64 \<Rightarrow> u64 option"
    and alloc :: "'r \<Rightarrow> u64 \<Rightarrow> u64 \<Rightarrow> u64 \<times> 'r"
  assumes grow: "base (grow n r) = base r" "sz (grow n r) = sz r" "used (grow n r) = used r + n"
    and remaining_eq: "remaining r m =
      (let b = base r + used r; s = sz r - used r; d = align_up m b - b
       in Some (if d \<le> s then s - d else 0))"
    and alloc_eq: "alloc r len m =
      (let b = base r + used r; s = sz r - used r; n = len + align_up m b - b
       in if b \<noteq> 0 \<and> s \<noteq> 0 \<and> n \<le> s then (align_up m b, grow n r) else (0, r))"
begin

lemma free_start:
  assumes "pool_ok (base r) (sz r) (used r)" and "align_mask n m"
    and "unat (base r) + unat (sz r) + unat m < 2 ^ 64"
  shows "unat (base r + used r) = unat (base r) + unat (used r)"
    and "unat (sz r - used r) = unat (sz r) - unat (used r)"
    and "unat (base r) + unat (used r) \<le> unat (align_up m (base r + used r))"
    and "unat (align_up m (base r + used r)) \<le> unat (base r) + unat (used r) + unat m"
    and "2 ^ n dvd unat (align_up m (base r + used r))"
proof -
  show b: "unat (base r + used r) = unat (base r) + unat (used r)"
    using assms(1) by (intro unat_plus_small) (simp add: pool_ok_def)
  show "unat (sz r - used r) = unat (sz r) - unat (used r)"
    using assms(1) by (intro unat_minus_small) (simp add: pool_ok_def)
  have lim: "unat (base r + used r) + unat m < 2 ^ 64"
    using assms(1,3) by (simp add: b pool_ok_def)
  show "unat (base r) + unat (used r) \<le> unat (align_up m (base r + used r))"
    using align_up_ge [OF assms(2) lim] by (simp add: b)
  show "unat (align_up m (base r + used r)) \<le> unat (base r) + unat (used r) + unat m"
    using align_up_le [OF assms(2) lim] by (simp add: b)
  show "2 ^ n dvd unat (align_up m (base r + used r))" by (rule align_up_dvd [OF assms(2) lim])
qed

text \<open>A successful reservation is aligned, beyond everything handed out before, and inside the pool.\<close>

lemma alloc_inside:
  assumes "pool_ok (base r) (sz r) (used r)" and "request_ok (len, m) (base r) (sz r)"
    and "alloc r len m = (a, r')" and "a \<noteq> 0"
  shows "unat (base r) + unat (used r) \<le> unat a"
    and "unat a + unat len \<le> unat (base r) + unat (sz r)"
    and "a AND m = 0"
    and "unat (used r') = unat a + unat len - unat (base r)"
    and "base r' = base r" and "sz r' = sz r" and "pool_ok (base r') (sz r') (used r')"
proof -
  define b where "b = base r + used r"
  obtain n where al: "align_mask n m" and len: "unat len + unat m < 2 ^ 64"
    and lim: "unat (base r) + unat (sz r) + unat m < 2 ^ 64"
    using assms(2) by (auto simp: request_ok_def)
  note fs = free_start [OF assms(1) al lim, folded b_def]
  define d where "d = len + align_up m b - b"
  have cond: "d \<le> sz r - used r" and a: "a = align_up m b" and r': "r' = grow d r"
    using assms(3,4) unfolding alloc_eq Let_def b_def [symmetric] d_def by (auto split: if_splits)
  have diff: "unat (align_up m b - b) = unat (align_up m b) - unat b"
    using fs(1,3) by (intro unat_minus_small) simp
  have "len + align_up m b - b = len + (align_up m b - b)" by simp
  then have d: "unat d = unat len + (unat (align_up m b) - unat b)"
    using len fs(1,4) by (simp only: d_def) (subst unat_plus_small; simp add: diff)
  have d_le: "unat d \<le> unat (sz r) - unat (used r)" using cond fs(2) by (simp add: word_le_nat_alt)
  have used_le: "unat (used r) \<le> unat (sz r)" using assms(1) by (simp add: pool_ok_def)
  show "unat (base r) + unat (used r) \<le> unat a" using fs(3) a by simp
  show in_pool: "unat a + unat len \<le> unat (base r) + unat (sz r)"
    unfolding a using d d_le fs(1,3) used_le by linarith
  show "a AND m = 0" by (simp add: a align_up_and_mask)
  show keep: "base r' = base r" "sz r' = sz r" by (simp_all add: r' grow)
  have "unat (used r + d) = unat (used r) + unat d"
    using d_le assms(1) by (intro unat_plus_small) (auto simp: pool_ok_def)
  then show us: "unat (used r') = unat a + unat len - unat (base r)"
    using d fs(1,3) a by (simp add: r' grow)
  show "pool_ok (base r') (sz r') (used r')"
    using assms(1) in_pool us by (simp add: pool_ok_def keep)
qed

lemma alloc_refused:
  assumes "alloc r len m = (0, r')" and "base r + used r \<noteq> 0"
    and "pool_ok (base r) (sz r) (used r)" and "request_ok (len, m) (base r) (sz r)"
  shows "r' = r"
proof -
  obtain n where al: "align_mask n m" and lim: "unat (base r) + unat (sz r) + unat m < 2 ^ 64"
    using assms(4) by (auto simp: request_ok_def)
  have "0 < unat (base r + used r)" using assms(2) by (simp add: unat_gt_0)
  then have "align_up m (base r + used r) \<noteq> 0"
    using free_start(1,3) [OF assms(3) al lim] by (auto simp: unat_eq_zero)
  then show ?thesis using assms(1) by (auto simp: alloc_eq Let_def split: if_splits)
qed

text \<open>The size reported as remaining can be reserved.\<close>

lemma remaining_reservable:
  assumes "pool_ok (base r) (sz r) (used r)" and "request_ok (len, m) (base r) (sz r)"
    and "remaining r m = Some s" and "len \<le> s" and "len \<noteq> 0" and "base r + used r \<noteq> 0"
  shows "fst (alloc r len m) \<noteq> 0"
proof -
  define b where "b = base r + used r"
  obtain n where al: "align_mask n m" and len: "unat len + unat m < 2 ^ 64"
    and lim: "unat (base r) + unat (sz r) + unat m < 2 ^ 64"
    using assms(2) by (auto simp: request_ok_def)
  note fs = free_start [OF assms(1) al lim, folded b_def]
  have "0 < unat b" using assms(6) by (simp add: b_def unat_gt_0)
  then have nz: "align_up m b \<noteq> 0" using fs(1,3) by (auto simp: unat_eq_zero)
  have lp: "0 < unat len" using assms(5) by (simp add: unat_gt_0)
  have s: "s = (if align_up m b - b \<le> sz r - used r then sz r - used r - (align_up m b - b) else 0)"
    using assms(3) unfolding remaining_eq Let_def b_def by (simp only: option.inject)
  have c: "align_up m b - b \<le> sz r - used r"
    using s assms(4,5) by (auto split: if_splits)
  then have us: "unat s = unat (sz r - used r) - unat (align_up m b - b)"
    using s by (simp add: unat_minus_small word_le_nat_alt)
  have diff: "unat (align_up m b - b) = unat (align_up m b) - unat b"
    using fs(1,3) by (intro unat_minus_small) simp
  have "len + align_up m b - b = len + (align_up m b - b)" by simp
  then have "unat (len + align_up m b - b) = unat len + unat (align_up m b - b)"
    using len fs(1,4) by (simp only:) (subst unat_plus_small; simp add: diff)
  then have "len + align_up m b - b \<le> sz r - used r"
    using us assms(4) c by (simp add: word_le_nat_alt)
  moreover have "sz r - used r \<noteq> 0" using us assms(4) lp by (auto simp: word_le_nat_alt)
  ultimately show ?thesis using assms(6) nz by (simp add: alloc_eq Let_def b_def)
qed

lemma alloc_all_ranges:
  assumes "pool_ok (base r) (sz r) (used r)" and "base r \<noteq> 0"
    and "\<forall>q\<in>set qs. request_ok q (base r) (sz r)" and "alloc_all alloc qs r = (as, r')"
  shows "length as = length qs \<and>
    (\<forall>i<length qs. as ! i \<noteq> 0 \<longrightarrow>
       unat (base r) + unat (used r) \<le> unat (as ! i)
       \<and> unat (as ! i) + unat (fst (qs ! i)) \<le> unat (base r) + unat (sz r)
       \<and> as ! i AND snd (qs ! i) = 0)
    \<and> (\<forall>i j. i < j \<longrightarrow> j < length qs \<longrightarrow> as ! i \<noteq> 0 \<longrightarrow> as ! j \<noteq> 0 \<longrightarrow>
         unat (as ! i) + unat (fst (qs ! i)) \<le> unat (as ! j))"
  using assms
proof (induction qs arbitrary: r as r')
  case (Cons q qs)
  obtain a r1 where a: "alloc r (fst q) (snd q) = (a, r1)" by force
  obtain bs r2 where bs: "alloc_all alloc qs r1 = (bs, r2)" by force
  have as: "as = a # bs" using Cons.prems(4) a bs by simp
  have q: "request_ok (fst q, snd q) (base r) (sz r)" using Cons.prems(3) by simp
  have bnz: "base r + used r \<noteq> 0"
  proof -
    have "unat (base r + used r) = unat (base r) + unat (used r)"
      using Cons.prems(1) by (intro unat_plus_small) (simp add: pool_ok_def)
    moreover have "0 < unat (base r)" using Cons.prems(2) by (simp add: unat_gt_0)
    ultimately show ?thesis by (metis add_gr_0 less_nat_zero_code unat_0)
  qed
  have r1: "base r1 = base r" "sz r1 = sz r" "pool_ok (base r1) (sz r1) (used r1)"
    "unat (used r) \<le> unat (used r1)"
    "a \<noteq> 0 \<Longrightarrow> unat (base r) + unat (used r1) = unat a + unat (fst q)"
    using alloc_inside [OF Cons.prems(1) q a] alloc_refused [OF _ bnz Cons.prems(1) q, of r1] a
      Cons.prems(1) by (cases "a = 0"; simp)+
  have ih: "length bs = length qs \<and>
    (\<forall>i<length qs. bs ! i \<noteq> 0 \<longrightarrow>
       unat (base r) + unat (used r1) \<le> unat (bs ! i)
       \<and> unat (bs ! i) + unat (fst (qs ! i)) \<le> unat (base r) + unat (sz r)
       \<and> bs ! i AND snd (qs ! i) = 0)
    \<and> (\<forall>i j. i < j \<longrightarrow> j < length qs \<longrightarrow> bs ! i \<noteq> 0 \<longrightarrow> bs ! j \<noteq> 0 \<longrightarrow>
         unat (bs ! i) + unat (fst (qs ! i)) \<le> unat (bs ! j))"
    using Cons.IH [OF r1(3) _ _ bs] Cons.prems(2,3) r1(1,2) by simp
  show ?case
    unfolding as
  proof (intro conjI allI impI)
    show "length (a # bs) = length (q # qs)" using ih by simp
  next
    fix i assume i: "i < length (q # qs)" "(a # bs) ! i \<noteq> 0"
    show "unat (base r) + unat (used r) \<le> unat ((a # bs) ! i)"
      "unat ((a # bs) ! i) + unat (fst ((q # qs) ! i)) \<le> unat (base r) + unat (sz r)"
      "(a # bs) ! i AND snd ((q # qs) ! i) = 0"
      using i ih r1(4) alloc_inside(1,2,3) [OF Cons.prems(1) q a] by (cases i; force)+
  next
    fix i j assume ij: "i < j" "j < length (q # qs)" "(a # bs) ! i \<noteq> 0" "(a # bs) ! j \<noteq> 0"
    then obtain k where k: "j = Suc k" by (cases j) auto
    show "unat ((a # bs) ! i) + unat (fst ((q # qs) ! i)) \<le> unat ((a # bs) ! j)"
      using ij ih r1(5) k by (cases i) force+
  qed
qed simp

end

section \<open>The three pools\<close>

lemmas pool_defs = FabricGetRemainingSizeForThisRegion_def FabricGetBaseAddress_def pool_free_def
  add_used_def is_npf_def is_pf_def is_non_pci_def mmio_types align_up_def Let_def split_def

interpretation npf: mmio_pool BaseNonPrefetch SizeNonPrefetch UsedSizeNonPrefetch
  "add_used MMIO_BELOW_4G"
  "\<lambda>r m. FabricGetRemainingSizeForThisRegion r m MMIO_BELOW_4G"
  "\<lambda>r len m. FabricGetBaseAddress r len m MMIO_BELOW_4G"
  by unfold_locales (simp_all add: pool_defs)

interpretation pf: mmio_pool BasePrefetch SizePrefetch UsedSizePrefetch
  "add_used P_MMIO_BELOW_4G"
  "\<lambda>r m. FabricGetRemainingSizeForThisRegion r m P_MMIO_BELOW_4G"
  "\<lambda>r len m. FabricGetBaseAddress r len m P_MMIO_BELOW_4G"
  by unfold_locales (simp_all add: pool_defs)

interpretation non_pci: mmio_pool BaseNonPci SizeNonPci UsedSizeNonPci
  "add_used NON_PCI_DEVICE_BELOW_4G"
  "\<lambda>r m. FabricGetRemainingSizeForThisRegion r m NON_PCI_DEVICE_BELOW_4G"
  "\<lambda>r len m. FabricGetBaseAddress r len m NON_PCI_DEVICE_BELOW_4G"
  by unfold_locales (simp_all add: pool_defs)

interpretation non_pci_above: mmio_pool BaseNonPci SizeNonPci UsedSizeNonPci
  "add_used NON_PCI_DEVICE_ABOVE_4G"
  "\<lambda>r m. FabricGetRemainingSizeForThisRegion r m NON_PCI_DEVICE_ABOVE_4G"
  "\<lambda>r len m. FabricGetBaseAddress r len m NON_PCI_DEVICE_ABOVE_4G"
  by unfold_locales (simp_all add: pool_defs)

end
