(* ===== verification/Rc_Init.thy ===== *)
theory Rc_Init
  imports Rc_Below4G Rc_Io Rc_Equally Rc_Pool Sil_Inputs
begin

text \<open>
  The entry points of the resource manager: \<^verbatim>\<open>SilInitMmioBasedOnNvVariable4\<close>, and
  \<^verbatim>\<open>InitializeResourceManagerDfXTp1\<close> with its time points 2 and 3 (\<^verbatim>\<open>RcMgr/DfX/FabricRcInitDfX.c\<close>).
\<close>

section \<open>MMIO based on the NV variable\<close>

definition SilFabricGetResourceDistribution :: "RCMGR_INPUT_BLK \<Rightarrow> SIL_STATUS \<times> bool list" where
  "SilFabricGetResourceDistribution d = (SilPass, take DFX_MAX_HOST_BRIDGES (ResourceDistributionNv d))"

text \<open>The distribution is never stored: the function reports \<^verbatim>\<open>SilUnsupported\<close> and its caller ignores it.\<close>

definition SilFabricSetResourceDistribution :: "RCMGR_INPUT_BLK option \<Rightarrow> bool list option \<Rightarrow> SIL_STATUS" where
  "SilFabricSetResourceDistribution d xs = (if d = None \<or> xs = None then SilInvalidParameter else SilUnsupported)"

definition nv_checks :: "bool \<Rightarrow> RCMGR_INPUT_BLK \<Rightarrow> cpu_info \<Rightarrow> unit option" where
  "nv_checks dbg d cpu =
     (if PciExpressBaseAddress d < 0x100000000 then
        do { c_assert dbg (PciExpressBaseAddress d + PciCfgSpace cpu \<le> ucast (BottomMmioReservedForPrimaryRb d));
             c_assert dbg (TOM cpu \<le> PciExpressBaseAddress d) }
      else Some ())"

text \<open>Where MMIO starts above the configuration space; below it, it starts at the top of memory.\<close>

definition base_above_cfg :: "RCMGR_INPUT_BLK \<Rightarrow> cpu_info \<Rightarrow> u64" where
  "base_above_cfg d cpu =
     (if 0x100000000 \<le> PciExpressBaseAddress d then ucast (BottomMmioReservedForPrimaryRb d)
      else PciExpressBaseAddress d + PciCfgSpace cpu)"

definition enough_above_cfg :: "RCMGR_INPUT_BLK \<Rightarrow> cpu_info \<Rightarrow> nat \<times> nat \<Rightarrow> bool" where
  "enough_above_cfg d cpu p \<longleftrightarrow>
     ap_Size (PrefetchableMmioSizeBelow4G (ResourceSizeForEachRb d) (fst p) (snd p))
       + ap_Size (NonPrefetchableMmioSizeBelow4G (ResourceSizeForEachRb d) (fst p) (snd p)) + non_pci_size d
     \<le> limit_above d - base_above_cfg d cpu"

text \<open>
  Below 4G: the stored distribution first, then the search with the primary root bridge above the
  configuration space if it fits there, then with it below.
\<close>

definition arrange_below ::
  "bool \<Rightarrow> 'h pci_ops \<Rightarrow> cpu_info \<Rightarrow> RCMGR_INPUT_BLK \<Rightarrow> nat \<times> nat \<Rightarrow> bool \<Rightarrow> 'h
     \<Rightarrow> (SIL_STATUS \<times> (u32 \<times> u32) \<times> RCMGR_INPUT_BLK \<times> 'h) option" where
  "arrange_below dbg ops cpu d primary SetDfRegisters h =
     do { let A = base_above_cfg d cpu;
          let B = TOM cpu;
          let (st, xs) = SilFabricGetResourceDistribution d;
          let Enough = enough_above_cfg d cpu primary;
          (ok, acc, d, h) \<leftarrow> (if st = SilPass then SilTryThisCombination dbg ops d A B xs SetDfRegisters (0xFFFFFFFF, 0) h
                              else Some (False, (0xFFFFFFFF, 0), d, h));
          if ok then Some (SilPass, acc, d, h)
          else do {
            (ok, xs, acc, d, h) \<leftarrow> SilArrangeMmioBelow4G dbg ops d A B xs primary SetDfRegisters Enough acc h;
            if ok then Some (SilPass, acc, d, h)
            else if Enough then
              do { (ok, xs, acc, d, h) \<leftarrow> SilArrangeMmioBelow4G dbg ops d A B xs primary SetDfRegisters False acc h;
                   Some (if ok then SilPass else SilOutOfResources, acc, d, h) }
            else Some (SilOutOfResources, acc, d, h) } }"

definition mmio_required ::
  "bool \<Rightarrow> u64 \<Rightarrow> u64 \<Rightarrow> u32 \<times> u32 \<Rightarrow> FABRIC_ADDR_SPACE_SIZE \<Rightarrow> FABRIC_ADDR_SPACE_SIZE option" where
  "mmio_required dbg Next Limit acc sp =
     (case acc of (OverSizeBelowPcieMin, AlignmentMask) \<Rightarrow>
        do { c_assert dbg (OverSizeBelowPcieMin \<noteq> 0xFFFFFFFF);
             Some (sp\<lparr>ss_MmioSizeAbove4GReqInc := (if Limit < Next then Next - Limit else 0),
                      ss_MmioSizeBelow4GReqInc := (if OverSizeBelowPcieMin \<noteq> 0
                        then (OverSizeBelowPcieMin + AlignmentMask) AND NOT AlignmentMask
                        else 0)\<rparr>) })"

definition SilInitMmioBasedOnNvVariable4 ::
  "bool \<Rightarrow> 'h pci_ops \<Rightarrow> cpu_info \<Rightarrow> RCMGR_INPUT_BLK \<Rightarrow> FABRIC_ADDR_SPACE_SIZE option \<Rightarrow> bool \<Rightarrow> 'h
     \<Rightarrow> (SIL_STATUS \<times> FABRIC_ADDR_SPACE_SIZE option \<times> RCMGR_INPUT_BLK \<times> 'h) option" where
  "SilInitMmioBasedOnNvVariable4 dbg ops cpu d SpaceStatus SetDfRegisters h =
     do { nv_checks dbg d cpu;
          (Base, Limit) \<leftarrow> nv_window dbg d cpu;
          (enough, st, h) \<leftarrow> SilArrangeMmioAbove4G dbg ops d SpaceStatus Base Limit SetDfRegisters h;
          let d = d\<lparr>MmioRcMgr := as_mgr st\<rparr>;
          if \<not> enough then Some (SilOutOfResources, as_space st, d, h)
          else do {
            primary \<leftarrow> SilGetPrimaryRb;
            (status, acc, d, h) \<leftarrow> arrange_below dbg ops cpu d primary SetDfRegisters h;
            sp \<leftarrow> (case as_space st of None \<Rightarrow> Some None
                   | Some sp \<Rightarrow> do { sp \<leftarrow> mmio_required dbg (as_next st) Limit acc sp; Some (Some sp) });
            Some (status, sp, d, h) } }"

section \<open>Time points\<close>

text \<open>
  \<^verbatim>\<open>InitializeResourceManagerDfXTp1\<close>, in its three phases. The status that is returned is that of the last step that assigned
  it: the IO and bus steps overwrite a failure of the MMIO step.
\<close>

definition MAX_RBS_PER_SOCKET :: nat where "MAX_RBS_PER_SOCKET = 12"

definition mmio_phase ::
  "bool \<Rightarrow> 'h pci_ops \<Rightarrow> cpu_info \<Rightarrow> RCMGR_INPUT_BLK \<Rightarrow> 'h
     \<Rightarrow> (SIL_STATUS \<times> SIL_STATUS \<times> RCMGR_INPUT_BLK \<times> 'h) option" where
  "mmio_phase dbg ops cpu d h =
     do { (Called, d, h) \<leftarrow> (if SetRcBasedOnNv d then
            do { (s, sp, d, h) \<leftarrow> SilInitMmioBasedOnNvVariable4 dbg ops cpu d None True h; Some (s, d, h) }
            else Some (SilPass, d, h));
          if Called \<noteq> SilPass \<or> \<not> SetRcBasedOnNv d then
            do { (s, d, h) \<leftarrow> SilInitMmioEqually4 dbg ops cpu d h; Some (s, s, d, h) }
          else Some (Called, SilPass, d, h) }"

definition io_phase ::
  "bool \<Rightarrow> 'h pci_ops \<Rightarrow> SIL_STATUS \<Rightarrow> SIL_STATUS \<Rightarrow> RCMGR_INPUT_BLK \<Rightarrow> 'h
     \<Rightarrow> (SIL_STATUS \<times> RCMGR_INPUT_BLK \<times> 'h) option" where
  "io_phase dbg ops Called Status d h =
     do { (Called, d, h) \<leftarrow> (if SetRcBasedOnNv d then
            do { (s, sp, d, h) \<leftarrow> SilInitIoBasedOnNvVariable4 dbg ops d None True h; Some (s, d, h) }
            else Some (Called, d, h));
          if Called \<noteq> SilPass \<or> \<not> SetRcBasedOnNv d then SilInitIoEqually4 ops d h
          else Some (Status, d, h) }"

definition bus_phase ::
  "bool \<Rightarrow> 'h pci_ops \<Rightarrow> SIL_STATUS \<Rightarrow> RCMGR_INPUT_BLK \<Rightarrow> 'h \<Rightarrow> (SIL_STATUS \<times> 'h) option" where
  "bus_phase dbg ops Status d h =
     (if SetRcBasedOnNv d \<and> \<not> McptEnable d then SilInitPciBusBasedOnNvVariable4 dbg ops d h
      else Some (Status, h))"

definition InitializeResourceManagerDfXTp1 ::
  "bool \<Rightarrow> 'h pci_ops \<Rightarrow> cpu_info \<Rightarrow> RCMGR_INPUT_BLK option \<Rightarrow> 'h
     \<Rightarrow> (SIL_STATUS \<times> RCMGR_INPUT_BLK option \<times> 'h) option" where
  "InitializeResourceManagerDfXTp1 dbg ops cpu SilData h =
     (case SilData of None \<Rightarrow> Some (SilNotFound, None, h)
      | Some d \<Rightarrow>
        do { c_assert dbg (0 < SocketNumber d \<and> SocketNumber d < MAX_SOCKETS_SUPPORTED);
             c_assert dbg (0 < RbsPerSocket d \<and> RbsPerSocket d < MAX_RBS_PER_SOCKET);
             (Called, Status, d, h) \<leftarrow> mmio_phase dbg ops cpu d h;
             (Status, d, h) \<leftarrow> io_phase dbg ops Called Status d h;
             (Status, h) \<leftarrow> bus_phase dbg ops Status d h;
             Some (Status, Some d, h) })"

definition InitializeResourceManagerDfXTp2 :: SIL_STATUS where "InitializeResourceManagerDfXTp2 = SilPass"
definition InitializeResourceManagerDfXTp3 :: SIL_STATUS where "InitializeResourceManagerDfXTp3 = SilPass"

text \<open>\<^verbatim>\<open>InitializeRcMgrApi\<close> registers the reservation entry point.\<close>

definition InitializeRcMgrApi :: "bool \<Rightarrow> u64 \<Rightarrow> sil_state \<Rightarrow> (SIL_STATUS \<times> sil_state) option" where
  "InitializeRcMgrApi dbg RcMgrApi s = SilInitIp2IpApi dbg (id_val SilId_RcManager) RcMgrApi s"

section \<open>Lemmas\<close>

text \<open>The planners change nothing of the input block but the two managers.\<close>

definition same_input :: "RCMGR_INPUT_BLK \<Rightarrow> RCMGR_INPUT_BLK \<Rightarrow> bool" where
  "same_input d d' \<longleftrightarrow> d'\<lparr>MmioRcMgr := MmioRcMgr d, IoRcMgr := IoRcMgr d\<rparr> = d"

lemma same_inputI [simp]: "same_input d d" "same_input d (d\<lparr>MmioRcMgr := m\<rparr>)" "same_input d (d\<lparr>IoRcMgr := i\<rparr>)"
  by (simp_all add: same_input_def)

lemma same_input_trans: "same_input d d' \<Longrightarrow> same_input d' d'' \<Longrightarrow> same_input d d''"
  unfolding same_input_def by (cases d; cases d'; cases d'') simp

lemma same_input_flags:
  "same_input d d' \<Longrightarrow> SetRcBasedOnNv d' = SetRcBasedOnNv d \<and> McptEnable d' = McptEnable d"
  unfolding same_input_def by (cases d; cases d') simp

lemma try_keeps:
  assumes "SilTryThisCombination dbg ops d A B xs regs acc h = Some (ok, acc', d', h')"
  shows "same_input d d'"
  using assms
  by (auto simp: SilTryThisCombination_def Let_def Option.bind_eq_Some_conv SilGetPrimaryRb_eq split: if_splits)

lemma arrange_keeps:
  assumes "SilArrangeMmioBelow4G dbg ops d A B xs primary regs enough acc h = Some (ok, xs', acc', d', h')"
  shows "same_input d d'"
  using assms
  by (auto simp: SilArrangeMmioBelow4G_def Option.bind_eq_Some_conv dest: try_keeps split: if_splits)

lemma arrange_below_keeps:
  assumes "arrange_below dbg ops cpu d primary regs h = Some (st, acc, d', h')"
  shows "same_input d d'"
  using assms
  by (auto simp: arrange_below_def SilFabricGetResourceDistribution_def Let_def Option.bind_eq_Some_conv
      dest!: try_keeps arrange_keeps intro: same_input_trans split: if_splits)

lemma init_mmio_nv_keeps:
  assumes "SilInitMmioBasedOnNvVariable4 dbg ops cpu d sp regs h = Some (st, sp', d', h')"
  shows "same_input d d'"
proof -
  have "same_input (d\<lparr>MmioRcMgr := m\<rparr>) d' \<Longrightarrow> same_input d d'" for m by (rule same_input_trans) simp_all
  then show ?thesis
    using assms
    by (auto simp: SilInitMmioBasedOnNvVariable4_def Let_def Option.bind_eq_Some_conv
        dest!: arrange_below_keeps split: if_splits)
qed

lemma init_mmio_equally_keeps:
  assumes "SilInitMmioEqually4 dbg ops cpu d h = Some (st, d', h')"
  shows "same_input d d'"
  using assms
  by (auto simp: SilInitMmioEqually4_def Let_def Option.bind_eq_Some_conv split: if_splits)

lemma init_io_nv:
  assumes "SilInitIoBasedOnNvVariable4 dbg ops d sp regs h = Some (st, sp', d', h')"
  shows "same_input d d'" and "st = SilPass"
  using assms by (auto simp: SilInitIoBasedOnNvVariable4_def Option.bind_eq_Some_conv)

lemma init_io_equally:
  assumes "SilInitIoEqually4 ops d h = Some (st, d', h')"
  shows "same_input d d'" and "st = SilPass"
  using assms by (auto simp: SilInitIoEqually4_def Option.bind_eq_Some_conv)

lemma init_pci_bus_pass:
  assumes "SilInitPciBusBasedOnNvVariable4 dbg ops d h = Some (st, h')"
  shows "st = SilPass"
  using assms by (auto simp: SilInitPciBusBasedOnNvVariable4_def Let_def Option.bind_eq_Some_conv split: if_splits)

text \<open>The flags that decide the path do not change, and the last phase that runs passes.\<close>

lemma mmio_phase_flags:
  assumes "mmio_phase dbg ops cpu d h = Some (c, s, d', h')"
  shows "same_input d d'"
  using assms
  by (auto simp: mmio_phase_def Option.bind_eq_Some_conv dest!: init_mmio_nv_keeps init_mmio_equally_keeps
      intro: same_input_trans split: if_splits)

lemma io_phase_flags:
  assumes "io_phase dbg ops c s d h = Some (s', d', h')"
  shows "same_input d d'" and "\<not> SetRcBasedOnNv d \<Longrightarrow> s' = SilPass"
proof -
  show "same_input d d'"
    using assms
    by (auto simp: io_phase_def Option.bind_eq_Some_conv dest!: init_io_nv(1) init_io_equally(1)
        intro: same_input_trans split: if_splits)
  show "\<not> SetRcBasedOnNv d \<Longrightarrow> s' = SilPass"
    using assms by (auto simp: io_phase_def dest: init_io_equally(2))
qed

lemma bus_phase_status:
  assumes "bus_phase dbg ops s d h = Some (s', h')"
  shows "s' = (if SetRcBasedOnNv d \<and> \<not> McptEnable d then SilPass else s)"
  using assms by (auto simp: bus_phase_def dest: init_pci_bus_pass)

end
