(* ===== verification/Rc_Sample.thy ===== *)
theory Rc_Sample
  imports Rc_Init
begin

text \<open>
  A concrete system for the witnesses: one socket with four root bridges, and a bus on which every
  register reads as one processor, four root bridges and no bus region, and writes have no effect.
\<close>

definition idle_bus :: "unit pci_ops" where
  "idle_bus = \<lparr>bus_rd8 = \<lambda>a h. (0, h), bus_rd16 = \<lambda>a h. (0, h), bus_rd32 = \<lambda>a h. (0x400, h),
     bus_rd64 = \<lambda>a h. (0, h), bus_wr8 = \<lambda>a v h. h, bus_wr16 = \<lambda>a v h. h, bus_wr32 = \<lambda>a v h. h,
     bus_wr64 = \<lambda>a v h. h\<rparr>"

definition aperture :: "u64 \<Rightarrow> u64 \<Rightarrow> FABRIC_ADDR_APERTURE" where
  "aperture s m = \<lparr>ap_Base = 0, ap_Size = s, ap_Alignment = m\<rparr>"

definition sample_request :: FABRIC_RESOURCE_FOR_EACH_RB where
  "sample_request =
     \<lparr>NonPrefetchableMmioSizeAbove4G = \<lambda>s r. aperture 0x10000000 0xFFFFF,
      PrefetchableMmioSizeAbove4G = \<lambda>s r. aperture 0x40000000 0x3FFFFFFF,
      NonPrefetchableMmioSizeBelow4G = \<lambda>s r. aperture 0x100000 0xFFFFF,
      PrefetchableMmioSizeBelow4G = \<lambda>s r. aperture 0x200000 0x1FFFFF,
      PrimaryRbSecondNonPrefetchableMmioSizeBelow4G = aperture 0 0,
      PrimaryRbSecondPrefetchableMmioSizeBelow4G = aperture 0 0,
      IO_aperture = \<lambda>s r. aperture 0x2000 0, PciBusNumber = \<lambda>s r. 0x20\<rparr>"

definition empty_region :: FABRIC_MMIO_REGION where
  "empty_region = \<lparr>BaseNonPci = 0, SizeNonPci = 0, UsedSizeNonPci = 0, BaseNonPrefetch = 0,
     SizeNonPrefetch = 0, UsedSizeNonPrefetch = 0, BasePrefetch = 0, SizePrefetch = 0,
     UsedSizePrefetch = 0, AlignNonPrefetch = 0, AlignPrefetch = 0\<rparr>"

definition sample_blk :: RCMGR_INPUT_BLK where
  "sample_blk =
     \<lparr>IoRcMgr = \<lparr>GlobalCtrl = False, IoRegion = \<lambda>s r. \<lparr>IoBase = 0, IoSize = 0, IoUsed = 0\<rparr>\<rparr>,
      MmioRcMgr = \<lparr>MmioRegionAbove4G = \<lambda>s r. empty_region, MmioRegionBelow4G = \<lambda>s r. empty_region,
        AllocateMmioAbove4GOnThisRb = \<lambda>s r. False, AllocateMmioBelow4GOnThisRb = \<lambda>s r. False,
        PrimaryRbHas2ndMmioBelow4G = False, ReportToGcd = False, PrimaryRb2ndMmioPairBelow4G = 0\<rparr>,
      SetRcBasedOnNv = True, SocketNumber = 1, RbsPerSocket = 4, McptEnable = False,
      PciExpressBaseAddress = 0xE0000000, BottomMmioReservedForPrimaryRb = 0xFE000000,
      MmioSizePerRbForNonPciDevice = 0x500000, MmioAbove4GLimit = 0xFFFFFFFFFFFFFFFF,
      Above4GMmioSizePerRbForNonPciDevice = 0x20200000, BmcSocket = 0, EarlyBmcLinkLaneNum = 0,
      ResourceDistributionNv = replicate 40 True, ResourceSizeForEachRb = sample_request\<rparr>"

definition sample_cpu :: cpu_info where
  "sample_cpu = \<lparr>rdmsr = \<lambda>m. if m = MSR_MMIO_Cfg_Base then 0x20 else if m = MSR_TOM then 0xC0000000
                           else 0x240000000, PhysAddrSize = 48, PhysAddrReduction = 0\<rparr>"

section \<open>The idle bus\<close>

lemma idle_read: "acc_checks s f o' i \<Longrightarrow> DfXFabricRegisterAccRead idle_bus s f o' i h = Some (0x400, h)"
  by (simp add: DfXFabricRegisterAccRead_def idle_bus_def xUSLPciRead32_def xUSLPciWrite32_def Let_def)

lemma idle_write: "acc_checks s f o' i \<Longrightarrow> DfXFabricRegisterAccWrite idle_bus s f o' i v h = Some h"
  by (simp add: DfXFabricRegisterAccWrite_def idle_bus_def xUSLPciWrite32_def Let_def)

lemma idle_counts:
  "DfXGetNumberOfProcessorsPresent idle_bus h = Some (1, h)"
  "DfXGetNumberOfRootBridgesOnSocket idle_bus 0 h = Some (4, h)"
  "DfXGetNumberOfRootBridgesOnDie idle_bus 0 h = Some (4, h)"
proof -
  have "get_field 8 1 (0x400 :: u32) = 0" "drop_bit 8 (0x400 :: u32) AND 0xFF = 4" by code_simp+
  then show "DfXGetNumberOfProcessorsPresent idle_bus h = Some (1, h)"
    "DfXGetNumberOfRootBridgesOnSocket idle_bus 0 h = Some (4, h)"
    "DfXGetNumberOfRootBridgesOnDie idle_bus 0 h = Some (4, h)"
    by (simp_all add: DfXGetNumberOfProcessorsPresent_def DfXGetNumberOfRootBridgesOnSocket_def
        DfXGetNumberOfRootBridgesOnDie_def idle_read acc_checks_def FABRIC_REG_ACC_BC_def DfGetNumberOfDiesOnSocket_def)
qed

lemma idle_region: "i < 8 \<Longrightarrow> acc_checks 0 0 (cfg_limit_reg i) FABRIC_REG_ACC_BC \<and> acc_checks 0 0 (cfg_base_reg i) FABRIC_REG_ACC_BC"
proof -
  assume "i < 8"
  then consider "i = 0" | "i = 1" | "i = 2" | "i = 3" | "i = 4" | "i = 5" | "i = 6" | "i = 7" by linarith
  then show ?thesis
    by cases (simp_all add: acc_checks_def cfg_limit_reg_def cfg_base_reg_def FABRIC_REG_ACC_BC_def)
qed

lemma idle_find: "set is \<subseteq> {..<8} \<Longrightarrow> find_bus_region idle_bus 0 T is h = Some (None, h)"
proof (induction "is")
  case (Cons i "is")
  moreover have "CfgBase_RE 0x400 = 0" by code_simp
  ultimately show ?case using idle_region [of i] by (simp add: idle_read)
qed simp

lemma idle_bus_ranges:
  assumes "r < 4"
  shows "DfXGetHostBridgeBusBase idle_bus 0 r h = Some (0xFFFFFFFF, h)"
    and "DfXGetHostBridgeBusLimit idle_bus 0 r h = Some (0xFF, h)"
proof -
  have "find_bus_region idle_bus 0 T [0..<DFX_NUMBER_OF_BUS_REGIONS] () = Some (None, ())" for T
    by (rule idle_find) (auto simp: DFX_NUMBER_OF_BUS_REGIONS_def)
  then show "DfXGetHostBridgeBusBase idle_bus 0 r h = Some (0xFFFFFFFF, h)"
    and "DfXGetHostBridgeBusLimit idle_bus 0 r h = Some (0xFF, h)"
    using assms
    by (auto simp: DfXGetHostBridgeBusBase_def DfXGetHostBridgeBusLimit_def DfGetHostBridgeSystemFabricID_eq)
qed

definition idle_map :: "FABRIC_RB_LOG_TO_PHY_MAP list" where
  "idle_map = map (\<lambda>r. \<lparr>PhySktNum = 0, PhyRbNum = r, PciBusBase = 0xFFFFFFFF, PciBusLimit = 0\<rparr>) [0, 1, 2, 3]"

lemma idle_log_to_phy: "log_to_phy_init idle_bus h = Some (idle_map, h)"
  by (simp add: log_to_phy_init_def idle_counts DfGetNumberOfDiesOnSocket_def log_to_phy_entry_def
      idle_bus_ranges idle_map_def upt_rec)

lemma idle_sorted: "bus_sort PciBusBase idle_map = idle_map"
  by code_simp

lemma idle_phy:
  assumes "m = None \<or> m = Some idle_map" and "r < 4"
  shows "DfXSilGetPhySktRbNum idle_bus 0 r m h = Some ((0, r), Some idle_map, h)"
proof -
  have "length idle_map = 4" "PhySktNum (idle_map ! r) = 0" "PhyRbNum (idle_map ! r) = r"
    using assms(2) by (auto simp: idle_map_def less_Suc_eq numeral_eq_Suc)
  then show ?thesis
    using assms by (auto simp: DfXSilGetPhySktRbNum_def idle_log_to_phy idle_sorted idle_counts)
qed

lemma idle_set_io:
  assumes "r < 4" and "i \<in> {0, 1, 2, 3}"
  shows "SilSetIoReg4 idle_bus (Suc 0) i s r b n h = Some h"
proof -
  have "acc_checks 0 0 (io_limit_reg i) FABRIC_REG_ACC_BC \<and> acc_checks 0 0 (io_base_reg i) FABRIC_REG_ACC_BC"
    using assms(2)
    by (auto simp: acc_checks_def io_limit_reg_def io_base_reg_def FABRIC_REG_ACC_BC_def)
  then show ?thesis
    using assms(1)
    by (simp add: SilSetIoReg4_def DfGetHostBridgeSystemFabricID_eq each_die_def DfGetNumberOfDiesOnSocket_def idle_write)
qed

lemma idle_io_equally:
  assumes "SocketNumber d = 1" and "RbsPerSocket d = 4"
  shows "\<exists>d'. SilInitIoEqually4 idle_bus d () = Some (SilPass, d', ())"
proof -
  have "all_rbs d = [(0, 0), (0, 1), (0, 2), (0, 3)]" using assms by (simp add: all_rbs_def upt_rec)
  then show ?thesis
    using assms
    by (simp add: SilInitIoEqually4_def eq_io_size_def SilGetPrimaryRb_eq eq_io_step_def idle_phy idle_set_io
        split_def Let_def)
qed

lemma sample_above:
  "map_option fst (SilArrangeMmioAbove4G True idle_bus sample_blk None 0x240000000 0xFD00000000 True ()) = Some True"
  by code_simp

end
