(* ===== verification/Sil_Device_Props.thy ===== *)
theory Sil_Device_Props
  imports Sil_Apob Rc_Sample
begin

text \<open>
  Properties of the lower layers: the APOB queries, PCI and SMN access, and the root bridge queries of
  the data fabric.
\<close>

section \<open>The APOB\<close>

text \<open>
  A container at \<open>0x1000\<close> with two CCD maps, for socket 0 and socket 1; the first has two CCDs.
\<close>

definition apob_words :: "(nat \<times> u32) list" where
  "apob_words = [(0x1004, 5), (0x1008, 0x800), (0x100C, 0x40),
     (0x1040, 3), (0x1044, 3), (0x104C, 0x300), (0x1340, 3), (0x1344, 3), (0x1348, 0x100), (0x134C, 0x4C0)]"

definition sample_apob :: memory where
  "sample_apob = (foldl (\<lambda>m (a, v). write32 m a v) (\<lambda>_. 0) apob_words)(0x10D6 := 0xFF)"

definition apob_info :: APOBLIB_INFO where
  "apob_info = \<lparr>Supported = True, ApobSize = 0x800, ApobAddr = 0x1000\<rparr>"

lemma read32_upd_other: "apart a 4 b 1 \<Longrightarrow> read32 (m(b := v)) a = read32 m a"
  using read_write_apart(14) [of a b m v] by (simp add: write8_def)

lemma read32_zero: "read32 (\<lambda>_. 0) a = 0"
  by (simp add: read32_def numeral_eq_Suc)

lemmas apob_eval = sample_apob_def apob_words_def read32_upd_other apart_def mem_apart read32_zero
  ent_GroupID_def ent_DataTypeID_def ent_InstanceID_def ent_TypeSize_def hdr_Version_def hdr_Size_def
  hdr_OffsetOfFirstEntry_def apob_info_def

lemma sample_apob_valid: "apob_valid sample_apob 0x1000 [0x1040, 0x1340]"
  by (simp add: apob_valid_def apob_eval)

lemma sample_apob_instances:
  "apob_instances sample_apob 3 3 0 [0x1040, 0x1340] = [0x1040]"
  "length (filter (entry_matches sample_apob 3 3) [0x1040, 0x1340]) \<le> 255"
  by (simp_all add: apob_instances_def entry_matches_def apob_eval)

text \<open>
  C34: in a valid container, \<^verbatim>\<open>AmdGetApobEntryInstance\<close> finds exactly the entry with the group, type and
  instance asked for: \<^verbatim>\<open>SilNotFound\<close> when there is none, \<^verbatim>\<open>SilUnsupported\<close> when there are several. It
  returns on every container whose entry sizes are not zero.
\<close>

theorem apob_instance_lookup:
  assumes "Supported g" and "apob_valid m (ApobAddr g) es"
    and "length (filter (entry_matches m gr ty) es) \<le> 255"
  shows "AmdGetApobEntryInstance plat m gr ty i base g =
    (case apob_instances m gr ty i es of
       [] \<Rightarrow> Some (SilNotFound, 0, g)
     | [e] \<Rightarrow> Some (SilPass, e, g)
     | _ \<Rightarrow> Some (SilUnsupported, 0, g))"
  by (rule AmdGetApobEntryInstance_valid [OF assms])

theorem apob_instance_lookup_witness:
  "AmdGetApobEntryInstance 0 sample_apob 3 3 0 0 apob_info = Some (SilPass, 0x1040, apob_info)"
  using apob_instance_lookup [of apob_info sample_apob "[0x1040, 0x1340]" 3 3 0 0 0]
    sample_apob_valid sample_apob_instances
  by (simp add: apob_info_def)

lemma sample_apob_found:
  "AmdGetApobEntryInstance 0 sample_apob 3 3 0 0 apob_info = Some (SilPass, 0x1040, apob_info)"
  using AmdGetApobEntryInstance_valid [of apob_info sample_apob "[0x1040, 0x1340]" 3 3 0 0 0]
    sample_apob_valid sample_apob_instances
  by (simp add: apob_info_def)

text \<open>
  C39: an entry whose size is 0, at any position the walk reaches before the end of the container, makes
  \<^verbatim>\<open>AmdGetApobEntry\<close> loop forever, whatever it looks for.
\<close>

theorem apob_zero_size_hangs:
  assumes "Supported g" and "5 \<le> hdr_Version m (ApobAddr g)"
    and "p = ((\<lambda>p. p + unat (ent_TypeSize m p)) ^^ k) (ApobAddr g + unat (hdr_OffsetOfFirstEntry m (ApobAddr g)))"
    and "p < ApobAddr g + unat (hdr_Size m (ApobAddr g))" and "ent_TypeSize m p = 0"
  shows "AmdGetApobEntry plat m gr ty base g = None"
  using apob_walk_stuck_later assms by (simp add: AmdGetApobEntry_def AmdGetApobInfo_def Let_def)

theorem apob_zero_size_hangs_witness:
  "AmdGetApobEntry 0 (write32 sample_apob 0x134C 0) 3 3 0 apob_info = None"
  by (rule apob_zero_size_hangs [where k = 1 and p = "0x1340"]) (simp_all add: apob_eval)

text \<open>
  Once the map of the die is found, \<^verbatim>\<open>ApobGetCoreTopologyOnDie\<close> reports the number of leading CCDs,
  complexes, cores and threads marked present in it, and nothing else of the container matters.
\<close>

theorem apob_core_topology:
  assumes "AmdGetApobEntryInstance plat m APOB_CCX APOB_CCD_LOGICAL_TO_PHYSICAL_MAP_TYPE
      (apob_instance Socket Die) 0 g = Some (SilPass, e, g')"
  shows "ApobGetCoreTopologyOnDie plat m Socket Die g = Some (SilPass, Some
    (of_nat (length (takeWhile (\<lambda>i. m (ccd_at e i) \<noteq> CCX_NOT_PRESENT) [0..<12])),
     of_nat (length (takeWhile (\<lambda>i. m (complex_at e 0 i) \<noteq> CCX_NOT_PRESENT) [0..<2])),
     of_nat (length (takeWhile (\<lambda>i. m (core_at e 0 0 i) \<noteq> CCX_NOT_PRESENT) [0..<8])),
     of_nat (length (takeWhile (\<lambda>i. m (thread_at e 0 0 0 i) = 1) [0..<2]))), g')"
proof -
  let ?c = "memcpy (\<lambda>_. 0) 0 (map m [e ..< e + sizeof_ccd_map])"
  have c: "?c x = m (e + x)" if "x < 660" for x
    using that by (simp add: memcpy_def sizeof_ccd_map_def)
  have sh: "takeWhile (\<lambda>i. P (?c (f i))) [0..<k] = takeWhile (\<lambda>i. P (m (f' i))) [0..<k]"
    if "\<And>i. i < k \<Longrightarrow> f i < 660 \<and> f' i = e + f i" for P f f' k
    using that c by (intro takeWhile_cong) auto
  have "takeWhile (\<lambda>i. ?c (ccd_at 0 i) \<noteq> CCX_NOT_PRESENT) [0..<12]
      = takeWhile (\<lambda>i. m (ccd_at e i) \<noteq> CCX_NOT_PRESENT) [0..<12]"
    by (rule sh [where P = "\<lambda>x. x \<noteq> CCX_NOT_PRESENT"]) (auto simp: ccd_at_def)
  moreover have "takeWhile (\<lambda>i. ?c (complex_at 0 0 i) \<noteq> CCX_NOT_PRESENT) [0..<2]
      = takeWhile (\<lambda>i. m (complex_at e 0 i) \<noteq> CCX_NOT_PRESENT) [0..<2]"
    by (rule sh [where P = "\<lambda>x. x \<noteq> CCX_NOT_PRESENT"]) (auto simp: ccd_at_def complex_at_def)
  moreover have "takeWhile (\<lambda>i. ?c (core_at 0 0 0 i) \<noteq> CCX_NOT_PRESENT) [0..<8]
      = takeWhile (\<lambda>i. m (core_at e 0 0 i) \<noteq> CCX_NOT_PRESENT) [0..<8]"
    by (rule sh [where P = "\<lambda>x. x \<noteq> CCX_NOT_PRESENT"]) (auto simp: ccd_at_def complex_at_def core_at_def)
  moreover have "takeWhile (\<lambda>i. ?c (thread_at 0 0 0 0 i) = 1) [0..<2]
      = takeWhile (\<lambda>i. m (thread_at e 0 0 0 i) = 1) [0..<2]"
    by (rule sh [where P = "\<lambda>x. x = 1"]) (auto simp: ccd_at_def complex_at_def core_at_def thread_at_def)
  ultimately show ?thesis
    using assms
    by (simp add: ApobGetCoreTopologyOnDie_def ApobGetCcdLogToPhysMap_def with_entry_def count_loop_eq)
qed

theorem apob_core_topology_witness:
  "ApobGetCoreTopologyOnDie 0 sample_apob 0 0 apob_info = Some (SilPass, Some (2, 2, 8, 0), apob_info)"
proof -
  have "AmdGetApobEntryInstance 0 sample_apob APOB_CCX APOB_CCD_LOGICAL_TO_PHYSICAL_MAP_TYPE (apob_instance 0 0)
      0 apob_info = Some (SilPass, 0x1040, apob_info)"
    using sample_apob_found by (simp add: APOB_CCX_def APOB_CCD_LOGICAL_TO_PHYSICAL_MAP_TYPE_def apob_instance_def)
  from apob_core_topology [OF this] show ?thesis
    by (simp add: sample_apob_def apob_words_def write_other apart_def ccd_at_def complex_at_def core_at_def
        thread_at_def CCX_NOT_PRESENT_def upt_rec)
qed

text \<open>
  Once the SPD entry is found, \<^verbatim>\<open>ApobGetDimmSpdData\<close> copies the data of the last matching slot, cut to
  the caller's buffer, and reports \<^verbatim>\<open>SilNotFound\<close> when no slot matches. Its index has 8 bits: with 256 slots
  or more it never returns, matching slot or not.
\<close>

theorem apob_spd_last_match:
  assumes "AmdGetApobEntryInstance plat m APOB_MEM APOB_MEM_DIMM_SPD_DATA_TYPE i 0 g = Some (SilPass, e, g')"
    and "hits = spd_hits m e Socket Channel Dimm 0 (unat (spd_count m e))"
  shows "ApobGetDimmSpdData plat m i Socket Channel Dimm BufSize g =
    (if 256 \<le> unat (spd_count m e) then None
     else if hits = [] then Some (SilNotFound, None, g')
     else Some (SilPass, Some (spd_copy m e BufSize (last hits)), g'))"
  using assms spd_loop_wraps [of "spd_count m e"] spd_loop_eq [of 0 "spd_count m e"]
  by (auto simp: ApobGetDimmSpdData_def not_le)

definition spd_words :: "(nat \<times> u32) list" where
  "spd_words = [(0x1004, 5), (0x1008, 0x480), (0x100C, 0x40), (0x1040, 1), (0x1044, 17), (0x104C, 0x440)]"

definition sample_spd :: memory where
  "sample_spd = (foldl (\<lambda>m (a, v). write32 m a v) (\<lambda>_. 0) spd_words)(0x1075 := 1, 0x1080 := 0x12)"

theorem apob_spd_last_match_witness:
  "ApobGetDimmSpdData 0 sample_spd 0 0 0 0 2 apob_info = Some (SilPass, Some [0x12, 0], apob_info)"
proof -
  note ev = apob_eval sample_spd_def spd_words_def
  have "apob_valid sample_spd 0x1000 [0x1040]" by (simp add: apob_valid_def ev)
  moreover have "apob_instances sample_spd 1 17 0 [0x1040] = [0x1040]"
    "length (filter (entry_matches sample_spd 1 17) [0x1040]) \<le> 255"
    by (simp_all add: apob_instances_def entry_matches_def ev)
  ultimately have e: "AmdGetApobEntryInstance 0 sample_spd APOB_MEM APOB_MEM_DIMM_SPD_DATA_TYPE 0 0 apob_info
      = Some (SilPass, 0x1040, apob_info)"
    using AmdGetApobEntryInstance_valid [of apob_info sample_spd "[0x1040]" 1 17 0 0 0]
    by (simp add: apob_info_def APOB_MEM_def APOB_MEM_DIMM_SPD_DATA_TYPE_def)
  have k: "spd_count sample_spd 0x1040 = 1" by (simp add: spd_count_def ev)
  have "spd_matches sample_spd 0x1040 0 0 0 0"
    by (simp add: spd_matches_def spd_at_def sample_spd_def spd_words_def write_other apart_def)
  then have h: "spd_hits sample_spd 0x1040 0 0 0 0 1 = [0]" by (simp add: spd_hits_def)
  have "spd_copy sample_spd 0x1040 2 0 = [0x12, 0]"
    by (simp add: spd_copy_def spd_at_def sample_spd_def spd_words_def write_other apart_def)
  then show ?thesis using apob_spd_last_match [OF e refl, of 0 0 0 2] k h by simp
qed

section \<open>PCI and SMN access\<close>

text \<open>
  A \<^verbatim>\<open>PCI_ADDR\<close> keeps each field cut to its width, is determined by its fields, and is the value of
  the macro \<^verbatim>\<open>MAKE_SBDFO\<close> when the macro's arguments fit.
\<close>

theorem pci_address_roundtrip:
  "addr_Segment (pci_addr s b d f r) = take_bit 4 s \<and> addr_Bus (pci_addr s b d f r) = take_bit 8 b
   \<and> addr_Device (pci_addr s b d f r) = take_bit 5 d \<and> addr_Function (pci_addr s b d f r) = take_bit 3 f
   \<and> addr_Register (pci_addr s b d f r) = take_bit 12 r
   \<and> pci_addr (addr_Segment a) (addr_Bus a) (addr_Device a) (addr_Function a) (addr_Register a) = a
   \<and> MAKE_SBDFO (addr_Segment a) (addr_Bus a) (addr_Device a) (addr_Function a) (addr_Register a) = a"
proof -
  have "MAKE_SBDFO (addr_Segment a) (addr_Bus a) (addr_Device a) (addr_Function a) (addr_Register a) = a"
    by (rule trans [OF MAKE_SBDFO_pci_addr pci_addr_of_fields])
      (simp_all only: addr_Segment_def addr_Bus_def addr_Device_def
        addr_Function_def addr_Register_def get_field_small)
  then show ?thesis by (simp add: pci_addr_fields pci_addr_of_fields)
qed

text \<open>
  \<^verbatim>\<open>xUSLPciRMW\<close> reads into a variable it never initialised, but the bytes it writes back do not depend
  on what was there: for every width it is the read-modify-write routine of that width, and it does
  nothing for the widths it does not support.
\<close>

theorem pci_rmw_by_width:
  "xUSLPciRMW ops garbage Address Width Mask Value h =
     (if Width \<in> {AccessWidth8, AccessS3SaveWidth8}
        then xUSLPciReadModifyWrite8 ops Address (ucast Mask) (ucast Value) h
      else if Width \<in> {AccessWidth16, AccessS3SaveWidth16}
        then xUSLPciReadModifyWrite16 ops Address (ucast Mask) (ucast Value) h
      else if Width \<in> {AccessWidth32, AccessS3SaveWidth32}
        then xUSLPciReadModifyWrite32 ops Address Mask Value h
      else h)"
  by (auto simp: xUSLPciRMW_def xUSLPciRead_def xUSLPciWrite_def pci8.rmw_eq pci16.rmw_eq pci32.rmw_eq
      ucast_and_or set_field_low_ucast8 set_field_low_ucast16 Let_def split_def)

text \<open>
  The index/data pair of a root complex as the hardware documents it: a write to the index register
  selects a register of the SMN space, the data register reads and writes the selected one.
\<close>

definition smn_device ::
  "'h pci_ops \<Rightarrow> u32 \<Rightarrow> u32 \<Rightarrow> ('h \<Rightarrow> u32) \<Rightarrow> ('h \<Rightarrow> u32 \<Rightarrow> u32) \<Rightarrow> bool" where
  "smn_device ops seg bus idx regs \<longleftrightarrow>
     (\<forall>h v. idx (bus_wr32 ops (smn_index_addr seg bus) v h) = v
         \<and> regs (bus_wr32 ops (smn_index_addr seg bus) v h) = regs h)
   \<and> (\<forall>h. fst (bus_rd32 ops (smn_data_addr seg bus) h) = regs h (idx h)
         \<and> regs (snd (bus_rd32 ops (smn_data_addr seg bus) h)) = regs h)
   \<and> (\<forall>h v. regs (bus_wr32 ops (smn_data_addr seg bus) v h) = (regs h)(idx h := v))"

text \<open>
  Over such a device \<^verbatim>\<open>xUSLSmnRead\<close>, \<^verbatim>\<open>xUSLSmnWrite\<close> and \<^verbatim>\<open>xUSLSmnReadModifyWrite\<close> are a read, a write and
  a masked update of the one register addressed, whatever the index register held before, and no
  other register changes.
\<close>

theorem smn_access_contract:
  assumes "smn_device ops seg bus idx regs"
  shows "fst (xUSLSmnRead ops seg bus a h) = regs h a
    \<and> regs (snd (xUSLSmnRead ops seg bus a h)) = regs h
    \<and> regs (xUSLSmnWrite ops seg bus a v h) = (regs h)(a := v)
    \<and> regs (xUSLSmnReadModifyWrite ops seg bus a am om h) = (regs h)(a := (regs h a AND am) OR om)"
  using assms
  by (simp add: smn_device_def xUSLSmnRead_def xUSLSmnWrite_def smn.rmw_eq xUSLPciRead32_def
      xUSLPciWrite32_def)

definition smn_sample :: "(u32 \<times> (u32 \<Rightarrow> u32)) pci_ops" where
  "smn_sample = \<lparr>bus_rd8 = \<lambda>a h. (0, h), bus_rd16 = \<lambda>a h. (0, h),
     bus_rd32 = \<lambda>a h. (if a = 0xBC then snd h (fst h) else 0, h), bus_rd64 = \<lambda>a h. (0, h),
     bus_wr8 = \<lambda>a v h. h, bus_wr16 = \<lambda>a v h. h,
     bus_wr32 = \<lambda>a v h. if a = 0xB8 then (v, snd h) else if a = 0xBC then (fst h, (snd h)(fst h := v)) else h,
     bus_wr64 = \<lambda>a v h. h\<rparr>"

theorem smn_access_contract_witness:
  "snd (xUSLSmnReadModifyWrite smn_sample 0 0 0x13B1 0xF0 0x5 (7, \<lambda>_. 0x3C)) 0x13B1 = 0x35"
proof -
  have "smn_index_addr 0 0 = 0xB8" "smn_data_addr 0 0 = 0xBC" by code_simp+
  then have "smn_device smn_sample 0 0 fst snd" by (simp add: smn_device_def smn_sample_def)
  from smn_access_contract [OF this, of "0x13B1" _ 0 "0xF0" "0x5"] show ?thesis by simp
qed

section \<open>Root bridges\<close>

lemma cfg_reg_checks:
  assumes "i < 8" and "s < 2"
  shows "acc_checks s 0 (cfg_limit_reg i) FABRIC_REG_ACC_BC \<and> acc_checks s 0 (cfg_base_reg i) FABRIC_REG_ACC_BC"
  using idle_region [OF assms(1)] assms(2) by (simp add: acc_checks_def)

lemma find_bus_region_total:
  assumes "set is \<subseteq> {..<8}" and "s < 2"
  shows "\<exists>r h'. find_bus_region ops s T is h = Some (r, h')"
  using assms(1)
proof (induction "is" arbitrary: h)
  case (Cons i "is")
  then obtain v v' h1 h2 where
    "DfXFabricRegisterAccRead ops s 0 (cfg_limit_reg i) FABRIC_REG_ACC_BC h = Some (v, h1)"
    "DfXFabricRegisterAccRead ops s 0 (cfg_base_reg i) FABRIC_REG_ACC_BC h1 = Some (v', h2)"
    using cfg_reg_checks [of i s] assms(2) by (simp add: DfXFabricRegisterAccRead_def) (metis prod.exhaust)
  then show ?case using Cons by simp
qed simp

lemma bus_ranges_total:
  assumes "s < 2" and "i < 4"
  shows "\<exists>v h'. DfXGetHostBridgeBusBase ops s i h = Some (v, h')"
    and "\<exists>v h'. DfXGetHostBridgeBusLimit ops s i h = Some (v, h')"
proof -
  have "\<exists>r h'. find_bus_region ops s T [0..<DFX_NUMBER_OF_BUS_REGIONS] h = Some (r, h')" for T
    by (rule find_bus_region_total) (use assms in \<open>auto simp: DFX_NUMBER_OF_BUS_REGIONS_def\<close>)
  then show "\<exists>v h'. DfXGetHostBridgeBusBase ops s i h = Some (v, h')"
    and "\<exists>v h'. DfXGetHostBridgeBusLimit ops s i h = Some (v, h')"
    using assms(2)
    by (auto simp: DfXGetHostBridgeBusBase_def DfXGetHostBridgeBusLimit_def DfGetHostBridgeSystemFabricID_eq
        Option.bind_eq_Some_conv) blast+
qed

lemma DfXGetPhysRootBridgeNumber_eq: "i < 4 \<Longrightarrow> DfXGetPhysRootBridgeNumber i = Some (of_nat i)"
proof -
  assume "i < 4"
  then consider "i = 0" | "i = 1" | "i = 2" | "i = 3" by linarith
  then show ?thesis
    by cases (simp_all add: DfXGetPhysRootBridgeNumber_def device_entries GenoaIosMap_def GenoaPhysIos0FabricId_def)
qed

lemma component_flags:
  assumes "s < 2" and "i < 4"
  shows "DfHasFch s 0 i = Some (i = 2)" and "DfHasSmu s 0 i = Some (i = 2)"
proof -
  consider "i = 0" | "i = 1" | "i = 2" | "i = 3" using assms(2) by linarith
  moreover have "s = 0 \<or> s = 1" using assms(1) by linarith
  ultimately show "DfHasFch s 0 i = Some (i = 2)" "DfHasSmu s 0 i = Some (i = 2)"
    by (cases; auto simp: DfHasFch_def DfHasSmu_def component_at_def device_entries GenoaIosMap_def
        DfXFindComponentLocationMap_def GenoaComponentLocation_def)+
qed

text \<open>
  \<^verbatim>\<open>DfGetRootBridgeInfo\<close> always answers: \<^verbatim>\<open>SilInvalidParameter\<close> exactly when the socket, die or root bridge
  does not exist, otherwise the fabric identifier, which determines socket and bridge, the physical
  number, and the FCH and SMU at bridge 2 of each socket. The hypotheses: the hardware reports one or two
  processors and at most four root bridges per die, and keeps reporting the same.
\<close>

theorem root_bridge_info_checked:
  assumes "\<forall>h. \<exists>h'. DfXGetNumberOfProcessorsPresent ops h = Some (n, h')"
    and "\<forall>s h. s < n \<longrightarrow> (\<exists>h'. DfXGetNumberOfRootBridgesOnDie ops s h = Some (rb, h'))"
    and "n \<le> 2" and "rb \<le> 4"
  shows "\<exists>h'. if Socket < n \<and> Die = 0 \<and> Index < rb
    then \<exists>i. DfGetRootBridgeInfo ops Socket Die Index h = Some (SilPass, Some i, h')
          \<and> unat (ri_SystemFabricID i) = 256 * Socket + 32 + Index
          \<and> ri_PhysicalRootBridgeNumber i = of_nat Index
          \<and> ri_HasFchDevice i = (Index = 2) \<and> ri_HasSystemMgmtUnit i = (Index = 2)
    else DfGetRootBridgeInfo ops Socket Die Index h = Some (SilInvalidParameter, None, h')"
proof -
  obtain h1 where n: "DfXGetNumberOfProcessorsPresent ops h = Some (n, h1)" using assms(1) by blast
  show ?thesis
  proof (cases "Socket < n \<and> Die = 0")
    case True
    then obtain h2 where rb: "DfXGetNumberOfRootBridgesOnDie ops Socket h1 = Some (rb, h2)" using assms(2) by blast
    show ?thesis
    proof (cases "Index < rb")
      case lt: True
      then have s: "Socket < 2" and i: "Index < 4" using True assms(3,4) by auto
      obtain b h3 where b: "DfXGetHostBridgeBusBase ops Socket Index h2 = Some (b, h3)"
        using bus_ranges_total(1) [OF s i, of ops h2] by blast
      obtain l h4 where l: "DfXGetHostBridgeBusLimit ops Socket Index h3 = Some (l, h4)"
        using bus_ranges_total(2) [OF s i, of ops h3] by blast
      show ?thesis
        using True lt i n rb b l component_flags [OF s i] unat_fabric_id [of Socket Index] s
        by (simp add: DfGetRootBridgeInfo_def DfGetNumberOfDiesOnSocket_def DfGetHostBridgeSystemFabricID_eq
            DfXGetPhysRootBridgeNumber_eq not_le [symmetric])
    next
      case False
      then show ?thesis
        using True n rb by (simp add: DfGetRootBridgeInfo_def DfGetNumberOfDiesOnSocket_def not_le [symmetric])
    qed
  next
    case False
    then show ?thesis
      using n by (cases "Socket < n") (simp_all add: DfGetRootBridgeInfo_def DfGetNumberOfDiesOnSocket_def Suc_le_eq)
  qed
qed

theorem root_bridge_info_checked_witness:
  "(\<exists>i. DfGetRootBridgeInfo idle_bus 0 0 2 () = Some (SilPass, Some i, ()) \<and> ri_HasFchDevice i)
   \<and> DfGetRootBridgeInfo idle_bus 1 0 2 () = Some (SilInvalidParameter, None, ())"
proof -
  have a: "\<forall>h. \<exists>h'. DfXGetNumberOfProcessorsPresent idle_bus h = Some (1, h')" by (simp add: idle_counts)
  have b: "\<forall>s h. s < 1 \<longrightarrow> (\<exists>h'. DfXGetNumberOfRootBridgesOnDie idle_bus s h = Some (4, h'))"
    by (simp add: idle_counts)
  note q = root_bridge_info_checked [OF a b]
  show ?thesis using q [of 0 0 2 "()"] q [of 1 0 2 "()"] by auto
qed

end
