(* ===== verification/Nbio_Topology.thy ===== *)
theory Nbio_Topology
  imports Sil_XSim
begin

text \<open>
  The NBIO topology of \<^verbatim>\<open>xUSL/NBIO/NbioPcieTopologyHelper.c\<close>: platform, silicon, wrapper and engine
  descriptors that lie in one memory block and point to each other by 16-bit byte offsets
  (\<^verbatim>\<open>PCIe_DESCRIPTOR_HEADER\<close>). The model reads the headers from byte memory at their packed offsets; a
  pointer is an address and \<^verbatim>\<open>NULL\<close> is 0. A callback gets the descriptor and may change the memory and
  its buffer; the walks re-read the headers after each call, and need not end on a damaged topology.
\<close>

section \<open>Descriptors\<close>

definition DESCRIPTOR_TERMINATE_LIST :: u32 where "DESCRIPTOR_TERMINATE_LIST = 0x80000000"
definition DESCRIPTOR_TERMINATE_GNB :: u32 where "DESCRIPTOR_TERMINATE_GNB = 0x40000000"
definition DESCRIPTOR_TERMINATE_TOPOLOGY :: u32 where "DESCRIPTOR_TERMINATE_TOPOLOGY = 0x20000000"
definition DESCRIPTOR_ALLOCATED :: u32 where "DESCRIPTOR_ALLOCATED = 0x10000000"
definition DESCRIPTOR_PLATFORM :: u32 where "DESCRIPTOR_PLATFORM = 0x08000000"
definition DESCRIPTOR_COMPLEX :: u32 where "DESCRIPTOR_COMPLEX = 0x04000000"
definition DESCRIPTOR_SILICON :: u32 where "DESCRIPTOR_SILICON = 0x02000000"
definition DESCRIPTOR_PCIE_WRAPPER :: u32 where "DESCRIPTOR_PCIE_WRAPPER = 0x01000000"
definition DESCRIPTOR_PCIE_ENGINE :: u32 where "DESCRIPTOR_PCIE_ENGINE = 0x00800000"
definition DESCRIPTOR_CXL_ENGINE :: u32 where "DESCRIPTOR_CXL_ENGINE = 0x00200000"
definition DESCRIPTOR_ALL_WRAPPERS :: u32 where "DESCRIPTOR_ALL_WRAPPERS = DESCRIPTOR_PCIE_WRAPPER"
definition DESCRIPTOR_ALL_ENGINES :: u32 where
  "DESCRIPTOR_ALL_ENGINES = DESCRIPTOR_PCIE_ENGINE OR DESCRIPTOR_CXL_ENGINE"
definition DESCRIPTOR_ALL_TYPES :: u32 where
  "DESCRIPTOR_ALL_TYPES =
     DESCRIPTOR_ALL_WRAPPERS OR DESCRIPTOR_ALL_ENGINES OR DESCRIPTOR_SILICON OR DESCRIPTOR_PLATFORM"

lemmas descriptor_flag_defs = DESCRIPTOR_TERMINATE_LIST_def DESCRIPTOR_TERMINATE_GNB_def
  DESCRIPTOR_TERMINATE_TOPOLOGY_def DESCRIPTOR_ALLOCATED_def DESCRIPTOR_PLATFORM_def
  DESCRIPTOR_COMPLEX_def DESCRIPTOR_SILICON_def DESCRIPTOR_PCIE_WRAPPER_def DESCRIPTOR_PCIE_ENGINE_def
  DESCRIPTOR_CXL_ENGINE_def DESCRIPTOR_ALL_WRAPPERS_def DESCRIPTOR_ALL_ENGINES_def
  DESCRIPTOR_ALL_TYPES_def

text \<open>\<^verbatim>\<open>PCIe_DESCRIPTOR_HEADER\<close>, 10 bytes packed.\<close>

definition DescriptorFlags :: "memory \<Rightarrow> nat \<Rightarrow> u32" where "DescriptorFlags m d = read32 m d"
definition desc_Parent :: "memory \<Rightarrow> nat \<Rightarrow> nat" where "desc_Parent m d = unat (read16 m (d + 4))"
definition desc_Peer :: "memory \<Rightarrow> nat \<Rightarrow> nat" where "desc_Peer m d = unat (read16 m (d + 6))"
definition desc_Child :: "memory \<Rightarrow> nat \<Rightarrow> nat" where "desc_Child m d = unat (read16 m (d + 8))"

text \<open>
  The fields of \<^verbatim>\<open>PCIe_SILICON_CONFIG\<close> (\<^verbatim>\<open>GNB_HANDLE\<close>) and \<^verbatim>\<open>PCIe_ENGINE_CONFIG\<close> that the walks and their
  callers read.
\<close>

definition SocketId :: "memory \<Rightarrow> nat \<Rightarrow> u8" where "SocketId m d = m (d + 10)"
definition gnb_Address :: "memory \<Rightarrow> nat \<Rightarrow> u32" where "gnb_Address m d = read32 m (d + 14)"
definition InitStatus :: "memory \<Rightarrow> nat \<Rightarrow> u16" where "InitStatus m d = read16 m (d + 15)"
definition LinkHotplug :: "memory \<Rightarrow> nat \<Rightarrow> u8" where "LinkHotplug m d = m (d + 21)"

partial_function (option) PcieConfigGetChild :: "memory \<Rightarrow> u32 \<Rightarrow> nat \<Rightarrow> nat option" where
  "PcieConfigGetChild m Type Descriptor =
     (if DescriptorFlags m Descriptor AND Type = 0 then
        if desc_Child m Descriptor \<noteq> 0
        then PcieConfigGetChild m Type (Descriptor + desc_Child m Descriptor) else Some 0
      else Some Descriptor)"

partial_function (option) PcieConfigGetPeer :: "memory \<Rightarrow> u32 \<Rightarrow> nat \<Rightarrow> nat option" where
  "PcieConfigGetPeer m Type Descriptor =
     (if DescriptorFlags m Descriptor AND Type = 0 then
        if desc_Peer m Descriptor \<noteq> 0
        then PcieConfigGetPeer m Type (Descriptor + desc_Peer m Descriptor) else Some 0
      else Some Descriptor)"

partial_function (option) PcieConfigGetParent :: "memory \<Rightarrow> u32 \<Rightarrow> nat \<Rightarrow> nat option" where
  "PcieConfigGetParent m Type Descriptor =
     (if DescriptorFlags m Descriptor AND Type = 0 then
        if desc_Parent m Descriptor \<noteq> 0
        then PcieConfigGetParent m Type (Descriptor - desc_Parent m Descriptor) else Some 0
      else Some Descriptor)"

definition PcieConfigGetNextTopologyDescriptor :: "memory \<Rightarrow> nat \<Rightarrow> u32 \<Rightarrow> nat" where
  "PcieConfigGetNextTopologyDescriptor m Descriptor Termination =
     (if Descriptor = 0 then 0
      else if DescriptorFlags m Descriptor AND Termination \<noteq> 0 then 0
      else Descriptor + desc_Peer m Descriptor)"

definition GnbGetNextHandle :: "memory \<Rightarrow> nat \<Rightarrow> nat" where
  "GnbGetNextHandle m Descriptor =
     PcieConfigGetNextTopologyDescriptor m Descriptor DESCRIPTOR_TERMINATE_TOPOLOGY"

text \<open>
  \<^verbatim>\<open>GetGnbHandle\<close> does not look whether the topology block exists: the null pointer is dereferenced,
  here \<open>None\<close>. The platform configuration is the first member of the block.
\<close>

definition NbioGetPcieTopology :: "'x sil_state_scheme \<Rightarrow> nat option" where
  "NbioGetPcieTopology s = xUslFindStructure (id_val SilId_NorthBridgePcie) 0 s"

definition NbioGetHandle :: "memory \<Rightarrow> nat \<Rightarrow> nat option" where
  "NbioGetHandle m Pcie = PcieConfigGetChild m DESCRIPTOR_SILICON Pcie"

definition GetGnbHandle :: "'x sil_state_scheme \<Rightarrow> nat option" where
  "GetGnbHandle s =
     do { Pcie \<leftarrow> NbioGetPcieTopology s;
          sil_assert (Pcie \<noteq> 0);
          PcieConfigGetChild (mem s) DESCRIPTOR_SILICON Pcie }"

text \<open>\<^verbatim>\<open>NbioGetNextSocket\<close>: a \<^verbatim>\<open>do\<close> loop, entered with the handle given.\<close>

partial_function (option) next_socket_loop :: "memory \<Rightarrow> u8 \<Rightarrow> nat \<Rightarrow> nat option" where
  "next_socket_loop m CurrentSocket CurrentGnbHandle =
     (let h = GnbGetNextHandle m CurrentGnbHandle
      in if h = 0 then Some 0
         else if CurrentSocket \<noteq> SocketId m h then Some h
         else next_socket_loop m CurrentSocket h)"

definition NbioGetNextSocket :: "memory \<Rightarrow> nat \<Rightarrow> nat option" where
  "NbioGetNextSocket m GnbHandle = next_socket_loop m (SocketId m GnbHandle) GnbHandle"

definition NbioGetHostPciAddress :: "memory \<Rightarrow> nat \<Rightarrow> u32" where
  "NbioGetHostPciAddress m GnbHandle = gnb_Address m GnbHandle"

section \<open>Port status\<close>

definition PcieConfigCheckPortStatus :: "memory \<Rightarrow> nat \<Rightarrow> u32 \<Rightarrow> bool" where
  "PcieConfigCheckPortStatus m Engine PortStatus \<longleftrightarrow> ucast (InitStatus m Engine) AND PortStatus \<noteq> 0"

definition PcieConfigUpdatePortStatus :: "nat \<Rightarrow> u16 \<Rightarrow> u16 \<Rightarrow> memory \<Rightarrow> u16 \<times> memory" where
  "PcieConfigUpdatePortStatus Engine SetStatus ResetStatus m =
     (let m = write16 m (Engine + 15) (InitStatus m Engine OR SetStatus);
          m = write16 m (Engine + 15) (InitStatus m Engine AND NOT ResetStatus)
      in (InitStatus m Engine, m))"

definition PcieConfigIsPcieEngine :: "memory \<Rightarrow> nat \<Rightarrow> bool" where
  "PcieConfigIsPcieEngine m Descriptor \<longleftrightarrow>
     Descriptor \<noteq> 0 \<and> DescriptorFlags m Descriptor AND DESCRIPTOR_PCIE_ENGINE \<noteq> 0"

definition PcieLibIsEngineAllocated :: "memory \<Rightarrow> nat \<Rightarrow> bool" where
  "PcieLibIsEngineAllocated m Descriptor \<longleftrightarrow>
     Descriptor \<noteq> 0 \<and> DescriptorFlags m Descriptor AND DESCRIPTOR_ALLOCATED \<noteq> 0"

definition INIT_STATUS_PCIE_TRAINING_SUCCESS :: u32 where "INIT_STATUS_PCIE_TRAINING_SUCCESS = 8"
definition PcieHotplugDisabled :: u8 where "PcieHotplugDisabled = 0"
definition PcieHotplugInboard :: u8 where "PcieHotplugInboard = 4"

definition PcieConfigIsActivePcieEngine :: "bool \<Rightarrow> memory \<Rightarrow> nat \<Rightarrow> bool option" where
  "PcieConfigIsActivePcieEngine dbg m Engine =
     do { c_assert dbg (PcieConfigIsPcieEngine m Engine);
          Some (PcieLibIsEngineAllocated m Engine
            \<and> (PcieConfigCheckPortStatus m Engine INIT_STATUS_PCIE_TRAINING_SUCCESS
               \<or> LinkHotplug m Engine \<noteq> PcieHotplugDisabled
                 \<and> LinkHotplug m Engine \<noteq> PcieHotplugInboard)) }"

section \<open>Walks with a callback\<close>

fun status_code :: "SIL_STATUS \<Rightarrow> nat" where
  "status_code SilPass = 0"
| "status_code SilUnsupportedHardware = 1"
| "status_code SilUnsupported = 2"
| "status_code SilInvalidParameter = 3"
| "status_code SilAborted = 4"
| "status_code SilOutOfResources = 5"
| "status_code SilNotFound = 6"
| "status_code SilOutOfBounds = 7"
| "status_code SilDeviceError = 8"
| "status_code SilResetRequestColdImm = 0xF0"
| "status_code SilResetRequestColdDef = 0xF1"
| "status_code SilResetRequestWarmImm = 0xF2"
| "status_code SilResetRequestWarmDef = 0xF3"

definition SIL_STATUS_UPDATE :: "SIL_STATUS \<Rightarrow> SIL_STATUS \<Rightarrow> SIL_STATUS" where
  "SIL_STATUS_UPDATE Current Aggregated =
     (if status_code Aggregated < status_code Current then Current else Aggregated)"

text \<open>
  The loop all five walks share: go on while the descriptor is not null and the guard holds, run the
  body, and take the next descriptor of the memory the body left.
\<close>

partial_function (option) topo_loop ::
  "u32 \<Rightarrow> (memory \<Rightarrow> nat \<Rightarrow> bool option) \<Rightarrow> (nat \<Rightarrow> memory \<times> 'b \<Rightarrow> (memory \<times> 'b) option)
     \<Rightarrow> nat \<Rightarrow> memory \<times> 'b \<Rightarrow> (memory \<times> 'b) option" where
  "topo_loop Termination guard body Descriptor mb =
     (if Descriptor = 0 then Some mb
      else do { go \<leftarrow> guard (fst mb) Descriptor;
                if go then
                  do { mb' \<leftarrow> body Descriptor mb;
                       topo_loop Termination guard body
                         (PcieConfigGetNextTopologyDescriptor (fst mb') Descriptor Termination) mb' }
                else Some mb })"

type_synonym 'b status_callback = "nat \<Rightarrow> memory \<times> 'b \<Rightarrow> (SIL_STATUS \<times> memory \<times> 'b) option"
type_synonym 'b void_callback = "nat \<Rightarrow> memory \<times> 'b \<Rightarrow> (memory \<times> 'b) option"

text \<open>A call whose status is aggregated: the aggregate travels with the buffer.\<close>

definition call_status :: "'b status_callback \<Rightarrow> (SIL_STATUS \<times> 'b) void_callback" where
  "call_status Callback d mb =
     do { (Status, m, b) \<leftarrow> Callback d (fst mb, snd (snd mb));
          Some (m, SIL_STATUS_UPDATE Status (fst (snd mb)), b) }"

text \<open>
  \<^verbatim>\<open>PcieConfigRunProcForAllDescriptors\<close>: the exclusion test is the logical conjunction
  \<^verbatim>\<open>OutDescriptorFlags && DescriptorFlags\<close>, as the code has it.
\<close>

definition descriptor_selected :: "u32 \<Rightarrow> u32 \<Rightarrow> memory \<Rightarrow> nat \<Rightarrow> bool" where
  "descriptor_selected InDescriptorFlags OutDescriptorFlags m d \<longleftrightarrow>
     InDescriptorFlags AND DescriptorFlags m d \<noteq> 0
     \<and> \<not> (OutDescriptorFlags \<noteq> 0 \<and> DescriptorFlags m d \<noteq> 0)"

definition PcieConfigRunProcForAllDescriptors ::
  "u32 \<Rightarrow> u32 \<Rightarrow> u32 \<Rightarrow> 'b status_callback \<Rightarrow> nat \<Rightarrow> memory \<times> 'b \<Rightarrow> (SIL_STATUS \<times> memory \<times> 'b) option" where
  "PcieConfigRunProcForAllDescriptors InDescriptorFlags OutDescriptorFlags TerminationFlags Callback Pcie mb =
     do { d \<leftarrow> PcieConfigGetChild (fst mb) (InDescriptorFlags AND DESCRIPTOR_ALL_TYPES) Pcie;
          (m, st, b) \<leftarrow> topo_loop TerminationFlags (\<lambda>_ _. Some True)
            (\<lambda>d mb. if descriptor_selected InDescriptorFlags OutDescriptorFlags (fst mb) d
                    then call_status Callback d mb else Some mb)
            d (fst mb, SilPass, snd mb);
          Some (st, m, b) }"

definition wrapper_selected :: "u32 \<Rightarrow> memory \<Rightarrow> nat \<Rightarrow> bool" where
  "wrapper_selected Flags m w \<longleftrightarrow> Flags AND DESCRIPTOR_ALL_WRAPPERS AND DescriptorFlags m w \<noteq> 0"

definition PcieConfigRunProcForAllWrappers ::
  "u32 \<Rightarrow> 'b status_callback \<Rightarrow> nat \<Rightarrow> memory \<times> 'b \<Rightarrow> (SIL_STATUS \<times> memory \<times> 'b) option" where
  "PcieConfigRunProcForAllWrappers Flags Callback Pcie mb =
     do { w \<leftarrow> PcieConfigGetChild (fst mb) DESCRIPTOR_ALL_WRAPPERS Pcie;
          (m, st, b) \<leftarrow> topo_loop DESCRIPTOR_TERMINATE_TOPOLOGY (\<lambda>_ _. Some True)
            (\<lambda>w mb. if wrapper_selected Flags (fst mb) w then call_status Callback w mb else Some mb)
            w (fst mb, SilPass, snd mb);
          Some (st, m, b) }"

text \<open>The walks below one silicon or wrapper stop at the first descriptor with another parent.\<close>

definition has_parent :: "u32 \<Rightarrow> nat \<Rightarrow> memory \<Rightarrow> nat \<Rightarrow> bool option" where
  "has_parent Type p m d = map_option (\<lambda>q. p = q) (PcieConfigGetParent m Type d)"

definition PcieConfigRunProcForAllWrappersInNbio ::
  "u32 \<Rightarrow> 'b void_callback \<Rightarrow> nat \<Rightarrow> memory \<times> 'b \<Rightarrow> (memory \<times> 'b) option" where
  "PcieConfigRunProcForAllWrappersInNbio Flags Callback GnbHandle mb =
     do { w \<leftarrow> PcieConfigGetChild (fst mb) DESCRIPTOR_ALL_WRAPPERS GnbHandle;
          topo_loop DESCRIPTOR_TERMINATE_TOPOLOGY (has_parent DESCRIPTOR_SILICON GnbHandle)
            (\<lambda>w mb. if wrapper_selected Flags (fst mb) w then Callback w mb else Some mb) w mb }"

definition engine_selected :: "u32 \<Rightarrow> memory \<Rightarrow> nat \<Rightarrow> bool" where
  "engine_selected Flags m e \<longleftrightarrow>
     \<not> (Flags AND DESCRIPTOR_ALLOCATED \<noteq> 0 \<and> \<not> PcieLibIsEngineAllocated m e)
     \<and> DescriptorFlags m e AND DESCRIPTOR_ALL_ENGINES AND Flags \<noteq> 0"

definition PcieConfigRunProcForAllEngines ::
  "u32 \<Rightarrow> 'b void_callback \<Rightarrow> nat \<Rightarrow> memory \<times> 'b \<Rightarrow> (memory \<times> 'b) option" where
  "PcieConfigRunProcForAllEngines Flags Callback Pcie mb =
     do { e \<leftarrow> PcieConfigGetChild (fst mb) DESCRIPTOR_ALL_ENGINES Pcie;
          topo_loop DESCRIPTOR_TERMINATE_TOPOLOGY (\<lambda>_ _. Some True)
            (\<lambda>e mb. if engine_selected Flags (fst mb) e then Callback e mb else Some mb) e mb }"

definition PcieConfigRunProcForAllEnginesInWrapper ::
  "u32 \<Rightarrow> 'b void_callback \<Rightarrow> nat \<Rightarrow> memory \<times> 'b \<Rightarrow> (memory \<times> 'b) option" where
  "PcieConfigRunProcForAllEnginesInWrapper Flags Callback Wrapper mb =
     do { e \<leftarrow> PcieConfigGetChild (fst mb) DESCRIPTOR_ALL_ENGINES Wrapper;
          topo_loop DESCRIPTOR_TERMINATE_TOPOLOGY (has_parent DESCRIPTOR_ALL_WRAPPERS Wrapper)
            (\<lambda>e mb. if engine_selected Flags (fst mb) e then Callback e mb else Some mb) e mb }"

section \<open>Peer chains\<close>

text \<open>
  The abstraction of a topology level: \<open>peer_chain m t d ds\<close> says that the descriptors met from \<open>d\<close> on
  are \<open>ds\<close>, the last one with the termination flag. \<open>keeps_headers S\<close> is what the walks rely on: a
  callback leaves the headers of the descriptors in \<open>S\<close> alone.
\<close>

fun peer_chain :: "memory \<Rightarrow> u32 \<Rightarrow> nat \<Rightarrow> nat list \<Rightarrow> bool" where
  "peer_chain m t d [] \<longleftrightarrow> d = 0"
| "peer_chain m t d (x # xs) \<longleftrightarrow>
     d = x \<and> x \<noteq> 0 \<and> peer_chain m t (PcieConfigGetNextTopologyDescriptor m x t) xs"

definition same_headers :: "nat set \<Rightarrow> memory \<Rightarrow> memory \<Rightarrow> bool" where
  "same_headers S m m' \<longleftrightarrow> (\<forall>d\<in>S. \<forall>i<10. m (d + i) = m' (d + i))"

definition keeps_headers :: "nat set \<Rightarrow> 'b void_callback \<Rightarrow> bool" where
  "keeps_headers S f \<longleftrightarrow>
     (\<forall>d m b m' b'. f d (m, b) = Some (m', b') \<longrightarrow> same_headers S m m')"

lemma keeps_headersD:
  "keeps_headers S f \<Longrightarrow> f d (m, b) = Some (m', b') \<Longrightarrow> same_headers S m m'"
  unfolding keeps_headers_def by blast

lemma same_headers_refl [simp]: "same_headers S m m"
  by (simp add: same_headers_def)

lemma same_headers_trans: "same_headers S m m' \<Longrightarrow> same_headers S m' m'' \<Longrightarrow> same_headers S m m''"
  by (auto simp: same_headers_def)

lemma same_header_bytes:
  assumes "same_headers S m m'" and "d \<in> S" and "d \<le> x" and "x < d + 10"
  shows "m x = m' x"
proof -
  obtain i where "x = d + i" using assms(3) le_Suc_ex by blast
  then show ?thesis using assms by (auto simp: same_headers_def)
qed

lemma same_header_fields:
  assumes "same_headers S m m'" and "d \<in> S"
  shows "DescriptorFlags m' d = DescriptorFlags m d" and "desc_Parent m' d = desc_Parent m d"
    and "desc_Peer m' d = desc_Peer m d" and "desc_Child m' d = desc_Child m d"
proof -
  have r: "read_le k m' (d + i) = read_le k m (d + i)" if "i + k \<le> 10" for i k
    by (rule read_le_cong) (use that in \<open>auto intro!: same_header_bytes [OF assms, symmetric]\<close>)
  show "DescriptorFlags m' d = DescriptorFlags m d" using r [of 0 4] by (simp add: DescriptorFlags_def mem_ops)
  show "desc_Parent m' d = desc_Parent m d" using r [of 4 2] by (simp add: desc_Parent_def mem_ops)
  show "desc_Peer m' d = desc_Peer m d" using r [of 6 2] by (simp add: desc_Peer_def mem_ops)
  show "desc_Child m' d = desc_Child m d" using r [of 8 2] by (simp add: desc_Child_def mem_ops)
qed

lemma next_same_headers:
  "same_headers S m m' \<Longrightarrow> d \<in> S \<Longrightarrow>
     PcieConfigGetNextTopologyDescriptor m' d t = PcieConfigGetNextTopologyDescriptor m d t"
  by (simp add: PcieConfigGetNextTopologyDescriptor_def same_header_fields)

lemma peer_chain_same_headers:
  "same_headers S m m' \<Longrightarrow> set ds \<subseteq> S \<Longrightarrow> peer_chain m t d ds \<Longrightarrow> peer_chain m' t d ds"
  by (induction ds arbitrary: d) (simp_all add: next_same_headers)

text \<open>The walk over a chain is the call of the body on each descriptor, up to the first failing guard.\<close>

lemma topo_loop_chain:
  assumes "peer_chain m t d ds" and "set ds \<subseteq> S" and "keeps_headers S body"
    and "\<And>x m'. x \<in> set ds \<Longrightarrow> same_headers S m m' \<Longrightarrow> guard m' x = Some (P x)"
  shows "topo_loop t guard body d (m, b) = for_each body (takeWhile P ds) (m, b)"
  using assms(1,2,4)
proof (induction ds arbitrary: d m b)
  case Nil
  then show ?case by (simp add: topo_loop.simps)
next
  case (Cons x xs)
  have g: "guard m x = Some (P x)" using Cons.prems(3) by simp
  show ?case
  proof (cases "P x")
    case False
    then show ?thesis using Cons.prems(1) g by (simp add: topo_loop.simps)
  next
    case True
    show ?thesis
    proof (cases "body x (m, b)")
      case None
      then show ?thesis using Cons.prems(1) g True by (simp add: topo_loop.simps)
    next
      case (Some r)
      obtain m' b' where r: "r = (m', b')" by (cases r)
      have s: "same_headers S m m'" using keeps_headersD [OF assms(3)] Some r by blast
      have c: "peer_chain m' t (PcieConfigGetNextTopologyDescriptor m x t) xs"
        by (rule peer_chain_same_headers [OF s]) (use Cons.prems in auto)
      have "topo_loop t guard body (PcieConfigGetNextTopologyDescriptor m x t) (m', b')
          = for_each body (takeWhile P xs) (m', b')"
        by (rule Cons.IH [OF c]) (use Cons.prems s in \<open>auto intro: same_headers_trans\<close>)
      moreover have "PcieConfigGetNextTopologyDescriptor m' x t = PcieConfigGetNextTopologyDescriptor m x t"
        by (rule next_same_headers [OF s]) (use Cons.prems(2) in auto)
      ultimately show ?thesis
        using Cons.prems(1) g True Some r by (subst topo_loop.simps) simp
    qed
  qed
qed

text \<open>
  The contract of a selection: it depends on the header of the descriptor only. Then the selection
  commutes with the walk, because the calls leave the headers alone.
\<close>

locale header_predicate =
  fixes sel :: "memory \<Rightarrow> nat \<Rightarrow> bool"
  assumes sel_cong: "same_headers S m m' \<Longrightarrow> d \<in> S \<Longrightarrow> sel m' d = sel m d"
begin

lemma for_each_select:
  assumes "keeps_headers S f" and "set ds \<subseteq> S"
  shows "for_each (\<lambda>d mb. if sel (fst mb) d then f d mb else Some mb) ds (m, b)
    = for_each f (filter (sel m) ds) (m, b)"
proof -
  have "for_each (\<lambda>d mb. if sel (fst mb) d then f d mb else Some mb) xs (m', b')
      = for_each f (filter (sel m) xs) (m', b')"
    if "set xs \<subseteq> S" and "same_headers S m m'" for xs m' b'
    using that
  proof (induction xs arbitrary: m' b')
    case (Cons x xs)
    have sel: "sel m' x = sel m x" using sel_cong [OF Cons.prems(2)] Cons.prems(1) by simp
    show ?case
    proof (cases "sel m x")
      case True
      show ?thesis
      proof (cases "f x (m', b')")
        case (Some r)
        obtain m2 b2 where r: "r = (m2, b2)" by (cases r)
        have "same_headers S m m2"
          using same_headers_trans [OF Cons.prems(2) keeps_headersD [OF assms(1)]] Some r by blast
        then show ?thesis using Cons.IH [of m2 b2] Cons.prems(1) True Some r sel by simp
      qed (use True sel in simp)
    qed (use Cons sel in simp)
  qed simp
  then show ?thesis using assms(2) by simp
qed

lemma walk_selected:
  assumes "peer_chain m t d ds" and "set ds \<subseteq> S" and "keeps_headers S f"
    and "\<And>x m'. x \<in> set ds \<Longrightarrow> same_headers S m m' \<Longrightarrow> guard m' x = Some (P x)"
  shows "topo_loop t guard (\<lambda>d mb. if sel (fst mb) d then f d mb else Some mb) d (m, b)
    = for_each f (filter (sel m) (takeWhile P ds)) (m, b)"
proof -
  have "keeps_headers S (\<lambda>d mb. if sel (fst mb) d then f d mb else Some mb)"
    using assms(3) by (auto simp: keeps_headers_def)
  then have "topo_loop t guard (\<lambda>d mb. if sel (fst mb) d then f d mb else Some mb) d (m, b)
      = for_each (\<lambda>d mb. if sel (fst mb) d then f d mb else Some mb) (takeWhile P ds) (m, b)"
    by (rule topo_loop_chain [OF assms(1,2)]) (rule assms(4))
  also have "\<dots> = for_each f (filter (sel m) (takeWhile P ds)) (m, b)"
    by (rule for_each_select [OF assms(3)]) (use assms(2) in \<open>auto dest: set_takeWhileD\<close>)
  finally show ?thesis .
qed

lemma walk_all:
  assumes "peer_chain m t d ds" and "set ds \<subseteq> S" and "keeps_headers S f"
  shows "topo_loop t (\<lambda>_ _. Some True) (\<lambda>d mb. if sel (fst mb) d then f d mb else Some mb) d (m, b)
    = for_each f (filter (sel m) ds) (m, b)"
proof -
  have "takeWhile (\<lambda>_. True) ds = ds" by simp
  then show ?thesis
    using walk_selected [OF assms, of "\<lambda>_ _. Some True" "\<lambda>_. True" b] by (simp only: simp_thms)
qed

end

interpretation descriptor_sel: header_predicate "descriptor_selected i e" for i e
  by unfold_locales (simp add: descriptor_selected_def same_header_fields)

interpretation wrapper_sel: header_predicate "wrapper_selected fl" for fl
  by unfold_locales (simp add: wrapper_selected_def same_header_fields)

interpretation engine_sel: header_predicate "engine_selected fl" for fl
  by unfold_locales (simp add: engine_selected_def PcieLibIsEngineAllocated_def same_header_fields)

text \<open>Looking for a parent inside a set of descriptors closed under the parent offsets.\<close>

definition parent_closed :: "memory \<Rightarrow> u32 \<Rightarrow> nat set \<Rightarrow> bool" where
  "parent_closed m Type S \<longleftrightarrow>
     (\<forall>d\<in>S. DescriptorFlags m d AND Type = 0 \<and> desc_Parent m d \<noteq> 0 \<longrightarrow> d - desc_Parent m d \<in> S)"

lemma get_parent_same_headers:
  assumes "PcieConfigGetParent m Type d = Some p" and "d \<in> S" and "parent_closed m Type S"
    and "same_headers S m m'"
  shows "PcieConfigGetParent m' Type d = Some p"
proof -
  have "d \<in> S \<longrightarrow> parent_closed m Type S \<longrightarrow> same_headers S m m' \<longrightarrow>
      PcieConfigGetParent m' Type d = Some p"
  proof (rule PcieConfigGetParent.raw_induct [OF _ assms(1), where P = "\<lambda>m Type d p. d \<in> S \<longrightarrow>
        parent_closed m Type S \<longrightarrow> same_headers S m m' \<longrightarrow> PcieConfigGetParent m' Type d = Some p"], goal_cases)
    case (1 f m Type d p)
    show ?case
    proof (intro impI)
      assume h: "d \<in> S" "parent_closed m Type S" "same_headers S m m'"
      note e = same_header_fields [OF h(3,1)]
      show "PcieConfigGetParent m' Type d = Some p"
      proof (cases "DescriptorFlags m d AND Type = 0 \<and> desc_Parent m d \<noteq> 0")
        case True
        then have "d - desc_Parent m d \<in> S" using h by (auto simp: parent_closed_def)
        then have "PcieConfigGetParent m' Type (d - desc_Parent m d) = Some p" using 1 True h by auto
        then show ?thesis using True by (subst PcieConfigGetParent.simps) (simp add: e)
      next
        case False
        then show ?thesis using 1(2) by (subst PcieConfigGetParent.simps) (auto simp: e split: if_splits)
      qed
    qed
  qed
  then show ?thesis using assms by blast
qed

end
