(* ===== verification/Nbio_Smn.thy ===== *)
theory Nbio_Smn
  imports Nbio_Topology Sil_Pci
begin

text \<open>
  The register tables of NBIO (\<^verbatim>\<open>NbioSmnTable.h\<close>, \<^verbatim>\<open>NbioSmnTable.c\<close>): arrays of 32-bit words that describe writes and
  read-modify-writes of SMN registers, some of them under a condition on a set of properties. The interpreter
  reads the array from byte memory; a table is also given as the list of its entries, \<open>smn_table\<close> turns that
  into the words of the array.
\<close>

section \<open>Root complexes\<close>

text \<open>Further fields of \<^verbatim>\<open>GNB_HANDLE\<close>.\<close>

definition gnb_DieNumber :: "memory \<Rightarrow> nat \<Rightarrow> u8" where "gnb_DieNumber m d = m (d + 11)"
definition RBIndex :: "memory \<Rightarrow> nat \<Rightarrow> u8" where "RBIndex m d = m (d + 12)"
definition SbPresent :: "memory \<Rightarrow> nat \<Rightarrow> bool" where "SbPresent m d \<longleftrightarrow> bit (m (d + 23)) 0"

definition gnb_Segment :: "memory \<Rightarrow> nat \<Rightarrow> u32" where "gnb_Segment m d = addr_Segment (gnb_Address m d)"
definition gnb_Bus :: "memory \<Rightarrow> nat \<Rightarrow> u32" where "gnb_Bus m d = addr_Bus (gnb_Address m d)"

definition NBIO_SPACE :: "memory \<Rightarrow> nat \<Rightarrow> u32 \<Rightarrow> u32" where
  "NBIO_SPACE m GnbHandle ADDRESS = ADDRESS + push_bit 20 (ucast (RBIndex m GnbHandle))"

section \<open>The interpreter\<close>

definition SmnEntryWr :: u8 where "SmnEntryWr = 0"
definition SmnEntryRmw :: u8 where "SmnEntryRmw = 1"
definition SmnEntryPropertyWr :: u8 where "SmnEntryPropertyWr = 2"
definition SmnEntryPropertyRmw :: u8 where "SmnEntryPropertyRmw = 3"
definition SmnTableEntry :: u8 where "SmnTableEntry = 4"
definition SmnTableEntryProperty :: u8 where "SmnTableEntryProperty = 5"
definition SmnEntryTerminate :: u8 where "SmnEntryTerminate = 0xFF"

lemmas smn_type_defs = SmnEntryWr_def SmnEntryRmw_def SmnEntryPropertyWr_def SmnEntryPropertyRmw_def
  SmnTableEntry_def SmnTableEntryProperty_def SmnEntryTerminate_def

definition has_property :: "memory \<Rightarrow> nat \<Rightarrow> u32 \<Rightarrow> bool" where
  "has_property m p Properties \<longleftrightarrow> Properties AND read32 m (p + 4) = read32 m (p + 4)"

text \<open>
  What the loop does next after an entry: it stops, goes on at an address, or first runs another table. The
  structures of the entries have 12, 16, 16 and 20 bytes; those of a table within a table have a pointer at
  offset 8.
\<close>

datatype 'h smn_next = SmnStop SIL_STATUS | SmnGo nat 'h | SmnNested nat nat 'h

definition smn_step ::
  "bool \<Rightarrow> 'h pci_ops \<Rightarrow> memory \<Rightarrow> nat \<Rightarrow> u32 \<Rightarrow> u32 \<Rightarrow> nat \<Rightarrow> 'h \<Rightarrow> 'h smn_next option" where
  "smn_step dbg ops m GnbHandle Modifier Properties p h =
     (let seg = gnb_Segment m GnbHandle; bus = gnb_Bus m GnbHandle; has = has_property m p Properties
      in if m p = SmnEntryTerminate then Some (SmnStop SilPass)
         else if m p = SmnEntryWr then
           Some (SmnGo (p + 12) (xUSLSmnWrite ops seg bus (read32 m (p + 4) + Modifier) (read32 m (p + 8)) h))
         else if m p = SmnEntryRmw then
           Some (SmnGo (p + 16) (xUSLSmnReadModifyWrite ops seg bus (read32 m (p + 4) + Modifier) (NOT (read32 m (p + 8)))
                                   (read32 m (p + 12)) h))
         else if m p = SmnEntryPropertyWr then
           Some (SmnGo (p + 16) (if has then xUSLSmnWrite ops seg bus (read32 m (p + 8) + Modifier) (read32 m (p + 12)) h else h))
         else if m p = SmnEntryPropertyRmw then
           Some (SmnGo (p + 20) (if has
                                 then xUSLSmnReadModifyWrite ops seg bus (read32 m (p + 8) + Modifier) (NOT (read32 m (p + 12)))
                                        (read32 m (p + 16)) h
                                 else h))
         else if m p = SmnTableEntry then Some (SmnNested (unat (read64 m (p + 8))) (p + 16) h)
         else if m p = SmnTableEntryProperty then
           Some (if has then SmnNested (unat (read64 m (p + 8))) (p + 16) h else SmnGo (p + 16) h)
         else do { c_assert dbg False; Some (SmnStop SilInvalidParameter) })"

text \<open>The status of a table within a table is dropped.\<close>

partial_function (option) ProgramNbioSmnTable ::
  "bool \<Rightarrow> 'h pci_ops \<Rightarrow> memory \<Rightarrow> nat \<Rightarrow> nat \<Rightarrow> u32 \<Rightarrow> u32 \<Rightarrow> 'h \<Rightarrow> (SIL_STATUS \<times> 'h) option" where
  "ProgramNbioSmnTable dbg ops m GnbHandle p Modifier Properties h =
     do { n \<leftarrow> smn_step dbg ops m GnbHandle Modifier Properties p h;
          case n of
            SmnStop st \<Rightarrow> Some (st, h)
          | SmnGo p h \<Rightarrow> ProgramNbioSmnTable dbg ops m GnbHandle p Modifier Properties h
          | SmnNested Table p h \<Rightarrow>
              do { r \<leftarrow> ProgramNbioSmnTable dbg ops m GnbHandle Table Modifier Properties h;
                   ProgramNbioSmnTable dbg ops m GnbHandle p Modifier Properties (snd r) } }"

section \<open>Tables as lists of entries\<close>

text \<open>The macros that write an entry; no table of the repository contains another one.\<close>

datatype smn_entry =
  SMN_ENTRY_WR u32 u32
| SMN_ENTRY_RMW u32 u32 u32
| SMN_ENTRY_PROPERTY_WR u32 u32 u32
| SMN_ENTRY_PROPERTY_RMW u32 u32 u32 u32

fun smn_words :: "smn_entry \<Rightarrow> u32 list" where
  "smn_words (SMN_ENTRY_WR Address Value) = [0, Address, Value]"
| "smn_words (SMN_ENTRY_RMW Address AndMask OrMask) = [1, Address, AndMask, OrMask]"
| "smn_words (SMN_ENTRY_PROPERTY_WR Prop Address Value) = [2, Prop, Address, Value]"
| "smn_words (SMN_ENTRY_PROPERTY_RMW Prop Address AndMask OrMask) = [3, Prop, Address, AndMask, OrMask]"

definition SMN_ENTRY_TERMINATE :: u32 where "SMN_ENTRY_TERMINATE = 0xFF"

definition smn_table :: "smn_entry list \<Rightarrow> u32 list" where
  "smn_table es = concat (map smn_words es) @ [SMN_ENTRY_TERMINATE]"

text \<open>The words lie in memory from address \<open>a\<close>.\<close>

primrec words_at :: "memory \<Rightarrow> nat \<Rightarrow> u32 list \<Rightarrow> bool" where
  "words_at m a [] = True"
| "words_at m a (w # ws) = (read32 m a = w \<and> words_at m (a + 4) ws)"

lemma words_at_append: "words_at m a (xs @ ys) \<longleftrightarrow> words_at m a xs \<and> words_at m (a + 4 * length xs) ys"
  by (induction xs arbitrary: a) (simp_all add: add.assoc)

lemma low_byte: "m a = ucast (read32 m a)"
proof -
  obtain k where k: "read_le 4 m a = unat (m a) + 256 * k" by (metis eval_nat_numeral(2) numeral_eq_Suc read_le.simps(2))
  have "ucast (read32 m a) = (of_nat (read_le 4 m a) :: u8)"
    by (simp add: read32_def unsigned_of_nat word_of_nat_eq_iff)
  also have "\<dots> = of_nat (unat (m a))" unfolding k by (simp only: word_of_nat_eq_iff take_bit_eq_mod) simp
  finally show ?thesis by simp
qed

lemma entry_type: "read32 m a = w \<Longrightarrow> m a = ucast w"
  using low_byte [of m a] by simp

text \<open>What an entry asks for: the register, the bits to clear and the bits to set.\<close>

fun smn_update :: "u32 \<Rightarrow> smn_entry \<Rightarrow> (u32 \<times> u32 \<times> u32) option" where
  "smn_update P (SMN_ENTRY_WR a v) = Some (a, - 1, v)"
| "smn_update P (SMN_ENTRY_RMW a am om) = Some (a, am, om)"
| "smn_update P (SMN_ENTRY_PROPERTY_WR p a v) = (if P AND p = p then Some (a, - 1, v) else None)"
| "smn_update P (SMN_ENTRY_PROPERTY_RMW p a am om) = (if P AND p = p then Some (a, am, om) else None)"

text \<open>A list of updates of one register after the other.\<close>

definition smn_regs :: "u32 \<Rightarrow> u32 \<Rightarrow> smn_entry list \<Rightarrow> (u32 \<Rightarrow> u32) \<Rightarrow> u32 \<Rightarrow> u32" where
  "smn_regs Modifier P es r0 =
     fold (\<lambda>(a, am, om) r. r(a + Modifier := (r (a + Modifier) AND NOT am) OR om)) (List.map_filter (smn_update P) es) r0"

section \<open>The meaning of a table\<close>

fun smn_apply :: "'h pci_ops \<Rightarrow> u32 \<Rightarrow> u32 \<Rightarrow> u32 \<Rightarrow> u32 \<Rightarrow> smn_entry \<Rightarrow> 'h \<Rightarrow> 'h" where
  "smn_apply ops seg bus Modifier P (SMN_ENTRY_WR a v) h = xUSLSmnWrite ops seg bus (a + Modifier) v h"
| "smn_apply ops seg bus Modifier P (SMN_ENTRY_RMW a am om) h = xUSLSmnReadModifyWrite ops seg bus (a + Modifier) (NOT am) om h"
| "smn_apply ops seg bus Modifier P (SMN_ENTRY_PROPERTY_WR p a v) h =
     (if P AND p = p then xUSLSmnWrite ops seg bus (a + Modifier) v h else h)"
| "smn_apply ops seg bus Modifier P (SMN_ENTRY_PROPERTY_RMW p a am om) h =
     (if P AND p = p then xUSLSmnReadModifyWrite ops seg bus (a + Modifier) (NOT am) om h else h)"

lemma smn_step_entry:
  assumes "words_at m p (smn_words e)"
  shows "smn_step dbg ops m g Modifier P p h =
    Some (SmnGo (p + 4 * length (smn_words e)) (smn_apply ops (gnb_Segment m g) (gnb_Bus m g) Modifier P e h))"
  using assms
  by (cases e) (auto simp: smn_step_def has_property_def smn_type_defs entry_type add.assoc)

text \<open>On the words of a table the interpreter passes and applies the entries in their order.\<close>

lemma program_entries:
  assumes "words_at m p (smn_table es)"
  shows "ProgramNbioSmnTable dbg ops m g p Modifier P h =
    Some (SilPass, fold (smn_apply ops (gnb_Segment m g) (gnb_Bus m g) Modifier P) es h)"
  using assms
proof (induction es arbitrary: p h)
  case Nil
  then have "m p = SmnEntryTerminate"
    using entry_type [of m p SMN_ENTRY_TERMINATE] by (simp add: smn_table_def SMN_ENTRY_TERMINATE_def SmnEntryTerminate_def)
  then show ?case by (subst ProgramNbioSmnTable.simps) (simp add: smn_step_def)
next
  case (Cons e es)
  then have "words_at m p (smn_words e)" "words_at m (p + 4 * length (smn_words e)) (smn_table es)"
    by (simp_all add: smn_table_def words_at_append)
  then show ?case using Cons.IH by (subst ProgramNbioSmnTable.simps) (simp add: smn_step_entry)
qed

end
