(* ===== verification/Nbio_Regs.thy ===== *)
theory Nbio_Regs
  imports Sil_Bitfield
begin

text \<open>
  The addresses, masks and field offsets of the NBIO registers that the configuration tables and the base
  initialisation use, from the register headers under \<^verbatim>\<open>xUSL/NBIO/IOD/include\<close>, and the conditions of table entries.
  Offsets are shift distances and have type \<^typ>\<open>nat\<close>.
\<close>

section \<open>\<^verbatim>\<open>GnbDxio.h\<close>\<close>

definition SILICON_NOT_PRESENT_NBIF0 :: u32 where "SILICON_NOT_PRESENT_NBIF0 = 4"
definition SILICON_NOT_PRESENT_NBIF1 :: u32 where "SILICON_NOT_PRESENT_NBIF1 = 8"
definition SILICON_NOT_PRESENT_NBIF2 :: u32 where "SILICON_NOT_PRESENT_NBIF2 = 0x10"
definition SILICON_NOT_PRESENT_SDPMUX :: u32 where "SILICON_NOT_PRESENT_SDPMUX = 0x4000"
definition SILICON_NOT_PRESENT_SST :: u32 where "SILICON_NOT_PRESENT_SST = 0x8000"
definition PCIE_FUNCTION2 :: nat where "PCIE_FUNCTION2 = 2"

section \<open>\<^verbatim>\<open>NbioIommu.c\<close>\<close>

definition SIZE_512KB :: u32 where "SIZE_512KB = 0x80000"
definition SMN_IOAGR_L1_INTRPT_ORDER_CTRL_ADDRESS_A0 :: u32 where "SMN_IOAGR_L1_INTRPT_ORDER_CTRL_ADDRESS_A0 = 0x153001FC"

section \<open>\<^verbatim>\<open>IoagrReg.h\<close>\<close>

definition SIL_RESERVED_78 :: nat where "SIL_RESERVED_78 = 22"
definition SIL_RESERVED_77 :: u32 where "SIL_RESERVED_77 = 0x400000"
definition IOAGR_GLUE_CG_LCLK_CTRL_0_SOFT_OVERRIDE_CLK8_OFFSET :: nat where "IOAGR_GLUE_CG_LCLK_CTRL_0_SOFT_OVERRIDE_CLK8_OFFSET = 23"
definition SIL_RESERVED_76 :: u32 where "SIL_RESERVED_76 = 0x800000"
definition SIL_RESERVED_75 :: nat where "SIL_RESERVED_75 = 24"
definition SIL_RESERVED_74 :: u32 where "SIL_RESERVED_74 = 0x1000000"
definition SIL_RESERVED_73 :: nat where "SIL_RESERVED_73 = 25"
definition SIL_RESERVED_72 :: u32 where "SIL_RESERVED_72 = 0x2000000"
definition SIL_RESERVED_71 :: nat where "SIL_RESERVED_71 = 26"
definition SIL_RESERVED_70 :: u32 where "SIL_RESERVED_70 = 0x4000000"
definition SIL_RESERVED_69 :: nat where "SIL_RESERVED_69 = 27"
definition SIL_RESERVED_68 :: u32 where "SIL_RESERVED_68 = 0x8000000"
definition SIL_RESERVED_67 :: nat where "SIL_RESERVED_67 = 28"
definition SIL_RESERVED_66 :: u32 where "SIL_RESERVED_66 = 0x10000000"
definition SIL_RESERVED_65 :: nat where "SIL_RESERVED_65 = 29"
definition IOAGR_GLUE_CG_LCLK_CTRL_0_SOFT_OVERRIDE_CLK2_MASK :: u32 where "IOAGR_GLUE_CG_LCLK_CTRL_0_SOFT_OVERRIDE_CLK2_MASK = 0x20000000"
definition SIL_RESERVED_64 :: nat where "SIL_RESERVED_64 = 30"
definition IOAGR_GLUE_CG_LCLK_CTRL_0_SOFT_OVERRIDE_CLK1_MASK :: u32 where "IOAGR_GLUE_CG_LCLK_CTRL_0_SOFT_OVERRIDE_CLK1_MASK = 0x40000000"
definition SIL_RESERVED_63 :: nat where "SIL_RESERVED_63 = 31"
definition SIL_RESERVED_62 :: u32 where "SIL_RESERVED_62 = 0x80000000"
definition SIL_RESERVED_728 :: u32 where "SIL_RESERVED_728 = 0x15B00000"
definition SIL_RESERVED_93 :: nat where "SIL_RESERVED_93 = 22"
definition IOAGR_GLUE_CG_LCLK_CTRL_1_SOFT_OVERRIDE_CLK9_MASK :: u32 where "IOAGR_GLUE_CG_LCLK_CTRL_1_SOFT_OVERRIDE_CLK9_MASK = 0x400000"
definition SIL_RESERVED_92 :: nat where "SIL_RESERVED_92 = 23"
definition SIL_RESERVED_91 :: u32 where "SIL_RESERVED_91 = 0x800000"
definition SIL_RESERVED_90 :: nat where "SIL_RESERVED_90 = 24"
definition IOAGR_GLUE_CG_LCLK_CTRL_1_SOFT_OVERRIDE_CLK7_MASK :: u32 where "IOAGR_GLUE_CG_LCLK_CTRL_1_SOFT_OVERRIDE_CLK7_MASK = 0x1000000"
definition SIL_RESERVED_89 :: nat where "SIL_RESERVED_89 = 25"
definition SIL_RESERVED_88 :: u32 where "SIL_RESERVED_88 = 0x2000000"
definition SIL_RESERVED_87 :: nat where "SIL_RESERVED_87 = 26"
definition IOAGR_GLUE_CG_LCLK_CTRL_1_SOFT_OVERRIDE_CLK5_MASK :: u32 where "IOAGR_GLUE_CG_LCLK_CTRL_1_SOFT_OVERRIDE_CLK5_MASK = 0x4000000"
definition SIL_RESERVED_86 :: nat where "SIL_RESERVED_86 = 27"
definition SIL_RESERVED_85 :: u32 where "SIL_RESERVED_85 = 0x8000000"
definition SIL_RESERVED_84 :: nat where "SIL_RESERVED_84 = 28"
definition SIL_RESERVED_83 :: u32 where "SIL_RESERVED_83 = 0x10000000"
definition SIL_RESERVED_82 :: nat where "SIL_RESERVED_82 = 29"
definition SIL_RESERVED_81 :: u32 where "SIL_RESERVED_81 = 0x20000000"
definition SIL_RESERVED_80 :: nat where "SIL_RESERVED_80 = 30"
definition IOAGR_GLUE_CG_LCLK_CTRL_1_SOFT_OVERRIDE_CLK1_MASK :: u32 where "IOAGR_GLUE_CG_LCLK_CTRL_1_SOFT_OVERRIDE_CLK1_MASK = 0x40000000"
definition SIL_RESERVED_79 :: nat where "SIL_RESERVED_79 = 31"
definition IOAGR_GLUE_CG_LCLK_CTRL_1_SOFT_OVERRIDE_CLK0_MASK :: u32 where "IOAGR_GLUE_CG_LCLK_CTRL_1_SOFT_OVERRIDE_CLK0_MASK = 0x80000000"
definition SIL_RESERVED_729 :: u32 where "SIL_RESERVED_729 = 0x15B00004"
definition SIL_RESERVED_538 :: u32 where "SIL_RESERVED_538 = 0x15B00410"
definition SMN_IOHUB0_N1NBIO0_IOAGR_SION_S0_Client_RdRsp_BurstTarget_Lower_ADDRESS :: u32 where "SMN_IOHUB0_N1NBIO0_IOAGR_SION_S0_Client_RdRsp_BurstTarget_Lower_ADDRESS = 0x15B00810"
definition SMN_IOHUB0_N2NBIO0_IOAGR_SION_S0_Client_RdRsp_BurstTarget_Lower_ADDRESS :: u32 where "SMN_IOHUB0_N2NBIO0_IOAGR_SION_S0_Client_RdRsp_BurstTarget_Lower_ADDRESS = 0x15B00C10"
definition SIL_RESERVED_646 :: u32 where "SIL_RESERVED_646 = 0x15B01010"
definition SIL_RESERVED_539 :: u32 where "SIL_RESERVED_539 = 0x15B00414"
definition SIL_RESERVED_572 :: u32 where "SIL_RESERVED_572 = 0x15B00814"
definition SIL_RESERVED_611 :: u32 where "SIL_RESERVED_611 = 0x15B00C14"
definition SMN_IOHUB0_N3NBIO0_IOAGR_SION_S0_Client_RdRsp_BurstTarget_Upper_ADDRESS :: u32 where "SMN_IOHUB0_N3NBIO0_IOAGR_SION_S0_Client_RdRsp_BurstTarget_Upper_ADDRESS = 0x15B01014"
definition SIL_RESERVED_540 :: u32 where "SIL_RESERVED_540 = 0x15B00400"
definition SIL_RESERVED_573 :: u32 where "SIL_RESERVED_573 = 0x15B00800"
definition SIL_RESERVED_612 :: u32 where "SIL_RESERVED_612 = 0x15B00C00"
definition SIL_RESERVED_647 :: u32 where "SIL_RESERVED_647 = 0x15B01000"
definition SIL_RESERVED_541 :: u32 where "SIL_RESERVED_541 = 0x15B00404"
definition SIL_RESERVED_574 :: u32 where "SIL_RESERVED_574 = 0x15B00804"
definition SMN_IOHUB0_N2NBIO0_IOAGR_SION_S0_Client_Req_BurstTarget_Upper_ADDRESS :: u32 where "SMN_IOHUB0_N2NBIO0_IOAGR_SION_S0_Client_Req_BurstTarget_Upper_ADDRESS = 0x15B00C04"
definition SIL_RESERVED_648 :: u32 where "SIL_RESERVED_648 = 0x15B01004"
definition SIL_RESERVED_542 :: u32 where "SIL_RESERVED_542 = 0x15B00408"
definition SIL_RESERVED_575 :: u32 where "SIL_RESERVED_575 = 0x15B00808"
definition SIL_RESERVED_613 :: u32 where "SIL_RESERVED_613 = 0x15B00C08"
definition SMN_IOHUB0_N3NBIO0_IOAGR_SION_S0_Client_Req_TimeSlot_Lower_ADDRESS :: u32 where "SMN_IOHUB0_N3NBIO0_IOAGR_SION_S0_Client_Req_TimeSlot_Lower_ADDRESS = 0x15B01008"
definition SMN_IOHUB0_N0NBIO0_IOAGR_SION_S0_Client_Req_TimeSlot_Upper_ADDRESS :: u32 where "SMN_IOHUB0_N0NBIO0_IOAGR_SION_S0_Client_Req_TimeSlot_Upper_ADDRESS = 0x15B0040C"
definition SIL_RESERVED_576 :: u32 where "SIL_RESERVED_576 = 0x15B0080C"
definition SIL_RESERVED_614 :: u32 where "SIL_RESERVED_614 = 0x15B00C0C"
definition SIL_RESERVED_649 :: u32 where "SIL_RESERVED_649 = 0x15B0100C"
definition SIL_RESERVED_543 :: u32 where "SIL_RESERVED_543 = 0x15B00440"
definition SIL_RESERVED_577 :: u32 where "SIL_RESERVED_577 = 0x15B00840"
definition SIL_RESERVED_615 :: u32 where "SIL_RESERVED_615 = 0x15B00C40"
definition SMN_IOHUB0_N3NBIO0_IOAGR_SION_S1_Client_RdRsp_BurstTarget_Lower_ADDRESS :: u32 where "SMN_IOHUB0_N3NBIO0_IOAGR_SION_S1_Client_RdRsp_BurstTarget_Lower_ADDRESS = 0x15B01040"
definition SIL_RESERVED_544 :: u32 where "SIL_RESERVED_544 = 0x15B00444"
definition SIL_RESERVED_578 :: u32 where "SIL_RESERVED_578 = 0x15B00844"
definition SIL_RESERVED_616 :: u32 where "SIL_RESERVED_616 = 0x15B00C44"
definition SMN_IOHUB0_N3NBIO0_IOAGR_SION_S1_Client_RdRsp_BurstTarget_Upper_ADDRESS :: u32 where "SMN_IOHUB0_N3NBIO0_IOAGR_SION_S1_Client_RdRsp_BurstTarget_Upper_ADDRESS = 0x15B01044"
definition SMN_IOHUB0_N0NBIO0_IOAGR_SION_S1_Client_Req_BurstTarget_Lower_ADDRESS :: u32 where "SMN_IOHUB0_N0NBIO0_IOAGR_SION_S1_Client_Req_BurstTarget_Lower_ADDRESS = 0x15B00430"
definition SIL_RESERVED_579 :: u32 where "SIL_RESERVED_579 = 0x15B00830"
definition SMN_IOHUB0_N2NBIO0_IOAGR_SION_S1_Client_Req_BurstTarget_Lower_ADDRESS :: u32 where "SMN_IOHUB0_N2NBIO0_IOAGR_SION_S1_Client_Req_BurstTarget_Lower_ADDRESS = 0x15B00C30"
definition SIL_RESERVED_650 :: u32 where "SIL_RESERVED_650 = 0x15B01030"
definition SIL_RESERVED_545 :: u32 where "SIL_RESERVED_545 = 0x15B00434"
definition SIL_RESERVED_580 :: u32 where "SIL_RESERVED_580 = 0x15B00834"
definition SIL_RESERVED_617 :: u32 where "SIL_RESERVED_617 = 0x15B00C34"
definition SIL_RESERVED_651 :: u32 where "SIL_RESERVED_651 = 0x15B01034"

section \<open>\<^verbatim>\<open>IoapicReg.h\<close>\<close>

definition IOAPIC_BR_INTERRUPT_ROUTING_Br_ext_Intr_grp_OFFSET :: nat where "IOAPIC_BR_INTERRUPT_ROUTING_Br_ext_Intr_grp_OFFSET = 0"
definition IOAPIC_BR_INTERRUPT_ROUTING_Br_ext_Intr_grp_MASK :: u32 where "IOAPIC_BR_INTERRUPT_ROUTING_Br_ext_Intr_grp_MASK = 7"
definition IOAPIC_BR_INTERRUPT_ROUTING_Br_ext_Intr_swz_OFFSET :: nat where "IOAPIC_BR_INTERRUPT_ROUTING_Br_ext_Intr_swz_OFFSET = 4"
definition IOAPIC_BR_INTERRUPT_ROUTING_Br_ext_Intr_swz_MASK :: u32 where "IOAPIC_BR_INTERRUPT_ROUTING_Br_ext_Intr_swz_MASK = 0x30"
definition IOAPIC_BR_INTERRUPT_ROUTING_Br_ext_Intr_map_OFFSET :: nat where "IOAPIC_BR_INTERRUPT_ROUTING_Br_ext_Intr_map_OFFSET = 16"
definition IOAPIC_BR_INTERRUPT_ROUTING_Br_ext_Intr_map_MASK :: u32 where "IOAPIC_BR_INTERRUPT_ROUTING_Br_ext_Intr_map_MASK = 0x1F0000"
definition SMN_IOHUB0_N0NBIO0_IOAPIC_BR_INTERRUPT_ROUTING_ADDRESS :: u32 where "SMN_IOHUB0_N0NBIO0_IOAPIC_BR_INTERRUPT_ROUTING_ADDRESS = 0x14300040"
definition SMN_IOHUB0_N1NBIO0_IOAPIC_BR_INTERRUPT_ROUTING_ADDRESS :: u32 where "SMN_IOHUB0_N1NBIO0_IOAPIC_BR_INTERRUPT_ROUTING_ADDRESS = 0x14300044"
definition SIL_RESERVED_618 :: u32 where "SIL_RESERVED_618 = 0x14300048"
definition SMN_IOHUB0_N3NBIO0_IOAPIC_BR_INTERRUPT_ROUTING_ADDRESS :: u32 where "SMN_IOHUB0_N3NBIO0_IOAPIC_BR_INTERRUPT_ROUTING_ADDRESS = 0x1430004C"
definition SMN_IOHUB0_N4NBIO0_IOAPIC_BR_INTERRUPT_ROUTING_ADDRESS :: u32 where "SMN_IOHUB0_N4NBIO0_IOAPIC_BR_INTERRUPT_ROUTING_ADDRESS = 0x14300050"
definition SMN_IOHUB0_N5NBIO0_IOAPIC_BR_INTERRUPT_ROUTING_ADDRESS :: u32 where "SMN_IOHUB0_N5NBIO0_IOAPIC_BR_INTERRUPT_ROUTING_ADDRESS = 0x14300054"
definition SIL_RESERVED_719 :: u32 where "SIL_RESERVED_719 = 0x14300058"
definition SMN_IOHUB0_N7NBIO0_IOAPIC_BR_INTERRUPT_ROUTING_ADDRESS :: u32 where "SMN_IOHUB0_N7NBIO0_IOAPIC_BR_INTERRUPT_ROUTING_ADDRESS = 0x1430005C"
definition SMN_IOHUB0_N8NBIO0_IOAPIC_BR_INTERRUPT_ROUTING_ADDRESS :: u32 where "SMN_IOHUB0_N8NBIO0_IOAPIC_BR_INTERRUPT_ROUTING_ADDRESS = 0x14300060"
definition SMN_IOHUB0_N9NBIO0_IOAPIC_BR_INTERRUPT_ROUTING_ADDRESS :: u32 where "SMN_IOHUB0_N9NBIO0_IOAPIC_BR_INTERRUPT_ROUTING_ADDRESS = 0x14300064"
definition SMN_IOHUB0_N10NBIO0_IOAPIC_BR_INTERRUPT_ROUTING_ADDRESS :: u32 where "SMN_IOHUB0_N10NBIO0_IOAPIC_BR_INTERRUPT_ROUTING_ADDRESS = 0x14300068"
definition SMN_IOHUB0_N11NBIO0_IOAPIC_BR_INTERRUPT_ROUTING_ADDRESS :: u32 where "SMN_IOHUB0_N11NBIO0_IOAPIC_BR_INTERRUPT_ROUTING_ADDRESS = 0x1430006C"
definition SMN_IOHUB0_N12NBIO0_IOAPIC_BR_INTERRUPT_ROUTING_ADDRESS :: u32 where "SMN_IOHUB0_N12NBIO0_IOAPIC_BR_INTERRUPT_ROUTING_ADDRESS = 0x14300070"
definition SMN_IOHUB0_N13NBIO0_IOAPIC_BR_INTERRUPT_ROUTING_ADDRESS :: u32 where "SMN_IOHUB0_N13NBIO0_IOAPIC_BR_INTERRUPT_ROUTING_ADDRESS = 0x14300074"
definition SMN_IOHUB0_N14NBIO0_IOAPIC_BR_INTERRUPT_ROUTING_ADDRESS :: u32 where "SMN_IOHUB0_N14NBIO0_IOAPIC_BR_INTERRUPT_ROUTING_ADDRESS = 0x14300078"
definition SMN_IOHUB0_N15NBIO0_IOAPIC_BR_INTERRUPT_ROUTING_ADDRESS :: u32 where "SMN_IOHUB0_N15NBIO0_IOAPIC_BR_INTERRUPT_ROUTING_ADDRESS = 0x1430007C"
definition SMN_IOHUB0_N16NBIO0_IOAPIC_BR_INTERRUPT_ROUTING_ADDRESS :: u32 where "SMN_IOHUB0_N16NBIO0_IOAPIC_BR_INTERRUPT_ROUTING_ADDRESS = 0x14300080"
definition SMN_IOHUB0_N17NBIO0_IOAPIC_BR_INTERRUPT_ROUTING_ADDRESS :: u32 where "SMN_IOHUB0_N17NBIO0_IOAPIC_BR_INTERRUPT_ROUTING_ADDRESS = 0x14300084"
definition SMN_IOHUB0_N18NBIO0_IOAPIC_BR_INTERRUPT_ROUTING_ADDRESS :: u32 where "SMN_IOHUB0_N18NBIO0_IOAPIC_BR_INTERRUPT_ROUTING_ADDRESS = 0x14300088"
definition SMN_IOHUB0_N19NBIO0_IOAPIC_BR_INTERRUPT_ROUTING_ADDRESS :: u32 where "SMN_IOHUB0_N19NBIO0_IOAPIC_BR_INTERRUPT_ROUTING_ADDRESS = 0x1430008C"
definition SMN_IOHUB0_N20NBIO0_IOAPIC_BR_INTERRUPT_ROUTING_ADDRESS :: u32 where "SMN_IOHUB0_N20NBIO0_IOAPIC_BR_INTERRUPT_ROUTING_ADDRESS = 0x14300090"
definition SMN_IOHUB0_N21NBIO0_IOAPIC_BR_INTERRUPT_ROUTING_ADDRESS :: u32 where "SMN_IOHUB0_N21NBIO0_IOAPIC_BR_INTERRUPT_ROUTING_ADDRESS = 0x14300094"
definition SMN_IOHUB0_N22NBIO0_IOAPIC_BR_INTERRUPT_ROUTING_ADDRESS :: u32 where "SMN_IOHUB0_N22NBIO0_IOAPIC_BR_INTERRUPT_ROUTING_ADDRESS = 0x14300098"
definition SMN_IOHUB0_N23NBIO0_IOAPIC_BR_INTERRUPT_ROUTING_ADDRESS :: u32 where "SMN_IOHUB0_N23NBIO0_IOAPIC_BR_INTERRUPT_ROUTING_ADDRESS = 0x1430009C"
definition SIL_RESERVED_114 :: nat where "SIL_RESERVED_114 = 22"
definition SIL_RESERVED_113 :: u32 where "SIL_RESERVED_113 = 0x400000"
definition SIL_RESERVED_112 :: nat where "SIL_RESERVED_112 = 23"
definition SIL_RESERVED_111 :: u32 where "SIL_RESERVED_111 = 0x800000"
definition SIL_RESERVED_110 :: nat where "SIL_RESERVED_110 = 24"
definition SIL_RESERVED_109 :: u32 where "SIL_RESERVED_109 = 0x1000000"
definition SIL_RESERVED_108 :: nat where "SIL_RESERVED_108 = 25"
definition SIL_RESERVED_107 :: u32 where "SIL_RESERVED_107 = 0x2000000"
definition SIL_RESERVED_106 :: nat where "SIL_RESERVED_106 = 26"
definition SIL_RESERVED_105 :: u32 where "SIL_RESERVED_105 = 0x4000000"
definition SIL_RESERVED_104 :: nat where "SIL_RESERVED_104 = 27"
definition SIL_RESERVED_103 :: u32 where "SIL_RESERVED_103 = 0x8000000"
definition SIL_RESERVED_102 :: nat where "SIL_RESERVED_102 = 28"
definition SIL_RESERVED_101 :: u32 where "SIL_RESERVED_101 = 0x10000000"
definition SIL_RESERVED_100 :: nat where "SIL_RESERVED_100 = 29"
definition IOAPIC_GLUE_CG_LCLK_CTRL_0_SOFT_OVERRIDE_CLK2_MASK :: u32 where "IOAPIC_GLUE_CG_LCLK_CTRL_0_SOFT_OVERRIDE_CLK2_MASK = 0x20000000"
definition SIL_RESERVED_99 :: nat where "SIL_RESERVED_99 = 30"
definition SIL_RESERVED_98 :: u32 where "SIL_RESERVED_98 = 0x40000000"
definition SIL_RESERVED_97 :: nat where "SIL_RESERVED_97 = 31"
definition SIL_RESERVED_96 :: u32 where "SIL_RESERVED_96 = 0x80000000"
definition SIL_RESERVED_731 :: u32 where "SIL_RESERVED_731 = 0x14300100"
definition SMN_IOHUB0NBIO0_IOAPIC_ID_REGISTER_ADDRESS :: u32 where "SMN_IOHUB0NBIO0_IOAPIC_ID_REGISTER_ADDRESS = 0x2801000"

section \<open>\<^verbatim>\<open>IohcReg.h\<close>\<close>

definition SIL_RESERVED_53 :: u32 where "SIL_RESERVED_53 = 1"
definition SMN_IOHUB0NBIO0_CFG_IOHC_PCI_ADDRESS :: u32 where "SMN_IOHUB0NBIO0_CFG_IOHC_PCI_ADDRESS = 0x13B10034"
definition SMN_IOHUB0NBIO0_DBG_BASE_ADDR_HI_ADDRESS :: u32 where "SMN_IOHUB0NBIO0_DBG_BASE_ADDR_HI_ADDRESS = 0x13B102FC"
definition SMN_IOHUB0NBIO0_DBG_BASE_ADDR_LO_ADDRESS :: u32 where "SMN_IOHUB0NBIO0_DBG_BASE_ADDR_LO_ADDRESS = 0x13B102F8"
definition SMN_IOHUB0NBIO0_FASTREGCNTL_BASE_ADDR_HI_ADDRESS :: u32 where "SMN_IOHUB0NBIO0_FASTREGCNTL_BASE_ADDR_HI_ADDRESS = 0x13B1030C"
definition SMN_IOHUB0NBIO0_FASTREGCNTL_BASE_ADDR_LO_ADDRESS :: u32 where "SMN_IOHUB0NBIO0_FASTREGCNTL_BASE_ADDR_LO_ADDRESS = 0x13B10308"
definition SMN_IOHUB0NBIO0_FASTREG_BASE_ADDR_HI_ADDRESS :: u32 where "SMN_IOHUB0NBIO0_FASTREG_BASE_ADDR_HI_ADDRESS = 0x13B10304"
definition SMN_IOHUB0NBIO0_FASTREG_BASE_ADDR_LO_ADDRESS :: u32 where "SMN_IOHUB0NBIO0_FASTREG_BASE_ADDR_LO_ADDRESS = 0x13B10300"
definition SMN_IOHUB0NBIO0_IOAPIC_BASE_ADDR_HI_ADDRESS :: u32 where "SMN_IOHUB0NBIO0_IOAPIC_BASE_ADDR_HI_ADDRESS = 0x13B102F4"
definition SMN_IOHUB0NBIO0_IOAPIC_BASE_ADDR_LO_ADDRESS :: u32 where "SMN_IOHUB0NBIO0_IOAPIC_BASE_ADDR_LO_ADDRESS = 0x13B102F0"
definition IOHC_FEATURE_CNTL_P2P_mode_OFFSET :: nat where "IOHC_FEATURE_CNTL_P2P_mode_OFFSET = 1"
definition SMN_IOHUB0NBIO0_IOHC_FEATURE_CNTL_ADDRESS :: u32 where "SMN_IOHUB0NBIO0_IOHC_FEATURE_CNTL_ADDRESS = 0x13B10118"
definition SIL_RESERVED_155 :: nat where "SIL_RESERVED_155 = 22"
definition SIL_RESERVED_154 :: u32 where "SIL_RESERVED_154 = 0x400000"
definition SIL_RESERVED_153 :: nat where "SIL_RESERVED_153 = 23"
definition SIL_RESERVED_152 :: u32 where "SIL_RESERVED_152 = 0x800000"
definition SIL_RESERVED_151 :: nat where "SIL_RESERVED_151 = 24"
definition IOHC_GLUE_CG_LCLK_CTRL_0_SOFT_OVERRIDE_CLK7_MASK :: u32 where "IOHC_GLUE_CG_LCLK_CTRL_0_SOFT_OVERRIDE_CLK7_MASK = 0x1000000"
definition SIL_RESERVED_150 :: nat where "SIL_RESERVED_150 = 25"
definition SIL_RESERVED_149 :: u32 where "SIL_RESERVED_149 = 0x2000000"
definition SIL_RESERVED_148 :: nat where "SIL_RESERVED_148 = 26"
definition SIL_RESERVED_147 :: u32 where "SIL_RESERVED_147 = 0x4000000"
definition SIL_RESERVED_146 :: nat where "SIL_RESERVED_146 = 27"
definition SIL_RESERVED_145 :: u32 where "SIL_RESERVED_145 = 0x8000000"
definition SIL_RESERVED_144 :: nat where "SIL_RESERVED_144 = 28"
definition SIL_RESERVED_143 :: u32 where "SIL_RESERVED_143 = 0x10000000"
definition SIL_RESERVED_142 :: nat where "SIL_RESERVED_142 = 29"
definition SIL_RESERVED_141 :: u32 where "SIL_RESERVED_141 = 0x20000000"
definition SIL_RESERVED_140 :: nat where "SIL_RESERVED_140 = 30"
definition SIL_RESERVED_139 :: u32 where "SIL_RESERVED_139 = 0x40000000"
definition SIL_RESERVED_138 :: nat where "SIL_RESERVED_138 = 31"
definition SIL_RESERVED_137 :: u32 where "SIL_RESERVED_137 = 0x80000000"
definition SIL_RESERVED_732 :: u32 where "SIL_RESERVED_732 = 0x13B10088"
definition IOHC_GLUE_CG_LCLK_CTRL_1_SOFT_OVERRIDE_CLK9_OFFSET :: nat where "IOHC_GLUE_CG_LCLK_CTRL_1_SOFT_OVERRIDE_CLK9_OFFSET = 22"
definition SIL_RESERVED_172 :: u32 where "SIL_RESERVED_172 = 0x400000"
definition SIL_RESERVED_171 :: nat where "SIL_RESERVED_171 = 23"
definition SIL_RESERVED_170 :: u32 where "SIL_RESERVED_170 = 0x800000"
definition SIL_RESERVED_169 :: nat where "SIL_RESERVED_169 = 24"
definition SIL_RESERVED_168 :: u32 where "SIL_RESERVED_168 = 0x1000000"
definition SIL_RESERVED_167 :: nat where "SIL_RESERVED_167 = 25"
definition SIL_RESERVED_166 :: u32 where "SIL_RESERVED_166 = 0x2000000"
definition SIL_RESERVED_165 :: nat where "SIL_RESERVED_165 = 26"
definition SIL_RESERVED_164 :: u32 where "SIL_RESERVED_164 = 0x4000000"
definition SIL_RESERVED_163 :: nat where "SIL_RESERVED_163 = 27"
definition SIL_RESERVED_162 :: u32 where "SIL_RESERVED_162 = 0x8000000"
definition SIL_RESERVED_161 :: nat where "SIL_RESERVED_161 = 28"
definition SIL_RESERVED_160 :: u32 where "SIL_RESERVED_160 = 0x10000000"
definition SIL_RESERVED_159 :: nat where "SIL_RESERVED_159 = 29"
definition SIL_RESERVED_158 :: u32 where "SIL_RESERVED_158 = 0x20000000"
definition SIL_RESERVED_177 :: nat where "SIL_RESERVED_177 = 30"
definition SIL_RESERVED_157 :: u32 where "SIL_RESERVED_157 = 0x40000000"
definition SIL_RESERVED_156 :: nat where "SIL_RESERVED_156 = 31"
definition IOHC_GLUE_CG_LCLK_CTRL_1_SOFT_OVERRIDE_CLK0_MASK :: u32 where "IOHC_GLUE_CG_LCLK_CTRL_1_SOFT_OVERRIDE_CLK0_MASK = 0x80000000"
definition SIL_RESERVED_733 :: u32 where "SIL_RESERVED_733 = 0x13B1008C"
definition SIL_RESERVED_190 :: nat where "SIL_RESERVED_190 = 22"
definition SIL_RESERVED_189 :: u32 where "SIL_RESERVED_189 = 0x400000"
definition SIL_RESERVED_188 :: nat where "SIL_RESERVED_188 = 23"
definition SIL_RESERVED_187 :: u32 where "SIL_RESERVED_187 = 0x800000"
definition SIL_RESERVED_186 :: nat where "SIL_RESERVED_186 = 24"
definition IOHC_GLUE_CG_LCLK_CTRL_2_SOFT_OVERRIDE_CLK7_MASK :: u32 where "IOHC_GLUE_CG_LCLK_CTRL_2_SOFT_OVERRIDE_CLK7_MASK = 0x1000000"
definition IOHC_GLUE_CG_LCLK_CTRL_2_SOFT_OVERRIDE_CLK6_OFFSET :: nat where "IOHC_GLUE_CG_LCLK_CTRL_2_SOFT_OVERRIDE_CLK6_OFFSET = 25"
definition SIL_RESERVED_185 :: u32 where "SIL_RESERVED_185 = 0x2000000"
definition SIL_RESERVED_184 :: nat where "SIL_RESERVED_184 = 26"
definition SIL_RESERVED_183 :: u32 where "SIL_RESERVED_183 = 0x4000000"
definition SIL_RESERVED_182 :: nat where "SIL_RESERVED_182 = 27"
definition SIL_RESERVED_181 :: u32 where "SIL_RESERVED_181 = 0x8000000"
definition SIL_RESERVED_180 :: nat where "SIL_RESERVED_180 = 28"
definition SIL_RESERVED_179 :: u32 where "SIL_RESERVED_179 = 0x10000000"
definition SIL_RESERVED_178 :: nat where "SIL_RESERVED_178 = 29"
definition IOHC_GLUE_CG_LCLK_CTRL_2_SOFT_OVERRIDE_CLK2_MASK :: u32 where "IOHC_GLUE_CG_LCLK_CTRL_2_SOFT_OVERRIDE_CLK2_MASK = 0x20000000"
definition SIL_RESERVED_176 :: nat where "SIL_RESERVED_176 = 30"
definition SIL_RESERVED_175 :: u32 where "SIL_RESERVED_175 = 0x40000000"
definition SIL_RESERVED_174 :: nat where "SIL_RESERVED_174 = 31"
definition SIL_RESERVED_173 :: u32 where "SIL_RESERVED_173 = 0x80000000"
definition SIL_RESERVED_734 :: u32 where "SIL_RESERVED_734 = 0x13B10090"
definition IOHC_PCIE_CRS_Count_CrsDelayCount_OFFSET :: nat where "IOHC_PCIE_CRS_Count_CrsDelayCount_OFFSET = 0"
definition IOHC_PCIE_CRS_Count_CrsDelayCount_MASK :: u32 where "IOHC_PCIE_CRS_Count_CrsDelayCount_MASK = 0xFFFF"
definition IOHC_PCIE_CRS_Count_CrsLimitCount_OFFSET :: nat where "IOHC_PCIE_CRS_Count_CrsLimitCount_OFFSET = 16"
definition IOHC_PCIE_CRS_Count_CrsLimitCount_MASK :: u32 where "IOHC_PCIE_CRS_Count_CrsLimitCount_MASK = 0xFFF0000"
definition SMN_IOHUB0NBIO0_IOHC_PCIE_CRS_Count_ADDRESS :: u32 where "SMN_IOHUB0NBIO0_IOHC_PCIE_CRS_Count_ADDRESS = 0x13B10028"
definition IOHC_QOS_CONTROL_VC0QoSPriority_OFFSET :: nat where "IOHC_QOS_CONTROL_VC0QoSPriority_OFFSET = 0"
definition SIL_RESERVED_193 :: u32 where "SIL_RESERVED_193 = 0xF"
definition SIL_RESERVED_194 :: nat where "SIL_RESERVED_194 = 4"
definition IOHC_QOS_CONTROL_VC1QoSPriority_MASK :: u32 where "IOHC_QOS_CONTROL_VC1QoSPriority_MASK = 0xF0"
definition SIL_RESERVED_196 :: nat where "SIL_RESERVED_196 = 8"
definition SIL_RESERVED_195 :: u32 where "SIL_RESERVED_195 = 0xF00"
definition SIL_RESERVED_198 :: nat where "SIL_RESERVED_198 = 12"
definition SIL_RESERVED_197 :: u32 where "SIL_RESERVED_197 = 0xF000"
definition SIL_RESERVED_200 :: nat where "SIL_RESERVED_200 = 16"
definition SIL_RESERVED_199 :: u32 where "SIL_RESERVED_199 = 0xF0000"
definition SIL_RESERVED_201 :: nat where "SIL_RESERVED_201 = 20"
definition IOHC_QOS_CONTROL_VC5QoSPriority_MASK :: u32 where "IOHC_QOS_CONTROL_VC5QoSPriority_MASK = 0xF00000"
definition SIL_RESERVED_203 :: nat where "SIL_RESERVED_203 = 24"
definition SIL_RESERVED_202 :: u32 where "SIL_RESERVED_202 = 0xF000000"
definition SIL_RESERVED_205 :: nat where "SIL_RESERVED_205 = 28"
definition SIL_RESERVED_204 :: u32 where "SIL_RESERVED_204 = 0xF0000000"
definition SIL_RESERVED_736 :: u32 where "SIL_RESERVED_736 = 0x13B14040"
definition SIL_RESERVED_208 :: nat where "SIL_RESERVED_208 = 0"
definition SIL_RESERVED_206 :: u32 where "SIL_RESERVED_206 = 1"
definition SIL_RESERVED_209 :: nat where "SIL_RESERVED_209 = 1"
definition SIL_RESERVED_207 :: u32 where "SIL_RESERVED_207 = 2"
definition SIL_RESERVED_211 :: nat where "SIL_RESERVED_211 = 2"
definition SIL_RESERVED_210 :: u32 where "SIL_RESERVED_210 = 4"
definition SIL_RESERVED_737 :: u32 where "SIL_RESERVED_737 = 0x13B10020"
definition SIL_RESERVED_546 :: u32 where "SIL_RESERVED_546 = 0x13B14410"
definition SMN_IOHUB0_N1NBIO0_IOHC_SION_S0_CLIENT_RDRSP_BURSTTARGET_LOWER_ADDRESS :: u32 where "SMN_IOHUB0_N1NBIO0_IOHC_SION_S0_CLIENT_RDRSP_BURSTTARGET_LOWER_ADDRESS = 0x13B14814"
definition SMN_IOHUB0_N2NBIO0_IOHC_SION_S0_CLIENT_RDRSP_BURSTTARGET_LOWER_ADDRESS :: u32 where "SMN_IOHUB0_N2NBIO0_IOHC_SION_S0_CLIENT_RDRSP_BURSTTARGET_LOWER_ADDRESS = 0x13B14C18"
definition SIL_RESERVED_652 :: u32 where "SIL_RESERVED_652 = 0x13B1501C"
definition SIL_RESERVED_683 :: u32 where "SIL_RESERVED_683 = 0x13B15420"
definition SMN_IOHUB0_N5NBIO0_IOHC_SION_S0_CLIENT_RDRSP_BURSTTARGET_LOWER_ADDRESS :: u32 where "SMN_IOHUB0_N5NBIO0_IOHC_SION_S0_CLIENT_RDRSP_BURSTTARGET_LOWER_ADDRESS = 0x13B15824"
definition SIL_RESERVED_720 :: u32 where "SIL_RESERVED_720 = 0x13B15C28"
definition SIL_RESERVED_547 :: u32 where "SIL_RESERVED_547 = 0x13B14414"
definition SIL_RESERVED_581 :: u32 where "SIL_RESERVED_581 = 0x13B14818"
definition SMN_IOHUB0_N2NBIO0_IOHC_SION_S0_CLIENT_RDRSP_BURSTTARGET_UPPER_ADDRESS :: u32 where "SMN_IOHUB0_N2NBIO0_IOHC_SION_S0_CLIENT_RDRSP_BURSTTARGET_UPPER_ADDRESS = 0x13B14C1C"
definition SIL_RESERVED_653 :: u32 where "SIL_RESERVED_653 = 0x13B15020"
definition SIL_RESERVED_684 :: u32 where "SIL_RESERVED_684 = 0x13B15424"
definition SIL_RESERVED_711 :: u32 where "SIL_RESERVED_711 = 0x13B15828"
definition SIL_RESERVED_721 :: u32 where "SIL_RESERVED_721 = 0x13B15C2C"
definition SIL_RESERVED_548 :: u32 where "SIL_RESERVED_548 = 0x13B14400"
definition SIL_RESERVED_582 :: u32 where "SIL_RESERVED_582 = 0x13B14804"
definition SIL_RESERVED_619 :: u32 where "SIL_RESERVED_619 = 0x13B14C08"
definition SIL_RESERVED_654 :: u32 where "SIL_RESERVED_654 = 0x13B1500C"
definition SIL_RESERVED_685 :: u32 where "SIL_RESERVED_685 = 0x13B15410"
definition SIL_RESERVED_712 :: u32 where "SIL_RESERVED_712 = 0x13B15814"
definition SIL_RESERVED_722 :: u32 where "SIL_RESERVED_722 = 0x13B15C18"
definition SMN_IOHUB0_N0NBIO0_IOHC_SION_S0_CLIENT_REQ_BURSTTARGET_UPPER_ADDRESS :: u32 where "SMN_IOHUB0_N0NBIO0_IOHC_SION_S0_CLIENT_REQ_BURSTTARGET_UPPER_ADDRESS = 0x13B14404"
definition SIL_RESERVED_583 :: u32 where "SIL_RESERVED_583 = 0x13B14808"
definition SIL_RESERVED_620 :: u32 where "SIL_RESERVED_620 = 0x13B14C0C"
definition SMN_IOHUB0_N3NBIO0_IOHC_SION_S0_CLIENT_REQ_BURSTTARGET_UPPER_ADDRESS :: u32 where "SMN_IOHUB0_N3NBIO0_IOHC_SION_S0_CLIENT_REQ_BURSTTARGET_UPPER_ADDRESS = 0x13B15010"
definition SIL_RESERVED_686 :: u32 where "SIL_RESERVED_686 = 0x13B15414"
definition SIL_RESERVED_713 :: u32 where "SIL_RESERVED_713 = 0x13B15818"
definition SIL_RESERVED_723 :: u32 where "SIL_RESERVED_723 = 0x13B15C1C"
definition SIL_RESERVED_549 :: u32 where "SIL_RESERVED_549 = 0x13B14408"
definition SIL_RESERVED_584 :: u32 where "SIL_RESERVED_584 = 0x13B1480C"
definition SIL_RESERVED_621 :: u32 where "SIL_RESERVED_621 = 0x13B14C10"
definition SIL_RESERVED_655 :: u32 where "SIL_RESERVED_655 = 0x13B15014"
definition SIL_RESERVED_687 :: u32 where "SIL_RESERVED_687 = 0x13B15418"
definition SIL_RESERVED_714 :: u32 where "SIL_RESERVED_714 = 0x13B1581C"
definition SIL_RESERVED_550 :: u32 where "SIL_RESERVED_550 = 0x13B1440C"
definition SIL_RESERVED_585 :: u32 where "SIL_RESERVED_585 = 0x13B14810"
definition SIL_RESERVED_622 :: u32 where "SIL_RESERVED_622 = 0x13B14C14"
definition SIL_RESERVED_656 :: u32 where "SIL_RESERVED_656 = 0x13B15018"
definition SIL_RESERVED_688 :: u32 where "SIL_RESERVED_688 = 0x13B1541C"
definition SIL_RESERVED_715 :: u32 where "SIL_RESERVED_715 = 0x13B15820"
definition SIL_RESERVED_551 :: u32 where "SIL_RESERVED_551 = 0x13B14440"
definition SIL_RESERVED_586 :: u32 where "SIL_RESERVED_586 = 0x13B14844"
definition SMN_IOHUB0_N2NBIO0_IOHC_SION_S1_CLIENT_RDRSP_BURSTTARGET_LOWER_ADDRESS :: u32 where "SMN_IOHUB0_N2NBIO0_IOHC_SION_S1_CLIENT_RDRSP_BURSTTARGET_LOWER_ADDRESS = 0x13B14C48"
definition SIL_RESERVED_657 :: u32 where "SIL_RESERVED_657 = 0x13B1504C"
definition SIL_RESERVED_689 :: u32 where "SIL_RESERVED_689 = 0x13B15450"
definition SIL_RESERVED_716 :: u32 where "SIL_RESERVED_716 = 0x13B15854"
definition SIL_RESERVED_724 :: u32 where "SIL_RESERVED_724 = 0x13B15C58"
definition SIL_RESERVED_552 :: u32 where "SIL_RESERVED_552 = 0x13B14444"
definition SIL_RESERVED_587 :: u32 where "SIL_RESERVED_587 = 0x13B14848"
definition SIL_RESERVED_623 :: u32 where "SIL_RESERVED_623 = 0x13B14C4C"
definition SIL_RESERVED_658 :: u32 where "SIL_RESERVED_658 = 0x13B15050"
definition SIL_RESERVED_690 :: u32 where "SIL_RESERVED_690 = 0x13B15454"
definition SIL_RESERVED_717 :: u32 where "SIL_RESERVED_717 = 0x13B15858"
definition SIL_RESERVED_725 :: u32 where "SIL_RESERVED_725 = 0x13B15C5C"
definition SIL_RESERVED_553 :: u32 where "SIL_RESERVED_553 = 0x13B14430"
definition SIL_RESERVED_588 :: u32 where "SIL_RESERVED_588 = 0x13B14834"
definition SIL_RESERVED_624 :: u32 where "SIL_RESERVED_624 = 0x13B14C38"
definition SIL_RESERVED_659 :: u32 where "SIL_RESERVED_659 = 0x13B1503C"
definition SIL_RESERVED_691 :: u32 where "SIL_RESERVED_691 = 0x13B15440"
definition SIL_RESERVED_718 :: u32 where "SIL_RESERVED_718 = 0x13B15844"
definition SIL_RESERVED_726 :: u32 where "SIL_RESERVED_726 = 0x13B15C48"
definition SIL_RESERVED_554 :: u32 where "SIL_RESERVED_554 = 0x13B14434"
definition SIL_RESERVED_589 :: u32 where "SIL_RESERVED_589 = 0x13B14838"
definition SMN_IOHUB0_N2NBIO0_IOHC_SION_S1_CLIENT_REQ_BURSTTARGET_UPPER_ADDRESS :: u32 where "SMN_IOHUB0_N2NBIO0_IOHC_SION_S1_CLIENT_REQ_BURSTTARGET_UPPER_ADDRESS = 0x13B14C3C"
definition SIL_RESERVED_660 :: u32 where "SIL_RESERVED_660 = 0x13B15040"
definition SIL_RESERVED_692 :: u32 where "SIL_RESERVED_692 = 0x13B15444"
definition SMN_IOHUB0_N5NBIO0_IOHC_SION_S1_CLIENT_REQ_BURSTTARGET_UPPER_ADDRESS :: u32 where "SMN_IOHUB0_N5NBIO0_IOHC_SION_S1_CLIENT_REQ_BURSTTARGET_UPPER_ADDRESS = 0x13B15848"
definition SIL_RESERVED_727 :: u32 where "SIL_RESERVED_727 = 0x13B15C4C"
definition SMN_IOHUB0NBIO0_NB_BUS_NUM_CNTL_ADDRESS :: u32 where "SMN_IOHUB0NBIO0_NB_BUS_NUM_CNTL_ADDRESS = 0x13B10044"
definition SMN_IOHUB0NBIO0_NB_LOWER_TOP_OF_DRAM2_ADDRESS :: u32 where "SMN_IOHUB0NBIO0_NB_LOWER_TOP_OF_DRAM2_ADDRESS = 0x13B10064"
definition SMN_IOHUB0NBIO0_NB_TOP_OF_DRAM3_ADDRESS :: u32 where "SMN_IOHUB0NBIO0_NB_TOP_OF_DRAM3_ADDRESS = 0x13B10138"
definition SMN_IOHUB0NBIO0_NB_TOP_OF_DRAM_SLOT1_ADDRESS :: u32 where "SMN_IOHUB0NBIO0_NB_TOP_OF_DRAM_SLOT1_ADDRESS = 0x13B00090"
definition SMN_IOHUB0NBIO0_NB_UPPER_TOP_OF_DRAM2_ADDRESS :: u32 where "SMN_IOHUB0NBIO0_NB_UPPER_TOP_OF_DRAM2_ADDRESS = 0x13B10068"
definition PCIE_VDM_CNTL2_VdmP2pMode_OFFSET :: nat where "PCIE_VDM_CNTL2_VdmP2pMode_OFFSET = 0"
definition PCIE_VDM_CNTL2_VdmP2pMode_MASK :: u32 where "PCIE_VDM_CNTL2_VdmP2pMode_MASK = 3"
definition SMN_IOHUB0NBIO0_PCIE_VDM_CNTL2_ADDRESS :: u32 where "SMN_IOHUB0NBIO0_PCIE_VDM_CNTL2_ADDRESS = 0x13B10230"
definition SIL_RESERVED_444 :: nat where "SIL_RESERVED_444 = 0"
definition POISON_ACTION_CONTROL_IntPoisonAPMLErrEn_MASK :: u32 where "POISON_ACTION_CONTROL_IntPoisonAPMLErrEn_MASK = 1"
definition SIL_RESERVED_446 :: nat where "SIL_RESERVED_446 = 3"
definition SIL_RESERVED_445 :: u32 where "SIL_RESERVED_445 = 8"
definition SIL_RESERVED_448 :: nat where "SIL_RESERVED_448 = 4"
definition SIL_RESERVED_447 :: u32 where "SIL_RESERVED_447 = 0x10"
definition SIL_RESERVED_740 :: u32 where "SIL_RESERVED_740 = 0x13B20814"
definition SMN_IOHUB0NBIO0_SB_LOCATION_ADDRESS :: u32 where "SMN_IOHUB0NBIO0_SB_LOCATION_ADDRESS = 0x13B1007C"
definition SMN_IOHUB0NBIO0_SMU_BASE_ADDR_HI_ADDRESS :: u32 where "SMN_IOHUB0NBIO0_SMU_BASE_ADDR_HI_ADDRESS = 0x13B102EC"
definition SMN_IOHUB0NBIO0_SMU_BASE_ADDR_LO_ADDRESS :: u32 where "SMN_IOHUB0NBIO0_SMU_BASE_ADDR_LO_ADDRESS = 0x13B102E8"
definition SIL_RESERVED_774 :: nat where "SIL_RESERVED_774 = 0"
definition SIL_RESERVED_773 :: u32 where "SIL_RESERVED_773 = 0x7F"
definition SIL_RESERVED_777 :: nat where "SIL_RESERVED_777 = 8"
definition SIL_RESERVED_776 :: u32 where "SIL_RESERVED_776 = 0xF00"
definition USB_QoS_CNTL_UnitID0Enable_OFFSET :: nat where "USB_QoS_CNTL_UnitID0Enable_OFFSET = 12"
definition SIL_RESERVED_775 :: u32 where "SIL_RESERVED_775 = 0x1000"
definition SIL_RESERVED_779 :: nat where "SIL_RESERVED_779 = 16"
definition SIL_RESERVED_778 :: u32 where "SIL_RESERVED_778 = 0x7F0000"
definition SIL_RESERVED_782 :: nat where "SIL_RESERVED_782 = 24"
definition USB_QoS_CNTL_UnitID1QoSPriority_MASK :: u32 where "USB_QoS_CNTL_UnitID1QoSPriority_MASK = 0xF000000"
definition SIL_RESERVED_781 :: nat where "SIL_RESERVED_781 = 28"
definition SIL_RESERVED_780 :: u32 where "SIL_RESERVED_780 = 0x10000000"
definition SIL_RESERVED_743 :: u32 where "SIL_RESERVED_743 = 0x13B14044"

section \<open>\<^verbatim>\<open>Iommul1Reg.h\<close>\<close>

definition L1_CLKCNTRL_0_L1_DMA_CLKGATE_EN_OFFSET :: nat where "L1_CLKCNTRL_0_L1_DMA_CLKGATE_EN_OFFSET = 4"
definition L1_CLKCNTRL_0_L1_DMA_CLKGATE_EN_MASK :: u32 where "L1_CLKCNTRL_0_L1_DMA_CLKGATE_EN_MASK = 0x10"
definition L1_CLKCNTRL_0_L1_CACHE_CLKGATE_EN_OFFSET :: nat where "L1_CLKCNTRL_0_L1_CACHE_CLKGATE_EN_OFFSET = 5"
definition L1_CLKCNTRL_0_L1_CACHE_CLKGATE_EN_MASK :: u32 where "L1_CLKCNTRL_0_L1_CACHE_CLKGATE_EN_MASK = 0x20"
definition L1_CLKCNTRL_0_L1_CPSLV_CLKGATE_EN_OFFSET :: nat where "L1_CLKCNTRL_0_L1_CPSLV_CLKGATE_EN_OFFSET = 6"
definition L1_CLKCNTRL_0_L1_CPSLV_CLKGATE_EN_MASK :: u32 where "L1_CLKCNTRL_0_L1_CPSLV_CLKGATE_EN_MASK = 0x40"
definition L1_CLKCNTRL_0_L1_PERF_CLKGATE_EN_OFFSET :: nat where "L1_CLKCNTRL_0_L1_PERF_CLKGATE_EN_OFFSET = 8"
definition L1_CLKCNTRL_0_L1_PERF_CLKGATE_EN_MASK :: u32 where "L1_CLKCNTRL_0_L1_PERF_CLKGATE_EN_MASK = 0x100"
definition L1_CLKCNTRL_0_L1_MEMORY_CLKGATE_EN_OFFSET :: nat where "L1_CLKCNTRL_0_L1_MEMORY_CLKGATE_EN_OFFSET = 9"
definition L1_CLKCNTRL_0_L1_MEMORY_CLKGATE_EN_MASK :: u32 where "L1_CLKCNTRL_0_L1_MEMORY_CLKGATE_EN_MASK = 0x200"
definition L1_CLKCNTRL_0_L1_REG_CLKGATE_EN_OFFSET :: nat where "L1_CLKCNTRL_0_L1_REG_CLKGATE_EN_OFFSET = 10"
definition L1_CLKCNTRL_0_L1_REG_CLKGATE_EN_MASK :: u32 where "L1_CLKCNTRL_0_L1_REG_CLKGATE_EN_MASK = 0x400"
definition L1_CLKCNTRL_0_L1_HOSTREQ_CLKGATE_EN_OFFSET :: nat where "L1_CLKCNTRL_0_L1_HOSTREQ_CLKGATE_EN_OFFSET = 11"
definition L1_CLKCNTRL_0_L1_HOSTREQ_CLKGATE_EN_MASK :: u32 where "L1_CLKCNTRL_0_L1_HOSTREQ_CLKGATE_EN_MASK = 0x800"
definition L1_CLKCNTRL_0_L1_DMARSP_CLKGATE_EN_OFFSET :: nat where "L1_CLKCNTRL_0_L1_DMARSP_CLKGATE_EN_OFFSET = 12"
definition L1_CLKCNTRL_0_L1_DMARSP_CLKGATE_EN_MASK :: u32 where "L1_CLKCNTRL_0_L1_DMARSP_CLKGATE_EN_MASK = 0x1000"
definition L1_CLKCNTRL_0_L1_HOSTRSP_CLKGATE_EN_OFFSET :: nat where "L1_CLKCNTRL_0_L1_HOSTRSP_CLKGATE_EN_OFFSET = 13"
definition L1_CLKCNTRL_0_L1_HOSTRSP_CLKGATE_EN_MASK :: u32 where "L1_CLKCNTRL_0_L1_HOSTRSP_CLKGATE_EN_MASK = 0x2000"
definition L1_CLKCNTRL_0_L1_SION_PERF_CLKGATE_EN_OFFSET :: nat where "L1_CLKCNTRL_0_L1_SION_PERF_CLKGATE_EN_OFFSET = 14"
definition L1_CLKCNTRL_0_L1_SION_PERF_CLKGATE_EN_MASK :: u32 where "L1_CLKCNTRL_0_L1_SION_PERF_CLKGATE_EN_MASK = 0x4000"
definition L1_CLKCNTRL_0_L1_CLKGATE_HYSTERESIS_OFFSET :: nat where "L1_CLKCNTRL_0_L1_CLKGATE_HYSTERESIS_OFFSET = 15"
definition L1_CLKCNTRL_0_L1_CLKGATE_HYSTERESIS_MASK :: u32 where "L1_CLKCNTRL_0_L1_CLKGATE_HYSTERESIS_MASK = 0x7F8000"
definition L1_CLKCNTRL_0_L1_L2_CLKGATE_EN_OFFSET :: nat where "L1_CLKCNTRL_0_L1_L2_CLKGATE_EN_OFFSET = 31"
definition L1_CLKCNTRL_0_L1_L2_CLKGATE_EN_MASK :: u32 where "L1_CLKCNTRL_0_L1_L2_CLKGATE_EN_MASK = 0x80000000"
definition SMN_IOAGR_IOHUB0NBIO0_L1_CLKCNTRL_0_ADDRESS :: u32 where "SMN_IOAGR_IOHUB0NBIO0_L1_CLKCNTRL_0_ADDRESS = 0x153000CC"
definition SMN_PCIE0_IOHUB0NBIO0_L1_CLKCNTRL_0_ADDRESS :: u32 where "SMN_PCIE0_IOHUB0NBIO0_L1_CLKCNTRL_0_ADDRESS = 0x147000CC"
definition SMN_PCIE1_IOHUB0NBIO0_L1_CLKCNTRL_0_ADDRESS :: u32 where "SMN_PCIE1_IOHUB0NBIO0_L1_CLKCNTRL_0_ADDRESS = 0x14B000CC"
definition L1_CNTRL_2_CPD_RESP_MODE_OFFSET :: nat where "L1_CNTRL_2_CPD_RESP_MODE_OFFSET = 24"
definition L1_CNTRL_2_CPD_RESP_MODE_MASK :: u32 where "L1_CNTRL_2_CPD_RESP_MODE_MASK = 0x7000000"
definition L1_CNTRL_2_L1NonConsumedDataErrorSignalEn_OFFSET :: nat where "L1_CNTRL_2_L1NonConsumedDataErrorSignalEn_OFFSET = 27"
definition L1_CNTRL_2_L1NonConsumedDataErrorSignalEn_MASK :: u32 where "L1_CNTRL_2_L1NonConsumedDataErrorSignalEn_MASK = 0x8000000"
definition L1_CNTRL_2_L1ConsumedDataErrorSignalEn_OFFSET :: nat where "L1_CNTRL_2_L1ConsumedDataErrorSignalEn_OFFSET = 28"
definition L1_CNTRL_2_L1ConsumedDataErrorSignalEn_MASK :: u32 where "L1_CNTRL_2_L1ConsumedDataErrorSignalEn_MASK = 0x10000000"
definition SMN_IOAGR_IOHUB0NBIO0_L1_CNTRL_2_ADDRESS :: u32 where "SMN_IOAGR_IOHUB0NBIO0_L1_CNTRL_2_ADDRESS = 0x15300038"
definition SMN_PCIE0_IOHUB0NBIO0_L1_CNTRL_2_ADDRESS :: u32 where "SMN_PCIE0_IOHUB0NBIO0_L1_CNTRL_2_ADDRESS = 0x14700038"
definition SMN_PCIE1_IOHUB0NBIO0_L1_CNTRL_2_ADDRESS :: u32 where "SMN_PCIE1_IOHUB0NBIO0_L1_CNTRL_2_ADDRESS = 0x14B00038"
definition L1_CNTRL_4_ATS_multiple_resp_en_OFFSET :: nat where "L1_CNTRL_4_ATS_multiple_resp_en_OFFSET = 0"
definition L1_CNTRL_4_ATS_multiple_resp_en_MASK :: u32 where "L1_CNTRL_4_ATS_multiple_resp_en_MASK = 1"
definition L1_CNTRL_4_Timeout_pulse_ext_En_OFFSET :: nat where "L1_CNTRL_4_Timeout_pulse_ext_En_OFFSET = 2"
definition L1_CNTRL_4_Timeout_pulse_ext_En_MASK :: u32 where "L1_CNTRL_4_Timeout_pulse_ext_En_MASK = 4"
definition SMN_IOAGR_IOHUB0NBIO0_L1_CNTRL_4_ADDRESS :: u32 where "SMN_IOAGR_IOHUB0NBIO0_L1_CNTRL_4_ADDRESS = 0x153000C8"
definition SMN_PCIE0_IOHUB0NBIO0_L1_CNTRL_4_ADDRESS :: u32 where "SMN_PCIE0_IOHUB0NBIO0_L1_CNTRL_4_ADDRESS = 0x147000C8"
definition SMN_PCIE1_IOHUB0NBIO0_L1_CNTRL_4_ADDRESS :: u32 where "SMN_PCIE1_IOHUB0NBIO0_L1_CNTRL_4_ADDRESS = 0x14B000C8"
definition L1_FEATURE_CNTRL_PMR_lock_bit_OFFSET :: nat where "L1_FEATURE_CNTRL_PMR_lock_bit_OFFSET = 1"
definition L1_FEATURE_CNTRL_PMR_lock_bit_MASK :: u32 where "L1_FEATURE_CNTRL_PMR_lock_bit_MASK = 2"
definition L1_FEATURE_CNTRL_EXE_lock_bit_OFFSET :: nat where "L1_FEATURE_CNTRL_EXE_lock_bit_OFFSET = 2"
definition L1_FEATURE_CNTRL_EXE_lock_bit_MASK :: u32 where "L1_FEATURE_CNTRL_EXE_lock_bit_MASK = 4"
definition SMN_IOAGR_IOHUB0NBIO0_L1_FEATURE_CNTRL_ADDRESS :: u32 where "SMN_IOAGR_IOHUB0NBIO0_L1_FEATURE_CNTRL_ADDRESS = 0x1530009C"
definition SMN_PCIE0_IOHUB0NBIO0_L1_FEATURE_CNTRL_ADDRESS :: u32 where "SMN_PCIE0_IOHUB0NBIO0_L1_FEATURE_CNTRL_ADDRESS = 0x1470009C"
definition SMN_PCIE1_IOHUB0NBIO0_L1_FEATURE_CNTRL_ADDRESS :: u32 where "SMN_PCIE1_IOHUB0NBIO0_L1_FEATURE_CNTRL_ADDRESS = 0x14B0009C"
definition L1_FEATURE_SUP_CNTRL_L1_XT_SUP_W_OFFSET :: nat where "L1_FEATURE_SUP_CNTRL_L1_XT_SUP_W_OFFSET = 5"
definition L1_FEATURE_SUP_CNTRL_L1_XT_SUP_W_MASK :: u32 where "L1_FEATURE_SUP_CNTRL_L1_XT_SUP_W_MASK = 0x20"
definition SMN_IOAGR_IOHUB0NBIO0_L1_FEATURE_SUP_CNTRL_ADDRESS :: u32 where "SMN_IOAGR_IOHUB0NBIO0_L1_FEATURE_SUP_CNTRL_ADDRESS = 0x153000DC"
definition SMN_IOAGR_IOHUB0NBIO0_L1_SB_LOCATION_ADDRESS :: u32 where "SMN_IOAGR_IOHUB0NBIO0_L1_SB_LOCATION_ADDRESS = 0x15300024"
definition L1_SDP_CLKREQ_CNTRL_HW_PG_WAKEUP_EN_DMA_OFFSET :: nat where "L1_SDP_CLKREQ_CNTRL_HW_PG_WAKEUP_EN_DMA_OFFSET = 0"
definition L1_SDP_CLKREQ_CNTRL_HW_PG_WAKEUP_EN_DMA_MASK :: u32 where "L1_SDP_CLKREQ_CNTRL_HW_PG_WAKEUP_EN_DMA_MASK = 1"
definition SMN_IOAGR_IOHUB0NBIO0_L1_SDP_CLKREQ_CNTRL_ADDRESS :: u32 where "SMN_IOAGR_IOHUB0NBIO0_L1_SDP_CLKREQ_CNTRL_ADDRESS = 0x153000D4"
definition SMN_PCIE0_IOHUB0NBIO0_L1_SDP_CLKREQ_CNTRL_ADDRESS :: u32 where "SMN_PCIE0_IOHUB0NBIO0_L1_SDP_CLKREQ_CNTRL_ADDRESS = 0x147000D4"
definition SMN_PCIE1_IOHUB0NBIO0_L1_SDP_CLKREQ_CNTRL_ADDRESS :: u32 where "SMN_PCIE1_IOHUB0NBIO0_L1_SDP_CLKREQ_CNTRL_ADDRESS = 0x14B000D4"
definition L1_SDP_DMA_DATA_CREDIT_1_VC7_DMA_DATA_CREDIT_OFFSET :: nat where "L1_SDP_DMA_DATA_CREDIT_1_VC7_DMA_DATA_CREDIT_OFFSET = 24"
definition L1_SDP_DMA_DATA_CREDIT_1_VC7_DMA_DATA_CREDIT_MASK :: u32 where "L1_SDP_DMA_DATA_CREDIT_1_VC7_DMA_DATA_CREDIT_MASK = 0xFF000000"
definition SMN_IOAGR_IOHUB0NBIO0_L1_SDP_DMA_DATA_CREDIT_1_ADDRESS :: u32 where "SMN_IOAGR_IOHUB0NBIO0_L1_SDP_DMA_DATA_CREDIT_1_ADDRESS = 0x15300120"
definition L1_SDP_DMA_RDRSP_CREDIT_VC4_DMA_RDRSP_CREDIT_OFFSET :: nat where "L1_SDP_DMA_RDRSP_CREDIT_VC4_DMA_RDRSP_CREDIT_OFFSET = 16"
definition L1_SDP_DMA_RDRSP_CREDIT_VC4_DMA_RDRSP_CREDIT_MASK :: u32 where "L1_SDP_DMA_RDRSP_CREDIT_VC4_DMA_RDRSP_CREDIT_MASK = 0xF0000"
definition SMN_IOAGR_IOHUB0NBIO0_L1_SDP_DMA_RDRSP_CREDIT_ADDRESS :: u32 where "SMN_IOAGR_IOHUB0NBIO0_L1_SDP_DMA_RDRSP_CREDIT_ADDRESS = 0x15300124"
definition L1_SDP_DMA_REQ_CREDIT_1_VC7_DMA_REQ_CREDIT_OFFSET :: nat where "L1_SDP_DMA_REQ_CREDIT_1_VC7_DMA_REQ_CREDIT_OFFSET = 24"
definition L1_SDP_DMA_REQ_CREDIT_1_VC7_DMA_REQ_CREDIT_MASK :: u32 where "L1_SDP_DMA_REQ_CREDIT_1_VC7_DMA_REQ_CREDIT_MASK = 0xFF000000"
definition SMN_IOAGR_IOHUB0NBIO0_L1_SDP_DMA_REQ_CREDIT_1_ADDRESS :: u32 where "SMN_IOAGR_IOHUB0NBIO0_L1_SDP_DMA_REQ_CREDIT_1_ADDRESS = 0x15300118"
definition L1_SDP_DMA_WRRSP_CREDIT_VC4_DMA_WRRSP_CREDIT_OFFSET :: nat where "L1_SDP_DMA_WRRSP_CREDIT_VC4_DMA_WRRSP_CREDIT_OFFSET = 16"
definition L1_SDP_DMA_WRRSP_CREDIT_VC4_DMA_WRRSP_CREDIT_MASK :: u32 where "L1_SDP_DMA_WRRSP_CREDIT_VC4_DMA_WRRSP_CREDIT_MASK = 0xF0000"
definition L1_SDP_DMA_WRRSP_CREDIT_VC6_DMA_WRRSP_CREDIT_OFFSET :: nat where "L1_SDP_DMA_WRRSP_CREDIT_VC6_DMA_WRRSP_CREDIT_OFFSET = 24"
definition L1_SDP_DMA_WRRSP_CREDIT_VC6_DMA_WRRSP_CREDIT_MASK :: u32 where "L1_SDP_DMA_WRRSP_CREDIT_VC6_DMA_WRRSP_CREDIT_MASK = 0xF000000"
definition SMN_IOAGR_IOHUB0NBIO0_L1_SDP_DMA_WRRSP_CREDIT_ADDRESS :: u32 where "SMN_IOAGR_IOHUB0NBIO0_L1_SDP_DMA_WRRSP_CREDIT_ADDRESS = 0x15300128"
definition L1_SDP_MAXCRED_0_L1_DYNAMIC_CRED_RELOCATION_EN_OFFSET :: nat where "L1_SDP_MAXCRED_0_L1_DYNAMIC_CRED_RELOCATION_EN_OFFSET = 31"
definition L1_SDP_MAXCRED_0_L1_DYNAMIC_CRED_RELOCATION_EN_MASK :: u32 where "L1_SDP_MAXCRED_0_L1_DYNAMIC_CRED_RELOCATION_EN_MASK = 0x80000000"
definition SMN_IOAGR_IOHUB0NBIO0_L1_SDP_MAXCRED_0_ADDRESS :: u32 where "SMN_IOAGR_IOHUB0NBIO0_L1_SDP_MAXCRED_0_ADDRESS = 0x1530010C"

section \<open>\<^verbatim>\<open>Iommul2Reg.h\<close>\<close>

definition PCICFG_NBIO0_IOHUB0_IOMMU_CAP_BASE_LO_OFFSET :: u32 where "PCICFG_NBIO0_IOHUB0_IOMMU_CAP_BASE_LO_OFFSET = 0x44"
definition IOMMU_CAP_MISC_IOMMU_HT_ATS_RESV_OFFSET :: nat where "IOMMU_CAP_MISC_IOMMU_HT_ATS_RESV_OFFSET = 22"
definition IOMMU_CAP_MISC_IOMMU_HT_ATS_RESV_MASK :: u32 where "IOMMU_CAP_MISC_IOMMU_HT_ATS_RESV_MASK = 0x400000"
definition SMN_IOHUB0NBIO0_IOMMU_CAP_MISC_ADDRESS :: u32 where "SMN_IOHUB0NBIO0_IOMMU_CAP_MISC_ADDRESS = 0x13F00050"
definition IOMMU_CONTROL_W_INTERRUPT_PIN_W_OFFSET :: nat where "IOMMU_CONTROL_W_INTERRUPT_PIN_W_OFFSET = 0"
definition IOMMU_CONTROL_W_INTERRUPT_PIN_W_MASK :: u32 where "IOMMU_CONTROL_W_INTERRUPT_PIN_W_MASK = 7"
definition SMN_IOHUB0NBIO0_IOMMU_CONTROL_W_ADDRESS :: u32 where "SMN_IOHUB0NBIO0_IOMMU_CONTROL_W_ADDRESS = 0x13F0007C"
definition IOMMU_MMIO_CONTROL0_W_SNPAVICSup_W_OFFSET :: nat where "IOMMU_MMIO_CONTROL0_W_SNPAVICSup_W_OFFSET = 18"
definition IOMMU_MMIO_CONTROL0_W_SNPAVICSup_W_MASK :: u32 where "IOMMU_MMIO_CONTROL0_W_SNPAVICSup_W_MASK = 0x1C0000"
definition IOMMU_MMIO_CONTROL0_W_GAM_SUP_W_OFFSET :: nat where "IOMMU_MMIO_CONTROL0_W_GAM_SUP_W_OFFSET = 21"
definition IOMMU_MMIO_CONTROL0_W_GAM_SUP_W_MASK :: u32 where "IOMMU_MMIO_CONTROL0_W_GAM_SUP_W_MASK = 0xE00000"
definition PCICFG_NBIO0_IOHUB0_IOMMU_MMIO_CONTROL0_W_OFFSET :: u32 where "PCICFG_NBIO0_IOHUB0_IOMMU_MMIO_CONTROL0_W_OFFSET = 0x80"
definition SMN_IOMMU_MMIO_CONTROL0_W_ADDRESS :: u32 where "SMN_IOMMU_MMIO_CONTROL0_W_ADDRESS = 0x13F00080"
definition SMN_IOHUB0NBIO0_IOMMU_MMIO_CONTROL0_W_ADDRESS :: u32 where "SMN_IOHUB0NBIO0_IOMMU_MMIO_CONTROL0_W_ADDRESS = 0x13F00080"
definition IOMMU_MMIO_CONTROL1_W_InvIotlbTypeSup_W_OFFSET :: nat where "IOMMU_MMIO_CONTROL1_W_InvIotlbTypeSup_W_OFFSET = 19"
definition IOMMU_MMIO_CONTROL1_W_InvIotlbTypeSup_W_MASK :: u32 where "IOMMU_MMIO_CONTROL1_W_InvIotlbTypeSup_W_MASK = 0x80000"
definition IOMMU_MMIO_CONTROL1_W_SNP_SUP_W_OFFSET :: nat where "IOMMU_MMIO_CONTROL1_W_SNP_SUP_W_OFFSET = 31"
definition IOMMU_MMIO_CONTROL1_W_SNP_SUP_W_MASK :: u32 where "IOMMU_MMIO_CONTROL1_W_SNP_SUP_W_MASK = 0x80000000"
definition SMN_IOHUB0NBIO0_IOMMU_MMIO_CONTROL1_W_ADDRESS :: u32 where "SMN_IOHUB0NBIO0_IOMMU_MMIO_CONTROL1_W_ADDRESS = 0x13F00084"
definition L2A_UPDATE_FILTER_CNTL_L2a_Update_Filter_Bypass_OFFSET :: nat where "L2A_UPDATE_FILTER_CNTL_L2a_Update_Filter_Bypass_OFFSET = 0"
definition L2A_UPDATE_FILTER_CNTL_L2a_Update_Filter_Bypass_MASK :: u32 where "L2A_UPDATE_FILTER_CNTL_L2a_Update_Filter_Bypass_MASK = 1"
definition SMN_IOHUB0NBIO0_L2A_UPDATE_FILTER_CNTL_ADDRESS :: u32 where "SMN_IOHUB0NBIO0_L2A_UPDATE_FILTER_CNTL_ADDRESS = 0x15700088"
definition L2B_UPDATE_FILTER_CNTL_L2b_Update_Filter_Bypass_OFFSET :: nat where "L2B_UPDATE_FILTER_CNTL_L2b_Update_Filter_Bypass_OFFSET = 0"
definition L2B_UPDATE_FILTER_CNTL_L2b_Update_Filter_Bypass_MASK :: u32 where "L2B_UPDATE_FILTER_CNTL_L2b_Update_Filter_Bypass_MASK = 1"
definition SMN_IOHUB0NBIO0_L2B_UPDATE_FILTER_CNTL_ADDRESS :: u32 where "SMN_IOHUB0NBIO0_L2B_UPDATE_FILTER_CNTL_ADDRESS = 0x13F0114C"
definition L2_CONTROL_5_GST_partial_ptc_cntrl_OFFSET :: nat where "L2_CONTROL_5_GST_partial_ptc_cntrl_OFFSET = 12"
definition L2_CONTROL_5_GST_partial_ptc_cntrl_MASK :: u32 where "L2_CONTROL_5_GST_partial_ptc_cntrl_MASK = 0x7F000"
definition SMN_IOHUB0NBIO0_L2_CONTROL_5_ADDRESS :: u32 where "SMN_IOHUB0NBIO0_L2_CONTROL_5_ADDRESS = 0x13F01130"
definition L2_CP_CONTROL_CPFlushOnWait_OFFSET :: nat where "L2_CP_CONTROL_CPFlushOnWait_OFFSET = 1"
definition L2_CP_CONTROL_CPFlushOnWait_MASK :: u32 where "L2_CP_CONTROL_CPFlushOnWait_MASK = 2"
definition L2_CP_CONTROL_CPFlushOnInv_OFFSET :: nat where "L2_CP_CONTROL_CPFlushOnInv_OFFSET = 2"
definition L2_CP_CONTROL_CPFlushOnInv_MASK :: u32 where "L2_CP_CONTROL_CPFlushOnInv_MASK = 4"
definition SMN_IOHUB0NBIO0_L2_CP_CONTROL_ADDRESS :: u32 where "SMN_IOHUB0NBIO0_L2_CP_CONTROL_ADDRESS = 0x13F01158"
definition L2_ERR_RULE_CONTROL_0_ERRRuleLock0_OFFSET :: nat where "L2_ERR_RULE_CONTROL_0_ERRRuleLock0_OFFSET = 0"
definition L2_ERR_RULE_CONTROL_0_ERRRuleLock0_MASK :: u32 where "L2_ERR_RULE_CONTROL_0_ERRRuleLock0_MASK = 1"
definition SMN_IOHUB0NBIO0_L2_ERR_RULE_CONTROL_0_ADDRESS :: u32 where "SMN_IOHUB0NBIO0_L2_ERR_RULE_CONTROL_0_ADDRESS = 0x13F01200"
definition L2_ERR_RULE_CONTROL_3_ERRRuleLock1_OFFSET :: nat where "L2_ERR_RULE_CONTROL_3_ERRRuleLock1_OFFSET = 0"
definition L2_ERR_RULE_CONTROL_3_ERRRuleLock1_MASK :: u32 where "L2_ERR_RULE_CONTROL_3_ERRRuleLock1_MASK = 1"
definition SMN_IOHUB0NBIO0_L2_ERR_RULE_CONTROL_3_ADDRESS :: u32 where "SMN_IOHUB0NBIO0_L2_ERR_RULE_CONTROL_3_ADDRESS = 0x157000C0"
definition L2_L2A_CK_GATE_CONTROL_CKGateL2ARegsDisable_OFFSET :: nat where "L2_L2A_CK_GATE_CONTROL_CKGateL2ARegsDisable_OFFSET = 0"
definition L2_L2A_CK_GATE_CONTROL_CKGateL2ARegsDisable_MASK :: u32 where "L2_L2A_CK_GATE_CONTROL_CKGateL2ARegsDisable_MASK = 1"
definition L2_L2A_CK_GATE_CONTROL_CKGateL2ADynamicDisable_OFFSET :: nat where "L2_L2A_CK_GATE_CONTROL_CKGateL2ADynamicDisable_OFFSET = 1"
definition L2_L2A_CK_GATE_CONTROL_CKGateL2ADynamicDisable_MASK :: u32 where "L2_L2A_CK_GATE_CONTROL_CKGateL2ADynamicDisable_MASK = 2"
definition L2_L2A_CK_GATE_CONTROL_CKGateL2ACacheDisable_OFFSET :: nat where "L2_L2A_CK_GATE_CONTROL_CKGateL2ACacheDisable_OFFSET = 2"
definition L2_L2A_CK_GATE_CONTROL_CKGateL2ACacheDisable_MASK :: u32 where "L2_L2A_CK_GATE_CONTROL_CKGateL2ACacheDisable_MASK = 4"
definition SMN_IOHUB0NBIO0_L2_L2A_CK_GATE_CONTROL_ADDRESS :: u32 where "SMN_IOHUB0NBIO0_L2_L2A_CK_GATE_CONTROL_ADDRESS = 0x157000CC"
definition L2_L2A_PGSIZE_CONTROL_L2AREG_GST_PGSIZE_OFFSET :: nat where "L2_L2A_PGSIZE_CONTROL_L2AREG_GST_PGSIZE_OFFSET = 0"
definition L2_L2A_PGSIZE_CONTROL_L2AREG_GST_PGSIZE_MASK :: u32 where "L2_L2A_PGSIZE_CONTROL_L2AREG_GST_PGSIZE_MASK = 0x7F"
definition L2_L2A_PGSIZE_CONTROL_L2AREG_HOST_PGSIZE_OFFSET :: nat where "L2_L2A_PGSIZE_CONTROL_L2AREG_HOST_PGSIZE_OFFSET = 8"
definition L2_L2A_PGSIZE_CONTROL_L2AREG_HOST_PGSIZE_MASK :: u32 where "L2_L2A_PGSIZE_CONTROL_L2AREG_HOST_PGSIZE_MASK = 0x7F00"
definition SMN_IOHUB0NBIO0_L2_L2A_PGSIZE_CONTROL_ADDRESS :: u32 where "SMN_IOHUB0NBIO0_L2_L2A_PGSIZE_CONTROL_ADDRESS = 0x157000D0"
definition L2_L2B_CK_GATE_CONTROL_CKGateL2BRegsDisable_OFFSET :: nat where "L2_L2B_CK_GATE_CONTROL_CKGateL2BRegsDisable_OFFSET = 0"
definition L2_L2B_CK_GATE_CONTROL_CKGateL2BRegsDisable_MASK :: u32 where "L2_L2B_CK_GATE_CONTROL_CKGateL2BRegsDisable_MASK = 1"
definition L2_L2B_CK_GATE_CONTROL_CKGateL2BDynamicDisable_OFFSET :: nat where "L2_L2B_CK_GATE_CONTROL_CKGateL2BDynamicDisable_OFFSET = 1"
definition L2_L2B_CK_GATE_CONTROL_CKGateL2BDynamicDisable_MASK :: u32 where "L2_L2B_CK_GATE_CONTROL_CKGateL2BDynamicDisable_MASK = 2"
definition L2_L2B_CK_GATE_CONTROL_CKGateL2BMiscDisable_OFFSET :: nat where "L2_L2B_CK_GATE_CONTROL_CKGateL2BMiscDisable_OFFSET = 2"
definition L2_L2B_CK_GATE_CONTROL_CKGateL2BMiscDisable_MASK :: u32 where "L2_L2B_CK_GATE_CONTROL_CKGateL2BMiscDisable_MASK = 4"
definition L2_L2B_CK_GATE_CONTROL_CKGateL2BCacheDisable_OFFSET :: nat where "L2_L2B_CK_GATE_CONTROL_CKGateL2BCacheDisable_OFFSET = 3"
definition L2_L2B_CK_GATE_CONTROL_CKGateL2BCacheDisable_MASK :: u32 where "L2_L2B_CK_GATE_CONTROL_CKGateL2BCacheDisable_MASK = 8"
definition SMN_IOHUB0NBIO0_L2_L2B_CK_GATE_CONTROL_ADDRESS :: u32 where "SMN_IOHUB0NBIO0_L2_L2B_CK_GATE_CONTROL_ADDRESS = 0x13F01240"
definition L2_L2B_PGSIZE_CONTROL_L2BREG_GST_PGSIZE_OFFSET :: nat where "L2_L2B_PGSIZE_CONTROL_L2BREG_GST_PGSIZE_OFFSET = 0"
definition L2_L2B_PGSIZE_CONTROL_L2BREG_GST_PGSIZE_MASK :: u32 where "L2_L2B_PGSIZE_CONTROL_L2BREG_GST_PGSIZE_MASK = 0x7F"
definition L2_L2B_PGSIZE_CONTROL_L2BREG_HOST_PGSIZE_OFFSET :: nat where "L2_L2B_PGSIZE_CONTROL_L2BREG_HOST_PGSIZE_OFFSET = 8"
definition L2_L2B_PGSIZE_CONTROL_L2BREG_HOST_PGSIZE_MASK :: u32 where "L2_L2B_PGSIZE_CONTROL_L2BREG_HOST_PGSIZE_MASK = 0x7F00"
definition SMN_IOHUB0NBIO0_L2_L2B_PGSIZE_CONTROL_ADDRESS :: u32 where "SMN_IOHUB0NBIO0_L2_L2B_PGSIZE_CONTROL_ADDRESS = 0x13F01250"
definition L2_MISC_CNTRL_3_REG_ats_iw_OFFSET :: nat where "L2_MISC_CNTRL_3_REG_ats_iw_OFFSET = 0"
definition L2_MISC_CNTRL_3_REG_ats_iw_MASK :: u32 where "L2_MISC_CNTRL_3_REG_ats_iw_MASK = 1"
definition L2_MISC_CNTRL_3_REG_mask_l2_nw_OFFSET :: nat where "L2_MISC_CNTRL_3_REG_mask_l2_nw_OFFSET = 1"
definition L2_MISC_CNTRL_3_REG_mask_l2_nw_MASK :: u32 where "L2_MISC_CNTRL_3_REG_mask_l2_nw_MASK = 2"
definition L2_MISC_CNTRL_3_REG_atomic_filter_en_OFFSET :: nat where "L2_MISC_CNTRL_3_REG_atomic_filter_en_OFFSET = 2"
definition L2_MISC_CNTRL_3_REG_atomic_filter_en_MASK :: u32 where "L2_MISC_CNTRL_3_REG_atomic_filter_en_MASK = 4"
definition SMN_IOHUB0NBIO0_L2_MISC_CNTRL_3_ADDRESS :: u32 where "SMN_IOHUB0NBIO0_L2_MISC_CNTRL_3_ADDRESS = 0x13F0111C"
definition SMN_IOHUB0NBIO0_L2_SB_LOCATION_ADDRESS :: u32 where "SMN_IOHUB0NBIO0_L2_SB_LOCATION_ADDRESS = 0x13F0112C"
definition L2_TW_CONTROL_TWForceCoherent_OFFSET :: nat where "L2_TW_CONTROL_TWForceCoherent_OFFSET = 6"
definition L2_TW_CONTROL_TWForceCoherent_MASK :: u32 where "L2_TW_CONTROL_TWForceCoherent_MASK = 0x40"
definition L2_TW_CONTROL_TWPrefetchEn_OFFSET :: nat where "L2_TW_CONTROL_TWPrefetchEn_OFFSET = 8"
definition L2_TW_CONTROL_TWPrefetchEn_MASK :: u32 where "L2_TW_CONTROL_TWPrefetchEn_MASK = 0x100"
definition L2_TW_CONTROL_TWPrefetchRange_OFFSET :: nat where "L2_TW_CONTROL_TWPrefetchRange_OFFSET = 12"
definition L2_TW_CONTROL_TWPrefetchRange_MASK :: u32 where "L2_TW_CONTROL_TWPrefetchRange_MASK = 0x7000"
definition L2_TW_CONTROL_TWCacheNestedPTE_OFFSET :: nat where "L2_TW_CONTROL_TWCacheNestedPTE_OFFSET = 25"
definition L2_TW_CONTROL_TWCacheNestedPTE_MASK :: u32 where "L2_TW_CONTROL_TWCacheNestedPTE_MASK = 0x2000000"
definition SMN_IOHUB0NBIO0_L2_TW_CONTROL_ADDRESS :: u32 where "SMN_IOHUB0NBIO0_L2_TW_CONTROL_ADDRESS = 0x13F01150"

section \<open>\<^verbatim>\<open>Nbifepf0cfgReg.h\<close>\<close>

definition SIL_RESERVED2_1019 :: nat where "SIL_RESERVED2_1019 = 0"
definition SIL_RESERVED2_1017 :: u32 where "SIL_RESERVED2_1017 = 1"
definition SIL_RESERVED2_1023 :: nat where "SIL_RESERVED2_1023 = 1"
definition SIL_RESERVED2_1021 :: u32 where "SIL_RESERVED2_1021 = 2"
definition SIL_RESERVED2_1015 :: nat where "SIL_RESERVED2_1015 = 2"
definition SIL_RESERVED2_1013 :: u32 where "SIL_RESERVED2_1013 = 4"
definition SIL_RESERVED2_1007 :: nat where "SIL_RESERVED2_1007 = 3"
definition SIL_RESERVED2_1005 :: u32 where "SIL_RESERVED2_1005 = 8"
definition SIL_RESERVED2_1027 :: nat where "SIL_RESERVED2_1027 = 4"
definition SIL_RESERVED2_1025 :: u32 where "SIL_RESERVED2_1025 = 0x10"
definition SIL_RESERVED2_1011 :: nat where "SIL_RESERVED2_1011 = 5"
definition SIL_RESERVED2_1009 :: u32 where "SIL_RESERVED2_1009 = 0x20"

section \<open>\<^verbatim>\<open>NbifepfncfgReg.h\<close>\<close>

definition SIL_RESERVED2_1299 :: u32 where "SIL_RESERVED2_1299 = 0x101412A6"
definition SIL_RESERVED2_1304 :: u32 where "SIL_RESERVED2_1304 = 0x102412A6"
definition SIL_RESERVED2_1309 :: u32 where "SIL_RESERVED2_1309 = 0x101492A6"
definition SIL_RESERVED2_1030 :: nat where "SIL_RESERVED2_1030 = 15"
definition SIL_RESERVED2_1029 :: u32 where "SIL_RESERVED2_1029 = 0x8000"
definition SIL_RESERVED2_1300 :: u32 where "SIL_RESERVED2_1300 = 0x101412B6"
definition SIL_RESERVED2_1305 :: u32 where "SIL_RESERVED2_1305 = 0x102412B6"
definition SIL_RESERVED2_1071 :: nat where "SIL_RESERVED2_1071 = 0"
definition SIL_RESERVED2_1070 :: u32 where "SIL_RESERVED2_1070 = 1"
definition SIL_RESERVED2_1073 :: nat where "SIL_RESERVED2_1073 = 1"
definition SIL_RESERVED2_1072 :: u32 where "SIL_RESERVED2_1072 = 2"
definition SIL_RESERVED2_1301 :: u32 where "SIL_RESERVED2_1301 = 0x101412C4"
definition SIL_RESERVED2_1306 :: u32 where "SIL_RESERVED2_1306 = 0x102412C4"

section \<open>\<^verbatim>\<open>NbifmmReg.h\<close>\<close>

definition SIL_RESERVED2_939 :: nat where "SIL_RESERVED2_939 = 0"
definition SIL_RESERVED2_938 :: u32 where "SIL_RESERVED2_938 = 0xFF"
definition SIL_RESERVED2_941 :: nat where "SIL_RESERVED2_941 = 8"
definition SIL_RESERVED2_940 :: u32 where "SIL_RESERVED2_940 = 0xFF00"
definition SIL_RESERVED2_943 :: nat where "SIL_RESERVED2_943 = 16"
definition SIL_RESERVED2_942 :: u32 where "SIL_RESERVED2_942 = 0xFF0000"
definition SIL_RESERVED2_945 :: nat where "SIL_RESERVED2_945 = 24"
definition SIL_RESERVED2_944 :: u32 where "SIL_RESERVED2_944 = 0xFF000000"
definition SIL_RESERVED3_1463 :: u32 where "SIL_RESERVED3_1463 = 0x1013A124"
definition SIL_RESERVED2_1370 :: u32 where "SIL_RESERVED2_1370 = 0x1023A124"
definition SIL_RESERVED2_1420 :: u32 where "SIL_RESERVED2_1420 = 0x1053A124"
definition SIL_RESERVED2_946 :: nat where "SIL_RESERVED2_946 = 0"
definition SIL_RESERVED3_1464 :: u32 where "SIL_RESERVED3_1464 = 0xFF"
definition SIL_RESERVED3_1465 :: nat where "SIL_RESERVED3_1465 = 8"
definition SIL_RESERVED2_947 :: u32 where "SIL_RESERVED2_947 = 0xFF00"
definition SIL_RESERVED2_949 :: nat where "SIL_RESERVED2_949 = 16"
definition SIL_RESERVED2_948 :: u32 where "SIL_RESERVED2_948 = 0xFF0000"
definition SIL_RESERVED2_951 :: nat where "SIL_RESERVED2_951 = 24"
definition SIL_RESERVED2_950 :: u32 where "SIL_RESERVED2_950 = 0xFF000000"
definition SIL_RESERVED2_1316 :: u32 where "SIL_RESERVED2_1316 = 0x1013A128"
definition SIL_RESERVED2_1371 :: u32 where "SIL_RESERVED2_1371 = 0x1023A128"
definition SIL_RESERVED3_1466 :: u32 where "SIL_RESERVED3_1466 = 0x1053A128"
definition SIL_RESERVED2_1002 :: nat where "SIL_RESERVED2_1002 = 0"
definition SIL_RESERVED2_1004 :: nat where "SIL_RESERVED2_1004 = 8"
definition SIL_RESERVED2_1318 :: u32 where "SIL_RESERVED2_1318 = 0x1013A008"
definition SIL_RESERVED2_1372 :: u32 where "SIL_RESERVED2_1372 = 0x1023A008"
definition SIL_RESERVED2_1032 :: nat where "SIL_RESERVED2_1032 = 0"
definition SIL_RESERVED2_1031 :: u32 where "SIL_RESERVED2_1031 = 1"
definition SIL_RESERVED2_1320 :: u32 where "SIL_RESERVED2_1320 = 0x1013A220"
definition SIL_RESERVED2_1374 :: u32 where "SIL_RESERVED2_1374 = 0x1023A220"
definition SIL_RESERVED2_1421 :: u32 where "SIL_RESERVED2_1421 = 0x1053A220"
definition SIL_RESERVED2_1063 :: nat where "SIL_RESERVED2_1063 = 0"
definition SIL_RESERVED2_1062 :: u32 where "SIL_RESERVED2_1062 = 1"
definition SIL_RESERVED2_1067 :: nat where "SIL_RESERVED2_1067 = 2"
definition SIL_RESERVED2_1066 :: u32 where "SIL_RESERVED2_1066 = 0x3FC"
definition SIL_RESERVED2_1065 :: nat where "SIL_RESERVED2_1065 = 10"
definition SIL_RESERVED2_1064 :: u32 where "SIL_RESERVED2_1064 = 0x400"
definition SIL_RESERVED2_1061 :: nat where "SIL_RESERVED2_1061 = 11"
definition SIL_RESERVED2_1060 :: u32 where "SIL_RESERVED2_1060 = 0x800"
definition SIL_RESERVED2_1069 :: nat where "SIL_RESERVED2_1069 = 12"
definition SIL_RESERVED2_1068 :: u32 where "SIL_RESERVED2_1068 = 0x1000"
definition SIL_RESERVED2_1059 :: nat where "SIL_RESERVED2_1059 = 13"
definition SIL_RESERVED3_1467 :: u32 where "SIL_RESERVED3_1467 = 0x2000"
definition SIL_RESERVED2_1322 :: u32 where "SIL_RESERVED2_1322 = 0x1013A21C"
definition SIL_RESERVED2_1375 :: u32 where "SIL_RESERVED2_1375 = 0x1023A21C"
definition SIL_RESERVED2_1422 :: u32 where "SIL_RESERVED2_1422 = 0x1053A21C"
definition SIL_RESERVED2_1075 :: nat where "SIL_RESERVED2_1075 = 30"
definition SIL_RESERVED2_1074 :: u32 where "SIL_RESERVED2_1074 = 0x40000000"
definition SIL_RESERVED2_1423 :: u32 where "SIL_RESERVED2_1423 = 0x1053A0E8"
definition SIL_RESERVED2_1097 :: nat where "SIL_RESERVED2_1097 = 19"
definition SIL_RESERVED2_1096 :: u32 where "SIL_RESERVED2_1096 = 0x80000"
definition SIL_RESERVED2_1101 :: nat where "SIL_RESERVED2_1101 = 20"
definition SIL_RESERVED2_1100 :: u32 where "SIL_RESERVED2_1100 = 0x100000"
definition SIL_RESERVED2_1099 :: nat where "SIL_RESERVED2_1099 = 21"
definition SIL_RESERVED2_1098 :: u32 where "SIL_RESERVED2_1098 = 0x200000"
definition SIL_RESERVED2_1326 :: u32 where "SIL_RESERVED2_1326 = 0x10131804"
definition SIL_RESERVED2_1379 :: u32 where "SIL_RESERVED2_1379 = 0x10231804"
definition SIL_RESERVED2_1424 :: u32 where "SIL_RESERVED2_1424 = 0x10531804"
definition SIL_RESERVED2_1103 :: nat where "SIL_RESERVED2_1103 = 0"
definition SIL_RESERVED2_1102 :: u32 where "SIL_RESERVED2_1102 = 0xFFFF"
definition SIL_RESERVED2_1105 :: nat where "SIL_RESERVED2_1105 = 28"
definition SIL_RESERVED2_1104 :: u32 where "SIL_RESERVED2_1104 = 0x10000000"
definition SIL_RESERVED2_1327 :: u32 where "SIL_RESERVED2_1327 = 0x10134000"
definition SIL_RESERVED2_1367 :: u32 where "SIL_RESERVED2_1367 = 0x10334000"
definition SIL_RESERVED2_1380 :: u32 where "SIL_RESERVED2_1380 = 0x10234000"
definition SIL_RESERVED2_1419 :: u32 where "SIL_RESERVED2_1419 = 0x10434000"
definition SIL_RESERVED2_1425 :: u32 where "SIL_RESERVED2_1425 = 0x10534000"
definition SIL_RESERVED2_1447 :: u32 where "SIL_RESERVED2_1447 = 0x10734000"
definition SIL_RESERVED2_1111 :: nat where "SIL_RESERVED2_1111 = 15"
definition SIL_RESERVED2_1110 :: u32 where "SIL_RESERVED2_1110 = 0x8000"
definition SIL_RESERVED2_1328 :: u32 where "SIL_RESERVED2_1328 = 0x10134008"
definition SIL_RESERVED2_1381 :: u32 where "SIL_RESERVED2_1381 = 0x10234008"
definition SIL_RESERVED2_1117 :: nat where "SIL_RESERVED2_1117 = 22"
definition SIL_RESERVED2_1116 :: u32 where "SIL_RESERVED2_1116 = 0x400000"
definition SIL_RESERVED3_1468 :: u32 where "SIL_RESERVED3_1468 = 0x10134010"
definition SIL_RESERVED2_1382 :: u32 where "SIL_RESERVED2_1382 = 0x10234010"
definition SIL_RESERVED2_1426 :: u32 where "SIL_RESERVED2_1426 = 0x10534010"
definition SIL_RESERVED2_1119 :: nat where "SIL_RESERVED2_1119 = 28"
definition SIL_RESERVED2_1118 :: u32 where "SIL_RESERVED2_1118 = 0x10000000"
definition SIL_RESERVED2_1330 :: u32 where "SIL_RESERVED2_1330 = 0x10134200"
definition SIL_RESERVED3_1469 :: u32 where "SIL_RESERVED3_1469 = 0x10234200"
definition SIL_RESERVED2_1427 :: u32 where "SIL_RESERVED2_1427 = 0x10534200"
definition SIL_RESERVED2_1135 :: nat where "SIL_RESERVED2_1135 = 0"
definition SIL_RESERVED2_1134 :: u32 where "SIL_RESERVED2_1134 = 1"
definition SIL_RESERVED2_1127 :: nat where "SIL_RESERVED2_1127 = 16"
definition SIL_RESERVED2_1126 :: u32 where "SIL_RESERVED2_1126 = 0x10000"
definition SIL_RESERVED2_1125 :: nat where "SIL_RESERVED2_1125 = 17"
definition SIL_RESERVED2_1124 :: u32 where "SIL_RESERVED2_1124 = 0x20000"
definition SIL_RESERVED2_1129 :: nat where "SIL_RESERVED2_1129 = 18"
definition SIL_RESERVED2_1128 :: u32 where "SIL_RESERVED2_1128 = 0x40000"
definition SIL_RESERVED2_1131 :: nat where "SIL_RESERVED2_1131 = 27"
definition SIL_RESERVED2_1130 :: u32 where "SIL_RESERVED2_1130 = 0x8000000"
definition SIL_RESERVED2_1133 :: nat where "SIL_RESERVED2_1133 = 28"
definition SIL_RESERVED2_1132 :: u32 where "SIL_RESERVED2_1132 = 0x10000000"
definition SIL_RESERVED2_1332 :: u32 where "SIL_RESERVED2_1332 = 0x10134208"
definition SIL_RESERVED2_1384 :: u32 where "SIL_RESERVED2_1384 = 0x10234208"
definition SIL_RESERVED2_1145 :: nat where "SIL_RESERVED2_1145 = 17"
definition SIL_RESERVED2_1144 :: u32 where "SIL_RESERVED2_1144 = 0x20000"
definition SIL_RESERVED2_1147 :: nat where "SIL_RESERVED2_1147 = 31"
definition SIL_RESERVED2_1146 :: u32 where "SIL_RESERVED2_1146 = 0x80000000"
definition SIL_RESERVED2_1335 :: u32 where "SIL_RESERVED2_1335 = 0x1013420C"
definition SIL_RESERVED2_1387 :: u32 where "SIL_RESERVED2_1387 = 0x1023420C"
definition SIL_RESERVED2_1148 :: nat where "SIL_RESERVED2_1148 = 22"
definition SIL_RESERVED3_1470 :: u32 where "SIL_RESERVED3_1470 = 0x400000"
definition SIL_RESERVED2_1336 :: u32 where "SIL_RESERVED2_1336 = 0x10134210"
definition SIL_RESERVED2_1388 :: u32 where "SIL_RESERVED2_1388 = 0x10234210"
definition SIL_RESERVED2_1431 :: u32 where "SIL_RESERVED2_1431 = 0x10534210"
definition SIL_RESERVED2_1150 :: nat where "SIL_RESERVED2_1150 = 20"
definition SIL_RESERVED2_1149 :: u32 where "SIL_RESERVED2_1149 = 0x300000"
definition SIL_RESERVED2_1153 :: nat where "SIL_RESERVED2_1153 = 22"
definition SIL_RESERVED2_1151 :: u32 where "SIL_RESERVED2_1151 = 0x400000"
definition SIL_RESERVED2_1337 :: u32 where "SIL_RESERVED2_1337 = 0x1013421C"
definition SIL_RESERVED2_1389 :: u32 where "SIL_RESERVED2_1389 = 0x1023421C"
definition SIL_RESERVED2_1432 :: u32 where "SIL_RESERVED2_1432 = 0x1053421C"
definition SIL_RESERVED2_1161 :: nat where "SIL_RESERVED2_1161 = 28"
definition SIL_RESERVED2_1159 :: u32 where "SIL_RESERVED2_1159 = 0x10000000"
definition SIL_RESERVED2_1339 :: u32 where "SIL_RESERVED2_1339 = 0x10134400"
definition SIL_RESERVED2_1391 :: u32 where "SIL_RESERVED2_1391 = 0x10234400"
definition SIL_RESERVED2_1433 :: u32 where "SIL_RESERVED2_1433 = 0x10534400"
definition SIL_RESERVED3_1471 :: nat where "SIL_RESERVED3_1471 = 22"
definition SIL_RESERVED2_1167 :: u32 where "SIL_RESERVED2_1167 = 0x400000"
definition SIL_RESERVED2_1342 :: u32 where "SIL_RESERVED2_1342 = 0x10134410"
definition SIL_RESERVED2_1394 :: u32 where "SIL_RESERVED2_1394 = 0x10234410"
definition SIL_RESERVED2_1435 :: u32 where "SIL_RESERVED2_1435 = 0x10534410"
definition SIL_RESERVED2_1169 :: nat where "SIL_RESERVED2_1169 = 20"
definition SIL_RESERVED2_1168 :: u32 where "SIL_RESERVED2_1168 = 0x300000"
definition SIL_RESERVED2_1171 :: nat where "SIL_RESERVED2_1171 = 22"
definition SIL_RESERVED2_1170 :: u32 where "SIL_RESERVED2_1170 = 0x400000"
definition SIL_RESERVED2_1343 :: u32 where "SIL_RESERVED2_1343 = 0x1013441C"
definition SIL_RESERVED2_1395 :: u32 where "SIL_RESERVED2_1395 = 0x1023441C"
definition SIL_RESERVED2_1436 :: u32 where "SIL_RESERVED2_1436 = 0x1053441C"
definition SIL_RESERVED2_1178 :: nat where "SIL_RESERVED2_1178 = 28"
definition SIL_RESERVED2_1177 :: u32 where "SIL_RESERVED2_1177 = 0x10000000"
definition SIL_RESERVED3_1472 :: u32 where "SIL_RESERVED3_1472 = 0x10134600"
definition SIL_RESERVED2_1397 :: u32 where "SIL_RESERVED2_1397 = 0x10234600"
definition SIL_RESERVED2_1180 :: nat where "SIL_RESERVED2_1180 = 22"
definition SIL_RESERVED2_1179 :: u32 where "SIL_RESERVED2_1179 = 0x400000"
definition SIL_RESERVED2_1345 :: u32 where "SIL_RESERVED2_1345 = 0x10134610"
definition SIL_RESERVED2_1398 :: u32 where "SIL_RESERVED2_1398 = 0x10234610"
definition SIL_RESERVED2_1182 :: nat where "SIL_RESERVED2_1182 = 20"
definition SIL_RESERVED2_1181 :: u32 where "SIL_RESERVED2_1181 = 0x300000"
definition SIL_RESERVED2_1184 :: nat where "SIL_RESERVED2_1184 = 22"
definition SIL_RESERVED2_1183 :: u32 where "SIL_RESERVED2_1183 = 0x400000"
definition SIL_RESERVED2_1346 :: u32 where "SIL_RESERVED2_1346 = 0x1013461C"
definition SIL_RESERVED2_1399 :: u32 where "SIL_RESERVED2_1399 = 0x1023461C"
definition SIL_RESERVED2_1438 :: u32 where "SIL_RESERVED2_1438 = 0x1053461C"
definition SIL_RESERVED3_1473 :: nat where "SIL_RESERVED3_1473 = 28"
definition SIL_RESERVED3_1474 :: u32 where "SIL_RESERVED3_1474 = 0x10000000"
definition SIL_RESERVED2_1400 :: u32 where "SIL_RESERVED2_1400 = 0x10234800"
definition SIL_RESERVED2_1186 :: nat where "SIL_RESERVED2_1186 = 22"
definition SIL_RESERVED2_1185 :: u32 where "SIL_RESERVED2_1185 = 0x400000"
definition SIL_RESERVED2_1347 :: u32 where "SIL_RESERVED2_1347 = 0x10134810"
definition SIL_RESERVED2_1401 :: u32 where "SIL_RESERVED2_1401 = 0x10234810"
definition SIL_RESERVED2_1188 :: nat where "SIL_RESERVED2_1188 = 20"
definition SIL_RESERVED2_1187 :: u32 where "SIL_RESERVED2_1187 = 0x300000"
definition SIL_RESERVED2_1190 :: nat where "SIL_RESERVED2_1190 = 22"
definition SIL_RESERVED2_1189 :: u32 where "SIL_RESERVED2_1189 = 0x400000"
definition SIL_RESERVED3_1475 :: u32 where "SIL_RESERVED3_1475 = 0x1013481C"
definition SIL_RESERVED2_1402 :: u32 where "SIL_RESERVED2_1402 = 0x1023481C"
definition SIL_RESERVED2_1439 :: u32 where "SIL_RESERVED2_1439 = 0x1053481C"
definition SIL_RESERVED2_1193 :: nat where "SIL_RESERVED2_1193 = 28"
definition SIL_RESERVED2_1191 :: u32 where "SIL_RESERVED2_1191 = 0x10000000"
definition SIL_RESERVED2_1348 :: u32 where "SIL_RESERVED2_1348 = 0x10134A00"
definition SIL_RESERVED2_1196 :: nat where "SIL_RESERVED2_1196 = 22"
definition SIL_RESERVED2_1195 :: u32 where "SIL_RESERVED2_1195 = 0x400000"
definition SIL_RESERVED2_1350 :: u32 where "SIL_RESERVED2_1350 = 0x10134A10"
definition SIL_RESERVED2_1198 :: nat where "SIL_RESERVED2_1198 = 28"
definition SIL_RESERVED2_1197 :: u32 where "SIL_RESERVED2_1197 = 0x10000000"
definition SIL_RESERVED3_1476 :: u32 where "SIL_RESERVED3_1476 = 0x10134C00"
definition SIL_RESERVED2_1200 :: nat where "SIL_RESERVED2_1200 = 22"
definition SIL_RESERVED2_1199 :: u32 where "SIL_RESERVED2_1199 = 0x400000"
definition SIL_RESERVED2_1351 :: u32 where "SIL_RESERVED2_1351 = 0x10134C10"
definition SIL_RESERVED2_1202 :: nat where "SIL_RESERVED2_1202 = 28"
definition SIL_RESERVED2_1201 :: u32 where "SIL_RESERVED2_1201 = 0x10000000"
definition SIL_RESERVED2_1352 :: u32 where "SIL_RESERVED2_1352 = 0x10134E00"
definition SIL_RESERVED2_1204 :: nat where "SIL_RESERVED2_1204 = 17"
definition SIL_RESERVED2_1203 :: u32 where "SIL_RESERVED2_1203 = 0x20000"
definition SIL_RESERVED2_1206 :: nat where "SIL_RESERVED2_1206 = 18"
definition SIL_RESERVED2_1205 :: u32 where "SIL_RESERVED2_1205 = 0x40000"
definition SIL_RESERVED2_1353 :: u32 where "SIL_RESERVED2_1353 = 0x10131000"
definition SIL_RESERVED2_1403 :: u32 where "SIL_RESERVED2_1403 = 0x10231000"
definition SIL_RESERVED2_1208 :: nat where "SIL_RESERVED2_1208 = 2"
definition SIL_RESERVED2_1207 :: u32 where "SIL_RESERVED2_1207 = 4"
definition SIL_RESERVED2_1210 :: nat where "SIL_RESERVED2_1210 = 7"
definition SIL_RESERVED2_1209 :: u32 where "SIL_RESERVED2_1209 = 0x80"
definition SIL_RESERVED2_1354 :: u32 where "SIL_RESERVED2_1354 = 0x10131008"
definition SIL_RESERVED2_1404 :: u32 where "SIL_RESERVED2_1404 = 0x10231008"
definition SIL_RESERVED2_1215 :: nat where "SIL_RESERVED2_1215 = 7"
definition SIL_RESERVED3_1477 :: u32 where "SIL_RESERVED3_1477 = 0x80"
definition SIL_RESERVED2_1355 :: u32 where "SIL_RESERVED2_1355 = 0x1013100C"
definition SIL_RESERVED2_1405 :: u32 where "SIL_RESERVED2_1405 = 0x1023100C"
definition SIL_RESERVED2_1440 :: u32 where "SIL_RESERVED2_1440 = 0x1053100C"
definition SIL_RESERVED2_1225 :: nat where "SIL_RESERVED2_1225 = 23"
definition SIL_RESERVED2_1224 :: u32 where "SIL_RESERVED2_1224 = 0x800000"
definition SIL_RESERVED2_1227 :: nat where "SIL_RESERVED2_1227 = 24"
definition SIL_RESERVED2_1226 :: u32 where "SIL_RESERVED2_1226 = 0x1000000"
definition SIL_RESERVED2_1223 :: nat where "SIL_RESERVED2_1223 = 25"
definition SIL_RESERVED2_1222 :: u32 where "SIL_RESERVED2_1222 = 0x2000000"
definition SIL_RESERVED2_1219 :: nat where "SIL_RESERVED2_1219 = 26"
definition SIL_RESERVED2_1218 :: u32 where "SIL_RESERVED2_1218 = 0x4000000"
definition SIL_RESERVED2_1229 :: nat where "SIL_RESERVED2_1229 = 27"
definition SIL_RESERVED2_1228 :: u32 where "SIL_RESERVED2_1228 = 0x8000000"
definition SIL_RESERVED2_1221 :: nat where "SIL_RESERVED2_1221 = 28"
definition SIL_RESERVED2_1220 :: u32 where "SIL_RESERVED2_1220 = 0x10000000"
definition SIL_RESERVED2_1217 :: nat where "SIL_RESERVED2_1217 = 29"
definition SIL_RESERVED2_1216 :: u32 where "SIL_RESERVED2_1216 = 0x20000000"
definition SIL_RESERVED2_1231 :: nat where "SIL_RESERVED2_1231 = 31"
definition SIL_RESERVED2_1230 :: u32 where "SIL_RESERVED2_1230 = 0x80000000"
definition SIL_RESERVED2_1356 :: u32 where "SIL_RESERVED2_1356 = 0x10131014"
definition SIL_RESERVED2_1406 :: u32 where "SIL_RESERVED2_1406 = 0x10231014"
definition SIL_RESERVED3_1478 :: nat where "SIL_RESERVED3_1478 = 16"
definition SIL_RESERVED2_1232 :: u32 where "SIL_RESERVED2_1232 = 0x30000"
definition SIL_RESERVED2_1357 :: u32 where "SIL_RESERVED2_1357 = 0x10131018"
definition SIL_RESERVED2_1407 :: u32 where "SIL_RESERVED2_1407 = 0x10231018"
definition SIL_RESERVED2_1441 :: u32 where "SIL_RESERVED2_1441 = 0x10531018"
definition SIL_RESERVED2_1238 :: nat where "SIL_RESERVED2_1238 = 16"
definition SIL_RESERVED2_1237 :: u32 where "SIL_RESERVED2_1237 = 0xFF0000"
definition SIL_RESERVED2_1234 :: nat where "SIL_RESERVED2_1234 = 24"
definition SIL_RESERVED2_1233 :: u32 where "SIL_RESERVED2_1233 = 0x1F000000"
definition SIL_RESERVED2_1236 :: nat where "SIL_RESERVED2_1236 = 29"
definition SIL_RESERVED2_1235 :: u32 where "SIL_RESERVED2_1235 = 0xE0000000"
definition SIL_RESERVED2_1358 :: u32 where "SIL_RESERVED2_1358 = 0x1013101C"
definition SIL_RESERVED2_1442 :: u32 where "SIL_RESERVED2_1442 = 0x1053101C"
definition SIL_RESERVED2_1240 :: nat where "SIL_RESERVED2_1240 = 16"
definition SIL_RESERVED2_1239 :: u32 where "SIL_RESERVED2_1239 = 0xF0000"
definition SIL_RESERVED2_1242 :: nat where "SIL_RESERVED2_1242 = 20"
definition SIL_RESERVED2_1241 :: u32 where "SIL_RESERVED2_1241 = 0xF00000"
definition SIL_RESERVED2_1408 :: u32 where "SIL_RESERVED2_1408 = 0x10235000"
definition SIL_RESERVED2_1244 :: nat where "SIL_RESERVED2_1244 = 22"
definition SIL_RESERVED2_1243 :: u32 where "SIL_RESERVED2_1243 = 0x400000"
definition SIL_RESERVED2_1409 :: u32 where "SIL_RESERVED2_1409 = 0x10235010"
definition SIL_RESERVED3_1479 :: nat where "SIL_RESERVED3_1479 = 20"
definition SIL_RESERVED2_1245 :: u32 where "SIL_RESERVED2_1245 = 0x300000"
definition SIL_RESERVED2_1246 :: nat where "SIL_RESERVED2_1246 = 22"
definition SIL_RESERVED3_1480 :: u32 where "SIL_RESERVED3_1480 = 0x400000"
definition SIL_RESERVED3_1481 :: u32 where "SIL_RESERVED3_1481 = 0x1013501C"
definition SIL_RESERVED2_1410 :: u32 where "SIL_RESERVED2_1410 = 0x1023501C"
definition SIL_RESERVED2_1443 :: u32 where "SIL_RESERVED2_1443 = 0x1053501C"
definition SIL_RESERVED2_1248 :: nat where "SIL_RESERVED2_1248 = 7"
definition SIL_RESERVED2_1247 :: u32 where "SIL_RESERVED2_1247 = 0x80"
definition SIL_RESERVED3_1482 :: u32 where "SIL_RESERVED3_1482 = 0x1013120C"
definition SIL_RESERVED2_1411 :: u32 where "SIL_RESERVED2_1411 = 0x1023120C"
definition SIL_RESERVED2_1444 :: u32 where "SIL_RESERVED2_1444 = 0x1053120C"
definition SIL_RESERVED2_1250 :: nat where "SIL_RESERVED2_1250 = 16"
definition SIL_RESERVED2_1249 :: u32 where "SIL_RESERVED2_1249 = 0x30000"
definition SIL_RESERVED2_1359 :: u32 where "SIL_RESERVED2_1359 = 0x10131218"
definition SIL_RESERVED2_1412 :: u32 where "SIL_RESERVED2_1412 = 0x10231218"
definition SIL_RESERVED2_1445 :: u32 where "SIL_RESERVED2_1445 = 0x10531218"
definition SIL_RESERVED2_1256 :: nat where "SIL_RESERVED2_1256 = 16"
definition SIL_RESERVED2_1255 :: u32 where "SIL_RESERVED2_1255 = 0xFF0000"
definition SIL_RESERVED2_1252 :: nat where "SIL_RESERVED2_1252 = 24"
definition SIL_RESERVED2_1251 :: u32 where "SIL_RESERVED2_1251 = 0x1F000000"
definition SIL_RESERVED2_1254 :: nat where "SIL_RESERVED2_1254 = 29"
definition SIL_RESERVED2_1253 :: u32 where "SIL_RESERVED2_1253 = 0xE0000000"
definition SIL_RESERVED2_1360 :: u32 where "SIL_RESERVED2_1360 = 0x1013121C"
definition SIL_RESERVED2_1413 :: u32 where "SIL_RESERVED2_1413 = 0x10236000"
definition SIL_RESERVED2_1414 :: u32 where "SIL_RESERVED2_1414 = 0x10236010"
definition SIL_RESERVED2_1361 :: u32 where "SIL_RESERVED2_1361 = 0x1013140C"
definition SIL_RESERVED2_1415 :: u32 where "SIL_RESERVED2_1415 = 0x1023140C"
definition SIL_RESERVED2_1446 :: u32 where "SIL_RESERVED2_1446 = 0x1053140C"

section \<open>\<^verbatim>\<open>NbioBaseReg.h\<close>\<close>

definition SIL_RESERVED_122 :: nat where "SIL_RESERVED_122 = 0"
definition SIL_RESERVED_121 :: u32 where "SIL_RESERVED_121 = 0xF"
definition SIL_RESERVED_124 :: nat where "SIL_RESERVED_124 = 4"
definition SIL_RESERVED_123 :: u32 where "SIL_RESERVED_123 = 0xF0"
definition SIL_RESERVED_126 :: nat where "SIL_RESERVED_126 = 8"
definition SIL_RESERVED_125 :: u32 where "SIL_RESERVED_125 = 0xF00"
definition SIL_RESERVED_128 :: nat where "SIL_RESERVED_128 = 12"
definition SIL_RESERVED_127 :: u32 where "SIL_RESERVED_127 = 0xF000"
definition SIL_RESERVED_130 :: nat where "SIL_RESERVED_130 = 16"
definition SIL_RESERVED_129 :: u32 where "SIL_RESERVED_129 = 0xF0000"
definition SIL_RESERVED_132 :: nat where "SIL_RESERVED_132 = 20"
definition SIL_RESERVED_131 :: u32 where "SIL_RESERVED_131 = 0xF00000"
definition SIL_RESERVED_134 :: nat where "SIL_RESERVED_134 = 24"
definition SIL_RESERVED_133 :: u32 where "SIL_RESERVED_133 = 0xF000000"
definition SIL_RESERVED_136 :: nat where "SIL_RESERVED_136 = 28"
definition SIL_RESERVED_135 :: u32 where "SIL_RESERVED_135 = 0xF0000000"
definition SIL_RESERVED_536 :: u32 where "SIL_RESERVED_536 = 0x13B1825C"
definition SIL_RESERVED_220 :: nat where "SIL_RESERVED_220 = 21"
definition SIL_RESERVED_219 :: u32 where "SIL_RESERVED_219 = 0x200000"
definition SIL_RESERVED_739 :: u32 where "SIL_RESERVED_739 = 0x13B10004"
definition SIL_RESERVED3_1490 :: nat where "SIL_RESERVED3_1490 = 6"
definition SIL_RESERVED3_1491 :: u32 where "SIL_RESERVED3_1491 = 0x40"
definition SIL_RESERVED3_1492 :: nat where "SIL_RESERVED3_1492 = 12"
definition SIL_RESERVED3_1493 :: u32 where "SIL_RESERVED3_1493 = 0x1000"
definition SIL_RESERVED3_1494 :: nat where "SIL_RESERVED3_1494 = 17"
definition SIL_RESERVED3_1495 :: u32 where "SIL_RESERVED3_1495 = 0x20000"
definition SIL_RESERVED3_1496 :: u32 where "SIL_RESERVED3_1496 = 0x1530001C"
definition SIL_RESERVED3_1497 :: u32 where "SIL_RESERVED3_1497 = 0x1470001C"
definition SIL_RESERVED3_1498 :: u32 where "SIL_RESERVED3_1498 = 0x14B0001C"
definition SIL_RESERVED3_1499 :: nat where "SIL_RESERVED3_1499 = 21"
definition SIL_RESERVED3_1500 :: u32 where "SIL_RESERVED3_1500 = 0xE00000"
definition SIL_RESERVED3_1501 :: u32 where "SIL_RESERVED3_1501 = 0x15704330"
definition SIL_RESERVED2_1084 :: nat where "SIL_RESERVED2_1084 = 16"
definition SIL_RESERVED3_1502 :: u32 where "SIL_RESERVED3_1502 = 0x10000"
definition SIL_RESERVED3_1503 :: u32 where "SIL_RESERVED3_1503 = 0x4000200"
definition SIL_RESERVED3_1511 :: nat where "SIL_RESERVED3_1511 = 0"
definition SIL_RESERVED3_1512 :: u32 where "SIL_RESERVED3_1512 = 1"
definition SIL_RESERVED3_1513 :: nat where "SIL_RESERVED3_1513 = 1"
definition SIL_RESERVED2_969 :: u32 where "SIL_RESERVED2_969 = 2"
definition SIL_RESERVED3_1514 :: nat where "SIL_RESERVED3_1514 = 2"
definition SIL_RESERVED2_971 :: u32 where "SIL_RESERVED2_971 = 4"
definition SIL_RESERVED3_1515 :: nat where "SIL_RESERVED3_1515 = 3"
definition SIL_RESERVED2_973 :: u32 where "SIL_RESERVED2_973 = 8"
definition SIL_RESERVED3_1516 :: nat where "SIL_RESERVED3_1516 = 4"
definition SIL_RESERVED3_1517 :: u32 where "SIL_RESERVED3_1517 = 0x10"
definition SIL_RESERVED3_1518 :: nat where "SIL_RESERVED3_1518 = 5"
definition SIL_RESERVED2_976 :: u32 where "SIL_RESERVED2_976 = 0x20"
definition SIL_RESERVED3_1519 :: nat where "SIL_RESERVED3_1519 = 6"
definition SIL_RESERVED2_978 :: u32 where "SIL_RESERVED2_978 = 0x40"
definition SIL_RESERVED2_981 :: nat where "SIL_RESERVED2_981 = 7"
definition SIL_RESERVED2_980 :: u32 where "SIL_RESERVED2_980 = 0x80"
definition SIL_RESERVED2_983 :: nat where "SIL_RESERVED2_983 = 8"
definition SIL_RESERVED2_982 :: u32 where "SIL_RESERVED2_982 = 0x100"
definition SIL_RESERVED2_985 :: nat where "SIL_RESERVED2_985 = 9"
definition SIL_RESERVED2_984 :: u32 where "SIL_RESERVED2_984 = 0x200"
definition SIL_RESERVED3_1520 :: nat where "SIL_RESERVED3_1520 = 10"
definition SIL_RESERVED2_986 :: u32 where "SIL_RESERVED2_986 = 0x400"
definition SIL_RESERVED3_1521 :: nat where "SIL_RESERVED3_1521 = 11"
definition SIL_RESERVED2_987 :: u32 where "SIL_RESERVED2_987 = 0x800"
definition SIL_RESERVED2_989 :: nat where "SIL_RESERVED2_989 = 12"
definition SIL_RESERVED2_988 :: u32 where "SIL_RESERVED2_988 = 0x1000"
definition SIL_RESERVED2_991 :: nat where "SIL_RESERVED2_991 = 13"
definition SIL_RESERVED2_990 :: u32 where "SIL_RESERVED2_990 = 0x2000"
definition SIL_RESERVED2_993 :: nat where "SIL_RESERVED2_993 = 14"
definition SIL_RESERVED2_992 :: u32 where "SIL_RESERVED2_992 = 0x4000"
definition SIL_RESERVED3_1522 :: nat where "SIL_RESERVED3_1522 = 15"
definition SIL_RESERVED2_994 :: u32 where "SIL_RESERVED2_994 = 0x8000"
definition SIL_RESERVED2_996 :: nat where "SIL_RESERVED2_996 = 16"
definition SIL_RESERVED2_995 :: u32 where "SIL_RESERVED2_995 = 0x10000"
definition SIL_RESERVED2_998 :: nat where "SIL_RESERVED2_998 = 17"
definition SIL_RESERVED2_997 :: u32 where "SIL_RESERVED2_997 = 0x20000"
definition SIL_RESERVED2_1000 :: nat where "SIL_RESERVED2_1000 = 18"
definition SIL_RESERVED2_999 :: u32 where "SIL_RESERVED2_999 = 0x40000"
definition SIL_RESERVED2_1001 :: nat where "SIL_RESERVED2_1001 = 19"
definition SIL_RESERVED3_1523 :: u32 where "SIL_RESERVED3_1523 = 0x80000"
definition SIL_RESERVED2_1317 :: u32 where "SIL_RESERVED2_1317 = 0x141E8F0"
definition SIL_RESERVED2_1034 :: nat where "SIL_RESERVED2_1034 = 0"
definition SIL_RESERVED2_1033 :: u32 where "SIL_RESERVED2_1033 = 1"
definition SIL_RESERVED2_1036 :: nat where "SIL_RESERVED2_1036 = 1"
definition SIL_RESERVED2_1035 :: u32 where "SIL_RESERVED2_1035 = 2"
definition SIL_RESERVED2_1037 :: nat where "SIL_RESERVED2_1037 = 2"
definition SIL_RESERVED3_1524 :: u32 where "SIL_RESERVED3_1524 = 4"
definition SIL_RESERVED3_1525 :: nat where "SIL_RESERVED3_1525 = 3"
definition SIL_RESERVED2_1038 :: u32 where "SIL_RESERVED2_1038 = 8"
definition SIL_RESERVED2_1039 :: nat where "SIL_RESERVED2_1039 = 4"
definition SIL_RESERVED3_1526 :: u32 where "SIL_RESERVED3_1526 = 0x10"
definition SIL_RESERVED3_1527 :: nat where "SIL_RESERVED3_1527 = 5"
definition SIL_RESERVED3_1528 :: u32 where "SIL_RESERVED3_1528 = 0x20"
definition SIL_RESERVED2_1041 :: nat where "SIL_RESERVED2_1041 = 6"
definition SIL_RESERVED2_1040 :: u32 where "SIL_RESERVED2_1040 = 0x40"
definition SIL_RESERVED2_1043 :: nat where "SIL_RESERVED2_1043 = 7"
definition SIL_RESERVED2_1042 :: u32 where "SIL_RESERVED2_1042 = 0x80"
definition SIL_RESERVED2_1045 :: nat where "SIL_RESERVED2_1045 = 8"
definition SIL_RESERVED2_1044 :: u32 where "SIL_RESERVED2_1044 = 0x100"
definition SIL_RESERVED2_1047 :: nat where "SIL_RESERVED2_1047 = 9"
definition SIL_RESERVED2_1046 :: u32 where "SIL_RESERVED2_1046 = 0x200"
definition SIL_RESERVED2_1048 :: nat where "SIL_RESERVED2_1048 = 10"
definition SIL_RESERVED3_1529 :: u32 where "SIL_RESERVED3_1529 = 0x400"
definition SIL_RESERVED2_1050 :: nat where "SIL_RESERVED2_1050 = 11"
definition SIL_RESERVED2_1049 :: u32 where "SIL_RESERVED2_1049 = 0x800"
definition SIL_RESERVED2_1051 :: nat where "SIL_RESERVED2_1051 = 12"
definition SIL_RESERVED3_1530 :: u32 where "SIL_RESERVED3_1530 = 0x1000"
definition SIL_RESERVED2_1052 :: nat where "SIL_RESERVED2_1052 = 13"
definition SIL_RESERVED3_1531 :: u32 where "SIL_RESERVED3_1531 = 0x2000"
definition SIL_RESERVED3_1532 :: nat where "SIL_RESERVED3_1532 = 14"
definition SIL_RESERVED3_1533 :: u32 where "SIL_RESERVED3_1533 = 0x4000"
definition SIL_RESERVED2_1053 :: nat where "SIL_RESERVED2_1053 = 15"
definition SIL_RESERVED3_1534 :: u32 where "SIL_RESERVED3_1534 = 0x8000"
definition SIL_RESERVED3_1535 :: nat where "SIL_RESERVED3_1535 = 16"
definition SIL_RESERVED2_1054 :: u32 where "SIL_RESERVED2_1054 = 0x10000"
definition SIL_RESERVED2_1055 :: nat where "SIL_RESERVED2_1055 = 17"
definition SIL_RESERVED3_1536 :: u32 where "SIL_RESERVED3_1536 = 0x20000"
definition SIL_RESERVED2_1057 :: nat where "SIL_RESERVED2_1057 = 18"
definition SIL_RESERVED2_1056 :: u32 where "SIL_RESERVED2_1056 = 0x40000"
definition SIL_RESERVED3_1537 :: nat where "SIL_RESERVED3_1537 = 19"
definition SIL_RESERVED2_1058 :: u32 where "SIL_RESERVED2_1058 = 0x80000"
definition SIL_RESERVED2_1321 :: u32 where "SIL_RESERVED2_1321 = 0x1013A8F0"
definition SIL_RESERVED2_1258 :: nat where "SIL_RESERVED2_1258 = 0"
definition SIL_RESERVED2_1257 :: u32 where "SIL_RESERVED2_1257 = 1"
definition SIL_RESERVED3_1538 :: nat where "SIL_RESERVED3_1538 = 1"
definition SIL_RESERVED2_1259 :: u32 where "SIL_RESERVED2_1259 = 2"
definition SIL_RESERVED2_1261 :: nat where "SIL_RESERVED2_1261 = 2"
definition SIL_RESERVED2_1260 :: u32 where "SIL_RESERVED2_1260 = 4"
definition SIL_RESERVED2_1263 :: nat where "SIL_RESERVED2_1263 = 3"
definition SIL_RESERVED2_1262 :: u32 where "SIL_RESERVED2_1262 = 8"
definition SIL_RESERVED2_1265 :: nat where "SIL_RESERVED2_1265 = 4"
definition SIL_RESERVED2_1264 :: u32 where "SIL_RESERVED2_1264 = 0x10"
definition SIL_RESERVED2_1267 :: nat where "SIL_RESERVED2_1267 = 5"
definition SIL_RESERVED2_1266 :: u32 where "SIL_RESERVED2_1266 = 0x20"
definition SIL_RESERVED2_1269 :: nat where "SIL_RESERVED2_1269 = 6"
definition SIL_RESERVED2_1268 :: u32 where "SIL_RESERVED2_1268 = 0x40"
definition SIL_RESERVED2_1270 :: nat where "SIL_RESERVED2_1270 = 7"
definition SIL_RESERVED3_1539 :: u32 where "SIL_RESERVED3_1539 = 0x80"
definition SIL_RESERVED2_1272 :: nat where "SIL_RESERVED2_1272 = 8"
definition SIL_RESERVED2_1271 :: u32 where "SIL_RESERVED2_1271 = 0x100"
definition SIL_RESERVED2_1274 :: nat where "SIL_RESERVED2_1274 = 9"
definition SIL_RESERVED2_1273 :: u32 where "SIL_RESERVED2_1273 = 0x200"
definition SIL_RESERVED2_1276 :: nat where "SIL_RESERVED2_1276 = 10"
definition SIL_RESERVED2_1275 :: u32 where "SIL_RESERVED2_1275 = 0x400"
definition SIL_RESERVED2_1278 :: nat where "SIL_RESERVED2_1278 = 11"
definition SIL_RESERVED2_1277 :: u32 where "SIL_RESERVED2_1277 = 0x800"
definition SIL_RESERVED2_1280 :: nat where "SIL_RESERVED2_1280 = 12"
definition SIL_RESERVED2_1279 :: u32 where "SIL_RESERVED2_1279 = 0x1000"
definition SIL_RESERVED2_1281 :: nat where "SIL_RESERVED2_1281 = 13"
definition SIL_RESERVED3_1540 :: u32 where "SIL_RESERVED3_1540 = 0x2000"
definition SIL_RESERVED2_1283 :: nat where "SIL_RESERVED2_1283 = 14"
definition SIL_RESERVED2_1282 :: u32 where "SIL_RESERVED2_1282 = 0x4000"
definition SIL_RESERVED2_1285 :: nat where "SIL_RESERVED2_1285 = 15"
definition SIL_RESERVED2_1284 :: u32 where "SIL_RESERVED2_1284 = 0x8000"
definition SIL_RESERVED2_1287 :: nat where "SIL_RESERVED2_1287 = 16"
definition SIL_RESERVED2_1286 :: u32 where "SIL_RESERVED2_1286 = 0x10000"
definition SIL_RESERVED2_1288 :: nat where "SIL_RESERVED2_1288 = 17"
definition SIL_RESERVED3_1541 :: u32 where "SIL_RESERVED3_1541 = 0x20000"
definition SIL_RESERVED2_1290 :: nat where "SIL_RESERVED2_1290 = 18"
definition SIL_RESERVED2_1289 :: u32 where "SIL_RESERVED2_1289 = 0x40000"
definition SIL_RESERVED2_1292 :: nat where "SIL_RESERVED2_1292 = 19"
definition SIL_RESERVED2_1291 :: u32 where "SIL_RESERVED2_1291 = 0x80000"
definition SIL_RESERVED3_1542 :: u32 where "SIL_RESERVED3_1542 = 0x141E190"
definition SIL_RESERVED2_1416 :: u32 where "SIL_RESERVED2_1416 = 0x151E140"

section \<open>\<^verbatim>\<open>NtbReg.h\<close>\<close>

definition SIL_RESERVED2_1088 :: nat where "SIL_RESERVED2_1088 = 0"
definition SIL_RESERVED2_1087 :: u32 where "SIL_RESERVED2_1087 = 1"
definition SIL_RESERVED2_1086 :: nat where "SIL_RESERVED2_1086 = 1"
definition SIL_RESERVED2_1085 :: u32 where "SIL_RESERVED2_1085 = 2"
definition SIL_RESERVED2_1091 :: nat where "SIL_RESERVED2_1091 = 2"
definition SIL_RESERVED2_1090 :: u32 where "SIL_RESERVED2_1090 = 4"
definition SIL_RESERVED2_1089 :: nat where "SIL_RESERVED2_1089 = 3"
definition NTB_SMU_SDPPORTEN_SEC_CMPEN_MASK :: u32 where "NTB_SMU_SDPPORTEN_SEC_CMPEN_MASK = 8"
definition SIL_RESERVED2_1448 :: u32 where "SIL_RESERVED2_1448 = 0x400006C"

section \<open>\<^verbatim>\<open>SdpmuxReg.h\<close>\<close>

definition SIL_RESERVED_466 :: nat where "SIL_RESERVED_466 = 22"
definition SIL_RESERVED_465 :: u32 where "SIL_RESERVED_465 = 0x400000"
definition SIL_RESERVED_464 :: nat where "SIL_RESERVED_464 = 23"
definition SIL_RESERVED_463 :: u32 where "SIL_RESERVED_463 = 0x800000"
definition SIL_RESERVED_462 :: nat where "SIL_RESERVED_462 = 24"
definition SIL_RESERVED_461 :: u32 where "SIL_RESERVED_461 = 0x1000000"
definition SIL_RESERVED_460 :: nat where "SIL_RESERVED_460 = 25"
definition SIL_RESERVED_459 :: u32 where "SIL_RESERVED_459 = 0x2000000"
definition SIL_RESERVED_458 :: nat where "SIL_RESERVED_458 = 26"
definition SIL_RESERVED_457 :: u32 where "SIL_RESERVED_457 = 0x4000000"
definition SIL_RESERVED_456 :: nat where "SIL_RESERVED_456 = 27"
definition SIL_RESERVED_455 :: u32 where "SIL_RESERVED_455 = 0x8000000"
definition SIL_RESERVED_454 :: nat where "SIL_RESERVED_454 = 28"
definition SDPMUX_GLUE_CG_LCLK_CTRL_0_SOFT_OVERRIDE_CLK3_MASK :: u32 where "SDPMUX_GLUE_CG_LCLK_CTRL_0_SOFT_OVERRIDE_CLK3_MASK = 0x10000000"
definition SDPMUX_GLUE_CG_LCLK_CTRL_0_SOFT_OVERRIDE_CLK2_OFFSET :: nat where "SDPMUX_GLUE_CG_LCLK_CTRL_0_SOFT_OVERRIDE_CLK2_OFFSET = 29"
definition SIL_RESERVED_453 :: u32 where "SIL_RESERVED_453 = 0x20000000"
definition SIL_RESERVED_452 :: nat where "SIL_RESERVED_452 = 30"
definition SIL_RESERVED_451 :: u32 where "SIL_RESERVED_451 = 0x40000000"
definition SIL_RESERVED_450 :: nat where "SIL_RESERVED_450 = 31"
definition SIL_RESERVED_449 :: u32 where "SIL_RESERVED_449 = 0x80000000"
definition SIL_RESERVED_741 :: u32 where "SIL_RESERVED_741 = 0x4400000"
definition SIL_RESERVED_744 :: u32 where "SIL_RESERVED_744 = 0x4E00000"
definition SIL_RESERVED_483 :: nat where "SIL_RESERVED_483 = 22"
definition SIL_RESERVED_482 :: u32 where "SIL_RESERVED_482 = 0x400000"
definition SDPMUX_GLUE_CG_LCLK_CTRL_1_SOFT_OVERRIDE_CLK8_OFFSET :: nat where "SDPMUX_GLUE_CG_LCLK_CTRL_1_SOFT_OVERRIDE_CLK8_OFFSET = 23"
definition SIL_RESERVED_481 :: u32 where "SIL_RESERVED_481 = 0x800000"
definition SIL_RESERVED_480 :: nat where "SIL_RESERVED_480 = 24"
definition SIL_RESERVED_479 :: u32 where "SIL_RESERVED_479 = 0x1000000"
definition SIL_RESERVED_478 :: nat where "SIL_RESERVED_478 = 25"
definition SIL_RESERVED_477 :: u32 where "SIL_RESERVED_477 = 0x2000000"
definition SIL_RESERVED_476 :: nat where "SIL_RESERVED_476 = 26"
definition SIL_RESERVED_475 :: u32 where "SIL_RESERVED_475 = 0x4000000"
definition SIL_RESERVED_474 :: nat where "SIL_RESERVED_474 = 27"
definition SIL_RESERVED_473 :: u32 where "SIL_RESERVED_473 = 0x8000000"
definition SDPMUX_GLUE_CG_LCLK_CTRL_1_SOFT_OVERRIDE_CLK3_OFFSET :: nat where "SDPMUX_GLUE_CG_LCLK_CTRL_1_SOFT_OVERRIDE_CLK3_OFFSET = 28"
definition SIL_RESERVED_472 :: u32 where "SIL_RESERVED_472 = 0x10000000"
definition SIL_RESERVED_471 :: nat where "SIL_RESERVED_471 = 29"
definition SIL_RESERVED_470 :: u32 where "SIL_RESERVED_470 = 0x20000000"
definition SIL_RESERVED_469 :: nat where "SIL_RESERVED_469 = 30"
definition SDPMUX_GLUE_CG_LCLK_CTRL_1_SOFT_OVERRIDE_CLK1_MASK :: u32 where "SDPMUX_GLUE_CG_LCLK_CTRL_1_SOFT_OVERRIDE_CLK1_MASK = 0x40000000"
definition SIL_RESERVED_468 :: nat where "SIL_RESERVED_468 = 31"
definition SIL_RESERVED_467 :: u32 where "SIL_RESERVED_467 = 0x80000000"
definition SIL_RESERVED_742 :: u32 where "SIL_RESERVED_742 = 0x4400004"
definition SIL_RESERVED_745 :: u32 where "SIL_RESERVED_745 = 0x4E00004"
definition SIL_RESERVED_555 :: u32 where "SIL_RESERVED_555 = 0x4400410"
definition SIL_RESERVED_564 :: u32 where "SIL_RESERVED_564 = 0x4E00410"
definition SIL_RESERVED_590 :: u32 where "SIL_RESERVED_590 = 0x4400810"
definition SIL_RESERVED_601 :: u32 where "SIL_RESERVED_601 = 0x4E00810"
definition SIL_RESERVED_625 :: u32 where "SIL_RESERVED_625 = 0x4400C10"
definition SMN_IOHUB0_N2NBIO1_SDPMUX_SION_S0_Client_RdRsp_BurstTarget_Lower_ADDRESS :: u32 where "SMN_IOHUB0_N2NBIO1_SDPMUX_SION_S0_Client_RdRsp_BurstTarget_Lower_ADDRESS = 0x4E00C10"
definition SIL_RESERVED_661 :: u32 where "SIL_RESERVED_661 = 0x4401010"
definition SIL_RESERVED_672 :: u32 where "SIL_RESERVED_672 = 0x4E01010"
definition SIL_RESERVED_693 :: u32 where "SIL_RESERVED_693 = 0x4401410"
definition SMN_IOHUB0_N4NBIO1_SDPMUX_SION_S0_Client_RdRsp_BurstTarget_Lower_ADDRESS :: u32 where "SMN_IOHUB0_N4NBIO1_SDPMUX_SION_S0_Client_RdRsp_BurstTarget_Lower_ADDRESS = 0x4E01410"
definition SIL_RESERVED_556 :: u32 where "SIL_RESERVED_556 = 0x4400414"
definition SMN_IOHUB0_N0NBIO1_SDPMUX_SION_S0_Client_RdRsp_BurstTarget_Upper_ADDRESS :: u32 where "SMN_IOHUB0_N0NBIO1_SDPMUX_SION_S0_Client_RdRsp_BurstTarget_Upper_ADDRESS = 0x4E00414"
definition SIL_RESERVED_591 :: u32 where "SIL_RESERVED_591 = 0x4400814"
definition SIL_RESERVED_602 :: u32 where "SIL_RESERVED_602 = 0x4E00814"
definition SMN_IOHUB0_N2NBIO0_SDPMUX_SION_S0_Client_RdRsp_BurstTarget_Upper_ADDRESS :: u32 where "SMN_IOHUB0_N2NBIO0_SDPMUX_SION_S0_Client_RdRsp_BurstTarget_Upper_ADDRESS = 0x4400C14"
definition SIL_RESERVED_635 :: u32 where "SIL_RESERVED_635 = 0x4E00C14"
definition SIL_RESERVED_662 :: u32 where "SIL_RESERVED_662 = 0x4401014"
definition SIL_RESERVED_673 :: u32 where "SIL_RESERVED_673 = 0x4E01014"
definition SIL_RESERVED_694 :: u32 where "SIL_RESERVED_694 = 0x4401414"
definition SMN_IOHUB0_N4NBIO1_SDPMUX_SION_S0_Client_RdRsp_BurstTarget_Upper_ADDRESS :: u32 where "SMN_IOHUB0_N4NBIO1_SDPMUX_SION_S0_Client_RdRsp_BurstTarget_Upper_ADDRESS = 0x4E01414"
definition SIL_RESERVED_557 :: u32 where "SIL_RESERVED_557 = 0x4400400"
definition SIL_RESERVED_565 :: u32 where "SIL_RESERVED_565 = 0x4E00400"
definition SIL_RESERVED_592 :: u32 where "SIL_RESERVED_592 = 0x4400800"
definition SIL_RESERVED_603 :: u32 where "SIL_RESERVED_603 = 0x4E00800"
definition SIL_RESERVED_626 :: u32 where "SIL_RESERVED_626 = 0x4400C00"
definition SIL_RESERVED_636 :: u32 where "SIL_RESERVED_636 = 0x4E00C00"
definition SIL_RESERVED_663 :: u32 where "SIL_RESERVED_663 = 0x4401000"
definition SIL_RESERVED_674 :: u32 where "SIL_RESERVED_674 = 0x4E01000"
definition SIL_RESERVED_695 :: u32 where "SIL_RESERVED_695 = 0x4401400"
definition SIL_RESERVED_704 :: u32 where "SIL_RESERVED_704 = 0x4E01400"
definition SIL_RESERVED_558 :: u32 where "SIL_RESERVED_558 = 0x4400404"
definition SIL_RESERVED_566 :: u32 where "SIL_RESERVED_566 = 0x4E00404"
definition SIL_RESERVED_593 :: u32 where "SIL_RESERVED_593 = 0x4400804"
definition SIL_RESERVED_604 :: u32 where "SIL_RESERVED_604 = 0x4E00804"
definition SIL_RESERVED_627 :: u32 where "SIL_RESERVED_627 = 0x4400C04"
definition SIL_RESERVED_637 :: u32 where "SIL_RESERVED_637 = 0x4E00C04"
definition SIL_RESERVED_664 :: u32 where "SIL_RESERVED_664 = 0x4401004"
definition SIL_RESERVED_675 :: u32 where "SIL_RESERVED_675 = 0x4E01004"
definition SMN_IOHUB0_N4NBIO0_SDPMUX_SION_S0_Client_Req_BurstTarget_Upper_ADDRESS :: u32 where "SMN_IOHUB0_N4NBIO0_SDPMUX_SION_S0_Client_Req_BurstTarget_Upper_ADDRESS = 0x4401404"
definition SMN_IOHUB0_N4NBIO1_SDPMUX_SION_S0_Client_Req_BurstTarget_Upper_ADDRESS :: u32 where "SMN_IOHUB0_N4NBIO1_SDPMUX_SION_S0_Client_Req_BurstTarget_Upper_ADDRESS = 0x4E01404"
definition SIL_RESERVED_559 :: u32 where "SIL_RESERVED_559 = 0x4400408"
definition SMN_IOHUB0_N0NBIO1_SDPMUX_SION_S0_Client_Req_TimeSlot_Lower_ADDRESS :: u32 where "SMN_IOHUB0_N0NBIO1_SDPMUX_SION_S0_Client_Req_TimeSlot_Lower_ADDRESS = 0x4E00408"
definition SIL_RESERVED_594 :: u32 where "SIL_RESERVED_594 = 0x4400808"
definition SIL_RESERVED_605 :: u32 where "SIL_RESERVED_605 = 0x4E00808"
definition SMN_IOHUB0_N2NBIO0_SDPMUX_SION_S0_Client_Req_TimeSlot_Lower_ADDRESS :: u32 where "SMN_IOHUB0_N2NBIO0_SDPMUX_SION_S0_Client_Req_TimeSlot_Lower_ADDRESS = 0x4400C08"
definition SIL_RESERVED_638 :: u32 where "SIL_RESERVED_638 = 0x4E00C08"
definition SIL_RESERVED_665 :: u32 where "SIL_RESERVED_665 = 0x4401008"
definition SIL_RESERVED_676 :: u32 where "SIL_RESERVED_676 = 0x4E01008"
definition SIL_RESERVED_696 :: u32 where "SIL_RESERVED_696 = 0x4401408"
definition SIL_RESERVED_705 :: u32 where "SIL_RESERVED_705 = 0x4E01408"
definition SIL_RESERVED_567 :: u32 where "SIL_RESERVED_567 = 0x4E0040C"
definition SIL_RESERVED_595 :: u32 where "SIL_RESERVED_595 = 0x440080C"
definition SIL_RESERVED_606 :: u32 where "SIL_RESERVED_606 = 0x4E0080C"
definition SIL_RESERVED_628 :: u32 where "SIL_RESERVED_628 = 0x4400C0C"
definition SIL_RESERVED_639 :: u32 where "SIL_RESERVED_639 = 0x4E00C0C"
definition SIL_RESERVED_666 :: u32 where "SIL_RESERVED_666 = 0x440100C"
definition SIL_RESERVED_677 :: u32 where "SIL_RESERVED_677 = 0x4E0100C"
definition SIL_RESERVED_697 :: u32 where "SIL_RESERVED_697 = 0x440140C"
definition SIL_RESERVED_706 :: u32 where "SIL_RESERVED_706 = 0x4E0140C"
definition SIL_RESERVED_560 :: u32 where "SIL_RESERVED_560 = 0x4400440"
definition SIL_RESERVED_596 :: u32 where "SIL_RESERVED_596 = 0x4400840"
definition SIL_RESERVED_629 :: u32 where "SIL_RESERVED_629 = 0x4400C40"
definition SIL_RESERVED_667 :: u32 where "SIL_RESERVED_667 = 0x4401040"
definition SIL_RESERVED_698 :: u32 where "SIL_RESERVED_698 = 0x4401440"
definition SIL_RESERVED_561 :: u32 where "SIL_RESERVED_561 = 0x4400444"
definition SIL_RESERVED_568 :: u32 where "SIL_RESERVED_568 = 0x4E00444"
definition SMN_IOHUB0_N1NBIO0_SDPMUX_SION_S1_Client_RdRsp_BurstTarget_Upper_ADDRESS :: u32 where "SMN_IOHUB0_N1NBIO0_SDPMUX_SION_S1_Client_RdRsp_BurstTarget_Upper_ADDRESS = 0x4400844"
definition SIL_RESERVED_607 :: u32 where "SIL_RESERVED_607 = 0x4E00844"
definition SIL_RESERVED_630 :: u32 where "SIL_RESERVED_630 = 0x4400C44"
definition SIL_RESERVED_640 :: u32 where "SIL_RESERVED_640 = 0x4E00C44"
definition SMN_IOHUB0_N3NBIO0_SDPMUX_SION_S1_Client_RdRsp_BurstTarget_Upper_ADDRESS :: u32 where "SMN_IOHUB0_N3NBIO0_SDPMUX_SION_S1_Client_RdRsp_BurstTarget_Upper_ADDRESS = 0x4401044"
definition SIL_RESERVED_678 :: u32 where "SIL_RESERVED_678 = 0x4E01044"
definition SIL_RESERVED_699 :: u32 where "SIL_RESERVED_699 = 0x4401444"
definition SIL_RESERVED_707 :: u32 where "SIL_RESERVED_707 = 0x4E01444"
definition SIL_RESERVED_562 :: u32 where "SIL_RESERVED_562 = 0x4400430"
definition SMN_IOHUB0_N0NBIO1_SDPMUX_SION_S1_Client_Req_BurstTarget_Lower_ADDRESS :: u32 where "SMN_IOHUB0_N0NBIO1_SDPMUX_SION_S1_Client_Req_BurstTarget_Lower_ADDRESS = 0x4E00430"
definition SIL_RESERVED_597 :: u32 where "SIL_RESERVED_597 = 0x4400830"
definition SIL_RESERVED_608 :: u32 where "SIL_RESERVED_608 = 0x4E00830"
definition SIL_RESERVED_631 :: u32 where "SIL_RESERVED_631 = 0x4400C30"
definition SMN_IOHUB0_N2NBIO1_SDPMUX_SION_S1_Client_Req_BurstTarget_Lower_ADDRESS :: u32 where "SMN_IOHUB0_N2NBIO1_SDPMUX_SION_S1_Client_Req_BurstTarget_Lower_ADDRESS = 0x4E00C30"
definition SIL_RESERVED_668 :: u32 where "SIL_RESERVED_668 = 0x4401030"
definition SIL_RESERVED_679 :: u32 where "SIL_RESERVED_679 = 0x4E01030"
definition SIL_RESERVED_700 :: u32 where "SIL_RESERVED_700 = 0x4401430"
definition SIL_RESERVED_708 :: u32 where "SIL_RESERVED_708 = 0x4E01430"
definition SMN_IOHUB0_N0NBIO0_SDPMUX_SION_S1_Client_Req_BurstTarget_Upper_ADDRESS :: u32 where "SMN_IOHUB0_N0NBIO0_SDPMUX_SION_S1_Client_Req_BurstTarget_Upper_ADDRESS = 0x4400434"
definition SIL_RESERVED_569 :: u32 where "SIL_RESERVED_569 = 0x4E00434"
definition SIL_RESERVED_598 :: u32 where "SIL_RESERVED_598 = 0x4400834"
definition SIL_RESERVED_609 :: u32 where "SIL_RESERVED_609 = 0x4E00834"
definition SIL_RESERVED_632 :: u32 where "SIL_RESERVED_632 = 0x4400C34"
definition SIL_RESERVED_641 :: u32 where "SIL_RESERVED_641 = 0x4E00C34"
definition SIL_RESERVED_669 :: u32 where "SIL_RESERVED_669 = 0x4401034"
definition SIL_RESERVED_680 :: u32 where "SIL_RESERVED_680 = 0x4E01034"
definition SIL_RESERVED_701 :: u32 where "SIL_RESERVED_701 = 0x4401434"
definition SIL_RESERVED_709 :: u32 where "SIL_RESERVED_709 = 0x4E01434"
definition SIL_RESERVED_563 :: u32 where "SIL_RESERVED_563 = 0x4400438"
definition SIL_RESERVED_570 :: u32 where "SIL_RESERVED_570 = 0x4E00438"
definition SIL_RESERVED_599 :: u32 where "SIL_RESERVED_599 = 0x4400838"
definition SIL_RESERVED_610 :: u32 where "SIL_RESERVED_610 = 0x4E00838"
definition SIL_RESERVED_633 :: u32 where "SIL_RESERVED_633 = 0x4400C38"
definition SIL_RESERVED_642 :: u32 where "SIL_RESERVED_642 = 0x4E00C38"
definition SIL_RESERVED_670 :: u32 where "SIL_RESERVED_670 = 0x4401038"
definition SIL_RESERVED_681 :: u32 where "SIL_RESERVED_681 = 0x4E01038"
definition SIL_RESERVED_702 :: u32 where "SIL_RESERVED_702 = 0x4401438"
definition SMN_IOHUB0_N4NBIO1_SDPMUX_SION_S1_Client_Req_TimeSlot_Lower_ADDRESS :: u32 where "SMN_IOHUB0_N4NBIO1_SDPMUX_SION_S1_Client_Req_TimeSlot_Lower_ADDRESS = 0x4E01438"
definition SMN_IOHUB0_N0NBIO0_SDPMUX_SION_S1_Client_Req_TimeSlot_Upper_ADDRESS :: u32 where "SMN_IOHUB0_N0NBIO0_SDPMUX_SION_S1_Client_Req_TimeSlot_Upper_ADDRESS = 0x440043C"
definition SIL_RESERVED_571 :: u32 where "SIL_RESERVED_571 = 0x4E0043C"
definition SIL_RESERVED_600 :: u32 where "SIL_RESERVED_600 = 0x440083C"
definition SMN_IOHUB0_N1NBIO1_SDPMUX_SION_S1_Client_Req_TimeSlot_Upper_ADDRESS :: u32 where "SMN_IOHUB0_N1NBIO1_SDPMUX_SION_S1_Client_Req_TimeSlot_Upper_ADDRESS = 0x4E0083C"
definition SIL_RESERVED_634 :: u32 where "SIL_RESERVED_634 = 0x4400C3C"
definition SIL_RESERVED_645 :: u32 where "SIL_RESERVED_645 = 0x4E00C3C"
definition SIL_RESERVED_671 :: u32 where "SIL_RESERVED_671 = 0x440103C"
definition SIL_RESERVED_682 :: u32 where "SIL_RESERVED_682 = 0x4E0103C"
definition SIL_RESERVED_703 :: u32 where "SIL_RESERVED_703 = 0x440143C"
definition SIL_RESERVED_710 :: u32 where "SIL_RESERVED_710 = 0x4E0143C"

section \<open>\<^verbatim>\<open>SstReg.h\<close>\<close>

definition SIL_RESERVED_485 :: nat where "SIL_RESERVED_485 = 4"
definition SIL_RESERVED_484 :: u32 where "SIL_RESERVED_484 = 0x10"
definition SIL_RESERVED_758 :: u32 where "SIL_RESERVED_758 = 0x17500404"
definition SIL_RESERVED_760 :: u32 where "SIL_RESERVED_760 = 0x17600404"
definition SIL_RESERVED_767 :: nat where "SIL_RESERVED_767 = 0"
definition SIL_RESERVED_766 :: u32 where "SIL_RESERVED_766 = 1"
definition SIL_RESERVED_763 :: nat where "SIL_RESERVED_763 = 8"
definition SIL_RESERVED_762 :: u32 where "SIL_RESERVED_762 = 0xFF00"
definition SIL_RESERVED_765 :: nat where "SIL_RESERVED_765 = 16"
definition SIL_RESERVED_764 :: u32 where "SIL_RESERVED_764 = 0x10000"
definition SIL_RESERVED_759 :: u32 where "SIL_RESERVED_759 = 0x17500004"
definition SIL_RESERVED_761 :: u32 where "SIL_RESERVED_761 = 0x17600004"

section \<open>\<^verbatim>\<open>SyshubmmReg.h\<close>\<close>

definition A2S_CNTL_SW0_SDP_WR_CHAIN_DIS_OFFSET :: nat where "A2S_CNTL_SW0_SDP_WR_CHAIN_DIS_OFFSET = 9"
definition A2S_CNTL_SW0_SDP_WR_CHAIN_DIS_MASK :: u32 where "A2S_CNTL_SW0_SDP_WR_CHAIN_DIS_MASK = 0x200"
definition SIL_RESERVED2_1312 :: u32 where "SIL_RESERVED2_1312 = 0x1403B40"
definition SIL_RESERVED2_1368 :: u32 where "SIL_RESERVED2_1368 = 0x1503B40"
definition SIL_RESERVED2_932 :: nat where "SIL_RESERVED2_932 = 9"
definition SIL_RESERVED2_931 :: u32 where "SIL_RESERVED2_931 = 0x200"
definition SIL_RESERVED2_1313 :: u32 where "SIL_RESERVED2_1313 = 0x1403B44"
definition SIL_RESERVED2_1369 :: u32 where "SIL_RESERVED2_1369 = 0x1503B44"
definition SIL_RESERVED2_934 :: nat where "SIL_RESERVED2_934 = 9"
definition SIL_RESERVED2_933 :: u32 where "SIL_RESERVED2_933 = 0x200"
definition SIL_RESERVED2_1314 :: u32 where "SIL_RESERVED2_1314 = 0x1403B48"
definition SIL_RESERVED2_936 :: nat where "SIL_RESERVED2_936 = 9"
definition SIL_RESERVED2_935 :: u32 where "SIL_RESERVED2_935 = 0x200"
definition SIL_RESERVED2_1315 :: u32 where "SIL_RESERVED2_1315 = 0x1403B4C"
definition SIL_RESERVED2_1081 :: nat where "SIL_RESERVED2_1081 = 0"
definition SIL_RESERVED2_1080 :: u32 where "SIL_RESERVED2_1080 = 1"
definition SIL_RESERVED2_1083 :: nat where "SIL_RESERVED2_1083 = 2"
definition SIL_RESERVED2_1082 :: u32 where "SIL_RESERVED2_1082 = 0x3FC"
definition SIL_RESERVED2_1324 :: u32 where "SIL_RESERVED2_1324 = 0x1403BA8"
definition SIL_RESERVED2_1377 :: u32 where "SIL_RESERVED2_1377 = 0x1503BA8"
definition SIL_RESERVED2_1450 :: nat where "SIL_RESERVED2_1450 = 16"
definition SIL_RESERVED2_1449 :: u32 where "SIL_RESERVED2_1449 = 0x10000"
definition SIL_RESERVED2_1452 :: nat where "SIL_RESERVED2_1452 = 17"
definition SIL_RESERVED2_1451 :: u32 where "SIL_RESERVED2_1451 = 0x20000"
definition SIL_RESERVED2_1362 :: u32 where "SIL_RESERVED2_1362 = 0x1410008"
definition SYSHUB_DS_CTRL_SHUBCLK_SYSHUB_SHUBCLK_DS_EN_OFFSET :: nat where "SYSHUB_DS_CTRL_SHUBCLK_SYSHUB_SHUBCLK_DS_EN_OFFSET = 31"
definition SIL_RESERVED2_1453 :: u32 where "SIL_RESERVED2_1453 = 0x80000000"
definition SIL_RESERVED2_1363 :: u32 where "SIL_RESERVED2_1363 = 0x1411000"
definition SIL_RESERVED2_1455 :: nat where "SIL_RESERVED2_1455 = 31"
definition SIL_RESERVED2_1454 :: u32 where "SIL_RESERVED2_1454 = 0x80000000"
definition SIL_RESERVED2_1364 :: u32 where "SIL_RESERVED2_1364 = 0x1410000"
definition SIL_RESERVED2_1417 :: u32 where "SIL_RESERVED2_1417 = 0x1510000"
definition SIL_RESERVED2_1456 :: nat where "SIL_RESERVED2_1456 = 0"
definition SYSHUB_MGCG_CTRL_SHUBCLK_SYSHUB_MGCG_EN_SHUBCLK_MASK :: u32 where "SYSHUB_MGCG_CTRL_SHUBCLK_SYSHUB_MGCG_EN_SHUBCLK_MASK = 1"
definition SIL_RESERVED2_1365 :: u32 where "SIL_RESERVED2_1365 = 0x1411020"
definition SIL_RESERVED2_1458 :: nat where "SIL_RESERVED2_1458 = 0"
definition SIL_RESERVED2_1457 :: u32 where "SIL_RESERVED2_1457 = 1"
definition SIL_RESERVED2_1460 :: nat where "SIL_RESERVED2_1460 = 2"
definition SIL_RESERVED2_1459 :: u32 where "SIL_RESERVED2_1459 = 0x3FC"
definition SIL_RESERVED2_1366 :: u32 where "SIL_RESERVED2_1366 = 0x1410020"
definition SIL_RESERVED2_1418 :: u32 where "SIL_RESERVED2_1418 = 0x1510020"

section \<open>\<^verbatim>\<open>NbioCommon.h\<close>\<close>

definition PROPERTY_IOHC_CLKGATING_ENABLED :: u32 where "PROPERTY_IOHC_CLKGATING_ENABLED = 1"
definition PROPERTY_IOHC_CLKGATING_DISABLED :: u32 where "PROPERTY_IOHC_CLKGATING_DISABLED = 2"
definition PROPERTY_TPH_COMPLETER_ENABLED :: u32 where "PROPERTY_TPH_COMPLETER_ENABLED = 4"
definition PROPERTY_NBIF_MGCG_CLKGATING_ENABLED :: u32 where "PROPERTY_NBIF_MGCG_CLKGATING_ENABLED = 0x10"
definition PROPERTY_NBIF_MGCG_CLKGATING_DISABLED :: u32 where "PROPERTY_NBIF_MGCG_CLKGATING_DISABLED = 0x20"
definition PROPERTY_SYSHUB_MGCG_CLKGATING_ENABLED :: u32 where "PROPERTY_SYSHUB_MGCG_CLKGATING_ENABLED = 0x40"
definition PROPERTY_SYSHUB_MGCG_CLKGATING_DISABLED :: u32 where "PROPERTY_SYSHUB_MGCG_CLKGATING_DISABLED = 0x80"
definition PROPERTY_SST_CLKGATING_ENABLED :: u32 where "PROPERTY_SST_CLKGATING_ENABLED = 0x100"
definition PROPERTY_SST_CLKGATING_DISABLED :: u32 where "PROPERTY_SST_CLKGATING_DISABLED = 0x200"
definition PROPERTY_IOMMU_DISABLED :: u32 where "PROPERTY_IOMMU_DISABLED = 0x400"
definition PROPERTY_IOMMU_L2CLKGATING_ENABLED :: u32 where "PROPERTY_IOMMU_L2CLKGATING_ENABLED = 0x800"
definition PROPERTY_IOMMU_L2CLKGATING_DISABLED :: u32 where "PROPERTY_IOMMU_L2CLKGATING_DISABLED = 0x1000"
definition PROPERTY_IOMMU_L1CLKGATING_ENABLED :: u32 where "PROPERTY_IOMMU_L1CLKGATING_ENABLED = 0x2000"
definition PROPERTY_IOMMU_L1CLKGATING_DISABLED :: u32 where "PROPERTY_IOMMU_L1CLKGATING_DISABLED = 0x4000"
definition PROPERTY_XAPIC_MODE :: u32 where "PROPERTY_XAPIC_MODE = 0x8000"
definition PROPERTY_PRESENT_IOHC :: u32 where "PROPERTY_PRESENT_IOHC = 0x10000"
definition PROPERTY_PRESENT_SYSHUB :: u32 where "PROPERTY_PRESENT_SYSHUB = 0x20000"
definition PROPERTY_PRESENT_NBIF0 :: u32 where "PROPERTY_PRESENT_NBIF0 = 0x40000"
definition PROPERTY_PRESENT_NBIF1 :: u32 where "PROPERTY_PRESENT_NBIF1 = 0x80000"
definition PROPERTY_PRESENT_NBIF2 :: u32 where "PROPERTY_PRESENT_NBIF2 = 0x100000"
definition PROPERTY_PRESENT_SDPMUX :: u32 where "PROPERTY_PRESENT_SDPMUX = 0x40000000"
definition PROPERTY_PRESENT_SST :: u32 where "PROPERTY_PRESENT_SST = 0x80000000"
definition NONPCI_BARSIZE_1MB :: u32 where "NONPCI_BARSIZE_1MB = 0x100000"
definition NONPCI_BARSIZE_512KB :: u32 where "NONPCI_BARSIZE_512KB = 0x7D000"
definition NONPCI_BARSIZE_4KB :: u32 where "NONPCI_BARSIZE_4KB = 0x1000"
definition NBIO_TABLE_PROPERTY_DEFAULT :: u32 where "NBIO_TABLE_PROPERTY_DEFAULT = 0"
end
