(* ===== verification/Nbio_Tables.thy ===== *)
theory Nbio_Tables
  imports Nbio_Smn Nbio_Regs
begin

text \<open>
  The configuration tables of NBIO, entry by entry in the order of the source. Each macro of the headers is a list of
  entries; the longer ones are divided. The macros \<^verbatim>\<open>NBIO_IOHC_POWER_GATING_TBL\<close>, \<^verbatim>\<open>NBIO_NBIF_DISABLE_LTR_TBL\<close> and
  \<^verbatim>\<open>NBIO_NBIF_DISABLE_AER_TBL\<close> are used nowhere (the first is not well formed, the others name macros that do not exist)
  and are left out.
\<close>

section \<open>The IO hub (\<^verbatim>\<open>NbioIohcTbl.h\<close>)\<close>

definition NBIO_IOHC_P2P_TBL :: "smn_entry list" where
  "NBIO_IOHC_P2P_TBL =
    [SMN_ENTRY_RMW SMN_IOHUB0NBIO0_IOHC_FEATURE_CNTL_ADDRESS (of_nat IOHC_FEATURE_CNTL_P2P_mode_OFFSET) (push_bit IOHC_FEATURE_CNTL_P2P_mode_OFFSET
       1),
     SMN_ENTRY_RMW SMN_IOHUB0NBIO0_PCIE_VDM_CNTL2_ADDRESS PCIE_VDM_CNTL2_VdmP2pMode_MASK (push_bit PCIE_VDM_CNTL2_VdmP2pMode_OFFSET 1)]"

definition NBIO_IOHC_CRS_TBL :: "smn_entry list" where
  "NBIO_IOHC_CRS_TBL =
    [SMN_ENTRY_RMW SMN_IOHUB0NBIO0_IOHC_PCIE_CRS_Count_ADDRESS (IOHC_PCIE_CRS_Count_CrsDelayCount_MASK OR IOHC_PCIE_CRS_Count_CrsLimitCount_MASK)
       ((push_bit IOHC_PCIE_CRS_Count_CrsDelayCount_OFFSET 6) OR (push_bit IOHC_PCIE_CRS_Count_CrsLimitCount_OFFSET 0x262))]"

definition NBIO_IOHC_CLOCK_GATING_TBL_1 :: "smn_entry list" where
  "NBIO_IOHC_CLOCK_GATING_TBL_1 =
    [SMN_ENTRY_PROPERTY_RMW PROPERTY_IOHC_CLKGATING_ENABLED SIL_RESERVED_732 (SIL_RESERVED_154 OR SIL_RESERVED_152 OR
       IOHC_GLUE_CG_LCLK_CTRL_0_SOFT_OVERRIDE_CLK7_MASK OR SIL_RESERVED_149 OR SIL_RESERVED_147 OR SIL_RESERVED_145 OR SIL_RESERVED_143 OR
       SIL_RESERVED_141 OR SIL_RESERVED_139 OR SIL_RESERVED_137) ((push_bit SIL_RESERVED_155 0) OR (push_bit SIL_RESERVED_153 0) OR (push_bit
       SIL_RESERVED_151 0) OR (push_bit SIL_RESERVED_150 0) OR (push_bit SIL_RESERVED_148 0) OR (push_bit SIL_RESERVED_146 0) OR (push_bit
       SIL_RESERVED_144 0) OR (push_bit SIL_RESERVED_142 0) OR (push_bit SIL_RESERVED_140 0) OR (push_bit SIL_RESERVED_138 0)),
     SMN_ENTRY_PROPERTY_RMW PROPERTY_IOHC_CLKGATING_DISABLED SIL_RESERVED_732 (SIL_RESERVED_154 OR SIL_RESERVED_152 OR
       IOHC_GLUE_CG_LCLK_CTRL_0_SOFT_OVERRIDE_CLK7_MASK OR SIL_RESERVED_149 OR SIL_RESERVED_147 OR SIL_RESERVED_145 OR SIL_RESERVED_143 OR
       SIL_RESERVED_141 OR SIL_RESERVED_139 OR SIL_RESERVED_137) ((push_bit SIL_RESERVED_155 1) OR (push_bit SIL_RESERVED_153 1) OR (push_bit
       SIL_RESERVED_151 1) OR (push_bit SIL_RESERVED_150 1) OR (push_bit SIL_RESERVED_148 1) OR (push_bit SIL_RESERVED_146 1) OR (push_bit
       SIL_RESERVED_144 1) OR (push_bit SIL_RESERVED_142 1) OR (push_bit SIL_RESERVED_140 1) OR (push_bit SIL_RESERVED_138 1)),
     SMN_ENTRY_PROPERTY_RMW PROPERTY_IOHC_CLKGATING_ENABLED SIL_RESERVED_733 (SIL_RESERVED_172 OR SIL_RESERVED_170 OR SIL_RESERVED_168 OR
       SIL_RESERVED_166 OR SIL_RESERVED_164 OR SIL_RESERVED_162 OR SIL_RESERVED_160 OR SIL_RESERVED_158 OR SIL_RESERVED_157 OR
       IOHC_GLUE_CG_LCLK_CTRL_1_SOFT_OVERRIDE_CLK0_MASK) ((push_bit IOHC_GLUE_CG_LCLK_CTRL_1_SOFT_OVERRIDE_CLK9_OFFSET 0) OR (push_bit
       SIL_RESERVED_171 0) OR (push_bit SIL_RESERVED_169 0) OR (push_bit SIL_RESERVED_167 0) OR (push_bit SIL_RESERVED_165 0) OR (push_bit
       SIL_RESERVED_163 0) OR (push_bit SIL_RESERVED_161 0) OR (push_bit SIL_RESERVED_159 0) OR (push_bit SIL_RESERVED_177 0) OR (push_bit
       SIL_RESERVED_156 0)),
     SMN_ENTRY_PROPERTY_RMW PROPERTY_IOHC_CLKGATING_DISABLED SIL_RESERVED_733 (SIL_RESERVED_172 OR SIL_RESERVED_170 OR SIL_RESERVED_168 OR
       SIL_RESERVED_166 OR SIL_RESERVED_164 OR SIL_RESERVED_162 OR SIL_RESERVED_160 OR SIL_RESERVED_158 OR SIL_RESERVED_157 OR
       IOHC_GLUE_CG_LCLK_CTRL_1_SOFT_OVERRIDE_CLK0_MASK) ((push_bit IOHC_GLUE_CG_LCLK_CTRL_1_SOFT_OVERRIDE_CLK9_OFFSET 1) OR (push_bit
       SIL_RESERVED_171 1) OR (push_bit SIL_RESERVED_169 1) OR (push_bit SIL_RESERVED_167 1) OR (push_bit SIL_RESERVED_165 1) OR (push_bit
       SIL_RESERVED_163 1) OR (push_bit SIL_RESERVED_161 1) OR (push_bit SIL_RESERVED_159 1) OR (push_bit SIL_RESERVED_177 1) OR (push_bit
       SIL_RESERVED_156 1)),
     SMN_ENTRY_PROPERTY_RMW PROPERTY_IOHC_CLKGATING_ENABLED SIL_RESERVED_734 (SIL_RESERVED_189 OR SIL_RESERVED_187 OR
       IOHC_GLUE_CG_LCLK_CTRL_2_SOFT_OVERRIDE_CLK7_MASK OR SIL_RESERVED_185 OR SIL_RESERVED_183 OR SIL_RESERVED_181 OR SIL_RESERVED_179 OR
       IOHC_GLUE_CG_LCLK_CTRL_2_SOFT_OVERRIDE_CLK2_MASK OR SIL_RESERVED_175 OR SIL_RESERVED_173) ((push_bit SIL_RESERVED_190 0) OR (push_bit
       SIL_RESERVED_188 0) OR (push_bit SIL_RESERVED_186 0) OR (push_bit IOHC_GLUE_CG_LCLK_CTRL_2_SOFT_OVERRIDE_CLK6_OFFSET 0) OR (push_bit
       SIL_RESERVED_184 0) OR (push_bit SIL_RESERVED_182 0) OR (push_bit SIL_RESERVED_180 0) OR (push_bit SIL_RESERVED_178 0) OR (push_bit
       SIL_RESERVED_176 0) OR (push_bit SIL_RESERVED_174 0)),
     SMN_ENTRY_PROPERTY_RMW PROPERTY_IOHC_CLKGATING_DISABLED SIL_RESERVED_734 (SIL_RESERVED_189 OR SIL_RESERVED_187 OR
       IOHC_GLUE_CG_LCLK_CTRL_2_SOFT_OVERRIDE_CLK7_MASK OR SIL_RESERVED_185 OR SIL_RESERVED_183 OR SIL_RESERVED_181 OR SIL_RESERVED_179 OR
       IOHC_GLUE_CG_LCLK_CTRL_2_SOFT_OVERRIDE_CLK2_MASK OR SIL_RESERVED_175 OR SIL_RESERVED_173) ((push_bit SIL_RESERVED_190 1) OR (push_bit
       SIL_RESERVED_188 1) OR (push_bit SIL_RESERVED_186 1) OR (push_bit IOHC_GLUE_CG_LCLK_CTRL_2_SOFT_OVERRIDE_CLK6_OFFSET 1) OR (push_bit
       SIL_RESERVED_184 1) OR (push_bit SIL_RESERVED_182 1) OR (push_bit SIL_RESERVED_180 1) OR (push_bit SIL_RESERVED_178 1) OR (push_bit
       SIL_RESERVED_176 1) OR (push_bit SIL_RESERVED_174 1))]"

definition NBIO_IOHC_CLOCK_GATING_TBL_2 :: "smn_entry list" where
  "NBIO_IOHC_CLOCK_GATING_TBL_2 =
    [SMN_ENTRY_PROPERTY_RMW PROPERTY_IOHC_CLKGATING_ENABLED SIL_RESERVED_728 (SIL_RESERVED_77 OR SIL_RESERVED_76 OR SIL_RESERVED_74 OR
       SIL_RESERVED_72 OR SIL_RESERVED_70 OR SIL_RESERVED_68 OR SIL_RESERVED_66 OR IOAGR_GLUE_CG_LCLK_CTRL_0_SOFT_OVERRIDE_CLK2_MASK OR
       IOAGR_GLUE_CG_LCLK_CTRL_0_SOFT_OVERRIDE_CLK1_MASK OR SIL_RESERVED_62) ((push_bit SIL_RESERVED_78 0) OR (push_bit
       IOAGR_GLUE_CG_LCLK_CTRL_0_SOFT_OVERRIDE_CLK8_OFFSET 0) OR (push_bit SIL_RESERVED_75 0) OR (push_bit SIL_RESERVED_73 0) OR (push_bit
       SIL_RESERVED_71 0) OR (push_bit SIL_RESERVED_69 0) OR (push_bit SIL_RESERVED_67 0) OR (push_bit SIL_RESERVED_65 0) OR (push_bit
       SIL_RESERVED_64 0) OR (push_bit SIL_RESERVED_63 0)),
     SMN_ENTRY_PROPERTY_RMW PROPERTY_IOHC_CLKGATING_DISABLED SIL_RESERVED_728 (SIL_RESERVED_77 OR SIL_RESERVED_76 OR SIL_RESERVED_74 OR
       SIL_RESERVED_72 OR SIL_RESERVED_70 OR SIL_RESERVED_68 OR SIL_RESERVED_66 OR IOAGR_GLUE_CG_LCLK_CTRL_0_SOFT_OVERRIDE_CLK2_MASK OR
       IOAGR_GLUE_CG_LCLK_CTRL_0_SOFT_OVERRIDE_CLK1_MASK OR SIL_RESERVED_62) ((push_bit SIL_RESERVED_78 1) OR (push_bit
       IOAGR_GLUE_CG_LCLK_CTRL_0_SOFT_OVERRIDE_CLK8_OFFSET 1) OR (push_bit SIL_RESERVED_75 1) OR (push_bit SIL_RESERVED_73 1) OR (push_bit
       SIL_RESERVED_71 1) OR (push_bit SIL_RESERVED_69 1) OR (push_bit SIL_RESERVED_67 1) OR (push_bit SIL_RESERVED_65 1) OR (push_bit
       SIL_RESERVED_64 1) OR (push_bit SIL_RESERVED_63 1)),
     SMN_ENTRY_PROPERTY_RMW PROPERTY_IOHC_CLKGATING_ENABLED SIL_RESERVED_729 (IOAGR_GLUE_CG_LCLK_CTRL_1_SOFT_OVERRIDE_CLK9_MASK OR SIL_RESERVED_91 OR
       IOAGR_GLUE_CG_LCLK_CTRL_1_SOFT_OVERRIDE_CLK7_MASK OR SIL_RESERVED_88 OR IOAGR_GLUE_CG_LCLK_CTRL_1_SOFT_OVERRIDE_CLK5_MASK OR SIL_RESERVED_85
       OR SIL_RESERVED_83 OR SIL_RESERVED_81 OR IOAGR_GLUE_CG_LCLK_CTRL_1_SOFT_OVERRIDE_CLK1_MASK OR
       IOAGR_GLUE_CG_LCLK_CTRL_1_SOFT_OVERRIDE_CLK0_MASK) ((push_bit SIL_RESERVED_93 0) OR (push_bit SIL_RESERVED_92 0) OR (push_bit SIL_RESERVED_90
       0) OR (push_bit SIL_RESERVED_89 0) OR (push_bit SIL_RESERVED_87 0) OR (push_bit SIL_RESERVED_86 0) OR (push_bit SIL_RESERVED_84 0) OR
       (push_bit SIL_RESERVED_82 0) OR (push_bit SIL_RESERVED_80 0) OR (push_bit SIL_RESERVED_79 0)),
     SMN_ENTRY_PROPERTY_RMW PROPERTY_IOHC_CLKGATING_DISABLED SIL_RESERVED_729 (IOAGR_GLUE_CG_LCLK_CTRL_1_SOFT_OVERRIDE_CLK9_MASK OR SIL_RESERVED_91
       OR IOAGR_GLUE_CG_LCLK_CTRL_1_SOFT_OVERRIDE_CLK7_MASK OR SIL_RESERVED_88 OR IOAGR_GLUE_CG_LCLK_CTRL_1_SOFT_OVERRIDE_CLK5_MASK OR
       SIL_RESERVED_85 OR SIL_RESERVED_83 OR SIL_RESERVED_81 OR IOAGR_GLUE_CG_LCLK_CTRL_1_SOFT_OVERRIDE_CLK1_MASK OR
       IOAGR_GLUE_CG_LCLK_CTRL_1_SOFT_OVERRIDE_CLK0_MASK) ((push_bit SIL_RESERVED_93 1) OR (push_bit SIL_RESERVED_92 1) OR (push_bit SIL_RESERVED_90
       1) OR (push_bit SIL_RESERVED_89 1) OR (push_bit SIL_RESERVED_87 1) OR (push_bit SIL_RESERVED_86 1) OR (push_bit SIL_RESERVED_84 1) OR
       (push_bit SIL_RESERVED_82 1) OR (push_bit SIL_RESERVED_80 1) OR (push_bit SIL_RESERVED_79 1))]"

definition NBIO_IOHC_CLOCK_GATING_TBL :: "smn_entry list" where
  "NBIO_IOHC_CLOCK_GATING_TBL = NBIO_IOHC_CLOCK_GATING_TBL_1 @ NBIO_IOHC_CLOCK_GATING_TBL_2"

definition NBIO_SST_CLOCK_GATING_TBL :: "smn_entry list" where
  "NBIO_SST_CLOCK_GATING_TBL =
    [SMN_ENTRY_PROPERTY_RMW PROPERTY_SST_CLKGATING_ENABLED SIL_RESERVED_759 (SIL_RESERVED_766 OR SIL_RESERVED_764) ((push_bit SIL_RESERVED_767 1) OR
       (push_bit SIL_RESERVED_765 1)),
     SMN_ENTRY_PROPERTY_RMW PROPERTY_SST_CLKGATING_DISABLED SIL_RESERVED_759 (SIL_RESERVED_766 OR SIL_RESERVED_764) ((push_bit SIL_RESERVED_767 0) OR
       (push_bit SIL_RESERVED_765 0)),
     SMN_ENTRY_PROPERTY_RMW PROPERTY_SST_CLKGATING_ENABLED SIL_RESERVED_759 SIL_RESERVED_762 (push_bit SIL_RESERVED_763 0xF0),
     SMN_ENTRY_PROPERTY_RMW PROPERTY_SST_CLKGATING_ENABLED SIL_RESERVED_758 SIL_RESERVED_484 (push_bit SIL_RESERVED_485 1),
     SMN_ENTRY_PROPERTY_RMW PROPERTY_SST_CLKGATING_DISABLED SIL_RESERVED_758 SIL_RESERVED_484 (push_bit SIL_RESERVED_485 0),
     SMN_ENTRY_PROPERTY_RMW PROPERTY_SST_CLKGATING_ENABLED SIL_RESERVED_761 (SIL_RESERVED_766 OR SIL_RESERVED_764) ((push_bit SIL_RESERVED_767 1) OR
       (push_bit SIL_RESERVED_765 1)),
     SMN_ENTRY_PROPERTY_RMW PROPERTY_SST_CLKGATING_DISABLED SIL_RESERVED_761 (SIL_RESERVED_766 OR SIL_RESERVED_764) ((push_bit SIL_RESERVED_767 0) OR
       (push_bit SIL_RESERVED_765 0)),
     SMN_ENTRY_PROPERTY_RMW PROPERTY_SST_CLKGATING_ENABLED SIL_RESERVED_761 SIL_RESERVED_762 (push_bit SIL_RESERVED_763 0xF0),
     SMN_ENTRY_PROPERTY_RMW PROPERTY_SST_CLKGATING_ENABLED SIL_RESERVED_760 SIL_RESERVED_484 (push_bit SIL_RESERVED_485 1),
     SMN_ENTRY_PROPERTY_RMW PROPERTY_SST_CLKGATING_DISABLED SIL_RESERVED_760 SIL_RESERVED_484 (push_bit SIL_RESERVED_485 0)]"

definition SIL_RESERVED_784_TBL :: "smn_entry list" where
  "SIL_RESERVED_784_TBL =
    [SMN_ENTRY_PROPERTY_RMW (PROPERTY_IOHC_CLKGATING_ENABLED OR PROPERTY_PRESENT_SDPMUX) SIL_RESERVED_741 (SIL_RESERVED_465 OR SIL_RESERVED_463 OR
       SIL_RESERVED_461 OR SIL_RESERVED_459 OR SIL_RESERVED_457 OR SIL_RESERVED_455 OR SDPMUX_GLUE_CG_LCLK_CTRL_0_SOFT_OVERRIDE_CLK3_MASK OR
       SIL_RESERVED_453 OR SIL_RESERVED_451 OR SIL_RESERVED_449) ((push_bit SIL_RESERVED_466 0) OR (push_bit SIL_RESERVED_464 0) OR (push_bit
       SIL_RESERVED_462 0) OR (push_bit SIL_RESERVED_460 0) OR (push_bit SIL_RESERVED_458 0) OR (push_bit SIL_RESERVED_456 0) OR (push_bit
       SIL_RESERVED_454 0) OR (push_bit SDPMUX_GLUE_CG_LCLK_CTRL_0_SOFT_OVERRIDE_CLK2_OFFSET 0) OR (push_bit SIL_RESERVED_452 0) OR (push_bit
       SIL_RESERVED_450 0)),
     SMN_ENTRY_PROPERTY_RMW (PROPERTY_IOHC_CLKGATING_ENABLED OR PROPERTY_PRESENT_SDPMUX) SIL_RESERVED_742 (SIL_RESERVED_482 OR SIL_RESERVED_481 OR
       SIL_RESERVED_479 OR SIL_RESERVED_477 OR SIL_RESERVED_475 OR SIL_RESERVED_473 OR SIL_RESERVED_472 OR SIL_RESERVED_470 OR
       SDPMUX_GLUE_CG_LCLK_CTRL_1_SOFT_OVERRIDE_CLK1_MASK OR SIL_RESERVED_467) ((push_bit SIL_RESERVED_483 0) OR (push_bit
       SDPMUX_GLUE_CG_LCLK_CTRL_1_SOFT_OVERRIDE_CLK8_OFFSET 0) OR (push_bit SIL_RESERVED_480 0) OR (push_bit SIL_RESERVED_478 0) OR (push_bit
       SIL_RESERVED_476 0) OR (push_bit SIL_RESERVED_474 0) OR (push_bit SDPMUX_GLUE_CG_LCLK_CTRL_1_SOFT_OVERRIDE_CLK3_OFFSET 0) OR (push_bit
       SIL_RESERVED_471 0) OR (push_bit SIL_RESERVED_469 0) OR (push_bit SIL_RESERVED_468 0)),
     SMN_ENTRY_PROPERTY_RMW (PROPERTY_IOHC_CLKGATING_ENABLED OR PROPERTY_PRESENT_SDPMUX) SIL_RESERVED_744 (SIL_RESERVED_465 OR SIL_RESERVED_463 OR
       SIL_RESERVED_461 OR SIL_RESERVED_459 OR SIL_RESERVED_457 OR SIL_RESERVED_455 OR SDPMUX_GLUE_CG_LCLK_CTRL_0_SOFT_OVERRIDE_CLK3_MASK OR
       SIL_RESERVED_453 OR SIL_RESERVED_451 OR SIL_RESERVED_449) ((push_bit SIL_RESERVED_466 0) OR (push_bit SIL_RESERVED_464 0) OR (push_bit
       SIL_RESERVED_462 0) OR (push_bit SIL_RESERVED_460 0) OR (push_bit SIL_RESERVED_458 0) OR (push_bit SIL_RESERVED_456 0) OR (push_bit
       SIL_RESERVED_454 0) OR (push_bit SDPMUX_GLUE_CG_LCLK_CTRL_0_SOFT_OVERRIDE_CLK2_OFFSET 0) OR (push_bit SIL_RESERVED_452 0) OR (push_bit
       SIL_RESERVED_450 0)),
     SMN_ENTRY_PROPERTY_RMW (PROPERTY_IOHC_CLKGATING_ENABLED OR PROPERTY_PRESENT_SDPMUX) SIL_RESERVED_745 (SIL_RESERVED_482 OR SIL_RESERVED_481 OR
       SIL_RESERVED_479 OR SIL_RESERVED_477 OR SIL_RESERVED_475 OR SIL_RESERVED_473 OR SIL_RESERVED_472 OR SIL_RESERVED_470 OR
       SDPMUX_GLUE_CG_LCLK_CTRL_1_SOFT_OVERRIDE_CLK1_MASK OR SIL_RESERVED_467) ((push_bit SIL_RESERVED_483 0) OR (push_bit
       SDPMUX_GLUE_CG_LCLK_CTRL_1_SOFT_OVERRIDE_CLK8_OFFSET 0) OR (push_bit SIL_RESERVED_480 0) OR (push_bit SIL_RESERVED_478 0) OR (push_bit
       SIL_RESERVED_476 0) OR (push_bit SIL_RESERVED_474 0) OR (push_bit SDPMUX_GLUE_CG_LCLK_CTRL_1_SOFT_OVERRIDE_CLK3_OFFSET 0) OR (push_bit
       SIL_RESERVED_471 0) OR (push_bit SIL_RESERVED_469 0) OR (push_bit SIL_RESERVED_468 0))]"

definition NBIO_IOHC_ARBITRATION_TBL_1 :: "smn_entry list" where
  "NBIO_IOHC_ARBITRATION_TBL_1 =
    [SMN_ENTRY_WR SIL_RESERVED_548 0x8080808,
     SMN_ENTRY_WR SIL_RESERVED_582 0x8080808,
     SMN_ENTRY_WR SIL_RESERVED_619 0x8080808,
     SMN_ENTRY_WR SIL_RESERVED_654 0x8080808,
     SMN_ENTRY_WR SIL_RESERVED_685 0x8080808,
     SMN_ENTRY_WR SIL_RESERVED_712 0x8080808,
     SMN_ENTRY_WR SIL_RESERVED_722 0x8080808,
     SMN_ENTRY_WR SMN_IOHUB0_N0NBIO0_IOHC_SION_S0_CLIENT_REQ_BURSTTARGET_UPPER_ADDRESS 0x8080808,
     SMN_ENTRY_WR SIL_RESERVED_583 0x8080808,
     SMN_ENTRY_WR SIL_RESERVED_620 0x8080808,
     SMN_ENTRY_WR SMN_IOHUB0_N3NBIO0_IOHC_SION_S0_CLIENT_REQ_BURSTTARGET_UPPER_ADDRESS 0x8080808,
     SMN_ENTRY_WR SIL_RESERVED_686 0x8080808,
     SMN_ENTRY_WR SIL_RESERVED_713 0x8080808,
     SMN_ENTRY_WR SIL_RESERVED_723 0x8080808,
     SMN_ENTRY_WR SIL_RESERVED_549 0x21212121,
     SMN_ENTRY_WR SIL_RESERVED_584 0x21212121,
     SMN_ENTRY_WR SIL_RESERVED_621 0x21212121,
     SMN_ENTRY_WR SIL_RESERVED_550 0x21212121,
     SMN_ENTRY_WR SIL_RESERVED_585 0x21212121,
     SMN_ENTRY_WR SIL_RESERVED_622 0x21212121,
     SMN_ENTRY_WR SIL_RESERVED_655 0x84218421,
     SMN_ENTRY_WR SIL_RESERVED_687 0x84218421,
     SMN_ENTRY_WR SIL_RESERVED_656 0x84218421,
     SMN_ENTRY_WR SIL_RESERVED_688 0x84218421,
     SMN_ENTRY_WR SIL_RESERVED_714 0x85218521,
     SMN_ENTRY_WR SIL_RESERVED_715 0x85218521,
     SMN_ENTRY_WR SIL_RESERVED_553 0x8080808,
     SMN_ENTRY_WR SIL_RESERVED_588 0x8080808,
     SMN_ENTRY_WR SIL_RESERVED_624 0x8080808,
     SMN_ENTRY_WR SIL_RESERVED_659 0x8080808,
     SMN_ENTRY_WR SIL_RESERVED_691 0x8080808,
     SMN_ENTRY_WR SIL_RESERVED_718 0x8080808,
     SMN_ENTRY_WR SIL_RESERVED_726 0x8080808,
     SMN_ENTRY_WR SIL_RESERVED_554 0x8080808,
     SMN_ENTRY_WR SIL_RESERVED_589 0x8080808,
     SMN_ENTRY_WR SMN_IOHUB0_N2NBIO0_IOHC_SION_S1_CLIENT_REQ_BURSTTARGET_UPPER_ADDRESS 0x8080808]"

definition NBIO_IOHC_ARBITRATION_TBL_2 :: "smn_entry list" where
  "NBIO_IOHC_ARBITRATION_TBL_2 =
    [SMN_ENTRY_WR SIL_RESERVED_660 0x8080808,
     SMN_ENTRY_WR SIL_RESERVED_692 0x8080808,
     SMN_ENTRY_WR SMN_IOHUB0_N5NBIO0_IOHC_SION_S1_CLIENT_REQ_BURSTTARGET_UPPER_ADDRESS 0x8080808,
     SMN_ENTRY_WR SIL_RESERVED_727 0x8080808,
     SMN_ENTRY_WR SIL_RESERVED_546 0x2020202,
     SMN_ENTRY_WR SMN_IOHUB0_N1NBIO0_IOHC_SION_S0_CLIENT_RDRSP_BURSTTARGET_LOWER_ADDRESS 0x2020202,
     SMN_ENTRY_WR SMN_IOHUB0_N2NBIO0_IOHC_SION_S0_CLIENT_RDRSP_BURSTTARGET_LOWER_ADDRESS 0x2020202,
     SMN_ENTRY_WR SIL_RESERVED_652 0x2020202,
     SMN_ENTRY_WR SIL_RESERVED_683 0x2020202,
     SMN_ENTRY_WR SMN_IOHUB0_N5NBIO0_IOHC_SION_S0_CLIENT_RDRSP_BURSTTARGET_LOWER_ADDRESS 0x2020202,
     SMN_ENTRY_WR SIL_RESERVED_720 0x2020202,
     SMN_ENTRY_WR SIL_RESERVED_547 0x2020202,
     SMN_ENTRY_WR SIL_RESERVED_581 0x2020202,
     SMN_ENTRY_WR SMN_IOHUB0_N2NBIO0_IOHC_SION_S0_CLIENT_RDRSP_BURSTTARGET_UPPER_ADDRESS 0x2020202,
     SMN_ENTRY_WR SIL_RESERVED_653 0x2020202,
     SMN_ENTRY_WR SIL_RESERVED_684 0x2020202,
     SMN_ENTRY_WR SIL_RESERVED_711 0x2020202,
     SMN_ENTRY_WR SIL_RESERVED_721 0x2020202,
     SMN_ENTRY_WR SIL_RESERVED_551 0x2020202,
     SMN_ENTRY_WR SIL_RESERVED_586 0x2020202,
     SMN_ENTRY_WR SMN_IOHUB0_N2NBIO0_IOHC_SION_S1_CLIENT_RDRSP_BURSTTARGET_LOWER_ADDRESS 0x2020202,
     SMN_ENTRY_WR SIL_RESERVED_657 0x2020202,
     SMN_ENTRY_WR SIL_RESERVED_689 0x2020202,
     SMN_ENTRY_WR SIL_RESERVED_716 0x2020202,
     SMN_ENTRY_WR SIL_RESERVED_724 0x2020202,
     SMN_ENTRY_WR SIL_RESERVED_552 0x2020202,
     SMN_ENTRY_WR SIL_RESERVED_587 0x2020202,
     SMN_ENTRY_WR SIL_RESERVED_623 0x2020202,
     SMN_ENTRY_WR SIL_RESERVED_658 0x2020202,
     SMN_ENTRY_WR SIL_RESERVED_690 0x2020202,
     SMN_ENTRY_WR SIL_RESERVED_717 0x2020202,
     SMN_ENTRY_WR SIL_RESERVED_725 0x2020202,
     SMN_ENTRY_WR SIL_RESERVED_540 0x8080808,
     SMN_ENTRY_WR SIL_RESERVED_573 0x8080808,
     SMN_ENTRY_WR SIL_RESERVED_612 0x8080808,
     SMN_ENTRY_WR SIL_RESERVED_647 0x8080808]"

definition NBIO_IOHC_ARBITRATION_TBL_3 :: "smn_entry list" where
  "NBIO_IOHC_ARBITRATION_TBL_3 =
    [SMN_ENTRY_WR SIL_RESERVED_541 0x8080808,
     SMN_ENTRY_WR SIL_RESERVED_574 0x8080808,
     SMN_ENTRY_WR SMN_IOHUB0_N2NBIO0_IOAGR_SION_S0_Client_Req_BurstTarget_Upper_ADDRESS 0x8080808,
     SMN_ENTRY_WR SIL_RESERVED_648 0x8080808,
     SMN_ENTRY_WR SIL_RESERVED_542 0x21212121,
     SMN_ENTRY_WR SIL_RESERVED_575 0x21212121,
     SMN_ENTRY_WR SIL_RESERVED_613 0x21212121,
     SMN_ENTRY_WR SMN_IOHUB0_N0NBIO0_IOAGR_SION_S0_Client_Req_TimeSlot_Upper_ADDRESS 0x21212121,
     SMN_ENTRY_WR SIL_RESERVED_576 0x21212121,
     SMN_ENTRY_WR SIL_RESERVED_614 0x21212121,
     SMN_ENTRY_WR SMN_IOHUB0_N3NBIO0_IOAGR_SION_S0_Client_Req_TimeSlot_Lower_ADDRESS 0x84218421,
     SMN_ENTRY_WR SIL_RESERVED_649 0x84218421,
     SMN_ENTRY_WR SMN_IOHUB0_N0NBIO0_IOAGR_SION_S1_Client_Req_BurstTarget_Lower_ADDRESS 0x8080808,
     SMN_ENTRY_WR SIL_RESERVED_579 0x8080808,
     SMN_ENTRY_WR SMN_IOHUB0_N2NBIO0_IOAGR_SION_S1_Client_Req_BurstTarget_Lower_ADDRESS 0x8080808,
     SMN_ENTRY_WR SIL_RESERVED_650 0x8080808,
     SMN_ENTRY_WR SIL_RESERVED_545 0x8080808,
     SMN_ENTRY_WR SIL_RESERVED_580 0x8080808,
     SMN_ENTRY_WR SIL_RESERVED_617 0x8080808,
     SMN_ENTRY_WR SIL_RESERVED_651 0x8080808,
     SMN_ENTRY_WR SIL_RESERVED_538 0x2020202,
     SMN_ENTRY_WR SMN_IOHUB0_N1NBIO0_IOAGR_SION_S0_Client_RdRsp_BurstTarget_Lower_ADDRESS 0x2020202,
     SMN_ENTRY_WR SMN_IOHUB0_N2NBIO0_IOAGR_SION_S0_Client_RdRsp_BurstTarget_Lower_ADDRESS 0x2020202,
     SMN_ENTRY_WR SIL_RESERVED_646 0x2020202,
     SMN_ENTRY_WR SIL_RESERVED_539 0x2020202,
     SMN_ENTRY_WR SIL_RESERVED_572 0x2020202,
     SMN_ENTRY_WR SIL_RESERVED_611 0x2020202,
     SMN_ENTRY_WR SMN_IOHUB0_N3NBIO0_IOAGR_SION_S0_Client_RdRsp_BurstTarget_Upper_ADDRESS 0x2020202,
     SMN_ENTRY_WR SIL_RESERVED_543 0x2020202,
     SMN_ENTRY_WR SIL_RESERVED_577 0x2020202,
     SMN_ENTRY_WR SIL_RESERVED_615 0x2020202,
     SMN_ENTRY_WR SMN_IOHUB0_N3NBIO0_IOAGR_SION_S1_Client_RdRsp_BurstTarget_Lower_ADDRESS 0x2020202,
     SMN_ENTRY_WR SIL_RESERVED_544 0x2020202,
     SMN_ENTRY_WR SIL_RESERVED_578 0x2020202,
     SMN_ENTRY_WR SIL_RESERVED_616 0x2020202,
     SMN_ENTRY_WR SMN_IOHUB0_N3NBIO0_IOAGR_SION_S1_Client_RdRsp_BurstTarget_Upper_ADDRESS 0x2020202]"

definition NBIO_IOHC_ARBITRATION_TBL_4 :: "smn_entry list" where
  "NBIO_IOHC_ARBITRATION_TBL_4 =
    [SMN_ENTRY_RMW SIL_RESERVED_743 (SIL_RESERVED_773 OR SIL_RESERVED_776 OR SIL_RESERVED_775 OR SIL_RESERVED_778 OR
       USB_QoS_CNTL_UnitID1QoSPriority_MASK OR SIL_RESERVED_780) ((push_bit SIL_RESERVED_774 0x2F) OR (push_bit SIL_RESERVED_777 0) OR (push_bit
       USB_QoS_CNTL_UnitID0Enable_OFFSET 1) OR (push_bit SIL_RESERVED_779 0x30) OR (push_bit SIL_RESERVED_782 0) OR (push_bit SIL_RESERVED_781 1)),
     SMN_ENTRY_RMW SIL_RESERVED_736 (SIL_RESERVED_193 OR IOHC_QOS_CONTROL_VC1QoSPriority_MASK OR SIL_RESERVED_195 OR SIL_RESERVED_197 OR
       SIL_RESERVED_199 OR IOHC_QOS_CONTROL_VC5QoSPriority_MASK OR SIL_RESERVED_202 OR SIL_RESERVED_204) ((push_bit
       IOHC_QOS_CONTROL_VC0QoSPriority_OFFSET 0) OR (push_bit SIL_RESERVED_194 0) OR (push_bit SIL_RESERVED_196 0) OR (push_bit SIL_RESERVED_198 0)
       OR (push_bit SIL_RESERVED_200 0) OR (push_bit SIL_RESERVED_201 0) OR (push_bit SIL_RESERVED_203 0) OR (push_bit SIL_RESERVED_205 0))]"

definition NBIO_IOHC_ARBITRATION_TBL :: "smn_entry list" where
  "NBIO_IOHC_ARBITRATION_TBL = NBIO_IOHC_ARBITRATION_TBL_1 @ NBIO_IOHC_ARBITRATION_TBL_2 @ NBIO_IOHC_ARBITRATION_TBL_3 @ NBIO_IOHC_ARBITRATION_TBL_4"

definition SIL_RESERVED_783_TBL_1 :: "smn_entry list" where
  "SIL_RESERVED_783_TBL_1 =
    [SMN_ENTRY_PROPERTY_WR PROPERTY_PRESENT_SDPMUX SIL_RESERVED_557 0x8080808,
     SMN_ENTRY_PROPERTY_WR PROPERTY_PRESENT_SDPMUX SIL_RESERVED_565 0x8080808,
     SMN_ENTRY_PROPERTY_WR PROPERTY_PRESENT_SDPMUX SIL_RESERVED_592 0x8080808,
     SMN_ENTRY_PROPERTY_WR PROPERTY_PRESENT_SDPMUX SIL_RESERVED_603 0x8080808,
     SMN_ENTRY_PROPERTY_WR PROPERTY_PRESENT_SDPMUX SIL_RESERVED_626 0x8080808,
     SMN_ENTRY_PROPERTY_WR PROPERTY_PRESENT_SDPMUX SIL_RESERVED_636 0x8080808,
     SMN_ENTRY_PROPERTY_WR PROPERTY_PRESENT_SDPMUX SIL_RESERVED_663 0x8080808,
     SMN_ENTRY_PROPERTY_WR PROPERTY_PRESENT_SDPMUX SIL_RESERVED_674 0x8080808,
     SMN_ENTRY_PROPERTY_WR PROPERTY_PRESENT_SDPMUX SIL_RESERVED_695 0x8080808,
     SMN_ENTRY_PROPERTY_WR PROPERTY_PRESENT_SDPMUX SIL_RESERVED_704 0x8080808,
     SMN_ENTRY_PROPERTY_WR PROPERTY_PRESENT_SDPMUX SIL_RESERVED_558 0x8080808,
     SMN_ENTRY_PROPERTY_WR PROPERTY_PRESENT_SDPMUX SIL_RESERVED_566 0x8080808,
     SMN_ENTRY_PROPERTY_WR PROPERTY_PRESENT_SDPMUX SIL_RESERVED_593 0x8080808,
     SMN_ENTRY_PROPERTY_WR PROPERTY_PRESENT_SDPMUX SIL_RESERVED_604 0x8080808,
     SMN_ENTRY_PROPERTY_WR PROPERTY_PRESENT_SDPMUX SIL_RESERVED_627 0x8080808,
     SMN_ENTRY_PROPERTY_WR PROPERTY_PRESENT_SDPMUX SIL_RESERVED_637 0x8080808,
     SMN_ENTRY_PROPERTY_WR PROPERTY_PRESENT_SDPMUX SIL_RESERVED_664 0x8080808,
     SMN_ENTRY_PROPERTY_WR PROPERTY_PRESENT_SDPMUX SIL_RESERVED_675 0x8080808,
     SMN_ENTRY_PROPERTY_WR PROPERTY_PRESENT_SDPMUX SMN_IOHUB0_N4NBIO0_SDPMUX_SION_S0_Client_Req_BurstTarget_Upper_ADDRESS 0x8080808,
     SMN_ENTRY_PROPERTY_WR PROPERTY_PRESENT_SDPMUX SMN_IOHUB0_N4NBIO1_SDPMUX_SION_S0_Client_Req_BurstTarget_Upper_ADDRESS 0x8080808,
     SMN_ENTRY_PROPERTY_WR PROPERTY_PRESENT_SDPMUX SIL_RESERVED_559 0x21212121,
     SMN_ENTRY_PROPERTY_WR PROPERTY_PRESENT_SDPMUX SMN_IOHUB0_N0NBIO1_SDPMUX_SION_S0_Client_Req_TimeSlot_Lower_ADDRESS 0x21212121,
     SMN_ENTRY_PROPERTY_WR PROPERTY_PRESENT_SDPMUX SIL_RESERVED_594 0x21212121,
     SMN_ENTRY_PROPERTY_WR PROPERTY_PRESENT_SDPMUX SIL_RESERVED_605 0x21212121,
     SMN_ENTRY_PROPERTY_WR PROPERTY_PRESENT_SDPMUX SMN_IOHUB0_N2NBIO0_SDPMUX_SION_S0_Client_Req_TimeSlot_Lower_ADDRESS 0x21212121,
     SMN_ENTRY_PROPERTY_WR PROPERTY_PRESENT_SDPMUX SIL_RESERVED_638 0x21212121,
     SMN_ENTRY_PROPERTY_WR PROPERTY_PRESENT_SDPMUX SIL_RESERVED_665 0x21212121,
     SMN_ENTRY_PROPERTY_WR PROPERTY_PRESENT_SDPMUX SIL_RESERVED_676 0x21212121,
     SMN_ENTRY_PROPERTY_WR PROPERTY_PRESENT_SDPMUX SIL_RESERVED_696 0x21212121]"

definition SIL_RESERVED_783_TBL_2 :: "smn_entry list" where
  "SIL_RESERVED_783_TBL_2 =
    [SMN_ENTRY_PROPERTY_WR PROPERTY_PRESENT_SDPMUX SIL_RESERVED_705 0x21212121,
     SMN_ENTRY_PROPERTY_WR PROPERTY_PRESENT_SDPMUX SIL_RESERVED_567 0x21212121,
     SMN_ENTRY_PROPERTY_WR PROPERTY_PRESENT_SDPMUX SIL_RESERVED_595 0x21212121,
     SMN_ENTRY_PROPERTY_WR PROPERTY_PRESENT_SDPMUX SIL_RESERVED_606 0x21212121,
     SMN_ENTRY_PROPERTY_WR PROPERTY_PRESENT_SDPMUX SIL_RESERVED_628 0x21212121,
     SMN_ENTRY_PROPERTY_WR PROPERTY_PRESENT_SDPMUX SIL_RESERVED_639 0x21212121,
     SMN_ENTRY_PROPERTY_WR PROPERTY_PRESENT_SDPMUX SIL_RESERVED_666 0x21212121,
     SMN_ENTRY_PROPERTY_WR PROPERTY_PRESENT_SDPMUX SIL_RESERVED_677 0x21212121,
     SMN_ENTRY_PROPERTY_WR PROPERTY_PRESENT_SDPMUX SIL_RESERVED_697 0x21212121,
     SMN_ENTRY_PROPERTY_WR PROPERTY_PRESENT_SDPMUX SIL_RESERVED_706 0x21212121,
     SMN_ENTRY_PROPERTY_WR PROPERTY_PRESENT_SDPMUX SIL_RESERVED_562 0x8080808,
     SMN_ENTRY_PROPERTY_WR PROPERTY_PRESENT_SDPMUX SMN_IOHUB0_N0NBIO1_SDPMUX_SION_S1_Client_Req_BurstTarget_Lower_ADDRESS 0x8080808,
     SMN_ENTRY_PROPERTY_WR PROPERTY_PRESENT_SDPMUX SIL_RESERVED_597 0x8080808,
     SMN_ENTRY_PROPERTY_WR PROPERTY_PRESENT_SDPMUX SIL_RESERVED_608 0x8080808,
     SMN_ENTRY_PROPERTY_WR PROPERTY_PRESENT_SDPMUX SIL_RESERVED_631 0x8080808,
     SMN_ENTRY_PROPERTY_WR PROPERTY_PRESENT_SDPMUX SMN_IOHUB0_N2NBIO1_SDPMUX_SION_S1_Client_Req_BurstTarget_Lower_ADDRESS 0x8080808,
     SMN_ENTRY_PROPERTY_WR PROPERTY_PRESENT_SDPMUX SIL_RESERVED_668 0x8080808,
     SMN_ENTRY_PROPERTY_WR PROPERTY_PRESENT_SDPMUX SIL_RESERVED_679 0x8080808,
     SMN_ENTRY_PROPERTY_WR PROPERTY_PRESENT_SDPMUX SIL_RESERVED_700 0x8080808,
     SMN_ENTRY_PROPERTY_WR PROPERTY_PRESENT_SDPMUX SIL_RESERVED_708 0x8080808,
     SMN_ENTRY_PROPERTY_WR PROPERTY_PRESENT_SDPMUX SMN_IOHUB0_N0NBIO0_SDPMUX_SION_S1_Client_Req_BurstTarget_Upper_ADDRESS 0x8080808,
     SMN_ENTRY_PROPERTY_WR PROPERTY_PRESENT_SDPMUX SIL_RESERVED_569 0x8080808,
     SMN_ENTRY_PROPERTY_WR PROPERTY_PRESENT_SDPMUX SIL_RESERVED_598 0x8080808,
     SMN_ENTRY_PROPERTY_WR PROPERTY_PRESENT_SDPMUX SIL_RESERVED_609 0x8080808,
     SMN_ENTRY_PROPERTY_WR PROPERTY_PRESENT_SDPMUX SIL_RESERVED_632 0x8080808,
     SMN_ENTRY_PROPERTY_WR PROPERTY_PRESENT_SDPMUX SIL_RESERVED_641 0x8080808,
     SMN_ENTRY_PROPERTY_WR PROPERTY_PRESENT_SDPMUX SIL_RESERVED_669 0x8080808,
     SMN_ENTRY_PROPERTY_WR PROPERTY_PRESENT_SDPMUX SIL_RESERVED_680 0x8080808,
     SMN_ENTRY_PROPERTY_WR PROPERTY_PRESENT_SDPMUX SIL_RESERVED_701 0x8080808]"

definition SIL_RESERVED_783_TBL_3 :: "smn_entry list" where
  "SIL_RESERVED_783_TBL_3 =
    [SMN_ENTRY_PROPERTY_WR PROPERTY_PRESENT_SDPMUX SIL_RESERVED_709 0x8080808,
     SMN_ENTRY_PROPERTY_WR PROPERTY_PRESENT_SDPMUX SIL_RESERVED_563 0,
     SMN_ENTRY_PROPERTY_WR PROPERTY_PRESENT_SDPMUX SIL_RESERVED_570 0,
     SMN_ENTRY_PROPERTY_WR PROPERTY_PRESENT_SDPMUX SIL_RESERVED_599 0,
     SMN_ENTRY_PROPERTY_WR PROPERTY_PRESENT_SDPMUX SIL_RESERVED_610 0,
     SMN_ENTRY_PROPERTY_WR PROPERTY_PRESENT_SDPMUX SIL_RESERVED_633 0,
     SMN_ENTRY_PROPERTY_WR PROPERTY_PRESENT_SDPMUX SIL_RESERVED_642 0,
     SMN_ENTRY_PROPERTY_WR PROPERTY_PRESENT_SDPMUX SIL_RESERVED_670 0,
     SMN_ENTRY_PROPERTY_WR PROPERTY_PRESENT_SDPMUX SIL_RESERVED_681 0,
     SMN_ENTRY_PROPERTY_WR PROPERTY_PRESENT_SDPMUX SIL_RESERVED_702 0,
     SMN_ENTRY_PROPERTY_WR PROPERTY_PRESENT_SDPMUX SMN_IOHUB0_N4NBIO1_SDPMUX_SION_S1_Client_Req_TimeSlot_Lower_ADDRESS 0,
     SMN_ENTRY_PROPERTY_WR PROPERTY_PRESENT_SDPMUX SMN_IOHUB0_N0NBIO0_SDPMUX_SION_S1_Client_Req_TimeSlot_Upper_ADDRESS 0,
     SMN_ENTRY_PROPERTY_WR PROPERTY_PRESENT_SDPMUX SIL_RESERVED_571 0,
     SMN_ENTRY_PROPERTY_WR PROPERTY_PRESENT_SDPMUX SIL_RESERVED_600 0,
     SMN_ENTRY_PROPERTY_WR PROPERTY_PRESENT_SDPMUX SMN_IOHUB0_N1NBIO1_SDPMUX_SION_S1_Client_Req_TimeSlot_Upper_ADDRESS 0,
     SMN_ENTRY_PROPERTY_WR PROPERTY_PRESENT_SDPMUX SIL_RESERVED_634 0,
     SMN_ENTRY_PROPERTY_WR PROPERTY_PRESENT_SDPMUX SIL_RESERVED_645 0,
     SMN_ENTRY_PROPERTY_WR PROPERTY_PRESENT_SDPMUX SIL_RESERVED_671 0,
     SMN_ENTRY_PROPERTY_WR PROPERTY_PRESENT_SDPMUX SIL_RESERVED_682 0,
     SMN_ENTRY_PROPERTY_WR PROPERTY_PRESENT_SDPMUX SIL_RESERVED_703 0,
     SMN_ENTRY_PROPERTY_WR PROPERTY_PRESENT_SDPMUX SIL_RESERVED_710 0,
     SMN_ENTRY_PROPERTY_WR PROPERTY_PRESENT_SDPMUX SIL_RESERVED_555 0x2020202,
     SMN_ENTRY_PROPERTY_WR PROPERTY_PRESENT_SDPMUX SIL_RESERVED_590 0x2020202,
     SMN_ENTRY_PROPERTY_WR PROPERTY_PRESENT_SDPMUX SIL_RESERVED_625 0x2020202,
     SMN_ENTRY_PROPERTY_WR PROPERTY_PRESENT_SDPMUX SIL_RESERVED_661 0x2020202,
     SMN_ENTRY_PROPERTY_WR PROPERTY_PRESENT_SDPMUX SIL_RESERVED_693 0x2020202,
     SMN_ENTRY_PROPERTY_WR PROPERTY_PRESENT_SDPMUX SIL_RESERVED_564 0x2020202,
     SMN_ENTRY_PROPERTY_WR PROPERTY_PRESENT_SDPMUX SIL_RESERVED_601 0x2020202,
     SMN_ENTRY_PROPERTY_WR PROPERTY_PRESENT_SDPMUX SMN_IOHUB0_N2NBIO1_SDPMUX_SION_S0_Client_RdRsp_BurstTarget_Lower_ADDRESS 0x2020202]"

definition SIL_RESERVED_783_TBL_4 :: "smn_entry list" where
  "SIL_RESERVED_783_TBL_4 =
    [SMN_ENTRY_PROPERTY_WR PROPERTY_PRESENT_SDPMUX SIL_RESERVED_672 0x2020202,
     SMN_ENTRY_PROPERTY_WR PROPERTY_PRESENT_SDPMUX SMN_IOHUB0_N4NBIO1_SDPMUX_SION_S0_Client_RdRsp_BurstTarget_Lower_ADDRESS 0x2020202,
     SMN_ENTRY_PROPERTY_WR PROPERTY_PRESENT_SDPMUX SIL_RESERVED_556 0x2020202,
     SMN_ENTRY_PROPERTY_WR PROPERTY_PRESENT_SDPMUX SIL_RESERVED_591 0x2020202,
     SMN_ENTRY_PROPERTY_WR PROPERTY_PRESENT_SDPMUX SMN_IOHUB0_N2NBIO0_SDPMUX_SION_S0_Client_RdRsp_BurstTarget_Upper_ADDRESS 0x2020202,
     SMN_ENTRY_PROPERTY_WR PROPERTY_PRESENT_SDPMUX SIL_RESERVED_662 0x2020202,
     SMN_ENTRY_PROPERTY_WR PROPERTY_PRESENT_SDPMUX SIL_RESERVED_694 0x2020202,
     SMN_ENTRY_PROPERTY_WR PROPERTY_PRESENT_SDPMUX SMN_IOHUB0_N0NBIO1_SDPMUX_SION_S0_Client_RdRsp_BurstTarget_Upper_ADDRESS 0x2020202,
     SMN_ENTRY_PROPERTY_WR PROPERTY_PRESENT_SDPMUX SIL_RESERVED_602 0x2020202,
     SMN_ENTRY_PROPERTY_WR PROPERTY_PRESENT_SDPMUX SIL_RESERVED_635 0x2020202,
     SMN_ENTRY_PROPERTY_WR PROPERTY_PRESENT_SDPMUX SIL_RESERVED_673 0x2020202,
     SMN_ENTRY_PROPERTY_WR PROPERTY_PRESENT_SDPMUX SMN_IOHUB0_N4NBIO1_SDPMUX_SION_S0_Client_RdRsp_BurstTarget_Upper_ADDRESS 0x2020202,
     SMN_ENTRY_PROPERTY_WR PROPERTY_PRESENT_SDPMUX SIL_RESERVED_560 0x2020202,
     SMN_ENTRY_PROPERTY_WR PROPERTY_PRESENT_SDPMUX SIL_RESERVED_596 0x2020202,
     SMN_ENTRY_PROPERTY_WR PROPERTY_PRESENT_SDPMUX SIL_RESERVED_629 0x2020202,
     SMN_ENTRY_PROPERTY_WR PROPERTY_PRESENT_SDPMUX SIL_RESERVED_667 0x2020202,
     SMN_ENTRY_PROPERTY_WR PROPERTY_PRESENT_SDPMUX SIL_RESERVED_698 0x2020202,
     SMN_ENTRY_PROPERTY_WR PROPERTY_PRESENT_SDPMUX SIL_RESERVED_561 0x2020202,
     SMN_ENTRY_PROPERTY_WR PROPERTY_PRESENT_SDPMUX SMN_IOHUB0_N1NBIO0_SDPMUX_SION_S1_Client_RdRsp_BurstTarget_Upper_ADDRESS 0x2020202,
     SMN_ENTRY_PROPERTY_WR PROPERTY_PRESENT_SDPMUX SIL_RESERVED_630 0x2020202,
     SMN_ENTRY_PROPERTY_WR PROPERTY_PRESENT_SDPMUX SMN_IOHUB0_N3NBIO0_SDPMUX_SION_S1_Client_RdRsp_BurstTarget_Upper_ADDRESS 0x2020202,
     SMN_ENTRY_PROPERTY_WR PROPERTY_PRESENT_SDPMUX SIL_RESERVED_699 0x2020202,
     SMN_ENTRY_PROPERTY_WR PROPERTY_PRESENT_SDPMUX SIL_RESERVED_568 0x2020202,
     SMN_ENTRY_PROPERTY_WR PROPERTY_PRESENT_SDPMUX SIL_RESERVED_607 0x2020202,
     SMN_ENTRY_PROPERTY_WR PROPERTY_PRESENT_SDPMUX SIL_RESERVED_640 0x2020202,
     SMN_ENTRY_PROPERTY_WR PROPERTY_PRESENT_SDPMUX SIL_RESERVED_678 0x2020202,
     SMN_ENTRY_PROPERTY_WR PROPERTY_PRESENT_SDPMUX SIL_RESERVED_707 0x2020202]"

definition SIL_RESERVED_783_TBL :: "smn_entry list" where
  "SIL_RESERVED_783_TBL = SIL_RESERVED_783_TBL_1 @ SIL_RESERVED_783_TBL_2 @ SIL_RESERVED_783_TBL_3 @ SIL_RESERVED_783_TBL_4"

section \<open>The IOAPIC (\<^verbatim>\<open>NbioIoapicTbl.h\<close>)\<close>

definition NBIO_IOAPIC_CLOCK_GATING_TBL :: "smn_entry list" where
  "NBIO_IOAPIC_CLOCK_GATING_TBL =
    [SMN_ENTRY_PROPERTY_RMW PROPERTY_IOHC_CLKGATING_ENABLED SIL_RESERVED_731 (SIL_RESERVED_113 OR SIL_RESERVED_111 OR SIL_RESERVED_109 OR
       SIL_RESERVED_107 OR SIL_RESERVED_105 OR SIL_RESERVED_103 OR SIL_RESERVED_101 OR IOAPIC_GLUE_CG_LCLK_CTRL_0_SOFT_OVERRIDE_CLK2_MASK OR
       SIL_RESERVED_98 OR SIL_RESERVED_96) ((push_bit SIL_RESERVED_114 0) OR (push_bit SIL_RESERVED_112 0) OR (push_bit SIL_RESERVED_110 0) OR
       (push_bit SIL_RESERVED_108 0) OR (push_bit SIL_RESERVED_106 0) OR (push_bit SIL_RESERVED_104 0) OR (push_bit SIL_RESERVED_102 0) OR (push_bit
       SIL_RESERVED_100 0) OR (push_bit SIL_RESERVED_99 0) OR (push_bit SIL_RESERVED_97 0))]"

definition NBIO_IOAPIC_INTR_ROUTING_TBL_1 :: "smn_entry list" where
  "NBIO_IOAPIC_INTR_ROUTING_TBL_1 =
    [SMN_ENTRY_RMW SMN_IOHUB0_N0NBIO0_IOAPIC_BR_INTERRUPT_ROUTING_ADDRESS (IOAPIC_BR_INTERRUPT_ROUTING_Br_ext_Intr_grp_MASK OR
       IOAPIC_BR_INTERRUPT_ROUTING_Br_ext_Intr_swz_MASK OR IOAPIC_BR_INTERRUPT_ROUTING_Br_ext_Intr_map_MASK) ((push_bit
       IOAPIC_BR_INTERRUPT_ROUTING_Br_ext_Intr_grp_OFFSET 0) OR (push_bit IOAPIC_BR_INTERRUPT_ROUTING_Br_ext_Intr_swz_OFFSET 0) OR (push_bit
       IOAPIC_BR_INTERRUPT_ROUTING_Br_ext_Intr_map_OFFSET 0)),
     SMN_ENTRY_RMW SMN_IOHUB0_N1NBIO0_IOAPIC_BR_INTERRUPT_ROUTING_ADDRESS (IOAPIC_BR_INTERRUPT_ROUTING_Br_ext_Intr_grp_MASK OR
       IOAPIC_BR_INTERRUPT_ROUTING_Br_ext_Intr_swz_MASK OR IOAPIC_BR_INTERRUPT_ROUTING_Br_ext_Intr_map_MASK) ((push_bit
       IOAPIC_BR_INTERRUPT_ROUTING_Br_ext_Intr_grp_OFFSET 1) OR (push_bit IOAPIC_BR_INTERRUPT_ROUTING_Br_ext_Intr_swz_OFFSET 0) OR (push_bit
       IOAPIC_BR_INTERRUPT_ROUTING_Br_ext_Intr_map_OFFSET 0)),
     SMN_ENTRY_RMW SIL_RESERVED_618 (IOAPIC_BR_INTERRUPT_ROUTING_Br_ext_Intr_grp_MASK OR IOAPIC_BR_INTERRUPT_ROUTING_Br_ext_Intr_swz_MASK OR
       IOAPIC_BR_INTERRUPT_ROUTING_Br_ext_Intr_map_MASK) ((push_bit IOAPIC_BR_INTERRUPT_ROUTING_Br_ext_Intr_grp_OFFSET 2) OR (push_bit
       IOAPIC_BR_INTERRUPT_ROUTING_Br_ext_Intr_swz_OFFSET 0) OR (push_bit IOAPIC_BR_INTERRUPT_ROUTING_Br_ext_Intr_map_OFFSET 0)),
     SMN_ENTRY_RMW SMN_IOHUB0_N3NBIO0_IOAPIC_BR_INTERRUPT_ROUTING_ADDRESS (IOAPIC_BR_INTERRUPT_ROUTING_Br_ext_Intr_grp_MASK OR
       IOAPIC_BR_INTERRUPT_ROUTING_Br_ext_Intr_swz_MASK OR IOAPIC_BR_INTERRUPT_ROUTING_Br_ext_Intr_map_MASK) ((push_bit
       IOAPIC_BR_INTERRUPT_ROUTING_Br_ext_Intr_grp_OFFSET 3) OR (push_bit IOAPIC_BR_INTERRUPT_ROUTING_Br_ext_Intr_swz_OFFSET 0) OR (push_bit
       IOAPIC_BR_INTERRUPT_ROUTING_Br_ext_Intr_map_OFFSET 0)),
     SMN_ENTRY_RMW SMN_IOHUB0_N4NBIO0_IOAPIC_BR_INTERRUPT_ROUTING_ADDRESS (IOAPIC_BR_INTERRUPT_ROUTING_Br_ext_Intr_grp_MASK OR
       IOAPIC_BR_INTERRUPT_ROUTING_Br_ext_Intr_swz_MASK OR IOAPIC_BR_INTERRUPT_ROUTING_Br_ext_Intr_map_MASK) ((push_bit
       IOAPIC_BR_INTERRUPT_ROUTING_Br_ext_Intr_grp_OFFSET 4) OR (push_bit IOAPIC_BR_INTERRUPT_ROUTING_Br_ext_Intr_swz_OFFSET 0) OR (push_bit
       IOAPIC_BR_INTERRUPT_ROUTING_Br_ext_Intr_map_OFFSET 0)),
     SMN_ENTRY_RMW SMN_IOHUB0_N5NBIO0_IOAPIC_BR_INTERRUPT_ROUTING_ADDRESS (IOAPIC_BR_INTERRUPT_ROUTING_Br_ext_Intr_grp_MASK OR
       IOAPIC_BR_INTERRUPT_ROUTING_Br_ext_Intr_swz_MASK OR IOAPIC_BR_INTERRUPT_ROUTING_Br_ext_Intr_map_MASK) ((push_bit
       IOAPIC_BR_INTERRUPT_ROUTING_Br_ext_Intr_grp_OFFSET 4) OR (push_bit IOAPIC_BR_INTERRUPT_ROUTING_Br_ext_Intr_swz_OFFSET 2) OR (push_bit
       IOAPIC_BR_INTERRUPT_ROUTING_Br_ext_Intr_map_OFFSET 0)),
     SMN_ENTRY_RMW SIL_RESERVED_719 (IOAPIC_BR_INTERRUPT_ROUTING_Br_ext_Intr_grp_MASK OR IOAPIC_BR_INTERRUPT_ROUTING_Br_ext_Intr_swz_MASK OR
       IOAPIC_BR_INTERRUPT_ROUTING_Br_ext_Intr_map_MASK) ((push_bit IOAPIC_BR_INTERRUPT_ROUTING_Br_ext_Intr_grp_OFFSET 3) OR (push_bit
       IOAPIC_BR_INTERRUPT_ROUTING_Br_ext_Intr_swz_OFFSET 2) OR (push_bit IOAPIC_BR_INTERRUPT_ROUTING_Br_ext_Intr_map_OFFSET 0)),
     SMN_ENTRY_RMW SMN_IOHUB0_N7NBIO0_IOAPIC_BR_INTERRUPT_ROUTING_ADDRESS (IOAPIC_BR_INTERRUPT_ROUTING_Br_ext_Intr_grp_MASK OR
       IOAPIC_BR_INTERRUPT_ROUTING_Br_ext_Intr_swz_MASK OR IOAPIC_BR_INTERRUPT_ROUTING_Br_ext_Intr_map_MASK) ((push_bit
       IOAPIC_BR_INTERRUPT_ROUTING_Br_ext_Intr_grp_OFFSET 2) OR (push_bit IOAPIC_BR_INTERRUPT_ROUTING_Br_ext_Intr_swz_OFFSET 2) OR (push_bit
       IOAPIC_BR_INTERRUPT_ROUTING_Br_ext_Intr_map_OFFSET 0)),
     SMN_ENTRY_RMW SMN_IOHUB0_N8NBIO0_IOAPIC_BR_INTERRUPT_ROUTING_ADDRESS (IOAPIC_BR_INTERRUPT_ROUTING_Br_ext_Intr_grp_MASK OR
       IOAPIC_BR_INTERRUPT_ROUTING_Br_ext_Intr_swz_MASK OR IOAPIC_BR_INTERRUPT_ROUTING_Br_ext_Intr_map_MASK) ((push_bit
       IOAPIC_BR_INTERRUPT_ROUTING_Br_ext_Intr_grp_OFFSET 1) OR (push_bit IOAPIC_BR_INTERRUPT_ROUTING_Br_ext_Intr_swz_OFFSET 2) OR (push_bit
       IOAPIC_BR_INTERRUPT_ROUTING_Br_ext_Intr_map_OFFSET 0)),
     SMN_ENTRY_RMW SMN_IOHUB0_N9NBIO0_IOAPIC_BR_INTERRUPT_ROUTING_ADDRESS (IOAPIC_BR_INTERRUPT_ROUTING_Br_ext_Intr_grp_MASK OR
       IOAPIC_BR_INTERRUPT_ROUTING_Br_ext_Intr_swz_MASK OR IOAPIC_BR_INTERRUPT_ROUTING_Br_ext_Intr_map_MASK) ((push_bit
       IOAPIC_BR_INTERRUPT_ROUTING_Br_ext_Intr_grp_OFFSET 0) OR (push_bit IOAPIC_BR_INTERRUPT_ROUTING_Br_ext_Intr_swz_OFFSET 2) OR (push_bit
       IOAPIC_BR_INTERRUPT_ROUTING_Br_ext_Intr_map_OFFSET 1)),
     SMN_ENTRY_RMW SMN_IOHUB0_N10NBIO0_IOAPIC_BR_INTERRUPT_ROUTING_ADDRESS (IOAPIC_BR_INTERRUPT_ROUTING_Br_ext_Intr_grp_MASK OR
       IOAPIC_BR_INTERRUPT_ROUTING_Br_ext_Intr_swz_MASK OR IOAPIC_BR_INTERRUPT_ROUTING_Br_ext_Intr_map_MASK) ((push_bit
       IOAPIC_BR_INTERRUPT_ROUTING_Br_ext_Intr_grp_OFFSET 0) OR (push_bit IOAPIC_BR_INTERRUPT_ROUTING_Br_ext_Intr_swz_OFFSET 1) OR (push_bit
       IOAPIC_BR_INTERRUPT_ROUTING_Br_ext_Intr_map_OFFSET 1)),
     SMN_ENTRY_RMW SMN_IOHUB0_N11NBIO0_IOAPIC_BR_INTERRUPT_ROUTING_ADDRESS (IOAPIC_BR_INTERRUPT_ROUTING_Br_ext_Intr_grp_MASK OR
       IOAPIC_BR_INTERRUPT_ROUTING_Br_ext_Intr_swz_MASK OR IOAPIC_BR_INTERRUPT_ROUTING_Br_ext_Intr_map_MASK) ((push_bit
       IOAPIC_BR_INTERRUPT_ROUTING_Br_ext_Intr_grp_OFFSET 1) OR (push_bit IOAPIC_BR_INTERRUPT_ROUTING_Br_ext_Intr_swz_OFFSET 1) OR (push_bit
       IOAPIC_BR_INTERRUPT_ROUTING_Br_ext_Intr_map_OFFSET 1)),
     SMN_ENTRY_RMW SMN_IOHUB0_N12NBIO0_IOAPIC_BR_INTERRUPT_ROUTING_ADDRESS (IOAPIC_BR_INTERRUPT_ROUTING_Br_ext_Intr_grp_MASK OR
       IOAPIC_BR_INTERRUPT_ROUTING_Br_ext_Intr_swz_MASK OR IOAPIC_BR_INTERRUPT_ROUTING_Br_ext_Intr_map_MASK) ((push_bit
       IOAPIC_BR_INTERRUPT_ROUTING_Br_ext_Intr_grp_OFFSET 2) OR (push_bit IOAPIC_BR_INTERRUPT_ROUTING_Br_ext_Intr_swz_OFFSET 1) OR (push_bit
       IOAPIC_BR_INTERRUPT_ROUTING_Br_ext_Intr_map_OFFSET 1)),
     SMN_ENTRY_RMW SMN_IOHUB0_N13NBIO0_IOAPIC_BR_INTERRUPT_ROUTING_ADDRESS (IOAPIC_BR_INTERRUPT_ROUTING_Br_ext_Intr_grp_MASK OR
       IOAPIC_BR_INTERRUPT_ROUTING_Br_ext_Intr_swz_MASK OR IOAPIC_BR_INTERRUPT_ROUTING_Br_ext_Intr_map_MASK) ((push_bit
       IOAPIC_BR_INTERRUPT_ROUTING_Br_ext_Intr_grp_OFFSET 3) OR (push_bit IOAPIC_BR_INTERRUPT_ROUTING_Br_ext_Intr_swz_OFFSET 1) OR (push_bit
       IOAPIC_BR_INTERRUPT_ROUTING_Br_ext_Intr_map_OFFSET 1)),
     SMN_ENTRY_RMW SMN_IOHUB0_N14NBIO0_IOAPIC_BR_INTERRUPT_ROUTING_ADDRESS (IOAPIC_BR_INTERRUPT_ROUTING_Br_ext_Intr_grp_MASK OR
       IOAPIC_BR_INTERRUPT_ROUTING_Br_ext_Intr_swz_MASK OR IOAPIC_BR_INTERRUPT_ROUTING_Br_ext_Intr_map_MASK) ((push_bit
       IOAPIC_BR_INTERRUPT_ROUTING_Br_ext_Intr_grp_OFFSET 4) OR (push_bit IOAPIC_BR_INTERRUPT_ROUTING_Br_ext_Intr_swz_OFFSET 1) OR (push_bit
       IOAPIC_BR_INTERRUPT_ROUTING_Br_ext_Intr_map_OFFSET 1)),
     SMN_ENTRY_RMW SMN_IOHUB0_N15NBIO0_IOAPIC_BR_INTERRUPT_ROUTING_ADDRESS (IOAPIC_BR_INTERRUPT_ROUTING_Br_ext_Intr_grp_MASK OR
       IOAPIC_BR_INTERRUPT_ROUTING_Br_ext_Intr_swz_MASK OR IOAPIC_BR_INTERRUPT_ROUTING_Br_ext_Intr_map_MASK) ((push_bit
       IOAPIC_BR_INTERRUPT_ROUTING_Br_ext_Intr_grp_OFFSET 4) OR (push_bit IOAPIC_BR_INTERRUPT_ROUTING_Br_ext_Intr_swz_OFFSET 3) OR (push_bit
       IOAPIC_BR_INTERRUPT_ROUTING_Br_ext_Intr_map_OFFSET 1))]"

definition NBIO_IOAPIC_INTR_ROUTING_TBL_2 :: "smn_entry list" where
  "NBIO_IOAPIC_INTR_ROUTING_TBL_2 =
    [SMN_ENTRY_RMW SMN_IOHUB0_N16NBIO0_IOAPIC_BR_INTERRUPT_ROUTING_ADDRESS (IOAPIC_BR_INTERRUPT_ROUTING_Br_ext_Intr_grp_MASK OR
       IOAPIC_BR_INTERRUPT_ROUTING_Br_ext_Intr_swz_MASK OR IOAPIC_BR_INTERRUPT_ROUTING_Br_ext_Intr_map_MASK) ((push_bit
       IOAPIC_BR_INTERRUPT_ROUTING_Br_ext_Intr_grp_OFFSET 3) OR (push_bit IOAPIC_BR_INTERRUPT_ROUTING_Br_ext_Intr_swz_OFFSET 3) OR (push_bit
       IOAPIC_BR_INTERRUPT_ROUTING_Br_ext_Intr_map_OFFSET 1)),
     SMN_ENTRY_RMW SMN_IOHUB0_N17NBIO0_IOAPIC_BR_INTERRUPT_ROUTING_ADDRESS (IOAPIC_BR_INTERRUPT_ROUTING_Br_ext_Intr_grp_MASK OR
       IOAPIC_BR_INTERRUPT_ROUTING_Br_ext_Intr_swz_MASK OR IOAPIC_BR_INTERRUPT_ROUTING_Br_ext_Intr_map_MASK) ((push_bit
       IOAPIC_BR_INTERRUPT_ROUTING_Br_ext_Intr_grp_OFFSET 2) OR (push_bit IOAPIC_BR_INTERRUPT_ROUTING_Br_ext_Intr_swz_OFFSET 3) OR (push_bit
       IOAPIC_BR_INTERRUPT_ROUTING_Br_ext_Intr_map_OFFSET 1)),
     SMN_ENTRY_RMW SMN_IOHUB0_N18NBIO0_IOAPIC_BR_INTERRUPT_ROUTING_ADDRESS (IOAPIC_BR_INTERRUPT_ROUTING_Br_ext_Intr_grp_MASK OR
       IOAPIC_BR_INTERRUPT_ROUTING_Br_ext_Intr_swz_MASK OR IOAPIC_BR_INTERRUPT_ROUTING_Br_ext_Intr_map_MASK) ((push_bit
       IOAPIC_BR_INTERRUPT_ROUTING_Br_ext_Intr_grp_OFFSET 1) OR (push_bit IOAPIC_BR_INTERRUPT_ROUTING_Br_ext_Intr_swz_OFFSET 3) OR (push_bit
       IOAPIC_BR_INTERRUPT_ROUTING_Br_ext_Intr_map_OFFSET 2)),
     SMN_ENTRY_RMW SMN_IOHUB0_N19NBIO0_IOAPIC_BR_INTERRUPT_ROUTING_ADDRESS (IOAPIC_BR_INTERRUPT_ROUTING_Br_ext_Intr_grp_MASK OR
       IOAPIC_BR_INTERRUPT_ROUTING_Br_ext_Intr_swz_MASK OR IOAPIC_BR_INTERRUPT_ROUTING_Br_ext_Intr_map_MASK) ((push_bit
       IOAPIC_BR_INTERRUPT_ROUTING_Br_ext_Intr_grp_OFFSET 0) OR (push_bit IOAPIC_BR_INTERRUPT_ROUTING_Br_ext_Intr_swz_OFFSET 3) OR (push_bit
       IOAPIC_BR_INTERRUPT_ROUTING_Br_ext_Intr_map_OFFSET 2)),
     SMN_ENTRY_RMW SMN_IOHUB0_N20NBIO0_IOAPIC_BR_INTERRUPT_ROUTING_ADDRESS (IOAPIC_BR_INTERRUPT_ROUTING_Br_ext_Intr_grp_MASK OR
       IOAPIC_BR_INTERRUPT_ROUTING_Br_ext_Intr_swz_MASK OR IOAPIC_BR_INTERRUPT_ROUTING_Br_ext_Intr_map_MASK) ((push_bit
       IOAPIC_BR_INTERRUPT_ROUTING_Br_ext_Intr_grp_OFFSET 0) OR (push_bit IOAPIC_BR_INTERRUPT_ROUTING_Br_ext_Intr_swz_OFFSET 0) OR (push_bit
       IOAPIC_BR_INTERRUPT_ROUTING_Br_ext_Intr_map_OFFSET 2)),
     SMN_ENTRY_RMW SMN_IOHUB0_N21NBIO0_IOAPIC_BR_INTERRUPT_ROUTING_ADDRESS (IOAPIC_BR_INTERRUPT_ROUTING_Br_ext_Intr_grp_MASK OR
       IOAPIC_BR_INTERRUPT_ROUTING_Br_ext_Intr_swz_MASK OR IOAPIC_BR_INTERRUPT_ROUTING_Br_ext_Intr_map_MASK) ((push_bit
       IOAPIC_BR_INTERRUPT_ROUTING_Br_ext_Intr_grp_OFFSET 1) OR (push_bit IOAPIC_BR_INTERRUPT_ROUTING_Br_ext_Intr_swz_OFFSET 0) OR (push_bit
       IOAPIC_BR_INTERRUPT_ROUTING_Br_ext_Intr_map_OFFSET 2)),
     SMN_ENTRY_RMW SMN_IOHUB0_N22NBIO0_IOAPIC_BR_INTERRUPT_ROUTING_ADDRESS (IOAPIC_BR_INTERRUPT_ROUTING_Br_ext_Intr_grp_MASK OR
       IOAPIC_BR_INTERRUPT_ROUTING_Br_ext_Intr_swz_MASK OR IOAPIC_BR_INTERRUPT_ROUTING_Br_ext_Intr_map_MASK) ((push_bit
       IOAPIC_BR_INTERRUPT_ROUTING_Br_ext_Intr_grp_OFFSET 2) OR (push_bit IOAPIC_BR_INTERRUPT_ROUTING_Br_ext_Intr_swz_OFFSET 0) OR (push_bit
       IOAPIC_BR_INTERRUPT_ROUTING_Br_ext_Intr_map_OFFSET 3)),
     SMN_ENTRY_RMW SMN_IOHUB0_N23NBIO0_IOAPIC_BR_INTERRUPT_ROUTING_ADDRESS (IOAPIC_BR_INTERRUPT_ROUTING_Br_ext_Intr_grp_MASK OR
       IOAPIC_BR_INTERRUPT_ROUTING_Br_ext_Intr_swz_MASK OR IOAPIC_BR_INTERRUPT_ROUTING_Br_ext_Intr_map_MASK) ((push_bit
       IOAPIC_BR_INTERRUPT_ROUTING_Br_ext_Intr_grp_OFFSET 3) OR (push_bit IOAPIC_BR_INTERRUPT_ROUTING_Br_ext_Intr_swz_OFFSET 0) OR (push_bit
       IOAPIC_BR_INTERRUPT_ROUTING_Br_ext_Intr_map_OFFSET 3))]"

definition NBIO_IOAPIC_INTR_ROUTING_TBL :: "smn_entry list" where
  "NBIO_IOAPIC_INTR_ROUTING_TBL = NBIO_IOAPIC_INTR_ROUTING_TBL_1 @ NBIO_IOAPIC_INTR_ROUTING_TBL_2"

section \<open>The IOMMU (\<^verbatim>\<open>NbioIommuTbl.h\<close>)\<close>

definition NBIO_IOMMU_INIT_TBL :: "smn_entry list" where
  "NBIO_IOMMU_INIT_TBL =
    [SMN_ENTRY_RMW SMN_IOHUB0NBIO0_IOMMU_CONTROL_W_ADDRESS IOMMU_CONTROL_W_INTERRUPT_PIN_W_MASK (push_bit IOMMU_CONTROL_W_INTERRUPT_PIN_W_OFFSET 0),
     SMN_ENTRY_RMW SMN_IOHUB0NBIO0_IOMMU_CAP_MISC_ADDRESS IOMMU_CAP_MISC_IOMMU_HT_ATS_RESV_MASK (push_bit IOMMU_CAP_MISC_IOMMU_HT_ATS_RESV_OFFSET 0)]"

definition NBIO_IOMMU_L1_INIT_TBL_1 :: "smn_entry list" where
  "NBIO_IOMMU_L1_INIT_TBL_1 =
    [SMN_ENTRY_RMW SMN_PCIE0_IOHUB0NBIO0_L1_CNTRL_4_ADDRESS (L1_CNTRL_4_ATS_multiple_resp_en_MASK OR L1_CNTRL_4_Timeout_pulse_ext_En_MASK) ((push_bit
       L1_CNTRL_4_ATS_multiple_resp_en_OFFSET 1) OR (push_bit L1_CNTRL_4_Timeout_pulse_ext_En_OFFSET 1)),
     SMN_ENTRY_RMW SMN_PCIE1_IOHUB0NBIO0_L1_CNTRL_4_ADDRESS (L1_CNTRL_4_ATS_multiple_resp_en_MASK OR L1_CNTRL_4_Timeout_pulse_ext_En_MASK) ((push_bit
       L1_CNTRL_4_ATS_multiple_resp_en_OFFSET 1) OR (push_bit L1_CNTRL_4_Timeout_pulse_ext_En_OFFSET 1)),
     SMN_ENTRY_RMW SMN_IOAGR_IOHUB0NBIO0_L1_CNTRL_4_ADDRESS (L1_CNTRL_4_ATS_multiple_resp_en_MASK OR L1_CNTRL_4_Timeout_pulse_ext_En_MASK) ((push_bit
       L1_CNTRL_4_ATS_multiple_resp_en_OFFSET 1) OR (push_bit L1_CNTRL_4_Timeout_pulse_ext_En_OFFSET 1)),
     SMN_ENTRY_RMW SMN_IOAGR_IOHUB0NBIO0_L1_CNTRL_4_ADDRESS (L1_CNTRL_4_ATS_multiple_resp_en_MASK OR L1_CNTRL_4_Timeout_pulse_ext_En_MASK) ((push_bit
       L1_CNTRL_4_ATS_multiple_resp_en_OFFSET 1) OR (push_bit L1_CNTRL_4_Timeout_pulse_ext_En_OFFSET 1)),
     SMN_ENTRY_RMW SIL_RESERVED3_1497 (SIL_RESERVED3_1495 OR SIL_RESERVED3_1491 OR SIL_RESERVED3_1493) ((push_bit SIL_RESERVED3_1494 1) OR (push_bit
       SIL_RESERVED3_1490 1) OR (push_bit SIL_RESERVED3_1492 1)),
     SMN_ENTRY_RMW SIL_RESERVED3_1498 (SIL_RESERVED3_1495 OR SIL_RESERVED3_1491 OR SIL_RESERVED3_1493) ((push_bit SIL_RESERVED3_1494 1) OR (push_bit
       SIL_RESERVED3_1490 1) OR (push_bit SIL_RESERVED3_1492 1)),
     SMN_ENTRY_RMW SIL_RESERVED3_1496 (SIL_RESERVED3_1495 OR SIL_RESERVED3_1491 OR SIL_RESERVED3_1493) ((push_bit SIL_RESERVED3_1494 1) OR (push_bit
       SIL_RESERVED3_1490 1) OR (push_bit SIL_RESERVED3_1492 1)),
     SMN_ENTRY_RMW SIL_RESERVED3_1496 (SIL_RESERVED3_1495 OR SIL_RESERVED3_1491 OR SIL_RESERVED3_1493) ((push_bit SIL_RESERVED3_1494 1) OR (push_bit
       SIL_RESERVED3_1490 1) OR (push_bit SIL_RESERVED3_1492 1)),
     SMN_ENTRY_RMW SMN_PCIE0_IOHUB0NBIO0_L1_FEATURE_CNTRL_ADDRESS (L1_FEATURE_CNTRL_EXE_lock_bit_MASK OR L1_FEATURE_CNTRL_PMR_lock_bit_MASK)
       ((push_bit L1_FEATURE_CNTRL_EXE_lock_bit_OFFSET 1) OR (push_bit L1_FEATURE_CNTRL_PMR_lock_bit_OFFSET 1)),
     SMN_ENTRY_RMW SMN_PCIE1_IOHUB0NBIO0_L1_FEATURE_CNTRL_ADDRESS (L1_FEATURE_CNTRL_EXE_lock_bit_MASK OR L1_FEATURE_CNTRL_PMR_lock_bit_MASK)
       ((push_bit L1_FEATURE_CNTRL_EXE_lock_bit_OFFSET 1) OR (push_bit L1_FEATURE_CNTRL_PMR_lock_bit_OFFSET 1)),
     SMN_ENTRY_RMW SMN_IOAGR_IOHUB0NBIO0_L1_FEATURE_CNTRL_ADDRESS (L1_FEATURE_CNTRL_EXE_lock_bit_MASK OR L1_FEATURE_CNTRL_PMR_lock_bit_MASK)
       ((push_bit L1_FEATURE_CNTRL_EXE_lock_bit_OFFSET 1) OR (push_bit L1_FEATURE_CNTRL_PMR_lock_bit_OFFSET 1)),
     SMN_ENTRY_RMW SMN_IOAGR_IOHUB0NBIO0_L1_FEATURE_CNTRL_ADDRESS (L1_FEATURE_CNTRL_EXE_lock_bit_MASK OR L1_FEATURE_CNTRL_PMR_lock_bit_MASK)
       ((push_bit L1_FEATURE_CNTRL_EXE_lock_bit_OFFSET 1) OR (push_bit L1_FEATURE_CNTRL_PMR_lock_bit_OFFSET 1)),
     SMN_ENTRY_RMW SMN_PCIE0_IOHUB0NBIO0_L1_CNTRL_2_ADDRESS (L1_CNTRL_2_CPD_RESP_MODE_MASK OR L1_CNTRL_2_L1NonConsumedDataErrorSignalEn_MASK OR
       L1_CNTRL_2_L1ConsumedDataErrorSignalEn_MASK) ((push_bit L1_CNTRL_2_CPD_RESP_MODE_OFFSET 1) OR (push_bit
       L1_CNTRL_2_L1NonConsumedDataErrorSignalEn_OFFSET 1) OR (push_bit L1_CNTRL_2_L1ConsumedDataErrorSignalEn_OFFSET 1)),
     SMN_ENTRY_RMW SMN_PCIE1_IOHUB0NBIO0_L1_CNTRL_2_ADDRESS (L1_CNTRL_2_CPD_RESP_MODE_MASK OR L1_CNTRL_2_L1NonConsumedDataErrorSignalEn_MASK OR
       L1_CNTRL_2_L1ConsumedDataErrorSignalEn_MASK) ((push_bit L1_CNTRL_2_CPD_RESP_MODE_OFFSET 1) OR (push_bit
       L1_CNTRL_2_L1NonConsumedDataErrorSignalEn_OFFSET 1) OR (push_bit L1_CNTRL_2_L1ConsumedDataErrorSignalEn_OFFSET 1)),
     SMN_ENTRY_RMW SMN_IOAGR_IOHUB0NBIO0_L1_CNTRL_2_ADDRESS (L1_CNTRL_2_CPD_RESP_MODE_MASK OR L1_CNTRL_2_L1NonConsumedDataErrorSignalEn_MASK OR
       L1_CNTRL_2_L1ConsumedDataErrorSignalEn_MASK) ((push_bit L1_CNTRL_2_CPD_RESP_MODE_OFFSET 1) OR (push_bit
       L1_CNTRL_2_L1NonConsumedDataErrorSignalEn_OFFSET 1) OR (push_bit L1_CNTRL_2_L1ConsumedDataErrorSignalEn_OFFSET 1)),
     SMN_ENTRY_RMW SMN_IOAGR_IOHUB0NBIO0_L1_CNTRL_2_ADDRESS (L1_CNTRL_2_CPD_RESP_MODE_MASK OR L1_CNTRL_2_L1NonConsumedDataErrorSignalEn_MASK OR
       L1_CNTRL_2_L1ConsumedDataErrorSignalEn_MASK) ((push_bit L1_CNTRL_2_CPD_RESP_MODE_OFFSET 1) OR (push_bit
       L1_CNTRL_2_L1NonConsumedDataErrorSignalEn_OFFSET 1) OR (push_bit L1_CNTRL_2_L1ConsumedDataErrorSignalEn_OFFSET 1)),
     SMN_ENTRY_RMW SMN_PCIE0_IOHUB0NBIO0_L1_SDP_CLKREQ_CNTRL_ADDRESS L1_SDP_CLKREQ_CNTRL_HW_PG_WAKEUP_EN_DMA_MASK (push_bit
       L1_SDP_CLKREQ_CNTRL_HW_PG_WAKEUP_EN_DMA_OFFSET 1),
     SMN_ENTRY_RMW SMN_PCIE1_IOHUB0NBIO0_L1_SDP_CLKREQ_CNTRL_ADDRESS L1_SDP_CLKREQ_CNTRL_HW_PG_WAKEUP_EN_DMA_MASK (push_bit
       L1_SDP_CLKREQ_CNTRL_HW_PG_WAKEUP_EN_DMA_OFFSET 1),
     SMN_ENTRY_RMW SMN_IOAGR_IOHUB0NBIO0_L1_SDP_CLKREQ_CNTRL_ADDRESS L1_SDP_CLKREQ_CNTRL_HW_PG_WAKEUP_EN_DMA_MASK (push_bit
       L1_SDP_CLKREQ_CNTRL_HW_PG_WAKEUP_EN_DMA_OFFSET 1)]"

definition NBIO_IOMMU_L1_INIT_TBL_2 :: "smn_entry list" where
  "NBIO_IOMMU_L1_INIT_TBL_2 =
    [SMN_ENTRY_RMW SMN_IOAGR_IOHUB0NBIO0_L1_SDP_CLKREQ_CNTRL_ADDRESS L1_SDP_CLKREQ_CNTRL_HW_PG_WAKEUP_EN_DMA_MASK (push_bit
       L1_SDP_CLKREQ_CNTRL_HW_PG_WAKEUP_EN_DMA_OFFSET 1),
     SMN_ENTRY_RMW SMN_IOAGR_IOHUB0NBIO0_L1_SDP_MAXCRED_0_ADDRESS L1_SDP_MAXCRED_0_L1_DYNAMIC_CRED_RELOCATION_EN_MASK (push_bit
       L1_SDP_MAXCRED_0_L1_DYNAMIC_CRED_RELOCATION_EN_OFFSET 1),
     SMN_ENTRY_RMW SMN_IOAGR_IOHUB0NBIO0_L1_SDP_DMA_REQ_CREDIT_1_ADDRESS L1_SDP_DMA_REQ_CREDIT_1_VC7_DMA_REQ_CREDIT_MASK (push_bit
       L1_SDP_DMA_REQ_CREDIT_1_VC7_DMA_REQ_CREDIT_OFFSET 1),
     SMN_ENTRY_RMW SMN_IOAGR_IOHUB0NBIO0_L1_SDP_DMA_DATA_CREDIT_1_ADDRESS L1_SDP_DMA_DATA_CREDIT_1_VC7_DMA_DATA_CREDIT_MASK (push_bit
       L1_SDP_DMA_DATA_CREDIT_1_VC7_DMA_DATA_CREDIT_OFFSET 1),
     SMN_ENTRY_RMW SMN_IOAGR_IOHUB0NBIO0_L1_SDP_DMA_RDRSP_CREDIT_ADDRESS L1_SDP_DMA_RDRSP_CREDIT_VC4_DMA_RDRSP_CREDIT_MASK (push_bit
       L1_SDP_DMA_RDRSP_CREDIT_VC4_DMA_RDRSP_CREDIT_OFFSET 1),
     SMN_ENTRY_RMW SMN_IOAGR_IOHUB0NBIO0_L1_SDP_DMA_WRRSP_CREDIT_ADDRESS L1_SDP_DMA_WRRSP_CREDIT_VC4_DMA_WRRSP_CREDIT_MASK (push_bit
       L1_SDP_DMA_WRRSP_CREDIT_VC4_DMA_WRRSP_CREDIT_OFFSET 1),
     SMN_ENTRY_RMW SMN_IOAGR_IOHUB0NBIO0_L1_SDP_DMA_WRRSP_CREDIT_ADDRESS L1_SDP_DMA_WRRSP_CREDIT_VC6_DMA_WRRSP_CREDIT_MASK (push_bit
       L1_SDP_DMA_WRRSP_CREDIT_VC6_DMA_WRRSP_CREDIT_OFFSET 1),
     SMN_ENTRY_RMW SMN_IOAGR_IOHUB0NBIO0_L1_SDP_MAXCRED_0_ADDRESS L1_SDP_MAXCRED_0_L1_DYNAMIC_CRED_RELOCATION_EN_MASK (push_bit
       L1_SDP_MAXCRED_0_L1_DYNAMIC_CRED_RELOCATION_EN_OFFSET 0)]"

definition NBIO_IOMMU_L1_INIT_TBL :: "smn_entry list" where
  "NBIO_IOMMU_L1_INIT_TBL = NBIO_IOMMU_L1_INIT_TBL_1 @ NBIO_IOMMU_L1_INIT_TBL_2"

definition NBIO_IOMMU_L2_INIT_TBL :: "smn_entry list" where
  "NBIO_IOMMU_L2_INIT_TBL =
    [SMN_ENTRY_RMW SMN_IOHUB0NBIO0_L2_ERR_RULE_CONTROL_0_ADDRESS L2_ERR_RULE_CONTROL_0_ERRRuleLock0_MASK (push_bit
       L2_ERR_RULE_CONTROL_0_ERRRuleLock0_OFFSET 1),
     SMN_ENTRY_RMW SMN_IOHUB0NBIO0_L2_ERR_RULE_CONTROL_3_ADDRESS L2_ERR_RULE_CONTROL_3_ERRRuleLock1_MASK (push_bit
       L2_ERR_RULE_CONTROL_3_ERRRuleLock1_OFFSET 1),
     SMN_ENTRY_RMW SMN_IOHUB0NBIO0_L2_L2A_PGSIZE_CONTROL_ADDRESS (L2_L2A_PGSIZE_CONTROL_L2AREG_HOST_PGSIZE_MASK OR
       L2_L2A_PGSIZE_CONTROL_L2AREG_GST_PGSIZE_MASK) ((push_bit L2_L2A_PGSIZE_CONTROL_L2AREG_HOST_PGSIZE_OFFSET 0x49) OR (push_bit
       L2_L2A_PGSIZE_CONTROL_L2AREG_GST_PGSIZE_OFFSET 0x49)),
     SMN_ENTRY_RMW SMN_IOHUB0NBIO0_L2_L2B_PGSIZE_CONTROL_ADDRESS (L2_L2B_PGSIZE_CONTROL_L2BREG_GST_PGSIZE_MASK OR
       L2_L2B_PGSIZE_CONTROL_L2BREG_HOST_PGSIZE_MASK) ((push_bit L2_L2B_PGSIZE_CONTROL_L2BREG_GST_PGSIZE_OFFSET 0x49) OR (push_bit
       L2_L2B_PGSIZE_CONTROL_L2BREG_HOST_PGSIZE_OFFSET 0x49)),
     SMN_ENTRY_RMW SMN_IOHUB0NBIO0_L2_CONTROL_5_ADDRESS L2_CONTROL_5_GST_partial_ptc_cntrl_MASK (push_bit L2_CONTROL_5_GST_partial_ptc_cntrl_OFFSET
       0x49),
     SMN_ENTRY_RMW SMN_IOHUB0NBIO0_L2_MISC_CNTRL_3_ADDRESS (L2_MISC_CNTRL_3_REG_atomic_filter_en_MASK OR L2_MISC_CNTRL_3_REG_mask_l2_nw_MASK OR
       L2_MISC_CNTRL_3_REG_ats_iw_MASK) ((push_bit L2_MISC_CNTRL_3_REG_atomic_filter_en_OFFSET 1) OR (push_bit L2_MISC_CNTRL_3_REG_mask_l2_nw_OFFSET
       1) OR (push_bit L2_MISC_CNTRL_3_REG_ats_iw_OFFSET 1)),
     SMN_ENTRY_RMW SMN_IOHUB0NBIO0_L2_CP_CONTROL_ADDRESS (L2_CP_CONTROL_CPFlushOnWait_MASK OR L2_CP_CONTROL_CPFlushOnInv_MASK) ((push_bit
       L2_CP_CONTROL_CPFlushOnWait_OFFSET 1) OR (push_bit L2_CP_CONTROL_CPFlushOnInv_OFFSET 0)),
     SMN_ENTRY_RMW SMN_IOHUB0NBIO0_L2B_UPDATE_FILTER_CNTL_ADDRESS L2B_UPDATE_FILTER_CNTL_L2b_Update_Filter_Bypass_MASK (push_bit
       L2B_UPDATE_FILTER_CNTL_L2b_Update_Filter_Bypass_OFFSET 0),
     SMN_ENTRY_RMW SMN_IOHUB0NBIO0_L2A_UPDATE_FILTER_CNTL_ADDRESS L2A_UPDATE_FILTER_CNTL_L2a_Update_Filter_Bypass_MASK (push_bit
       L2A_UPDATE_FILTER_CNTL_L2a_Update_Filter_Bypass_OFFSET 0),
     SMN_ENTRY_RMW SMN_IOHUB0NBIO0_L2_TW_CONTROL_ADDRESS (L2_TW_CONTROL_TWPrefetchRange_MASK OR L2_TW_CONTROL_TWPrefetchEn_MASK OR
       L2_TW_CONTROL_TWCacheNestedPTE_MASK OR L2_TW_CONTROL_TWForceCoherent_MASK) ((push_bit L2_TW_CONTROL_TWPrefetchRange_OFFSET 7) OR (push_bit
       L2_TW_CONTROL_TWPrefetchEn_OFFSET 1) OR (push_bit L2_TW_CONTROL_TWCacheNestedPTE_OFFSET 1) OR (push_bit L2_TW_CONTROL_TWForceCoherent_OFFSET
       1)),
     SMN_ENTRY_RMW SMN_IOHUB0NBIO0_IOMMU_MMIO_CONTROL1_W_ADDRESS IOMMU_MMIO_CONTROL1_W_InvIotlbTypeSup_W_MASK (push_bit
       IOMMU_MMIO_CONTROL1_W_InvIotlbTypeSup_W_OFFSET 0)]"

definition NBIO_IOMMU_CLOCK_GATING_TBL_1 :: "smn_entry list" where
  "NBIO_IOMMU_CLOCK_GATING_TBL_1 =
    [SMN_ENTRY_PROPERTY_RMW PROPERTY_IOMMU_L2CLKGATING_ENABLED SMN_IOHUB0NBIO0_L2_L2A_CK_GATE_CONTROL_ADDRESS
       (L2_L2A_CK_GATE_CONTROL_CKGateL2ARegsDisable_MASK OR L2_L2A_CK_GATE_CONTROL_CKGateL2ADynamicDisable_MASK OR
       L2_L2A_CK_GATE_CONTROL_CKGateL2ACacheDisable_MASK) ((push_bit L2_L2A_CK_GATE_CONTROL_CKGateL2ARegsDisable_OFFSET 0) OR (push_bit
       L2_L2A_CK_GATE_CONTROL_CKGateL2ADynamicDisable_OFFSET 0) OR (push_bit L2_L2A_CK_GATE_CONTROL_CKGateL2ACacheDisable_OFFSET 0)),
     SMN_ENTRY_PROPERTY_RMW PROPERTY_IOMMU_L2CLKGATING_DISABLED SMN_IOHUB0NBIO0_L2_L2A_CK_GATE_CONTROL_ADDRESS
       (L2_L2A_CK_GATE_CONTROL_CKGateL2ARegsDisable_MASK OR L2_L2A_CK_GATE_CONTROL_CKGateL2ADynamicDisable_MASK OR
       L2_L2A_CK_GATE_CONTROL_CKGateL2ACacheDisable_MASK) ((push_bit L2_L2A_CK_GATE_CONTROL_CKGateL2ARegsDisable_OFFSET 1) OR (push_bit
       L2_L2A_CK_GATE_CONTROL_CKGateL2ADynamicDisable_OFFSET 1) OR (push_bit L2_L2A_CK_GATE_CONTROL_CKGateL2ACacheDisable_OFFSET 1)),
     SMN_ENTRY_PROPERTY_RMW PROPERTY_IOMMU_L2CLKGATING_ENABLED SMN_IOHUB0NBIO0_L2_L2B_CK_GATE_CONTROL_ADDRESS
       (L2_L2B_CK_GATE_CONTROL_CKGateL2BRegsDisable_MASK OR L2_L2B_CK_GATE_CONTROL_CKGateL2BDynamicDisable_MASK OR
       L2_L2B_CK_GATE_CONTROL_CKGateL2BMiscDisable_MASK OR L2_L2B_CK_GATE_CONTROL_CKGateL2BCacheDisable_MASK) ((push_bit
       L2_L2B_CK_GATE_CONTROL_CKGateL2BRegsDisable_OFFSET 0) OR (push_bit L2_L2B_CK_GATE_CONTROL_CKGateL2BDynamicDisable_OFFSET 0) OR (push_bit
       L2_L2B_CK_GATE_CONTROL_CKGateL2BMiscDisable_OFFSET 0) OR (push_bit L2_L2B_CK_GATE_CONTROL_CKGateL2BCacheDisable_OFFSET 0)),
     SMN_ENTRY_PROPERTY_RMW PROPERTY_IOMMU_L2CLKGATING_DISABLED SMN_IOHUB0NBIO0_L2_L2B_CK_GATE_CONTROL_ADDRESS
       (L2_L2B_CK_GATE_CONTROL_CKGateL2BRegsDisable_MASK OR L2_L2B_CK_GATE_CONTROL_CKGateL2BDynamicDisable_MASK OR
       L2_L2B_CK_GATE_CONTROL_CKGateL2BMiscDisable_MASK OR L2_L2B_CK_GATE_CONTROL_CKGateL2BCacheDisable_MASK) ((push_bit
       L2_L2B_CK_GATE_CONTROL_CKGateL2BRegsDisable_OFFSET 1) OR (push_bit L2_L2B_CK_GATE_CONTROL_CKGateL2BDynamicDisable_OFFSET 1) OR (push_bit
       L2_L2B_CK_GATE_CONTROL_CKGateL2BMiscDisable_OFFSET 1) OR (push_bit L2_L2B_CK_GATE_CONTROL_CKGateL2BCacheDisable_OFFSET 1)),
     SMN_ENTRY_PROPERTY_RMW PROPERTY_IOMMU_L1CLKGATING_ENABLED SMN_IOAGR_IOHUB0NBIO0_L1_CLKCNTRL_0_ADDRESS (L1_CLKCNTRL_0_L1_CLKGATE_HYSTERESIS_MASK
       OR L1_CLKCNTRL_0_L1_DMA_CLKGATE_EN_MASK OR L1_CLKCNTRL_0_L1_CACHE_CLKGATE_EN_MASK OR L1_CLKCNTRL_0_L1_CPSLV_CLKGATE_EN_MASK OR
       L1_CLKCNTRL_0_L1_PERF_CLKGATE_EN_MASK OR L1_CLKCNTRL_0_L1_MEMORY_CLKGATE_EN_MASK OR L1_CLKCNTRL_0_L1_REG_CLKGATE_EN_MASK OR
       L1_CLKCNTRL_0_L1_HOSTREQ_CLKGATE_EN_MASK OR L1_CLKCNTRL_0_L1_DMARSP_CLKGATE_EN_MASK OR L1_CLKCNTRL_0_L1_HOSTRSP_CLKGATE_EN_MASK OR
       L1_CLKCNTRL_0_L1_SION_PERF_CLKGATE_EN_MASK OR L1_CLKCNTRL_0_L1_L2_CLKGATE_EN_MASK) ((push_bit L1_CLKCNTRL_0_L1_CLKGATE_HYSTERESIS_OFFSET 0x20)
       OR (push_bit L1_CLKCNTRL_0_L1_DMA_CLKGATE_EN_OFFSET 1) OR (push_bit L1_CLKCNTRL_0_L1_CACHE_CLKGATE_EN_OFFSET 1) OR (push_bit
       L1_CLKCNTRL_0_L1_CPSLV_CLKGATE_EN_OFFSET 1) OR (push_bit L1_CLKCNTRL_0_L1_PERF_CLKGATE_EN_OFFSET 1) OR (push_bit
       L1_CLKCNTRL_0_L1_MEMORY_CLKGATE_EN_OFFSET 1) OR (push_bit L1_CLKCNTRL_0_L1_REG_CLKGATE_EN_OFFSET 1) OR (push_bit
       L1_CLKCNTRL_0_L1_HOSTREQ_CLKGATE_EN_OFFSET 1) OR (push_bit L1_CLKCNTRL_0_L1_DMARSP_CLKGATE_EN_OFFSET 1) OR (push_bit
       L1_CLKCNTRL_0_L1_HOSTRSP_CLKGATE_EN_OFFSET 1) OR (push_bit L1_CLKCNTRL_0_L1_SION_PERF_CLKGATE_EN_OFFSET 1) OR (push_bit
       L1_CLKCNTRL_0_L1_L2_CLKGATE_EN_OFFSET 1)),
     SMN_ENTRY_PROPERTY_RMW PROPERTY_IOMMU_L1CLKGATING_DISABLED SMN_IOAGR_IOHUB0NBIO0_L1_CLKCNTRL_0_ADDRESS (L1_CLKCNTRL_0_L1_DMA_CLKGATE_EN_MASK OR
       L1_CLKCNTRL_0_L1_CACHE_CLKGATE_EN_MASK OR L1_CLKCNTRL_0_L1_CPSLV_CLKGATE_EN_MASK OR L1_CLKCNTRL_0_L1_PERF_CLKGATE_EN_MASK OR
       L1_CLKCNTRL_0_L1_MEMORY_CLKGATE_EN_MASK OR L1_CLKCNTRL_0_L1_REG_CLKGATE_EN_MASK OR L1_CLKCNTRL_0_L1_HOSTREQ_CLKGATE_EN_MASK OR
       L1_CLKCNTRL_0_L1_DMARSP_CLKGATE_EN_MASK OR L1_CLKCNTRL_0_L1_HOSTRSP_CLKGATE_EN_MASK OR L1_CLKCNTRL_0_L1_SION_PERF_CLKGATE_EN_MASK OR
       L1_CLKCNTRL_0_L1_L2_CLKGATE_EN_MASK) ((push_bit L1_CLKCNTRL_0_L1_DMA_CLKGATE_EN_OFFSET 0) OR (push_bit
       L1_CLKCNTRL_0_L1_CACHE_CLKGATE_EN_OFFSET 0) OR (push_bit L1_CLKCNTRL_0_L1_CPSLV_CLKGATE_EN_OFFSET 0) OR (push_bit
       L1_CLKCNTRL_0_L1_PERF_CLKGATE_EN_OFFSET 0) OR (push_bit L1_CLKCNTRL_0_L1_MEMORY_CLKGATE_EN_OFFSET 0) OR (push_bit
       L1_CLKCNTRL_0_L1_REG_CLKGATE_EN_OFFSET 0) OR (push_bit L1_CLKCNTRL_0_L1_HOSTREQ_CLKGATE_EN_OFFSET 0) OR (push_bit
       L1_CLKCNTRL_0_L1_DMARSP_CLKGATE_EN_OFFSET 0) OR (push_bit L1_CLKCNTRL_0_L1_HOSTRSP_CLKGATE_EN_OFFSET 0) OR (push_bit
       L1_CLKCNTRL_0_L1_SION_PERF_CLKGATE_EN_OFFSET 0) OR (push_bit L1_CLKCNTRL_0_L1_L2_CLKGATE_EN_OFFSET 0)),
     SMN_ENTRY_PROPERTY_RMW PROPERTY_IOMMU_L1CLKGATING_ENABLED SMN_IOAGR_IOHUB0NBIO0_L1_CLKCNTRL_0_ADDRESS (L1_CLKCNTRL_0_L1_CLKGATE_HYSTERESIS_MASK
       OR L1_CLKCNTRL_0_L1_DMA_CLKGATE_EN_MASK OR L1_CLKCNTRL_0_L1_CACHE_CLKGATE_EN_MASK OR L1_CLKCNTRL_0_L1_CPSLV_CLKGATE_EN_MASK OR
       L1_CLKCNTRL_0_L1_PERF_CLKGATE_EN_MASK OR L1_CLKCNTRL_0_L1_MEMORY_CLKGATE_EN_MASK OR L1_CLKCNTRL_0_L1_REG_CLKGATE_EN_MASK OR
       L1_CLKCNTRL_0_L1_HOSTREQ_CLKGATE_EN_MASK OR L1_CLKCNTRL_0_L1_DMARSP_CLKGATE_EN_MASK OR L1_CLKCNTRL_0_L1_HOSTRSP_CLKGATE_EN_MASK OR
       L1_CLKCNTRL_0_L1_SION_PERF_CLKGATE_EN_MASK OR L1_CLKCNTRL_0_L1_L2_CLKGATE_EN_MASK) ((push_bit L1_CLKCNTRL_0_L1_CLKGATE_HYSTERESIS_OFFSET 0x20)
       OR (push_bit L1_CLKCNTRL_0_L1_DMA_CLKGATE_EN_OFFSET 1) OR (push_bit L1_CLKCNTRL_0_L1_CACHE_CLKGATE_EN_OFFSET 1) OR (push_bit
       L1_CLKCNTRL_0_L1_CPSLV_CLKGATE_EN_OFFSET 1) OR (push_bit L1_CLKCNTRL_0_L1_PERF_CLKGATE_EN_OFFSET 1) OR (push_bit
       L1_CLKCNTRL_0_L1_MEMORY_CLKGATE_EN_OFFSET 1) OR (push_bit L1_CLKCNTRL_0_L1_REG_CLKGATE_EN_OFFSET 1) OR (push_bit
       L1_CLKCNTRL_0_L1_HOSTREQ_CLKGATE_EN_OFFSET 1) OR (push_bit L1_CLKCNTRL_0_L1_DMARSP_CLKGATE_EN_OFFSET 1) OR (push_bit
       L1_CLKCNTRL_0_L1_HOSTRSP_CLKGATE_EN_OFFSET 1) OR (push_bit L1_CLKCNTRL_0_L1_SION_PERF_CLKGATE_EN_OFFSET 1) OR (push_bit
       L1_CLKCNTRL_0_L1_L2_CLKGATE_EN_OFFSET 1)),
     SMN_ENTRY_PROPERTY_RMW PROPERTY_IOMMU_L1CLKGATING_DISABLED SMN_IOAGR_IOHUB0NBIO0_L1_CLKCNTRL_0_ADDRESS (L1_CLKCNTRL_0_L1_DMA_CLKGATE_EN_MASK OR
       L1_CLKCNTRL_0_L1_CACHE_CLKGATE_EN_MASK OR L1_CLKCNTRL_0_L1_CPSLV_CLKGATE_EN_MASK OR L1_CLKCNTRL_0_L1_PERF_CLKGATE_EN_MASK OR
       L1_CLKCNTRL_0_L1_MEMORY_CLKGATE_EN_MASK OR L1_CLKCNTRL_0_L1_REG_CLKGATE_EN_MASK OR L1_CLKCNTRL_0_L1_HOSTREQ_CLKGATE_EN_MASK OR
       L1_CLKCNTRL_0_L1_DMARSP_CLKGATE_EN_MASK OR L1_CLKCNTRL_0_L1_HOSTRSP_CLKGATE_EN_MASK OR L1_CLKCNTRL_0_L1_SION_PERF_CLKGATE_EN_MASK OR
       L1_CLKCNTRL_0_L1_L2_CLKGATE_EN_MASK) ((push_bit L1_CLKCNTRL_0_L1_DMA_CLKGATE_EN_OFFSET 0) OR (push_bit
       L1_CLKCNTRL_0_L1_CACHE_CLKGATE_EN_OFFSET 0) OR (push_bit L1_CLKCNTRL_0_L1_CPSLV_CLKGATE_EN_OFFSET 0) OR (push_bit
       L1_CLKCNTRL_0_L1_PERF_CLKGATE_EN_OFFSET 0) OR (push_bit L1_CLKCNTRL_0_L1_MEMORY_CLKGATE_EN_OFFSET 0) OR (push_bit
       L1_CLKCNTRL_0_L1_REG_CLKGATE_EN_OFFSET 0) OR (push_bit L1_CLKCNTRL_0_L1_HOSTREQ_CLKGATE_EN_OFFSET 0) OR (push_bit
       L1_CLKCNTRL_0_L1_DMARSP_CLKGATE_EN_OFFSET 0) OR (push_bit L1_CLKCNTRL_0_L1_HOSTRSP_CLKGATE_EN_OFFSET 0) OR (push_bit
       L1_CLKCNTRL_0_L1_SION_PERF_CLKGATE_EN_OFFSET 0) OR (push_bit L1_CLKCNTRL_0_L1_L2_CLKGATE_EN_OFFSET 0)),
     SMN_ENTRY_PROPERTY_RMW PROPERTY_IOMMU_L1CLKGATING_ENABLED SMN_PCIE0_IOHUB0NBIO0_L1_CLKCNTRL_0_ADDRESS (L1_CLKCNTRL_0_L1_CLKGATE_HYSTERESIS_MASK
       OR L1_CLKCNTRL_0_L1_DMA_CLKGATE_EN_MASK OR L1_CLKCNTRL_0_L1_CACHE_CLKGATE_EN_MASK OR L1_CLKCNTRL_0_L1_CPSLV_CLKGATE_EN_MASK OR
       L1_CLKCNTRL_0_L1_PERF_CLKGATE_EN_MASK OR L1_CLKCNTRL_0_L1_MEMORY_CLKGATE_EN_MASK OR L1_CLKCNTRL_0_L1_REG_CLKGATE_EN_MASK OR
       L1_CLKCNTRL_0_L1_HOSTREQ_CLKGATE_EN_MASK OR L1_CLKCNTRL_0_L1_DMARSP_CLKGATE_EN_MASK OR L1_CLKCNTRL_0_L1_HOSTRSP_CLKGATE_EN_MASK OR
       L1_CLKCNTRL_0_L1_SION_PERF_CLKGATE_EN_MASK OR L1_CLKCNTRL_0_L1_L2_CLKGATE_EN_MASK) ((push_bit L1_CLKCNTRL_0_L1_CLKGATE_HYSTERESIS_OFFSET 0x20)
       OR (push_bit L1_CLKCNTRL_0_L1_DMA_CLKGATE_EN_OFFSET 1) OR (push_bit L1_CLKCNTRL_0_L1_CACHE_CLKGATE_EN_OFFSET 1) OR (push_bit
       L1_CLKCNTRL_0_L1_CPSLV_CLKGATE_EN_OFFSET 1) OR (push_bit L1_CLKCNTRL_0_L1_PERF_CLKGATE_EN_OFFSET 1) OR (push_bit
       L1_CLKCNTRL_0_L1_MEMORY_CLKGATE_EN_OFFSET 1) OR (push_bit L1_CLKCNTRL_0_L1_REG_CLKGATE_EN_OFFSET 1) OR (push_bit
       L1_CLKCNTRL_0_L1_HOSTREQ_CLKGATE_EN_OFFSET 1) OR (push_bit L1_CLKCNTRL_0_L1_DMARSP_CLKGATE_EN_OFFSET 1) OR (push_bit
       L1_CLKCNTRL_0_L1_HOSTRSP_CLKGATE_EN_OFFSET 1) OR (push_bit L1_CLKCNTRL_0_L1_SION_PERF_CLKGATE_EN_OFFSET 1) OR (push_bit
       L1_CLKCNTRL_0_L1_L2_CLKGATE_EN_OFFSET 1))]"

definition NBIO_IOMMU_CLOCK_GATING_TBL_2 :: "smn_entry list" where
  "NBIO_IOMMU_CLOCK_GATING_TBL_2 =
    [SMN_ENTRY_PROPERTY_RMW PROPERTY_IOMMU_L1CLKGATING_DISABLED SMN_PCIE0_IOHUB0NBIO0_L1_CLKCNTRL_0_ADDRESS (L1_CLKCNTRL_0_L1_DMA_CLKGATE_EN_MASK OR
       L1_CLKCNTRL_0_L1_CACHE_CLKGATE_EN_MASK OR L1_CLKCNTRL_0_L1_CPSLV_CLKGATE_EN_MASK OR L1_CLKCNTRL_0_L1_PERF_CLKGATE_EN_MASK OR
       L1_CLKCNTRL_0_L1_MEMORY_CLKGATE_EN_MASK OR L1_CLKCNTRL_0_L1_REG_CLKGATE_EN_MASK OR L1_CLKCNTRL_0_L1_HOSTREQ_CLKGATE_EN_MASK OR
       L1_CLKCNTRL_0_L1_DMARSP_CLKGATE_EN_MASK OR L1_CLKCNTRL_0_L1_HOSTRSP_CLKGATE_EN_MASK OR L1_CLKCNTRL_0_L1_SION_PERF_CLKGATE_EN_MASK OR
       L1_CLKCNTRL_0_L1_L2_CLKGATE_EN_MASK) ((push_bit L1_CLKCNTRL_0_L1_DMA_CLKGATE_EN_OFFSET 0) OR (push_bit
       L1_CLKCNTRL_0_L1_CACHE_CLKGATE_EN_OFFSET 0) OR (push_bit L1_CLKCNTRL_0_L1_CPSLV_CLKGATE_EN_OFFSET 0) OR (push_bit
       L1_CLKCNTRL_0_L1_PERF_CLKGATE_EN_OFFSET 0) OR (push_bit L1_CLKCNTRL_0_L1_MEMORY_CLKGATE_EN_OFFSET 0) OR (push_bit
       L1_CLKCNTRL_0_L1_REG_CLKGATE_EN_OFFSET 0) OR (push_bit L1_CLKCNTRL_0_L1_HOSTREQ_CLKGATE_EN_OFFSET 0) OR (push_bit
       L1_CLKCNTRL_0_L1_DMARSP_CLKGATE_EN_OFFSET 0) OR (push_bit L1_CLKCNTRL_0_L1_HOSTRSP_CLKGATE_EN_OFFSET 0) OR (push_bit
       L1_CLKCNTRL_0_L1_SION_PERF_CLKGATE_EN_OFFSET 0) OR (push_bit L1_CLKCNTRL_0_L1_L2_CLKGATE_EN_OFFSET 0)),
     SMN_ENTRY_PROPERTY_RMW PROPERTY_IOMMU_L1CLKGATING_ENABLED SMN_PCIE1_IOHUB0NBIO0_L1_CLKCNTRL_0_ADDRESS (L1_CLKCNTRL_0_L1_CLKGATE_HYSTERESIS_MASK
       OR L1_CLKCNTRL_0_L1_DMA_CLKGATE_EN_MASK OR L1_CLKCNTRL_0_L1_CACHE_CLKGATE_EN_MASK OR L1_CLKCNTRL_0_L1_CPSLV_CLKGATE_EN_MASK OR
       L1_CLKCNTRL_0_L1_PERF_CLKGATE_EN_MASK OR L1_CLKCNTRL_0_L1_MEMORY_CLKGATE_EN_MASK OR L1_CLKCNTRL_0_L1_REG_CLKGATE_EN_MASK OR
       L1_CLKCNTRL_0_L1_HOSTREQ_CLKGATE_EN_MASK OR L1_CLKCNTRL_0_L1_DMARSP_CLKGATE_EN_MASK OR L1_CLKCNTRL_0_L1_HOSTRSP_CLKGATE_EN_MASK OR
       L1_CLKCNTRL_0_L1_SION_PERF_CLKGATE_EN_MASK OR L1_CLKCNTRL_0_L1_L2_CLKGATE_EN_MASK) ((push_bit L1_CLKCNTRL_0_L1_CLKGATE_HYSTERESIS_OFFSET 0x20)
       OR (push_bit L1_CLKCNTRL_0_L1_DMA_CLKGATE_EN_OFFSET 1) OR (push_bit L1_CLKCNTRL_0_L1_CACHE_CLKGATE_EN_OFFSET 1) OR (push_bit
       L1_CLKCNTRL_0_L1_CPSLV_CLKGATE_EN_OFFSET 1) OR (push_bit L1_CLKCNTRL_0_L1_PERF_CLKGATE_EN_OFFSET 1) OR (push_bit
       L1_CLKCNTRL_0_L1_MEMORY_CLKGATE_EN_OFFSET 1) OR (push_bit L1_CLKCNTRL_0_L1_REG_CLKGATE_EN_OFFSET 1) OR (push_bit
       L1_CLKCNTRL_0_L1_HOSTREQ_CLKGATE_EN_OFFSET 1) OR (push_bit L1_CLKCNTRL_0_L1_DMARSP_CLKGATE_EN_OFFSET 1) OR (push_bit
       L1_CLKCNTRL_0_L1_HOSTRSP_CLKGATE_EN_OFFSET 1) OR (push_bit L1_CLKCNTRL_0_L1_SION_PERF_CLKGATE_EN_OFFSET 1) OR (push_bit
       L1_CLKCNTRL_0_L1_L2_CLKGATE_EN_OFFSET 1)),
     SMN_ENTRY_PROPERTY_RMW PROPERTY_IOMMU_L1CLKGATING_DISABLED SMN_PCIE1_IOHUB0NBIO0_L1_CLKCNTRL_0_ADDRESS (L1_CLKCNTRL_0_L1_DMA_CLKGATE_EN_MASK OR
       L1_CLKCNTRL_0_L1_CACHE_CLKGATE_EN_MASK OR L1_CLKCNTRL_0_L1_CPSLV_CLKGATE_EN_MASK OR L1_CLKCNTRL_0_L1_PERF_CLKGATE_EN_MASK OR
       L1_CLKCNTRL_0_L1_MEMORY_CLKGATE_EN_MASK OR L1_CLKCNTRL_0_L1_REG_CLKGATE_EN_MASK OR L1_CLKCNTRL_0_L1_HOSTREQ_CLKGATE_EN_MASK OR
       L1_CLKCNTRL_0_L1_DMARSP_CLKGATE_EN_MASK OR L1_CLKCNTRL_0_L1_HOSTRSP_CLKGATE_EN_MASK OR L1_CLKCNTRL_0_L1_SION_PERF_CLKGATE_EN_MASK OR
       L1_CLKCNTRL_0_L1_L2_CLKGATE_EN_MASK) ((push_bit L1_CLKCNTRL_0_L1_DMA_CLKGATE_EN_OFFSET 0) OR (push_bit
       L1_CLKCNTRL_0_L1_CACHE_CLKGATE_EN_OFFSET 0) OR (push_bit L1_CLKCNTRL_0_L1_CPSLV_CLKGATE_EN_OFFSET 0) OR (push_bit
       L1_CLKCNTRL_0_L1_PERF_CLKGATE_EN_OFFSET 0) OR (push_bit L1_CLKCNTRL_0_L1_MEMORY_CLKGATE_EN_OFFSET 0) OR (push_bit
       L1_CLKCNTRL_0_L1_REG_CLKGATE_EN_OFFSET 0) OR (push_bit L1_CLKCNTRL_0_L1_HOSTREQ_CLKGATE_EN_OFFSET 0) OR (push_bit
       L1_CLKCNTRL_0_L1_DMARSP_CLKGATE_EN_OFFSET 0) OR (push_bit L1_CLKCNTRL_0_L1_HOSTRSP_CLKGATE_EN_OFFSET 0) OR (push_bit
       L1_CLKCNTRL_0_L1_SION_PERF_CLKGATE_EN_OFFSET 0) OR (push_bit L1_CLKCNTRL_0_L1_L2_CLKGATE_EN_OFFSET 0))]"

definition NBIO_IOMMU_CLOCK_GATING_TBL :: "smn_entry list" where
  "NBIO_IOMMU_CLOCK_GATING_TBL = NBIO_IOMMU_CLOCK_GATING_TBL_1 @ NBIO_IOMMU_CLOCK_GATING_TBL_2"

definition NBIO_IOMMU_SMI_FILTERING_TBL :: "smn_entry list" where
  "NBIO_IOMMU_SMI_FILTERING_TBL =
    [SMN_ENTRY_PROPERTY_RMW PROPERTY_IOMMU_DISABLED SMN_IOHUB0NBIO0_CFG_IOHC_PCI_ADDRESS SIL_RESERVED_53 0]"

section \<open>nBIF (\<^verbatim>\<open>NbioNbifTbl.h\<close>)\<close>

definition NBIO_NBIF_DEVICE_CFG_TBL :: "smn_entry list" where
  "NBIO_NBIF_DEVICE_CFG_TBL =
    [SMN_ENTRY_RMW SIL_RESERVED2_1408 SIL_RESERVED2_1239 (push_bit SIL_RESERVED2_1240 7),
     SMN_ENTRY_RMW SIL_RESERVED2_1408 SIL_RESERVED2_1241 (push_bit SIL_RESERVED2_1242 1),
     SMN_ENTRY_RMW SIL_RESERVED2_1413 SIL_RESERVED2_1239 (push_bit SIL_RESERVED2_1240 7),
     SMN_ENTRY_RMW SIL_RESERVED2_1413 SIL_RESERVED2_1241 (push_bit SIL_RESERVED2_1242 1)]"

definition NBIO_NBIF_DEVICE_TBL :: "smn_entry list" where
  "NBIO_NBIF_DEVICE_TBL =
    [SMN_ENTRY_RMW SIL_RESERVED2_1327 SIL_RESERVED2_1104 (push_bit SIL_RESERVED2_1105 1),
     SMN_ENTRY_RMW SIL_RESERVED2_1330 SIL_RESERVED2_1118 (push_bit SIL_RESERVED2_1119 1),
     SMN_ENTRY_RMW SIL_RESERVED2_1339 SIL_RESERVED2_1159 (push_bit SIL_RESERVED2_1161 0),
     SMN_ENTRY_RMW SIL_RESERVED3_1472 SIL_RESERVED2_1177 (push_bit SIL_RESERVED2_1178 0),
     SMN_ENTRY_RMW SIL_RESERVED2_1348 SIL_RESERVED2_1191 (push_bit SIL_RESERVED2_1193 1),
     SMN_ENTRY_RMW SIL_RESERVED3_1476 SIL_RESERVED2_1197 (push_bit SIL_RESERVED2_1198 0),
     SMN_ENTRY_RMW SIL_RESERVED2_1352 SIL_RESERVED2_1201 (push_bit SIL_RESERVED2_1202 0),
     SMN_ENTRY_RMW SIL_RESERVED2_1380 SIL_RESERVED2_1104 (push_bit SIL_RESERVED2_1105 1),
     SMN_ENTRY_RMW SIL_RESERVED3_1469 SIL_RESERVED2_1118 (push_bit SIL_RESERVED2_1119 1),
     SMN_ENTRY_RMW SIL_RESERVED2_1391 SIL_RESERVED2_1159 (push_bit SIL_RESERVED2_1161 0),
     SMN_ENTRY_RMW SIL_RESERVED2_1397 SIL_RESERVED2_1177 (push_bit SIL_RESERVED2_1178 0),
     SMN_ENTRY_RMW SIL_RESERVED2_1400 SIL_RESERVED3_1474 (push_bit SIL_RESERVED3_1473 0),
     SMN_ENTRY_RMW SIL_RESERVED2_1425 SIL_RESERVED2_1104 (push_bit SIL_RESERVED2_1105 0),
     SMN_ENTRY_RMW SIL_RESERVED2_1427 SIL_RESERVED2_1118 (push_bit SIL_RESERVED2_1119 0),
     SMN_ENTRY_RMW SIL_RESERVED2_1433 SIL_RESERVED2_1159 (push_bit SIL_RESERVED2_1161 0)]"

definition NBIO_NBIF_DEVICE_INTERRUPT_TBL :: "smn_entry list" where
  "NBIO_NBIF_DEVICE_INTERRUPT_TBL =
    [SMN_ENTRY_WR SIL_RESERVED2_1318 ((push_bit SIL_RESERVED2_1002 0x33) OR (push_bit SIL_RESERVED2_1004 3)),
     SMN_ENTRY_WR SIL_RESERVED2_1372 (push_bit SIL_RESERVED2_1002 3)]"

definition NBIO_NBIF_FLR_TBL :: "smn_entry list" where
  "NBIO_NBIF_FLR_TBL =
    [SMN_ENTRY_RMW SIL_RESERVED3_1468 SIL_RESERVED2_1116 (push_bit SIL_RESERVED2_1117 1),
     SMN_ENTRY_RMW SIL_RESERVED2_1336 SIL_RESERVED3_1470 (push_bit SIL_RESERVED2_1148 1),
     SMN_ENTRY_RMW SIL_RESERVED2_1342 SIL_RESERVED2_1167 (push_bit SIL_RESERVED3_1471 1),
     SMN_ENTRY_RMW SIL_RESERVED2_1345 SIL_RESERVED2_1179 (push_bit SIL_RESERVED2_1180 1),
     SMN_ENTRY_RMW SIL_RESERVED2_1347 SIL_RESERVED2_1185 (push_bit SIL_RESERVED2_1186 1),
     SMN_ENTRY_RMW SIL_RESERVED2_1350 SIL_RESERVED2_1195 (push_bit SIL_RESERVED2_1196 1),
     SMN_ENTRY_RMW SIL_RESERVED2_1351 SIL_RESERVED2_1199 (push_bit SIL_RESERVED2_1200 1),
     SMN_ENTRY_RMW SIL_RESERVED2_1382 SIL_RESERVED2_1116 (push_bit SIL_RESERVED2_1117 1),
     SMN_ENTRY_RMW SIL_RESERVED2_1388 SIL_RESERVED3_1470 (push_bit SIL_RESERVED2_1148 1),
     SMN_ENTRY_RMW SIL_RESERVED2_1394 SIL_RESERVED2_1167 (push_bit SIL_RESERVED3_1471 1),
     SMN_ENTRY_RMW SIL_RESERVED2_1398 SIL_RESERVED2_1179 (push_bit SIL_RESERVED2_1180 1),
     SMN_ENTRY_RMW SIL_RESERVED2_1401 SIL_RESERVED2_1185 (push_bit SIL_RESERVED2_1186 1),
     SMN_ENTRY_RMW SIL_RESERVED2_1409 SIL_RESERVED2_1243 (push_bit SIL_RESERVED2_1244 1),
     SMN_ENTRY_RMW SIL_RESERVED2_1414 SIL_RESERVED2_1243 (push_bit SIL_RESERVED2_1244 1),
     SMN_ENTRY_RMW SIL_RESERVED2_1426 SIL_RESERVED2_1243 (push_bit SIL_RESERVED2_1244 1),
     SMN_ENTRY_RMW SIL_RESERVED2_1431 SIL_RESERVED2_1243 (push_bit SIL_RESERVED2_1244 1),
     SMN_ENTRY_RMW SIL_RESERVED2_1435 SIL_RESERVED2_1243 (push_bit SIL_RESERVED2_1244 1)]"

definition NBIO_NBIF_DMA_ARBITRATION_TBL :: "smn_entry list" where
  "NBIO_NBIF_DMA_ARBITRATION_TBL =
    [SMN_ENTRY_RMW SIL_RESERVED3_1463 (SIL_RESERVED2_938 OR SIL_RESERVED2_940 OR SIL_RESERVED2_942 OR SIL_RESERVED2_944) ((push_bit SIL_RESERVED2_939
       4) OR (push_bit SIL_RESERVED2_941 4) OR (push_bit SIL_RESERVED2_943 4) OR (push_bit SIL_RESERVED2_945 4)),
     SMN_ENTRY_RMW SIL_RESERVED2_1316 (SIL_RESERVED3_1464 OR SIL_RESERVED2_947 OR SIL_RESERVED2_948 OR SIL_RESERVED2_950) ((push_bit
       SIL_RESERVED2_946 4) OR (push_bit SIL_RESERVED3_1465 4) OR (push_bit SIL_RESERVED2_949 4) OR (push_bit SIL_RESERVED2_951 4)),
     SMN_ENTRY_RMW SIL_RESERVED2_1370 (SIL_RESERVED2_938 OR SIL_RESERVED2_940 OR SIL_RESERVED2_942 OR SIL_RESERVED2_944) ((push_bit SIL_RESERVED2_939
       4) OR (push_bit SIL_RESERVED2_941 4) OR (push_bit SIL_RESERVED2_943 4) OR (push_bit SIL_RESERVED2_945 4)),
     SMN_ENTRY_RMW SIL_RESERVED2_1371 (SIL_RESERVED3_1464 OR SIL_RESERVED2_947 OR SIL_RESERVED2_948 OR SIL_RESERVED2_950) ((push_bit
       SIL_RESERVED2_946 4) OR (push_bit SIL_RESERVED3_1465 4) OR (push_bit SIL_RESERVED2_949 4) OR (push_bit SIL_RESERVED2_951 4)),
     SMN_ENTRY_RMW SIL_RESERVED2_1420 (SIL_RESERVED2_938 OR SIL_RESERVED2_940 OR SIL_RESERVED2_942 OR SIL_RESERVED2_944) ((push_bit SIL_RESERVED2_939
       4) OR (push_bit SIL_RESERVED2_941 4) OR (push_bit SIL_RESERVED2_943 4) OR (push_bit SIL_RESERVED2_945 4)),
     SMN_ENTRY_RMW SIL_RESERVED3_1466 (SIL_RESERVED3_1464 OR SIL_RESERVED2_947 OR SIL_RESERVED2_948 OR SIL_RESERVED2_950) ((push_bit
       SIL_RESERVED2_946 4) OR (push_bit SIL_RESERVED3_1465 4) OR (push_bit SIL_RESERVED2_949 4) OR (push_bit SIL_RESERVED2_951 4))]"

definition NBIO_NBIF_SYSHUB_WRT_PERF_ENH_TBL :: "smn_entry list" where
  "NBIO_NBIF_SYSHUB_WRT_PERF_ENH_TBL =
    [SMN_ENTRY_RMW SIL_RESERVED2_1362 (SIL_RESERVED2_1449 OR SIL_RESERVED2_1451) ((push_bit SIL_RESERVED2_1450 1) OR (push_bit SIL_RESERVED2_1452 1))]"

definition NBIO_NBIF_CLOCK_GATING_TBL_1 :: "smn_entry list" where
  "NBIO_NBIF_CLOCK_GATING_TBL_1 =
    [SMN_ENTRY_PROPERTY_RMW PROPERTY_NBIF_MGCG_CLKGATING_ENABLED SIL_RESERVED2_1322 SIL_RESERVED2_1062 (push_bit SIL_RESERVED2_1063 1),
     SMN_ENTRY_PROPERTY_RMW PROPERTY_NBIF_MGCG_CLKGATING_ENABLED SIL_RESERVED2_1375 SIL_RESERVED2_1062 (push_bit SIL_RESERVED2_1063 1),
     SMN_ENTRY_PROPERTY_RMW PROPERTY_NBIF_MGCG_CLKGATING_ENABLED SIL_RESERVED2_1422 SIL_RESERVED2_1062 (push_bit SIL_RESERVED2_1063 1),
     SMN_ENTRY_PROPERTY_RMW PROPERTY_NBIF_MGCG_CLKGATING_ENABLED SIL_RESERVED2_1448 SIL_RESERVED2_1087 (push_bit SIL_RESERVED2_1088 1),
     SMN_ENTRY_PROPERTY_RMW PROPERTY_NBIF_MGCG_CLKGATING_ENABLED SIL_RESERVED2_1448 SIL_RESERVED2_1085 (push_bit SIL_RESERVED2_1086 1),
     SMN_ENTRY_PROPERTY_RMW PROPERTY_NBIF_MGCG_CLKGATING_ENABLED SIL_RESERVED2_1448 SIL_RESERVED2_1090 (push_bit SIL_RESERVED2_1091 1),
     SMN_ENTRY_PROPERTY_RMW PROPERTY_NBIF_MGCG_CLKGATING_ENABLED SIL_RESERVED2_1448 NTB_SMU_SDPPORTEN_SEC_CMPEN_MASK (push_bit SIL_RESERVED2_1089 1),
     SMN_ENTRY_PROPERTY_RMW PROPERTY_NBIF_MGCG_CLKGATING_ENABLED SIL_RESERVED2_1423 SIL_RESERVED2_1074 (push_bit SIL_RESERVED2_1075 0),
     SMN_ENTRY_PROPERTY_RMW PROPERTY_NBIF_MGCG_CLKGATING_DISABLED SIL_RESERVED2_1322 SIL_RESERVED2_1062 (push_bit SIL_RESERVED2_1063 0),
     SMN_ENTRY_PROPERTY_RMW PROPERTY_NBIF_MGCG_CLKGATING_DISABLED SIL_RESERVED2_1375 SIL_RESERVED2_1062 (push_bit SIL_RESERVED2_1063 0),
     SMN_ENTRY_PROPERTY_RMW PROPERTY_NBIF_MGCG_CLKGATING_DISABLED SIL_RESERVED2_1422 SIL_RESERVED2_1062 (push_bit SIL_RESERVED2_1063 0),
     SMN_ENTRY_RMW SIL_RESERVED3_1542 (SIL_RESERVED2_1257 OR SIL_RESERVED2_1259 OR SIL_RESERVED2_1260 OR SIL_RESERVED2_1262 OR SIL_RESERVED2_1264 OR
       SIL_RESERVED2_1266 OR SIL_RESERVED2_1268 OR SIL_RESERVED3_1539 OR SIL_RESERVED2_1271 OR SIL_RESERVED2_1273 OR SIL_RESERVED2_1275 OR
       SIL_RESERVED2_1277 OR SIL_RESERVED2_1279 OR SIL_RESERVED3_1540 OR SIL_RESERVED2_1282 OR SIL_RESERVED2_1284 OR SIL_RESERVED2_1286 OR
       SIL_RESERVED3_1541 OR SIL_RESERVED2_1289 OR SIL_RESERVED2_1291) ((push_bit SIL_RESERVED2_1258 0) OR (push_bit SIL_RESERVED3_1538 0) OR
       (push_bit SIL_RESERVED2_1261 0) OR (push_bit SIL_RESERVED2_1263 0) OR (push_bit SIL_RESERVED2_1265 0) OR (push_bit SIL_RESERVED2_1267 0) OR
       (push_bit SIL_RESERVED2_1269 0) OR (push_bit SIL_RESERVED2_1270 0) OR (push_bit SIL_RESERVED2_1272 0) OR (push_bit SIL_RESERVED2_1274 0) OR
       (push_bit SIL_RESERVED2_1276 0) OR (push_bit SIL_RESERVED2_1278 0) OR (push_bit SIL_RESERVED2_1280 0) OR (push_bit SIL_RESERVED2_1281 0) OR
       (push_bit SIL_RESERVED2_1283 0) OR (push_bit SIL_RESERVED2_1285 0) OR (push_bit SIL_RESERVED2_1287 0) OR (push_bit SIL_RESERVED2_1288 0) OR
       (push_bit SIL_RESERVED2_1290 0) OR (push_bit SIL_RESERVED2_1292 0))]"

definition NBIO_NBIF_CLOCK_GATING_TBL_2 :: "smn_entry list" where
  "NBIO_NBIF_CLOCK_GATING_TBL_2 =
    [SMN_ENTRY_RMW SIL_RESERVED2_1416 (SIL_RESERVED2_1257 OR SIL_RESERVED2_1259 OR SIL_RESERVED2_1260 OR SIL_RESERVED2_1262 OR SIL_RESERVED2_1264 OR
       SIL_RESERVED2_1266 OR SIL_RESERVED2_1268 OR SIL_RESERVED3_1539 OR SIL_RESERVED2_1271 OR SIL_RESERVED2_1273 OR SIL_RESERVED2_1275 OR
       SIL_RESERVED2_1277 OR SIL_RESERVED2_1279 OR SIL_RESERVED3_1540 OR SIL_RESERVED2_1282 OR SIL_RESERVED2_1284 OR SIL_RESERVED2_1286 OR
       SIL_RESERVED3_1541 OR SIL_RESERVED2_1289 OR SIL_RESERVED2_1291) ((push_bit SIL_RESERVED2_1258 0) OR (push_bit SIL_RESERVED3_1538 0) OR
       (push_bit SIL_RESERVED2_1261 0) OR (push_bit SIL_RESERVED2_1263 0) OR (push_bit SIL_RESERVED2_1265 0) OR (push_bit SIL_RESERVED2_1267 0) OR
       (push_bit SIL_RESERVED2_1269 0) OR (push_bit SIL_RESERVED2_1270 0) OR (push_bit SIL_RESERVED2_1272 0) OR (push_bit SIL_RESERVED2_1274 0) OR
       (push_bit SIL_RESERVED2_1276 0) OR (push_bit SIL_RESERVED2_1278 0) OR (push_bit SIL_RESERVED2_1280 0) OR (push_bit SIL_RESERVED2_1281 0) OR
       (push_bit SIL_RESERVED2_1283 0) OR (push_bit SIL_RESERVED2_1285 0) OR (push_bit SIL_RESERVED2_1287 0) OR (push_bit SIL_RESERVED2_1288 0) OR
       (push_bit SIL_RESERVED2_1290 0) OR (push_bit SIL_RESERVED2_1292 0)),
     SMN_ENTRY_PROPERTY_RMW PROPERTY_SYSHUB_MGCG_CLKGATING_ENABLED SIL_RESERVED2_1324 SIL_RESERVED2_1080 (push_bit SIL_RESERVED2_1081 1),
     SMN_ENTRY_PROPERTY_RMW PROPERTY_SYSHUB_MGCG_CLKGATING_ENABLED SIL_RESERVED2_1377 SIL_RESERVED2_1080 (push_bit SIL_RESERVED2_1081 1),
     SMN_ENTRY_PROPERTY_RMW PROPERTY_SYSHUB_MGCG_CLKGATING_ENABLED SIL_RESERVED2_1365 SYSHUB_MGCG_CTRL_SHUBCLK_SYSHUB_MGCG_EN_SHUBCLK_MASK (push_bit
       SIL_RESERVED2_1456 1),
     SMN_ENTRY_PROPERTY_RMW PROPERTY_SYSHUB_MGCG_CLKGATING_DISABLED SIL_RESERVED2_1324 SIL_RESERVED2_1080 (push_bit SIL_RESERVED2_1081 0),
     SMN_ENTRY_PROPERTY_RMW PROPERTY_SYSHUB_MGCG_CLKGATING_DISABLED SIL_RESERVED2_1377 SIL_RESERVED2_1080 (push_bit SIL_RESERVED2_1081 0),
     SMN_ENTRY_PROPERTY_RMW PROPERTY_SYSHUB_MGCG_CLKGATING_DISABLED SIL_RESERVED2_1365 SYSHUB_MGCG_CTRL_SHUBCLK_SYSHUB_MGCG_EN_SHUBCLK_MASK (push_bit
       SIL_RESERVED2_1456 0)]"

definition NBIO_NBIF_CLOCK_GATING_TBL :: "smn_entry list" where
  "NBIO_NBIF_CLOCK_GATING_TBL = NBIO_NBIF_CLOCK_GATING_TBL_1 @ NBIO_NBIF_CLOCK_GATING_TBL_2"

definition NBIO_Non_VC1_WRITE_TBL :: "smn_entry list" where
  "NBIO_Non_VC1_WRITE_TBL =
    [SMN_ENTRY_RMW SIL_RESERVED2_1312 A2S_CNTL_SW0_SDP_WR_CHAIN_DIS_MASK (push_bit A2S_CNTL_SW0_SDP_WR_CHAIN_DIS_OFFSET 0),
     SMN_ENTRY_RMW SIL_RESERVED2_1368 A2S_CNTL_SW0_SDP_WR_CHAIN_DIS_MASK (push_bit A2S_CNTL_SW0_SDP_WR_CHAIN_DIS_OFFSET 0),
     SMN_ENTRY_RMW SIL_RESERVED2_1313 SIL_RESERVED2_931 (push_bit SIL_RESERVED2_932 1),
     SMN_ENTRY_RMW SIL_RESERVED2_1369 SIL_RESERVED2_931 (push_bit SIL_RESERVED2_932 1),
     SMN_ENTRY_RMW SIL_RESERVED2_1314 SIL_RESERVED2_933 (push_bit SIL_RESERVED2_934 0),
     SMN_ENTRY_RMW SIL_RESERVED2_1315 SIL_RESERVED2_935 (push_bit SIL_RESERVED2_936 1)]"

section \<open>Workarounds (\<^verbatim>\<open>NbioWorkaroundTbl.h\<close>)\<close>

definition NBIO_TPH_TBL_1 :: "smn_entry list" where
  "NBIO_TPH_TBL_1 =
    [SMN_ENTRY_PROPERTY_RMW PROPERTY_TPH_COMPLETER_ENABLED SIL_RESERVED2_1337 (SIL_RESERVED2_1151 OR SIL_RESERVED2_1149) ((push_bit
       SIL_RESERVED2_1153 1) OR (push_bit SIL_RESERVED2_1150 1)),
     SMN_ENTRY_PROPERTY_RMW PROPERTY_TPH_COMPLETER_ENABLED SIL_RESERVED2_1389 (SIL_RESERVED2_1151 OR SIL_RESERVED2_1149) ((push_bit
       SIL_RESERVED2_1153 1) OR (push_bit SIL_RESERVED2_1150 1)),
     SMN_ENTRY_PROPERTY_RMW PROPERTY_TPH_COMPLETER_ENABLED SIL_RESERVED2_1432 (SIL_RESERVED2_1151 OR SIL_RESERVED2_1149) ((push_bit
       SIL_RESERVED2_1153 1) OR (push_bit SIL_RESERVED2_1150 1)),
     SMN_ENTRY_PROPERTY_RMW PROPERTY_TPH_COMPLETER_ENABLED SIL_RESERVED2_1343 (SIL_RESERVED2_1170 OR SIL_RESERVED2_1168) ((push_bit
       SIL_RESERVED2_1171 1) OR (push_bit SIL_RESERVED2_1169 1)),
     SMN_ENTRY_PROPERTY_RMW PROPERTY_TPH_COMPLETER_ENABLED SIL_RESERVED2_1395 (SIL_RESERVED2_1170 OR SIL_RESERVED2_1168) ((push_bit
       SIL_RESERVED2_1171 1) OR (push_bit SIL_RESERVED2_1169 1)),
     SMN_ENTRY_PROPERTY_RMW PROPERTY_TPH_COMPLETER_ENABLED SIL_RESERVED2_1436 (SIL_RESERVED2_1170 OR SIL_RESERVED2_1168) ((push_bit
       SIL_RESERVED2_1171 1) OR (push_bit SIL_RESERVED2_1169 1)),
     SMN_ENTRY_PROPERTY_RMW PROPERTY_TPH_COMPLETER_ENABLED SIL_RESERVED2_1346 (SIL_RESERVED2_1183 OR SIL_RESERVED2_1181) ((push_bit
       SIL_RESERVED2_1184 1) OR (push_bit SIL_RESERVED2_1182 1)),
     SMN_ENTRY_PROPERTY_RMW PROPERTY_TPH_COMPLETER_ENABLED SIL_RESERVED2_1399 (SIL_RESERVED2_1183 OR SIL_RESERVED2_1181) ((push_bit
       SIL_RESERVED2_1184 1) OR (push_bit SIL_RESERVED2_1182 1)),
     SMN_ENTRY_PROPERTY_RMW PROPERTY_TPH_COMPLETER_ENABLED SIL_RESERVED2_1438 (SIL_RESERVED2_1183 OR SIL_RESERVED2_1181) ((push_bit
       SIL_RESERVED2_1184 1) OR (push_bit SIL_RESERVED2_1182 1)),
     SMN_ENTRY_PROPERTY_RMW PROPERTY_TPH_COMPLETER_ENABLED SIL_RESERVED3_1475 (SIL_RESERVED2_1189 OR SIL_RESERVED2_1187) ((push_bit
       SIL_RESERVED2_1190 1) OR (push_bit SIL_RESERVED2_1188 1)),
     SMN_ENTRY_PROPERTY_RMW PROPERTY_TPH_COMPLETER_ENABLED SIL_RESERVED2_1402 (SIL_RESERVED2_1189 OR SIL_RESERVED2_1187) ((push_bit
       SIL_RESERVED2_1190 1) OR (push_bit SIL_RESERVED2_1188 1)),
     SMN_ENTRY_PROPERTY_RMW PROPERTY_TPH_COMPLETER_ENABLED SIL_RESERVED2_1439 (SIL_RESERVED2_1189 OR SIL_RESERVED2_1187) ((push_bit
       SIL_RESERVED2_1190 1) OR (push_bit SIL_RESERVED2_1188 1)),
     SMN_ENTRY_PROPERTY_RMW PROPERTY_TPH_COMPLETER_ENABLED SIL_RESERVED2_1357 SIL_RESERVED2_1232 (push_bit SIL_RESERVED3_1478 1),
     SMN_ENTRY_PROPERTY_RMW PROPERTY_TPH_COMPLETER_ENABLED SIL_RESERVED2_1407 SIL_RESERVED2_1232 (push_bit SIL_RESERVED3_1478 1),
     SMN_ENTRY_PROPERTY_RMW PROPERTY_TPH_COMPLETER_ENABLED SIL_RESERVED2_1441 SIL_RESERVED2_1232 (push_bit SIL_RESERVED3_1478 1),
     SMN_ENTRY_PROPERTY_RMW PROPERTY_TPH_COMPLETER_ENABLED SIL_RESERVED3_1481 (SIL_RESERVED3_1480 OR SIL_RESERVED2_1245) ((push_bit
       SIL_RESERVED2_1246 1) OR (push_bit SIL_RESERVED3_1479 1)),
     SMN_ENTRY_PROPERTY_RMW PROPERTY_TPH_COMPLETER_ENABLED SIL_RESERVED2_1410 (SIL_RESERVED3_1480 OR SIL_RESERVED2_1245) ((push_bit
       SIL_RESERVED2_1246 1) OR (push_bit SIL_RESERVED3_1479 1)),
     SMN_ENTRY_PROPERTY_RMW PROPERTY_TPH_COMPLETER_ENABLED SIL_RESERVED2_1443 (SIL_RESERVED3_1480 OR SIL_RESERVED2_1245) ((push_bit
       SIL_RESERVED2_1246 1) OR (push_bit SIL_RESERVED3_1479 1)),
     SMN_ENTRY_PROPERTY_RMW PROPERTY_TPH_COMPLETER_ENABLED SIL_RESERVED2_1359 SIL_RESERVED2_1249 (push_bit SIL_RESERVED2_1250 1)]"

definition NBIO_TPH_TBL_2 :: "smn_entry list" where
  "NBIO_TPH_TBL_2 =
    [SMN_ENTRY_PROPERTY_RMW PROPERTY_TPH_COMPLETER_ENABLED SIL_RESERVED2_1412 SIL_RESERVED2_1249 (push_bit SIL_RESERVED2_1250 1),
     SMN_ENTRY_PROPERTY_RMW PROPERTY_TPH_COMPLETER_ENABLED SIL_RESERVED2_1445 SIL_RESERVED2_1249 (push_bit SIL_RESERVED2_1250 1)]"

definition NBIO_TPH_TBL :: "smn_entry list" where
  "NBIO_TPH_TBL = NBIO_TPH_TBL_1 @ NBIO_TPH_TBL_2"

definition NBIO_LCLK_DS_IDLE_TBL :: "smn_entry list" where
  "NBIO_LCLK_DS_IDLE_TBL =
    [SMN_ENTRY_RMW SIL_RESERVED2_1320 SIL_RESERVED2_1031 (push_bit SIL_RESERVED2_1032 1),
     SMN_ENTRY_RMW SIL_RESERVED2_1374 SIL_RESERVED2_1031 (push_bit SIL_RESERVED2_1032 1),
     SMN_ENTRY_RMW SIL_RESERVED2_1421 SIL_RESERVED2_1031 (push_bit SIL_RESERVED2_1032 1),
     SMN_ENTRY_RMW SIL_RESERVED2_1448 SIL_RESERVED2_1087 (push_bit SIL_RESERVED2_1088 1),
     SMN_ENTRY_RMW SIL_RESERVED2_1448 SIL_RESERVED2_1085 (push_bit SIL_RESERVED2_1086 1),
     SMN_ENTRY_RMW SIL_RESERVED2_1448 SIL_RESERVED2_1090 (push_bit SIL_RESERVED2_1091 1),
     SMN_ENTRY_RMW SIL_RESERVED2_1448 NTB_SMU_SDPPORTEN_SEC_CMPEN_MASK (push_bit SIL_RESERVED2_1089 1),
     SMN_ENTRY_RMW SIL_RESERVED2_1423 SIL_RESERVED2_1074 (push_bit SIL_RESERVED2_1075 0)]"

definition NBIO_ENABLE_SOCCLK_SHUBCLK_DS_TBL :: "smn_entry list" where
  "NBIO_ENABLE_SOCCLK_SHUBCLK_DS_TBL =
    [SMN_ENTRY_RMW SIL_RESERVED2_1364 SIL_RESERVED2_1454 (push_bit SIL_RESERVED2_1455 1),
     SMN_ENTRY_RMW SIL_RESERVED2_1417 SIL_RESERVED2_1454 (push_bit SIL_RESERVED2_1455 1),
     SMN_ENTRY_RMW SIL_RESERVED2_1363 SIL_RESERVED2_1453 (push_bit SYSHUB_DS_CTRL_SHUBCLK_SYSHUB_SHUBCLK_DS_EN_OFFSET 1)]"

definition NBIO_ENABLE_COMPLETION_TIMEOUT_TBL :: "smn_entry list" where
  "NBIO_ENABLE_COMPLETION_TIMEOUT_TBL =
    [SMN_ENTRY_RMW SIL_RESERVED2_1355 SIL_RESERVED3_1477 (push_bit SIL_RESERVED2_1215 1),
     SMN_ENTRY_RMW SIL_RESERVED2_1405 SIL_RESERVED3_1477 (push_bit SIL_RESERVED2_1215 1),
     SMN_ENTRY_RMW SIL_RESERVED2_1440 SIL_RESERVED3_1477 (push_bit SIL_RESERVED2_1215 1),
     SMN_ENTRY_RMW SIL_RESERVED3_1482 SIL_RESERVED2_1247 (push_bit SIL_RESERVED2_1248 1),
     SMN_ENTRY_RMW SIL_RESERVED2_1411 SIL_RESERVED2_1247 (push_bit SIL_RESERVED2_1248 1),
     SMN_ENTRY_RMW SIL_RESERVED2_1444 SIL_RESERVED2_1247 (push_bit SIL_RESERVED2_1248 1),
     SMN_ENTRY_RMW SIL_RESERVED2_1361 SIL_RESERVED2_1247 (push_bit SIL_RESERVED2_1248 1),
     SMN_ENTRY_RMW SIL_RESERVED2_1415 SIL_RESERVED2_1247 (push_bit SIL_RESERVED2_1248 1),
     SMN_ENTRY_RMW SIL_RESERVED2_1446 SIL_RESERVED2_1247 (push_bit SIL_RESERVED2_1248 1)]"

definition NBIF_DEVICE_ID_DEV_TBL :: "smn_entry list" where
  "NBIF_DEVICE_ID_DEV_TBL =
    [SMN_ENTRY_RMW SIL_RESERVED2_1327 SIL_RESERVED2_1102 (push_bit SIL_RESERVED2_1103 0x14DC),
     SMN_ENTRY_RMW SIL_RESERVED2_1380 SIL_RESERVED2_1102 (push_bit SIL_RESERVED2_1103 0x14DC),
     SMN_ENTRY_RMW SIL_RESERVED2_1425 SIL_RESERVED2_1102 (push_bit SIL_RESERVED2_1103 0x14DC),
     SMN_ENTRY_RMW SIL_RESERVED2_1367 SIL_RESERVED2_1102 (push_bit SIL_RESERVED2_1103 0x14DC),
     SMN_ENTRY_RMW SIL_RESERVED2_1419 SIL_RESERVED2_1102 (push_bit SIL_RESERVED2_1103 0x14DC),
     SMN_ENTRY_RMW SIL_RESERVED2_1447 SIL_RESERVED2_1102 (push_bit SIL_RESERVED2_1103 0x14DC)]"

section \<open>Initial values (\<^verbatim>\<open>NbioDefaults.h\<close>)\<close>

definition NBIO_PPR_INIT_VALUES_TBL_1 :: "smn_entry list" where
  "NBIO_PPR_INIT_VALUES_TBL_1 =
    [SMN_ENTRY_RMW SIL_RESERVED_728 SIL_RESERVED_77 (push_bit SIL_RESERVED_78 0),
     SMN_ENTRY_RMW SIL_RESERVED_728 SIL_RESERVED_76 (push_bit IOAGR_GLUE_CG_LCLK_CTRL_0_SOFT_OVERRIDE_CLK8_OFFSET 0),
     SMN_ENTRY_RMW SIL_RESERVED_728 SIL_RESERVED_74 (push_bit SIL_RESERVED_75 0),
     SMN_ENTRY_RMW SIL_RESERVED_728 SIL_RESERVED_72 (push_bit SIL_RESERVED_73 0),
     SMN_ENTRY_RMW SIL_RESERVED_728 SIL_RESERVED_70 (push_bit SIL_RESERVED_71 0),
     SMN_ENTRY_RMW SIL_RESERVED_728 SIL_RESERVED_68 (push_bit SIL_RESERVED_69 0),
     SMN_ENTRY_RMW SIL_RESERVED_728 SIL_RESERVED_66 (push_bit SIL_RESERVED_67 0),
     SMN_ENTRY_RMW SIL_RESERVED_728 IOAGR_GLUE_CG_LCLK_CTRL_0_SOFT_OVERRIDE_CLK2_MASK (push_bit SIL_RESERVED_65 0),
     SMN_ENTRY_RMW SIL_RESERVED_728 IOAGR_GLUE_CG_LCLK_CTRL_0_SOFT_OVERRIDE_CLK1_MASK (push_bit SIL_RESERVED_64 0),
     SMN_ENTRY_RMW SIL_RESERVED_728 SIL_RESERVED_62 (push_bit SIL_RESERVED_63 0),
     SMN_ENTRY_RMW SIL_RESERVED_729 IOAGR_GLUE_CG_LCLK_CTRL_1_SOFT_OVERRIDE_CLK9_MASK (push_bit SIL_RESERVED_93 0),
     SMN_ENTRY_RMW SIL_RESERVED_729 SIL_RESERVED_91 (push_bit SIL_RESERVED_92 0),
     SMN_ENTRY_RMW SIL_RESERVED_729 IOAGR_GLUE_CG_LCLK_CTRL_1_SOFT_OVERRIDE_CLK7_MASK (push_bit SIL_RESERVED_90 0),
     SMN_ENTRY_RMW SIL_RESERVED_729 SIL_RESERVED_88 (push_bit SIL_RESERVED_89 0),
     SMN_ENTRY_RMW SIL_RESERVED_729 IOAGR_GLUE_CG_LCLK_CTRL_1_SOFT_OVERRIDE_CLK5_MASK (push_bit SIL_RESERVED_87 0),
     SMN_ENTRY_RMW SIL_RESERVED_729 SIL_RESERVED_85 (push_bit SIL_RESERVED_86 0),
     SMN_ENTRY_RMW SIL_RESERVED_729 SIL_RESERVED_83 (push_bit SIL_RESERVED_84 0),
     SMN_ENTRY_RMW SIL_RESERVED_729 SIL_RESERVED_81 (push_bit SIL_RESERVED_82 0),
     SMN_ENTRY_RMW SIL_RESERVED_729 IOAGR_GLUE_CG_LCLK_CTRL_1_SOFT_OVERRIDE_CLK1_MASK (push_bit SIL_RESERVED_80 0),
     SMN_ENTRY_RMW SIL_RESERVED_729 IOAGR_GLUE_CG_LCLK_CTRL_1_SOFT_OVERRIDE_CLK0_MASK (push_bit SIL_RESERVED_79 0),
     SMN_ENTRY_RMW SIL_RESERVED_731 SIL_RESERVED_113 (push_bit SIL_RESERVED_114 0),
     SMN_ENTRY_RMW SIL_RESERVED_731 SIL_RESERVED_111 (push_bit SIL_RESERVED_112 0),
     SMN_ENTRY_RMW SIL_RESERVED_731 SIL_RESERVED_109 (push_bit SIL_RESERVED_110 0),
     SMN_ENTRY_RMW SIL_RESERVED_731 SIL_RESERVED_107 (push_bit SIL_RESERVED_108 0),
     SMN_ENTRY_RMW SIL_RESERVED_731 SIL_RESERVED_105 (push_bit SIL_RESERVED_106 0),
     SMN_ENTRY_RMW SIL_RESERVED_731 SIL_RESERVED_103 (push_bit SIL_RESERVED_104 0),
     SMN_ENTRY_RMW SIL_RESERVED_731 SIL_RESERVED_101 (push_bit SIL_RESERVED_102 0),
     SMN_ENTRY_RMW SIL_RESERVED_731 IOAPIC_GLUE_CG_LCLK_CTRL_0_SOFT_OVERRIDE_CLK2_MASK (push_bit SIL_RESERVED_100 0),
     SMN_ENTRY_RMW SIL_RESERVED_731 SIL_RESERVED_98 (push_bit SIL_RESERVED_99 0)]"

definition NBIO_PPR_INIT_VALUES_TBL_2 :: "smn_entry list" where
  "NBIO_PPR_INIT_VALUES_TBL_2 =
    [SMN_ENTRY_RMW SIL_RESERVED_731 SIL_RESERVED_96 (push_bit SIL_RESERVED_97 0),
     SMN_ENTRY_RMW SIL_RESERVED_732 SIL_RESERVED_154 (push_bit SIL_RESERVED_155 0),
     SMN_ENTRY_RMW SIL_RESERVED_732 SIL_RESERVED_152 (push_bit SIL_RESERVED_153 0),
     SMN_ENTRY_RMW SIL_RESERVED_732 IOHC_GLUE_CG_LCLK_CTRL_0_SOFT_OVERRIDE_CLK7_MASK (push_bit SIL_RESERVED_151 0),
     SMN_ENTRY_RMW SIL_RESERVED_732 SIL_RESERVED_149 (push_bit SIL_RESERVED_150 0),
     SMN_ENTRY_RMW SIL_RESERVED_732 SIL_RESERVED_147 (push_bit SIL_RESERVED_148 0),
     SMN_ENTRY_RMW SIL_RESERVED_732 SIL_RESERVED_145 (push_bit SIL_RESERVED_146 0),
     SMN_ENTRY_RMW SIL_RESERVED_732 SIL_RESERVED_143 (push_bit SIL_RESERVED_144 0),
     SMN_ENTRY_RMW SIL_RESERVED_732 SIL_RESERVED_141 (push_bit SIL_RESERVED_142 0),
     SMN_ENTRY_RMW SIL_RESERVED_732 SIL_RESERVED_139 (push_bit SIL_RESERVED_140 0),
     SMN_ENTRY_RMW SIL_RESERVED_732 SIL_RESERVED_137 (push_bit SIL_RESERVED_138 0),
     SMN_ENTRY_RMW SIL_RESERVED_733 SIL_RESERVED_172 (push_bit IOHC_GLUE_CG_LCLK_CTRL_1_SOFT_OVERRIDE_CLK9_OFFSET 0),
     SMN_ENTRY_RMW SIL_RESERVED_733 SIL_RESERVED_170 (push_bit SIL_RESERVED_171 0),
     SMN_ENTRY_RMW SIL_RESERVED_733 SIL_RESERVED_168 (push_bit SIL_RESERVED_169 0),
     SMN_ENTRY_RMW SIL_RESERVED_733 SIL_RESERVED_166 (push_bit SIL_RESERVED_167 0),
     SMN_ENTRY_RMW SIL_RESERVED_733 SIL_RESERVED_164 (push_bit SIL_RESERVED_165 0),
     SMN_ENTRY_RMW SIL_RESERVED_733 SIL_RESERVED_162 (push_bit SIL_RESERVED_163 0),
     SMN_ENTRY_RMW SIL_RESERVED_733 SIL_RESERVED_160 (push_bit SIL_RESERVED_161 0),
     SMN_ENTRY_RMW SIL_RESERVED_733 SIL_RESERVED_158 (push_bit SIL_RESERVED_159 0),
     SMN_ENTRY_RMW SIL_RESERVED_733 SIL_RESERVED_157 (push_bit SIL_RESERVED_177 0),
     SMN_ENTRY_RMW SIL_RESERVED_733 IOHC_GLUE_CG_LCLK_CTRL_1_SOFT_OVERRIDE_CLK0_MASK (push_bit SIL_RESERVED_156 0),
     SMN_ENTRY_RMW SIL_RESERVED_734 SIL_RESERVED_189 (push_bit SIL_RESERVED_190 0),
     SMN_ENTRY_RMW SIL_RESERVED_734 SIL_RESERVED_187 (push_bit SIL_RESERVED_188 0),
     SMN_ENTRY_RMW SIL_RESERVED_734 IOHC_GLUE_CG_LCLK_CTRL_2_SOFT_OVERRIDE_CLK7_MASK (push_bit SIL_RESERVED_186 0),
     SMN_ENTRY_RMW SIL_RESERVED_734 SIL_RESERVED_185 (push_bit IOHC_GLUE_CG_LCLK_CTRL_2_SOFT_OVERRIDE_CLK6_OFFSET 0),
     SMN_ENTRY_RMW SIL_RESERVED_734 SIL_RESERVED_183 (push_bit SIL_RESERVED_184 0),
     SMN_ENTRY_RMW SIL_RESERVED_734 SIL_RESERVED_181 (push_bit SIL_RESERVED_182 0),
     SMN_ENTRY_RMW SIL_RESERVED_734 SIL_RESERVED_179 (push_bit SIL_RESERVED_180 0),
     SMN_ENTRY_RMW SIL_RESERVED_734 IOHC_GLUE_CG_LCLK_CTRL_2_SOFT_OVERRIDE_CLK2_MASK (push_bit SIL_RESERVED_178 0)]"

definition NBIO_PPR_INIT_VALUES_TBL_3 :: "smn_entry list" where
  "NBIO_PPR_INIT_VALUES_TBL_3 =
    [SMN_ENTRY_RMW SIL_RESERVED_734 SIL_RESERVED_175 (push_bit SIL_RESERVED_176 0),
     SMN_ENTRY_RMW SIL_RESERVED_734 SIL_RESERVED_173 (push_bit SIL_RESERVED_174 0),
     SMN_ENTRY_RMW SMN_IOHUB0NBIO0_IOHC_PCIE_CRS_Count_ADDRESS IOHC_PCIE_CRS_Count_CrsDelayCount_MASK (push_bit
       IOHC_PCIE_CRS_Count_CrsDelayCount_OFFSET 6),
     SMN_ENTRY_RMW SIL_RESERVED_737 SIL_RESERVED_206 (push_bit SIL_RESERVED_208 1),
     SMN_ENTRY_RMW SIL_RESERVED_737 SIL_RESERVED_207 (push_bit SIL_RESERVED_209 0),
     SMN_ENTRY_RMW SIL_RESERVED_737 SIL_RESERVED_210 (push_bit SIL_RESERVED_211 0),
     SMN_ENTRY_RMW SIL_RESERVED_536 SIL_RESERVED_121 (push_bit SIL_RESERVED_122 0),
     SMN_ENTRY_RMW SIL_RESERVED_536 SIL_RESERVED_123 (push_bit SIL_RESERVED_124 0),
     SMN_ENTRY_RMW SIL_RESERVED_536 SIL_RESERVED_125 (push_bit SIL_RESERVED_126 0),
     SMN_ENTRY_RMW SIL_RESERVED_536 SIL_RESERVED_127 (push_bit SIL_RESERVED_128 0),
     SMN_ENTRY_RMW SIL_RESERVED_536 SIL_RESERVED_129 (push_bit SIL_RESERVED_130 0),
     SMN_ENTRY_RMW SIL_RESERVED_536 SIL_RESERVED_131 (push_bit SIL_RESERVED_132 0),
     SMN_ENTRY_RMW SIL_RESERVED_536 SIL_RESERVED_133 (push_bit SIL_RESERVED_134 0),
     SMN_ENTRY_RMW SIL_RESERVED_536 SIL_RESERVED_135 (push_bit SIL_RESERVED_136 0),
     SMN_ENTRY_RMW SIL_RESERVED_740 POISON_ACTION_CONTROL_IntPoisonAPMLErrEn_MASK (push_bit SIL_RESERVED_444 1),
     SMN_ENTRY_RMW SIL_RESERVED_740 SIL_RESERVED_445 (push_bit SIL_RESERVED_446 1),
     SMN_ENTRY_RMW SIL_RESERVED_740 SIL_RESERVED_447 (push_bit SIL_RESERVED_448 1),
     SMN_ENTRY_RMW SMN_IOAGR_IOHUB0NBIO0_L1_CLKCNTRL_0_ADDRESS L1_CLKCNTRL_0_L1_DMA_CLKGATE_EN_MASK (push_bit L1_CLKCNTRL_0_L1_DMA_CLKGATE_EN_OFFSET
       1),
     SMN_ENTRY_RMW SMN_IOAGR_IOHUB0NBIO0_L1_CLKCNTRL_0_ADDRESS L1_CLKCNTRL_0_L1_CACHE_CLKGATE_EN_MASK (push_bit
       L1_CLKCNTRL_0_L1_CACHE_CLKGATE_EN_OFFSET 1),
     SMN_ENTRY_RMW SMN_IOAGR_IOHUB0NBIO0_L1_CLKCNTRL_0_ADDRESS L1_CLKCNTRL_0_L1_CPSLV_CLKGATE_EN_MASK (push_bit
       L1_CLKCNTRL_0_L1_CPSLV_CLKGATE_EN_OFFSET 1),
     SMN_ENTRY_RMW SMN_IOAGR_IOHUB0NBIO0_L1_CLKCNTRL_0_ADDRESS L1_CLKCNTRL_0_L1_PERF_CLKGATE_EN_MASK (push_bit
       L1_CLKCNTRL_0_L1_PERF_CLKGATE_EN_OFFSET 1),
     SMN_ENTRY_RMW SMN_IOAGR_IOHUB0NBIO0_L1_CLKCNTRL_0_ADDRESS L1_CLKCNTRL_0_L1_MEMORY_CLKGATE_EN_MASK (push_bit
       L1_CLKCNTRL_0_L1_MEMORY_CLKGATE_EN_OFFSET 1),
     SMN_ENTRY_RMW SMN_IOAGR_IOHUB0NBIO0_L1_CLKCNTRL_0_ADDRESS L1_CLKCNTRL_0_L1_REG_CLKGATE_EN_MASK (push_bit L1_CLKCNTRL_0_L1_REG_CLKGATE_EN_OFFSET
       1),
     SMN_ENTRY_RMW SMN_IOAGR_IOHUB0NBIO0_L1_CLKCNTRL_0_ADDRESS L1_CLKCNTRL_0_L1_HOSTREQ_CLKGATE_EN_MASK (push_bit
       L1_CLKCNTRL_0_L1_HOSTREQ_CLKGATE_EN_OFFSET 1),
     SMN_ENTRY_RMW SMN_IOAGR_IOHUB0NBIO0_L1_CLKCNTRL_0_ADDRESS L1_CLKCNTRL_0_L1_DMARSP_CLKGATE_EN_MASK (push_bit
       L1_CLKCNTRL_0_L1_DMARSP_CLKGATE_EN_OFFSET 1),
     SMN_ENTRY_RMW SMN_IOAGR_IOHUB0NBIO0_L1_CLKCNTRL_0_ADDRESS L1_CLKCNTRL_0_L1_HOSTRSP_CLKGATE_EN_MASK (push_bit
       L1_CLKCNTRL_0_L1_HOSTRSP_CLKGATE_EN_OFFSET 1),
     SMN_ENTRY_RMW SMN_IOAGR_IOHUB0NBIO0_L1_CLKCNTRL_0_ADDRESS L1_CLKCNTRL_0_L1_SION_PERF_CLKGATE_EN_MASK (push_bit
       L1_CLKCNTRL_0_L1_SION_PERF_CLKGATE_EN_OFFSET 1),
     SMN_ENTRY_RMW SMN_IOAGR_IOHUB0NBIO0_L1_CLKCNTRL_0_ADDRESS L1_CLKCNTRL_0_L1_CLKGATE_HYSTERESIS_MASK (push_bit
       L1_CLKCNTRL_0_L1_CLKGATE_HYSTERESIS_OFFSET 0x20),
     SMN_ENTRY_RMW SMN_IOAGR_IOHUB0NBIO0_L1_CLKCNTRL_0_ADDRESS L1_CLKCNTRL_0_L1_L2_CLKGATE_EN_MASK (push_bit L1_CLKCNTRL_0_L1_L2_CLKGATE_EN_OFFSET 1)]"

definition NBIO_PPR_INIT_VALUES_TBL_4 :: "smn_entry list" where
  "NBIO_PPR_INIT_VALUES_TBL_4 =
    [SMN_ENTRY_RMW SMN_IOHUB0NBIO0_L2_L2A_CK_GATE_CONTROL_ADDRESS L2_L2A_CK_GATE_CONTROL_CKGateL2ARegsDisable_MASK (push_bit
       L2_L2A_CK_GATE_CONTROL_CKGateL2ARegsDisable_OFFSET 0),
     SMN_ENTRY_RMW SMN_IOHUB0NBIO0_L2_L2A_CK_GATE_CONTROL_ADDRESS L2_L2A_CK_GATE_CONTROL_CKGateL2ADynamicDisable_MASK (push_bit
       L2_L2A_CK_GATE_CONTROL_CKGateL2ADynamicDisable_OFFSET 0),
     SMN_ENTRY_RMW SMN_IOHUB0NBIO0_L2_L2A_CK_GATE_CONTROL_ADDRESS L2_L2A_CK_GATE_CONTROL_CKGateL2ACacheDisable_MASK (push_bit
       L2_L2A_CK_GATE_CONTROL_CKGateL2ACacheDisable_OFFSET 0),
     SMN_ENTRY_RMW SMN_IOHUB0NBIO0_L2_L2B_CK_GATE_CONTROL_ADDRESS L2_L2B_CK_GATE_CONTROL_CKGateL2BRegsDisable_MASK (push_bit
       L2_L2B_CK_GATE_CONTROL_CKGateL2BRegsDisable_OFFSET 0),
     SMN_ENTRY_RMW SMN_IOHUB0NBIO0_L2_L2B_CK_GATE_CONTROL_ADDRESS L2_L2B_CK_GATE_CONTROL_CKGateL2BDynamicDisable_MASK (push_bit
       L2_L2B_CK_GATE_CONTROL_CKGateL2BDynamicDisable_OFFSET 0),
     SMN_ENTRY_RMW SMN_IOHUB0NBIO0_L2_L2B_CK_GATE_CONTROL_ADDRESS L2_L2B_CK_GATE_CONTROL_CKGateL2BMiscDisable_MASK (push_bit
       L2_L2B_CK_GATE_CONTROL_CKGateL2BMiscDisable_OFFSET 0),
     SMN_ENTRY_RMW SMN_IOHUB0NBIO0_L2_L2B_CK_GATE_CONTROL_ADDRESS L2_L2B_CK_GATE_CONTROL_CKGateL2BCacheDisable_MASK (push_bit
       L2_L2B_CK_GATE_CONTROL_CKGateL2BCacheDisable_OFFSET 0),
     SMN_ENTRY_PROPERTY_RMW PROPERTY_PRESENT_NBIF0 SIL_RESERVED2_1322 SIL_RESERVED2_1062 (push_bit SIL_RESERVED2_1063 1),
     SMN_ENTRY_PROPERTY_RMW PROPERTY_PRESENT_NBIF1 SIL_RESERVED2_1322 SIL_RESERVED2_1062 (push_bit SIL_RESERVED2_1063 1),
     SMN_ENTRY_PROPERTY_RMW PROPERTY_PRESENT_NBIF2 SIL_RESERVED2_1422 SIL_RESERVED2_1062 (push_bit SIL_RESERVED2_1063 1),
     SMN_ENTRY_PROPERTY_RMW PROPERTY_PRESENT_NBIF0 SIL_RESERVED2_1322 SIL_RESERVED2_1064 (push_bit SIL_RESERVED2_1065 0),
     SMN_ENTRY_PROPERTY_RMW PROPERTY_PRESENT_NBIF1 SIL_RESERVED2_1322 SIL_RESERVED2_1064 (push_bit SIL_RESERVED2_1065 0),
     SMN_ENTRY_PROPERTY_RMW PROPERTY_PRESENT_NBIF2 SIL_RESERVED2_1422 SIL_RESERVED2_1064 (push_bit SIL_RESERVED2_1065 0),
     SMN_ENTRY_PROPERTY_RMW PROPERTY_PRESENT_NBIF0 SIL_RESERVED2_1322 SIL_RESERVED2_1060 (push_bit SIL_RESERVED2_1061 0),
     SMN_ENTRY_PROPERTY_RMW PROPERTY_PRESENT_NBIF1 SIL_RESERVED2_1322 SIL_RESERVED2_1060 (push_bit SIL_RESERVED2_1061 0),
     SMN_ENTRY_PROPERTY_RMW PROPERTY_PRESENT_NBIF2 SIL_RESERVED2_1422 SIL_RESERVED2_1060 (push_bit SIL_RESERVED2_1061 0),
     SMN_ENTRY_PROPERTY_RMW PROPERTY_PRESENT_NBIF0 SIL_RESERVED2_1322 SIL_RESERVED2_1068 (push_bit SIL_RESERVED2_1069 0),
     SMN_ENTRY_PROPERTY_RMW PROPERTY_PRESENT_NBIF1 SIL_RESERVED2_1322 SIL_RESERVED2_1068 (push_bit SIL_RESERVED2_1069 0),
     SMN_ENTRY_PROPERTY_RMW PROPERTY_PRESENT_NBIF2 SIL_RESERVED2_1422 SIL_RESERVED2_1068 (push_bit SIL_RESERVED2_1069 0),
     SMN_ENTRY_PROPERTY_RMW PROPERTY_PRESENT_NBIF0 SIL_RESERVED2_1322 SIL_RESERVED3_1467 (push_bit SIL_RESERVED2_1059 0),
     SMN_ENTRY_PROPERTY_RMW PROPERTY_PRESENT_NBIF1 SIL_RESERVED2_1322 SIL_RESERVED3_1467 (push_bit SIL_RESERVED2_1059 0),
     SMN_ENTRY_PROPERTY_RMW PROPERTY_PRESENT_NBIF2 SIL_RESERVED2_1422 SIL_RESERVED3_1467 (push_bit SIL_RESERVED2_1059 0),
     SMN_ENTRY_RMW SIL_RESERVED3_1503 SIL_RESERVED3_1502 (push_bit SIL_RESERVED2_1084 1),
     SMN_ENTRY_PROPERTY_RMW PROPERTY_PRESENT_SST SIL_RESERVED_758 SIL_RESERVED_484 (push_bit SIL_RESERVED_485 1),
     SMN_ENTRY_PROPERTY_RMW PROPERTY_PRESENT_SST SIL_RESERVED_759 SIL_RESERVED_766 (push_bit SIL_RESERVED_767 1)]"

definition NBIO_PPR_INIT_VALUES_TBL_5 :: "smn_entry list" where
  "NBIO_PPR_INIT_VALUES_TBL_5 =
    [SMN_ENTRY_PROPERTY_RMW PROPERTY_PRESENT_SST SIL_RESERVED_759 SIL_RESERVED_762 (push_bit SIL_RESERVED_763 0xF0),
     SMN_ENTRY_PROPERTY_RMW PROPERTY_PRESENT_SST SIL_RESERVED_759 SIL_RESERVED_764 (push_bit SIL_RESERVED_765 1),
     SMN_ENTRY_PROPERTY_RMW PROPERTY_PRESENT_NBIF0 SIL_RESERVED2_1317 SIL_RESERVED3_1512 (push_bit SIL_RESERVED3_1511 0),
     SMN_ENTRY_PROPERTY_RMW PROPERTY_PRESENT_NBIF1 SIL_RESERVED2_1317 SIL_RESERVED3_1512 (push_bit SIL_RESERVED3_1511 0),
     SMN_ENTRY_PROPERTY_RMW PROPERTY_PRESENT_NBIF0 SIL_RESERVED2_1317 SIL_RESERVED2_969 (push_bit SIL_RESERVED3_1513 0),
     SMN_ENTRY_PROPERTY_RMW PROPERTY_PRESENT_NBIF1 SIL_RESERVED2_1317 SIL_RESERVED2_969 (push_bit SIL_RESERVED3_1513 0),
     SMN_ENTRY_PROPERTY_RMW PROPERTY_PRESENT_NBIF0 SIL_RESERVED2_1317 SIL_RESERVED2_971 (push_bit SIL_RESERVED3_1514 0),
     SMN_ENTRY_PROPERTY_RMW PROPERTY_PRESENT_NBIF1 SIL_RESERVED2_1317 SIL_RESERVED2_971 (push_bit SIL_RESERVED3_1514 0),
     SMN_ENTRY_PROPERTY_RMW PROPERTY_PRESENT_NBIF0 SIL_RESERVED2_1317 SIL_RESERVED2_973 (push_bit SIL_RESERVED3_1515 0),
     SMN_ENTRY_PROPERTY_RMW PROPERTY_PRESENT_NBIF1 SIL_RESERVED2_1317 SIL_RESERVED2_973 (push_bit SIL_RESERVED3_1515 0),
     SMN_ENTRY_PROPERTY_RMW PROPERTY_PRESENT_NBIF0 SIL_RESERVED2_1317 SIL_RESERVED3_1517 (push_bit SIL_RESERVED3_1516 0),
     SMN_ENTRY_PROPERTY_RMW PROPERTY_PRESENT_NBIF1 SIL_RESERVED2_1317 SIL_RESERVED3_1517 (push_bit SIL_RESERVED3_1516 0),
     SMN_ENTRY_PROPERTY_RMW PROPERTY_PRESENT_NBIF0 SIL_RESERVED2_1317 SIL_RESERVED2_976 (push_bit SIL_RESERVED3_1518 0),
     SMN_ENTRY_PROPERTY_RMW PROPERTY_PRESENT_NBIF1 SIL_RESERVED2_1317 SIL_RESERVED2_976 (push_bit SIL_RESERVED3_1518 0),
     SMN_ENTRY_PROPERTY_RMW PROPERTY_PRESENT_NBIF0 SIL_RESERVED2_1317 SIL_RESERVED2_978 (push_bit SIL_RESERVED3_1519 0),
     SMN_ENTRY_PROPERTY_RMW PROPERTY_PRESENT_NBIF1 SIL_RESERVED2_1317 SIL_RESERVED2_978 (push_bit SIL_RESERVED3_1519 0),
     SMN_ENTRY_PROPERTY_RMW PROPERTY_PRESENT_NBIF0 SIL_RESERVED2_1317 SIL_RESERVED2_980 (push_bit SIL_RESERVED2_981 0),
     SMN_ENTRY_PROPERTY_RMW PROPERTY_PRESENT_NBIF1 SIL_RESERVED2_1317 SIL_RESERVED2_980 (push_bit SIL_RESERVED2_981 0),
     SMN_ENTRY_PROPERTY_RMW PROPERTY_PRESENT_NBIF0 SIL_RESERVED2_1317 SIL_RESERVED2_982 (push_bit SIL_RESERVED2_983 0),
     SMN_ENTRY_PROPERTY_RMW PROPERTY_PRESENT_NBIF1 SIL_RESERVED2_1317 SIL_RESERVED2_982 (push_bit SIL_RESERVED2_983 0),
     SMN_ENTRY_PROPERTY_RMW PROPERTY_PRESENT_NBIF0 SIL_RESERVED2_1317 SIL_RESERVED2_984 (push_bit SIL_RESERVED2_985 0),
     SMN_ENTRY_PROPERTY_RMW PROPERTY_PRESENT_NBIF1 SIL_RESERVED2_1317 SIL_RESERVED2_984 (push_bit SIL_RESERVED2_985 0),
     SMN_ENTRY_PROPERTY_RMW PROPERTY_PRESENT_NBIF0 SIL_RESERVED2_1317 SIL_RESERVED2_986 (push_bit SIL_RESERVED3_1520 0),
     SMN_ENTRY_PROPERTY_RMW PROPERTY_PRESENT_NBIF1 SIL_RESERVED2_1317 SIL_RESERVED2_986 (push_bit SIL_RESERVED3_1520 0)]"

definition NBIO_PPR_INIT_VALUES_TBL_6 :: "smn_entry list" where
  "NBIO_PPR_INIT_VALUES_TBL_6 =
    [SMN_ENTRY_PROPERTY_RMW PROPERTY_PRESENT_NBIF0 SIL_RESERVED2_1317 SIL_RESERVED2_987 (push_bit SIL_RESERVED3_1521 0),
     SMN_ENTRY_PROPERTY_RMW PROPERTY_PRESENT_NBIF1 SIL_RESERVED2_1317 SIL_RESERVED2_987 (push_bit SIL_RESERVED3_1521 0),
     SMN_ENTRY_PROPERTY_RMW PROPERTY_PRESENT_NBIF0 SIL_RESERVED2_1317 SIL_RESERVED2_988 (push_bit SIL_RESERVED2_989 0),
     SMN_ENTRY_PROPERTY_RMW PROPERTY_PRESENT_NBIF1 SIL_RESERVED2_1317 SIL_RESERVED2_988 (push_bit SIL_RESERVED2_989 0),
     SMN_ENTRY_PROPERTY_RMW PROPERTY_PRESENT_NBIF0 SIL_RESERVED2_1317 SIL_RESERVED2_990 (push_bit SIL_RESERVED2_991 0),
     SMN_ENTRY_PROPERTY_RMW PROPERTY_PRESENT_NBIF1 SIL_RESERVED2_1317 SIL_RESERVED2_990 (push_bit SIL_RESERVED2_991 0),
     SMN_ENTRY_PROPERTY_RMW PROPERTY_PRESENT_NBIF0 SIL_RESERVED2_1317 SIL_RESERVED2_992 (push_bit SIL_RESERVED2_993 0),
     SMN_ENTRY_PROPERTY_RMW PROPERTY_PRESENT_NBIF1 SIL_RESERVED2_1317 SIL_RESERVED2_992 (push_bit SIL_RESERVED2_993 0),
     SMN_ENTRY_PROPERTY_RMW PROPERTY_PRESENT_NBIF0 SIL_RESERVED2_1317 SIL_RESERVED2_994 (push_bit SIL_RESERVED3_1522 0),
     SMN_ENTRY_PROPERTY_RMW PROPERTY_PRESENT_NBIF1 SIL_RESERVED2_1317 SIL_RESERVED2_994 (push_bit SIL_RESERVED3_1522 0),
     SMN_ENTRY_PROPERTY_RMW PROPERTY_PRESENT_NBIF0 SIL_RESERVED2_1317 SIL_RESERVED2_995 (push_bit SIL_RESERVED2_996 0),
     SMN_ENTRY_PROPERTY_RMW PROPERTY_PRESENT_NBIF1 SIL_RESERVED2_1317 SIL_RESERVED2_995 (push_bit SIL_RESERVED2_996 0),
     SMN_ENTRY_PROPERTY_RMW PROPERTY_PRESENT_NBIF0 SIL_RESERVED2_1317 SIL_RESERVED2_997 (push_bit SIL_RESERVED2_998 0),
     SMN_ENTRY_PROPERTY_RMW PROPERTY_PRESENT_NBIF1 SIL_RESERVED2_1317 SIL_RESERVED2_997 (push_bit SIL_RESERVED2_998 0),
     SMN_ENTRY_PROPERTY_RMW PROPERTY_PRESENT_NBIF0 SIL_RESERVED2_1317 SIL_RESERVED2_999 (push_bit SIL_RESERVED2_1000 0),
     SMN_ENTRY_PROPERTY_RMW PROPERTY_PRESENT_NBIF1 SIL_RESERVED2_1317 SIL_RESERVED2_999 (push_bit SIL_RESERVED2_1000 0),
     SMN_ENTRY_PROPERTY_RMW PROPERTY_PRESENT_NBIF0 SIL_RESERVED2_1317 SIL_RESERVED3_1523 (push_bit SIL_RESERVED2_1001 0),
     SMN_ENTRY_PROPERTY_RMW PROPERTY_PRESENT_NBIF1 SIL_RESERVED2_1317 SIL_RESERVED3_1523 (push_bit SIL_RESERVED2_1001 0),
     SMN_ENTRY_PROPERTY_RMW PROPERTY_PRESENT_NBIF0 SIL_RESERVED2_1321 SIL_RESERVED2_1033 (push_bit SIL_RESERVED2_1034 0),
     SMN_ENTRY_PROPERTY_RMW PROPERTY_PRESENT_NBIF1 SIL_RESERVED2_1321 SIL_RESERVED2_1033 (push_bit SIL_RESERVED2_1034 0),
     SMN_ENTRY_PROPERTY_RMW PROPERTY_PRESENT_NBIF0 SIL_RESERVED2_1321 SIL_RESERVED2_1035 (push_bit SIL_RESERVED2_1036 0),
     SMN_ENTRY_PROPERTY_RMW PROPERTY_PRESENT_NBIF1 SIL_RESERVED2_1321 SIL_RESERVED2_1035 (push_bit SIL_RESERVED2_1036 0),
     SMN_ENTRY_PROPERTY_RMW PROPERTY_PRESENT_NBIF0 SIL_RESERVED2_1321 SIL_RESERVED3_1524 (push_bit SIL_RESERVED2_1037 0),
     SMN_ENTRY_PROPERTY_RMW PROPERTY_PRESENT_NBIF1 SIL_RESERVED2_1321 SIL_RESERVED3_1524 (push_bit SIL_RESERVED2_1037 0)]"

definition NBIO_PPR_INIT_VALUES_TBL_7 :: "smn_entry list" where
  "NBIO_PPR_INIT_VALUES_TBL_7 =
    [SMN_ENTRY_PROPERTY_RMW PROPERTY_PRESENT_NBIF0 SIL_RESERVED2_1321 SIL_RESERVED2_1038 (push_bit SIL_RESERVED3_1525 0),
     SMN_ENTRY_PROPERTY_RMW PROPERTY_PRESENT_NBIF1 SIL_RESERVED2_1321 SIL_RESERVED2_1038 (push_bit SIL_RESERVED3_1525 0),
     SMN_ENTRY_PROPERTY_RMW PROPERTY_PRESENT_NBIF0 SIL_RESERVED2_1321 SIL_RESERVED3_1526 (push_bit SIL_RESERVED2_1039 0),
     SMN_ENTRY_PROPERTY_RMW PROPERTY_PRESENT_NBIF1 SIL_RESERVED2_1321 SIL_RESERVED3_1526 (push_bit SIL_RESERVED2_1039 0),
     SMN_ENTRY_PROPERTY_RMW PROPERTY_PRESENT_NBIF0 SIL_RESERVED2_1321 SIL_RESERVED3_1528 (push_bit SIL_RESERVED3_1527 0),
     SMN_ENTRY_PROPERTY_RMW PROPERTY_PRESENT_NBIF1 SIL_RESERVED2_1321 SIL_RESERVED3_1528 (push_bit SIL_RESERVED3_1527 0),
     SMN_ENTRY_PROPERTY_RMW PROPERTY_PRESENT_NBIF0 SIL_RESERVED2_1321 SIL_RESERVED2_1040 (push_bit SIL_RESERVED2_1041 0),
     SMN_ENTRY_PROPERTY_RMW PROPERTY_PRESENT_NBIF1 SIL_RESERVED2_1321 SIL_RESERVED2_1040 (push_bit SIL_RESERVED2_1041 0),
     SMN_ENTRY_PROPERTY_RMW PROPERTY_PRESENT_NBIF0 SIL_RESERVED2_1321 SIL_RESERVED2_1042 (push_bit SIL_RESERVED2_1043 0),
     SMN_ENTRY_PROPERTY_RMW PROPERTY_PRESENT_NBIF1 SIL_RESERVED2_1321 SIL_RESERVED2_1042 (push_bit SIL_RESERVED2_1043 0),
     SMN_ENTRY_PROPERTY_RMW PROPERTY_PRESENT_NBIF0 SIL_RESERVED2_1321 SIL_RESERVED2_1044 (push_bit SIL_RESERVED2_1045 0),
     SMN_ENTRY_PROPERTY_RMW PROPERTY_PRESENT_NBIF1 SIL_RESERVED2_1321 SIL_RESERVED2_1044 (push_bit SIL_RESERVED2_1045 0),
     SMN_ENTRY_PROPERTY_RMW PROPERTY_PRESENT_NBIF0 SIL_RESERVED2_1321 SIL_RESERVED2_1046 (push_bit SIL_RESERVED2_1047 0),
     SMN_ENTRY_PROPERTY_RMW PROPERTY_PRESENT_NBIF1 SIL_RESERVED2_1321 SIL_RESERVED2_1046 (push_bit SIL_RESERVED2_1047 0),
     SMN_ENTRY_PROPERTY_RMW PROPERTY_PRESENT_NBIF0 SIL_RESERVED2_1321 SIL_RESERVED3_1529 (push_bit SIL_RESERVED2_1048 0),
     SMN_ENTRY_PROPERTY_RMW PROPERTY_PRESENT_NBIF1 SIL_RESERVED2_1321 SIL_RESERVED3_1529 (push_bit SIL_RESERVED2_1048 0),
     SMN_ENTRY_PROPERTY_RMW PROPERTY_PRESENT_NBIF0 SIL_RESERVED2_1321 SIL_RESERVED2_1049 (push_bit SIL_RESERVED2_1050 0),
     SMN_ENTRY_PROPERTY_RMW PROPERTY_PRESENT_NBIF1 SIL_RESERVED2_1321 SIL_RESERVED2_1049 (push_bit SIL_RESERVED2_1050 0),
     SMN_ENTRY_PROPERTY_RMW PROPERTY_PRESENT_NBIF0 SIL_RESERVED2_1321 SIL_RESERVED3_1530 (push_bit SIL_RESERVED2_1051 0),
     SMN_ENTRY_PROPERTY_RMW PROPERTY_PRESENT_NBIF1 SIL_RESERVED2_1321 SIL_RESERVED3_1530 (push_bit SIL_RESERVED2_1051 0),
     SMN_ENTRY_PROPERTY_RMW PROPERTY_PRESENT_NBIF0 SIL_RESERVED2_1321 SIL_RESERVED3_1531 (push_bit SIL_RESERVED2_1052 0),
     SMN_ENTRY_PROPERTY_RMW PROPERTY_PRESENT_NBIF1 SIL_RESERVED2_1321 SIL_RESERVED3_1531 (push_bit SIL_RESERVED2_1052 0),
     SMN_ENTRY_PROPERTY_RMW PROPERTY_PRESENT_NBIF0 SIL_RESERVED2_1321 SIL_RESERVED3_1533 (push_bit SIL_RESERVED3_1532 0),
     SMN_ENTRY_PROPERTY_RMW PROPERTY_PRESENT_NBIF1 SIL_RESERVED2_1321 SIL_RESERVED3_1533 (push_bit SIL_RESERVED3_1532 0)]"

definition NBIO_PPR_INIT_VALUES_TBL_8 :: "smn_entry list" where
  "NBIO_PPR_INIT_VALUES_TBL_8 =
    [SMN_ENTRY_PROPERTY_RMW PROPERTY_PRESENT_NBIF0 SIL_RESERVED2_1321 SIL_RESERVED3_1534 (push_bit SIL_RESERVED2_1053 0),
     SMN_ENTRY_PROPERTY_RMW PROPERTY_PRESENT_NBIF1 SIL_RESERVED2_1321 SIL_RESERVED3_1534 (push_bit SIL_RESERVED2_1053 0),
     SMN_ENTRY_PROPERTY_RMW PROPERTY_PRESENT_NBIF0 SIL_RESERVED2_1321 SIL_RESERVED2_1054 (push_bit SIL_RESERVED3_1535 0),
     SMN_ENTRY_PROPERTY_RMW PROPERTY_PRESENT_NBIF1 SIL_RESERVED2_1321 SIL_RESERVED2_1054 (push_bit SIL_RESERVED3_1535 0),
     SMN_ENTRY_PROPERTY_RMW PROPERTY_PRESENT_NBIF0 SIL_RESERVED2_1321 SIL_RESERVED3_1536 (push_bit SIL_RESERVED2_1055 0),
     SMN_ENTRY_PROPERTY_RMW PROPERTY_PRESENT_NBIF1 SIL_RESERVED2_1321 SIL_RESERVED3_1536 (push_bit SIL_RESERVED2_1055 0),
     SMN_ENTRY_PROPERTY_RMW PROPERTY_PRESENT_NBIF0 SIL_RESERVED2_1321 SIL_RESERVED2_1056 (push_bit SIL_RESERVED2_1057 0),
     SMN_ENTRY_PROPERTY_RMW PROPERTY_PRESENT_NBIF1 SIL_RESERVED2_1321 SIL_RESERVED2_1056 (push_bit SIL_RESERVED2_1057 0),
     SMN_ENTRY_PROPERTY_RMW PROPERTY_PRESENT_NBIF0 SIL_RESERVED2_1321 SIL_RESERVED2_1058 (push_bit SIL_RESERVED3_1537 0),
     SMN_ENTRY_PROPERTY_RMW PROPERTY_PRESENT_NBIF1 SIL_RESERVED2_1321 SIL_RESERVED2_1058 (push_bit SIL_RESERVED3_1537 0),
     SMN_ENTRY_PROPERTY_RMW PROPERTY_PRESENT_NBIF0 SIL_RESERVED2_1324 SIL_RESERVED2_1080 (push_bit SIL_RESERVED2_1081 1),
     SMN_ENTRY_PROPERTY_RMW PROPERTY_PRESENT_NBIF1 SIL_RESERVED2_1324 SIL_RESERVED2_1080 (push_bit SIL_RESERVED2_1081 1),
     SMN_ENTRY_PROPERTY_RMW PROPERTY_PRESENT_NBIF0 SIL_RESERVED3_1542 SIL_RESERVED2_1257 (push_bit SIL_RESERVED2_1258 0),
     SMN_ENTRY_PROPERTY_RMW PROPERTY_PRESENT_NBIF0 SIL_RESERVED2_1416 SIL_RESERVED2_1257 (push_bit SIL_RESERVED2_1258 0),
     SMN_ENTRY_PROPERTY_RMW PROPERTY_PRESENT_NBIF0 SIL_RESERVED3_1542 SIL_RESERVED2_1259 (push_bit SIL_RESERVED3_1538 0),
     SMN_ENTRY_PROPERTY_RMW PROPERTY_PRESENT_NBIF0 SIL_RESERVED2_1416 SIL_RESERVED2_1259 (push_bit SIL_RESERVED3_1538 0),
     SMN_ENTRY_PROPERTY_RMW PROPERTY_PRESENT_NBIF0 SIL_RESERVED3_1542 SIL_RESERVED2_1260 (push_bit SIL_RESERVED2_1261 0),
     SMN_ENTRY_PROPERTY_RMW PROPERTY_PRESENT_NBIF0 SIL_RESERVED2_1416 SIL_RESERVED2_1260 (push_bit SIL_RESERVED2_1261 0),
     SMN_ENTRY_PROPERTY_RMW PROPERTY_PRESENT_NBIF0 SIL_RESERVED3_1542 SIL_RESERVED2_1262 (push_bit SIL_RESERVED2_1263 0),
     SMN_ENTRY_PROPERTY_RMW PROPERTY_PRESENT_NBIF0 SIL_RESERVED2_1416 SIL_RESERVED2_1262 (push_bit SIL_RESERVED2_1263 0),
     SMN_ENTRY_PROPERTY_RMW PROPERTY_PRESENT_NBIF0 SIL_RESERVED3_1542 SIL_RESERVED2_1264 (push_bit SIL_RESERVED2_1265 0),
     SMN_ENTRY_PROPERTY_RMW PROPERTY_PRESENT_NBIF0 SIL_RESERVED2_1416 SIL_RESERVED2_1264 (push_bit SIL_RESERVED2_1265 0),
     SMN_ENTRY_PROPERTY_RMW PROPERTY_PRESENT_NBIF0 SIL_RESERVED3_1542 SIL_RESERVED2_1266 (push_bit SIL_RESERVED2_1267 0),
     SMN_ENTRY_PROPERTY_RMW PROPERTY_PRESENT_NBIF0 SIL_RESERVED2_1416 SIL_RESERVED2_1266 (push_bit SIL_RESERVED2_1267 0)]"

definition NBIO_PPR_INIT_VALUES_TBL_9 :: "smn_entry list" where
  "NBIO_PPR_INIT_VALUES_TBL_9 =
    [SMN_ENTRY_PROPERTY_RMW PROPERTY_PRESENT_NBIF0 SIL_RESERVED3_1542 SIL_RESERVED2_1268 (push_bit SIL_RESERVED2_1269 0),
     SMN_ENTRY_PROPERTY_RMW PROPERTY_PRESENT_NBIF0 SIL_RESERVED2_1416 SIL_RESERVED2_1268 (push_bit SIL_RESERVED2_1269 0),
     SMN_ENTRY_PROPERTY_RMW PROPERTY_PRESENT_NBIF0 SIL_RESERVED3_1542 SIL_RESERVED3_1539 (push_bit SIL_RESERVED2_1270 0),
     SMN_ENTRY_PROPERTY_RMW PROPERTY_PRESENT_NBIF0 SIL_RESERVED2_1416 SIL_RESERVED3_1539 (push_bit SIL_RESERVED2_1270 0),
     SMN_ENTRY_PROPERTY_RMW PROPERTY_PRESENT_NBIF0 SIL_RESERVED3_1542 SIL_RESERVED2_1271 (push_bit SIL_RESERVED2_1272 0),
     SMN_ENTRY_PROPERTY_RMW PROPERTY_PRESENT_NBIF0 SIL_RESERVED2_1416 SIL_RESERVED2_1271 (push_bit SIL_RESERVED2_1272 0),
     SMN_ENTRY_PROPERTY_RMW PROPERTY_PRESENT_NBIF0 SIL_RESERVED3_1542 SIL_RESERVED2_1273 (push_bit SIL_RESERVED2_1274 0),
     SMN_ENTRY_PROPERTY_RMW PROPERTY_PRESENT_NBIF0 SIL_RESERVED2_1416 SIL_RESERVED2_1273 (push_bit SIL_RESERVED2_1274 0),
     SMN_ENTRY_PROPERTY_RMW PROPERTY_PRESENT_NBIF0 SIL_RESERVED3_1542 SIL_RESERVED2_1275 (push_bit SIL_RESERVED2_1276 0),
     SMN_ENTRY_PROPERTY_RMW PROPERTY_PRESENT_NBIF0 SIL_RESERVED2_1416 SIL_RESERVED2_1275 (push_bit SIL_RESERVED2_1276 0),
     SMN_ENTRY_PROPERTY_RMW PROPERTY_PRESENT_NBIF0 SIL_RESERVED3_1542 SIL_RESERVED2_1277 (push_bit SIL_RESERVED2_1278 0),
     SMN_ENTRY_PROPERTY_RMW PROPERTY_PRESENT_NBIF0 SIL_RESERVED2_1416 SIL_RESERVED2_1277 (push_bit SIL_RESERVED2_1278 0),
     SMN_ENTRY_PROPERTY_RMW PROPERTY_PRESENT_NBIF0 SIL_RESERVED3_1542 SIL_RESERVED2_1279 (push_bit SIL_RESERVED2_1280 0),
     SMN_ENTRY_PROPERTY_RMW PROPERTY_PRESENT_NBIF0 SIL_RESERVED2_1416 SIL_RESERVED2_1279 (push_bit SIL_RESERVED2_1280 0),
     SMN_ENTRY_PROPERTY_RMW PROPERTY_PRESENT_NBIF0 SIL_RESERVED3_1542 SIL_RESERVED3_1540 (push_bit SIL_RESERVED2_1281 0),
     SMN_ENTRY_PROPERTY_RMW PROPERTY_PRESENT_NBIF0 SIL_RESERVED2_1416 SIL_RESERVED3_1540 (push_bit SIL_RESERVED2_1281 0),
     SMN_ENTRY_PROPERTY_RMW PROPERTY_PRESENT_NBIF0 SIL_RESERVED3_1542 SIL_RESERVED2_1282 (push_bit SIL_RESERVED2_1283 0),
     SMN_ENTRY_PROPERTY_RMW PROPERTY_PRESENT_NBIF0 SIL_RESERVED2_1416 SIL_RESERVED2_1282 (push_bit SIL_RESERVED2_1283 0),
     SMN_ENTRY_PROPERTY_RMW PROPERTY_PRESENT_NBIF0 SIL_RESERVED3_1542 SIL_RESERVED2_1284 (push_bit SIL_RESERVED2_1285 0),
     SMN_ENTRY_PROPERTY_RMW PROPERTY_PRESENT_NBIF0 SIL_RESERVED2_1416 SIL_RESERVED2_1284 (push_bit SIL_RESERVED2_1285 0),
     SMN_ENTRY_PROPERTY_RMW PROPERTY_PRESENT_NBIF0 SIL_RESERVED3_1542 SIL_RESERVED2_1286 (push_bit SIL_RESERVED2_1287 0),
     SMN_ENTRY_PROPERTY_RMW PROPERTY_PRESENT_NBIF0 SIL_RESERVED2_1416 SIL_RESERVED2_1286 (push_bit SIL_RESERVED2_1287 0),
     SMN_ENTRY_PROPERTY_RMW PROPERTY_PRESENT_NBIF0 SIL_RESERVED3_1542 SIL_RESERVED3_1541 (push_bit SIL_RESERVED2_1288 0),
     SMN_ENTRY_PROPERTY_RMW PROPERTY_PRESENT_NBIF0 SIL_RESERVED2_1416 SIL_RESERVED3_1541 (push_bit SIL_RESERVED2_1288 0)]"

definition NBIO_PPR_INIT_VALUES_TBL_10 :: "smn_entry list" where
  "NBIO_PPR_INIT_VALUES_TBL_10 =
    [SMN_ENTRY_PROPERTY_RMW PROPERTY_PRESENT_NBIF0 SIL_RESERVED3_1542 SIL_RESERVED2_1289 (push_bit SIL_RESERVED2_1290 0),
     SMN_ENTRY_PROPERTY_RMW PROPERTY_PRESENT_NBIF0 SIL_RESERVED2_1416 SIL_RESERVED2_1289 (push_bit SIL_RESERVED2_1290 0),
     SMN_ENTRY_PROPERTY_RMW PROPERTY_PRESENT_NBIF0 SIL_RESERVED3_1542 SIL_RESERVED2_1291 (push_bit SIL_RESERVED2_1292 0),
     SMN_ENTRY_PROPERTY_RMW PROPERTY_PRESENT_NBIF0 SIL_RESERVED2_1416 SIL_RESERVED2_1291 (push_bit SIL_RESERVED2_1292 0),
     SMN_ENTRY_RMW SIL_RESERVED2_1366 SIL_RESERVED2_1457 (push_bit SIL_RESERVED2_1458 1),
     SMN_ENTRY_RMW SIL_RESERVED2_1366 SIL_RESERVED2_1457 (push_bit SIL_RESERVED2_1458 1),
     SMN_ENTRY_RMW SIL_RESERVED_739 SIL_RESERVED_219 (push_bit SIL_RESERVED_220 1)]"

definition NBIO_PPR_INIT_VALUES_TBL :: "smn_entry list" where
  "NBIO_PPR_INIT_VALUES_TBL = NBIO_PPR_INIT_VALUES_TBL_1 @ NBIO_PPR_INIT_VALUES_TBL_2 @ NBIO_PPR_INIT_VALUES_TBL_3 @ NBIO_PPR_INIT_VALUES_TBL_4 @ NBIO_PPR_INIT_VALUES_TBL_5 @ NBIO_PPR_INIT_VALUES_TBL_6 @ NBIO_PPR_INIT_VALUES_TBL_7 @ NBIO_PPR_INIT_VALUES_TBL_8 @ NBIO_PPR_INIT_VALUES_TBL_9 @ NBIO_PPR_INIT_VALUES_TBL_10"

section \<open>The tables (\<^verbatim>\<open>NbioSmnTables.c\<close>)\<close>

definition NbioPprInitValues :: "smn_entry list" where
  "NbioPprInitValues = NBIO_PPR_INIT_VALUES_TBL"

definition GnbEarlyInitTableCommon :: "smn_entry list" where
  "GnbEarlyInitTableCommon = NBIO_IOHC_P2P_TBL @ NBIO_IOHC_CRS_TBL @ NBIO_IOHC_CLOCK_GATING_TBL @ NBIO_IOHC_ARBITRATION_TBL @
    NBIO_IOAPIC_CLOCK_GATING_TBL @ NBIO_IOAPIC_INTR_ROUTING_TBL @ [SMN_ENTRY_RMW SIL_RESERVED_737 (SIL_RESERVED_206 OR SIL_RESERVED_207)
    ((push_bit SIL_RESERVED_208 1) OR (push_bit SIL_RESERVED_209 0))]"

definition GnbnBifInitTable :: "smn_entry list" where
  "GnbnBifInitTable = NBIO_NBIF_DEVICE_CFG_TBL @ NBIO_NBIF_DEVICE_TBL @ NBIO_NBIF_DEVICE_INTERRUPT_TBL @ NBIO_NBIF_DMA_ARBITRATION_TBL @
    NBIO_NBIF_SYSHUB_WRT_PERF_ENH_TBL @ NBIO_TPH_TBL @ NBIO_NBIF_CLOCK_GATING_TBL @ NBIO_NBIF_FLR_TBL @ NBIO_LCLK_DS_IDLE_TBL @
    NBIO_ENABLE_SOCCLK_SHUBCLK_DS_TBL @ NBIO_ENABLE_COMPLETION_TIMEOUT_TBL"

definition GnbSdpMuxInitTableCommon :: "smn_entry list" where
  "GnbSdpMuxInitTableCommon = SIL_RESERVED_784_TBL @ SIL_RESERVED_783_TBL"

definition GnbOncePerSocketInitMP :: "smn_entry list" where
  "GnbOncePerSocketInitMP = NBIO_Non_VC1_WRITE_TBL @ NBIF_DEVICE_ID_DEV_TBL @ NBIO_SST_CLOCK_GATING_TBL"

definition GnbIommuEnvInitTable :: "smn_entry list" where
  "GnbIommuEnvInitTable = NBIO_IOMMU_INIT_TBL @ NBIO_IOMMU_L1_INIT_TBL @ NBIO_IOMMU_L2_INIT_TBL @ NBIO_IOMMU_CLOCK_GATING_TBL @
    NBIO_IOMMU_SMI_FILTERING_TBL @ [SMN_ENTRY_PROPERTY_RMW PROPERTY_XAPIC_MODE SMN_IOAGR_IOHUB0NBIO0_L1_FEATURE_SUP_CNTRL_ADDRESS
    L1_FEATURE_SUP_CNTRL_L1_XT_SUP_W_MASK (push_bit L1_FEATURE_SUP_CNTRL_L1_XT_SUP_W_OFFSET 1)]"

end
