(* ===== verification/Nbio_Nbif.thy ===== *)
theory Nbio_Nbif
  imports Nbio_Tables
begin

text \<open>
  \<^verbatim>\<open>NbifConfigureCommonOptions\<close> of \<^verbatim>\<open>NbioBaseInitGenoa.c\<close>: a row of read-modify-writes, each of which copies one flag of the
  configuration into one field. A row has the address, the mask, the offset and the flag, in the order of the
  source; the flags are the members of \<^verbatim>\<open>NBIO_CONFIG_DATA\<close> with their names.
\<close>

datatype nbif_strap =
  CfgSriovEnDev0F1 | CfgAriEnDev0F1 | CfgAerEnDev0F1 | CfgAcsEnDev0F1 | CfgAtsEnDev0F1 | CfgPasidEnDev0F1 | CfgPwrEnDev0F1 | CfgRtrEnDev0F1 |
  CfgPriEnDev0F1 | AtcEnable | AcsEnRccDev0 | AerEnRccDev0 | AcsSourceValStrap5 | AcsTranslationalBlockingStrap5 | AcsP2pReqStrap5 |
  AcsP2pCompStrap5 | AcsUpstreamFwdStrap5 | AcsP2PEgressStrap5 | AcsDirectTranslatedStrap5 | AcsSsidEnStrap5 | DlfEnStrap1 | Phy16gtStrap1 |
  MarginEnStrap1 | PriEnPageReq | PriResetPageReq | AcsSourceVal | AcsTranslationalBlocking | AcsP2pReq | AcsP2pComp | AcsUpstreamFwd | AcsP2PEgress |
  RccDev0E2EPrefix | RccDev0ExtendedFmtSupported

type_synonym nbif_option = "u32 \<times> u32 \<times> nat \<times> nbif_strap"

definition nbif_options_1 :: "nbif_option list" where
  "nbif_options_1 =
    [(SIL_RESERVED2_1332, SIL_RESERVED2_1134, SIL_RESERVED2_1135, CfgSriovEnDev0F1),
     (SIL_RESERVED2_1328, SIL_RESERVED2_1110, SIL_RESERVED2_1111, CfgAriEnDev0F1),
     (SIL_RESERVED2_1332, SIL_RESERVED2_1126, SIL_RESERVED2_1127, CfgAerEnDev0F1),
     (SIL_RESERVED2_1332, SIL_RESERVED2_1124, SIL_RESERVED2_1125, CfgAcsEnDev0F1),
     (SIL_RESERVED2_1332, SIL_RESERVED2_1128, SIL_RESERVED2_1129, CfgAtsEnDev0F1),
     (SIL_RESERVED2_1332, SIL_RESERVED2_1132, SIL_RESERVED2_1133, CfgPasidEnDev0F1),
     (SIL_RESERVED2_1335, SIL_RESERVED2_1144, SIL_RESERVED2_1145, CfgPwrEnDev0F1),
     (SIL_RESERVED2_1335, SIL_RESERVED2_1146, SIL_RESERVED2_1147, CfgRtrEnDev0F1),
     (SIL_RESERVED2_1332, SIL_RESERVED2_1130, SIL_RESERVED2_1131, CfgPriEnDev0F1),
     (SIL_RESERVED2_1384, SIL_RESERVED2_1134, SIL_RESERVED2_1135, CfgSriovEnDev0F1),
     (SIL_RESERVED2_1381, SIL_RESERVED2_1110, SIL_RESERVED2_1111, CfgAriEnDev0F1),
     (SIL_RESERVED2_1384, SIL_RESERVED2_1126, SIL_RESERVED2_1127, CfgAerEnDev0F1),
     (SIL_RESERVED2_1384, SIL_RESERVED2_1124, SIL_RESERVED2_1125, CfgAcsEnDev0F1),
     (SIL_RESERVED2_1384, SIL_RESERVED2_1128, SIL_RESERVED2_1129, CfgAtsEnDev0F1),
     (SIL_RESERVED2_1384, SIL_RESERVED2_1132, SIL_RESERVED2_1133, CfgPasidEnDev0F1),
     (SIL_RESERVED2_1387, SIL_RESERVED2_1144, SIL_RESERVED2_1145, CfgPwrEnDev0F1),
     (SIL_RESERVED2_1387, SIL_RESERVED2_1146, SIL_RESERVED2_1147, CfgRtrEnDev0F1),
     (SIL_RESERVED2_1384, SIL_RESERVED2_1130, SIL_RESERVED2_1131, CfgPriEnDev0F1),
     (SIL_RESERVED2_1300, SIL_RESERVED2_1029, SIL_RESERVED2_1030, AtcEnable),
     (SIL_RESERVED2_1305, SIL_RESERVED2_1029, SIL_RESERVED2_1030, AtcEnable),
     (SIL_RESERVED2_1353, SIL_RESERVED2_1203, SIL_RESERVED2_1204, AcsEnRccDev0),
     (SIL_RESERVED2_1353, SIL_RESERVED2_1205, SIL_RESERVED2_1206, AerEnRccDev0),
     (SIL_RESERVED2_1403, SIL_RESERVED2_1203, SIL_RESERVED2_1204, AcsEnRccDev0),
     (SIL_RESERVED2_1403, SIL_RESERVED2_1205, SIL_RESERVED2_1206, AerEnRccDev0)]"

definition nbif_options_2 :: "nbif_option list" where
  "nbif_options_2 =
    [(SIL_RESERVED2_1356, SIL_RESERVED2_1224, SIL_RESERVED2_1225, AcsSourceValStrap5),
     (SIL_RESERVED2_1356, SIL_RESERVED2_1226, SIL_RESERVED2_1227, AcsTranslationalBlockingStrap5),
     (SIL_RESERVED2_1356, SIL_RESERVED2_1222, SIL_RESERVED2_1223, AcsP2pReqStrap5),
     (SIL_RESERVED2_1356, SIL_RESERVED2_1218, SIL_RESERVED2_1219, AcsP2pCompStrap5),
     (SIL_RESERVED2_1356, SIL_RESERVED2_1228, SIL_RESERVED2_1229, AcsUpstreamFwdStrap5),
     (SIL_RESERVED2_1356, SIL_RESERVED2_1220, SIL_RESERVED2_1221, AcsP2PEgressStrap5),
     (SIL_RESERVED2_1356, SIL_RESERVED2_1216, SIL_RESERVED2_1217, AcsDirectTranslatedStrap5),
     (SIL_RESERVED2_1356, SIL_RESERVED2_1230, SIL_RESERVED2_1231, AcsSsidEnStrap5),
     (SIL_RESERVED2_1406, SIL_RESERVED2_1224, SIL_RESERVED2_1225, AcsSourceValStrap5),
     (SIL_RESERVED2_1406, SIL_RESERVED2_1226, SIL_RESERVED2_1227, AcsTranslationalBlockingStrap5),
     (SIL_RESERVED2_1406, SIL_RESERVED2_1222, SIL_RESERVED2_1223, AcsP2pReqStrap5),
     (SIL_RESERVED2_1406, SIL_RESERVED2_1218, SIL_RESERVED2_1219, AcsP2pCompStrap5),
     (SIL_RESERVED2_1406, SIL_RESERVED2_1228, SIL_RESERVED2_1229, AcsUpstreamFwdStrap5),
     (SIL_RESERVED2_1406, SIL_RESERVED2_1220, SIL_RESERVED2_1221, AcsP2PEgressStrap5),
     (SIL_RESERVED2_1406, SIL_RESERVED2_1216, SIL_RESERVED2_1217, AcsDirectTranslatedStrap5),
     (SIL_RESERVED2_1406, SIL_RESERVED2_1230, SIL_RESERVED2_1231, AcsSsidEnStrap5),
     (SIL_RESERVED2_1326, SIL_RESERVED2_1096, SIL_RESERVED2_1097, DlfEnStrap1),
     (SIL_RESERVED2_1326, SIL_RESERVED2_1100, SIL_RESERVED2_1101, Phy16gtStrap1),
     (SIL_RESERVED2_1326, SIL_RESERVED2_1098, SIL_RESERVED2_1099, MarginEnStrap1),
     (SIL_RESERVED2_1379, SIL_RESERVED2_1096, SIL_RESERVED2_1097, DlfEnStrap1),
     (SIL_RESERVED2_1379, SIL_RESERVED2_1100, SIL_RESERVED2_1101, Phy16gtStrap1),
     (SIL_RESERVED2_1379, SIL_RESERVED2_1098, SIL_RESERVED2_1099, MarginEnStrap1),
     (SIL_RESERVED2_1424, SIL_RESERVED2_1096, SIL_RESERVED2_1097, DlfEnStrap1),
     (SIL_RESERVED2_1424, SIL_RESERVED2_1100, SIL_RESERVED2_1101, Phy16gtStrap1)]"

definition nbif_options_3 :: "nbif_option list" where
  "nbif_options_3 =
    [(SIL_RESERVED2_1424, SIL_RESERVED2_1098, SIL_RESERVED2_1099, MarginEnStrap1),
     (SIL_RESERVED2_1301, SIL_RESERVED2_1070, SIL_RESERVED2_1071, PriEnPageReq),
     (SIL_RESERVED2_1306, SIL_RESERVED2_1070, SIL_RESERVED2_1071, PriEnPageReq),
     (SIL_RESERVED2_1301, SIL_RESERVED2_1072, SIL_RESERVED2_1073, PriResetPageReq),
     (SIL_RESERVED2_1306, SIL_RESERVED2_1072, SIL_RESERVED2_1073, PriResetPageReq),
     (SIL_RESERVED2_1299, SIL_RESERVED2_1017, SIL_RESERVED2_1019, AcsSourceVal),
     (SIL_RESERVED2_1299, SIL_RESERVED2_1021, SIL_RESERVED2_1023, AcsTranslationalBlocking),
     (SIL_RESERVED2_1299, SIL_RESERVED2_1013, SIL_RESERVED2_1015, AcsP2pReq),
     (SIL_RESERVED2_1299, SIL_RESERVED2_1005, SIL_RESERVED2_1007, AcsP2pComp),
     (SIL_RESERVED2_1299, SIL_RESERVED2_1025, SIL_RESERVED2_1027, AcsUpstreamFwd),
     (SIL_RESERVED2_1299, SIL_RESERVED2_1009, SIL_RESERVED2_1011, AcsP2PEgress),
     (SIL_RESERVED2_1304, SIL_RESERVED2_1017, SIL_RESERVED2_1019, AcsSourceVal),
     (SIL_RESERVED2_1304, SIL_RESERVED2_1021, SIL_RESERVED2_1023, AcsTranslationalBlocking),
     (SIL_RESERVED2_1304, SIL_RESERVED2_1013, SIL_RESERVED2_1015, AcsP2pReq),
     (SIL_RESERVED2_1304, SIL_RESERVED2_1005, SIL_RESERVED2_1007, AcsP2pComp),
     (SIL_RESERVED2_1304, SIL_RESERVED2_1025, SIL_RESERVED2_1027, AcsUpstreamFwd),
     (SIL_RESERVED2_1304, SIL_RESERVED2_1009, SIL_RESERVED2_1011, AcsP2PEgress),
     (SIL_RESERVED2_1309, SIL_RESERVED2_1017, SIL_RESERVED2_1019, AcsSourceValStrap5),
     (SIL_RESERVED2_1309, SIL_RESERVED2_1021, SIL_RESERVED2_1023, AcsTranslationalBlocking),
     (SIL_RESERVED2_1309, of_nat SIL_RESERVED2_1015, unat SIL_RESERVED2_1013, AcsP2pReq),
     (SIL_RESERVED2_1309, SIL_RESERVED2_1005, SIL_RESERVED2_1007, AcsP2pComp),
     (SIL_RESERVED2_1309, SIL_RESERVED2_1025, SIL_RESERVED2_1027, AcsUpstreamFwd),
     (SIL_RESERVED2_1309, SIL_RESERVED2_1009, SIL_RESERVED2_1011, AcsP2PEgress),
     (SIL_RESERVED2_1354, SIL_RESERVED2_1207, SIL_RESERVED2_1208, RccDev0E2EPrefix)]"

definition nbif_options_4 :: "nbif_option list" where
  "nbif_options_4 =
    [(SIL_RESERVED2_1404, SIL_RESERVED2_1207, SIL_RESERVED2_1208, RccDev0E2EPrefix),
     (SIL_RESERVED2_1354, SIL_RESERVED2_1209, SIL_RESERVED2_1210, RccDev0ExtendedFmtSupported),
     (SIL_RESERVED2_1404, SIL_RESERVED2_1209, SIL_RESERVED2_1210, RccDev0ExtendedFmtSupported)]"

definition nbif_options :: "nbif_option list" where
  "nbif_options = nbif_options_1 @ nbif_options_2 @ nbif_options_3 @ nbif_options_4"

definition set_option :: "'h pci_ops \<Rightarrow> memory \<Rightarrow> nat \<Rightarrow> (nbif_strap \<Rightarrow> bool) \<Rightarrow> nbif_option \<Rightarrow> 'h \<Rightarrow> 'h" where
  "set_option ops m GnbHandle cfg = (\<lambda>(Address, Mask, Offset, Strap).
     xUSLSmnReadModifyWrite ops (gnb_Segment m GnbHandle) (gnb_Bus m GnbHandle) (NBIO_SPACE m GnbHandle Address) (NOT Mask)
       (push_bit Offset (if cfg Strap then 1 else 0)))"

definition NbifConfigureCommonOptions ::
  "'h pci_ops \<Rightarrow> memory \<Rightarrow> nat \<Rightarrow> (nbif_strap \<Rightarrow> bool) \<Rightarrow> 'h \<Rightarrow> 'h" where
  "NbifConfigureCommonOptions ops m GnbHandle cfg h =
     (let h = xUSLSmnReadModifyWrite ops (gnb_Segment m GnbHandle) (gnb_Bus m GnbHandle) (NBIO_SPACE m GnbHandle SIL_RESERVED2_1358)
                (NOT (SIL_RESERVED2_1237 OR SIL_RESERVED2_1233 OR SIL_RESERVED2_1235))
                (push_bit SIL_RESERVED2_1238 (gnb_Bus m GnbHandle) OR push_bit SIL_RESERVED2_1234 7 OR push_bit SIL_RESERVED2_1236 1) h
      in fold (set_option ops m GnbHandle cfg) nbif_options h)"

end
