(* ===== verification/Sil_Cpu.thy ===== *)
theory Sil_Cpu
  imports Sil_Bitfield Sil_MsrReg
begin

text \<open>
  The processor services of the library: CPUID queries (\<^verbatim>\<open>CpuOps64.nasm\<close>), model-specific register updates
  (\<^verbatim>\<open>CpuOps.c\<close>), the role of the running core (\<^verbatim>\<open>xUslCcxRoles.c\<close>), logical identifiers
  (\<^verbatim>\<open>SocLogicalId.c\<close>, \<^verbatim>\<open>BaseSocLogicalIdXlat.c\<close>) and P-states (\<^verbatim>\<open>Pstates.c\<close>). The instructions CPUID,
  RDMSR and WRMSR are parameters over a hardware state.
\<close>

section \<open>Instructions\<close>

record cpuid_regs =
  EAX :: u32
  EBX :: u32

record 'h cpu_ops =
  cpu_cpuid :: "u32 \<Rightarrow> cpuid_regs"
  cpu_rdmsr :: "u32 \<Rightarrow> 'h \<Rightarrow> u64 \<times> 'h"
  cpu_wrmsr :: "u32 \<Rightarrow> u64 \<Rightarrow> 'h \<Rightarrow> 'h"

definition RAW_FAMILY_ID_MASK :: u32 where "RAW_FAMILY_ID_MASK = 0x0FFF0F00"
definition AMD_F19_GENOA_RAW_ID :: u32 where "AMD_F19_GENOA_RAW_ID = 0x00AA0F00"

definition xUslGetRawIdOnExecutingCore :: "'h cpu_ops \<Rightarrow> u32" where
  "xUslGetRawIdOnExecutingCore cpu = EAX (cpu_cpuid cpu 0x80000001)"

text \<open>The C prototype returns \<^verbatim>\<open>uint8_t\<close>, so 256 threads read as 0.\<close>

definition xUslGetThreadsPerCore :: "'h cpu_ops \<Rightarrow> u8" where
  "xUslGetThreadsPerCore cpu = ucast ((drop_bit 8 (EBX (cpu_cpuid cpu 0x8000001E)) AND 0xFF) + 1)"

definition xUslGetInitialApicId :: "'h cpu_ops \<Rightarrow> u32" where
  "xUslGetInitialApicId cpu = drop_bit 24 (EBX (cpu_cpuid cpu 1)) AND 0xFF"

definition xUslGetProcessorId :: "'h cpu_ops \<Rightarrow> u32" where
  "xUslGetProcessorId cpu =
     (let eax = EAX (cpu_cpuid cpu 0x80000001); ebx = drop_bit 8 (eax AND 0x0FFF0000)
      in (eax AND 0xFF) OR ebx)"

section \<open>Model-specific registers\<close>

definition xUslMsrOr :: "'h cpu_ops \<Rightarrow> u32 \<Rightarrow> u64 \<Rightarrow> 'h \<Rightarrow> 'h" where
  "xUslMsrOr cpu Index OrData h = (let (v, h) = cpu_rdmsr cpu Index h in cpu_wrmsr cpu Index (v OR OrData) h)"

definition xUslMsrAnd :: "'h cpu_ops \<Rightarrow> u32 \<Rightarrow> u64 \<Rightarrow> 'h \<Rightarrow> 'h" where
  "xUslMsrAnd cpu Index AndData h = (let (v, h) = cpu_rdmsr cpu Index h in cpu_wrmsr cpu Index (v AND AndData) h)"

definition xUslMsrAndThenOr :: "'h cpu_ops \<Rightarrow> u32 \<Rightarrow> u64 \<Rightarrow> u64 \<Rightarrow> 'h \<Rightarrow> 'h" where
  "xUslMsrAndThenOr cpu Index AndData OrData h =
     (let (v, h) = cpu_rdmsr cpu Index h in cpu_wrmsr cpu Index ((v AND AndData) OR OrData) h)"

section \<open>Roles\<close>

definition MSR_APIC_BAR :: u32 where "MSR_APIC_BAR = 0x1B"

definition xUslIsBsp :: "'h cpu_ops \<Rightarrow> 'h \<Rightarrow> bool \<times> 'h" where
  "xUslIsBsp cpu h = (let (ApicBar, h) = cpu_rdmsr cpu MSR_APIC_BAR h in (ApicBar AND 0x100 \<noteq> 0, h))"

definition xUslIsComputeUnitPrimary :: "'h cpu_ops \<Rightarrow> bool" where
  "xUslIsComputeUnitPrimary cpu =
     (let ThreadsPerCore = ucast (xUslGetThreadsPerCore cpu) :: u32;
          ThreadsPerCore = (if ThreadsPerCore = 0 then 1 else ThreadsPerCore)
      in xUslGetInitialApicId cpu mod ThreadsPerCore = 0)"

definition xUslIsCoreComplexPrimary :: "'h cpu_ops \<Rightarrow> bool" where
  "xUslIsCoreComplexPrimary cpu =
     (let ComplexMask = (if xUslGetThreadsPerCore cpu = 1 then 0x7 else 0xF)
      in xUslGetInitialApicId cpu AND ComplexMask = 0)"

definition xUslIsSocketPrimary :: "'h cpu_ops \<Rightarrow> bool" where
  "xUslIsSocketPrimary cpu =
     (let SocketMask = (if xUslGetThreadsPerCore cpu = 1 then 0x3F else 0x7F)
      in xUslGetInitialApicId cpu AND SocketMask = 0)"

definition xUslIsDiePrimary :: "'h cpu_ops \<Rightarrow> bool" where
  "xUslIsDiePrimary cpu = xUslIsSocketPrimary cpu"

text \<open>The roles are nested: the masks select ever more low bits of the APIC identifier.\<close>

lemma and_mask_weaken:
  fixes x :: u32
  assumes "x AND mask n = 0" and "m \<le> n"
  shows "x AND mask m = 0"
proof (rule bit_word_eqI)
  fix i assume "i < LENGTH(32)"
  have "bit (x AND mask n) i = bit (0 :: u32) i" using assms(1) by simp
  then show "bit (x AND mask m) i = bit (0 :: u32) i" using assms(2) by (auto simp: bit_simps)
qed

lemma socket_primary_complex: "xUslIsSocketPrimary cpu \<Longrightarrow> xUslIsCoreComplexPrimary cpu"
proof -
  have m: "(0x7 :: u32) = mask 3" "(0xF :: u32) = mask 4" "(0x3F :: u32) = mask 6" "(0x7F :: u32) = mask 7"
    by (simp_all add: mask_eq_exp_minus_1)
  assume "xUslIsSocketPrimary cpu"
  then show ?thesis
    unfolding xUslIsSocketPrimary_def xUslIsCoreComplexPrimary_def Let_def m
    by (auto split: if_splits elim!: and_mask_weaken)
qed

lemma complex_primary_compute_unit:
  assumes "xUslIsCoreComplexPrimary cpu" and t: "xUslGetThreadsPerCore cpu \<le> 2"
  shows "xUslIsComputeUnitPrimary cpu"
proof (cases "xUslGetThreadsPerCore cpu = 2")
  case True
  let ?a = "xUslGetInitialApicId cpu"
  have "(0xF :: u32) = mask 4" by (simp add: mask_eq_exp_minus_1)
  then have "?a AND mask 4 = 0"
    using assms(1) True by (simp add: xUslIsCoreComplexPrimary_def Let_def)
  then have "?a AND mask 1 = 0" by (rule and_mask_weaken) simp
  then have "?a mod 2 = 0" by (simp add: and_one_eq)
  then show ?thesis using True by (simp add: xUslIsComputeUnitPrimary_def Let_def)
next
  case False
  have "unat (xUslGetThreadsPerCore cpu) \<le> 2" using t by (simp add: word_le_nat_alt)
  moreover have "unat (xUslGetThreadsPerCore cpu) \<noteq> unat (2 :: u8)"
    using False by (simp only: word_unat_eq_iff [symmetric] not_False_eq_True)
  ultimately have "unat (xUslGetThreadsPerCore cpu) = unat (0 :: u8) \<or> unat (xUslGetThreadsPerCore cpu) = unat (1 :: u8)"
    by simp linarith
  then have "xUslGetThreadsPerCore cpu = 0 \<or> xUslGetThreadsPerCore cpu = 1"
    by (simp only: word_unat_eq_iff [symmetric])
  then show ?thesis by (auto simp: xUslIsComputeUnitPrimary_def Let_def)
qed

section \<open>Logical identifiers\<close>

record LOGICAL_ID =
  id_Family :: u32
  id_Revision :: u16

record SOC_LOGICAL_REVISION_XLAT =
  RawBaseModel :: u8
  RawStepping :: u8
  LogicalRevision :: u16
  LogicalCoreRev :: u16

record SOC_LOGICAL_FAMILY_XLAT =
  RawFamily :: u16
  RawExtModel :: u8
  LogicalFamily :: u32
  LogicalCoreFamily :: u32
  LogicalRevisionTable :: "SOC_LOGICAL_REVISION_XLAT list option"

definition AMD_FAMILY_UNKNOWN :: u32 where "AMD_FAMILY_UNKNOWN = 0x80000000"
definition AMD_REVISION_UNKNOWN :: u16 where "AMD_REVISION_UNKNOWN = 0x8000"
definition AMD_FAMILY_GENOA :: u32 where "AMD_FAMILY_GENOA = 0x1000"
definition AMD_REV_F19_GENOA_A0 :: u16 where "AMD_REV_F19_GENOA_A0 = 0x1"
definition AMD_REV_F19_GENOA_A1 :: u16 where "AMD_REV_F19_GENOA_A1 = 0x2"
definition AMD_REV_F19_GENOA_B0 :: u16 where "AMD_REV_F19_GENOA_B0 = 0x10"
definition AMD_REV_F19_GENOA_B1 :: u16 where "AMD_REV_F19_GENOA_B1 = 0x20"
definition AMD_REV_F19_GENOA_ALL :: u16 where
  "AMD_REV_F19_GENOA_ALL = (AMD_REV_F19_GENOA_A0 OR AMD_REV_F19_GENOA_A1) OR (AMD_REV_F19_GENOA_B0 OR AMD_REV_F19_GENOA_B1)"
definition AMD_CORE_FAMILY_19_ZEN4 :: u32 where "AMD_CORE_FAMILY_19_ZEN4 = 3"
definition AMD_CORE_F19_ZEN4_A0 :: u16 where "AMD_CORE_F19_ZEN4_A0 = 0x100"
definition AMD_CORE_F19_ZEN4_B0 :: u16 where "AMD_CORE_F19_ZEN4_B0 = 0x1000"
definition AMD_CORE_F19_ZEN4_B1 :: u16 where "AMD_CORE_F19_ZEN4_B1 = 0x2000"

lemmas genoa_ids = AMD_FAMILY_UNKNOWN_def AMD_REVISION_UNKNOWN_def AMD_FAMILY_GENOA_def
  AMD_REV_F19_GENOA_A0_def AMD_REV_F19_GENOA_A1_def AMD_REV_F19_GENOA_B0_def AMD_REV_F19_GENOA_B1_def
  AMD_REV_F19_GENOA_ALL_def AMD_CORE_FAMILY_19_ZEN4_def AMD_CORE_F19_ZEN4_A0_def AMD_CORE_F19_ZEN4_B0_def
  AMD_CORE_F19_ZEN4_B1_def

definition SocLogicalRevisionTable :: "SOC_LOGICAL_REVISION_XLAT list" where
  "SocLogicalRevisionTable =
     [\<lparr>RawBaseModel = 1, RawStepping = 1, LogicalRevision = AMD_REV_F19_GENOA_B1, LogicalCoreRev = AMD_CORE_F19_ZEN4_B1\<rparr>,
      \<lparr>RawBaseModel = 1, RawStepping = 0, LogicalRevision = AMD_REV_F19_GENOA_B0, LogicalCoreRev = AMD_CORE_F19_ZEN4_B0\<rparr>,
      \<lparr>RawBaseModel = 0, RawStepping = 1, LogicalRevision = AMD_REV_F19_GENOA_A1, LogicalCoreRev = AMD_CORE_F19_ZEN4_A0\<rparr>,
      \<lparr>RawBaseModel = 0, RawStepping = 0, LogicalRevision = AMD_REV_F19_GENOA_A0, LogicalCoreRev = AMD_CORE_F19_ZEN4_A0\<rparr>,
      \<lparr>RawBaseModel = 0, RawStepping = 0, LogicalRevision = AMD_REVISION_UNKNOWN, LogicalCoreRev = 0\<rparr>]"

definition SocLogicalFamilyTable :: "SOC_LOGICAL_FAMILY_XLAT list" where
  "SocLogicalFamilyTable =
     [\<lparr>RawFamily = 0x19, RawExtModel = 1, LogicalFamily = AMD_FAMILY_GENOA,
        LogicalCoreFamily = AMD_CORE_FAMILY_19_ZEN4, LogicalRevisionTable = Some SocLogicalRevisionTable\<rparr>,
      \<lparr>RawFamily = 0, RawExtModel = 0, LogicalFamily = AMD_FAMILY_UNKNOWN,
        LogicalCoreFamily = AMD_FAMILY_UNKNOWN, LogicalRevisionTable = None\<rparr>]"

text \<open>The inner loop: the first entry unless a later one before the end marker matches.\<close>

fun find_revision ::
  "SOC_LOGICAL_REVISION_XLAT \<Rightarrow> u8 \<Rightarrow> u8 \<Rightarrow> SOC_LOGICAL_REVISION_XLAT list \<Rightarrow> SOC_LOGICAL_REVISION_XLAT option" where
  "find_revision Revision model stepping [] = None"
| "find_revision Revision model stepping (r # rs) =
     (if LogicalRevision r = AMD_REVISION_UNKNOWN then Some Revision
      else if model = RawBaseModel r \<and> stepping = RawStepping r then Some r
      else find_revision Revision model stepping rs)"

text \<open>The outer loop. The outer option is a walk past the end of a table, the inner one \<^verbatim>\<open>EntriesFound\<close>.\<close>

fun find_family ::
  "u16 \<Rightarrow> u8 \<Rightarrow> u8 \<Rightarrow> u8 \<Rightarrow> SOC_LOGICAL_FAMILY_XLAT list
     \<Rightarrow> (SOC_LOGICAL_FAMILY_XLAT \<times> SOC_LOGICAL_REVISION_XLAT) option option" where
  "find_family fam ext model stepping [] = None"
| "find_family fam ext model stepping (f # fs) =
     (case LogicalRevisionTable f of
        None \<Rightarrow> Some None
      | Some revs \<Rightarrow>
          if fam = RawFamily f \<and> ext = RawExtModel f
          then do { r \<leftarrow> find_revision (hd revs) model stepping revs; Some (Some (f, r)) }
          else find_family fam ext model stepping fs)"

definition SocFindApplicableLogicalTableEntries ::
  "u32 \<Rightarrow> (SOC_LOGICAL_FAMILY_XLAT \<times> SOC_LOGICAL_REVISION_XLAT) option option" where
  "SocFindApplicableLogicalTableEntries RawId =
     (let fam = ucast (drop_bit 8 (RawId AND 0x00000F00) + drop_bit 20 (RawId AND 0x0FF00000));
          model = ucast (drop_bit 4 (RawId AND 0x000000F0));
          ext = ucast (drop_bit 16 (RawId AND 0x000F0000));
          stepping = ucast (RawId AND 0x0000000F)
      in find_family fam ext model stepping SocLogicalFamilyTable)"

text \<open>The output parameter keeps its value when the family is unknown.\<close>

definition SocConvertRawToLogical :: "u32 \<Rightarrow> LOGICAL_ID \<Rightarrow> (bool \<times> LOGICAL_ID) option" where
  "SocConvertRawToLogical RawId LogicalId =
     map_option (\<lambda>x. case x of None \<Rightarrow> (False, LogicalId)
       | Some (f, r) \<Rightarrow> (True, \<lparr>id_Family = LogicalFamily f, id_Revision = LogicalRevision r\<rparr>))
     (SocFindApplicableLogicalTableEntries RawId)"

definition BaseCoreConvertRawToLogical :: "u32 \<Rightarrow> LOGICAL_ID \<Rightarrow> (bool \<times> LOGICAL_ID) option" where
  "BaseCoreConvertRawToLogical RawId LogicalId =
     map_option (\<lambda>x. case x of None \<Rightarrow> (False, LogicalId)
       | Some (f, r) \<Rightarrow> (True, \<lparr>id_Family = LogicalCoreFamily f, id_Revision = LogicalCoreRev r\<rparr>))
     (SocFindApplicableLogicalTableEntries RawId)"

text \<open>The services take a pointer, \<open>None\<close> for \<^verbatim>\<open>NULL\<close>.\<close>

definition id_service ::
  "(u32 \<Rightarrow> LOGICAL_ID \<Rightarrow> (bool \<times> LOGICAL_ID) option) \<Rightarrow> u32 \<Rightarrow> LOGICAL_ID option \<Rightarrow> (SIL_STATUS \<times> LOGICAL_ID option) option" where
  "id_service convert RawId LogicalId =
     (case LogicalId of
        None \<Rightarrow> Some (SilInvalidParameter, None)
      | Some l \<Rightarrow> do { (ok, l) \<leftarrow> convert RawId l;
                       Some (if ok then SilPass else SilDeviceError, Some l) })"

definition GetSocLogicalIdOnCurrentCore ::
  "'h cpu_ops \<Rightarrow> LOGICAL_ID option \<Rightarrow> (SIL_STATUS \<times> LOGICAL_ID option) option" where
  "GetSocLogicalIdOnCurrentCore cpu LogicalId =
     id_service SocConvertRawToLogical (xUslGetRawIdOnExecutingCore cpu) LogicalId"

definition GetCoreLogicalIdOnCurrentCore ::
  "'h cpu_ops \<Rightarrow> LOGICAL_ID option \<Rightarrow> (SIL_STATUS \<times> LOGICAL_ID option) option" where
  "GetCoreLogicalIdOnCurrentCore cpu CoreLogicalId =
     id_service BaseCoreConvertRawToLogical (xUslGetRawIdOnExecutingCore cpu) CoreLogicalId"

text \<open>\<open>LogicalId\<close> is the value of the uninitialised local variable.\<close>

definition SocFamilyIdCheck :: "'h cpu_ops \<Rightarrow> LOGICAL_ID \<Rightarrow> u32 \<Rightarrow> bool option" where
  "SocFamilyIdCheck cpu LogicalId SocFamilyId =
     do { (Status, l) \<leftarrow> GetSocLogicalIdOnCurrentCore cpu (Some LogicalId);
          Some (Status = SilPass \<and> map_option id_Family l = Some SocFamilyId) }"

text \<open>Both tables are searched to their end markers: the search always returns.\<close>

lemma find_revision_genoa:
  "find_revision d model stepping SocLogicalRevisionTable =
     Some (if model = 1 \<and> stepping = 1 then SocLogicalRevisionTable ! 0
           else if model = 1 \<and> stepping = 0 then SocLogicalRevisionTable ! 1
           else if model = 0 \<and> stepping = 1 then SocLogicalRevisionTable ! 2
           else if model = 0 \<and> stepping = 0 then SocLogicalRevisionTable ! 3 else d)"
  by (simp add: SocLogicalRevisionTable_def genoa_ids)

lemma find_family_genoa:
  "find_family fam ext model stepping SocLogicalFamilyTable =
     Some (if fam = 0x19 \<and> ext = 1
           then Some (hd SocLogicalFamilyTable,
             the (find_revision (hd SocLogicalRevisionTable) model stepping SocLogicalRevisionTable)) else None)"
  by (simp add: SocLogicalFamilyTable_def find_revision_genoa)

section \<open>P-states\<close>

definition MSR_PSTATE_CURLIM_ADDRESS :: u32 where "MSR_PSTATE_CURLIM_ADDRESS = 0xC0010061"
definition MSR_PSTATE_CTL_ADDRESS :: u32 where "MSR_PSTATE_CTL_ADDRESS = 0xC0010062"
definition MSR_PSTATE_STATUS_ADDRESS :: u32 where "MSR_PSTATE_STATUS_ADDRESS = 0xC0010063"
definition MSR_PSTATE_DEF_ADDRESS :: u32 where "MSR_PSTATE_DEF_ADDRESS = 0xC0010064"
definition SIL_RESERVED2_913 :: u32 where "SIL_RESERVED2_913 = 0xC0010293"

definition pstate_CpuFid :: "u64 \<Rightarrow> u64" where "pstate_CpuFid v = get_field 0 8 v"
definition pstate_CpuDfsId :: "u64 \<Rightarrow> u64" where "pstate_CpuDfsId v = get_field 8 6 v"
definition pstate_CpuVid :: "u64 \<Rightarrow> u64" where "pstate_CpuVid v = get_field 14 8 v"
definition pstate_IddValue :: "u64 \<Rightarrow> u64" where "pstate_IddValue v = get_field 22 8 v"
definition pstate_IddDiv :: "u64 \<Rightarrow> u64" where "pstate_IddDiv v = get_field 30 2 v"
definition pstate_En :: "u64 \<Rightarrow> u64" where "pstate_En v = get_field 63 1 v"

text \<open>The output parameters of \<^verbatim>\<open>GetPstateInfo\<close>.\<close>

record pstate_info =
  ps_Frequency :: u32
  ps_VoltageInuV :: u32
  ps_PowerInmW :: u32
  ps_Status :: bool

definition pstate_frequency :: "u32 \<Rightarrow> u32 \<Rightarrow> u32" where
  "pstate_frequency CpuFid CpuDfsId =
     (if CpuDfsId = 0 then 0
      else if 8 \<le> CpuDfsId \<and> CpuDfsId \<le> 0x3C then (200 * CpuFid) div CpuDfsId
      else 25 * CpuFid)"

definition pstate_voltage :: "u32 \<Rightarrow> u32" where
  "pstate_voltage CpuVid = (if 0xF8 \<le> CpuVid \<and> CpuVid \<le> 0xFF then 0 else 1550000 - 6250 * CpuVid)"

definition GetPstateInfo ::
  "bool \<Rightarrow> 'h cpu_ops \<Rightarrow> u32 \<Rightarrow> pstate_info \<Rightarrow> 'h \<Rightarrow> (SIL_STATUS \<times> pstate_info \<times> 'h) option" where
  "GetPstateInfo dbg cpu PstateNumber out h =
     (let (PstateMsr, h) = cpu_rdmsr cpu (MSR_PSTATE_DEF_ADDRESS + PstateNumber) h
      in if pstate_En PstateMsr = 0 then Some (SilPass, out\<lparr>ps_Status := False\<rparr>, h)
      else let CpuFid = ucast (pstate_CpuFid PstateMsr); CpuDfsId = ucast (pstate_CpuDfsId PstateMsr);
               CpuVid = ucast (pstate_CpuVid PstateMsr); IddValue = ucast (pstate_IddValue PstateMsr);
               IddDiv = ucast (pstate_IddDiv PstateMsr) :: u32
      in if 0x1A < CpuDfsId \<and> CpuDfsId AND 1 = 1
         then do { c_assert dbg (CpuDfsId \<le> 0x1A \<or> CpuDfsId AND 1 = 0); Some (SilAborted, out, h) }
      else let out = out\<lparr>ps_Frequency := pstate_frequency CpuFid CpuDfsId\<rparr>;
               out = out\<lparr>ps_VoltageInuV := pstate_voltage CpuVid\<rparr>;
               out = out\<lparr>ps_PowerInmW := ps_VoltageInuV out div 10 * IddValue\<rparr>
      in if IddDiv = 0
         then Some (SilPass, out\<lparr>ps_PowerInmW := ps_PowerInmW out div 100, ps_Status := True\<rparr>, h)
         else if IddDiv = 1
         then Some (SilPass, out\<lparr>ps_PowerInmW := ps_PowerInmW out div 1000, ps_Status := True\<rparr>, h)
         else if IddDiv = 2
         then Some (SilPass, out\<lparr>ps_PowerInmW := ps_PowerInmW out div 10000, ps_Status := True\<rparr>, h)
         else do { c_assert dbg (IddDiv < 3); Some (SilAborted, out\<lparr>ps_PowerInmW := 0\<rparr>, h) })"

definition GetPstateNumber :: "'h cpu_ops \<Rightarrow> 'h \<Rightarrow> (u32 \<times> u32) \<times> 'h" where
  "GetPstateNumber cpu h =
     (let (CurLim, h) = cpu_rdmsr cpu MSR_PSTATE_CURLIM_ADDRESS h in ((0, ucast (get_field 4 3 CurLim)), h))"

text \<open>A wait loop reads the register until the condition fails; a division by zero in it is \<open>None\<close>.\<close>

partial_function (option) msr_wait ::
  "'h cpu_ops \<Rightarrow> u32 \<Rightarrow> (u64 \<Rightarrow> bool option) \<Rightarrow> 'h \<Rightarrow> 'h option" where
  "msr_wait cpu Index again h =
     (let (v, h) = cpu_rdmsr cpu Index h
      in do { b \<leftarrow> again v; if b then msr_wait cpu Index again h else Some h })"

definition div_checked :: "u64 \<Rightarrow> u64 \<Rightarrow> u64 option" where
  "div_checked a b = (if b = 0 then None else Some (a div b))"

definition pstate_differs :: "u64 \<Rightarrow> u64 \<Rightarrow> bool option" where
  "pstate_differs PstateMsr v = Some (get_field 0 8 v \<noteq> pstate_CpuFid PstateMsr \<or> get_field 8 6 v \<noteq> pstate_CpuDfsId PstateMsr)"

definition pstate_slower :: "u64 \<Rightarrow> u64 \<Rightarrow> bool option" where
  "pstate_slower PstateMsr v =
     do { cur \<leftarrow> div_checked (200 * get_field 0 8 v) (get_field 8 6 v);
          want \<leftarrow> div_checked (200 * pstate_CpuFid PstateMsr) (pstate_CpuDfsId PstateMsr);
          Some (cur < want) }"

text \<open>\<open>PstateCtl\<close> is the value of the uninitialised local variable.\<close>

definition SwitchPstate :: "'h cpu_ops \<Rightarrow> u64 \<Rightarrow> u32 \<Rightarrow> bool \<Rightarrow> 'h \<Rightarrow> (SIL_STATUS \<times> 'h) option" where
  "SwitchPstate cpu PstateCtl Pstate WaitForCompletion h =
     (let (PstateMsr, h) = cpu_rdmsr cpu (MSR_PSTATE_DEF_ADDRESS + Pstate) h
      in if pstate_En PstateMsr = 0 then Some (SilInvalidParameter, h)
      else let h = cpu_wrmsr cpu MSR_PSTATE_CTL_ADDRESS (set_field 0 3 (ucast Pstate) PstateCtl) h
      in if WaitForCompletion
         then do { h \<leftarrow> msr_wait cpu SIL_RESERVED2_913
                          (if Pstate \<noteq> 0 then pstate_differs PstateMsr else pstate_slower PstateMsr) h;
                   Some (SilPass, h) }
         else Some (SilPass, h))"

definition GetCurrentPstate :: "'h cpu_ops \<Rightarrow> 'h \<Rightarrow> u8 \<times> 'h" where
  "GetCurrentPstate cpu h =
     (let (PstateSts, h) = cpu_rdmsr cpu MSR_PSTATE_STATUS_ADDRESS h in (ucast (get_field 0 3 PstateSts), h))"

definition GetPstateTransLatency :: "SIL_STATUS \<times> u32" where "GetPstateTransLatency = (SilPass, 0)"

end
