(* ===== verification/Ccx_Table.thy ===== *)
theory Ccx_Table
  imports Sil_Pci Sil_XSim Sil_Cpu
begin

text \<open>
  The register tables of \<^verbatim>\<open>xUSL/CCX/Common/AmdTable.c\<close>: a byte-coded list of entries, each a 16-bit type and
  packed data, that an interpreter applies to the registers of the running core. The model reads the
  bytes from memory and dispatches as the table of functions does. PCI and model-specific registers and
  the SMU and data fabric interfaces are parameters. An undefined shift, a
  call through a null pointer and a loop that does not end are \<open>None\<close>.
\<close>

section \<open>Types\<close>

datatype TABLE_CORE_SELECTOR = AllCores | ComputeUnitPrimary | ComplexPrimary | DiePrimary | PrimaryCores | BscCore

fun selector_val :: "TABLE_CORE_SELECTOR \<Rightarrow> u32" where
  "selector_val AllCores = 0"
| "selector_val ComputeUnitPrimary = 1"
| "selector_val ComplexPrimary = 2"
| "selector_val DiePrimary = 3"
| "selector_val PrimaryCores = 4"
| "selector_val BscCore = 5"

record ENTRY_CRITERIA =
  SocLogicalId :: LOGICAL_ID
  CoreLogicalId :: LOGICAL_ID
  ProfileFeats :: u32
  PlatformFeats :: u32

text \<open>The hardware and the static variable \<^verbatim>\<open>SystemDieNumber\<close>.\<close>

record 'h table_state =
  ts_SystemDieNumber :: u32
  ts_hw :: 'h

text \<open>
  \<open>te_stack\<close> is what the stack holds where a local structure is not initialised; \<open>te_SmuRegisterRMW\<close> and
  \<open>te_DfGetSystemInfo\<close> are the functions in the interface at a pointer.
\<close>

record 'h table_env =
  te_dbg :: bool
  te_pci :: "'h pci_ops"
  te_cpu :: "'h cpu_ops"
  te_sil :: sil_state
  te_SmuRegisterRMW :: "u64 \<Rightarrow> u32 \<Rightarrow> u32 \<Rightarrow> u32 \<Rightarrow> u32 \<Rightarrow> 'h \<Rightarrow> (SIL_STATUS \<times> 'h) option"
  te_DfGetSystemInfo :: "u64 \<Rightarrow> 'h \<Rightarrow> (u32 \<times> 'h) option"
  te_stack :: memory

text \<open>A function that performs an entry: it returns the advanced entry pointer.\<close>

type_synonym 'h do_entry = "'h table_env \<Rightarrow> ENTRY_CRITERIA \<Rightarrow> memory \<Rightarrow> nat \<Rightarrow> 'h table_state
  \<Rightarrow> (nat \<times> 'h table_state) option"

definition AMD_PF_X2APIC :: u32 where "AMD_PF_X2APIC = 0x10"
definition AMD_PF_APIC :: u32 where "AMD_PF_APIC = 0x20"
definition AMD_PF_DIS_IBRS :: u32 where "AMD_PF_DIS_IBRS = 0x40"
definition AMD_PF_BRANCH_SAMPLING :: u32 where "AMD_PF_BRANCH_SAMPLING = 0x100"
definition AMD_PF_AND :: u32 where "AMD_PF_AND = 0x80000000"
definition AMD_PF_ALL :: u32 where
  "AMD_PF_ALL = AMD_PF_X2APIC OR AMD_PF_APIC OR AMD_PF_DIS_IBRS OR AMD_PF_BRANCH_SAMPLING"
definition PERFORMANCE_AND :: u32 where "PERFORMANCE_AND = 0x80000000"
definition PERFORMANCE_PROFILE_ALL :: u32 where "PERFORMANCE_PROFILE_ALL = 0"
definition SMN_ON_ALL_DIES :: u32 where "SMN_ON_ALL_DIES = 0xFF"

lemmas platform_feat_defs = AMD_PF_X2APIC_def AMD_PF_APIC_def AMD_PF_DIS_IBRS_def AMD_PF_BRANCH_SAMPLING_def
  AMD_PF_AND_def AMD_PF_ALL_def

section \<open>SMN registers\<close>

text \<open>The status of the second lookup is not looked at, as in the code.\<close>

definition SetSmnTableEntry ::
  "'h table_env \<Rightarrow> u32 \<Rightarrow> u32 \<Rightarrow> u32 \<Rightarrow> u32 \<Rightarrow> 'h table_state \<Rightarrow> (SIL_STATUS \<times> 'h table_state) option" where
  "SetSmnTableEntry env InstanceId RegisterIndex RegisterANDValue RegisterORValue s =
     do { (Status, SmuApi) \<leftarrow> SilGetIp2IpApi (te_dbg env) (id_val SilId_SmuClass) (te_sil env);
          if Status \<noteq> SilPass then Some (Status, s)
          else do {
            (_, DfApi) \<leftarrow> SilGetIp2IpApi (te_dbg env) (id_val SilId_DfClass) (te_sil env);
            let rmw = (\<lambda>die s. do { (_, h) \<leftarrow> te_SmuRegisterRMW env SmuApi die RegisterIndex RegisterANDValue
                                                RegisterORValue (ts_hw s);
                                    Some (s\<lparr>ts_hw := h\<rparr>) });
            if InstanceId = SMN_ON_ALL_DIES then
              do { s \<leftarrow> (if ts_SystemDieNumber s = 0xFF
                        then do { (n, h) \<leftarrow> te_DfGetSystemInfo env DfApi (ts_hw s);
                                  Some (s\<lparr>ts_SystemDieNumber := n, ts_hw := h\<rparr>) }
                        else Some s);
                   s \<leftarrow> for_each (\<lambda>d. rmw (of_nat d)) [0..<unat (ts_SystemDieNumber s)] s;
                   Some (SilPass, s) }
            else do { s \<leftarrow> rmw InstanceId s; Some (SilPass, s) } } }"

section \<open>Entries\<close>

definition pci_rmw :: "'h table_env \<Rightarrow> u32 \<Rightarrow> u32 \<Rightarrow> u32 \<Rightarrow> 'h table_state \<Rightarrow> 'h table_state" where
  "pci_rmw env Address Data Mask s =
     (let (PciRegData, h) = xUSLPciRead32 (te_pci env) Address (ts_hw s);
          PciRegData = PciRegData AND NOT Mask; PciRegData = PciRegData OR Data
      in s\<lparr>ts_hw := xUSLPciWrite32 (te_pci env) Address PciRegData h\<rparr>)"

definition SetPciEntry :: "'h do_entry" where
  "SetPciEntry env Criteria m Entry s =
     do { c_assert (te_dbg env) (read32 m (Entry + 8) \<noteq> 0);
          Some (Entry + 12, pci_rmw env (read32 m Entry) (read32 m (Entry + 4)) (read32 m (Entry + 8)) s) }"

definition DoesEntryTypeSpecificInfoMatch :: "u32 \<Rightarrow> u32 \<Rightarrow> bool" where
  "DoesEntryTypeSpecificInfoMatch PlatformTypeSpecificFeatures EntryTypeFeatures =
     (if EntryTypeFeatures AND 0x80000000 = 0 then EntryTypeFeatures AND PlatformTypeSpecificFeatures \<noteq> 0
      else EntryTypeFeatures AND NOT 0x80000000 = EntryTypeFeatures AND PlatformTypeSpecificFeatures)"

definition SetPciProfileFixupEntry :: "'h do_entry" where
  "SetPciProfileFixupEntry env Criteria m Entry s =
     do { c_assert (te_dbg env) (read32 m Entry AND NOT (PERFORMANCE_PROFILE_ALL OR PERFORMANCE_AND) = 0);
          s \<leftarrow> (if DoesEntryTypeSpecificInfoMatch (ProfileFeats Criteria) (read32 m Entry)
                then map_option snd (SetPciEntry env Criteria m (Entry + 4) s) else Some s);
          Some (Entry + 16, s) }"

text \<open>The test of a family and a revision, both bit masks.\<close>

definition rev_match :: "LOGICAL_ID \<Rightarrow> memory \<Rightarrow> nat \<Rightarrow> bool" where
  "rev_match lid m Entry \<longleftrightarrow>
     id_Family lid AND read32 m Entry \<noteq> 0 \<and> id_Revision lid AND read16 m (Entry + 4) \<noteq> 0"

definition SetPciCpuRevEntry :: "'h do_entry" where
  "SetPciCpuRevEntry env Criteria m Entry s =
     do { c_assert (te_dbg env) (read32 m (Entry + 14) \<noteq> 0);
          Some (Entry + 18,
                if rev_match (SocLogicalId Criteria) m Entry
                then pci_rmw env (read32 m (Entry + 6)) (read32 m (Entry + 10)) (read32 m (Entry + 14)) s else s) }"

definition SetMsrEntry :: "'h do_entry" where
  "SetMsrEntry env Criteria m Entry s =
     do { c_assert (te_dbg env) (read64 m (Entry + 12) \<noteq> 0);
          let (MsrVal, h) = cpu_rdmsr (te_cpu env) (read32 m Entry) (ts_hw s);
          let MsrVal = MsrVal AND NOT (read64 m (Entry + 12));
          let MsrVal = MsrVal OR read64 m (Entry + 4);
          Some (Entry + 20, s\<lparr>ts_hw := cpu_wrmsr (te_cpu env) (read32 m Entry) MsrVal h\<rparr>) }"

definition SetMsrCpuRevEntry :: "'h do_entry" where
  "SetMsrCpuRevEntry env Criteria m Entry s =
     do { c_assert (te_dbg env) (read64 m (Entry + 18) \<noteq> 0);
          s \<leftarrow> (if rev_match (SocLogicalId Criteria) m Entry
                then map_option snd (SetMsrEntry env Criteria m (Entry + 6) s) else Some s);
          Some (Entry + 26, s) }"

definition SetMsrCoreRevEntry :: "'h do_entry" where
  "SetMsrCoreRevEntry env Criteria m Entry s =
     do { c_assert (te_dbg env) (read64 m (Entry + 18) \<noteq> 0);
          s \<leftarrow> (if rev_match (CoreLogicalId Criteria) m Entry
                then map_option snd (SetMsrEntry env Criteria m (Entry + 6) s) else Some s);
          Some (Entry + 26, s) }"

definition SetMsrPlatformFeatEntry :: "'h do_entry" where
  "SetMsrPlatformFeatEntry env Criteria m Entry s =
     do { c_assert (te_dbg env) (read32 m Entry AND NOT (AMD_PF_ALL OR AMD_PF_AND) = 0);
          s \<leftarrow> (if DoesEntryTypeSpecificInfoMatch (PlatformFeats Criteria) (read32 m Entry)
                then map_option snd (SetMsrEntry env Criteria m (Entry + 4) s) else Some s);
          Some (Entry + 24, s) }"

definition SetMsrCpuRevPlatformFeatEntry :: "'h do_entry" where
  "SetMsrCpuRevPlatformFeatEntry env Criteria m Entry s =
     do { c_assert (te_dbg env) (read32 m (Entry + 6) AND NOT (AMD_PF_ALL OR AMD_PF_AND) = 0);
          s \<leftarrow> (if rev_match (SocLogicalId Criteria) m Entry
                  \<and> DoesEntryTypeSpecificInfoMatch (PlatformFeats Criteria) (read32 m (Entry + 6))
                then map_option snd (SetMsrEntry env Criteria m (Entry + 10) s) else Some s);
          Some (Entry + 30, s) }"

definition is_bsp :: "'h table_env \<Rightarrow> 'h table_state \<Rightarrow> bool \<times> 'h table_state" where
  "is_bsp env s = (let (b, h) = xUslIsBsp (te_cpu env) (ts_hw s) in (b, s\<lparr>ts_hw := h\<rparr>))"

definition SetSmnEntry :: "'h do_entry" where
  "SetSmnEntry env Criteria m Entry s =
     do { let (IsBsp, s) = is_bsp env s;
          s \<leftarrow> (if IsBsp then
                  do { c_assert (te_dbg env) (read32 m (Entry + 12) \<noteq> 0);
                       map_option snd (SetSmnTableEntry env (read32 m Entry) (read32 m (Entry + 4))
                         (NOT (read32 m (Entry + 12))) (read32 m (Entry + 8)) s) }
                else Some s);
          Some (Entry + 16, s) }"

partial_function (option) smn_multi_loop ::
  "(u32 \<Rightarrow> 's \<Rightarrow> 's option) \<Rightarrow> u32 \<Rightarrow> u32 \<Rightarrow> u32 \<Rightarrow> 's \<Rightarrow> 's option" where
  "smn_multi_loop f RegisterIndexEnd Steps RegisterIndex s =
     (if RegisterIndex \<le> RegisterIndexEnd
      then do { s \<leftarrow> f RegisterIndex s; smn_multi_loop f RegisterIndexEnd Steps (RegisterIndex + Steps) s }
      else Some s)"

definition SetSmnMultiEntry :: "'h do_entry" where
  "SetSmnMultiEntry env Criteria m Entry s =
     do { let (IsBsp, s) = is_bsp env s;
          s \<leftarrow> (if IsBsp then
                  do { c_assert (te_dbg env) (read32 m (Entry + 20) \<noteq> 0);
                       smn_multi_loop
                         (\<lambda>i s. map_option snd (SetSmnTableEntry env (read32 m Entry) i
                            (NOT (read32 m (Entry + 20))) (read32 m (Entry + 16)) s))
                         (read32 m (Entry + 8)) (read32 m (Entry + 12)) (read32 m (Entry + 4)) s }
                else Some s);
          Some (Entry + 24, s) }"

section \<open>Copying a bit field\<close>

text \<open>
  \<^verbatim>\<open>(1 << n) - 1\<close> on \<^verbatim>\<open>int\<close> and shifts of a 64-bit value: undefined for \<open>31 \<le> n\<close> and for counts of 64 or more.
\<close>

definition int_mask :: "nat \<Rightarrow> u64 option" where
  "int_mask n = (if n < 31 then Some (mask n) else None)"

definition shr64 :: "u64 \<Rightarrow> u8 \<Rightarrow> u64 option" where
  "shr64 x n = (if unat n < 64 then Some (drop_bit (unat n) x) else None)"

definition shl64 :: "u64 \<Rightarrow> u8 \<Rightarrow> u64 option" where
  "shl64 x n = (if unat n < 64 then Some (push_bit (unat n) x) else None)"

text \<open>The bounds of the field at a descriptor: the assertion holds when they are in order.\<close>

definition field_bounds :: "bool \<Rightarrow> memory \<Rightarrow> nat \<Rightarrow> (u8 \<times> u8) option" where
  "field_bounds dbg m d =
     (let MSB = m (d + 6); LSB = m (d + 7)
      in if LSB \<le> MSB then Some (MSB, LSB) else do { c_assert dbg False; Some (LSB, MSB) })"

partial_function (option) CopyBitFieldEntry ::
  "'h table_env \<Rightarrow> ENTRY_CRITERIA \<Rightarrow> memory \<Rightarrow> nat \<Rightarrow> 'h table_state \<Rightarrow> (nat \<times> 'h table_state) option" where
  "CopyBitFieldEntry env Criteria m Entry s =
     (let Source = Entry + 8; Destination = Entry;
          SrcType = read16 m Source; DstType = read16 m Destination
      in if SrcType \<noteq> 3 \<and> SrcType \<noteq> 0 then do { c_assert (te_dbg env) False; Some (Entry, s) }
      else let dh = (if SrcType = 3 then cpu_rdmsr (te_cpu env) (read32 m (Source + 2)) (ts_hw s)
                     else (let vh = xUSLPciRead32 (te_pci env) (read32 m (Source + 2)) (ts_hw s)
                           in (ucast (fst vh), snd vh)));
               s = s\<lparr>ts_hw := snd dh\<rparr>
      in do { (hi, lo) \<leftarrow> field_bounds (te_dbg env) m Source;
              SourceMask \<leftarrow> int_mask (unat hi - unat lo + 1);
              shifted \<leftarrow> shr64 (fst dh) lo;
              let SourceData = shifted AND SourceMask;
              (hi, lo) \<leftarrow> field_bounds (te_dbg env) m Destination;
              w \<leftarrow> int_mask (unat hi - unat lo + 1);
              DestMask \<leftarrow> shl64 w lo;
              DestData \<leftarrow> shl64 SourceData lo;
              if DestMask < SourceMask then do { c_assert (te_dbg env) False; Some (Entry, s) }
              else if DstType = 3 then
                do { (_, s) \<leftarrow> SetMsrEntry env Criteria
                       (write64 (write64 (write32 (te_stack env) 0 (read32 m (Destination + 2))) 4 DestData) 12 DestMask)
                       0 s;
                     Some (Entry + 16, s) }
              else if DstType = 0 then
                do { (_, s) \<leftarrow> SetPciEntry env Criteria
                       (write32 (write32 (write32 (te_stack env) 0 (read32 m (Destination + 2))) 4 (ucast DestData)) 8
                          (ucast DestMask)) 0 s;
                     Some (Entry + 16, s) }
              else if DstType = 10 then
                do { (_, s) \<leftarrow> CopyBitFieldEntry env Criteria
                       (write32 (write32 (write32 (te_stack env) 0 (read32 m (Destination + 2))) 4 (ucast DestData)) 8
                          (ucast DestMask)) 0 s;
                     Some (Entry + 16, s) }
              else do { c_assert (te_dbg env) False; Some (Entry, s) } })"

section \<open>The interpreter\<close>

text \<open>
  \<^verbatim>\<open>DoTableEntry\<close> has \<^verbatim>\<open>TableEntryTypeMax\<close> (13) elements and 11 initialisers: the two SMU index types have
  none, so \<^verbatim>\<open>CopyBitFieldEntry\<close> is at the index of \<^verbatim>\<open>SmuIndexRegister\<close> (10) and the last two are null.
\<close>

definition TableTerminator :: u16 where "TableTerminator = 0xFFFF"
definition TableEntryTypeMax :: u16 where "TableEntryTypeMax = 13"

definition DoTableEntry :: "u16 \<Rightarrow> 'h do_entry" where
  "DoTableEntry EntryType =
     (if EntryType = 0 then SetPciEntry
      else if EntryType = 1 then SetPciProfileFixupEntry
      else if EntryType = 2 then SetPciCpuRevEntry
      else if EntryType = 3 then SetMsrEntry
      else if EntryType = 4 then SetMsrCpuRevEntry
      else if EntryType = 5 then SetMsrCoreRevEntry
      else if EntryType = 6 then SetMsrPlatformFeatEntry
      else if EntryType = 7 then SetMsrCpuRevPlatformFeatEntry
      else if EntryType = 8 then SetSmnEntry
      else if EntryType = 9 then SetSmnMultiEntry
      else if EntryType = 10 then CopyBitFieldEntry
      else (\<lambda>env Criteria m Entry s. None))"

text \<open>An invalid type trips the assertion; without assertions the loop never ends. Both are \<open>None\<close>.\<close>

partial_function (option) SetRegistersFromTable ::
  "'h table_env \<Rightarrow> ENTRY_CRITERIA \<Rightarrow> memory \<Rightarrow> nat \<Rightarrow> 'h table_state \<Rightarrow> 'h table_state option" where
  "SetRegistersFromTable env Criteria m Entries s =
     (let EntryType = read16 m Entries
      in if EntryType = TableTerminator then Some s
         else if EntryType < TableEntryTypeMax
         then do { (Entries, s) \<leftarrow> DoTableEntry EntryType env Criteria m (Entries + 2) s;
                   SetRegistersFromTable env Criteria m Entries s }
         else None)"

section \<open>Lists of tables\<close>

text \<open>
  A list of tables is a list of selector and address; the null pointer at its end is the end of the
  list. A handle is a position; \<open>None\<close> is \<^verbatim>\<open>NULL\<close>.
\<close>

type_synonym table_list = "(u32 \<times> nat) list"

definition skip_tables :: "u32 \<Rightarrow> table_list \<Rightarrow> nat \<Rightarrow> nat" where
  "skip_tables Selector tabs i = i + length (takeWhile (\<lambda>t. fst t \<noteq> Selector) (drop i tabs))"

definition GetNextRegisterTable :: "TABLE_CORE_SELECTOR \<Rightarrow> table_list \<Rightarrow> nat option \<Rightarrow> nat \<times> nat option" where
  "GetNextRegisterTable Selector tabs RegisterTableHandle =
     (let NextTable = skip_tables (selector_val Selector) tabs
            (case RegisterTableHandle of None \<Rightarrow> 0 | Some i \<Rightarrow> i + 1)
      in (NextTable, if NextTable < length tabs then Some NextTable else None))"

definition IsCoreSelector :: "'h table_env \<Rightarrow> TABLE_CORE_SELECTOR \<Rightarrow> 'h table_state \<Rightarrow> bool \<times> 'h table_state" where
  "IsCoreSelector env Selector s =
     (let Result = True;
          Result = (if Selector = PrimaryCores \<and> \<not> xUslIsSocketPrimary (te_cpu env) then False else Result);
          Result = (if Selector = DiePrimary \<and> \<not> xUslIsDiePrimary (te_cpu env) then False else Result);
          Result = (if Selector = ComplexPrimary \<and> \<not> xUslIsCoreComplexPrimary (te_cpu env) then False else Result);
          Result = (if Selector = ComputeUnitPrimary \<and> \<not> xUslIsComputeUnitPrimary (te_cpu env) then False else Result)
      in if Selector = BscCore
         then let (IsBsp, s) = is_bsp env s in (if \<not> IsBsp then False else Result, s)
         else (Result, s))"

partial_function (option) tables_loop ::
  "'h table_env \<Rightarrow> ENTRY_CRITERIA \<Rightarrow> memory \<Rightarrow> TABLE_CORE_SELECTOR \<Rightarrow> table_list \<Rightarrow> nat \<Rightarrow> nat option \<Rightarrow> 'h table_state
     \<Rightarrow> 'h table_state option" where
  "tables_loop env Criteria m Selector tabs RegisterTable TableHandle s =
     (if RegisterTable < length tabs then
        do { s \<leftarrow> SetRegistersFromTable env Criteria m (snd (tabs ! RegisterTable)) s;
             let (t, hd) = GetNextRegisterTable Selector tabs TableHandle in
             tables_loop env Criteria m Selector tabs t hd s }
      else Some s)"

primrec selector_loop ::
  "'h table_env \<Rightarrow> ENTRY_CRITERIA \<Rightarrow> memory \<Rightarrow> table_list \<Rightarrow> TABLE_CORE_SELECTOR list \<Rightarrow> 'h table_state
     \<Rightarrow> 'h table_state option" where
  "selector_loop env Criteria m tabs [] s = Some s"
| "selector_loop env Criteria m tabs (Selector # sels) s =
     (let (b, s) = IsCoreSelector env Selector s
      in if b then
           let (t, hd) = GetNextRegisterTable Selector tabs None
           in do { s \<leftarrow> tables_loop env Criteria m Selector tabs t hd s;
                   selector_loop env Criteria m tabs sels s }
         else Some s)"

definition SetRegistersFromTableList ::
  "'h table_env \<Rightarrow> ENTRY_CRITERIA \<Rightarrow> memory \<Rightarrow> table_list \<Rightarrow> 'h table_state \<Rightarrow> 'h table_state option" where
  "SetRegistersFromTableList env Criteria m RegisterTableList s =
     selector_loop env Criteria m RegisterTableList
       [AllCores, ComputeUnitPrimary, ComplexPrimary, DiePrimary, PrimaryCores, BscCore] s"

section \<open>Features and time points\<close>

text \<open>\<^verbatim>\<open>xUSL/AmdFeatures.c\<close>: the features of the platform from the configuration of the CCX block.\<close>

definition GetBasePlatformFeatures :: "u8 \<Rightarrow> bool \<Rightarrow> bool \<Rightarrow> u32" where
  "GetBasePlatformFeatures ApicMode IbrsEn BranchSampling =
     (let f = 0;
          f = (if ApicMode = 1 then set_field 5 1 1 f else if ApicMode = 2 then set_field 4 1 1 f else f);
          f = set_field 6 1 (if IbrsEn then 0 else 1) f
      in set_field 8 1 (if BranchSampling then 1 else 0) f)"

text \<open>The logical identifier it asks for and the environment flag are not used.\<close>

definition GetPlatformFeatures :: "u8 \<Rightarrow> bool \<Rightarrow> bool \<Rightarrow> u32" where
  "GetPlatformFeatures ApicMode IbrsEn BranchSampling = GetBasePlatformFeatures ApicMode IbrsEn BranchSampling"

definition GetPerformanceFeatures :: u32 where "GetPerformanceFeatures = 0"

text \<open>The fields of the CCX input block the criteria are made from.\<close>

record ccx_config =
  AmdApicMode :: u8
  AmdIbrsEn :: bool
  AmdBranchSampling :: bool

datatype REGISTER_TABLE_TIME_POINT = AmdRegisterTableTpBeforeApLaunch | AmdRegisterTableTpAfterApLaunch
  | AmdRegisterTableTpBeforeApLaunchSecureS3 | AmdRegisterTableTpAfterApLaunchSecureS3 | MaxAmdRegisterTableTps

text \<open>
  \<open>Criteria0\<close> is the value of the uninitialised local structure: its identifiers stay when the processor
  family is unknown, because the status of the two queries is not looked at.
\<close>

definition entry_criteria :: "'h table_env \<Rightarrow> ENTRY_CRITERIA \<Rightarrow> ccx_config \<Rightarrow> ENTRY_CRITERIA option" where
  "entry_criteria env Criteria0 cfg =
     do { (_, soc) \<leftarrow> GetSocLogicalIdOnCurrentCore (te_cpu env) (Some (SocLogicalId Criteria0));
          (_, core) \<leftarrow> GetCoreLogicalIdOnCurrentCore (te_cpu env) (Some (CoreLogicalId Criteria0));
          soc \<leftarrow> soc;
          core \<leftarrow> core;
          Some \<lparr>SocLogicalId = soc, CoreLogicalId = core, ProfileFeats = GetPerformanceFeatures,
            PlatformFeats = GetPlatformFeatures (AmdApicMode cfg) (AmdIbrsEn cfg) (AmdBranchSampling cfg)\<rparr> }"

text \<open>The search for the time point; running past the end marker is \<open>None\<close>.\<close>

fun find_time_point ::
  "REGISTER_TABLE_TIME_POINT \<Rightarrow> (REGISTER_TABLE_TIME_POINT \<times> table_list option) list \<Rightarrow> table_list option option" where
  "find_time_point tp [] = None"
| "find_time_point tp ((t, tabs) # ts) =
     (if t = MaxAmdRegisterTableTps then Some None
      else if t = tp then Some tabs else find_time_point tp ts)"

definition SetRegistersFromTablesAtGivenTimePoint ::
  "'h table_env \<Rightarrow> ENTRY_CRITERIA \<Rightarrow> memory \<Rightarrow> (REGISTER_TABLE_TIME_POINT \<times> table_list option) list
     \<Rightarrow> REGISTER_TABLE_TIME_POINT \<Rightarrow> ENTRY_CRITERIA option \<Rightarrow> ccx_config \<Rightarrow> 'h table_state
     \<Rightarrow> (SIL_STATUS \<times> 'h table_state) option" where
  "SetRegistersFromTablesAtGivenTimePoint env Criteria0 m RegTableListAtGivenTP TimePoint InitializedCriteria cfg s =
     (if TimePoint = MaxAmdRegisterTableTps
      then do { c_assert (te_dbg env) False; Some (SilOutOfBounds, s) }
      else do {
        RegisterTableList \<leftarrow> find_time_point TimePoint RegTableListAtGivenTP;
        case RegisterTableList of
          Some tabs \<Rightarrow>
            do { Criteria \<leftarrow> (case InitializedCriteria of Some c \<Rightarrow> Some c | None \<Rightarrow> entry_criteria env Criteria0 cfg);
                 s \<leftarrow> SetRegistersFromTableList env Criteria m tabs s;
                 Some (SilPass, s) }
        | None \<Rightarrow> Some (SilUnsupported, s) })"

end
