(* ===== verification/Ccx_Block.thy ===== *)
theory Ccx_Block
  imports Ccx_Table
begin

text \<open>
  The CCX data block of the host (\<^verbatim>\<open>CCX/CcxClass-api.h\<close>) as records. The input block extends the three
  fields the register tables use; reserved fields, the synchronisation flag and the fields no code reads are
  left out, and the entry address of the microcode patch is read from memory in \<open>Ccx_Microcode\<close>.
\<close>

record CCXCLASS_INPUT_BLK = ccx_config +
  AmdDownCoreMode :: u8
  AmdCcdMode :: u8
  AmdSmtMode :: u8
  AmdCoreDisCcd :: "u16 list"
  AmdGameMode :: bool
  AmdVmplEnable :: bool
  AmdCStateMode :: u8
  AmdCc6Ctrl :: u8
  AmdCStateIoBaseAddress :: u16
  AmdCpbMode :: u8
  AmdSmee :: bool
  EnableSvmAVIC :: bool
  EnableSvmX2AVIC :: bool
  MonMwaitDis :: u8
  AmdFixedMtrr250 :: u64
  AmdFixedMtrr258 :: u64
  AmdFixedMtrr259 :: u64
  AmdFixedMtrr268 :: u64
  AmdFixedMtrr269 :: u64
  AmdFixedMtrr26A :: u64
  AmdFixedMtrr26B :: u64
  AmdFixedMtrr26C :: u64
  AmdFixedMtrr26D :: u64
  AmdFixedMtrr26E :: u64
  AmdFixedMtrr26F :: u64
  AmdSnpMemCover :: u8
  AmdSnpMemSize :: u32
  AmdSplitRmpTable :: u8
  AmdReserved3 :: u8
  AmdCpuPauseDelay :: u8

record CCXCLASS_OUTPUT_BLK =
  out_AmdApicMode :: u8
  out_AmdDownCoreMode :: u8
  AmdAcpiS3Support :: bool
  AmdCcxCoreCount :: u32
  AmdIsSnpSupported :: bool
  AmdRmpTableSize :: u64
  AmdRmpTableBase :: u64

record CCXCLASS_DATA_BLK =
  CcxInputBlock :: CCXCLASS_INPUT_BLK
  CcxOutputBlock :: CCXCLASS_OUTPUT_BLK

text \<open>The modes of the interrupt controller.\<close>

definition ApicCompatibilityMode :: u8 where "ApicCompatibilityMode = 0x00"
definition xApicMode :: u8 where "xApicMode = 0x01"
definition x2ApicMode :: u8 where "x2ApicMode = 0x02"
definition ApicAutoMode :: u8 where "ApicAutoMode = 0xFF"
definition XAPIC_ID_MAX :: u32 where "XAPIC_ID_MAX = 0xFF"

text \<open>The part of the input block the criteria of the register tables are made from.\<close>

definition table_config :: "CCXCLASS_INPUT_BLK \<Rightarrow> ccx_config" where
  "table_config b = \<lparr>AmdApicMode = AmdApicMode b, AmdIbrsEn = AmdIbrsEn b, AmdBranchSampling = AmdBranchSampling b\<rparr>"

section \<open>Defaults\<close>

text \<open>The values the block is created with; those of the build configuration are a record.\<close>

record ccx_kconfig =
  CONFIG_CCX_APIC_MODE :: u8
  CONFIG_CCX_SMT_MODE :: u8
  CONFIG_CCX_CCD_MODE :: u8
  CONFIG_CCX_CSTATE_ENABLE :: u8
  CONFIG_CCX_CSTATE_CC6_ENABLE :: u8
  CONFIG_CCX_CSTATE_IO_ADDR :: u16
  CONFIG_CCX_CPB_ENABLE :: u8
  CONFIG_CCX_SMEE_ENABLE :: bool

definition gCcxConfigData :: "ccx_kconfig \<Rightarrow> CCXCLASS_DATA_BLK" where
  "gCcxConfigData k =
    \<lparr>CcxInputBlock = \<lparr>AmdApicMode = CONFIG_CCX_APIC_MODE k, AmdIbrsEn = False, AmdBranchSampling = False,
       AmdDownCoreMode = 0, AmdCcdMode = CONFIG_CCX_CCD_MODE k, AmdSmtMode = CONFIG_CCX_SMT_MODE k,
       AmdCoreDisCcd = replicate 32 0, AmdGameMode = False, AmdVmplEnable = True,
       AmdCStateMode = CONFIG_CCX_CSTATE_ENABLE k, AmdCc6Ctrl = CONFIG_CCX_CSTATE_CC6_ENABLE k,
       AmdCStateIoBaseAddress = CONFIG_CCX_CSTATE_IO_ADDR k, AmdCpbMode = CONFIG_CCX_CPB_ENABLE k,
       AmdSmee = CONFIG_CCX_SMEE_ENABLE k, EnableSvmAVIC = False, EnableSvmX2AVIC = False, MonMwaitDis = 0xFF,
       AmdFixedMtrr250 = 0xFFFFFFFFFFFFFFFF, AmdFixedMtrr258 = 0xFFFFFFFFFFFFFFFF, AmdFixedMtrr259 = 0xFFFFFFFFFFFFFFFF,
       AmdFixedMtrr268 = 0xFFFFFFFFFFFFFFFF, AmdFixedMtrr269 = 0xFFFFFFFFFFFFFFFF, AmdFixedMtrr26A = 0xFFFFFFFFFFFFFFFF,
       AmdFixedMtrr26B = 0xFFFFFFFFFFFFFFFF, AmdFixedMtrr26C = 0x1818181818181818, AmdFixedMtrr26D = 0x1818181818181818,
       AmdFixedMtrr26E = 0x1818181818181818, AmdFixedMtrr26F = 0x1818181818181818,
       AmdSnpMemCover = 0, AmdSnpMemSize = 0, AmdSplitRmpTable = 0, AmdReserved3 = 0xFF, AmdCpuPauseDelay = 0xFF\<rparr>,
     CcxOutputBlock = \<lparr>out_AmdApicMode = 0xFF, out_AmdDownCoreMode = 0, AmdAcpiS3Support = False, AmdCcxCoreCount = 0,
       AmdIsSnpSupported = False, AmdRmpTableSize = 0, AmdRmpTableBase = 0\<rparr>\<rparr>"

definition default_kconfig :: ccx_kconfig where
  "default_kconfig = \<lparr>CONFIG_CCX_APIC_MODE = 0xFF, CONFIG_CCX_SMT_MODE = 1, CONFIG_CCX_CCD_MODE = 0,
     CONFIG_CCX_CSTATE_ENABLE = 1, CONFIG_CCX_CSTATE_CC6_ENABLE = 1, CONFIG_CCX_CSTATE_IO_ADDR = 0x813,
     CONFIG_CCX_CPB_ENABLE = 1, CONFIG_CCX_SMEE_ENABLE = False\<rparr>"

end
