(* ===== verification/Ccx_Cache.thy ===== *)
theory Ccx_Cache
  imports Sil_Utils Sil_Cpu
begin

text \<open>
  The cache settings of the boot processor (\<^verbatim>\<open>xUSL/CCX/Common/CcxCacheInit.c\<close>): the variable memory type
  range registers that make the memory below TOM write-back, and the fixed ranges.
\<close>

section \<open>Registers\<close>

definition MSR_SYS_CFG :: u32 where "MSR_SYS_CFG = 0xC0010010"
definition AMD_AP_MTRR_VARIABLE_BASE0 :: u32 where "AMD_AP_MTRR_VARIABLE_BASE0 = 0x200"
definition CacheWriteBack :: u32 where "CacheWriteBack = 6"
definition SYS_CFG_MTRR_FIX_DRAM_EN :: u64 where "SYS_CFG_MTRR_FIX_DRAM_EN = 2 ^ 18"
definition SYS_CFG_MTRR_FIX_DRAM_MOD_EN :: u64 where "SYS_CFG_MTRR_FIX_DRAM_MOD_EN = 2 ^ 19"
definition SYS_CFG_MTRR_VAR_DRAM_EN :: u64 where "SYS_CFG_MTRR_VAR_DRAM_EN = 2 ^ 20"
definition SYS_CFG_MTRR_TOM2_EN :: u64 where "SYS_CFG_MTRR_TOM2_EN = 2 ^ 21"
definition SYS_CFG_TOM2_FORCE_MEM_TYPE_WB :: u64 where "SYS_CFG_TOM2_FORCE_MEM_TYPE_WB = 2 ^ 22"

section \<open>Variable ranges\<close>

text \<open>
  The size and the limit of the next region: the lowest bit of the base, or the highest bit of what is
  left when that is too much or the base is 0. The bit searches may not return.
\<close>

definition next_region :: "u32 \<Rightarrow> u32 \<Rightarrow> (u32 \<times> u32) option" where
  "next_region Cache32bTOP CurBase =
     do { p \<leftarrow> xUslLowBitSet32 CurBase;
          let CurSize = push_bit (nat (if p = - 1 then 31 else p)) 1;
          let CurLimit = CurSize + CurBase;
          if CurBase = 0 \<or> Cache32bTOP < CurLimit
          then do { q \<leftarrow> xUslHighBitSet32 (Cache32bTOP - CurBase);
                    let CurSize = push_bit (nat (if q = - 1 then 31 else q)) 1;
                    Some (CurSize, CurSize + CurBase) }
          else Some (CurSize, CurLimit) }"

definition mtrr_base :: "u32 \<Rightarrow> u64" where
  "mtrr_base CurBase = ucast (push_bit 16 CurBase OR CacheWriteBack)"

definition mtrr_mask :: "u32 \<Rightarrow> u64" where
  "mtrr_mask CurSize = 0xFFFF00000000 OR ucast (push_bit 16 (NOT (CurSize - 1))) OR ucast (push_bit 11 (1 :: u32))"

function mtrr_loop :: "'h cpu_ops \<Rightarrow> u32 \<Rightarrow> u32 \<Rightarrow> u32 \<Rightarrow> u32 \<Rightarrow> 'h \<Rightarrow> (u32 \<times> u32 \<times> 'h) option" where
  "mtrr_loop cpu Cache32bTOP CurBase CurLimit CurAddr h =
     (if 0x200 \<le> CurAddr \<and> CurAddr < 0x20E \<and> CurBase < Cache32bTOP
      then case next_region Cache32bTOP CurBase of
             None \<Rightarrow> None
           | Some (CurSize, CurLimit) \<Rightarrow>
               (let h = cpu_wrmsr cpu CurAddr (mtrr_base CurBase) h;
                    h = cpu_wrmsr cpu (CurAddr + 1) (mtrr_mask CurSize) h
                in mtrr_loop cpu Cache32bTOP CurLimit CurLimit (CurAddr + 1 + 1) h)
      else Some (CurLimit, CurAddr, h))"
  by pat_completeness auto
termination
  by (relation "measure (\<lambda>(cpu, top, b, l, CurAddr, h). 0x20E - unat CurAddr)")
    (auto simp: word_less_nat_alt unat_plus_small)

function clear_mtrrs :: "'h cpu_ops \<Rightarrow> u32 \<Rightarrow> 'h \<Rightarrow> 'h" where
  "clear_mtrrs cpu CurAddr h =
     (if 0x200 \<le> CurAddr \<and> CurAddr \<le> 0x20F
      then if CurAddr mod 2 = 0
           then let h = cpu_wrmsr cpu (CurAddr + 1) 0 h; h = cpu_wrmsr cpu CurAddr 0 h
                in clear_mtrrs cpu (CurAddr + 2) h
           else clear_mtrrs cpu (CurAddr + 1) h
      else h)"
  by pat_completeness auto
termination
  by (relation "measure (\<lambda>(cpu, CurAddr, h). 0x210 - unat CurAddr)")
    (auto simp: word_le_nat_alt unat_plus_small)

declare mtrr_loop.simps [simp del] clear_mtrrs.simps [simp del]

definition InitializeVariableMtrrs :: "bool \<Rightarrow> 'h cpu_ops \<Rightarrow> 'h \<Rightarrow> (SIL_STATUS \<times> 'h) option" where
  "InitializeVariableMtrrs dbg cpu h =
     (let (LocalMsrRegister, h) = cpu_rdmsr cpu MSR_TOM h;
          Cache32bTOP = ucast (drop_bit 16 LocalMsrRegister AND 0xFFFFFFFF) :: u32
      in do { (CurLimit, CurAddr, h) \<leftarrow> mtrr_loop cpu Cache32bTOP 0 Cache32bTOP AMD_AP_MTRR_VARIABLE_BASE0 h;
              if CurLimit < Cache32bTOP
              then do { c_assert dbg (Cache32bTOP \<le> CurLimit); Some (SilOutOfResources, h) }
              else Some (SilPass, clear_mtrrs cpu CurAddr h) })"

section \<open>Fixed ranges\<close>

definition CcxCacheInit :: "'h cpu_ops \<Rightarrow> 'h \<Rightarrow> 'h" where
  "CcxCacheInit cpu h =
     (let h = xUslMsrOr cpu MSR_SYS_CFG SYS_CFG_MTRR_FIX_DRAM_MOD_EN h;
          h = cpu_wrmsr cpu 0x250 0x1E1E1E1E1E1E1E1E h;
          h = cpu_wrmsr cpu 0x258 0x1E1E1E1E1E1E1E1E h;
          h = xUslMsrOr cpu MSR_SYS_CFG (SYS_CFG_MTRR_FIX_DRAM_EN OR SYS_CFG_MTRR_VAR_DRAM_EN) h;
          (LocalMsrRegister, h) = cpu_rdmsr cpu MSR_SYS_CFG h;
          LocalMsrRegister = (if LocalMsrRegister AND SYS_CFG_MTRR_TOM2_EN \<noteq> 0
                              then LocalMsrRegister OR SYS_CFG_TOM2_FORCE_MEM_TYPE_WB else LocalMsrRegister);
          LocalMsrRegister = LocalMsrRegister AND NOT SYS_CFG_MTRR_FIX_DRAM_MOD_EN
      in cpu_wrmsr cpu MSR_SYS_CFG LocalMsrRegister h)"

section \<open>The regions below TOM\<close>

lemma bit_nat_highest:
  assumes "highest_bit (x :: u32) q"
  shows "2 ^ q \<le> unat x" "unat x < 2 * 2 ^ q"
proof -
  have b: "bit x q" "\<forall>i>q. \<not> bit x i" using assms by (auto simp: highest_bit_def)
  then have "bit (unat x) q" by (simp add: bit_unsigned_iff)
  then have "odd (unat x div 2 ^ q)" by (simp add: bit_iff_odd)
  then have "unat x div 2 ^ q \<noteq> 0" by (metis even_zero)
  then show "2 ^ q \<le> unat x" by (simp add: not_less div_eq_0_iff)
  have "take_bit (Suc q) x = x" using b by (intro bit_word_eqI) (auto simp: bit_take_bit_iff less_Suc_eq_le intro: leI)
  then have "take_bit (Suc q) (unat x) = unat x" by (metis unsigned_take_bit_eq)
  then have "unat x < 2 ^ Suc q" by (metis take_bit_nat_less_exp)
  then show "unat x < 2 * 2 ^ q" by simp
qed

lemma bit_nat_lowest:
  assumes "lowest_bit (x :: u32) p" and "2 ^ k dvd unat x"
  shows "k \<le> p"
proof (rule ccontr)
  assume "\<not> k \<le> p"
  then have "2 ^ Suc p dvd unat x" using assms(2) by (meson Suc_leI not_le le_imp_power_dvd dvd_trans)
  then have "\<not> bit (unat x) p" by (auto simp: bit_iff_odd elim!: dvdE)
  moreover have "bit x p" using assms(1) by (simp add: lowest_bit_def)
  ultimately show False by (simp add: bit_unsigned_iff)
qed

text \<open>
  The regions already described end at \<open>b\<close>, a multiple of a power of two that what is left does not reach.
\<close>

definition aligned_below :: "nat \<Rightarrow> nat \<Rightarrow> nat \<Rightarrow> bool" where
  "aligned_below T b k \<longleftrightarrow> 2 ^ k dvd b \<and> b \<le> T \<and> T < b + 2 ^ k"


lemma unat_exp:
  assumes "q < 32"
  shows "unat (2 ^ q :: u32) = 2 ^ q"
proof -
  have "2 ^ q < (2 :: nat) ^ 32" using assms by (rule power_strict_increasing) simp
  then show ?thesis using unat_of_nat_small [of "2 ^ q", where 'a = 32] by simp
qed

lemma next_region_eq:
  assumes T: "unat T < 2 ^ 31" and b: "unat b < unat T" and k: "aligned_below (unat T) (unat b) k"
  shows "\<exists>q. highest_bit (T - b) q \<and> q < 31 \<and> q < k \<and> next_region T b = Some (2 ^ q, b + 2 ^ q)
    \<and> unat (b + 2 ^ q) = unat b + 2 ^ q \<and> aligned_below (unat T) (unat b + 2 ^ q) q"
proof -
  have d: "unat (T - b) = unat T - unat b" using b by (simp add: unat_minus_small word_le_nat_alt)
  then have "T - b \<noteq> 0" using b by auto
  then obtain q where q: "highest_bit (T - b) q" using ex_highest_bit by blast
  then have q32: "q \<le> 31" using bit_imp_le_length [of "T - b" q] by (auto simp: highest_bit_def)
  note hb = bit_nat_highest [OF q, unfolded d]
  have ltT: "2 ^ q < (2 :: nat) ^ 31" using hb(1) T by linarith
  then have q31: "q < 31" by (rule power_less_imp_less_exp [rotated]) simp
  have high: "xUslHighBitSet32 (T - b) = Some (int q)"
    using \<open>T - b \<noteq> 0\<close> high_bit_loop_eq [OF q q32, of 31] q32 by (simp add: xUslHighBitSet32_def of_nat_diff)
  have "unat T < unat b + 2 ^ k" using k by (simp add: aligned_below_def)
  then have "2 ^ q < (2 :: nat) ^ k" using hb(1) b by linarith
  then have qk: "q < k" by (rule power_less_imp_less_exp [rotated]) simp
  have nb: "unat (b + 2 ^ q) = unat b + 2 ^ q"
    using hb(1) b T q31 by (subst unat_plus_small) (simp_all add: unat_exp)
  have taken: "\<exists>p. xUslLowBitSet32 b = Some p \<and> (b = 0 \<or> T < push_bit (nat (if p = - 1 then 31 else p)) 1 + b)"
  proof (cases "b = 0")
    case True
    then show ?thesis by (simp add: xUslLowBitSet32_def)
  next
    case False
    obtain p where p: "lowest_bit b p" using ex_lowest_bit [OF False] ..
    then have "k \<le> p" using k bit_nat_lowest by (simp add: aligned_below_def)
    then have kp: "(2 :: nat) ^ k \<le> 2 ^ p" by simp
    have pb: "2 ^ p \<le> unat b"
    proof -
      have "bit (unat b) p" using p by (simp add: lowest_bit_def bit_unsigned_iff)
      then have "odd (unat b div 2 ^ p)" by (simp add: bit_iff_odd)
      then show ?thesis by (metis div_less even_zero not_less)
    qed
    then have "2 ^ p < (2 :: nat) ^ 31" using b T by linarith
    then have "p < 31" by (rule power_less_imp_less_exp [rotated]) simp
    have lim: "unat (2 ^ p + b) = 2 ^ p + unat b"
      using pb b T \<open>p < 31\<close> by (subst unat_plus_small) (simp_all add: unat_exp)
    have "unat T < unat (2 ^ p + b)" using \<open>unat T < unat b + 2 ^ k\<close> kp lim by linarith
    moreover have "xUslLowBitSet32 b = Some (int p)"
      using False low_bit_loop_eq [OF p, of 0] by (simp add: xUslLowBitSet32_def)
    ultimately show ?thesis
      by (simp add: word_less_nat_alt push_bit_eq_mult)
  qed
  have "next_region T b = Some (2 ^ q, b + 2 ^ q)"
    using taken high by (auto simp: next_region_def Let_def push_bit_eq_mult add.commute)
  moreover have "aligned_below (unat T) (unat b + 2 ^ q) q"
  proof -
    have "(2 :: nat) ^ q dvd 2 ^ k" using qk by (simp add: le_imp_power_dvd)
    then have "2 ^ q dvd unat b" using k dvd_trans by (auto simp: aligned_below_def)
    then show ?thesis using hb b by (auto simp: aligned_below_def)
  qed
  ultimately show ?thesis using q q31 qk nb by blast
qed


section \<open>Which addresses a pair of registers selects\<close>

text \<open>
  A variable range is a pair of registers: it is valid when bit 11 of the second is set, and then selects the
  addresses that agree with the first in the bits 12 to 47 set in the second.
\<close>

definition mtrr_hit :: "u64 \<Rightarrow> u64 \<Rightarrow> u64 \<Rightarrow> bool" where
  "mtrr_hit PhysBase PhysMask a \<longleftrightarrow>
     bit PhysMask 11 \<and> (let msk = PhysMask AND 0xFFFFFFFFF000 in a AND msk = PhysBase AND msk)"

lemma bit_mtrr_mask:
  assumes "q < 16"
  shows "bit (mtrr_mask (2 ^ q)) n \<longleftrightarrow> n = 11 \<or> 16 + q \<le> n \<and> n < 48"
proof -
  have "(0xFFFF00000000 :: u64) = push_bit 32 (mask 16)" by (simp add: mask_eq_exp_minus_1 push_bit_eq_mult)
  then have h: "bit (0xFFFF00000000 :: u64) n \<longleftrightarrow> 32 \<le> n \<and> n < 48" for n
    by (simp only: bit_push_bit_iff bit_mask_iff possible_bit_word) auto
  have "(2 ^ q - 1 :: u32) = mask q" by (simp add: mask_eq_exp_minus_1)
  then have l: "bit (NOT (2 ^ q - 1 :: u32)) n \<longleftrightarrow> q \<le> n \<and> n < 32" for n
    by (auto simp: bit_not_iff bit_mask_iff)
  have o: "bit (ucast (push_bit 11 (1 :: u32)) :: u64) n \<longleftrightarrow> n = 11"
  proof -
    have "ucast (push_bit 11 (1 :: u32)) = (2 ^ 11 :: u64)" by (simp add: push_bit_eq_mult)
    then show ?thesis by (simp only: bit_exp_iff possible_bit_word) auto
  qed
  show ?thesis
    unfolding mtrr_mask_def bit_or_iff o
    by (simp only: bit_unsigned_iff h bit_push_bit_iff l possible_bit_word) (use assms in auto)
qed

lemma mtrr_base_value:
  assumes "unat b < 2 ^ 16"
  shows "unat (mtrr_base b) = unat b * 2 ^ 16 + 6"
proof -
  have "push_bit 16 b AND CacheWriteBack = 0"
  proof (rule bit_word_eqI)
    fix n
    have "(6 :: u32) = 6 AND mask 16" by (simp add: mask_eq_exp_minus_1)
    then have "bit (6 :: u32) n \<Longrightarrow> n < 16" by (metis bit_and_iff bit_mask_iff)
    then show "bit (push_bit 16 b AND CacheWriteBack) n \<longleftrightarrow> bit (0 :: u32) n"
      by (auto simp: bit_and_iff bit_push_bit_iff CacheWriteBack_def)
  qed
  then have "push_bit 16 b OR CacheWriteBack = b * 2 ^ 16 + 6"
    by (simp add: CacheWriteBack_def push_bit_eq_mult flip: disjunctive_add_eq_or)
  moreover have "b * 2 ^ 16 + 6 = of_nat (unat b * 2 ^ 16 + 6)" by simp
  moreover have "unat (of_nat (unat b * 2 ^ 16 + 6) :: u32) = unat b * 2 ^ 16 + 6"
    using assms by (intro unat_of_nat_small) simp
  ultimately show ?thesis unfolding mtrr_base_def by (simp add: unat_ucast_widen)
qed

lemma div_eq_range: "0 < d \<Longrightarrow> a div d = c \<longleftrightarrow> c * d \<le> a \<and> a < (c + 1) * (d :: nat)"
  by (metis add.commute div_nat_eqI div_times_less_eq_dividend dividend_less_div_times mult.commute plus_1_eq_Suc mult_Suc)

lemma mtrr_hit_region:
  assumes q: "q < 16" and b: "unat b < 2 ^ 16" "2 ^ q dvd unat b" and a: "unat a < 2 ^ 48"
  shows "mtrr_hit (mtrr_base b) (mtrr_mask (2 ^ q)) a \<longleftrightarrow> unat b * 2 ^ 16 \<le> unat a \<and> unat a < (unat b + 2 ^ q) * 2 ^ 16"
proof -
  define base where "base = mtrr_base b"
  have ub: "unat base = unat b * 2 ^ 16 + 6" unfolding base_def by (rule mtrr_base_value [OF b(1)])
  have "(0xFFFFFFFFF000 :: u64) = push_bit 12 (mask 36)" by (simp add: mask_eq_exp_minus_1 push_bit_eq_mult)
  then have p: "bit (0xFFFFFFFFF000 :: u64) n \<longleftrightarrow> 12 \<le> n \<and> n < 48" for n
    by (simp only: bit_push_bit_iff bit_mask_iff possible_bit_word) auto
  have top: "\<not> bit x n" if "unat x < 2 ^ 48" "48 \<le> n" for x :: u64 and n
  proof -
    have "take_bit 48 x = x" using that(1) by (simp add: take_bit_small_word)
    then show ?thesis using that(2) by (metis bit_take_bit_iff not_le)
  qed
  have "unat base < 2 ^ 48" using ub b(1) by simp
  note tops = top [OF a] top [OF this]
  have m: "bit (x AND (mtrr_mask (2 ^ q) AND 0xFFFFFFFFF000)) n \<longleftrightarrow> bit x n \<and> 16 + q \<le> n \<and> n < 48" for x n
    by (simp only: bit_and_iff bit_mtrr_mask [OF q] p) auto
  have w: "n < 48 \<Longrightarrow> n < 64" for n :: nat by simp
  have "mtrr_hit base (mtrr_mask (2 ^ q)) a \<longleftrightarrow> (\<forall>n. 16 + q \<le> n \<and> n < 48 \<longrightarrow> bit a n = bit base n)"
    unfolding mtrr_hit_def Let_def bit_eq_iff [where 'a = "64 word"] m
    by (simp add: bit_mtrr_mask [OF q]) (metis w)
  also have "\<dots> \<longleftrightarrow> (\<forall>n. bit (drop_bit (16 + q) a) n = bit (drop_bit (16 + q) base) n)"
    unfolding bit_drop_bit_eq o_def
    by (metis tops add.commute le_add1 le_add_diff_inverse not_le)
  also have "\<dots> \<longleftrightarrow> drop_bit (16 + q) a = drop_bit (16 + q) base" by (auto intro: bit_eqI)
  also have "\<dots> \<longleftrightarrow> unat a div 2 ^ (16 + q) = unat base div 2 ^ (16 + q)"
    by (simp only: word_unat_eq_iff unat_drop_bit_div)
  also have "unat base div 2 ^ (16 + q) = unat b div 2 ^ q"
    unfolding ub power_add by (simp add: div_mult2_eq)
  also have "unat a div 2 ^ (16 + q) = unat b div 2 ^ q
      \<longleftrightarrow> unat b div 2 ^ q * 2 ^ (16 + q) \<le> unat a \<and> unat a < (unat b div 2 ^ q + 1) * 2 ^ (16 + q)"
    by (rule div_eq_range) simp
  also have "unat b div 2 ^ q * 2 ^ (16 + q) = unat b * 2 ^ 16"
    using b(2) by (simp add: power_add)
  also have "(unat b div 2 ^ q + 1) * 2 ^ (16 + q) = (unat b + 2 ^ q) * 2 ^ 16"
    using b(2) by (auto simp: power_add algebra_simps)
  finally show ?thesis unfolding base_def .
qed

lemma bits_without_highest:
  assumes "highest_bit (x :: u32) q"
  shows "{n. bit x n} = insert q {n. bit (x - 2 ^ q) n}" "\<not> bit (x - 2 ^ q) q"
proof -
  define y where "y = x AND NOT (2 ^ q)"
  have q: "bit x q" "q < 32" using assms bit_imp_le_length [of x q] by (auto simp: highest_bit_def)
  have y: "bit y n \<longleftrightarrow> bit x n \<and> n \<noteq> q" for n
    using bit_imp_le_length [of x n] by (auto simp: y_def bit_and_iff bit_not_iff bit_exp_iff)
  have "y AND 2 ^ q = 0" by (rule bit_word_eqI) (auto simp: bit_and_iff y bit_exp_iff)
  moreover have "y OR 2 ^ q = x"
    by (rule bit_word_eqI) (use q in \<open>auto simp: bit_or_iff y bit_exp_iff\<close>)
  ultimately have "x = y + 2 ^ q" by (metis disjunctive_add_eq_or)
  then have "x - 2 ^ q = y" by simp
  then show "{n. bit x n} = insert q {n. bit (x - 2 ^ q) n}" "\<not> bit (x - 2 ^ q) q" using q(1) by (auto simp: y)
qed

lemma finite_bits: "finite {n. bit (x :: u32) n}"
  by (rule finite_subset [of _ "{..<32}"]) (auto dest: bit_imp_le_length)

end
