(* ===== verification/Nbio_Base.thy ===== *)
theory Nbio_Base
  imports Nbio_Nbif Rc_Pool Ccx_Block Ccx_Cache
begin

text \<open>
  The base initialisation of NBIO: \<^verbatim>\<open>NbioBaseInitGenoa.c\<close>, \<^verbatim>\<open>NbioCommon.c\<close>, \<^verbatim>\<open>NbioIommu.c\<close>, \<^verbatim>\<open>NbioIoApic.c\<close>, \<^verbatim>\<open>NbioTopMem.c\<close> and the
  time points of \<^verbatim>\<open>Nbio.c\<close>. Every function walks the root complexes of the topology; MMIO space comes from the
  resource manager. The result \<open>None\<close> stands for a failed assertion, a null pointer or a walk that does not end.
\<close>

section \<open>State\<close>

text \<open>
  The members of \<^verbatim>\<open>NBIO_CONFIG_DATA\<close> that the functions read; those that are copied to one field each are the function
  \<open>cfg_straps\<close>. \<^verbatim>\<open>AmdApicMode\<close> has the C type \<^verbatim>\<open>bool\<close>.
\<close>

record NBIO_CONFIG_DATA =
  IOHCClkGatingSupport :: bool
  CfgNbifMgcgClkGating :: bool
  CfgSstunlClkGating :: bool
  CfgSyshubMgcgClkGating :: bool
  TPHCompleterEnable :: u8
  IoApicMMIOAddressReservedEnable :: bool
  IoApicIdPreDefineEn :: bool
  IoApicIdBase :: u8
  NbifMgcgHysteresis :: u8
  SyshubMgcgHysteresis :: u8
  IohcNonPCIBarInitSmu :: bool
  IohcNonPCIBarInitDbg :: bool
  IohcNonPCIBarInitFastReg :: bool
  IohcNonPCIBarInitFastRegCtl :: bool
  IommuMMIOAddressReservedEnable :: bool
  nb_AmdApicMode :: bool
  IommuAvicSupport :: bool
  IommuL2ClockGatingEnable :: bool
  IommuL1ClockGatingEnable :: bool
  IOHCPgEnable :: bool
  NbioGlobalCgOverride :: u8
  IommuSupport :: bool
  cfg_straps :: "nbif_strap \<Rightarrow> bool"

record 'h nbio_state =
  nb_sil :: sil_state
  nb_cfg :: NBIO_CONFIG_DATA
  nb_rc :: "RCMGR_INPUT_BLK option"
  nb_hw :: 'h

text \<open>The tables of \<^verbatim>\<open>NbioSmnTables.c\<close> lie in memory at \<open>ne_Table\<close>. \<open>SevSnpSupport\<close> is a member of the input block.\<close>

datatype nbio_table = PprTable | EarlyTable | NbifTable | SdpMuxTable | SocketTable | IommuTable

record 'h nbio_env =
  ne_dbg :: bool
  ne_ops :: "'h pci_ops"
  ne_cpu :: "'h cpu_ops"
  ne_Table :: "nbio_table \<Rightarrow> nat"
  SevSnpSupport :: bool

abbreviation nb_mem :: "'h nbio_state \<Rightarrow> memory" where "nb_mem st \<equiv> mem (nb_sil st)"

text \<open>Access to the registers of a root complex: a write, and an update of the bits in a mask.\<close>

definition nbio_wr :: "'h nbio_env \<Rightarrow> nat \<Rightarrow> u32 \<Rightarrow> u32 \<Rightarrow> 'h nbio_state \<Rightarrow> 'h nbio_state" where
  "nbio_wr env g Address Value st =
     st\<lparr>nb_hw := xUSLSmnWrite (ne_ops env) (gnb_Segment (nb_mem st) g) (gnb_Bus (nb_mem st) g) (NBIO_SPACE (nb_mem st) g Address) Value (nb_hw st)\<rparr>"

definition nbio_rmw :: "'h nbio_env \<Rightarrow> nat \<Rightarrow> u32 \<Rightarrow> u32 \<Rightarrow> u32 \<Rightarrow> 'h nbio_state \<Rightarrow> 'h nbio_state" where
  "nbio_rmw env g Address Mask Value st =
     st\<lparr>nb_hw := xUSLSmnReadModifyWrite (ne_ops env) (gnb_Segment (nb_mem st) g) (gnb_Bus (nb_mem st) g) (NBIO_SPACE (nb_mem st) g Address)
                   (NOT Mask) Value (nb_hw st)\<rparr>"

definition nbio_program :: "'h nbio_env \<Rightarrow> nat \<Rightarrow> nbio_table \<Rightarrow> u32 \<Rightarrow> 'h nbio_state \<Rightarrow> 'h nbio_state option" where
  "nbio_program env g t Properties st =
     do { (_, h) \<leftarrow> ProgramNbioSmnTable (ne_dbg env) (ne_ops env) (nb_mem st) g (ne_Table env t) (NBIO_SPACE (nb_mem st) g 0) Properties (nb_hw st);
          Some (st\<lparr>nb_hw := h\<rparr>) }"

text \<open>A loop over the root complexes; it stops at a status other than \<open>SilPass\<close>.\<close>

partial_function (option) handle_loop ::
  "(nat \<Rightarrow> 'h nbio_state \<Rightarrow> (SIL_STATUS \<times> 'h nbio_state) option) \<Rightarrow> nat \<Rightarrow> 'h nbio_state \<Rightarrow> (SIL_STATUS \<times> 'h nbio_state) option" where
  "handle_loop body g st =
     (if g = 0 then Some (SilPass, st)
      else do { (Status, st) \<leftarrow> body g st;
                if Status \<noteq> SilPass then Some (Status, st) else handle_loop body (GnbGetNextHandle (nb_mem st) g) st })"

section \<open>Base configuration\<close>

definition NbioBaseInitGenoa :: "'h nbio_env \<Rightarrow> nat \<Rightarrow> 'h nbio_state \<Rightarrow> 'h nbio_state" where
  "NbioBaseInitGenoa env g st =
     (let bus = gnb_Bus (nb_mem st) g; cfg = nb_cfg st;
          st = nbio_rmw env g SIL_RESERVED2_1360 (SIL_RESERVED2_1255 OR SIL_RESERVED2_1251 OR SIL_RESERVED2_1253)
                 (push_bit SIL_RESERVED2_1256 bus OR push_bit SIL_RESERVED2_1252 7 OR push_bit SIL_RESERVED2_1254 2) st;
          st = nbio_rmw env g SIL_RESERVED2_1442 (SIL_RESERVED2_1237 OR SIL_RESERVED2_1233 OR SIL_RESERVED2_1235)
                 (push_bit SIL_RESERVED2_1238 bus OR push_bit SIL_RESERVED2_1234 0 OR push_bit SIL_RESERVED2_1236 0) st;
          st = nbio_rmw env g SIL_RESERVED2_1339 SIL_RESERVED2_1159 (push_bit SIL_RESERVED2_1161 0) st;
          st = nbio_rmw env g SIL_RESERVED2_1318 (push_bit (PCIE_FUNCTION2 + SIL_RESERVED2_1002) 1)
                 (push_bit (PCIE_FUNCTION2 + SIL_RESERVED2_1002) 0) st;
          st = nbio_rmw env g SIL_RESERVED2_1391 SIL_RESERVED2_1159 (push_bit SIL_RESERVED2_1161 0) st;
          st = nbio_rmw env g SIL_RESERVED2_1372 (push_bit (PCIE_FUNCTION2 + SIL_RESERVED2_1002) 1)
                 (push_bit (PCIE_FUNCTION2 + SIL_RESERVED2_1002) 0) st;
          st = (if NbifMgcgHysteresis cfg \<noteq> 0 then
                  let v = push_bit SIL_RESERVED2_1067 (ucast (NbifMgcgHysteresis cfg))
                  in nbio_rmw env g SIL_RESERVED2_1375 SIL_RESERVED2_1066 v (nbio_rmw env g SIL_RESERVED2_1322 SIL_RESERVED2_1066 v st)
                else st);
          st = (if SyshubMgcgHysteresis cfg \<noteq> 0 then
                  let v = push_bit SIL_RESERVED2_1460 (ucast (SyshubMgcgHysteresis cfg));
                      w = push_bit SIL_RESERVED2_1083 (ucast (SyshubMgcgHysteresis cfg));
                      st = nbio_rmw env g SIL_RESERVED2_1366 SIL_RESERVED2_1459 v st;
                      st = nbio_rmw env g SIL_RESERVED2_1418 SIL_RESERVED2_1459 v st;
                      st = nbio_rmw env g SIL_RESERVED2_1324 SIL_RESERVED2_1082 w st
                  in nbio_rmw env g SIL_RESERVED2_1377 SIL_RESERVED2_1082 w st
                else st)
      in if RBIndex (nb_mem st) g = 2 then nbio_rmw env g SIL_RESERVED2_1348 SIL_RESERVED2_1191 (push_bit SIL_RESERVED2_1193 1) st else st)"

definition IsSteppingAx :: "'h cpu_ops \<Rightarrow> bool option" where
  "IsSteppingAx cpu =
     do { (Status, l) \<leftarrow> GetSocLogicalIdOnCurrentCore cpu (Some \<lparr>id_Family = 0, id_Revision = 0\<rparr>);
          Some (case l of Some l \<Rightarrow> Status = SilPass \<and> id_Revision l AND (AMD_REV_F19_GENOA_A0 OR AMD_REV_F19_GENOA_A1) \<noteq> 0 | None \<Rightarrow> False) }"

text \<open>The number of the bus in the IO hub. \<open>cntl\<close> is the value of the uninitialised variable.\<close>

definition bus_num_cntl :: "u32 \<Rightarrow> memory \<Rightarrow> nat \<Rightarrow> u32" where
  "bus_num_cntl cntl m g = set_field 8 1 1 (set_field 0 8 (gnb_Bus m g) (set_field 16 8 (gnb_Segment m g) cntl))"

definition bus_step :: "'h nbio_env \<Rightarrow> u32 \<Rightarrow> nat \<Rightarrow> 'h nbio_state \<Rightarrow> (SIL_STATUS \<times> 'h nbio_state) option" where
  "bus_step env cntl g st =
     (let m = nb_mem st;
          st = nbio_wr env g SMN_IOHUB0NBIO0_NB_BUS_NUM_CNTL_ADDRESS (bus_num_cntl cntl m g) st
      in if SbPresent m g then
           let (Value, h) = xUSLSmnRead (ne_ops env) (gnb_Segment m g) (gnb_Bus m g) (NBIO_SPACE m g SMN_IOHUB0NBIO0_SB_LOCATION_ADDRESS) (nb_hw st);
               st = nbio_wr env g SMN_IOAGR_IOHUB0NBIO0_L1_SB_LOCATION_ADDRESS Value (st\<lparr>nb_hw := h\<rparr>)
           in Some (SilPass, nbio_wr env g SMN_IOHUB0NBIO0_L2_SB_LOCATION_ADDRESS Value st)
         else Some (SilPass, nbio_wr env g SMN_IOHUB0NBIO0_SB_LOCATION_ADDRESS 0 st))"

definition cg_override :: "NBIO_CONFIG_DATA \<Rightarrow> NBIO_CONFIG_DATA" where
  "cg_override cfg =
     (if NbioGlobalCgOverride cfg = 0
      then cfg\<lparr>CfgSstunlClkGating := False, IOHCClkGatingSupport := False, IOHCPgEnable := False, CfgNbifMgcgClkGating := False,
               CfgSyshubMgcgClkGating := False, NbifMgcgHysteresis := 0, SyshubMgcgHysteresis := 0\<rparr>
      else cfg)"

text \<open>The devices a root complex does not have, noted in the flags of its descriptor.\<close>

definition not_present :: "u8 \<Rightarrow> u32" where
  "not_present rb =
     (if rb AND 1 \<noteq> 0 then SILICON_NOT_PRESENT_NBIF0 OR SILICON_NOT_PRESENT_NBIF2 else SILICON_NOT_PRESENT_NBIF1)
     OR (if rb AND 3 \<noteq> 0 then SILICON_NOT_PRESENT_SDPMUX else 0)
     OR (if rb AND 2 \<noteq> 0 then SILICON_NOT_PRESENT_SST else 0)"

definition flag_step :: "nat \<Rightarrow> 'h nbio_state \<Rightarrow> (SIL_STATUS \<times> 'h nbio_state) option" where
  "flag_step g st =
     (let m = nb_mem st
      in Some (SilPass, st\<lparr>nb_sil := (nb_sil st)\<lparr>mem := write32 m g (DescriptorFlags m g OR not_present (RBIndex m g))\<rparr>\<rparr>))"

definition PROPERTY_DEFAULT_DEVICE_PRESENCE :: u32 where "PROPERTY_DEFAULT_DEVICE_PRESENCE = 0xFFFF0000"

definition nbio_property :: "NBIO_CONFIG_DATA \<Rightarrow> u32 \<Rightarrow> u32" where
  "nbio_property cfg flags =
     (let P = PROPERTY_DEFAULT_DEVICE_PRESENCE AND NOT (push_bit 16 flags)
      in if P AND PROPERTY_PRESENT_IOHC = 0 then P
         else let P = P OR (if IOHCClkGatingSupport cfg then PROPERTY_IOHC_CLKGATING_ENABLED else PROPERTY_IOHC_CLKGATING_DISABLED);
                  P = P OR (if CfgSstunlClkGating cfg then PROPERTY_SST_CLKGATING_ENABLED else PROPERTY_SST_CLKGATING_DISABLED);
                  P = P OR (if IOHCPgEnable cfg then PROPERTY_IOHC_CLKGATING_ENABLED else PROPERTY_IOHC_CLKGATING_DISABLED);
                  P = P OR (if CfgNbifMgcgClkGating cfg then PROPERTY_NBIF_MGCG_CLKGATING_ENABLED else PROPERTY_NBIF_MGCG_CLKGATING_DISABLED);
                  P = (if P AND PROPERTY_PRESENT_SYSHUB = 0 then P
                       else P OR (if CfgSyshubMgcgClkGating cfg then PROPERTY_SYSHUB_MGCG_CLKGATING_ENABLED
                                  else PROPERTY_SYSHUB_MGCG_CLKGATING_DISABLED))
              in if TPHCompleterEnable cfg \<noteq> 0 then P OR PROPERTY_TPH_COMPLETER_ENABLED else P)"

text \<open>
  \<^verbatim>\<open>NonPciBarInit\<close>: a base address register that is still 0 gets MMIO space of the root complex, then the enable and the
  lock bit. The registers are accessed in segment 0.
\<close>

definition bar_write :: "'h nbio_env \<Rightarrow> u32 \<Rightarrow> u32 \<Rightarrow> u32 \<Rightarrow> u32 \<Rightarrow> u32 \<Rightarrow> 'h \<Rightarrow> 'h" where
  "bar_write env bus MmioBarLow MmioBarHigh BarLow BarHigh h =
     xUSLSmnWrite (ne_ops env) 0 bus MmioBarHigh BarHigh (xUSLSmnWrite (ne_ops env) 0 bus MmioBarLow BarLow h)"

definition TARGET_PCI_BUS :: nat where "TARGET_PCI_BUS = 0"
definition TARGET_RB :: nat where "TARGET_RB = 1"
definition ALIGN_1M :: u64 where "ALIGN_1M = 0xFFFFF"
definition ALIGN_512K :: u64 where "ALIGN_512K = 0x7FFFF"
definition ALIGN_64K :: u64 where "ALIGN_64K = 0x0FFFF"

definition NonPciBarInit ::
  "'h nbio_env \<Rightarrow> nat \<Rightarrow> u32 \<Rightarrow> u32 \<Rightarrow> u32 \<Rightarrow> bool \<Rightarrow> bool \<Rightarrow> bool \<Rightarrow> 'h nbio_state \<Rightarrow> 'h nbio_state option" where
  "NonPciBarInit env g MmioBarLow MmioBarHigh MemorySize Enable LockSettings Above4G st =
     (let m = nb_mem st; bus = gnb_Bus m g;
          (BarLow, h) = xUSLSmnRead (ne_ops env) 0 bus MmioBarLow (nb_hw st);
          (BarHigh, h) = xUSLSmnRead (ne_ops env) 0 bus MmioBarHigh h
      in if BarLow \<noteq> 0 \<or> BarHigh \<noteq> 0 then Some (st\<lparr>nb_hw := h\<rparr>)
         else do {
           (Status, _) \<leftarrow> SilGetIp2IpApi (ne_dbg env) (id_val SilId_RcManager) (nb_sil st);
           if Status \<noteq> SilPass then Some (st\<lparr>nb_hw := h\<rparr>)
           else do {
             (r, h) \<leftarrow> FabricReserveMmio (ne_dbg env) (ne_ops env) 0 (ucast MemorySize) ALIGN_1M
                         \<lparr>PciBusNum = ucast bus, SocketNum = unat (SocketId m g) mod 4, RbNum = 0, TgtType = TARGET_PCI_BUS, PciSegNum = 0\<rparr>
                         \<lparr>ReadEnable = True, WriteEnable = True, NonPosted = False, CpuDis = False,
                          MmioType = if Above4G then NON_PCI_DEVICE_ABOVE_4G else NON_PCI_DEVICE_BELOW_4G\<rparr> (nb_rc st) h;
             let st = st\<lparr>nb_rc := rr_data r\<rparr>;
             if rr_Status r \<noteq> SilPass then Some (st\<lparr>nb_hw := h\<rparr>)
             else
               let BarLow = ucast (rr_BaseAddress r); BarHigh = ucast (drop_bit 32 (rr_BaseAddress r));
                   write = bar_write env bus MmioBarLow MmioBarHigh;
                   h = write BarLow BarHigh h;
                   BarLow = (if Enable then BarLow OR 1 else BarLow);
                   h = (if Enable then write BarLow BarHigh h else h);
                   h = (if LockSettings then write (BarLow OR 2) BarHigh h else h)
               in Some (st\<lparr>nb_hw := h\<rparr>) } })"

definition nbio_bar :: "'h nbio_env \<Rightarrow> nat \<Rightarrow> bool \<Rightarrow> u32 \<Rightarrow> u32 \<Rightarrow> u32 \<Rightarrow> 'h nbio_state \<Rightarrow> 'h nbio_state option" where
  "nbio_bar env g wanted lo hi MemorySize st =
     (if wanted
      then NonPciBarInit env g (NBIO_SPACE (nb_mem st) g lo) (NBIO_SPACE (nb_mem st) g hi) MemorySize True True False st
      else Some st)"

definition stepping_step :: "'h nbio_env \<Rightarrow> nat \<Rightarrow> 'h nbio_state \<Rightarrow> 'h nbio_state option" where
  "stepping_step env g st =
     do { ax \<leftarrow> IsSteppingAx (ne_cpu env);
          let v = (if ax then 0 else 2);
          let st = nbio_rmw env g SIL_RESERVED_536 SIL_RESERVED_129 (push_bit SIL_RESERVED_130 v) st;
          Some (nbio_rmw env g SIL_RESERVED_536 SIL_RESERVED_131 (push_bit SIL_RESERVED_132 v) st) }"

definition table_step :: "'h nbio_env \<Rightarrow> nat \<Rightarrow> 'h nbio_state \<Rightarrow> (SIL_STATUS \<times> 'h nbio_state) option" where
  "table_step env g st =
     (let m = nb_mem st; rb = RBIndex m g; cfg = nb_cfg st; P = nbio_property cfg (DescriptorFlags m g)
      in do { st \<leftarrow> (if rb AND 3 = 0 then nbio_program env g SocketTable P st else Some st);
              st \<leftarrow> nbio_program env g PprTable P st;
              st \<leftarrow> nbio_program env g SdpMuxTable P st;
              st \<leftarrow> nbio_program env g EarlyTable P st;
              st \<leftarrow> (if rb AND 1 = 0
                     then do { st \<leftarrow> nbio_program env g NbifTable P st; Some (NbioBaseInitGenoa env g st) } else Some st);
              let st = st\<lparr>nb_hw := NbifConfigureCommonOptions (ne_ops env) m g (cfg_straps cfg) (nb_hw st)\<rparr>;
              st \<leftarrow> stepping_step env g st;
              st \<leftarrow> nbio_bar env g (IohcNonPCIBarInitSmu cfg) SMN_IOHUB0NBIO0_SMU_BASE_ADDR_LO_ADDRESS SMN_IOHUB0NBIO0_SMU_BASE_ADDR_HI_ADDRESS
                      NONPCI_BARSIZE_1MB st;
              st \<leftarrow> nbio_bar env g (IohcNonPCIBarInitDbg cfg) SMN_IOHUB0NBIO0_DBG_BASE_ADDR_LO_ADDRESS SMN_IOHUB0NBIO0_DBG_BASE_ADDR_HI_ADDRESS
                      NONPCI_BARSIZE_512KB st;
              st \<leftarrow> nbio_bar env g (IohcNonPCIBarInitFastReg cfg) SMN_IOHUB0NBIO0_FASTREG_BASE_ADDR_LO_ADDRESS
                      SMN_IOHUB0NBIO0_FASTREG_BASE_ADDR_HI_ADDRESS NONPCI_BARSIZE_1MB st;
              st \<leftarrow> nbio_bar env g (IohcNonPCIBarInitFastRegCtl cfg) SMN_IOHUB0NBIO0_FASTREGCNTL_BASE_ADDR_LO_ADDRESS
                      SMN_IOHUB0NBIO0_FASTREGCNTL_BASE_ADDR_HI_ADDRESS NONPCI_BARSIZE_4KB st;
              Some (SilPass, st) })"

definition with_handle :: "'h nbio_env \<Rightarrow> (nat \<Rightarrow> 'h nbio_state \<Rightarrow> (SIL_STATUS \<times> 'h nbio_state) option) \<Rightarrow> 'h nbio_state
     \<Rightarrow> (SIL_STATUS \<times> 'h nbio_state) option" where
  "with_handle env f st =
     do { g \<leftarrow> GetGnbHandle (nb_sil st);
          if g = 0 then do { c_assert (ne_dbg env) False; Some (SilInvalidParameter, st) } else f g st }"

definition NbioBaseConfigurationGenoa :: "'h nbio_env \<Rightarrow> u32 \<Rightarrow> 'h nbio_state \<Rightarrow> (SIL_STATUS \<times> 'h nbio_state) option" where
  "NbioBaseConfigurationGenoa env cntl st =
     do { (Status, st) \<leftarrow> with_handle env (handle_loop (bus_step env cntl)) st;
          if Status \<noteq> SilPass then Some (Status, st)
          else do {
            (Status, st) \<leftarrow> with_handle env (handle_loop flag_step) (st\<lparr>nb_cfg := cg_override (nb_cfg st)\<rparr>);
            if Status \<noteq> SilPass then Some (Status, st) else with_handle env (handle_loop (table_step env)) st } }"

section \<open>IOMMU\<close>

text \<open>\<^verbatim>\<open>AmdApicMode\<close> is a \<^verbatim>\<open>bool\<close>, compared with \<^verbatim>\<open>xApicMode\<close>, which is 1.\<close>

definition is_xapic :: "NBIO_CONFIG_DATA \<Rightarrow> bool" where
  "is_xapic cfg \<longleftrightarrow> (if nb_AmdApicMode cfg then 1 else 0) = xApicMode"

definition iommu_property :: "NBIO_CONFIG_DATA \<Rightarrow> u32" where
  "iommu_property cfg =
     NBIO_TABLE_PROPERTY_DEFAULT
     OR (if IommuL1ClockGatingEnable cfg then PROPERTY_IOMMU_L1CLKGATING_ENABLED else PROPERTY_IOMMU_L1CLKGATING_DISABLED)
     OR (if IommuL2ClockGatingEnable cfg then PROPERTY_IOMMU_L2CLKGATING_ENABLED else PROPERTY_IOMMU_L2CLKGATING_DISABLED)
     OR (if is_xapic cfg then PROPERTY_XAPIC_MODE else 0)
     OR (if IommuSupport cfg then 0 else PROPERTY_IOMMU_DISABLED)"

text \<open>
  The base address register of the IOMMU of a root complex. The target, the attributes and the base passed to the
  resource manager have members that were never written: \<open>seg0\<close>, \<open>attr0\<close> and \<open>base0\<close>.
\<close>

definition iommu_pci :: "memory \<Rightarrow> nat \<Rightarrow> u32" where
  "iommu_pci m g = set_field 12 3 2 (NbioGetHostPciAddress m g)"

definition iommu_bar ::
  "'h nbio_env \<Rightarrow> u16 \<Rightarrow> FABRIC_MMIO_ATTRIBUTE \<Rightarrow> u64 \<Rightarrow> nat \<Rightarrow> 'h nbio_state \<Rightarrow> (SIL_STATUS \<times> 'h nbio_state) option" where
  "iommu_bar env seg0 attr0 base0 g st =
     (let m = nb_mem st
      in do { (r, h) \<leftarrow> FabricReserveMmio (ne_dbg env) (ne_ops env) base0 (ucast SIZE_512KB) ALIGN_512K
                 \<lparr>PciBusNum = ucast (gnb_Bus m g), SocketNum = unat (SocketId m g) mod 4, RbNum = unat (RBIndex m g) mod 32,
                  TgtType = TARGET_RB, PciSegNum = seg0\<rparr> (attr0\<lparr>MmioType := NON_PCI_DEVICE_BELOW_4G\<rparr>) (nb_rc st) (nb_hw st);
              let st = st\<lparr>nb_rc := rr_data r, nb_hw := h\<rparr>;
              if rr_Status r \<noteq> SilPass then Some (SilAborted, st)
              else Some (SilPass, st\<lparr>nb_hw := xUSLPciWrite32 (ne_ops env) (iommu_pci m g OR PCICFG_NBIO0_IOHUB0_IOMMU_CAP_BASE_LO_OFFSET)
                                            (ucast (rr_BaseAddress r)) (nb_hw st)\<rparr>) })"

text \<open>The field \<^verbatim>\<open>XT_SUP_W\<close> has the bit 2, \<^verbatim>\<open>GA_SUP_W\<close> the bit 7.\<close>

definition iommu_x2apic :: "'h nbio_env \<Rightarrow> nat \<Rightarrow> 'h nbio_state \<Rightarrow> 'h nbio_state" where
  "iommu_x2apic env g st =
     (let a = iommu_pci (nb_mem st) g OR PCICFG_NBIO0_IOHUB0_IOMMU_MMIO_CONTROL0_W_OFFSET;
          (v, h) = xUSLPciRead32 (ne_ops env) a (nb_hw st)
      in st\<lparr>nb_hw := xUSLPciWrite32 (ne_ops env) a (set_field 7 1 1 (set_field 2 1 1 v)) h\<rparr>)"

definition seg0_rmw :: "'h nbio_env \<Rightarrow> nat \<Rightarrow> u32 \<Rightarrow> u32 \<Rightarrow> u32 \<Rightarrow> 'h nbio_state \<Rightarrow> 'h nbio_state" where
  "seg0_rmw env g Address Mask Value st =
     st\<lparr>nb_hw := xUSLSmnReadModifyWrite (ne_ops env) 0 (gnb_Bus (nb_mem st) g) (NBIO_SPACE (nb_mem st) g Address) (NOT Mask) Value (nb_hw st)\<rparr>"

definition iommu_snp :: "'h nbio_env \<Rightarrow> nat \<Rightarrow> 'h nbio_state \<Rightarrow> 'h nbio_state" where
  "iommu_snp env g st =
     (let avic = (if IommuAvicSupport (nb_cfg st) then 1 else 0)
      in if SevSnpSupport env then
           let st = nbio_rmw env g SMN_IOHUB0NBIO0_IOMMU_MMIO_CONTROL0_W_ADDRESS IOMMU_MMIO_CONTROL0_W_GAM_SUP_W_MASK
                      (push_bit IOMMU_MMIO_CONTROL0_W_GAM_SUP_W_OFFSET 0) st;
               st = nbio_rmw env g SIL_RESERVED3_1501 SIL_RESERVED3_1500 (push_bit SIL_RESERVED3_1499 0) st;
               st = nbio_rmw env g SMN_IOHUB0NBIO0_IOMMU_MMIO_CONTROL0_W_ADDRESS IOMMU_MMIO_CONTROL0_W_GAM_SUP_W_MASK
                      (push_bit IOMMU_MMIO_CONTROL0_W_GAM_SUP_W_OFFSET avic) st;
               st = nbio_rmw env g SMN_IOHUB0NBIO0_IOMMU_MMIO_CONTROL0_W_ADDRESS IOMMU_MMIO_CONTROL0_W_SNPAVICSup_W_MASK
                      (push_bit IOMMU_MMIO_CONTROL0_W_SNPAVICSup_W_OFFSET avic) st;
               m = nb_mem st
           in st\<lparr>nb_hw := snd (xUSLSmnRead (ne_ops env) (gnb_Segment m g) (gnb_Bus m g)
                                 (NBIO_SPACE m g SMN_IOHUB0NBIO0_IOMMU_MMIO_CONTROL0_W_ADDRESS) (nb_hw st))\<rparr>
         else
           let st = seg0_rmw env g SMN_IOHUB0NBIO0_IOMMU_MMIO_CONTROL1_W_ADDRESS IOMMU_MMIO_CONTROL1_W_SNP_SUP_W_MASK
                      (push_bit IOMMU_MMIO_CONTROL1_W_SNP_SUP_W_OFFSET 0) st;
               st = seg0_rmw env g SMN_IOHUB0NBIO0_IOMMU_MMIO_CONTROL0_W_ADDRESS IOMMU_MMIO_CONTROL0_W_GAM_SUP_W_MASK
                      (push_bit IOMMU_MMIO_CONTROL0_W_GAM_SUP_W_OFFSET avic) st
           in seg0_rmw env g SIL_RESERVED3_1501 SIL_RESERVED3_1500 (push_bit SIL_RESERVED3_1499 avic) st)"

definition iommu_order :: "'h nbio_env \<Rightarrow> nat \<Rightarrow> 'h nbio_state \<Rightarrow> 'h nbio_state option" where
  "iommu_order env g st =
     do { (Status, l) \<leftarrow> GetSocLogicalIdOnCurrentCore (ne_cpu env) (Some \<lparr>id_Family = 0, id_Revision = 0\<rparr>);
          Some (case l of
                  Some l \<Rightarrow> if Status = SilPass \<and> id_Revision l AND (AMD_REV_F19_GENOA_A0 OR AMD_REV_F19_GENOA_A1) \<noteq> 0
                               \<and> id_Family l AND AMD_FAMILY_GENOA \<noteq> 0
                            then nbio_wr env g SMN_IOAGR_L1_INTRPT_ORDER_CTRL_ADDRESS_A0 0xFFFF st else st
                | None \<Rightarrow> st) }"

definition iommu_step ::
  "'h nbio_env \<Rightarrow> u16 \<Rightarrow> FABRIC_MMIO_ATTRIBUTE \<Rightarrow> u64 \<Rightarrow> nat \<Rightarrow> 'h nbio_state \<Rightarrow> (SIL_STATUS \<times> 'h nbio_state) option" where
  "iommu_step env seg0 attr0 base0 g st =
     do { (Status, st) \<leftarrow> (if IommuMMIOAddressReservedEnable (nb_cfg st) then iommu_bar env seg0 attr0 base0 g st else Some (SilPass, st));
          if Status \<noteq> SilPass then Some (Status, st)
          else do {
            st \<leftarrow> nbio_program env g IommuTable (iommu_property (nb_cfg st)) st;
            let st = (if is_xapic (nb_cfg st) then st else iommu_x2apic env g st);
            st \<leftarrow> iommu_order env g (iommu_snp env g st);
            Some (SilPass, nbio_rmw env g SMN_IOMMU_MMIO_CONTROL0_W_ADDRESS IOMMU_MMIO_CONTROL0_W_GAM_SUP_W_MASK
                             (push_bit IOMMU_MMIO_CONTROL0_W_GAM_SUP_W_OFFSET 1) st) } }"

definition NbioIOMMUInit ::
  "'h nbio_env \<Rightarrow> u16 \<Rightarrow> FABRIC_MMIO_ATTRIBUTE \<Rightarrow> u64 \<Rightarrow> 'h nbio_state \<Rightarrow> (SIL_STATUS \<times> 'h nbio_state) option" where
  "NbioIOMMUInit env seg0 attr0 base0 st =
     do { g \<leftarrow> GetGnbHandle (nb_sil st);
          (Status, _) \<leftarrow> SilGetIp2IpApi (ne_dbg env) (id_val SilId_RcManager) (nb_sil st);
          if Status \<noteq> SilPass then Some (SilNotFound, st) else handle_loop (iommu_step env seg0 attr0 base0) g st }"

section \<open>IOAPIC\<close>

text \<open>The base addresses, then the identifiers; both are written in segment 0.\<close>

definition ioapic_bar :: "'h nbio_env \<Rightarrow> nat \<Rightarrow> 'h nbio_state \<Rightarrow> (SIL_STATUS \<times> 'h nbio_state) option" where
  "ioapic_bar env g st =
     (let m = nb_mem st; bus = gnb_Bus m g; socket = unat (SocketId m g) mod 4
      in do { sil_assert (ne_dbg env \<longrightarrow> socket < 2);
              (r, h) \<leftarrow> FabricReserveMmio (ne_dbg env) (ne_ops env) 0 0x100 ALIGN_64K
                 \<lparr>PciBusNum = ucast bus, SocketNum = socket, RbNum = unat (gnb_DieNumber m g) mod 32, TgtType = TARGET_PCI_BUS,
                  PciSegNum = ucast (gnb_Segment m g)\<rparr>
                 \<lparr>ReadEnable = True, WriteEnable = True, NonPosted = False, CpuDis = False, MmioType = NON_PCI_DEVICE_BELOW_4G\<rparr>
                 (nb_rc st) (nb_hw st);
              let st = st\<lparr>nb_rc := rr_data r, nb_hw := h\<rparr>;
              if rr_Status r \<noteq> SilPass then Some (SilAborted, st)
              else
                let h = xUSLSmnWrite (ne_ops env) 0 bus (NBIO_SPACE m g SMN_IOHUB0NBIO0_IOAPIC_BASE_ADDR_HI_ADDRESS)
                          (ucast (drop_bit 32 (rr_BaseAddress r))) h;
                    h = xUSLSmnWrite (ne_ops env) 0 bus (NBIO_SPACE m g SMN_IOHUB0NBIO0_IOAPIC_BASE_ADDR_LO_ADDRESS)
                          (ucast (rr_BaseAddress r)) h
                in Some (SilPass, st\<lparr>nb_hw := h\<rparr>) })"

definition ioapic_id :: "NBIO_CONFIG_DATA \<Rightarrow> memory \<Rightarrow> nat \<Rightarrow> u8" where
  "ioapic_id cfg m g = IoApicIdBase cfg + (SocketId m g * 4 + RBIndex m g)"

definition ioapic_id_step :: "'h nbio_env \<Rightarrow> nat \<Rightarrow> 'h nbio_state \<Rightarrow> (SIL_STATUS \<times> 'h nbio_state) option" where
  "ioapic_id_step env g st =
     (let m = nb_mem st
      in Some (SilPass, st\<lparr>nb_hw := xUSLSmnWrite (ne_ops env) 0 (gnb_Bus m g) (NBIO_SPACE m g SMN_IOHUB0NBIO0_IOAPIC_ID_REGISTER_ADDRESS)
                                     (push_bit 24 (ucast (ioapic_id (nb_cfg st) m g))) (nb_hw st)\<rparr>))"

definition NbioIoApicInit :: "'h nbio_env \<Rightarrow> 'h nbio_state \<Rightarrow> (SIL_STATUS \<times> 'h nbio_state) option" where
  "NbioIoApicInit env st =
     do { (Status, st) \<leftarrow>
            (if IoApicMMIOAddressReservedEnable (nb_cfg st)
             then do { (Status, _) \<leftarrow> SilGetIp2IpApi (ne_dbg env) (id_val SilId_RcManager) (nb_sil st);
                       if Status \<noteq> SilPass then Some (SilNotFound, st)
                       else do { g \<leftarrow> GetGnbHandle (nb_sil st); handle_loop (ioapic_bar env) g st } }
             else Some (SilPass, st));
          if Status \<noteq> SilPass then Some (Status, st)
          else if IoApicIdPreDefineEn (nb_cfg st) then do { g \<leftarrow> GetGnbHandle (nb_sil st); handle_loop (ioapic_id_step env) g st }
          else Some (SilPass, st) }"

section \<open>Top of memory\<close>

text \<open>The two limits for a value of \<^verbatim>\<open>TOP_MEM2\<close>.\<close>

definition gnb_tom2 :: "u64 \<Rightarrow> u64" where
  "gnb_tom2 t = (if 0x10000000000 < t AND 0x0000FFFFFFC00000 then 0x000000FD00000000 else t AND 0x000001FFFF800000)"

definition gnb_tom3 :: "u64 \<Rightarrow> u64" where
  "gnb_tom3 t = (if 0x10000000000 < t AND 0x0000FFFFFFC00000 then (t - 1) AND 0x000FFFFFFFC00000 else 0)"

text \<open>
  The values of the four registers. \<open>slot1\<close> is what was read last into the variable for the first one, \<open>upper\<close> the old
  value of the third and \<open>lower\<close> the uninitialised variable for the second.
\<close>

definition tom_slot1 :: "u32 \<Rightarrow> u64 \<Rightarrow> u32" where
  "tom_slot1 slot1 tom = set_field 23 9 (drop_bit 23 (ucast tom AND 0xFF800000)) slot1"

definition tom_lower :: "u32 \<Rightarrow> u64 \<Rightarrow> u32" where
  "tom_lower lower tom2 = (if tom2 = 0 then lower else set_field 0 1 1 (set_field 23 9 (drop_bit 23 (ucast tom2 AND 0xFF800000)) lower))"

definition tom_upper :: "u32 \<Rightarrow> u64 \<Rightarrow> u32" where
  "tom_upper upper tom2 = (if tom2 = 0 then upper else set_field 0 9 (ucast (drop_bit 32 tom2 AND 0xFF)) upper)"

definition tom_third :: "u64 \<Rightarrow> u32" where
  "tom_third tom3 = (if tom3 = 0 then 0 else set_field 31 1 1 (set_field 0 30 (ucast (drop_bit 22 tom3)) 0))"

definition tom_step :: "'h nbio_env \<Rightarrow> u32 \<times> u32 \<times> u32 \<times> u32 \<Rightarrow> nat \<Rightarrow> 'h nbio_state \<Rightarrow> (SIL_STATUS \<times> 'h nbio_state) option" where
  "tom_step env = (\<lambda>(slot1, lower, upper, third) g st.
     let st = nbio_wr env g SMN_IOHUB0NBIO0_NB_TOP_OF_DRAM_SLOT1_ADDRESS slot1 st;
         st = nbio_wr env g SMN_IOHUB0NBIO0_NB_LOWER_TOP_OF_DRAM2_ADDRESS lower st;
         st = nbio_wr env g SMN_IOHUB0NBIO0_NB_UPPER_TOP_OF_DRAM2_ADDRESS upper st
     in Some (SilPass, nbio_wr env g SMN_IOHUB0NBIO0_NB_TOP_OF_DRAM3_ADDRESS third st))"

text \<open>The first three reads use the addresses of the first root complex; a null handle is dereferenced.\<close>

definition NbioSetTopOfMemory :: "'h nbio_env \<Rightarrow> u32 \<Rightarrow> 'h nbio_state \<Rightarrow> (SIL_STATUS \<times> 'h nbio_state) option" where
  "NbioSetTopOfMemory env lower0 st =
     do { g \<leftarrow> GetGnbHandle (nb_sil st);
          sil_assert (g \<noteq> 0);
          let rd = xUSLSmnRead (ne_ops env) (gnb_Segment (nb_mem st) g) (gnb_Bus (nb_mem st) g);
          let (_, h) = rd SMN_IOHUB0NBIO0_NB_TOP_OF_DRAM_SLOT1_ADDRESS (nb_hw st);
          let (slot1, h) = rd SMN_IOHUB0NBIO0_NB_LOWER_TOP_OF_DRAM2_ADDRESS h;
          let (upper, h) = rd SMN_IOHUB0NBIO0_NB_UPPER_TOP_OF_DRAM2_ADDRESS h;
          let (tom, h) = cpu_rdmsr (ne_cpu env) MSR_TOM h;
          let (sys_cfg, h) = cpu_rdmsr (ne_cpu env) MSR_SYS_CFG h;
          let (tom2, tom3, h) = (if bit sys_cfg 21
                                 then let (t, h) = cpu_rdmsr (ne_cpu env) MSR_TOM2 h in (gnb_tom2 t, gnb_tom3 t, h) else (0, 0, h));
          handle_loop (tom_step env (tom_slot1 slot1 tom, tom_lower lower0 tom2, tom_upper upper tom2, tom_third tom3)) g (st\<lparr>nb_hw := h\<rparr>) }"

section \<open>Time points\<close>

text \<open>
  \<^verbatim>\<open>PcieConfigurationInit\<close>, which builds the topology, is the argument \<open>pcie\<close>. The statuses of the steps are dropped. \<open>created\<close>
  tells whether the input block was created.
\<close>

definition InitializeNbioTp1 ::
  "'h nbio_env \<Rightarrow> ('h nbio_state \<Rightarrow> 'h nbio_state option) \<Rightarrow> bool \<Rightarrow> u32 \<Rightarrow> u16 \<Rightarrow> FABRIC_MMIO_ATTRIBUTE \<Rightarrow> u64 \<Rightarrow> u32 \<Rightarrow> 'h nbio_state
     \<Rightarrow> (SIL_STATUS \<times> 'h nbio_state) option" where
  "InitializeNbioTp1 env pcie created cntl seg0 attr0 base0 lower0 st =
     (if \<not> created then Some (SilAborted, st)
      else do { st \<leftarrow> pcie st;
                (_, st) \<leftarrow> NbioBaseConfigurationGenoa env cntl st;
                (_, st) \<leftarrow> NbioIOMMUInit env seg0 attr0 base0 st;
                (_, st) \<leftarrow> NbioIoApicInit env st;
                (_, st) \<leftarrow> NbioSetTopOfMemory env lower0 st;
                Some (SilPass, st) })"

definition InitializeNbioTp2 :: SIL_STATUS where "InitializeNbioTp2 = SilPass"
definition InitializeNbioTp3 :: SIL_STATUS where "InitializeNbioTp3 = SilPass"

end
