(* ===== verification/Nbio_Sample.thy ===== *)
theory Nbio_Sample
  imports Nbio_Base Sil_Device_Props
begin

text \<open>
  Concrete inputs for the properties of the NBIO base initialisation: a configuration, an SMN register file at segment 0, bus 0, and
  memory that holds given words from an address on.
\<close>

lemma sample_device: "smn_device smn_sample 0 0 fst snd"
proof -
  have "smn_index_addr 0 0 = 0xB8" "smn_data_addr 0 0 = 0xBC" by code_simp+
  then show ?thesis by (simp add: smn_device_def smn_sample_def)
qed

text \<open>Words laid out in memory.\<close>

primrec words_mem :: "nat \<Rightarrow> u32 list \<Rightarrow> memory" where
  "words_mem p [] = (\<lambda>_. 0)"
| "words_mem p (w # ws) = write32 (words_mem (p + 4) ws) p w"

lemma words_at_write: "b + 4 \<le> p \<Longrightarrow> words_at (write32 m b w) p ws = words_at m p ws"
  by (induction ws arbitrary: p) (simp_all add: read_write_apart apart_def)

lemma words_at_mem: "words_at (words_mem p ws) p ws"
  by (induction ws arbitrary: p) (simp_all add: words_at_write)

lemma words_mem_below: "a < p \<Longrightarrow> words_mem p ws a = 0"
  by (induction ws arbitrary: p) (simp_all add: write32_def write_le_other)

lemma words_mem_handle:
  assumes "100 \<le> p"
  shows "gnb_Segment (words_mem p ws) 0 = 0" "gnb_Bus (words_mem p ws) 0 = 0"
proof -
  have "gnb_Address (words_mem p ws) 0 = gnb_Address (\<lambda>_. 0) 0"
    unfolding gnb_Address_def read32_def
    by (rule arg_cong [where f = of_nat], rule read_le_cong) (use assms in \<open>simp add: words_mem_below\<close>)
  moreover have "gnb_Segment (\<lambda>_. 0) 0 = 0" "gnb_Bus (\<lambda>_. 0) 0 = 0" by code_simp+
  ultimately show "gnb_Segment (words_mem p ws) 0 = 0" "gnb_Bus (words_mem p ws) 0 = 0"
    by (simp_all add: gnb_Segment_def gnb_Bus_def)
qed

definition sample_cfg :: NBIO_CONFIG_DATA where
  "sample_cfg = \<lparr>IOHCClkGatingSupport = True, CfgNbifMgcgClkGating = True, CfgSstunlClkGating = True, CfgSyshubMgcgClkGating = True,
     TPHCompleterEnable = 0, IoApicMMIOAddressReservedEnable = True, IoApicIdPreDefineEn = True, IoApicIdBase = 0xF0, NbifMgcgHysteresis = 0,
     SyshubMgcgHysteresis = 0, IohcNonPCIBarInitSmu = False, IohcNonPCIBarInitDbg = False, IohcNonPCIBarInitFastReg = False,
     IohcNonPCIBarInitFastRegCtl = False, IommuMMIOAddressReservedEnable = True, nb_AmdApicMode = True, IommuAvicSupport = False,
     IommuL2ClockGatingEnable = True, IommuL1ClockGatingEnable = True, IOHCPgEnable = False, NbioGlobalCgOverride = 1, IommuSupport = True,
     cfg_straps = (\<lambda>_. True)\<rparr>"

end
