(* ===== verification/Nbio_Base_Props.thy ===== *)
theory Nbio_Base_Props
  imports Nbio_Sample
begin

text \<open>
  Properties of the NBIO base initialisation: what its register tables leave in the registers of a root complex.
\<close>

section \<open>Tables\<close>

lemma apply_regs:
  assumes "smn_device ops seg bus idx regs"
  shows "regs (smn_apply ops seg bus Modifier P e h) = smn_regs Modifier P [e] (regs h)"
  using smn_access_contract [OF assms] by (cases e) (simp_all add: smn_regs_def map_filter_simps)

lemma smn_regs_Cons: "smn_regs Modifier P (e # es) r = smn_regs Modifier P es (smn_regs Modifier P [e] r)"
  by (simp add: smn_regs_def map_filter_simps split: option.split)

lemma fold_regs:
  assumes "smn_device ops seg bus idx regs"
  shows "regs (fold (smn_apply ops seg bus Modifier P) es h) = smn_regs Modifier P es (regs h)"
proof (induction es arbitrary: h)
  case Nil
  then show ?case by (simp add: smn_regs_def map_filter_simps)
next
  case (Cons e es)
  show ?case by (simp only: fold.simps o_apply Cons.IH apply_regs [OF assms] smn_regs_Cons [of _ _ e es])
qed

text \<open>
  C26: the table interpreter. On a table in memory \<^verbatim>\<open>ProgramNbioSmnTable\<close> always returns \<^verbatim>\<open>SilPass\<close>, and on an SMN register
  file it leaves in every register what the entries whose properties hold give when they are applied in order, as
  updates of the bits in their masks.
\<close>

theorem smn_table_programs:
  assumes "words_at m p (smn_table es)" "smn_device ops (gnb_Segment m g) (gnb_Bus m g) idx regs"
  shows "\<exists>h'. ProgramNbioSmnTable dbg ops m g p Modifier P h = Some (SilPass, h')
    \<and> regs h' = smn_regs Modifier P es (regs h)"
  by (rule exI) (rule conjI, rule program_entries [OF assms(1)], rule fold_regs [OF assms(2)])

definition smn_sample_mem :: memory where
  "smn_sample_mem a = (if 100 \<le> a \<and> a < 136
     then [1, 0, 0, 0, 0xB1, 0x13, 0, 0, 0x0F, 0, 0, 0, 5, 0, 0, 0, 2, 0, 0, 0, 2, 0, 0, 0, 0x20, 0, 0, 0, 7, 0, 0, 0, 0xFF, 0, 0, 0] ! (a - 100)
     else 0)"

theorem smn_table_programs_witness:
  "\<exists>h'. ProgramNbioSmnTable True smn_sample smn_sample_mem 0 100 0x100000 2 (7, \<lambda>_. 0x3C) = Some (SilPass, h')
    \<and> snd h' 0x1013B1 = 0x35 \<and> snd h' 0x100020 = 7 \<and> snd h' 0x20 = 0x3C"
proof -
  let ?es = "[SMN_ENTRY_RMW 0x13B1 0x0F 5, SMN_ENTRY_PROPERTY_WR 2 0x20 7]"
  have w: "words_at smn_sample_mem 100 (smn_table ?es)" by code_simp
  have b: "gnb_Segment smn_sample_mem 0 = 0" "gnb_Bus smn_sample_mem 0 = 0" by code_simp+
  then have d: "smn_device smn_sample (gnb_Segment smn_sample_mem 0) (gnb_Bus smn_sample_mem 0) fst snd" using sample_device by simp
  have r: "smn_regs 0x100000 2 ?es (\<lambda>_. 0x3C) 0x1013B1 = 0x35" "smn_regs 0x100000 2 ?es (\<lambda>_. 0x3C) 0x100020 = 7"
    "smn_regs 0x100000 2 ?es (\<lambda>_. 0x3C) 0x20 = 0x3C" by code_simp+
  show ?thesis using smn_table_programs [OF w d, of True "0x100000" 2 "(7, \<lambda>_. 0x3C)"] r by auto
qed

text \<open>The updates of one register are those of the entries that name it.\<close>

fun entry_addr :: "smn_entry \<Rightarrow> u32" where
  "entry_addr (SMN_ENTRY_WR a v) = a"
| "entry_addr (SMN_ENTRY_RMW a am om) = a"
| "entry_addr (SMN_ENTRY_PROPERTY_WR p a v) = a"
| "entry_addr (SMN_ENTRY_PROPERTY_RMW p a am om) = a"

lemma smn_regs_other: "entry_addr e \<noteq> a \<Longrightarrow> smn_regs Modifier P [e] r (a + Modifier) = r (a + Modifier)"
  by (cases e) (auto simp: smn_regs_def map_filter_simps)

lemma smn_regs_cong: "r (a + Modifier) = r' (a + Modifier) \<Longrightarrow> smn_regs Modifier P [e] r (a + Modifier) = smn_regs Modifier P [e] r' (a + Modifier)"
  by (cases e) (auto simp: smn_regs_def map_filter_simps)

lemma smn_regs_filter:
  "r (a + Modifier) = r' (a + Modifier) \<Longrightarrow>
     smn_regs Modifier P es r (a + Modifier) = smn_regs Modifier P (filter (\<lambda>e. entry_addr e = a) es) r' (a + Modifier)"
proof (induction es arbitrary: r r')
  case Nil
  then show ?case by (simp add: smn_regs_def map_filter_simps)
next
  case (Cons e es)
  show ?case
  proof (cases "entry_addr e = a")
    case True
    then show ?thesis
      using Cons.IH [where r = "smn_regs Modifier P [e] r" and r' = "smn_regs Modifier P [e] r'"]
        smn_regs_cong [where r = r and r' = r' and e = e] Cons.prems
      by (simp add: smn_regs_Cons [of _ _ e es] smn_regs_Cons [of _ _ e "filter (\<lambda>e. entry_addr e = a) es"])
  next
    case False
    then show ?thesis
      using Cons.IH [where r = "smn_regs Modifier P [e] r" and r' = r'] Cons.prems smn_regs_other [of e a Modifier P r]
      by (simp add: smn_regs_Cons [of _ _ e es] smn_regs_Cons [of _ _ e "filter (\<lambda>e. entry_addr e = a) es"])
  qed
qed

section \<open>Masks\<close>

fun entry_mask_ok :: "smn_entry \<Rightarrow> bool" where
  "entry_mask_ok (SMN_ENTRY_RMW a am om) \<longleftrightarrow> om AND NOT am = 0"
| "entry_mask_ok (SMN_ENTRY_PROPERTY_RMW p a am om) \<longleftrightarrow> om AND NOT am = 0"
| "entry_mask_ok _ \<longleftrightarrow> True"

fun entry_mask :: "smn_entry \<Rightarrow> u32" where
  "entry_mask (SMN_ENTRY_RMW a am om) = am"
| "entry_mask (SMN_ENTRY_PROPERTY_RMW p a am om) = am"
| "entry_mask _ = - 1"

lemma entry_keeps_bit:
  assumes "entry_addr e = a" "entry_mask_ok e" "\<not> bit (entry_mask e) n"
  shows "bit (smn_regs Modifier P [e] r (a + Modifier)) n \<longleftrightarrow> bit (r (a + Modifier)) n"
proof (cases "n < 32")
  case True
  have "\<not> bit om n" if "om AND NOT am = 0" "\<not> bit am n" for om am :: u32
  proof
    assume "bit om n"
    then have "bit (om AND NOT am) n" using that(2) True by (simp add: bit_simps)
    then show False by (simp add: that(1))
  qed
  then show ?thesis using assms True by (cases e) (auto simp: smn_regs_def map_filter_simps bit_simps)
next
  case False
  then show ?thesis using bit_imp_le_length by fastforce
qed

lemma table_keeps_bit:
  assumes "\<forall>e\<in>set es. entry_addr e = a \<longrightarrow> entry_mask_ok e \<and> \<not> bit (entry_mask e) n"
  shows "bit (smn_regs Modifier P es r (a + Modifier)) n \<longleftrightarrow> bit (r (a + Modifier)) n"
  using assms
proof (induction es arbitrary: r)
  case Nil
  then show ?case by (simp add: smn_regs_def map_filter_simps)
next
  case (Cons e es)
  have "bit (smn_regs Modifier P [e] r (a + Modifier)) n \<longleftrightarrow> bit (r (a + Modifier)) n"
    using Cons.prems entry_keeps_bit [of e a n Modifier P r] smn_regs_other [of e a Modifier P r] by (cases "entry_addr e = a") auto
  then show ?case using Cons.IH [of "smn_regs Modifier P [e] r"] Cons.prems by (simp add: smn_regs_Cons [of _ _ e es])
qed

lemma mask_ok1: "list_all entry_mask_ok NbioPprInitValues" by code_simp
lemma mask_ok2: "list_all entry_mask_ok GnbnBifInitTable" by code_simp
lemma mask_ok3: "list_all entry_mask_ok GnbSdpMuxInitTableCommon" by code_simp
lemma mask_ok4: "list_all entry_mask_ok GnbOncePerSocketInitMP" by code_simp
lemma mask_ok5: "list_all entry_mask_ok GnbIommuEnvInitTable" by code_simp
lemma mask_ok6: "list_all entry_mask_ok (tl GnbEarlyInitTableCommon)" by code_simp
lemma early_head: "hd GnbEarlyInitTableCommon = SMN_ENTRY_RMW SMN_IOHUB0NBIO0_IOHC_FEATURE_CNTL_ADDRESS 1 2" by code_simp

lemmas masks_ok = mask_ok1 mask_ok2 mask_ok3 mask_ok4 mask_ok5

lemma early_mask_ok:
  assumes "e \<in> set GnbEarlyInitTableCommon" "entry_addr e \<noteq> SMN_IOHUB0NBIO0_IOHC_FEATURE_CNTL_ADDRESS"
  shows "entry_mask_ok e"
proof -
  have "e \<noteq> hd GnbEarlyInitTableCommon" using assms(2) by (auto simp: early_head)
  then have "e \<in> set (tl GnbEarlyInitTableCommon)" using assms(1) list.collapse [of GnbEarlyInitTableCommon] set_ConsD by (metis empty_iff list.set(1))
  then show ?thesis using mask_ok6 by (simp add: list_all_iff)
qed

text \<open>
  C29: the register tables stay within their masks. Whichever of the six tables is programmed, a bit that no entry of the
  table names in its mask keeps its value. The one register left out is \<^verbatim>\<open>IOHC_FEATURE_CNTL\<close>, whose entry in the early table has the
  offset of the field in the place of the mask.
\<close>

theorem smn_tables_within_masks:
  assumes "T \<in> {NbioPprInitValues, GnbEarlyInitTableCommon, GnbnBifInitTable, GnbSdpMuxInitTableCommon, GnbOncePerSocketInitMP, GnbIommuEnvInitTable}"
    and "words_at m p (smn_table T)" "smn_device ops (gnb_Segment m g) (gnb_Bus m g) idx regs"
    and "a \<noteq> SMN_IOHUB0NBIO0_IOHC_FEATURE_CNTL_ADDRESS" "\<forall>e\<in>set T. entry_addr e = a \<longrightarrow> \<not> bit (entry_mask e) n"
  shows "\<exists>h'. ProgramNbioSmnTable dbg ops m g p Modifier P h = Some (SilPass, h')
    \<and> bit (regs h' (a + Modifier)) n = bit (regs h (a + Modifier)) n"
proof -
  have "entry_mask_ok e" if "e \<in> set T" "entry_addr e = a" for e
    using assms(1,4) that early_mask_ok [of e] masks_ok by (auto simp: list_all_iff)
  then have "bit (smn_regs Modifier P T (regs h) (a + Modifier)) n \<longleftrightarrow> bit (regs h (a + Modifier)) n"
    by (intro table_keeps_bit) (use assms(5) in auto)
  then show ?thesis using program_entries [OF assms(2), of dbg ops g Modifier P h] fold_regs [OF assms(3)] by simp
qed

section \<open>Clock gating\<close>

definition clock_regs :: "u32 list" where
  "clock_regs = [SIL_RESERVED_732, SIL_RESERVED_733, SIL_RESERVED_734, SIL_RESERVED_728, SIL_RESERVED_729]"

definition clock_pair :: "u32 \<Rightarrow> smn_entry list" where
  "clock_pair a = [SMN_ENTRY_PROPERTY_RMW PROPERTY_IOHC_CLKGATING_ENABLED a 0xFFC00000 0,
     SMN_ENTRY_PROPERTY_RMW PROPERTY_IOHC_CLKGATING_DISABLED a 0xFFC00000 0xFFC00000]"

lemma clock_table1:
  "NBIO_IOHC_CLOCK_GATING_TBL_1 = concat (map clock_pair [SIL_RESERVED_732, SIL_RESERVED_733, SIL_RESERVED_734])"
  by code_simp

lemma clock_table2: "NBIO_IOHC_CLOCK_GATING_TBL_2 = concat (map clock_pair [SIL_RESERVED_728, SIL_RESERVED_729])"
  by code_simp

lemma clock_table: "NBIO_IOHC_CLOCK_GATING_TBL = concat (map clock_pair clock_regs)"
  by (simp add: NBIO_IOHC_CLOCK_GATING_TBL_def clock_table1 clock_table2 clock_regs_def)

lemma clock_others:
  "list_all (\<lambda>e. entry_addr e \<notin> set clock_regs) (NBIO_IOHC_P2P_TBL @ NBIO_IOHC_CRS_TBL)"
  "list_all (\<lambda>e. entry_addr e \<notin> set clock_regs) (NBIO_IOHC_ARBITRATION_TBL @
    NBIO_IOAPIC_CLOCK_GATING_TBL @ NBIO_IOAPIC_INTR_ROUTING_TBL @ [SMN_ENTRY_RMW SIL_RESERVED_737 (SIL_RESERVED_206 OR SIL_RESERVED_207)
    ((push_bit SIL_RESERVED_208 1) OR (push_bit SIL_RESERVED_209 0))])"
  by code_simp+

lemma filter_absent: "list_all (\<lambda>e. entry_addr e \<notin> A) es \<Longrightarrow> a \<in> A \<Longrightarrow> filter (\<lambda>e. entry_addr e = a) es = []"
  by (auto simp: list_all_iff filter_empty_conv)

lemma filter_pairs: "distinct as \<Longrightarrow> a \<in> set as \<Longrightarrow> filter (\<lambda>e. entry_addr e = a) (concat (map clock_pair as)) = clock_pair a"
proof (induction as)
  case (Cons b as)
  have "filter (\<lambda>e. entry_addr e = a) (concat (map clock_pair as)) = []" if "a \<notin> set as"
    using that by (auto simp: filter_empty_conv clock_pair_def)
  moreover have "filter (\<lambda>e. entry_addr e = a) (clock_pair b) = (if a = b then clock_pair a else [])" by (simp add: clock_pair_def)
  ultimately show ?case using Cons by auto
qed simp

lemma clock_entries:
  assumes "a \<in> set clock_regs"
  shows "filter (\<lambda>e. entry_addr e = a) GnbEarlyInitTableCommon = clock_pair a"
proof -
  have "distinct clock_regs" by code_simp
  then have "filter (\<lambda>e. entry_addr e = a) NBIO_IOHC_CLOCK_GATING_TBL = clock_pair a"
    using filter_pairs assms by (simp add: clock_table)
  then show ?thesis using clock_others [THEN filter_absent, OF assms] unfolding GnbEarlyInitTableCommon_def by simp
qed

lemma and_small: "P AND 1 = 1 \<longleftrightarrow> bit P 0" "P AND 2 = 2 \<longleftrightarrow> bit P 1" for P :: u32
proof -
  have "P AND 2 ^ n = 2 ^ n \<longleftrightarrow> bit P n" if "n < 32" for n
    using that by (auto simp: bit_eq_iff [of "P AND 2 ^ n"] bit_simps)
  from this [of 0] this [of 1] show "P AND 1 = 1 \<longleftrightarrow> bit P 0" "P AND 2 = 2 \<longleftrightarrow> bit P 1" by simp_all
qed

lemmas nbio_property_defs = PROPERTY_DEFAULT_DEVICE_PRESENCE_def PROPERTY_PRESENT_IOHC_def PROPERTY_IOHC_CLKGATING_ENABLED_def
  PROPERTY_IOHC_CLKGATING_DISABLED_def PROPERTY_SST_CLKGATING_ENABLED_def PROPERTY_SST_CLKGATING_DISABLED_def
  PROPERTY_NBIF_MGCG_CLKGATING_ENABLED_def PROPERTY_NBIF_MGCG_CLKGATING_DISABLED_def PROPERTY_PRESENT_SYSHUB_def
  PROPERTY_SYSHUB_MGCG_CLKGATING_ENABLED_def PROPERTY_SYSHUB_MGCG_CLKGATING_DISABLED_def PROPERTY_TPH_COMPLETER_ENABLED_def

lemma iohc_present:
  assumes "\<not> bit flags 0"
  shows "(PROPERTY_DEFAULT_DEVICE_PRESENCE AND NOT (push_bit 16 flags)) AND PROPERTY_PRESENT_IOHC \<noteq> 0"
proof
  assume "(PROPERTY_DEFAULT_DEVICE_PRESENCE AND NOT (push_bit 16 flags)) AND PROPERTY_PRESENT_IOHC = 0"
  then have "\<not> bit ((PROPERTY_DEFAULT_DEVICE_PRESENCE AND NOT (push_bit 16 flags)) AND PROPERTY_PRESENT_IOHC) 16" by simp
  then show False using assms by (simp add: nbio_property_defs bit_simps)
qed

lemma clock_properties:
  assumes "\<not> bit flags 0"
  shows "bit (nbio_property cfg flags) 0 \<longleftrightarrow> IOHCClkGatingSupport cfg \<or> IOHCPgEnable cfg"
    and "bit (nbio_property cfg flags) 1 \<longleftrightarrow> \<not> (IOHCClkGatingSupport cfg \<and> IOHCPgEnable cfg)"
  using iohc_present [OF assms] by (auto simp: nbio_property_def Let_def bit_simps nbio_property_defs)

text \<open>
  C30: clock gating in the IO hub. Programmed with the properties of a configuration, the early table clears the ten
  override bits of each of the five clock control registers only when both \<^verbatim>\<open>IOHCClkGatingSupport\<close> and \<^verbatim>\<open>IOHCPgEnable\<close> are set;
  when one of the two is off, the overrides are set although the other asks for gating.
\<close>

theorem clock_gating_needs_both:
  assumes "words_at m p (smn_table GnbEarlyInitTableCommon)" "smn_device ops (gnb_Segment m g) (gnb_Bus m g) idx regs"
    and "\<not> bit flags 0" "a \<in> set clock_regs"
  shows "\<exists>h'. ProgramNbioSmnTable dbg ops m g p Modifier (nbio_property cfg flags) h = Some (SilPass, h')
    \<and> regs h' (a + Modifier) = (regs h (a + Modifier) AND NOT 0xFFC00000)
        OR (if IOHCClkGatingSupport cfg \<and> IOHCPgEnable cfg then 0 else 0xFFC00000)"
proof -
  let ?P = "nbio_property cfg flags"
  have "smn_regs Modifier ?P GnbEarlyInitTableCommon (regs h) (a + Modifier) = smn_regs Modifier ?P (clock_pair a) (regs h) (a + Modifier)"
    using smn_regs_filter [of "regs h" a Modifier "regs h" ?P GnbEarlyInitTableCommon] clock_entries [OF assms(4)] by simp
  also have "\<dots> = (regs h (a + Modifier) AND NOT 0xFFC00000) OR (if IOHCClkGatingSupport cfg \<and> IOHCPgEnable cfg then 0 else 0xFFC00000)"
    using clock_properties [OF assms(3), of cfg]
    by (auto simp: clock_pair_def smn_regs_def map_filter_simps PROPERTY_IOHC_CLKGATING_ENABLED_def PROPERTY_IOHC_CLKGATING_DISABLED_def and_small)
  finally show ?thesis using program_entries [OF assms(1), of dbg ops g Modifier ?P h] fold_regs [OF assms(2)] by simp
qed

theorem clock_gating_needs_both_witness:
  "\<exists>h'. ProgramNbioSmnTable True smn_sample (words_mem 4096 (smn_table GnbEarlyInitTableCommon)) 0 4096 0x100000
          (nbio_property sample_cfg 0) (7, \<lambda>_. 0x3C) = Some (SilPass, h')
    \<and> snd h' (SIL_RESERVED_733 + 0x100000) = 0xFFC0003C"
proof -
  let ?m = "words_mem 4096 (smn_table GnbEarlyInitTableCommon)"
  have d: "smn_device smn_sample (gnb_Segment ?m 0) (gnb_Bus ?m 0) fst snd" by (simp add: words_mem_handle sample_device)
  have a: "SIL_RESERVED_733 \<in> set clock_regs" by (simp add: clock_regs_def)
  show ?thesis
    using clock_gating_needs_both [OF words_at_mem d _ a, of 0 True "0x100000" sample_cfg "(7, \<lambda>_. 0x3C)"]
    by (simp add: sample_cfg_def)
qed

theorem smn_tables_within_masks_witness:
  "\<exists>h'. ProgramNbioSmnTable True smn_sample (words_mem 4096 (smn_table GnbIommuEnvInitTable)) 0 4096 0 0 (7, \<lambda>_. 0x3C) = Some (SilPass, h')
    \<and> bit (snd h' (0x13EFF03C + 0)) 3"
proof -
  let ?m = "words_mem 4096 (smn_table GnbIommuEnvInitTable)"
  have d: "smn_device smn_sample (gnb_Segment ?m 0) (gnb_Bus ?m 0) fst snd" by (simp add: words_mem_handle sample_device)
  have "list_all (\<lambda>e. entry_addr e = 0x13EFF03C \<longrightarrow> \<not> bit (entry_mask e) 3) GnbIommuEnvInitTable" by code_simp
  then have k: "\<forall>e\<in>set GnbIommuEnvInitTable. entry_addr e = 0x13EFF03C \<longrightarrow> \<not> bit (entry_mask e) 3" by (simp add: list_all_iff)
  have a: "0x13EFF03C \<noteq> SMN_IOHUB0NBIO0_IOHC_FEATURE_CNTL_ADDRESS" by code_simp
  have t: "GnbIommuEnvInitTable \<in> {NbioPprInitValues, GnbEarlyInitTableCommon, GnbnBifInitTable, GnbSdpMuxInitTableCommon,
    GnbOncePerSocketInitMP, GnbIommuEnvInitTable}" by simp
  show ?thesis using smn_tables_within_masks [OF t words_at_mem d a k, of True 0 0 "(7, \<lambda>_. 0x3C)"] by (simp add: bit_simps)
qed

end
