(* ===== verification/Nbio_Option_Props.thy ===== *)
theory Nbio_Option_Props
  imports Nbio_Sample
begin

text \<open>
  Properties of \<^verbatim>\<open>NbifConfigureCommonOptions\<close>: which flag of the configuration each strap bit ends up with.
\<close>

section \<open>Common options\<close>

















end
