(* ===== verification/Nbio_Props.thy ===== *)
theory Nbio_Props
  imports Nbio_Topology
begin

text \<open>
  Properties of the walks over the NBIO topology: which descriptors the callbacks see, in which order,
  and what is reported, on a sample topology and in general.
\<close>

section \<open>A sample topology\<close>

text \<open>
  A platform with two silicons of one wrapper each; the first wrapper has two engines, the second one.
\<close>

definition write_header :: "memory \<Rightarrow> nat \<times> u32 \<times> u16 \<times> u16 \<times> u16 \<Rightarrow> memory" where
  "write_header m = (\<lambda>(d, fl, pa, pe, ch).
     write16 (write16 (write16 (write32 m d fl) (d + 4) pa) (d + 6) pe) (d + 8) ch)"

lemma header_same:
  "DescriptorFlags (write_header m (d, fl, pa, pe, ch)) d = fl"
  "desc_Parent (write_header m (d, fl, pa, pe, ch)) d = unat pa"
  "desc_Peer (write_header m (d, fl, pa, pe, ch)) d = unat pe"
  "desc_Child (write_header m (d, fl, pa, pe, ch)) d = unat ch"
  by (simp_all add: write_header_def DescriptorFlags_def desc_Parent_def desc_Peer_def desc_Child_def
      read_write_apart apart_def)

lemma header_byte: "x < d \<or> d + 10 \<le> x \<Longrightarrow> write_header m (d, fl, pa, pe, ch) x = m x"
  by (auto simp: write_header_def mem_ops write_le_other)

lemma header_other:
  assumes "apart e 10 d 10"
  shows "DescriptorFlags (write_header m (d, fl, pa, pe, ch)) e = DescriptorFlags m e"
    and "desc_Parent (write_header m (d, fl, pa, pe, ch)) e = desc_Parent m e"
    and "desc_Peer (write_header m (d, fl, pa, pe, ch)) e = desc_Peer m e"
    and "desc_Child (write_header m (d, fl, pa, pe, ch)) e = desc_Child m e"
proof -
  have "same_headers {e} m (write_header m (d, fl, pa, pe, ch))"
    using assms by (auto simp: same_headers_def apart_def header_byte)
  from same_header_fields [OF this]
  show "DescriptorFlags (write_header m (d, fl, pa, pe, ch)) e = DescriptorFlags m e"
    and "desc_Parent (write_header m (d, fl, pa, pe, ch)) e = desc_Parent m e"
    and "desc_Peer (write_header m (d, fl, pa, pe, ch)) e = desc_Peer m e"
    and "desc_Child (write_header m (d, fl, pa, pe, ch)) e = desc_Child m e" by simp_all
qed

definition topo :: memory where
  "topo = foldl write_header (\<lambda>_. 0)
     [(0x100, 0x08000000, 0, 0, 0x20),
      (0x120, 0x02000000, 0x20, 0x20, 0x40), (0x140, 0x22000000, 0x40, 0, 0x40),
      (0x160, 0x01000000, 0x40, 0x20, 0x40), (0x180, 0x21000000, 0x40, 0, 0x60),
      (0x1A0, 0x10800000, 0x40, 0x20, 0), (0x1C0, 0x00800000, 0x60, 0x20, 0),
      (0x1E0, 0x30800000, 0x60, 0, 0)]"

lemma topo_fields:
  "map (DescriptorFlags topo) [0x100, 0x120, 0x140, 0x160, 0x180, 0x1A0, 0x1C0, 0x1E0]
     = [0x08000000, 0x02000000, 0x22000000, 0x01000000, 0x21000000, 0x10800000, 0x00800000, 0x30800000]"
  "map (desc_Parent topo) [0x160, 0x180, 0x1A0, 0x1C0, 0x1E0] = [0x40, 0x40, 0x40, 0x60, 0x60]"
  "map (desc_Peer topo) [0x120, 0x160, 0x1A0, 0x1C0] = [0x20, 0x20, 0x20, 0x20]"
  "map (desc_Child topo) [0x100, 0x120, 0x140, 0x160, 0x180] = [0x20, 0x40, 0x40, 0x40, 0x60]"
  by (simp_all add: topo_def header_same header_other apart_def)

lemmas topo_eval = topo_fields [simplified] descriptor_flag_defs PcieConfigGetNextTopologyDescriptor_def

lemma topo_child:
  "PcieConfigGetChild topo DESCRIPTOR_ALL_WRAPPERS 0x100 = Some 0x160"
  "PcieConfigGetChild topo DESCRIPTOR_SILICON 0x100 = Some 0x120"
  "PcieConfigGetChild topo DESCRIPTOR_ALL_ENGINES 0x160 = Some 0x1A0"
  by (simp_all add: PcieConfigGetChild.simps topo_eval)

lemma topo_parent:
  "PcieConfigGetParent topo DESCRIPTOR_ALL_WRAPPERS 0x1A0 = Some 0x160"
  "PcieConfigGetParent topo DESCRIPTOR_ALL_WRAPPERS 0x1C0 = Some 0x160"
  "PcieConfigGetParent topo DESCRIPTOR_ALL_WRAPPERS 0x1E0 = Some 0x180"
  by (simp_all add: PcieConfigGetParent.simps topo_eval)

lemma topo_chain:
  "peer_chain topo DESCRIPTOR_TERMINATE_TOPOLOGY 0x120 [0x120, 0x140]"
  "peer_chain topo DESCRIPTOR_TERMINATE_TOPOLOGY 0x160 [0x160, 0x180]"
  "peer_chain topo DESCRIPTOR_TERMINATE_TOPOLOGY 0x1A0 [0x1A0, 0x1C0, 0x1E0]"
  by (simp_all add: topo_eval)

section \<open>Walks over the topology\<close>

text \<open>The reference: call on each descriptor of a list, in order, keeping the worst status.\<close>

primrec visit :: "'b status_callback \<Rightarrow> nat list \<Rightarrow> SIL_STATUS \<Rightarrow> memory \<times> 'b \<Rightarrow> (SIL_STATUS \<times> memory \<times> 'b) option" where
  "visit cb [] st mb = Some (st, mb)"
| "visit cb (d # ds) st mb =
     do { (st', mb') \<leftarrow> cb d mb;
          visit cb ds (if status_code st < status_code st' then st' else st) mb' }"

definition status_keeps_headers :: "nat set \<Rightarrow> 'b status_callback \<Rightarrow> bool" where
  "status_keeps_headers S cb \<longleftrightarrow>
     (\<forall>d m b st m' b'. cb d (m, b) = Some (st, m', b') \<longrightarrow> same_headers S m m')"

lemma for_each_visit:
  "for_each (call_status cb) ds (m, st, b) = map_option (\<lambda>(st, m, b). (m, st, b)) (visit cb ds st (m, b))"
proof (induction ds arbitrary: m st b)
  case (Cons d ds)
  have "call_status cb d (m, st, b) = do { (st', m, b) \<leftarrow> cb d (m, b);
      Some (m, if status_code st < status_code st' then st' else st, b) }"
    by (simp add: call_status_def SIL_STATUS_UPDATE_def)
  then show ?case by (cases "cb d (m, b)") (auto simp: Cons.IH)
qed simp

lemma keeps_headers_call: "status_keeps_headers S cb \<Longrightarrow> keeps_headers S (call_status cb)"
  by (auto simp: status_keeps_headers_def keeps_headers_def call_status_def Option.bind_eq_Some_conv) blast

text \<open>
  C10: \<^verbatim>\<open>PcieConfigRunProcForAllWrappers\<close> calls the callback on exactly the wrappers of the topology whose
  flags were asked for, once each and in the order of the peer chain, and returns the worst status
  reported, for every callback that leaves the descriptor headers alone.
\<close>

theorem wrappers_visited:
  assumes "PcieConfigGetChild m DESCRIPTOR_ALL_WRAPPERS Pcie = Some w"
    and "peer_chain m DESCRIPTOR_TERMINATE_TOPOLOGY w ws"
    and "status_keeps_headers (set ws) cb"
  shows "PcieConfigRunProcForAllWrappers Flags cb Pcie (m, b)
    = visit cb (filter (\<lambda>x. Flags AND DESCRIPTOR_ALL_WRAPPERS AND DescriptorFlags m x \<noteq> 0) ws) SilPass (m, b)"
proof -
  have "topo_loop DESCRIPTOR_TERMINATE_TOPOLOGY (\<lambda>_ _. Some True)
      (\<lambda>w mb. if wrapper_selected Flags (fst mb) w then call_status cb w mb else Some mb) w (m, SilPass, b)
    = for_each (call_status cb) (filter (wrapper_selected Flags m) ws) (m, SilPass, b)"
    by (rule wrapper_sel.walk_all [OF assms(2) subset_refl keeps_headers_call [OF assms(3)]])
  moreover have "wrapper_selected Flags m = (\<lambda>x. Flags AND DESCRIPTOR_ALL_WRAPPERS AND DescriptorFlags m x \<noteq> 0)"
    by (simp add: wrapper_selected_def fun_eq_iff)
  ultimately show ?thesis
    using assms(1) by (cases "visit cb (filter (wrapper_selected Flags m) ws) SilPass (m, b)")
      (auto simp: PcieConfigRunProcForAllWrappers_def for_each_visit)
qed

theorem wrappers_visited_witness:
  "PcieConfigRunProcForAllWrappers 0xFFFFFFFF (\<lambda>d (m, b). Some (SilNotFound, m, b @ [d])) 0x100 (topo, [])
     = Some (SilNotFound, topo, [0x160, 0x180])"
proof -
  have "status_keeps_headers (set [0x160, 0x180]) (\<lambda>d (m, b). Some (SilNotFound, m, b @ [d]))"
    by (auto simp: status_keeps_headers_def)
  from wrappers_visited [OF topo_child(1) topo_chain(2) this, of "0xFFFFFFFF" "[]"]
  show ?thesis by (simp add: topo_eval)
qed

text \<open>
  \<^verbatim>\<open>PcieConfigRunProcForAllEnginesInWrapper\<close> calls the callback on the engines of that wrapper only,
  although the peer chain goes on into the engines of the following wrappers: the selected ones
  among the leading engines whose parent is the wrapper, in order.
\<close>

theorem wrapper_engines_visited:
  assumes "PcieConfigGetChild m DESCRIPTOR_ALL_ENGINES Wrapper = Some e"
    and "peer_chain m DESCRIPTOR_TERMINATE_TOPOLOGY e es" and "set es \<subseteq> S"
    and "parent_closed m DESCRIPTOR_ALL_WRAPPERS S"
    and "\<forall>x\<in>set es. \<exists>p. PcieConfigGetParent m DESCRIPTOR_ALL_WRAPPERS x = Some p"
    and "keeps_headers S cb"
  shows "PcieConfigRunProcForAllEnginesInWrapper Flags cb Wrapper (m, b)
    = for_each cb (filter (engine_selected Flags m)
        (takeWhile (\<lambda>x. PcieConfigGetParent m DESCRIPTOR_ALL_WRAPPERS x = Some Wrapper) es)) (m, b)"
proof -
  have "has_parent DESCRIPTOR_ALL_WRAPPERS Wrapper m' x
      = Some (PcieConfigGetParent m DESCRIPTOR_ALL_WRAPPERS x = Some Wrapper)"
    if "x \<in> set es" and "same_headers S m m'" for x m'
  proof -
    obtain p where p: "PcieConfigGetParent m DESCRIPTOR_ALL_WRAPPERS x = Some p" using assms(5) \<open>x \<in> set es\<close> by blast
    have "PcieConfigGetParent m' DESCRIPTOR_ALL_WRAPPERS x = Some p"
      by (rule get_parent_same_headers [OF p _ assms(4) that(2)]) (use that(1) assms(3) in blast)
    then show ?thesis using p by (auto simp: has_parent_def)
  qed
  then have "topo_loop DESCRIPTOR_TERMINATE_TOPOLOGY (has_parent DESCRIPTOR_ALL_WRAPPERS Wrapper)
      (\<lambda>e mb. if engine_selected Flags (fst mb) e then cb e mb else Some mb) e (m, b)
    = for_each cb (filter (engine_selected Flags m)
        (takeWhile (\<lambda>x. PcieConfigGetParent m DESCRIPTOR_ALL_WRAPPERS x = Some Wrapper) es)) (m, b)"
    by (intro engine_sel.walk_selected [OF assms(2,3,6)]) auto
  then show ?thesis using assms(1) by (simp add: PcieConfigRunProcForAllEnginesInWrapper_def)
qed

theorem wrapper_engines_visited_witness:
  "PcieConfigRunProcForAllEnginesInWrapper 0x00800000 (\<lambda>d (m, b). Some (m, b @ [d])) 0x160 (topo, [])
     = Some (topo, [0x1A0, 0x1C0])"
proof -
  let ?S = "{0x1A0, 0x1C0, 0x1E0, 0x160, 0x180}"
  have "keeps_headers ?S (\<lambda>d (m, b). Some (m, b @ [d]))" by (auto simp: keeps_headers_def)
  moreover have "parent_closed topo DESCRIPTOR_ALL_WRAPPERS ?S"
    by (simp add: parent_closed_def topo_eval)
  moreover have "engine_selected 0x00800000 topo 0x1A0" "engine_selected 0x00800000 topo 0x1C0"
    by (simp_all add: engine_selected_def PcieLibIsEngineAllocated_def topo_eval)
  ultimately show ?thesis
    using wrapper_engines_visited [OF topo_child(3) topo_chain(3), of ?S "\<lambda>d (m, b). Some (m, b @ [d])" "0x00800000" "[]"]
    by (simp add: topo_parent)
qed

text \<open>
  Any exclusion flags make \<^verbatim>\<open>PcieConfigRunProcForAllDescriptors\<close> skip every descriptor: the callback is
  never called, because the flags are combined with \<^verbatim>\<open>&&\<close> instead of \<^verbatim>\<open>&\<close>.
\<close>

theorem excluded_flags_skip_all:
  assumes "PcieConfigGetChild m (InFlags AND DESCRIPTOR_ALL_TYPES) Pcie = Some d"
    and "peer_chain m TerminationFlags d ds" and "OutFlags \<noteq> 0"
  shows "PcieConfigRunProcForAllDescriptors InFlags OutFlags TerminationFlags cb Pcie (m, b) = Some (SilPass, m, b)"
proof -
  have "\<not> descriptor_selected InFlags OutFlags m' x" for m' x
    using assms(3) by (auto simp: descriptor_selected_def)
  moreover have "topo_loop TerminationFlags (\<lambda>_ _. Some True) (\<lambda>d mb. Some mb) d (m, SilPass, b) = Some (m, SilPass, b)"
  proof -
    have "for_each (\<lambda>d mb. Some mb) xs mb = Some mb" for xs :: "nat list" and mb :: "memory \<times> SIL_STATUS \<times> 'b"
      by (induction xs) simp_all
    then show ?thesis
      using topo_loop_chain [OF assms(2) subset_refl, of "\<lambda>d mb. Some mb" "\<lambda>_ _. Some True" "\<lambda>_. True" "(SilPass, b)"]
      by (simp add: keeps_headers_def)
  qed
  ultimately show ?thesis using assms(1) by (simp add: PcieConfigRunProcForAllDescriptors_def)
qed

theorem excluded_flags_skip_all_witness:
  "PcieConfigRunProcForAllDescriptors DESCRIPTOR_SILICON DESCRIPTOR_TERMINATE_LIST
     DESCRIPTOR_TERMINATE_TOPOLOGY (\<lambda>d (m, b). Some (SilPass, m, b @ [d])) 0x100 (topo, [])
   = Some (SilPass, topo, [])"
proof -
  have "DESCRIPTOR_SILICON AND DESCRIPTOR_ALL_TYPES = DESCRIPTOR_SILICON" by (simp add: descriptor_flag_defs)
  then have "PcieConfigGetChild topo (DESCRIPTOR_SILICON AND DESCRIPTOR_ALL_TYPES) 0x100 = Some 0x120"
    using topo_child(2) by simp
  from excluded_flags_skip_all [OF this topo_chain(1), of DESCRIPTOR_TERMINATE_LIST]
  show ?thesis by (simp add: DESCRIPTOR_TERMINATE_LIST_def)
qed

end
