(* ===== verification/Nbio_Tom_Props.thy ===== *)
theory Nbio_Tom_Props
  imports Nbio_Sample Nbio_Props
begin

text \<open>
  Properties of \<^verbatim>\<open>NbioSetTopOfMemory\<close>: the limits of DRAM that the IO hub of every root complex is given.
\<close>

section \<open>Values\<close>










section \<open>Registers\<close>

text \<open>
  Several root complexes: each has its own index and data registers, and an access through one of them leaves the registers
  behind the others alone.
\<close>

definition smn_fabric :: "'h pci_ops \<Rightarrow> (u32 \<times> u32) set \<Rightarrow> (u32 \<times> u32 \<Rightarrow> 'h \<Rightarrow> u32) \<Rightarrow> (u32 \<times> u32 \<Rightarrow> 'h \<Rightarrow> u32 \<Rightarrow> u32) \<Rightarrow> bool" where
  "smn_fabric ops SB idx regs \<longleftrightarrow>
     (\<forall>x\<in>SB. smn_device ops (fst x) (snd x) (idx x) (regs x)
       \<and> (\<forall>y\<in>SB. y \<noteq> x \<longrightarrow>
            (\<forall>v h. regs y (bus_wr32 ops (smn_index_addr (fst x) (snd x)) v h) = regs y h
                 \<and> regs y (bus_wr32 ops (smn_data_addr (fst x) (snd x)) v h) = regs y h
                 \<and> regs y (snd (bus_rd32 ops (smn_data_addr (fst x) (snd x)) h)) = regs y h)))"



lemma fabric_read:
  assumes "smn_fabric ops SB idx regs" "(seg, bus) \<in> SB" "y \<in> SB"
  shows "regs y (snd (xUSLSmnRead ops seg bus a h)) = regs y h"
proof (cases "y = (seg, bus)")
  case True
  have "smn_device ops seg bus (idx y) (regs y)" using assms(1,2) by (auto simp: smn_fabric_def True)
  from smn_access_contract [OF this] show ?thesis by simp
next
  case False
  then show ?thesis using assms unfolding smn_fabric_def
    by (fastforce simp: xUSLSmnRead_def xUSLPciRead32_def xUSLPciWrite32_def)
qed

lemma nbio_wr_mem [simp]: "nb_sil (nbio_wr env g a v st) = nb_sil st"
  by (simp add: nbio_wr_def)


text \<open>The body of the loop, and what the loop leaves in the registers.\<close>

definition tom_write :: "'h nbio_env \<Rightarrow> u32 \<times> u32 \<times> u32 \<times> u32 \<Rightarrow> nat \<Rightarrow> 'h nbio_state \<Rightarrow> 'h nbio_state" where
  "tom_write env = (\<lambda>(slot1, lower, upper, third) g st.
     nbio_wr env g SMN_IOHUB0NBIO0_NB_TOP_OF_DRAM3_ADDRESS third
       (nbio_wr env g SMN_IOHUB0NBIO0_NB_UPPER_TOP_OF_DRAM2_ADDRESS upper
         (nbio_wr env g SMN_IOHUB0NBIO0_NB_LOWER_TOP_OF_DRAM2_ADDRESS lower
           (nbio_wr env g SMN_IOHUB0NBIO0_NB_TOP_OF_DRAM_SLOT1_ADDRESS slot1 st))))"


lemma tom_write_mem [simp]: "nb_sil (tom_write env vs g st) = nb_sil st"
  by (cases vs) (simp add: tom_write_def)





















end
