(* ===== verification/Sil_Smu.thy ===== *)
theory Sil_Smu
  imports Nbio_Topology Sil_Pci Sil_Apob Sil_Utils
begin

text \<open>
  The system management unit: the mailbox of \<^verbatim>\<open>xUSL/SMU/Common/SmuCommon.c\<close> and the services of
  \<^verbatim>\<open>xUSL/SMU/V13/SmuV13.c\<close>. The hardware is the bus of \<open>Sil_Pci\<close>; the polling loop need not end and is
  \<open>partial_function (option)\<close>. The six 32-bit words of a request are a list. Uninitialised variables
  that the code may read are arguments of the definitions.
\<close>

section \<open>Constants\<close>

definition SMC_Result_Fatal :: u32 where "SMC_Result_Fatal = 0xFFFFFFFC"
definition SMC_Result_OK :: u32 where "SMC_Result_OK = 1"
definition SMC_Result_Failed :: u32 where "SMC_Result_Failed = 0xFF"

definition SMC_MSG_TestMessage :: u32 where "SMC_MSG_TestMessage = 0x1"
definition SMC_MSG_DxioTestMessage :: u32 where "SMC_MSG_DxioTestMessage = 0x8"
definition SMC_MSG_SleepEntry :: u32 where "SMC_MSG_SleepEntry = 0xB"
definition SMC_MSG_GetNameString :: u32 where "SMC_MSG_GetNameString = 0xD"
definition SMC_MSG_GetPerSrcBistPF :: u32 where "SMC_MSG_GetPerSrcBistPF = 0xF"
definition SMC_Message_Count :: u32 where "SMC_Message_Count = 0x47"

definition MP1_C2PMSG_ARGUMENT_ADDRESSES :: "u32 list" where
  "MP1_C2PMSG_ARGUMENT_ADDRESSES =
     [0x3B109C4, 0x3B109C8, 0x3B109CC, 0x3B109D0, 0x3B109D4, 0x3B109D8]"
definition MP1_C2PMSG_MESSAGE_ADDRESS :: u32 where "MP1_C2PMSG_MESSAGE_ADDRESS = 0x3B10530"
definition MP1_C2PMSG_RESPONSE_ADDRESS :: u32 where "MP1_C2PMSG_RESPONSE_ADDRESS = 0x3B1057C"

definition STRING_COUNT_LIMIT :: u32 where "STRING_COUNT_LIMIT = 4"

lemmas smu_consts = SMC_Result_Fatal_def SMC_Result_OK_def SMC_Result_Failed_def SMC_MSG_TestMessage_def
  SMC_MSG_DxioTestMessage_def SMC_MSG_SleepEntry_def SMC_MSG_GetNameString_def
  SMC_MSG_GetPerSrcBistPF_def SMC_Message_Count_def STRING_COUNT_LIMIT_def

section \<open>The mailbox\<close>

type_synonym 'h service = "u32 \<Rightarrow> u32 \<Rightarrow> u32 list \<Rightarrow> u32 \<Rightarrow> 'h \<Rightarrow> (u32 \<times> u32 list \<times> 'h) option"

definition SmuServiceInitArgumentsCommon :: "u32 list" where
  "SmuServiceInitArgumentsCommon = replicate 6 0"

primrec write_args :: "'h pci_ops \<Rightarrow> u32 \<Rightarrow> (u32 \<times> u32) list \<Rightarrow> 'h \<Rightarrow> 'h" where
  "write_args ops a [] h = h"
| "write_args ops a (av # avs) h =
     write_args ops a avs (xUSLIndirectPciWrite32 ops a (fst av) (snd av) h)"

primrec read_args :: "'h pci_ops \<Rightarrow> u32 \<Rightarrow> u32 list \<Rightarrow> 'h \<Rightarrow> u32 list \<times> 'h" where
  "read_args ops a [] h = ([], h)"
| "read_args ops a (r # rs) h =
     (let (v, h) = xUSLIndirectPciRead32 ops a r h; (vs, h) = read_args ops a rs h in (v # vs, h))"

partial_function (option) poll_response :: "'h pci_ops \<Rightarrow> u32 \<Rightarrow> 'h \<Rightarrow> (u32 \<times> 'h) option" where
  "poll_response ops a h =
     (let rh = xUSLIndirectPciRead32 ops a MP1_C2PMSG_RESPONSE_ADDRESS h
      in if fst rh = 0 then poll_response ops a (snd rh) else Some rh)"

text \<open>Steps 1 to 3 of a request: clear the response, write the arguments, write the message.\<close>

definition post_request :: "'h pci_ops \<Rightarrow> u32 \<Rightarrow> u32 \<Rightarrow> u32 list \<Rightarrow> 'h \<Rightarrow> 'h" where
  "post_request ops a RequestId RequestArgument h =
     (let (_, h) = xUSLIndirectPciRead32 ops a MP1_C2PMSG_RESPONSE_ADDRESS h;
          h = xUSLIndirectPciWrite32 ops a MP1_C2PMSG_RESPONSE_ADDRESS 0 h;
          h = write_args ops a (zip MP1_C2PMSG_ARGUMENT_ADDRESSES RequestArgument) h
      in xUSLIndirectPciWrite32 ops a MP1_C2PMSG_MESSAGE_ADDRESS RequestId h)"

definition SmuServiceRequestCommon :: "bool \<Rightarrow> 'h pci_ops \<Rightarrow> 'h service" where
  "SmuServiceRequestCommon dbg ops PciAddress RequestId RequestArgument AccessFlags h =
     (if SMC_Message_Count < RequestId then Some (SMC_Result_OK, RequestArgument, h)
      else do { (SmuMessageResponse, h) \<leftarrow>
                  poll_response ops PciAddress (post_request ops PciAddress RequestId RequestArgument h);
                c_assert dbg (SmuMessageResponse \<noteq> SMC_Result_Fatal);
                let (vs, h) = read_args ops PciAddress MP1_C2PMSG_ARGUMENT_ADDRESSES h;
                Some (SmuMessageResponse, vs, h) })"

definition SmuServiceRequestV13 :: "bool \<Rightarrow> 'h pci_ops \<Rightarrow> 'h service" where
  "SmuServiceRequestV13 dbg ops PciAddress RequestId RequestArgument AccessFlags h =
     SmuServiceRequestCommon dbg ops PciAddress RequestId RequestArgument AccessFlags h"

text \<open>
  The other parts of the system the SMU code calls through registered tables: the function in the
  table at a pointer. \<open>v13_env\<close> is what \<^verbatim>\<open>mSmuXferV13\<close> and the NBIO interface of the SoC hold.
\<close>

record 'h smu_env =
  env_dbg :: bool
  env_ops :: "'h pci_ops"
  env_ServiceRequest :: "u64 \<Rightarrow> 'h service"
  env_GetGnbHandle :: "u64 \<Rightarrow> sil_state \<Rightarrow> nat option"

definition v13_env :: "bool \<Rightarrow> 'h pci_ops \<Rightarrow> 'h smu_env" where
  "v13_env dbg ops = \<lparr>env_dbg = dbg, env_ops = ops, env_ServiceRequest = \<lambda>_. SmuServiceRequestV13 dbg ops,
     env_GetGnbHandle = \<lambda>_. GetGnbHandle\<rparr>"

text \<open>The lookup every service starts with; \<open>NotFound\<close> is the result when it fails.\<close>

definition with_xfer :: "'h smu_env \<Rightarrow> sil_state \<Rightarrow> ('h service \<Rightarrow> 'r option) \<Rightarrow> 'r \<Rightarrow> 'r option" where
  "with_xfer env s k NotFound =
     do { (st, SmuXfer) \<leftarrow> SilGetCommon2RevXferTable (env_dbg env) (id_val SilId_SmuClass) s;
          if st \<noteq> SilPass then Some NotFound else k (env_ServiceRequest env SmuXfer) }"

definition SmuFirmwareTestCommon :: "'h smu_env \<Rightarrow> sil_state \<Rightarrow> nat \<Rightarrow> 'h \<Rightarrow> (SIL_STATUS \<times> 'h) option" where
  "SmuFirmwareTestCommon env s NbioHandle h =
     with_xfer env s
       (\<lambda>request. do { (_, SmuArg, h) \<leftarrow> request (gnb_Address (mem s) NbioHandle) SMC_MSG_TestMessage
                         (SmuServiceInitArgumentsCommon[0 := 0xAA55AA55]) 0 h;
                       Some (if SmuArg ! 0 = 0 then SilInvalidParameter else SilPass, h) })
       (SilNotFound, h)"

definition DxioServiceRequestCommon ::
  "'h smu_env \<Rightarrow> sil_state \<Rightarrow> nat \<Rightarrow> u32 \<Rightarrow> u32 list \<Rightarrow> u32 \<Rightarrow> 'h \<Rightarrow> (u32 \<times> u32 list \<times> 'h) option" where
  "DxioServiceRequestCommon env s NbioHandle DxioMBoxRequest DxioMBoxArg AccessFlags h =
     with_xfer env s
       (\<lambda>request. request (gnb_Address (mem s) NbioHandle) SMC_MSG_DxioTestMessage
                    (DxioMBoxArg[0 := DxioMBoxRequest]) AccessFlags h)
       (SMC_Result_Failed, DxioMBoxArg, h)"

text \<open>The sleep request does not wait for an answer; the processor is halted afterwards.\<close>

definition SmuNotifyS3EntryCommon :: "'h pci_ops \<Rightarrow> ('h \<Rightarrow> 'h) \<Rightarrow> 'h \<Rightarrow> 'h" where
  "SmuNotifyS3EntryCommon ops xUslCpuSleep h =
     xUslCpuSleep (post_request ops (MAKE_SBDFO 0 0 0 0 0) SMC_MSG_SleepEntry (replicate 6 0) h)"

section \<open>Finding the silicon of a socket\<close>

partial_function (option) gnb_loop :: "memory \<Rightarrow> u32 \<Rightarrow> nat \<Rightarrow> nat option" where
  "gnb_loop m InstanceId GnbHandle =
     (if GnbHandle = 0 then Some 0
      else if ucast (SocketId m GnbHandle) = InstanceId then Some GnbHandle
      else gnb_loop m InstanceId (GnbGetNextHandle m GnbHandle))"

text \<open>The status and \<^verbatim>\<open>*Handle\<close>, which is left alone (\<open>None\<close>) when the NBIO interface is missing.\<close>

definition SmuGetGnbHandleCommon :: "'h smu_env \<Rightarrow> sil_state \<Rightarrow> u32 \<Rightarrow> (SIL_STATUS \<times> nat option) option" where
  "SmuGetGnbHandleCommon env s InstanceId =
     do { (st, NbioIp2Ip) \<leftarrow> SilGetIp2IpApi (env_dbg env) (id_val SilId_NbioClass) s;
          if st \<noteq> SilPass then Some (SilNotFound, None)
          else do { h0 \<leftarrow> env_GetGnbHandle env NbioIp2Ip s;
                    GnbHandle \<leftarrow> gnb_loop (mem s) InstanceId h0;
                    Some (if GnbHandle \<noteq> 0 then SilPass else SilInvalidParameter, Some GnbHandle) } }"

text \<open>Code that goes on only with \<^verbatim>\<open>SilPass\<close> has a handle.\<close>

definition handle_of :: "nat option \<Rightarrow> nat" where
  "handle_of r = (case r of None \<Rightarrow> 0 | Some d \<Rightarrow> d)"

definition SmuRegisterReadCommon ::
  "'h smu_env \<Rightarrow> sil_state \<Rightarrow> u32 \<Rightarrow> u32 \<Rightarrow> u32 \<Rightarrow> 'h \<Rightarrow> (SIL_STATUS \<times> u32 \<times> 'h) option" where
  "SmuRegisterReadCommon env s InstanceId RegisterIndex RegisterValue h =
     do { (Status, g) \<leftarrow> SmuGetGnbHandleCommon env s InstanceId;
          if Status = SilPass then
            let (v, h) = xUSLIndirectPciRead32 (env_ops env) (gnb_Address (mem s) (handle_of g)) RegisterIndex h
            in Some (Status, v, h)
          else Some (Status, RegisterValue, h) }"

definition SmuRegisterWriteCommon ::
  "'h smu_env \<Rightarrow> sil_state \<Rightarrow> u32 \<Rightarrow> u32 \<Rightarrow> u32 \<Rightarrow> 'h \<Rightarrow> (SIL_STATUS \<times> 'h) option" where
  "SmuRegisterWriteCommon env s InstanceId RegisterIndex RegisterValue h =
     do { (Status, g) \<leftarrow> SmuGetGnbHandleCommon env s InstanceId;
          Some (Status, if Status = SilPass
            then xUSLIndirectPciWrite32 (env_ops env) (gnb_Address (mem s) (handle_of g)) RegisterIndex RegisterValue h
            else h) }"

definition SmuRegisterRMWCommon ::
  "'h smu_env \<Rightarrow> sil_state \<Rightarrow> u32 \<Rightarrow> u32 \<Rightarrow> u32 \<Rightarrow> u32 \<Rightarrow> 'h \<Rightarrow> (SIL_STATUS \<times> 'h) option" where
  "SmuRegisterRMWCommon env s InstanceId RegisterIndex RegisterANDValue RegisterORValue h =
     do { (Status, g) \<leftarrow> SmuGetGnbHandleCommon env s InstanceId;
          if Status = SilPass then
            let a = gnb_Address (mem s) (handle_of g);
                (RegisterValue, h) = xUSLIndirectPciRead32 (env_ops env) a RegisterIndex h;
                RegisterValue = (RegisterValue AND RegisterANDValue) OR RegisterORValue
            in Some (Status, xUSLIndirectPciWrite32 (env_ops env) a RegisterIndex RegisterValue h)
          else Some (Status, h) }"

section \<open>Brand string and BIST\<close>

text \<open>\<^verbatim>\<open>memcpy\<close> out of the argument array: its bytes, little endian, cut to the count.\<close>

definition arg_bytes :: "u32 list \<Rightarrow> u8 list" where
  "arg_bytes args = concat (map (\<lambda>v. [ucast v, ucast (drop_bit 8 v), ucast (drop_bit 16 v), ucast (drop_bit 24 v)]) args)"

partial_function (option) brand_loop ::
  "'h service \<Rightarrow> u32 \<Rightarrow> u32 \<Rightarrow> u32 \<Rightarrow> u8 list \<Rightarrow> 'h \<Rightarrow> (SIL_STATUS \<times> u8 list \<times> 'h) option" where
  "brand_loop request a StringCount Iteration out h =
     (if StringCount \<noteq> 0 then
        do { (SmuResult, SmuArg, h) \<leftarrow>
               request a SMC_MSG_GetNameString (SmuServiceInitArgumentsCommon[0 := Iteration]) 0 h;
             if SmuResult = SMC_Result_OK then
               let ByteCount = (if StringCount < STRING_COUNT_LIMIT then StringCount else STRING_COUNT_LIMIT)
               in brand_loop request a (StringCount - ByteCount) (Iteration + 1)
                    (out @ take (unat ByteCount) (arg_bytes SmuArg)) h
             else Some (SilInvalidParameter, out, h) }
      else Some (SilPass, out, h))"

text \<open>The status and the bytes written to the caller's buffer, from its start.\<close>

definition SmuReadBrandStringCommon ::
  "'h smu_env \<Rightarrow> sil_state \<Rightarrow> u32 \<Rightarrow> u32 \<Rightarrow> 'h \<Rightarrow> (SIL_STATUS \<times> u8 list \<times> 'h) option" where
  "SmuReadBrandStringCommon env s InstanceId BrandStringLength h =
     with_xfer env s
       (\<lambda>request. do { (Status, g) \<leftarrow> SmuGetGnbHandleCommon env s InstanceId;
                       if Status = SilPass
                       then brand_loop request (gnb_Address (mem s) (handle_of g)) BrandStringLength 0 [] h
                       else Some (Status, [], h) })
       (SilNotFound, [], h)"

text \<open>The status and \<^verbatim>\<open>*BistInfo\<close> if it was written; the flag says whether the caller passed a pointer.\<close>

definition SmuReadBistInfoCommon ::
  "'h smu_env \<Rightarrow> sil_state \<Rightarrow> u8 \<Rightarrow> u8 \<Rightarrow> bool \<Rightarrow> 'h \<Rightarrow> (SIL_STATUS \<times> u32 option \<times> 'h) option" where
  "SmuReadBistInfoCommon env s InstanceId PhysicalCcx has_BistInfo h =
     (if \<not> has_BistInfo then Some (SilInvalidParameter, None, h)
      else with_xfer env s
        (\<lambda>request. do { (Status, g) \<leftarrow> SmuGetGnbHandleCommon env s (ucast InstanceId);
                        if Status = SilPass then
                          do { (SmcStatus, SmuArg, h) \<leftarrow>
                                 request (gnb_Address (mem s) (handle_of g)) SMC_MSG_GetPerSrcBistPF
                                   (SmuServiceInitArgumentsCommon[0 := ucast PhysicalCcx]) 0 h;
                               if SmcStatus \<noteq> SMC_Result_OK then Some (SilUnsupported, None, h)
                               else Some (SilPass, Some (SmuArg ! 0), h) }
                        else Some (SilNotFound, None, h) })
        (SilNotFound, None, h))"

end
