(* ===== verification/Sil_Smu_V13.thy ===== *)
theory Sil_Smu_V13
  imports Sil_Smu
begin

text \<open>
  The services of \<^verbatim>\<open>xUSL/SMU/V13/SmuV13.c\<close>: launching a thread, the core presence fuses, and the
  registration of the SMU interfaces. Services that only forward are the common ones of \<open>Sil_Smu\<close>.
\<close>

section \<open>Forwarding services\<close>

definition DxioServiceRequestV13 ::
  "'h smu_env \<Rightarrow> sil_state \<Rightarrow> nat \<Rightarrow> u32 \<Rightarrow> u32 list \<Rightarrow> u32 \<Rightarrow> 'h \<Rightarrow> (u32 \<times> u32 list \<times> 'h) option" where
  "DxioServiceRequestV13 env s NbioHandle DxioMBoxRequest DxioMBoxArg AccessFlags h =
     DxioServiceRequestCommon env s NbioHandle DxioMBoxRequest DxioMBoxArg AccessFlags h"

definition SmuReadBrandStringV13 ::
  "'h smu_env \<Rightarrow> sil_state \<Rightarrow> u32 \<Rightarrow> u32 \<Rightarrow> 'h \<Rightarrow> (SIL_STATUS \<times> u8 list \<times> 'h) option" where
  "SmuReadBrandStringV13 env s InstanceId BrandStringLength h =
     SmuReadBrandStringCommon env s InstanceId BrandStringLength h"

definition SmuReadBistInfoV13 ::
  "'h smu_env \<Rightarrow> sil_state \<Rightarrow> u8 \<Rightarrow> u8 \<Rightarrow> bool \<Rightarrow> 'h \<Rightarrow> (SIL_STATUS \<times> u32 option \<times> 'h) option" where
  "SmuReadBistInfoV13 env s InstanceId PhysicalCcx has_BistInfo h =
     SmuReadBistInfoCommon env s InstanceId PhysicalCcx has_BistInfo h"

definition SmuReadCacWeightsV13 :: SIL_STATUS where "SmuReadCacWeightsV13 = SilUnsupported"

text \<open>\<open>xfer\<close> and \<open>api\<close> are the addresses of \<^verbatim>\<open>mSmuXferV13\<close> and \<^verbatim>\<open>mSmuV13Api\<close>.\<close>

definition InitializeSmuApiV13 ::
  "bool \<Rightarrow> u64 \<Rightarrow> u64 \<Rightarrow> 'x sil_state_scheme \<Rightarrow> (SIL_STATUS \<times> 'x sil_state_scheme) option" where
  "InitializeSmuApiV13 dbg xfer api s =
     do { (Status, s) \<leftarrow> SilInitCommon2RevXferTable dbg (id_val SilId_SmuClass) xfer s;
          if Status \<noteq> SilPass then Some (Status, s)
          else SilInitIp2IpApi dbg (id_val SilId_SmuClass) api s }"

section \<open>Launching a thread\<close>

definition GetCoreTopologyOnDie ::
  "nat \<Rightarrow> memory \<Rightarrow> u32 \<Rightarrow> u32 \<Rightarrow> APOBLIB_INFO \<Rightarrow> (u32 \<times> u32 \<times> u32 \<times> u32) query" where
  "GetCoreTopologyOnDie plat m Socket Die g = ApobGetCoreTopologyOnDie plat m Socket Die g"

definition MAX_CCDS_PER_DIE :: u32 where "MAX_CCDS_PER_DIE = 12"
definition MAX_COMPLEXES_PER_CCD :: u32 where "MAX_COMPLEXES_PER_CCD = 2"
definition MAX_CORES_PER_COMPLEX :: u32 where "MAX_CORES_PER_COMPLEX = 8"
definition MAX_THREADS_PER_CORE :: u32 where "MAX_THREADS_PER_CORE = 2"

definition SIL_RESERVED2_1293 :: u32 where "SIL_RESERVED2_1293 = 0x30081018"
definition SIL_RESERVED2_1294 :: u32 where "SIL_RESERVED2_1294 = 0x4a081018"

definition thread_enable_addr :: "u8 \<Rightarrow> u32" where
  "thread_enable_addr PhysCcdNumber =
     (if PhysCcdNumber < 8 then SIL_RESERVED2_1293 + push_bit 25 (ucast PhysCcdNumber)
      else SIL_RESERVED2_1294 + push_bit 25 (ucast PhysCcdNumber - 8))"

definition which_bit :: "u32 \<Rightarrow> u32 \<Rightarrow> u32 \<Rightarrow> u32 \<Rightarrow> u32" where
  "which_bit NumberOfLogicalThreads LogicalComplex LogicalCore LogicalThread =
     LogicalComplex * 16 + (LogicalCore * NumberOfLogicalThreads + LogicalThread)"

text \<open>
  The variables \<^verbatim>\<open>SmuLaunchThreadV13\<close> declares without a value; a failed query leaves them as they are.
\<close>

record launch_vars =
  lv_GnbHandle :: nat
  lv_PhysCcdNumber :: u8
  lv_PhysComplexNumber :: u8
  lv_PhysCoreNumber :: u8
  lv_IsThreadEnabled :: bool

definition out_value :: "'a option \<Rightarrow> 'a \<Rightarrow> 'a" where
  "out_value r old = (case r of None \<Rightarrow> old | Some v \<Rightarrow> v)"

text \<open>The last part: set the bit of the thread unless it is set.\<close>

definition launch_on_ccd ::
  "'h pci_ops \<Rightarrow> u32 \<Rightarrow> u8 \<Rightarrow> u32 \<Rightarrow> 'h \<Rightarrow> SIL_STATUS \<times> 'h" where
  "launch_on_ccd ops Bus PhysCcdNumber WhichBit h =
     (let (ThreadEn, h) = xUSLSmnRead ops 0 Bus (thread_enable_addr PhysCcdNumber) h
      in if ThreadEn AND push_bit (unat WhichBit) 1 = 0 then
           (SilPass, xUSLSmnWrite ops 0 Bus (thread_enable_addr PhysCcdNumber)
              (ThreadEn OR push_bit (unat WhichBit) 1) h)
         else (SilDeviceError, h))"

definition SmuLaunchThreadV13 ::
  "'h smu_env \<Rightarrow> nat \<Rightarrow> launch_vars \<Rightarrow> sil_state \<Rightarrow> u32 \<Rightarrow> u32 \<Rightarrow> u32 \<Rightarrow> u32 \<Rightarrow> u32 \<Rightarrow> u32
     \<Rightarrow> APOBLIB_INFO \<Rightarrow> 'h \<Rightarrow> (SIL_STATUS \<times> APOBLIB_INFO \<times> 'h) option" where
  "SmuLaunchThreadV13 env plat lv s Socket Die LogicalCcd LogicalComplex LogicalCore LogicalThread g h =
     do { (_, r) \<leftarrow> SmuGetGnbHandleCommon env s Socket;
          let GnbHandle = out_value r (lv_GnbHandle lv);
          if GnbHandle = 0 then Some (SilInvalidParameter, g, h)
          else let m = mem s; ApobInstanceId = apob_instance Socket Die
          in do { (_, r, g) \<leftarrow> ApobGetPhysCcdNumber plat m ApobInstanceId (unat LogicalCcd) g;
                  let PhysCcdNumber = out_value r (lv_PhysCcdNumber lv);
                  if MAX_CCDS_PER_DIE \<le> LogicalCcd \<or> PhysCcdNumber = CCX_NOT_PRESENT
                  then Some (SilInvalidParameter, g, h)
                  else do { (_, r, g) \<leftarrow> ApobGetPhysComplexNumber plat m ApobInstanceId (unat LogicalCcd)
                                           (unat LogicalComplex) g;
                            let PhysComplexNumber = out_value r (lv_PhysComplexNumber lv);
                            if MAX_COMPLEXES_PER_CCD \<le> LogicalComplex \<or> PhysComplexNumber = CCX_NOT_PRESENT
                            then Some (SilInvalidParameter, g, h)
                  else do { (_, r, g) \<leftarrow> ApobGetPhysCoreNumber plat m ApobInstanceId (unat LogicalCcd)
                                           (unat LogicalComplex) (unat LogicalCore) g;
                            let PhysCoreNumber = out_value r (lv_PhysCoreNumber lv);
                            if MAX_CORES_PER_COMPLEX \<le> LogicalCore \<or> PhysCoreNumber = CCX_NOT_PRESENT
                            then Some (SilInvalidParameter, g, h)
                  else do { (_, r, g) \<leftarrow> ApobGetIsThreadEnabled plat m ApobInstanceId (unat LogicalCcd)
                                           (unat LogicalComplex) (unat LogicalCore) (unat LogicalThread) g;
                            let IsThreadEnabled = out_value r (lv_IsThreadEnabled lv);
                            if MAX_THREADS_PER_CORE \<le> LogicalThread \<or> \<not> IsThreadEnabled
                            then Some (SilInvalidParameter, g, h)
                  else do { (Status, t, g) \<leftarrow> GetCoreTopologyOnDie plat m Socket Die g;
                            case t of None \<Rightarrow> Some (Status, g, h)
                            | Some (_, _, _, NumberOfLogicalThreads) \<Rightarrow>
                                let (Status, h) = launch_on_ccd (env_ops env) (addr_Bus (gnb_Address m GnbHandle))
                                      PhysCcdNumber
                                      (which_bit NumberOfLogicalThreads LogicalComplex LogicalCore LogicalThread) h
                                in Some (Status, g, h) } } } } } }"

section \<open>Core presence fuses\<close>

definition SIL_RESERVED_807 :: u32 where "SIL_RESERVED_807 = 0x5D000 + 0x3B8"
definition DFX_CCD_PRESENT_2_ADDR :: u32 where "DFX_CCD_PRESENT_2_ADDR = 0x5D000 + 0x3BC"
definition SIL_RESERVED_811 :: u32 where "SIL_RESERVED_811 = 0x5D000 + 0x3BC"
definition SIL_RESERVED_808 :: u32 where "SIL_RESERVED_808 = 0xFF"
definition MP5_CORE_DISABLE_CCX1_MASK :: u32 where "MP5_CORE_DISABLE_CCX1_MASK = 0x01FE0000"

definition CORE_FUSE_ADDR :: "nat \<Rightarrow> u32" where
  "CORE_FUSE_ADDR CCD =
     (if CCD < 8 then 0x30081800 + push_bit 25 (of_nat CCD) else 0x4A081800 + push_bit 25 (of_nat (CCD - 8)))
     + 0x4D0"

definition CORE_DIS_MAP :: "u32 \<Rightarrow> u32" where "CORE_DIS_MAP FUSE = FUSE AND SIL_RESERVED_808"

definition ccd_present_map :: "u32 \<Rightarrow> u32 \<Rightarrow> u32" where
  "ccd_present_map fuse1 fuse2 = push_bit 10 (get_field 0 2 fuse2) OR get_field 22 10 fuse1"

text \<open>The two loops over the CCDs, with the fuse variable, the entries written and the hardware.\<close>

definition smt_step ::
  "'h smu_env \<Rightarrow> sil_state \<Rightarrow> u32 \<Rightarrow> u32 \<Rightarrow> nat \<Rightarrow> u32 \<times> bool list \<times> 'h \<Rightarrow> (u32 \<times> bool list \<times> 'h) option" where
  "smt_step env s die present CcdLoop = (\<lambda>(fuse, acc, h).
     if bit present CcdLoop then
       do { (_, fuse, h) \<leftarrow> SmuRegisterReadCommon env s die (CORE_FUSE_ADDR CcdLoop) fuse h;
            Some (fuse, acc @ [get_field 8 1 fuse \<noteq> 0], h) }
     else Some (fuse, acc @ [False], h))"

definition core_step ::
  "'h smu_env \<Rightarrow> sil_state \<Rightarrow> u32 \<Rightarrow> u32 \<Rightarrow> nat \<Rightarrow> u32 \<times> u32 list \<times> 'h \<Rightarrow> (u32 \<times> u32 list \<times> 'h) option" where
  "core_step env s die present CcdLoop = (\<lambda>(fuse, acc, h).
     if bit present CcdLoop then
       do { (_, fuse, h) \<leftarrow> SmuRegisterReadCommon env s die (CORE_FUSE_ADDR CcdLoop) fuse h;
            Some (fuse, acc @ [CORE_DIS_MAP fuse], h) }
     else let fuse = SIL_RESERVED_808 OR MP5_CORE_DISABLE_CCX1_MASK
          in Some (fuse, acc @ [CORE_DIS_MAP fuse], h))"

text \<open>
  \<^verbatim>\<open>SmuGetOpnCorePresenceExV13\<close>. The four flags say which output pointers are not null, the sizes are
  the values behind the size pointers, \<open>None\<close> for null. \<open>fv\<close> holds the values of the uninitialised fuse
  variables. The results are \<open>None\<close> where nothing is written.
\<close>

record fuse_vars =
  fv_CcdPresentFuse1 :: u32
  fv_CcdPresentFuse2 :: u32
  fv_CcdDownFuse :: u32
  fv_CoreFuse :: u32

record opn_result =
  opn_CcdEnableMap :: "u32 option"
  opn_CcdDisableMap :: "u32 option"
  opn_CoreDisMap :: "u32 list option"
  opn_SmtEnable :: "bool list option"
  opn_CoreDisMapBufferSize :: "u32 option"
  opn_SmtEnableBufferSize :: "u32 option"

definition opn_none :: "u32 option \<Rightarrow> u32 option \<Rightarrow> opn_result" where
  "opn_none cs ss = \<lparr>opn_CcdEnableMap = None, opn_CcdDisableMap = None, opn_CoreDisMap = None,
     opn_SmtEnable = None, opn_CoreDisMapBufferSize = cs, opn_SmtEnableBufferSize = ss\<rparr>"

definition SmuGetOpnCorePresenceExV13 ::
  "'h smu_env \<Rightarrow> fuse_vars \<Rightarrow> sil_state \<Rightarrow> u32 \<Rightarrow> bool \<Rightarrow> bool \<Rightarrow> bool \<Rightarrow> u32 option \<Rightarrow> bool \<Rightarrow> u32 option
     \<Rightarrow> 'h \<Rightarrow> (SIL_STATUS \<times> opn_result \<times> 'h) option" where
  "SmuGetOpnCorePresenceExV13 env fv s die en dis core coreSize smt smtSize h =
     (let CoreBytes = 4 * 12; SmtBytes = 1 * 12
      in if \<not> en \<and> \<not> dis \<and> \<not> core \<and> \<not> smt then Some (SilInvalidParameter, opn_none coreSize smtSize, h)
      else if core \<and> coreSize = None \<or> smt \<and> smtSize = None
      then Some (SilInvalidParameter, opn_none coreSize smtSize, h)
      else if core \<and> the coreSize < CoreBytes \<or> smt \<and> the smtSize < SmtBytes
      then Some (SilInvalidParameter,
                 opn_none (if core then Some CoreBytes else coreSize) (if smt then Some SmtBytes else smtSize), h)
      else do { (_, fuse1, h) \<leftarrow> SmuRegisterReadCommon env s die SIL_RESERVED_807 (fv_CcdPresentFuse1 fv) h;
                (_, fuse2, h) \<leftarrow> SmuRegisterReadCommon env s die DFX_CCD_PRESENT_2_ADDR (fv_CcdPresentFuse2 fv) h;
                (_, down, h) \<leftarrow> SmuRegisterReadCommon env s die SIL_RESERVED_811 (fv_CcdDownFuse fv) h;
                let present = ccd_present_map fuse1 fuse2;
                (fuse, smts, h) \<leftarrow> (if smt then for_each (smt_step env s die present) [0..<12] (fv_CoreFuse fv, [], h)
                                   else Some (fv_CoreFuse fv, [], h));
                (fuse, cores, h) \<leftarrow> (if core then for_each (core_step env s die present) [0..<12] (fuse, [], h)
                                    else Some (fuse, [], h));
                Some (SilPass,
                  \<lparr>opn_CcdEnableMap = if en then Some present else None,
                   opn_CcdDisableMap = if dis then Some (get_field 2 12 down AND present) else None,
                   opn_CoreDisMap = if core then Some cores else None,
                   opn_SmtEnable = if smt then Some smts else None,
                   opn_CoreDisMapBufferSize = if core then Some CoreBytes else coreSize,
                   opn_SmtEnableBufferSize = if smt then Some SmtBytes else smtSize\<rparr>, h) })"

text \<open>\<^verbatim>\<open>SmuGetOpnCorePresenceV13\<close>: the core map with most bits set, and whether any CCD has SMT.\<close>

definition pick_core_map :: "u32 list \<Rightarrow> u32" where
  "pick_core_map CoreDisMapArray =
     fst (foldl (\<lambda>(CoreDisMap, DisCoresCount) CurrDisCoresMap.
                   if DisCoresCount < xUslGetSetBitCount CurrDisCoresMap
                   then (CurrDisCoresMap, xUslGetSetBitCount CurrDisCoresMap)
                   else (CoreDisMap, DisCoresCount)) (0, 0) CoreDisMapArray)"

definition SmuGetOpnCorePresenceV13 ::
  "'h smu_env \<Rightarrow> fuse_vars \<Rightarrow> sil_state \<Rightarrow> u32 \<Rightarrow> bool \<Rightarrow> bool \<Rightarrow> bool \<Rightarrow> bool \<Rightarrow> 'h
     \<Rightarrow> (SIL_STATUS \<times> u32 option \<times> u32 option \<times> u32 option \<times> bool option \<times> 'h) option" where
  "SmuGetOpnCorePresenceV13 env fv s die hw sw core smt h =
     do { c_assert (env_dbg env) (\<not> (\<not> hw \<and> \<not> sw \<and> \<not> core \<and> \<not> smt));
          (Status, r, h) \<leftarrow> SmuGetOpnCorePresenceExV13 env fv s die hw sw True (Some 48) True (Some 12) h;
          Some (Status, opn_CcdEnableMap r, opn_CcdDisableMap r,
                if core then map_option pick_core_map (opn_CoreDisMap r) else None,
                if smt then map_option (list_ex (\<lambda>b. b)) (opn_SmtEnable r) else None, h) }"

end
