(* ===== verification/Sil_Smu_Props.thy ===== *)
theory Sil_Smu_Props
  imports Sil_Smu_V13 Sil_Device_Props Nbio_Props
begin

text \<open>
  Properties of the SMU services: the mailbox protocol is a remote procedure call, and what the brand
  string, thread launch and core presence services built on it return.
\<close>

section \<open>The mailbox as a remote procedure call\<close>

text \<open>
  What the firmware documents of its mailbox: a write to the message register hands the argument
  registers to the firmware, which needs some number of polls and then leaves its results in the
  argument registers and its response in the response register. \<open>fw\<close> is the firmware: for a message
  and its arguments the number of polls it stays silent, the response and the results.
\<close>

record mbox =
  mb_resp :: u32
  mb_args :: "u32 list"
  mb_wait :: nat
  mb_next :: "(u32 \<times> u32 list) option"

definition mb_poll :: "mbox \<Rightarrow> mbox" where
  "mb_poll b = (case mb_next b of None \<Rightarrow> b
     | Some (r, vs) \<Rightarrow> if mb_wait b = 0 then b\<lparr>mb_resp := r, mb_args := vs, mb_next := None\<rparr>
                      else b\<lparr>mb_wait := mb_wait b - 1\<rparr>)"

definition smu_mailbox ::
  "'h pci_ops \<Rightarrow> u32 \<Rightarrow> ('h \<Rightarrow> mbox) \<Rightarrow> (u32 \<Rightarrow> u32 list \<Rightarrow> nat \<times> u32 \<times> u32 list) \<Rightarrow> bool" where
  "smu_mailbox ops a view fw \<longleftrightarrow>
     (\<forall>h. fst (xUSLIndirectPciRead32 ops a MP1_C2PMSG_RESPONSE_ADDRESS h) = mb_resp (mb_poll (view h))
        \<and> view (snd (xUSLIndirectPciRead32 ops a MP1_C2PMSG_RESPONSE_ADDRESS h)) = mb_poll (view h))
   \<and> (\<forall>h v. view (xUSLIndirectPciWrite32 ops a MP1_C2PMSG_RESPONSE_ADDRESS v h) = (view h)\<lparr>mb_resp := v\<rparr>)
   \<and> (\<forall>h i v. i < 6 \<longrightarrow> view (xUSLIndirectPciWrite32 ops a (MP1_C2PMSG_ARGUMENT_ADDRESSES ! i) v h)
        = (view h)\<lparr>mb_args := (mb_args (view h))[i := v]\<rparr>)
   \<and> (\<forall>h i. i < 6 \<longrightarrow> fst (xUSLIndirectPciRead32 ops a (MP1_C2PMSG_ARGUMENT_ADDRESSES ! i) h) = mb_args (view h) ! i
        \<and> view (snd (xUSLIndirectPciRead32 ops a (MP1_C2PMSG_ARGUMENT_ADDRESSES ! i) h)) = view h)
   \<and> (\<forall>h v. view (xUSLIndirectPciWrite32 ops a MP1_C2PMSG_MESSAGE_ADDRESS v h)
        = (view h)\<lparr>mb_wait := fst (fw v (mb_args (view h))), mb_next := Some (snd (fw v (mb_args (view h))))\<rparr>)
   \<and> (\<forall>h. length (mb_args (view h)) = 6)"

lemma smu_mailboxD:
  assumes "smu_mailbox ops a view fw"
  shows mailbox_poll: "fst (xUSLIndirectPciRead32 ops a MP1_C2PMSG_RESPONSE_ADDRESS h) = mb_resp (mb_poll (view h))"
      "view (snd (xUSLIndirectPciRead32 ops a MP1_C2PMSG_RESPONSE_ADDRESS h)) = mb_poll (view h)"
    and mailbox_clear: "view (xUSLIndirectPciWrite32 ops a MP1_C2PMSG_RESPONSE_ADDRESS v h) = (view h)\<lparr>mb_resp := v\<rparr>"
    and mailbox_arg: "i < 6 \<Longrightarrow> view (xUSLIndirectPciWrite32 ops a (MP1_C2PMSG_ARGUMENT_ADDRESSES ! i) v h)
        = (view h)\<lparr>mb_args := (mb_args (view h))[i := v]\<rparr>"
    and mailbox_result: "i < 6 \<Longrightarrow> fst (xUSLIndirectPciRead32 ops a (MP1_C2PMSG_ARGUMENT_ADDRESSES ! i) h) = mb_args (view h) ! i"
      "i < 6 \<Longrightarrow> view (snd (xUSLIndirectPciRead32 ops a (MP1_C2PMSG_ARGUMENT_ADDRESSES ! i) h)) = view h"
    and mailbox_send: "view (xUSLIndirectPciWrite32 ops a MP1_C2PMSG_MESSAGE_ADDRESS v h)
        = (view h)\<lparr>mb_wait := fst (fw v (mb_args (view h))), mb_next := Some (snd (fw v (mb_args (view h))))\<rparr>"
    and mailbox_length: "length (mb_args (view h)) = 6"
  using assms unfolding smu_mailbox_def by blast+

lemma length_argument_addresses [simp]: "length MP1_C2PMSG_ARGUMENT_ADDRESSES = 6"
  by (simp add: MP1_C2PMSG_ARGUMENT_ADDRESSES_def)

text \<open>The six argument accesses one after the other, from any position of the array.\<close>

lemma write_args_view:
  assumes "smu_mailbox ops a view fw" and "j \<le> 6" and "length vs = 6 - j"
  shows "view (write_args ops a (zip (drop j MP1_C2PMSG_ARGUMENT_ADDRESSES) vs) h)
    = (view h)\<lparr>mb_args := take j (mb_args (view h)) @ vs\<rparr>"
  using assms(2,3)
proof (induction vs arbitrary: j h)
  case Nil
  then have "j = 6" by simp
  then show ?case using mailbox_length [OF assms(1), of h] by simp
next
  case (Cons v vs)
  let ?h = "xUSLIndirectPciWrite32 ops a (MP1_C2PMSG_ARGUMENT_ADDRESSES ! j) v h"
  from Cons.prems have j: "j < 6" by simp
  then have d: "drop j MP1_C2PMSG_ARGUMENT_ADDRESSES
      = MP1_C2PMSG_ARGUMENT_ADDRESSES ! j # drop (Suc j) MP1_C2PMSG_ARGUMENT_ADDRESSES"
    by (simp add: Cons_nth_drop_Suc)
  have t: "take (Suc j) ((mb_args (view h))[j := v]) = take j (mb_args (view h)) @ [v]"
    using j mailbox_length [OF assms(1), of h] by (simp add: take_Suc_conv_app_nth)
  have "view (write_args ops a (zip (drop (Suc j) MP1_C2PMSG_ARGUMENT_ADDRESSES) vs) ?h)
      = (view ?h)\<lparr>mb_args := take (Suc j) (mb_args (view ?h)) @ vs\<rparr>"
    by (rule Cons.IH) (use Cons.prems j in auto)
  then show ?case by (simp add: d mailbox_arg [OF assms(1) j] t)
qed

lemma read_args_view:
  assumes "smu_mailbox ops a view fw" and "j \<le> 6"
  shows "fst (read_args ops a (drop j MP1_C2PMSG_ARGUMENT_ADDRESSES) h) = drop j (mb_args (view h))
    \<and> view (snd (read_args ops a (drop j MP1_C2PMSG_ARGUMENT_ADDRESSES) h)) = view h"
  using assms(2)
proof (induction "6 - j" arbitrary: j h)
  case 0
  then show ?case using mailbox_length [OF assms(1), of h] by simp
next
  case (Suc n)
  let ?h = "snd (xUSLIndirectPciRead32 ops a (MP1_C2PMSG_ARGUMENT_ADDRESSES ! j) h)"
  from Suc.hyps(2) have j: "j < 6" by simp
  then have d: "drop j MP1_C2PMSG_ARGUMENT_ADDRESSES
      = MP1_C2PMSG_ARGUMENT_ADDRESSES ! j # drop (Suc j) MP1_C2PMSG_ARGUMENT_ADDRESSES"
    by (simp add: Cons_nth_drop_Suc)
  have v: "view ?h = view h" by (rule mailbox_result(2) [OF assms(1) j])
  have "drop j (mb_args (view h)) = mb_args (view h) ! j # drop (Suc j) (mb_args (view h))"
    using j mailbox_length [OF assms(1), of h] by (simp add: Cons_nth_drop_Suc)
  moreover have "fst (read_args ops a (drop (Suc j) MP1_C2PMSG_ARGUMENT_ADDRESSES) ?h) = drop (Suc j) (mb_args (view h))
      \<and> view (snd (read_args ops a (drop (Suc j) MP1_C2PMSG_ARGUMENT_ADDRESSES) ?h)) = view h"
    using Suc.hyps(1) [of "Suc j" ?h] Suc.hyps(2) j v by simp
  ultimately show ?case
    by (simp add: d Let_def split_def mailbox_result(1) [OF assms(1) j])
qed

lemma post_request_view:
  assumes "smu_mailbox ops a view fw" and "length args = 6" and "fw msg args = (k, r, vs)"
  shows "\<exists>old. view (post_request ops a msg args h)
    = old\<lparr>mb_resp := 0, mb_args := args, mb_wait := k, mb_next := Some (r, vs)\<rparr>"
proof -
  have "view (write_args ops a (zip MP1_C2PMSG_ARGUMENT_ADDRESSES args) h') = (view h')\<lparr>mb_args := args\<rparr>" for h'
    using write_args_view [OF assms(1), of 0 args h'] assms(2) by simp
  then show ?thesis
    using assms(3) by (auto simp: post_request_def Let_def split_def mailbox_send [OF assms(1)]
        mailbox_clear [OF assms(1)] intro!: exI [of _ "mb_poll (view h)"])
qed

lemma poll_response_answered:
  assumes "smu_mailbox ops a view fw" and "mb_resp (view h) = 0" and "mb_wait (view h) = k"
    and "mb_next (view h) = Some (r, vs)" and "r \<noteq> 0"
  shows "\<exists>h'. poll_response ops a h = Some (r, h') \<and> mb_args (view h') = vs"
  using assms(2-4)
proof (induction k arbitrary: h)
  case 0
  let ?rh = "xUSLIndirectPciRead32 ops a MP1_C2PMSG_RESPONSE_ADDRESS h"
  have "fst ?rh = r" "mb_args (view (snd ?rh)) = vs"
    using 0 by (simp_all add: mailbox_poll [OF assms(1)] mb_poll_def)
  then show ?case using assms(5) by (subst poll_response.simps) (auto simp: Let_def prod_eq_iff)
next
  case (Suc k)
  let ?rh = "xUSLIndirectPciRead32 ops a MP1_C2PMSG_RESPONSE_ADDRESS h"
  have p: "mb_poll (view h) = (view h)\<lparr>mb_wait := k\<rparr>" using Suc.prems by (simp add: mb_poll_def)
  have "fst ?rh = 0" using Suc.prems(1) by (simp add: mailbox_poll [OF assms(1)] p)
  moreover have "\<exists>h'. poll_response ops a (snd ?rh) = Some (r, h') \<and> mb_args (view h') = vs"
    by (rule Suc.IH) (simp_all add: mailbox_poll [OF assms(1)] p Suc.prems)
  ultimately show ?case by (subst poll_response.simps) (simp add: Let_def)
qed

lemma poll_response_silent:
  assumes "smu_mailbox ops a view fw" and "mb_resp (view h) = 0"
    and "mb_next (view h) = None \<or> (\<exists>vs. mb_next (view h) = Some (0, vs))"
  shows "poll_response ops a h = None"
proof -
  let ?Q = "\<lambda>h. mb_resp (view h) = 0 \<and> (mb_next (view h) = None \<or> (\<exists>vs. mb_next (view h) = Some (0, vs)))"
  have "ops' = ops \<longrightarrow> a' = a \<longrightarrow> \<not> ?Q h" if "poll_response ops' a' h = Some y" for ops' a' h y
  proof (rule poll_response.raw_induct [OF _ that, where P = "\<lambda>ops' a' h y. ops' = ops \<longrightarrow> a' = a \<longrightarrow> \<not> ?Q h"],
      goal_cases)
    case (1 poll ops' a' h y)
    show ?case
    proof (intro impI notI)
      assume eq: "ops' = ops" "a' = a" and q: "?Q h"
      let ?rh = "xUSLIndirectPciRead32 ops a MP1_C2PMSG_RESPONSE_ADDRESS h"
      have q': "?Q (snd ?rh)" and z: "fst ?rh = 0"
        using q by (auto simp: mailbox_poll [OF assms(1)] mb_poll_def split: option.splits)
      have "poll ops a (snd ?rh) = Some y" using 1(2) eq z by (simp add: Let_def)
      from 1(1) [OF this] q' show False by blast
    qed
  qed
  then show ?thesis using assms(2,3) by (cases "poll_response ops a h") blast+
qed

lemma request_rpc:
  assumes "smu_mailbox ops a view fw" and "length args = 6" and "msg \<le> SMC_Message_Count"
    and "fw msg args = (k, r, vs)"
  shows "r = 0 \<or> dbg \<and> r = SMC_Result_Fatal \<Longrightarrow> SmuServiceRequestCommon dbg ops a msg args fl h = None"
    and "r \<noteq> 0 \<Longrightarrow> \<not> (dbg \<and> r = SMC_Result_Fatal) \<Longrightarrow>
      \<exists>h'. SmuServiceRequestCommon dbg ops a msg args fl h = Some (r, vs, h')"
proof -
  let ?h = "post_request ops a msg args h"
  have v: "mb_resp (view ?h) = 0" "mb_wait (view ?h) = k" "mb_next (view ?h) = Some (r, vs)"
    using post_request_view [OF assms(1,2,4), of h] by auto
  have g: "\<not> SMC_Message_Count < msg" using assms(3) by simp
  show "SmuServiceRequestCommon dbg ops a msg args fl h = None" if "r = 0 \<or> dbg \<and> r = SMC_Result_Fatal"
  proof (cases "r = 0")
    case True
    then have "poll_response ops a ?h = None" using poll_response_silent [OF assms(1)] v by blast
    then show ?thesis using g by (simp add: SmuServiceRequestCommon_def)
  next
    case False
    then obtain h' where "poll_response ops a ?h = Some (r, h')"
      using poll_response_answered [OF assms(1) v] by blast
    then show ?thesis using g that False by (simp add: SmuServiceRequestCommon_def)
  qed
  show "\<exists>h'. SmuServiceRequestCommon dbg ops a msg args fl h = Some (r, vs, h')"
    if nz: "r \<noteq> 0" and nf: "\<not> (dbg \<and> r = SMC_Result_Fatal)"
  proof -
    obtain h' where h': "poll_response ops a ?h = Some (r, h')" "mb_args (view h') = vs"
      using poll_response_answered [OF assms(1) v nz] by blast
    then obtain h'' where "read_args ops a MP1_C2PMSG_ARGUMENT_ADDRESSES h' = (vs, h'')"
      using read_args_view [OF assms(1), of 0 h'] by (auto simp: prod_eq_iff)
    then show ?thesis using g nf h' by (auto simp: SmuServiceRequestCommon_def)
  qed
qed

text \<open>A device that behaves like this, with the index/data pair of a root complex at bus 0.\<close>

definition pad6 :: "u32 list \<Rightarrow> u32 list" where "pad6 vs = take 6 (vs @ replicate 6 0)"

definition arg_index :: "u32 \<Rightarrow> nat option" where
  "arg_index r = map_of (zip MP1_C2PMSG_ARGUMENT_ADDRESSES [0..<6]) r"

definition dev_read :: "u32 \<Rightarrow> mbox \<Rightarrow> u32 \<times> mbox" where
  "dev_read r b = (if r = MP1_C2PMSG_RESPONSE_ADDRESS then (mb_resp (mb_poll b), mb_poll b)
     else case arg_index r of None \<Rightarrow> (0, b) | Some i \<Rightarrow> (pad6 (mb_args b) ! i, b))"

definition dev_write :: "(u32 \<Rightarrow> u32 list \<Rightarrow> nat \<times> u32 \<times> u32 list) \<Rightarrow> u32 \<Rightarrow> u32 \<Rightarrow> mbox \<Rightarrow> mbox" where
  "dev_write fw r v b =
     (if r = MP1_C2PMSG_RESPONSE_ADDRESS then b\<lparr>mb_resp := v\<rparr>
      else if r = MP1_C2PMSG_MESSAGE_ADDRESS
      then b\<lparr>mb_wait := fst (fw v (pad6 (mb_args b))), mb_next := Some (snd (fw v (pad6 (mb_args b))))\<rparr>
      else case arg_index r of None \<Rightarrow> b | Some i \<Rightarrow> b\<lparr>mb_args := (pad6 (mb_args b))[i := v]\<rparr>)"

definition dev_ops :: "(u32 \<Rightarrow> u32 list \<Rightarrow> nat \<times> u32 \<times> u32 list) \<Rightarrow> (u32 \<times> mbox) pci_ops" where
  "dev_ops fw = \<lparr>bus_rd8 = \<lambda>a h. (0, h), bus_rd16 = \<lambda>a h. (0, h),
     bus_rd32 = \<lambda>a h. if a = 0xBC then (fst (dev_read (fst h) (snd h)), fst h, snd (dev_read (fst h) (snd h)))
                      else (0, h),
     bus_rd64 = \<lambda>a h. (0, h), bus_wr8 = \<lambda>a v h. h, bus_wr16 = \<lambda>a v h. h,
     bus_wr32 = \<lambda>a v h. if a = 0xB8 then (v, snd h)
                        else if a = 0xBC then (fst h, dev_write fw (fst h) v (snd h)) else h,
     bus_wr64 = \<lambda>a v h. h\<rparr>"

definition dev_view :: "u32 \<times> mbox \<Rightarrow> mbox" where
  "dev_view h = (snd h)\<lparr>mb_args := pad6 (mb_args (snd h)),
     mb_next := map_option (\<lambda>rv. (fst rv, pad6 (snd rv))) (mb_next (snd h))\<rparr>"

lemma length_pad6 [simp]: "length (pad6 vs) = 6"
  by (simp add: pad6_def)

lemma pad6_id: "length vs = 6 \<Longrightarrow> pad6 vs = vs"
  by (simp add: pad6_def)

lemma arg_index_nth: "i < 6 \<Longrightarrow> arg_index (MP1_C2PMSG_ARGUMENT_ADDRESSES ! i) = Some i"
  unfolding arg_index_def
  by (subst map_of_zip_nth) (simp_all add: MP1_C2PMSG_ARGUMENT_ADDRESSES_def)

lemma argument_address_other:
  assumes "i < 6"
  shows "MP1_C2PMSG_ARGUMENT_ADDRESSES ! i \<noteq> MP1_C2PMSG_RESPONSE_ADDRESS
    \<and> MP1_C2PMSG_ARGUMENT_ADDRESSES ! i \<noteq> MP1_C2PMSG_MESSAGE_ADDRESS"
proof -
  have "MP1_C2PMSG_ARGUMENT_ADDRESSES ! i \<in> set MP1_C2PMSG_ARGUMENT_ADDRESSES" using assms by simp
  moreover have "MP1_C2PMSG_RESPONSE_ADDRESS \<notin> set MP1_C2PMSG_ARGUMENT_ADDRESSES"
      "MP1_C2PMSG_MESSAGE_ADDRESS \<notin> set MP1_C2PMSG_ARGUMENT_ADDRESSES"
    by (simp_all add: MP1_C2PMSG_ARGUMENT_ADDRESSES_def MP1_C2PMSG_RESPONSE_ADDRESS_def
        MP1_C2PMSG_MESSAGE_ADDRESS_def)
  ultimately show ?thesis by metis
qed

lemma dev_indirect:
  "xUSLIndirectPciRead32 (dev_ops fw) 0 r h = (fst (dev_read r (snd h)), r, snd (dev_read r (snd h)))"
  "xUSLIndirectPciWrite32 (dev_ops fw) 0 r v h = (r, dev_write fw r v (snd h))"
  by (simp_all add: xUSLIndirectPciRead32_def xUSLIndirectPciWrite32_def xUSLPciRead32_def
      xUSLPciWrite32_def dev_ops_def Let_def)

lemma dev_mailbox:
  assumes "\<And>msg args. length (snd (snd (fw msg args))) = 6"
  shows "smu_mailbox (dev_ops fw) 0 dev_view fw"
proof -
  have m: "MP1_C2PMSG_MESSAGE_ADDRESS \<noteq> MP1_C2PMSG_RESPONSE_ADDRESS"
    by (simp add: MP1_C2PMSG_MESSAGE_ADDRESS_def MP1_C2PMSG_RESPONSE_ADDRESS_def)
  have w: "pad6 (snd (snd (fw v args))) = snd (snd (fw v args))" for v args
    by (rule pad6_id [OF assms])
  have poll: "mb_resp (mb_poll (dev_view (r, b))) = mb_resp (mb_poll b)"
      "mb_poll (dev_view (r, b)) = dev_view (r', mb_poll b)" for r r' b
    by (cases b; auto simp: mb_poll_def dev_view_def split: option.splits)+
  have send: "dev_view (r', dev_write fw MP1_C2PMSG_MESSAGE_ADDRESS v b) = (dev_view (r, b))
      \<lparr>mb_wait := fst (fw v (mb_args (dev_view (r, b)))), mb_next := Some (snd (fw v (mb_args (dev_view (r, b)))))\<rparr>"
    for r r' v b
    by (cases b) (simp add: dev_view_def dev_write_def m w)
  have wr: "dev_write fw MP1_C2PMSG_RESPONSE_ADDRESS v b = b\<lparr>mb_resp := v\<rparr>"
      "i < 6 \<Longrightarrow> dev_write fw (MP1_C2PMSG_ARGUMENT_ADDRESSES ! i) v b = b\<lparr>mb_args := (pad6 (mb_args b))[i := v]\<rparr>"
    for v b i
    by (simp_all add: dev_write_def arg_index_nth argument_address_other)
  show ?thesis
    unfolding smu_mailbox_def dev_indirect
    by (intro conjI allI impI)
      (auto simp: dev_read_def poll(1) poll(2) [symmetric] send wr arg_index_nth argument_address_other,
        auto simp: dev_view_def pad6_id)
qed

text \<open>
  C8: the mailbox protocol of \<^verbatim>\<open>SmuServiceRequestV13\<close> is a remote procedure call: for any firmware that
  serves the mailbox, after any number of polls, the request returns the response and the results
  the firmware computes from the message and the arguments. It does not return when the firmware
  never gives a response other than 0, and trips its assertion on \<^verbatim>\<open>SMC_Result_Fatal\<close>.
\<close>

theorem smu_request_rpc:
  assumes "smu_mailbox ops PciAddress view fw" and "length RequestArgument = 6"
    and "RequestId \<le> SMC_Message_Count" and "fw RequestId RequestArgument = (k, r, vs)"
  shows "if r = 0 \<or> dbg \<and> r = SMC_Result_Fatal
    then SmuServiceRequestV13 dbg ops PciAddress RequestId RequestArgument fl h = None
    else (\<exists>h'. SmuServiceRequestV13 dbg ops PciAddress RequestId RequestArgument fl h = Some (r, vs, h'))"
  using request_rpc [OF assms] by (simp add: SmuServiceRequestV13_def)

definition sample_fw :: "u32 \<Rightarrow> u32 list \<Rightarrow> nat \<times> u32 \<times> u32 list" where
  "sample_fw msg args = (2, SMC_Result_OK, [if args ! 0 = 0 then 0x20444D41 else 0x43595045, 0, 0, 0, 0, 0])"

lemma sample_mailbox: "smu_mailbox (dev_ops sample_fw) 0 dev_view sample_fw"
  by (rule dev_mailbox) (simp add: sample_fw_def)

theorem smu_request_rpc_witness:
  "\<exists>h'. SmuServiceRequestV13 True (dev_ops sample_fw) 0 SMC_MSG_GetNameString [1, 0, 0, 0, 0, 0] 0
     (0, \<lparr>mb_resp = 1, mb_args = [], mb_wait = 0, mb_next = None\<rparr>)
   = Some (SMC_Result_OK, [0x43595045, 0, 0, 0, 0, 0], h')"
  using smu_request_rpc [OF sample_mailbox, of "[1, 0, 0, 0, 0, 0]" SMC_MSG_GetNameString 2 SMC_Result_OK
      "[0x43595045, 0, 0, 0, 0, 0]" True 0 "(0, \<lparr>mb_resp = 1, mb_args = [], mb_wait = 0, mb_next = None\<rparr>)"]
  by (simp add: sample_fw_def smu_consts)

section \<open>The silicon of a socket\<close>

lemma gnb_loop_chain:
  assumes "peer_chain m DESCRIPTOR_TERMINATE_TOPOLOGY d ds"
  shows "gnb_loop m i d = Some (case find (\<lambda>d. ucast (SocketId m d) = i) ds of None \<Rightarrow> 0 | Some g \<Rightarrow> g)"
  using assms
proof (induction ds arbitrary: d)
  case Nil
  then show ?case by (simp add: gnb_loop.simps)
next
  case (Cons x xs)
  then show ?case by (subst gnb_loop.simps) (simp add: GnbGetNextHandle_def)
qed

lemma SmuGetGnbHandleCommon_chain:
  assumes "SilGetIp2IpApi (env_dbg env) (id_val SilId_NbioClass) s = Some (SilPass, q)"
    and "env_GetGnbHandle env q s = Some d"
    and "peer_chain (mem s) DESCRIPTOR_TERMINATE_TOPOLOGY d ds"
    and "find (\<lambda>d. ucast (SocketId (mem s) d) = i) ds = Some g"
  shows "SmuGetGnbHandleCommon env s i = Some (SilPass, Some g)"
proof -
  have "0 \<notin> set ds" using assms(3)
    by (induction ds arbitrary: d) auto
  then have "g \<noteq> 0" using assms(4) by (metis find_Some_iff nth_mem)
  then show ?thesis using assms gnb_loop_chain [OF assms(3), of i] by (simp add: SmuGetGnbHandleCommon_def)
qed

section \<open>The brand string\<close>

lemma length_arg_bytes: "length (arg_bytes vs) = 4 * length vs"
  by (induction vs) (simp_all add: arg_bytes_def)

lemma brand_chunks_shift:
  fixes x :: u32
  assumes "4 \<le> n"
  shows "concat (map (\<lambda>j. f (x + of_nat j)) [0..<(n + 3) div 4])
    = f x @ concat (map (\<lambda>j. f (x + 1 + of_nat j)) [0..<(n - 4 + 3) div 4])"
proof -
  obtain c where "n = 4 + c" using assms le_Suc_ex by blast
  then have "(n + 3) div 4 = Suc ((n - 4 + 3) div 4)" by simp
  then show ?thesis
    by (simp only: upt_conv_Cons [of 0] map_Suc_upt [symmetric] list.map concat.simps map_map comp_def
        zero_less_Suc of_nat_Suc) (simp add: add.assoc)
qed

lemma brand_loop_reads:
  assumes "\<And>j h. \<exists>h'. request a SMC_MSG_GetNameString [j, 0, 0, 0, 0, 0] 0 h = Some (SMC_Result_OK, reply j, h')"
    and "\<And>j. reply j \<noteq> []"
  shows "\<exists>h'. brand_loop request a n it out h = Some (SilPass,
    out @ take (unat n) (concat (map (\<lambda>j. take 4 (arg_bytes (reply (it + of_nat j)))) [0..<(unat n + 3) div 4])), h')"
proof (induction "unat n" arbitrary: n it out h rule: less_induct)
  case less
  show ?case
  proof (cases "n = 0")
    case True
    then show ?thesis by (simp add: brand_loop.simps)
  next
    case False
    have args: "SmuServiceInitArgumentsCommon[0 := it] = [it, 0, 0, 0, 0, 0]"
      by (simp add: SmuServiceInitArgumentsCommon_def numeral_eq_Suc)
    obtain h1 where r: "request a SMC_MSG_GetNameString [it, 0, 0, 0, 0, 0] 0 h = Some (SMC_Result_OK, reply it, h1)"
      using assms(1) by blast
    have l: "4 \<le> length (arg_bytes (reply it))"
      using assms(2) [of it] by (cases "reply it") (simp_all add: length_arg_bytes)
    let ?bc = "if n < STRING_COUNT_LIMIT then n else STRING_COUNT_LIMIT"
    have step: "brand_loop request a n it out h = brand_loop request a (n - ?bc) (it + 1)
        (out @ take (unat ?bc) (arg_bytes (reply it))) h1"
      using False r by (subst brand_loop.simps) (simp add: args Let_def)
    show ?thesis
    proof (cases "n < 4")
      case True
      then have u: "unat n < 4" by (simp add: word_less_nat_alt)
      moreover have "unat n \<noteq> 0" using False by (simp add: unat_eq_0)
      ultimately have "(unat n + 3) div 4 = 1" by linarith
      then show ?thesis using step True u
        by (simp add: STRING_COUNT_LIMIT_def brand_loop.simps [of _ _ 0] min_def)
    next
      case big: False
      then have u: "4 \<le> unat n" by (simp add: word_less_nat_alt)
      have d: "unat (n - 4) = unat n - 4" using u by (simp add: unat_sub word_le_nat_alt)
      have "\<exists>h'. brand_loop request a (n - 4) (it + 1) (out @ take 4 (arg_bytes (reply it))) h1 = Some (SilPass,
          (out @ take 4 (arg_bytes (reply it))) @ take (unat (n - 4)) (concat (map (\<lambda>j. take 4 (arg_bytes
            (reply (it + 1 + of_nat j)))) [0..<(unat (n - 4) + 3) div 4])), h')"
        by (rule less.hyps) (use d u in simp)
      then show ?thesis
        using step big l brand_chunks_shift [OF u, of "\<lambda>z. take 4 (arg_bytes (reply z))" it] u
        by (simp add: STRING_COUNT_LIMIT_def d)
    qed
  qed
qed

text \<open>
  When the firmware answers the name requests, \<^verbatim>\<open>SmuReadBrandStringV13\<close> returns exactly the number of
  bytes asked for, whether or not it is a multiple of 4: the first four bytes of the replies to
  the requests 0, 1, 2, and so on, in order. The replies come from the silicon of the first
  descriptor with the wanted socket number in the topology.
\<close>

theorem smu_brand_string:
  assumes "SilGetCommon2RevXferTable (env_dbg env) (id_val SilId_SmuClass) s = Some (SilPass, p)"
    and "env_ServiceRequest env p = SmuServiceRequestV13 (env_dbg env) (env_ops env)"
    and "SilGetIp2IpApi (env_dbg env) (id_val SilId_NbioClass) s = Some (SilPass, q)"
    and "env_GetGnbHandle env q s = Some d"
    and "peer_chain (mem s) DESCRIPTOR_TERMINATE_TOPOLOGY d ds"
    and "find (\<lambda>d. ucast (SocketId (mem s) d) = InstanceId) ds = Some g"
    and "smu_mailbox (env_ops env) (gnb_Address (mem s) g) view fw"
    and "\<And>j. \<exists>k. fw SMC_MSG_GetNameString [j, 0, 0, 0, 0, 0] = (k, SMC_Result_OK, reply j) \<and> reply j \<noteq> []"
  shows "\<exists>h' bytes. SmuReadBrandStringV13 env s InstanceId BrandStringLength h = Some (SilPass, bytes, h')
    \<and> length bytes = unat BrandStringLength
    \<and> bytes = take (unat BrandStringLength)
        (concat (map (\<lambda>j. take 4 (arg_bytes (reply (of_nat j)))) [0..<(unat BrandStringLength + 3) div 4]))"
proof -
  let ?a = "gnb_Address (mem s) g" and ?req = "SmuServiceRequestV13 (env_dbg env) (env_ops env)"
  have "\<exists>h'. ?req ?a SMC_MSG_GetNameString [j, 0, 0, 0, 0, 0] 0 h = Some (SMC_Result_OK, reply j, h')" for j h
  proof -
    obtain k where k: "fw SMC_MSG_GetNameString [j, 0, 0, 0, 0, 0] = (k, SMC_Result_OK, reply j)"
      using assms(8) by blast
    show ?thesis unfolding SmuServiceRequestV13_def
      by (rule request_rpc(2) [OF assms(7) _ _ k]) (simp_all add: smu_consts)
  qed
  then obtain h' where h': "brand_loop ?req ?a BrandStringLength 0 [] h = Some (SilPass,
      take (unat BrandStringLength) (concat (map (\<lambda>j. take 4 (arg_bytes (reply (of_nat j))))
        [0..<(unat BrandStringLength + 3) div 4])), h')"
    using brand_loop_reads [of ?req ?a reply BrandStringLength 0 "[]" h] assms(8) by auto
  have "length (take 4 (arg_bytes (reply j))) = 4" for j
    using assms(8) [of j] by (cases "reply j") (auto simp: length_arg_bytes)
  then have "length (concat (map (\<lambda>j. take 4 (arg_bytes (reply (of_nat j)))) [0..<c])) = 4 * c" for c
    by (induction c) simp_all
  moreover have "unat BrandStringLength \<le> 4 * ((unat BrandStringLength + 3) div 4)" by linarith
  ultimately show ?thesis
    using h' assms(1,2) SmuGetGnbHandleCommon_chain [OF assms(3-6)]
    by (simp add: SmuReadBrandStringV13_def SmuReadBrandStringCommon_def with_xfer_def handle_of_def)
qed

definition smu_state :: sil_state where
  "smu_state = \<lparr>mem = write64 (write64 topo (0x10000 + off_Common2RevXferTable + 8 * 18) 0x500)
       (0x10000 + off_Ip2IpApi + 8 * 15) 0x600,
     mSilMemoryBase = 0x10000, mHostDebugService = 0, mDeferredResetType = SilPass\<rparr>"

definition smu_sample_env :: "(u32 \<times> mbox) smu_env" where
  "smu_sample_env = (v13_env True (dev_ops sample_fw))\<lparr>env_GetGnbHandle := \<lambda>_ _. Some 0x120\<rparr>"

lemma smu_state_tables:
  "SilGetCommon2RevXferTable True (id_val SilId_SmuClass) smu_state = Some (SilPass, 0x500)"
  "SilGetIp2IpApi True (id_val SilId_NbioClass) smu_state = Some (SilPass, 0x600)"
  by (simp_all add: SilGetCommon2RevXferTable_def SilGetIp2IpApi_def smu_state_def Let_def sil_defs
      read_write_apart apart_def)

lemma topo_bytes: "x < 0x100 \<or> 0x1EA \<le> x \<or> 0x12A \<le> x \<and> x < 0x140 \<Longrightarrow> topo x = 0"
  by (elim disjE; simp add: topo_def header_byte)

lemma smu_state_mem: "x < 0x10000 \<Longrightarrow> mem smu_state x = topo x"
  by (simp add: smu_state_def sil_defs write_other apart_def)

lemma smu_state_silicon:
  "peer_chain (mem smu_state) DESCRIPTOR_TERMINATE_TOPOLOGY 0x120 [0x120, 0x140]"
  "SocketId (mem smu_state) 0x120 = 0" "gnb_Address (mem smu_state) 0x120 = 0"
proof -
  have "same_headers {0x120, 0x140} topo (mem smu_state)"
    by (auto simp: same_headers_def smu_state_mem)
  from peer_chain_same_headers [OF this _ topo_chain(1)]
  show "peer_chain (mem smu_state) DESCRIPTOR_TERMINATE_TOPOLOGY 0x120 [0x120, 0x140]" by simp
  show "SocketId (mem smu_state) 0x120 = 0" by (simp add: SocketId_def smu_state_mem topo_bytes)
  have "read32 (mem smu_state) 0x12E = read32 (\<lambda>_. 0) 0x12E"
    by (rule read_cong(3) [where k = 4]) (simp_all add: smu_state_mem topo_bytes)
  then show "gnb_Address (mem smu_state) 0x120 = 0" by (simp add: gnb_Address_def read32_zero)
qed

theorem smu_brand_string_witness:
  "\<exists>h'. SmuReadBrandStringV13 smu_sample_env smu_state 0 6 (0, \<lparr>mb_resp = 1, mb_args = [], mb_wait = 0, mb_next = None\<rparr>)
     = Some (SilPass, [0x41, 0x4D, 0x44, 0x20, 0x45, 0x50], h')"
proof -
  let ?reply = "\<lambda>j :: u32. [if j = 0 then 0x20444D41 else 0x43595045, 0, 0, 0, 0, 0] :: u32 list"
  have e: "env_dbg smu_sample_env = True" "env_ops smu_sample_env = dev_ops sample_fw"
      "env_ServiceRequest smu_sample_env p = SmuServiceRequestV13 True (dev_ops sample_fw)"
      "env_GetGnbHandle smu_sample_env q smu_state = Some 0x120" for p q
    by (simp_all add: smu_sample_env_def v13_env_def)
  have f: "\<exists>k. sample_fw SMC_MSG_GetNameString [j, 0, 0, 0, 0, 0] = (k, SMC_Result_OK, ?reply j) \<and> ?reply j \<noteq> []" for j
    by (simp add: sample_fw_def)
  have m: "smu_mailbox (env_ops smu_sample_env) (gnb_Address (mem smu_state) 0x120) dev_view sample_fw"
    using sample_mailbox by (simp add: e smu_state_silicon)
  have w: "(541347137 :: u8) = 0x41" "(2114637 :: u8) = 0x4D" "(8260 :: u8) = 0x44"
      "(1129926725 :: u8) = 0x45" "(4413776 :: u8) = 0x50"
    by simp_all
  have "(6 + 3) div 4 = (2 :: nat)" "[0..<2] = [0, 1 :: nat]" by (simp_all add: upt_rec)
  then show ?thesis
    using smu_brand_string [of smu_sample_env smu_state "0x500" "0x600" "0x120" "[0x120, 0x140]" 0 "0x120"
        dev_view sample_fw ?reply 6 "(0, \<lparr>mb_resp = 1, mb_args = [], mb_wait = 0, mb_next = None\<rparr>)"]
      smu_state_tables smu_state_silicon m f
    by (simp add: e arg_bytes_def drop_bit_eq_div w)
qed

section \<open>Launching a thread\<close>

lemma unat_of_small: "n < 2 ^ 32 \<Longrightarrow> unat (of_nat n :: u32) = n"
  by (simp add: unsigned_of_nat take_bit_nat_eq_self)

lemma topology_threads_le_2:
  assumes "GetCoreTopologyOnDie plat m Socket Die g = Some (st, Some (nd, nc, nk, T), g')"
  shows "unat T \<le> 2"
proof -
  obtain P where "T = count_loop P 2 0 0"
    using assms by (auto simp: GetCoreTopologyOnDie_def ApobGetCoreTopologyOnDie_def Option.bind_eq_Some_conv
        split: option.splits)
  then have "T = of_nat (length (takeWhile P [0..<2]))" by (simp add: count_loop_eq)
  moreover have "length (takeWhile P [0..<2]) \<le> 2" using length_takeWhile_le [of P "[0..<2]"] by simp
  ultimately show ?thesis using unat_of_small [of "length (takeWhile P [0..<2])"] by simp
qed

lemma which_bit_unat:
  assumes "unat T \<le> 2" and "unat cx < 2" and "unat co < 8" and "unat th < unat T"
  shows "unat (which_bit T cx co th) = unat cx * 16 + unat co * unat T + unat th"
    and "unat (which_bit T cx co th) < 32"
proof -
  have m: "unat co * unat T \<le> 7 * 2" by (rule mult_le_mono) (use assms in auto)
  have "which_bit T cx co th = of_nat (unat cx * 16 + unat co * unat T + unat th)"
    by (simp add: which_bit_def add.assoc)
  then show e: "unat (which_bit T cx co th) = unat cx * 16 + unat co * unat T + unat th"
    using m assms unat_of_small [of "unat cx * 16 + unat co * unat T + unat th"] by simp
  show "unat (which_bit T cx co th) < 32" using e m assms by linarith
qed

lemma which_bit_inj:
  assumes "unat T \<le> 2" and "unat cx < 2" and "unat co < 8" and "unat th < unat T"
    and "unat cx' < 2" and "unat co' < 8" and "unat th' < unat T"
    and "unat (which_bit T cx co th) = unat (which_bit T cx' co' th')"
  shows "(cx, co, th) = (cx', co', th')"
proof -
  have one: "c = c' \<and> b = b' \<and> d = d'"
    if "c * 16 + b * 1 + d = c' * 16 + b' * 1 + d'" "b < 8" "b' < 8" "d < 1" "d' < 1" for b c d b' c' d' :: nat
  proof -
    have "c = c'" using that by linarith
    moreover from this have "b = b'" using that by linarith
    ultimately show ?thesis using that by linarith
  qed
  have two: "c = c' \<and> b = b' \<and> d = d'"
    if "c * 16 + b * 2 + d = c' * 16 + b' * 2 + d'" "b < 8" "b' < 8" "d < 2" "d' < 2" for b c d b' c' d' :: nat
  proof -
    have "c = c'" using that by linarith
    moreover from this have "b = b'" using that by linarith
    ultimately show ?thesis using that by linarith
  qed
  have e: "unat cx * 16 + unat co * unat T + unat th = unat cx' * 16 + unat co' * unat T + unat th'"
    using assms(8) which_bit_unat(1) [OF assms(1-4)] which_bit_unat(1) [OF assms(1,5-7)] by simp
  consider "unat T = 1" | "unat T = 2" using assms(1,4) by linarith
  then have "unat cx = unat cx' \<and> unat co = unat co' \<and> unat th = unat th'"
  proof cases
    case 1
    then show ?thesis using one e assms(3,4,6,7) by metis
  next
    case 2
    then show ?thesis using two e assms(3,4,6,7) by metis
  qed
  then show ?thesis by (simp add: word_unat_eq_iff)
qed

lemma launch_on_ccd_device:
  assumes "smn_device ops 0 bus idx regs" and "unat w < 32"
  shows "\<exists>h'. launch_on_ccd ops bus ccd w h =
      (if bit (regs h (thread_enable_addr ccd)) (unat w) then SilDeviceError else SilPass, h')
    \<and> regs h' = (if bit (regs h (thread_enable_addr ccd)) (unat w) then regs h
        else (regs h)(thread_enable_addr ccd := regs h (thread_enable_addr ccd) OR push_bit (unat w) 1))"
  using assms
  by (simp add: launch_on_ccd_def xUSLSmnRead_def xUSLSmnWrite_def smn_device_def xUSLPciRead32_def
      xUSLPciWrite32_def Let_def split_def and_exp_eq_0_iff_not_bit)

lemma word_bounds_nat:
  fixes x :: u32
  shows "x < 12 \<longleftrightarrow> unat x < 12" "x < 8 \<longleftrightarrow> unat x < 8" "x < 2 \<longleftrightarrow> unat x < 2"
  by (simp_all add: word_less_nat_alt)

text \<open>
  C9: for a thread that the map of the die marks present, \<^verbatim>\<open>SmuLaunchThreadV13\<close> sets the bit of that thread
  in the enable register of its CCD and no other: no other SMN register changes, and no bit of
  another thread of the CCD. A thread whose bit is set already is reported with
  \<^verbatim>\<open>SilDeviceError\<close> and nothing is written.
\<close>

theorem smu_launch_thread:
  assumes "SmuGetGnbHandleCommon env s Socket = Some (st, Some gh)" and "gh \<noteq> 0"
    and "AmdGetApobEntryInstance plat (mem s) APOB_CCX APOB_CCD_LOGICAL_TO_PHYSICAL_MAP_TYPE
      (apob_instance Socket Die) 0 g = Some (SilPass, e, g)"
    and "GetCoreTopologyOnDie plat (mem s) Socket Die g = Some (SilPass, Some (nd, nc, nk, T), g)"
    and "Ccd < 12" and "Cx < 2" and "Core < 8" and "Thread < T"
    and "mem s (ccd_at e (unat Ccd)) \<noteq> CCX_NOT_PRESENT"
    and "mem s (complex_at e (unat Ccd) (unat Cx)) \<noteq> CCX_NOT_PRESENT"
    and "mem s (core_at e (unat Ccd) (unat Cx) (unat Core)) \<noteq> CCX_NOT_PRESENT"
    and "mem s (thread_at e (unat Ccd) (unat Cx) (unat Core) (unat Thread)) \<noteq> 0"
    and "smn_device (env_ops env) 0 (addr_Bus (gnb_Address (mem s) gh)) idx regs"
    and "a = thread_enable_addr (mem s (ccd_at e (unat Ccd)))" and "w = unat (which_bit T Cx Core Thread)"
  shows "w < 32 \<and> (\<exists>h'. SmuLaunchThreadV13 env plat lv s Socket Die Ccd Cx Core Thread g h
        = Some (if bit (regs h a) w then SilDeviceError else SilPass, g, h')
      \<and> regs h' = (if bit (regs h a) w then regs h else (regs h)(a := regs h a OR push_bit w 1))
      \<and> (\<forall>cx co th. cx < 2 \<longrightarrow> co < 8 \<longrightarrow> th < T \<longrightarrow> (cx, co, th) \<noteq> (Cx, Core, Thread) \<longrightarrow>
           bit (regs h' a) (unat (which_bit T cx co th)) = bit (regs h a) (unat (which_bit T cx co th))))"
proof -
  have T: "unat T \<le> 2" by (rule topology_threads_le_2 [OF assms(4)])
  have th: "unat Thread < unat T" using assms(8) by (simp add: word_less_nat_alt)
  have w: "w < 32" using which_bit_unat(2) [OF T _ _ th] assms(6,7,15) by (simp add: word_bounds_nat)
  have q: "with_entry plat (mem s) APOB_CCX APOB_CCD_LOGICAL_TO_PHYSICAL_MAP_TYPE (apob_instance Socket Die) g f
      = Some (SilPass, Some (f e), g)" for f :: "nat \<Rightarrow> 'v"
    using assms(3) by (simp add: with_entry_def)
  have r: "\<not> MAX_CCDS_PER_DIE \<le> Ccd" "\<not> MAX_COMPLEXES_PER_CCD \<le> Cx" "\<not> MAX_CORES_PER_COMPLEX \<le> Core"
      "\<not> MAX_THREADS_PER_CORE \<le> Thread"
    using assms(5-7) T th by (simp_all add: MAX_CCDS_PER_DIE_def MAX_COMPLEXES_PER_CCD_def MAX_CORES_PER_COMPLEX_def
        MAX_THREADS_PER_CORE_def not_le word_less_nat_alt)
  obtain h' where h': "launch_on_ccd (env_ops env) (addr_Bus (gnb_Address (mem s) gh)) (mem s (ccd_at e (unat Ccd)))
        (which_bit T Cx Core Thread) h = (if bit (regs h a) w then SilDeviceError else SilPass, h')"
      "regs h' = (if bit (regs h a) w then regs h else (regs h)(a := regs h a OR push_bit w 1))"
    using launch_on_ccd_device [OF assms(13), of "which_bit T Cx Core Thread" "mem s (ccd_at e (unat Ccd))" h]
      w assms(14,15) by blast
  have "bit (regs h' a) (unat (which_bit T cx co th)) = bit (regs h a) (unat (which_bit T cx co th))"
    if "cx < 2" and "co < 8" and "th < T" and "(cx, co, th) \<noteq> (Cx, Core, Thread)" for cx co th
  proof -
    have "unat (which_bit T cx co th) \<noteq> w"
      using which_bit_inj [OF T, of cx co th Cx Core Thread] that assms(6,7,15) th
      by (auto simp: word_bounds_nat word_less_nat_alt)
    then show ?thesis using h'(2) by (auto simp: bit_simps)
  qed
  moreover have "SmuLaunchThreadV13 env plat lv s Socket Die Ccd Cx Core Thread g h
      = Some (if bit (regs h a) w then SilDeviceError else SilPass, g, h')"
    using assms(1,2,4,9-12) r h'(1)
    by (simp add: SmuLaunchThreadV13_def out_value_def Let_def ApobGetPhysCcdNumber_def
        ApobGetPhysComplexNumber_def ApobGetPhysCoreNumber_def ApobGetIsThreadEnabled_def q)
  ultimately show ?thesis using w h'(2) by blast
qed

text \<open>A die with two threads per core, the second thread of core 1 present, and no thread running.\<close>

definition launch_mem :: memory where
  "launch_mem = write64 ((write32 sample_apob 0x120 0x22000000)(0x1073 := 1, 0x1074 := 1, 0x1077 := 1))
     (0x10000 + off_Ip2IpApi + 8 * 15) 0x600"

definition launch_state :: sil_state where
  "launch_state = \<lparr>mem = launch_mem, mSilMemoryBase = 0x10000, mHostDebugService = 0, mDeferredResetType = SilPass\<rparr>"

definition launch_env :: "(u32 \<times> (u32 \<Rightarrow> u32)) smu_env" where
  "launch_env = (v13_env True smn_sample)\<lparr>env_GetGnbHandle := \<lambda>_ _. Some 0x120\<rparr>"

lemmas launch_eval = launch_mem_def apob_eval read_write_apart off_Ip2IpApi_def sil_defs

lemma launch_handle: "SmuGetGnbHandleCommon launch_env launch_state 0 = Some (SilPass, Some 0x120)"
proof (rule SmuGetGnbHandleCommon_chain [where ds = "[0x120]"])
  show "SilGetIp2IpApi (env_dbg launch_env) (id_val SilId_NbioClass) launch_state = Some (SilPass, 0x600)"
    by (simp add: SilGetIp2IpApi_def launch_state_def launch_eval Let_def)
  show "env_GetGnbHandle launch_env 0x600 launch_state = Some 0x120" by (simp add: launch_env_def)
  show "peer_chain (mem launch_state) DESCRIPTOR_TERMINATE_TOPOLOGY 0x120 [0x120]"
    by (simp add: launch_state_def PcieConfigGetNextTopologyDescriptor_def DescriptorFlags_def launch_eval
        descriptor_flag_defs)
  show "find (\<lambda>d. ucast (SocketId (mem launch_state) d) = (0 :: u32)) [0x120] = Some 0x120"
    by (simp add: launch_state_def SocketId_def launch_eval write_other)
qed

lemma launch_entry:
  "AmdGetApobEntryInstance 0 launch_mem APOB_CCX APOB_CCD_LOGICAL_TO_PHYSICAL_MAP_TYPE (apob_instance 0 0) 0 apob_info
     = Some (SilPass, 0x1040, apob_info)"
proof -
  have "apob_valid launch_mem 0x1000 [0x1040, 0x1340]" by (simp add: apob_valid_def launch_eval)
  moreover have "apob_instances launch_mem 3 3 0 [0x1040, 0x1340] = [0x1040]"
    "length (filter (entry_matches launch_mem 3 3) [0x1040, 0x1340]) \<le> 255"
    by (simp_all add: apob_instances_def entry_matches_def launch_eval)
  ultimately show ?thesis
    using AmdGetApobEntryInstance_valid [of apob_info launch_mem "[0x1040, 0x1340]" 3 3 0 0 0]
    by (simp add: apob_info_def APOB_CCX_def APOB_CCD_LOGICAL_TO_PHYSICAL_MAP_TYPE_def apob_instance_def)
qed

lemma launch_bytes:
  "launch_mem 0x1070 = 0" "launch_mem 0x1071 = 0" "launch_mem 0x1073 = 1" "launch_mem 0x1074 = 1"
  "launch_mem 0x1075 = 0" "launch_mem 0x1077 = 1"
  by (simp_all add: launch_eval write_other)

lemma launch_threads:
  "\<exists>nd nc nk. GetCoreTopologyOnDie 0 launch_mem 0 0 apob_info = Some (SilPass, Some (nd, nc, nk, 2), apob_info)"
proof -
  let ?c = "memcpy (\<lambda>_. 0) 0 (map launch_mem [0x1040 ..< 0x1040 + sizeof_ccd_map])"
  have "?c (thread_at 0 0 0 0 0) = 1" "?c (thread_at 0 0 0 0 1) = 1"
    by (simp_all add: memcpy_def sizeof_ccd_map_def thread_at_def core_at_def complex_at_def ccd_at_def launch_bytes)
  then have "count_loop (\<lambda>i. ?c (thread_at 0 0 0 0 i) = 1) 2 0 0 = 2"
    by (simp add: count_loop.simps numeral_2_eq_2)
  then show ?thesis
    using launch_entry
    by (simp add: GetCoreTopologyOnDie_def ApobGetCoreTopologyOnDie_def ApobGetCcdLogToPhysMap_def with_entry_def)
qed

theorem smu_launch_thread_witness:
  "\<exists>h'. SmuLaunchThreadV13 launch_env 0 \<lparr>lv_GnbHandle = 0, lv_PhysCcdNumber = 0, lv_PhysComplexNumber = 0,
       lv_PhysCoreNumber = 0, lv_IsThreadEnabled = False\<rparr> launch_state 0 0 0 0 1 1 apob_info (0, \<lambda>_. 0)
     = Some (SilPass, apob_info, h') \<and> snd h' 0x30081018 = 8"
proof -
  let ?lv = "\<lparr>lv_GnbHandle = 0, lv_PhysCcdNumber = 0, lv_PhysComplexNumber = 0, lv_PhysCoreNumber = 0,
    lv_IsThreadEnabled = False\<rparr>"
  obtain nd nc nk where n: "GetCoreTopologyOnDie 0 launch_mem 0 0 apob_info = Some (SilPass, Some (nd, nc, nk, 2), apob_info)"
    using launch_threads by blast
  have m: "mem launch_state = launch_mem" "env_ops launch_env = smn_sample"
    by (simp_all add: launch_state_def launch_env_def v13_env_def)
  have g: "gnb_Address launch_mem 0x120 = 0" by (simp add: gnb_Address_def launch_eval)
  have "smn_index_addr 0 0 = 0xB8" "smn_data_addr 0 0 = 0xBC" by code_simp+
  then have d: "smn_device smn_sample 0 (addr_Bus (gnb_Address launch_mem 0x120)) fst snd"
    by (simp add: g addr_Bus_def smn_device_def smn_sample_def)
  note at = ccd_at_def complex_at_def core_at_def thread_at_def
  have p: "mem launch_state (ccd_at 0x1040 (unat (0 :: u32))) \<noteq> CCX_NOT_PRESENT"
      "mem launch_state (complex_at 0x1040 (unat (0 :: u32)) (unat (0 :: u32))) \<noteq> CCX_NOT_PRESENT"
      "mem launch_state (core_at 0x1040 (unat (0 :: u32)) (unat (0 :: u32)) (unat (1 :: u32))) \<noteq> CCX_NOT_PRESENT"
      "mem launch_state (thread_at 0x1040 (unat (0 :: u32)) (unat (0 :: u32)) (unat (1 :: u32)) (unat (1 :: u32))) \<noteq> 0"
      "0x30081018 = thread_enable_addr (mem launch_state (ccd_at 0x1040 (unat (0 :: u32))))"
      "3 = unat (which_bit 2 0 1 1)"
    by (simp_all add: m at launch_bytes CCX_NOT_PRESENT_def thread_enable_addr_def SIL_RESERVED2_1293_def which_bit_def)
  have q: "(0 :: u32) < 12" "(0 :: u32) < 2" "(1 :: u32) < 8" "(1 :: u32) < 2" "(0x120 :: nat) \<noteq> 0" by simp_all
  have "\<exists>h'. SmuLaunchThreadV13 launch_env 0 ?lv launch_state 0 0 0 0 1 1 apob_info (0, \<lambda>_. 0)
        = Some (if bit (snd (0 :: u32, \<lambda>_ :: u32. 0 :: u32) 0x30081018) 3 then SilDeviceError else SilPass, apob_info, h')
      \<and> snd h' = (if bit (snd (0 :: u32, \<lambda>_ :: u32. 0 :: u32) 0x30081018) 3 then snd (0 :: u32, \<lambda>_. 0)
          else (snd (0 :: u32, \<lambda>_. 0))(0x30081018 := snd (0 :: u32, \<lambda>_ :: u32. 0) 0x30081018 OR push_bit 3 1))"
    using smu_launch_thread [OF launch_handle q(5) launch_entry [folded m(1)] n [folded m(1)] q(1-4) p(1-4)
        d [folded m] p(5,6), of ?lv "(0, \<lambda>_. 0)"] by blast
  then show ?thesis by auto
qed

section \<open>Core presence\<close>

lemma set_bit_count: "unat (xUslGetSetBitCount v) = card {i. bit v i}"
proof -
  have "{i. bit v i} \<subseteq> {..<32}" using bit_imp_le_length [of v] by auto
  then have "card {i. bit v i} \<le> 32" using card_mono [of "{..<32}" "{i. bit v i}"] by simp
  then show ?thesis by (simp add: xUslGetSetBitCount_def set_bit_count_loop_eq unat_of_small)
qed

lemma bit_FF: "bit (0xFF :: u32) i \<longleftrightarrow> i < 8"
proof -
  have "(0xFF :: u32) = mask 8" by (simp add: mask_eq_exp_minus_1)
  then show ?thesis by (simp only: bit_mask_iff) auto
qed

lemma core_map_bits:
  fixes x :: u32
  assumes "x AND 0xFF = x"
  shows "{i. bit x i} \<subseteq> {..<8}" and "card {i. bit x i} = 8 \<Longrightarrow> x = 0xFF"
proof -
  have b: "bit x i \<Longrightarrow> i < 8" for i using assms by (metis bit_and_iff bit_FF)
  then show s: "{i. bit x i} \<subseteq> {..<8}" by auto
  show "x = 0xFF" if "card {i. bit x i} = 8"
  proof -
    have "{i. bit x i} = {..<8}" by (rule card_subset_eq) (use s that in auto)
    then have "bit x i \<longleftrightarrow> i < 8" for i by blast
    then show ?thesis by (intro bit_word_eqI) (simp only: bit_FF)
  qed
qed

lemma core_map_count_le:
  assumes "x AND 0xFF = x"
  shows "unat (xUslGetSetBitCount x) \<le> 8"
  using card_mono [OF _ core_map_bits(1) [OF assms]] by (simp add: set_bit_count)

lemma core_map_full: "xUslGetSetBitCount 0xFF = 8"
proof -
  have "{i. bit (0xFF :: u32) i} = {..<8}" by (simp only: bit_FF lessThan_def)
  then show ?thesis using set_bit_count [of "0xFF"] by (simp add: word_unat_eq_iff)
qed

text \<open>Among maps of eight cores the full one wins as soon as it occurs.\<close>

lemma pick_core_map_full:
  assumes "\<forall>x\<in>set xs. x AND 0xFF = x" and "0xFF \<in> set xs"
  shows "pick_core_map xs = 0xFF"
proof -
  let ?f = "\<lambda>(m, c) x. if c < xUslGetSetBitCount x then (x, xUslGetSetBitCount x) else (m, c)"
  have "fst (foldl ?f (m, c) ys) = 0xFF"
    if "\<forall>x\<in>set ys. x AND 0xFF = x" "m AND 0xFF = m" "c = xUslGetSetBitCount m" "m = 0xFF \<or> 0xFF \<in> set ys" for ys m c
    using that
  proof (induction ys arbitrary: m c)
    case (Cons y ys)
    have le: "unat (xUslGetSetBitCount y) \<le> 8" using Cons.prems(1) by (intro core_map_count_le) simp
    show ?case
    proof (cases "c < xUslGetSetBitCount y")
      case True
      then have "m \<noteq> 0xFF" using le Cons.prems(3) by (auto simp: core_map_full word_less_nat_alt)
      then show ?thesis using True Cons.IH [of y] Cons.prems by auto
    next
      case False
      have "m = 0xFF" if "y = 0xFF"
      proof -
        have "8 \<le> unat (xUslGetSetBitCount m)"
          using False that Cons.prems(3) by (simp add: core_map_full word_less_nat_alt)
        then show ?thesis
          using core_map_count_le [OF Cons.prems(2)] core_map_bits(2) [OF Cons.prems(2)] by (simp add: set_bit_count)
      qed
      then show ?thesis using False Cons.IH [of m c] Cons.prems by auto
    qed
  qed simp
  from this [of xs 0 0] show ?thesis
    using assms by (simp add: pick_core_map_def xUslGetSetBitCount_def set_bit_count_loop.simps)
qed

lemma register_read_total:
  assumes "SmuGetGnbHandleCommon env s die = Some (st, r)"
  shows "\<exists>v' h'. SmuRegisterReadCommon env s die idx v h = Some (st, v', h')"
  using assms by (simp add: SmuRegisterReadCommon_def Let_def split_def)

lemma smt_steps_total:
  assumes "SmuGetGnbHandleCommon env s die = Some (st, r)"
  shows "\<exists>fuse' xs h'. for_each (smt_step env s die present) is (fuse, acc, h) = Some (fuse', xs, h')"
proof (induction "is" arbitrary: fuse acc h)
  case (Cons i "is")
  show ?case
    using register_read_total [OF assms, of "CORE_FUSE_ADDR i" fuse h] Cons.IH
    by (auto simp: smt_step_def)
qed simp

lemma core_steps_total:
  assumes "SmuGetGnbHandleCommon env s die = Some (st, r)"
  shows "\<exists>fuse' xs h'. for_each (core_step env s die present) is (fuse, acc, h) = Some (fuse', acc @ xs, h')
    \<and> (\<forall>x\<in>set xs. x AND 0xFF = x) \<and> ((\<exists>i\<in>set is. \<not> bit present i) \<longrightarrow> 0xFF \<in> set xs)"
proof (induction "is" arbitrary: fuse acc h)
  case (Cons i "is")
  have full: "CORE_DIS_MAP (SIL_RESERVED_808 OR MP5_CORE_DISABLE_CCX1_MASK) = 0xFF"
    by (simp add: CORE_DIS_MAP_def SIL_RESERVED_808_def MP5_CORE_DISABLE_CCX1_MASK_def)
  have small: "CORE_DIS_MAP v AND 0xFF = CORE_DIS_MAP v" for v
    by (simp add: CORE_DIS_MAP_def SIL_RESERVED_808_def and.assoc)
  obtain f v h1 where f: "core_step env s die present i (fuse, acc, h) = Some (f, acc @ [v], h1)"
      "v AND 0xFF = v" "\<not> bit present i \<longrightarrow> v = 0xFF"
    using register_read_total [OF assms, of "CORE_FUSE_ADDR i" fuse h] small full
    by (cases "bit present i") (auto simp: core_step_def Let_def)
  obtain f' xs h' where "for_each (core_step env s die present) is (f, acc @ [v], h1) = Some (f', (acc @ [v]) @ xs, h')"
      "\<forall>x\<in>set xs. x AND 0xFF = x" "(\<exists>i\<in>set is. \<not> bit present i) \<longrightarrow> 0xFF \<in> set xs"
    using Cons.IH by blast
  then show ?case using f by (auto intro!: exI [of _ "v # xs"])
qed simp

text \<open>
  C40: \<^verbatim>\<open>SmuGetOpnCorePresenceV13\<close> always returns once the handle of the die can be looked up, but as soon as
  one of the 12 CCDs is not present the core map it reports is \<open>0xFF\<close>, every core disabled by fuse:
  the entry that stands for a missing CCD has more disabled cores than any real one.
\<close>

theorem absent_ccd_hides_core_map:
  assumes "SmuGetGnbHandleCommon env s die = Some (st, r)"
  shows "\<exists>en dis core smt h'. SmuGetOpnCorePresenceV13 env fv s die True True True True h
      = Some (SilPass, Some en, Some dis, Some core, Some smt, h')
    \<and> ((\<exists>i<12. \<not> bit en i) \<longrightarrow> core = 0xFF)"
proof -
  obtain v1 h1 where 1: "SmuRegisterReadCommon env s die SIL_RESERVED_807 (fv_CcdPresentFuse1 fv) h = Some (st, v1, h1)"
    using register_read_total [OF assms] by blast
  obtain v2 h2 where 2: "SmuRegisterReadCommon env s die DFX_CCD_PRESENT_2_ADDR (fv_CcdPresentFuse2 fv) h1 = Some (st, v2, h2)"
    using register_read_total [OF assms] by blast
  obtain v3 h3 where 3: "SmuRegisterReadCommon env s die SIL_RESERVED_811 (fv_CcdDownFuse fv) h2 = Some (st, v3, h3)"
    using register_read_total [OF assms] by blast
  let ?p = "ccd_present_map v1 v2"
  obtain f4 smts h4 where 4: "for_each (smt_step env s die ?p) [0..<12] (fv_CoreFuse fv, [], h3) = Some (f4, smts, h4)"
    using smt_steps_total [OF assms] by blast
  obtain f5 cores h5 where 5: "for_each (core_step env s die ?p) [0..<12] (f4, [], h4) = Some (f5, cores, h5)"
      "\<forall>x\<in>set cores. x AND 0xFF = x" "(\<exists>i\<in>set [0..<12]. \<not> bit ?p i) \<longrightarrow> 0xFF \<in> set cores"
    using core_steps_total [OF assms, of ?p "[0..<12]" f4 "[]" h4] unfolding append_Nil by blast
  have "SmuGetOpnCorePresenceV13 env fv s die True True True True h = Some (SilPass, Some ?p,
      Some (get_field 2 12 v3 AND ?p), Some (pick_core_map cores), Some (list_ex (\<lambda>b. b) smts), h5)"
    using 1 2 3 4 5(1)
    by (simp add: SmuGetOpnCorePresenceV13_def SmuGetOpnCorePresenceExV13_def Let_def del: upt_rec_numeral for_each.simps)
  moreover have "pick_core_map cores = 0xFF" if "\<exists>i<12. \<not> bit ?p i"
    by (rule pick_core_map_full [OF 5(2)]) (use 5(3) that in \<open>auto simp del: upt_rec_numeral\<close>)
  ultimately show ?thesis by blast
qed

lemma launch_register:
  "SmuRegisterReadCommon launch_env launch_state 0 i v (x, \<lambda>_. 0) = Some (SilPass, 0, i, \<lambda>_. 0)"
proof -
  have "gnb_Address (mem launch_state) 0x120 = 0" by (simp add: launch_state_def gnb_Address_def launch_eval)
  moreover have "env_ops launch_env = smn_sample" by (simp add: launch_env_def v13_env_def)
  ultimately show ?thesis
    by (simp add: SmuRegisterReadCommon_def launch_handle handle_of_def xUSLIndirectPciRead32_def
        xUSLPciRead32_def xUSLPciWrite32_def smn_sample_def Let_def)
qed

theorem absent_ccd_hides_core_map_witness:
  "\<exists>dis smt h'. SmuGetOpnCorePresenceV13 launch_env \<lparr>fv_CcdPresentFuse1 = 0, fv_CcdPresentFuse2 = 0,
       fv_CcdDownFuse = 0, fv_CoreFuse = 0\<rparr> launch_state 0 True True True True (0, \<lambda>_. 0)
     = Some (SilPass, Some 0, Some dis, Some 0xFF, Some smt, h')"
proof -
  let ?fv = "\<lparr>fv_CcdPresentFuse1 = 0, fv_CcdPresentFuse2 = 0, fv_CcdDownFuse = 0, fv_CoreFuse = 0\<rparr>"
  obtain en dis core smt h' where r: "SmuGetOpnCorePresenceV13 launch_env ?fv launch_state 0 True True True True (0, \<lambda>_. 0)
      = Some (SilPass, Some en, Some dis, Some core, Some smt, h')" "(\<exists>i<12. \<not> bit en i) \<longrightarrow> core = 0xFF"
    using absent_ccd_hides_core_map [OF launch_handle, of ?fv "(0, \<lambda>_. 0)"] by blast
  have "ccd_present_map 0 0 = 0" by (simp add: ccd_present_map_def)
  then have "en = 0"
    using r(1) by (auto simp: SmuGetOpnCorePresenceV13_def SmuGetOpnCorePresenceExV13_def Let_def launch_register
        Option.bind_eq_Some_conv simp del: upt_rec_numeral for_each.simps)
  moreover have "\<exists>i<12 :: nat. \<not> bit (0 :: u32) i" by (rule exI [of _ 0]) simp
  ultimately show ?thesis using r by auto
qed

end
