(* ===== verification/Ccx_Encode.thy ===== *)
theory Ccx_Encode
  imports Ccx_Table
begin

text \<open>
  The macros of \<^verbatim>\<open>AmdTable.h\<close> that write the entries of a register table as bytes. A table is written as a
  list of entries \<open>msr_entry\<close>, one constructor per macro, and \<open>encode\<close> gives its bytes. The lemmas relate
  the interpreter on the bytes to the meaning of an entry, one guarded \<open>xUslMsrAndThenOr\<close>, and the walk over
  a list of tables to the tables a role selects.
\<close>

section \<open>Bytes of an entry\<close>

definition BSU16 :: "u16 \<Rightarrow> u8 list" where
  "BSU16 v = [ucast (v AND 0xFF), ucast (drop_bit 8 v AND 0xFF)]"

definition BSU32 :: "u32 \<Rightarrow> u8 list" where
  "BSU32 v = [ucast (v AND 0xFF), ucast (drop_bit 8 v AND 0xFF), ucast (drop_bit 16 v AND 0xFF),
     ucast (drop_bit 24 v AND 0xFF)]"

definition BSU64 :: "u64 \<Rightarrow> u8 list" where
  "BSU64 v = [ucast (v AND 0xFF), ucast (drop_bit 8 v AND 0xFF), ucast (drop_bit 16 v AND 0xFF),
     ucast (drop_bit 24 v AND 0xFF), ucast (drop_bit 32 v AND 0xFF), ucast (drop_bit 40 v AND 0xFF),
     ucast (drop_bit 48 v AND 0xFF), ucast (drop_bit 56 v AND 0xFF)]"

text \<open>The arguments of the five macros, in their order.\<close>

datatype msr_entry =
    MSR_ENTRY u32 u64 u64
  | MSR_CORE_REV_ENTRY u32 u16 u32 u64 u64
  | MSR_CPU_REV_ENTRY u32 u16 u32 u64 u64
  | MSR_PLATFORM_FEAT_ENTRY u32 u32 u64 u64
  | MSR_CPU_REV_PLATFORM_FEAT_ENTRY u32 u16 u32 u32 u64 u64

definition MAKE_MSR_DATA :: "u32 \<Rightarrow> u64 \<Rightarrow> u64 \<Rightarrow> u8 list" where
  "MAKE_MSR_DATA Address Data Mask = BSU32 Address @ BSU64 Data @ BSU64 Mask"

definition MAKE_LOGICAL_ID :: "u32 \<Rightarrow> u16 \<Rightarrow> u8 list" where
  "MAKE_LOGICAL_ID Family Revision = BSU32 Family @ BSU16 Revision"

definition MAKE_TABLE_TERMINATOR :: "u8 list" where "MAKE_TABLE_TERMINATOR = BSU16 TableTerminator"

fun MAKE_ENTRY :: "msr_entry \<Rightarrow> u8 list" where
  "MAKE_ENTRY (MSR_ENTRY Address Data Mask) = BSU16 3 @ MAKE_MSR_DATA Address Data Mask"
| "MAKE_ENTRY (MSR_CORE_REV_ENTRY Family Revision Address Data Mask) =
     BSU16 5 @ MAKE_LOGICAL_ID Family Revision @ MAKE_MSR_DATA Address Data Mask"
| "MAKE_ENTRY (MSR_CPU_REV_ENTRY Family Revision Address Data Mask) =
     BSU16 4 @ MAKE_LOGICAL_ID Family Revision @ MAKE_MSR_DATA Address Data Mask"
| "MAKE_ENTRY (MSR_PLATFORM_FEAT_ENTRY TypeFeats Address Data Mask) =
     BSU16 6 @ BSU32 TypeFeats @ MAKE_MSR_DATA Address Data Mask"
| "MAKE_ENTRY (MSR_CPU_REV_PLATFORM_FEAT_ENTRY Family Revision TypeFeats Address Data Mask) =
     BSU16 7 @ MAKE_LOGICAL_ID Family Revision @ BSU32 TypeFeats @ MAKE_MSR_DATA Address Data Mask"

definition encode :: "msr_entry list \<Rightarrow> u8 list" where
  "encode es = concat (map MAKE_ENTRY es) @ MAKE_TABLE_TERMINATOR"

section \<open>Reading the bytes back\<close>

primrec holds :: "memory \<Rightarrow> nat \<Rightarrow> u8 list \<Rightarrow> bool" where
  "holds m a [] = True"
| "holds m a (b # bs) = (m a = b \<and> holds m (Suc a) bs)"

lemma holds_append [simp]: "holds m a (xs @ ys) \<longleftrightarrow> holds m a xs \<and> holds m (a + length xs) ys"
  by (induction xs arbitrary: a) auto

primrec le_bytes :: "nat \<Rightarrow> nat \<Rightarrow> u8 list" where
  "le_bytes 0 n = []"
| "le_bytes (Suc k) n = of_nat n # le_bytes k (n div 256)"

lemma read_le_bytes: "holds m a (le_bytes k n) \<Longrightarrow> read_le k m a = n mod 256 ^ k"
proof (induction k arbitrary: a n)
  case (Suc k)
  then have "read_le (Suc k) m a = n mod 256 + 256 * (n div 256 mod 256 ^ k)"
    by (simp add: unsigned_of_nat take_bit_eq_mod)
  then show ?case by (simp only: mod_mult2_eq power_Suc)
qed simp

lemma byte_of_word:
  fixes v :: "'a::len word"
  shows "ucast (drop_bit k v AND 0xFF) = (of_nat (unat v div 2 ^ k) :: u8)"
proof (rule bit_word_eqI)
  fix i assume "i < LENGTH(8)"
  then have i: "i < 8" by simp
  have "(0xFF :: 'a word) = mask 8" by (simp add: mask_eq_exp_minus_1)
  then have "bit (0xFF :: 'a word) i \<longleftrightarrow> i < LENGTH('a)" using i by (simp only: bit_mask_iff possible_bit_word) simp
  moreover have "bit v (k + i) \<Longrightarrow> i < LENGTH('a)" using bit_imp_le_length [of v "k + i"] by simp
  ultimately show "bit (ucast (drop_bit k v AND 0xFF) :: u8) i = bit (of_nat (unat v div 2 ^ k) :: u8) i"
    using i
    by (auto simp only: bit_unsigned_iff bit_and_iff bit_drop_bit_eq o_def bit_of_nat_iff
        drop_bit_eq_div [symmetric] possible_bit_word possible_bit_nat len_num0 len_bit0 len_num1 mult_2)
qed

lemma le_bytes_unfold:
  "le_bytes 2 n = [of_nat n, of_nat (n div 2 ^ 8)]"
  "le_bytes 4 n = [of_nat n, of_nat (n div 2 ^ 8), of_nat (n div 2 ^ 16), of_nat (n div 2 ^ 24)]"
  "le_bytes 8 n = [of_nat n, of_nat (n div 2 ^ 8), of_nat (n div 2 ^ 16), of_nat (n div 2 ^ 24), of_nat (n div 2 ^ 32),
     of_nat (n div 2 ^ 40), of_nat (n div 2 ^ 48), of_nat (n div 2 ^ 56)]"
proof -
  have k: "2 = Suc (Suc 0)" "4 = Suc (Suc (Suc (Suc 0)))" "8 = Suc (Suc (Suc (Suc (Suc (Suc (Suc (Suc 0)))))))"
    by simp_all
  show "le_bytes 2 n = [of_nat n, of_nat (n div 2 ^ 8)]"
    by (subst k(1), simp only: le_bytes.simps) (simp add: div_mult2_eq [symmetric])
  show "le_bytes 4 n = [of_nat n, of_nat (n div 2 ^ 8), of_nat (n div 2 ^ 16), of_nat (n div 2 ^ 24)]"
    by (subst k(2), simp only: le_bytes.simps) (simp add: div_mult2_eq [symmetric])
  show "le_bytes 8 n = [of_nat n, of_nat (n div 2 ^ 8), of_nat (n div 2 ^ 16), of_nat (n div 2 ^ 24), of_nat (n div 2 ^ 32),
     of_nat (n div 2 ^ 40), of_nat (n div 2 ^ 48), of_nat (n div 2 ^ 56)]"
    by (subst k(3), simp only: le_bytes.simps) (simp add: div_mult2_eq [symmetric])
qed

lemma low_byte_of_word:
  fixes v :: "'a::len word"
  shows "ucast (v AND 0xFF) = (of_nat (unat v) :: u8)"
  using byte_of_word [of 0 v] by (simp only: drop_bit_0 id_apply power_0 div_by_1)

lemma BSU_le_bytes:
  "BSU16 v16 = le_bytes 2 (unat v16)" "BSU32 v32 = le_bytes 4 (unat v32)" "BSU64 v64 = le_bytes 8 (unat v64)"
  by (simp_all only: BSU16_def BSU32_def BSU64_def byte_of_word le_bytes_unfold) (simp_all only: low_byte_of_word)

lemma length_BSU [simp]: "length (BSU16 v16) = 2" "length (BSU32 v32) = 4" "length (BSU64 v64) = 8"
  by (simp_all add: BSU16_def BSU32_def BSU64_def)

lemma read_BSU:
  "holds m a (BSU16 v16) \<Longrightarrow> read16 m a = v16" "holds m a (BSU32 v32) \<Longrightarrow> read32 m a = v32"
  "holds m a (BSU64 v64) \<Longrightarrow> read64 m a = v64"
  using unsigned_less [of v16, where ?'a = nat] unsigned_less [of v32, where ?'a = nat]
    unsigned_less [of v64, where ?'a = nat]
  by (simp_all add: BSU_le_bytes mem_ops read_le_bytes)

section \<open>The meaning of an entry\<close>

definition id_match :: "LOGICAL_ID \<Rightarrow> u32 \<Rightarrow> u16 \<Rightarrow> bool" where
  "id_match lid Family Revision \<longleftrightarrow> id_Family lid AND Family \<noteq> 0 \<and> id_Revision lid AND Revision \<noteq> 0"

fun entry_applies :: "ENTRY_CRITERIA \<Rightarrow> msr_entry \<Rightarrow> bool" where
  "entry_applies C (MSR_ENTRY Address Data Mask) = True"
| "entry_applies C (MSR_CORE_REV_ENTRY Family Revision Address Data Mask) = id_match (CoreLogicalId C) Family Revision"
| "entry_applies C (MSR_CPU_REV_ENTRY Family Revision Address Data Mask) = id_match (SocLogicalId C) Family Revision"
| "entry_applies C (MSR_PLATFORM_FEAT_ENTRY TypeFeats Address Data Mask) =
     DoesEntryTypeSpecificInfoMatch (PlatformFeats C) TypeFeats"
| "entry_applies C (MSR_CPU_REV_PLATFORM_FEAT_ENTRY Family Revision TypeFeats Address Data Mask) =
     (id_match (SocLogicalId C) Family Revision \<and> DoesEntryTypeSpecificInfoMatch (PlatformFeats C) TypeFeats)"

fun entry_data :: "msr_entry \<Rightarrow> u32 \<times> u64 \<times> u64" where
  "entry_data (MSR_ENTRY Address Data Mask) = (Address, Data, Mask)"
| "entry_data (MSR_CORE_REV_ENTRY Family Revision Address Data Mask) = (Address, Data, Mask)"
| "entry_data (MSR_CPU_REV_ENTRY Family Revision Address Data Mask) = (Address, Data, Mask)"
| "entry_data (MSR_PLATFORM_FEAT_ENTRY TypeFeats Address Data Mask) = (Address, Data, Mask)"
| "entry_data (MSR_CPU_REV_PLATFORM_FEAT_ENTRY Family Revision TypeFeats Address Data Mask) = (Address, Data, Mask)"

text \<open>What the assertions of the interpreter ask of an entry.\<close>

definition feats_ok :: "u32 \<Rightarrow> bool" where
  "feats_ok TypeFeats \<longleftrightarrow> TypeFeats AND NOT (AMD_PF_ALL OR AMD_PF_AND) = 0"

fun entry_ok :: "msr_entry \<Rightarrow> bool" where
  "entry_ok (MSR_PLATFORM_FEAT_ENTRY TypeFeats Address Data Mask) = (Mask \<noteq> 0 \<and> feats_ok TypeFeats)"
| "entry_ok (MSR_CPU_REV_PLATFORM_FEAT_ENTRY Family Revision TypeFeats Address Data Mask) =
     (Mask \<noteq> 0 \<and> feats_ok TypeFeats)"
| "entry_ok e = (snd (snd (entry_data e)) \<noteq> 0)"

definition apply_entry :: "'h cpu_ops \<Rightarrow> ENTRY_CRITERIA \<Rightarrow> msr_entry \<Rightarrow> 'h \<Rightarrow> 'h" where
  "apply_entry cpu C e h =
     (if entry_applies C e
      then case entry_data e of (Address, Data, Mask) \<Rightarrow> xUslMsrAndThenOr cpu Address (NOT Mask) Data h else h)"

lemmas make_entry_defs = MAKE_MSR_DATA_def MAKE_LOGICAL_ID_def

lemma read_MSR_DATA:
  assumes "holds m a (MAKE_MSR_DATA Address Data Mask)"
  shows "read32 m a = Address" and "read64 m (a + 4) = Data" and "read64 m (a + 12) = Mask"
proof -
  have e: "a + 4 + 8 = a + 12" by simp
  show "read32 m a = Address" "read64 m (a + 4) = Data" "read64 m (a + 12) = Mask"
    using assms by (simp_all only: make_entry_defs holds_append length_BSU e read_BSU)
qed

lemma SetMsrEntry_data:
  assumes "holds m a (MAKE_MSR_DATA Address Data Mask)" and "Mask \<noteq> 0"
  shows "SetMsrEntry env C m a s =
    Some (a + 20, s\<lparr>ts_hw := xUslMsrAndThenOr (te_cpu env) Address (NOT Mask) Data (ts_hw s)\<rparr>)"
  using assms by (simp add: SetMsrEntry_def xUslMsrAndThenOr_def read_MSR_DATA Let_def split: prod.splits)

lemma rev_match_data:
  assumes "holds m a (MAKE_LOGICAL_ID Family Revision)"
  shows "rev_match lid m a = id_match lid Family Revision"
proof -
  have "read32 m a = Family" "read16 m (a + 4) = Revision"
    using assms by (simp_all only: make_entry_defs holds_append length_BSU read_BSU)
  then show ?thesis by (simp add: rev_match_def id_match_def)
qed

lemma length_make_entry [simp]:
  "length (MAKE_MSR_DATA Address Data Mask) = 20" "length (MAKE_LOGICAL_ID Family Revision) = 6"
  by (simp_all add: make_entry_defs)

text \<open>One lemma per entry function: on the encoded data it performs the entry and advances past it.\<close>

lemma SetMsrCoreRevEntry_encoded:
  assumes "holds m a (MAKE_LOGICAL_ID Family Revision @ MAKE_MSR_DATA Address Data Mask)" and "Mask \<noteq> 0"
  shows "SetMsrCoreRevEntry env C m a s =
    Some (a + 26, s\<lparr>ts_hw := apply_entry (te_cpu env) C (MSR_CORE_REV_ENTRY Family Revision Address Data Mask) (ts_hw s)\<rparr>)"
proof -
  have h: "holds m a (MAKE_LOGICAL_ID Family Revision)" "holds m (a + 6) (MAKE_MSR_DATA Address Data Mask)"
    using assms(1) by simp_all
  have "a + 18 = a + 6 + 12" by simp
  then have mask: "read64 m (a + 18) = Mask" by (simp only: read_MSR_DATA(3) [OF h(2)])
  show ?thesis
    using assms(2) by (simp add: SetMsrCoreRevEntry_def apply_entry_def rev_match_data [OF h(1)]
        SetMsrEntry_data [OF h(2)] mask)
qed

lemma SetMsrCpuRevEntry_encoded:
  assumes "holds m a (MAKE_LOGICAL_ID Family Revision @ MAKE_MSR_DATA Address Data Mask)" and "Mask \<noteq> 0"
  shows "SetMsrCpuRevEntry env C m a s =
    Some (a + 26, s\<lparr>ts_hw := apply_entry (te_cpu env) C (MSR_CPU_REV_ENTRY Family Revision Address Data Mask) (ts_hw s)\<rparr>)"
proof -
  have h: "holds m a (MAKE_LOGICAL_ID Family Revision)" "holds m (a + 6) (MAKE_MSR_DATA Address Data Mask)"
    using assms(1) by simp_all
  have "a + 18 = a + 6 + 12" by simp
  then have mask: "read64 m (a + 18) = Mask" by (simp only: read_MSR_DATA(3) [OF h(2)])
  show ?thesis
    using assms(2) by (simp add: SetMsrCpuRevEntry_def apply_entry_def rev_match_data [OF h(1)]
        SetMsrEntry_data [OF h(2)] mask)
qed

lemma SetMsrPlatformFeatEntry_encoded:
  assumes "holds m a (BSU32 TypeFeats @ MAKE_MSR_DATA Address Data Mask)" and "Mask \<noteq> 0" and "feats_ok TypeFeats"
  shows "SetMsrPlatformFeatEntry env C m a s =
    Some (a + 24, s\<lparr>ts_hw := apply_entry (te_cpu env) C (MSR_PLATFORM_FEAT_ENTRY TypeFeats Address Data Mask) (ts_hw s)\<rparr>)"
proof -
  have h: "holds m a (BSU32 TypeFeats)" "holds m (a + 4) (MAKE_MSR_DATA Address Data Mask)"
    using assms(1) by simp_all
  show ?thesis
    using assms(2,3) by (simp add: SetMsrPlatformFeatEntry_def apply_entry_def feats_ok_def read_BSU(2) [OF h(1)]
        SetMsrEntry_data [OF h(2)])
qed

lemma SetMsrCpuRevPlatformFeatEntry_encoded:
  assumes "holds m a (MAKE_LOGICAL_ID Family Revision @ BSU32 TypeFeats @ MAKE_MSR_DATA Address Data Mask)"
    and "Mask \<noteq> 0" and "feats_ok TypeFeats"
  shows "SetMsrCpuRevPlatformFeatEntry env C m a s =
    Some (a + 30, s\<lparr>ts_hw := apply_entry (te_cpu env) C
      (MSR_CPU_REV_PLATFORM_FEAT_ENTRY Family Revision TypeFeats Address Data Mask) (ts_hw s)\<rparr>)"
proof -
  have e: "a + 6 + 4 = a + 10" by simp
  have h: "holds m a (MAKE_LOGICAL_ID Family Revision)" "holds m (a + 6) (BSU32 TypeFeats)"
    "holds m (a + 10) (MAKE_MSR_DATA Address Data Mask)"
    using assms(1) by (simp_all only: holds_append length_make_entry length_BSU e)
  show ?thesis
    using assms(2,3) by (simp add: SetMsrCpuRevPlatformFeatEntry_def apply_entry_def feats_ok_def
        rev_match_data [OF h(1)] read_BSU(2) [OF h(2)] SetMsrEntry_data [OF h(3)])
qed

lemmas entry_encoded = SetMsrEntry_data SetMsrCoreRevEntry_encoded SetMsrCpuRevEntry_encoded
  SetMsrPlatformFeatEntry_encoded SetMsrCpuRevPlatformFeatEntry_encoded

lemma do_entry_encoded:
  assumes h: "holds m a (MAKE_ENTRY e)" and ok: "entry_ok e"
  shows "\<exists>t < 8. read16 m a = t \<and> DoTableEntry t env C m (a + 2) s =
    Some (a + length (MAKE_ENTRY e), s\<lparr>ts_hw := apply_entry (te_cpu env) C e (ts_hw s)\<rparr>)"
proof -
  have split: "holds m a (BSU16 t @ bs) \<Longrightarrow> read16 m a = t \<and> holds m (a + 2) bs" for t bs
    by (simp only: holds_append length_BSU read_BSU)
  show ?thesis
  proof (cases e)
    case (MSR_ENTRY Address Data Mask)
    note d = split [OF h [unfolded MSR_ENTRY MAKE_ENTRY.simps]]
    show ?thesis using d ok SetMsrEntry_data [OF d [THEN conjunct2], of env C s]
      by (intro exI [of _ 3]) (simp add: MSR_ENTRY DoTableEntry_def apply_entry_def)
  next
    case (MSR_CORE_REV_ENTRY Family Revision Address Data Mask)
    note d = split [OF h [unfolded MSR_CORE_REV_ENTRY MAKE_ENTRY.simps]]
    show ?thesis using d ok SetMsrCoreRevEntry_encoded [OF d [THEN conjunct2], of env C s]
      by (intro exI [of _ 5]) (simp add: MSR_CORE_REV_ENTRY DoTableEntry_def)
  next
    case (MSR_CPU_REV_ENTRY Family Revision Address Data Mask)
    note d = split [OF h [unfolded MSR_CPU_REV_ENTRY MAKE_ENTRY.simps]]
    show ?thesis using d ok SetMsrCpuRevEntry_encoded [OF d [THEN conjunct2], of env C s]
      by (intro exI [of _ 4]) (simp add: MSR_CPU_REV_ENTRY DoTableEntry_def)
  next
    case (MSR_PLATFORM_FEAT_ENTRY TypeFeats Address Data Mask)
    note d = split [OF h [unfolded MSR_PLATFORM_FEAT_ENTRY MAKE_ENTRY.simps]]
    show ?thesis using d ok SetMsrPlatformFeatEntry_encoded [OF d [THEN conjunct2], of env C s]
      by (intro exI [of _ 6]) (simp add: MSR_PLATFORM_FEAT_ENTRY DoTableEntry_def)
  next
    case (MSR_CPU_REV_PLATFORM_FEAT_ENTRY Family Revision TypeFeats Address Data Mask)
    note d = split [OF h [unfolded MSR_CPU_REV_PLATFORM_FEAT_ENTRY MAKE_ENTRY.simps]]
    show ?thesis using d ok SetMsrCpuRevPlatformFeatEntry_encoded [OF d [THEN conjunct2], of env C s]
      by (intro exI [of _ 7]) (simp add: MSR_CPU_REV_PLATFORM_FEAT_ENTRY DoTableEntry_def)
  qed
qed

section \<open>A table\<close>

declare SetRegistersFromTable.simps [simp del] tables_loop.simps [simp del]

lemma table_encoded:
  assumes "holds m a (encode es)" and "\<forall>e \<in> set es. entry_ok e"
  shows "SetRegistersFromTable env C m a s = Some (s\<lparr>ts_hw := fold (apply_entry (te_cpu env) C) es (ts_hw s)\<rparr>)"
  using assms
proof (induction es arbitrary: a s)
  case Nil
  then have "read16 m a = TableTerminator"
    by (simp add: encode_def MAKE_TABLE_TERMINATOR_def read_BSU)
  then show ?case by (simp add: SetRegistersFromTable.simps)
next
  case (Cons e es)
  have h: "holds m a (MAKE_ENTRY e)" "holds m (a + length (MAKE_ENTRY e)) (encode es)"
    using Cons.prems(1) by (simp_all add: encode_def)
  obtain t where t: "t < 8" "read16 m a = t"
    and d: "DoTableEntry t env C m (a + 2) s =
      Some (a + length (MAKE_ENTRY e), s\<lparr>ts_hw := apply_entry (te_cpu env) C e (ts_hw s)\<rparr>)"
    using do_entry_encoded [OF h(1), of env C s] Cons.prems(2) by auto
  have "t < TableEntryTypeMax" "t \<noteq> TableTerminator"
    using t(1) by (auto simp: TableEntryTypeMax_def TableTerminator_def word_less_nat_alt)
  then show ?case
    using d t(2) Cons.IH [OF h(2)] Cons.prems(2) by (subst SetRegistersFromTable.simps) (simp add: Let_def del: One_nat_def add_2_eq_Suc')
qed

section \<open>Lists of tables\<close>

lemma skip_tables_le: "i \<le> length tabs \<Longrightarrow> skip_tables v tabs i \<le> length tabs"
  using length_takeWhile_le [of "\<lambda>t. fst t \<noteq> v" "drop i tabs"] by (simp add: skip_tables_def)

lemma filter_skip_tables:
  assumes "i \<le> length tabs"
  shows "filter (\<lambda>t. fst t = v) (drop i tabs) =
    (let k = skip_tables v tabs i
     in if k < length tabs then tabs ! k # filter (\<lambda>t. fst t = v) (drop (Suc k) tabs) else [])"
proof -
  let ?p = "\<lambda>t. fst t \<noteq> v" and ?k = "skip_tables v tabs i"
  have d: "drop ?k tabs = dropWhile ?p (drop i tabs)"
    by (simp add: skip_tables_def dropWhile_eq_drop add.commute)
  have "filter (\<lambda>t. fst t = v) (drop i tabs) = filter (\<lambda>t. fst t = v) (takeWhile ?p (drop i tabs) @ dropWhile ?p (drop i tabs))"
    by simp
  also have "\<dots> = filter (\<lambda>t. fst t = v) (drop ?k tabs)"
    unfolding filter_append d [symmetric] by (auto simp: filter_empty_conv dest: set_takeWhileD)
  also have "\<dots> = (if ?k < length tabs then tabs ! ?k # filter (\<lambda>t. fst t = v) (drop (Suc ?k) tabs) else [])"
  proof (cases "?k < length tabs")
    case True
    then have c: "drop ?k tabs = tabs ! ?k # drop (Suc ?k) tabs" by (simp add: Cons_nth_drop_Suc)
    then have "fst (tabs ! ?k) = v" using d hd_dropWhile [of ?p "drop i tabs"] by (metis list.discI list.sel(1))
    then show ?thesis using True c by simp
  qed simp
  finally show ?thesis by (simp add: Let_def)
qed

text \<open>The iteration over a list of tables runs the selected tables in their order.\<close>

lemma tables_loop_filter:
  assumes "i \<le> length tabs"
  shows "let k = skip_tables (selector_val sel) tabs i
    in tables_loop env C m sel tabs k (if k < length tabs then Some k else None) s
      = for_each (\<lambda>t. SetRegistersFromTable env C m (snd t)) (filter (\<lambda>t. fst t = selector_val sel) (drop i tabs)) s"
  using assms
proof (induction "length tabs - i" arbitrary: i s rule: less_induct)
  case less
  let ?k = "skip_tables (selector_val sel) tabs i"
  show ?case
  proof (cases "?k < length tabs")
    case True
    have "i \<le> ?k" by (simp add: skip_tables_def)
    then have "length tabs - Suc ?k < length tabs - i" "Suc ?k \<le> length tabs" using True by auto
    from less.hyps [OF this] show ?thesis
      using True filter_skip_tables [OF less.prems, of "selector_val sel"]
      unfolding Let_def
      by (subst tables_loop.simps [of _ _ _ _ _ ?k]) (simp add: Let_def GetNextRegisterTable_def)
  next
    case False
    then show ?thesis
      using filter_skip_tables [OF less.prems, of "selector_val sel"] by (simp add: Let_def tables_loop.simps)
  qed
qed

lemma tables_loop_start:
  "(let (t, hd) = GetNextRegisterTable sel tabs None in tables_loop env C m sel tabs t hd s)
     = for_each (\<lambda>t. SetRegistersFromTable env C m (snd t)) (filter (\<lambda>t. fst t = selector_val sel) tabs) s"
  using tables_loop_filter [of 0 tabs sel env C m s] by (simp add: GetNextRegisterTable_def Let_def)

text \<open>The role a selector asks for.\<close>

fun core_has_role :: "'h cpu_ops \<Rightarrow> TABLE_CORE_SELECTOR \<Rightarrow> 'h \<Rightarrow> bool" where
  "core_has_role cpu AllCores h = True"
| "core_has_role cpu ComputeUnitPrimary h = xUslIsComputeUnitPrimary cpu"
| "core_has_role cpu ComplexPrimary h = xUslIsCoreComplexPrimary cpu"
| "core_has_role cpu DiePrimary h = xUslIsDiePrimary cpu"
| "core_has_role cpu PrimaryCores h = xUslIsSocketPrimary cpu"
| "core_has_role cpu BscCore h = fst (xUslIsBsp cpu h)"

definition pure_reads :: "'h cpu_ops \<Rightarrow> bool" where
  "pure_reads cpu \<longleftrightarrow> (\<forall>i h. snd (cpu_rdmsr cpu i h) = h)"

lemma IsCoreSelector_role:
  assumes "pure_reads (te_cpu env)"
  shows "IsCoreSelector env sel s = (core_has_role (te_cpu env) sel (ts_hw s), s)"
proof -
  obtain v where "cpu_rdmsr (te_cpu env) MSR_APIC_BAR (ts_hw s) = (v, ts_hw s)"
    using assms by (metis pure_reads_def prod.collapse)
  then show ?thesis by (cases sel) (simp_all add: IsCoreSelector_def is_bsp_def xUslIsBsp_def)
qed

lemma selector_loop_Cons:
  assumes "pure_reads (te_cpu env)"
  shows "selector_loop env C m tabs (sel # sels) s =
    (if core_has_role (te_cpu env) sel (ts_hw s)
     then for_each (\<lambda>t. SetRegistersFromTable env C m (snd t)) (filter (\<lambda>t. fst t = selector_val sel) tabs) s
            \<bind> selector_loop env C m tabs sels
     else Some s)"
  using tables_loop_start [of sel tabs env C m s]
  by (simp add: IsCoreSelector_role [OF assms] Let_def split: prod.splits)

end
