(* ===== verification/Ccx_Zen4.thy ===== *)
theory Ccx_Zen4
  imports Ccx_Encode
begin

text \<open>
  The register tables of \<^verbatim>\<open>xUSL/CCX/Zen4/CcxResetTablesZen4.c\<close> as lists of entries, and a file of
  model-specific registers as the hardware they are applied to.
\<close>

section \<open>Registers\<close>

definition MCA_CTL_MASK_IF_ADDRESS :: u32 where "MCA_CTL_MASK_IF_ADDRESS = 0xC0010401"
definition MCA_CTL_MASK_L2_ADDRESS :: u32 where "MCA_CTL_MASK_L2_ADDRESS = 0xC0010402"
definition MCA_CTL_MASK_FP_ADDRESS :: u32 where "MCA_CTL_MASK_FP_ADDRESS = 0xC0010406"
definition MSR_OSVW_ID_Length :: u32 where "MSR_OSVW_ID_Length = 0xC0010140"
definition MSR_OSVW_Status :: u32 where "MSR_OSVW_Status = 0xC0010141"
definition SIL_RESERVED2_908 :: u32 where "SIL_RESERVED2_908 = 0xC0011093"
definition SIL_RESERVED2_922 :: u32 where "SIL_RESERVED2_922 = 0xC0011097"
definition SIL_RESERVED2_918 :: u32 where "SIL_RESERVED2_918 = 0xC00110DC"
definition SIL_RESERVED2_917 :: u32 where "SIL_RESERVED2_917 = 0xC00110DE"

lemmas msr_addrs = MSR_APIC_BAR_def MSR_HWCR_def MCA_CTL_MASK_LS_ADDRESS_def MCA_CTL_MASK_IF_ADDRESS_def
  MCA_CTL_MASK_L2_ADDRESS_def MCA_CTL_MASK_FP_ADDRESS_def MSR_OSVW_ID_Length_def MSR_OSVW_Status_def
  SIL_RESERVED2_919_def SIL_RESERVED2_926_def SIL_RESERVED2_908_def SIL_RESERVED2_922_def SIL_RESERVED2_918_def
  SIL_RESERVED2_917_def

section \<open>Tables\<close>

definition CcxZen4AllCoreRegistersAfterApLaunch :: "msr_entry list" where
  "CcxZen4AllCoreRegistersAfterApLaunch =
     [MSR_ENTRY MSR_APIC_BAR 0x800 0x800,
      MSR_PLATFORM_FEAT_ENTRY AMD_PF_X2APIC MSR_APIC_BAR 0x400 0x400,
      MSR_ENTRY MSR_HWCR 0x8000000 0x8000000,
      MSR_CPU_REV_ENTRY AMD_PF_APIC AMD_REV_F19_GENOA_ALL MSR_HWCR 0x6000 0x6000,
      MSR_ENTRY MCA_CTL_MASK_LS_ADDRESS 0x381000 0x381000,
      MSR_CORE_REV_ENTRY AMD_CORE_FAMILY_19_ZEN4 AMD_CORE_F19_ZEN4_A0 MCA_CTL_MASK_LS_ADDRESS 0 0x1004,
      MSR_CPU_REV_ENTRY AMD_FAMILY_GENOA AMD_REV_F19_GENOA_ALL MCA_CTL_MASK_IF_ADDRESS 0x10800 0x10800,
      MSR_ENTRY MCA_CTL_MASK_L2_ADDRESS 8 8,
      MSR_CPU_REV_ENTRY AMD_FAMILY_GENOA AMD_REV_F19_GENOA_ALL MCA_CTL_MASK_L2_ADDRESS 0 8,
      MSR_ENTRY MCA_CTL_MASK_FP_ADDRESS 0x40 0x40,
      MSR_CPU_REV_ENTRY AMD_FAMILY_GENOA AMD_REV_F19_GENOA_ALL SIL_RESERVED2_919 0x33000000 0xFF000000,
      MSR_ENTRY SIL_RESERVED2_918 0 0x400000,
      MSR_CPU_REV_PLATFORM_FEAT_ENTRY AMD_FAMILY_GENOA AMD_REV_F19_GENOA_ALL AMD_PF_BRANCH_SAMPLING
        SIL_RESERVED2_918 0x80000000 0x80000000,
      MSR_CPU_REV_ENTRY AMD_FAMILY_GENOA AMD_REV_F19_GENOA_ALL SIL_RESERVED2_918 0x100 0x100,
      MSR_CPU_REV_ENTRY AMD_FAMILY_GENOA AMD_REV_F19_GENOA_ALL SIL_RESERVED2_917 0 0x10,
      MSR_ENTRY MSR_OSVW_ID_Length 5 0xFFFFFFFFFFFFFFFF,
      MSR_ENTRY MSR_OSVW_Status 0 0xFFFFFFFFFFFFFFFF]"

definition CcxZen4ComputeUnitRegistersAfterApLaunch :: "msr_entry list" where
  "CcxZen4ComputeUnitRegistersAfterApLaunch = [MSR_ENTRY SIL_RESERVED2_926 0x8680000000000000 0x8680000000000000]"

definition CcxZen4ComplexRegistersAfterApLaunch :: "msr_entry list" where
  "CcxZen4ComplexRegistersAfterApLaunch =
     [MSR_CPU_REV_ENTRY AMD_FAMILY_GENOA AMD_REV_F19_GENOA_ALL SIL_RESERVED2_908 0x501680 0xDC1F80,
      MSR_CPU_REV_ENTRY AMD_FAMILY_GENOA AMD_REV_F19_GENOA_ALL SIL_RESERVED2_922 0x1106 0x11C6,
      MSR_CPU_REV_ENTRY AMD_FAMILY_GENOA AMD_REV_F19_GENOA_ALL SIL_RESERVED2_922 0x1E0000 0x1E0000]"

text \<open>The lists of tables, over the addresses of the three arrays of bytes.\<close>

definition CcxZen4RegisterTablesAfterApLaunch :: "nat \<Rightarrow> nat \<Rightarrow> nat \<Rightarrow> table_list" where
  "CcxZen4RegisterTablesAfterApLaunch all cu cx =
     [(selector_val AllCores, all), (selector_val ComputeUnitPrimary, cu), (selector_val ComplexPrimary, cx)]"

definition CcxZen4RegTableListAtGivenTP ::
  "nat \<Rightarrow> nat \<Rightarrow> nat \<Rightarrow> (REGISTER_TABLE_TIME_POINT \<times> table_list option) list" where
  "CcxZen4RegTableListAtGivenTP all cu cx =
     [(AmdRegisterTableTpAfterApLaunch, Some (CcxZen4RegisterTablesAfterApLaunch all cu cx)),
      (AmdRegisterTableTpAfterApLaunchSecureS3, Some []),
      (MaxAmdRegisterTableTps, None)]"

lemmas zen4_tables = CcxZen4AllCoreRegistersAfterApLaunch_def CcxZen4ComputeUnitRegistersAfterApLaunch_def
  CcxZen4ComplexRegistersAfterApLaunch_def

lemma zen4_tables_ok:
  "\<forall>e \<in> set CcxZen4AllCoreRegistersAfterApLaunch. entry_ok e"
  "\<forall>e \<in> set CcxZen4ComputeUnitRegistersAfterApLaunch. entry_ok e"
  "\<forall>e \<in> set CcxZen4ComplexRegistersAfterApLaunch. entry_ok e"
  by (simp_all add: zen4_tables feats_ok_def platform_feat_defs)

section \<open>A file of registers\<close>

definition msr_file :: "(u32 \<Rightarrow> cpuid_regs) \<Rightarrow> (u32 \<Rightarrow> u64) cpu_ops" where
  "msr_file cpuid = \<lparr>cpu_cpuid = cpuid, cpu_rdmsr = (\<lambda>i f. (f i, f)), cpu_wrmsr = (\<lambda>i v f. f(i := v))\<rparr>"

lemma msr_file_pure [simp]: "pure_reads (msr_file cpuid)"
  by (simp add: pure_reads_def msr_file_def)

definition update_msr :: "u64 \<times> u64 \<Rightarrow> u64 \<Rightarrow> u64" where
  "update_msr dm v = (v AND NOT (snd dm)) OR fst dm"

text \<open>The entries of a table for one register, as the pairs of data and mask that apply.\<close>

definition updates_of :: "ENTRY_CRITERIA \<Rightarrow> msr_entry list \<Rightarrow> u32 \<Rightarrow> (u64 \<times> u64) list" where
  "updates_of C es x = map (snd \<circ> entry_data) (filter (\<lambda>e. entry_applies C e \<and> fst (entry_data e) = x) es)"

lemma fold_msr_file:
  "fold (apply_entry (msr_file cpuid) C) es f x = fold update_msr (updates_of C es x) (f x)"
proof (induction es arbitrary: f)
  case (Cons e es)
  obtain A D M where e: "entry_data e = (A, D, M)" by (cases "entry_data e") auto
  have "apply_entry (msr_file cpuid) C e f x =
      (if entry_applies C e \<and> A = x then update_msr (D, M) (f x) else f x)"
    by (simp add: apply_entry_def e xUslMsrAndThenOr_def msr_file_def update_msr_def)
  then show ?case using Cons.IH by (simp add: updates_of_def e)
qed (simp add: updates_of_def)

text \<open>What CPUID answers on a Genoa core with two threads, for the witnesses.\<close>

definition genoa_cpuid :: "u32 \<Rightarrow> cpuid_regs" where
  "genoa_cpuid leaf = (if leaf = 0x80000001 then \<lparr>EAX = 0x00A10F11, EBX = 0\<rparr>
     else if leaf = 0x8000001E then \<lparr>EAX = 0, EBX = 0x100\<rparr> else \<lparr>EAX = 0, EBX = 0\<rparr>)"

end
