(* ===== verification/Ccx_Props.thy ===== *)
theory Ccx_Props
  imports Ccx_Zen4
begin

text \<open>
  Properties of the processor services, of the register table interpreter and of the Zen4 tables.
\<close>

section \<open>Helpers\<close>

definition table_roles :: "'h cpu_ops \<Rightarrow> 'h \<Rightarrow> TABLE_CORE_SELECTOR list" where
  "table_roles cpu h =
     filter (\<lambda>sel. core_has_role cpu sel h) [AllCores, ComputeUnitPrimary, ComplexPrimary, DiePrimary, PrimaryCores]"

definition tables_for :: "TABLE_CORE_SELECTOR list \<Rightarrow> table_list \<Rightarrow> table_list" where
  "tables_for sels tabs = concat (map (\<lambda>sel. filter (\<lambda>t. fst t = selector_val sel) tabs) sels)"

lemma selector_loop_bsc:
  assumes "pure_reads (te_cpu env)" and "\<forall>t \<in> set tabs. fst t \<noteq> selector_val BscCore"
  shows "selector_loop env C m tabs [BscCore] s = Some s"
proof -
  have "filter (\<lambda>t. fst t = selector_val BscCore) tabs = []" using assms(2) by (simp add: filter_empty_conv)
  then show ?thesis by (subst selector_loop_Cons [OF assms(1)]) (simp del: selector_val.simps)
qed

lemma role_static: "sel \<noteq> BscCore \<Longrightarrow> core_has_role cpu sel h = core_has_role cpu sel h'"
  by (cases sel) auto

text \<open>Leaving the loop at the first role the core does not have is harmless when roles are nested.\<close>

lemma selector_loop_nested:
  assumes pure: "pure_reads (te_cpu env)" and bsc: "\<forall>t \<in> set tabs. fst t \<noteq> selector_val BscCore"
    and "sorted_wrt (\<lambda>x y. core_has_role (te_cpu env) y h \<longrightarrow> core_has_role (te_cpu env) x h) sels"
    and "BscCore \<notin> set sels"
  shows "selector_loop env C m tabs (sels @ [BscCore]) s =
    for_each (\<lambda>t. SetRegistersFromTable env C m (snd t))
      (tables_for (filter (\<lambda>sel. core_has_role (te_cpu env) sel h) sels) tabs) s"
  using assms(3,4)
proof (induction sels arbitrary: s)
  case Nil
  then show ?case
    using selector_loop_bsc [OF pure bsc] by (simp add: tables_for_def del: selector_loop.simps)
next
  case (Cons sel sels)
  have role: "core_has_role (te_cpu env) sel (ts_hw s) = core_has_role (te_cpu env) sel h"
    using Cons.prems(2) by (intro role_static) auto
  have IH: "selector_loop env C m tabs (sels @ [BscCore]) = for_each (\<lambda>t. SetRegistersFromTable env C m (snd t))
      (tables_for (filter (\<lambda>sel. core_has_role (te_cpu env) sel h) sels) tabs)"
    using Cons by auto
  show ?case
  proof (cases "core_has_role (te_cpu env) sel h")
    case True
    then show ?thesis
      using selector_loop_Cons [OF pure, of C m tabs sel "sels @ [BscCore]" s]
      by (simp add: IH role tables_for_def for_each_append del: selector_loop.simps)
  next
    case False
    then have "filter (\<lambda>sel. core_has_role (te_cpu env) sel h) sels = []"
      using Cons.prems(1) by (simp add: filter_empty_conv)
    then show ?thesis
      using False selector_loop_Cons [OF pure, of C m tabs sel "sels @ [BscCore]" s]
      by (simp add: role tables_for_def del: selector_loop.simps)
  qed
qed

lemma table_list_by_role:
  assumes pure: "pure_reads (te_cpu env)"
    and threads: "xUslGetThreadsPerCore (te_cpu env) \<le> 2"
    and bsc: "\<forall>t \<in> set tabs. fst t \<noteq> selector_val BscCore"
  shows "SetRegistersFromTableList env C m tabs s =
    for_each (\<lambda>t. SetRegistersFromTable env C m (snd t))
      (tables_for (table_roles (te_cpu env) (ts_hw s)) tabs) s"
proof -
  have "sorted_wrt (\<lambda>x y. core_has_role (te_cpu env) y (ts_hw s) \<longrightarrow> core_has_role (te_cpu env) x (ts_hw s))
      [AllCores, ComputeUnitPrimary, ComplexPrimary, DiePrimary, PrimaryCores]"
    using socket_primary_complex [of "te_cpu env"] complex_primary_compute_unit [OF _ threads]
    by (auto simp: xUslIsDiePrimary_def)
  from selector_loop_nested [OF pure bsc this, of C m s] show ?thesis
    by (simp add: SetRegistersFromTableList_def table_roles_def del: selector_loop.simps filter.simps)
qed

section \<open>A sample\<close>

definition table_sample :: "(u32 \<Rightarrow> u64) table_env" where
  "table_sample =
     \<lparr>te_dbg = True,
      te_pci = \<lparr>bus_rd8 = \<lambda>a h. (0, h), bus_rd16 = \<lambda>a h. (0, h), bus_rd32 = \<lambda>a h. (0, h), bus_rd64 = \<lambda>a h. (0, h),
        bus_wr8 = \<lambda>a v h. h, bus_wr16 = \<lambda>a v h. h, bus_wr32 = \<lambda>a v h. h, bus_wr64 = \<lambda>a v h. h\<rparr>,
      te_cpu = msr_file genoa_cpuid,
      te_sil = \<lparr>mem = (\<lambda>_. 0), mSilMemoryBase = 0, mHostDebugService = 0, mDeferredResetType = SilPass\<rparr>,
      te_SmuRegisterRMW = (\<lambda>api i r a v h. Some (SilPass, h)), te_DfGetSystemInfo = (\<lambda>api h. Some (1, h)),
      te_stack = (\<lambda>_. 0)\<rparr>"

text \<open>The three Zen4 tables one after the other.\<close>

definition zen4_bytes :: "u8 list" where
  "zen4_bytes = encode CcxZen4AllCoreRegistersAfterApLaunch @ encode CcxZen4ComputeUnitRegistersAfterApLaunch
     @ encode CcxZen4ComplexRegistersAfterApLaunch"

definition zen4_memory :: memory where "zen4_memory a = (if a < length zen4_bytes then zen4_bytes ! a else 0)"

lemma holds_nth: "(\<And>i. i < length bs \<Longrightarrow> m (a + i) = bs ! i) \<Longrightarrow> holds m a bs"
proof (induction bs arbitrary: a)
  case (Cons b bs)
  have "holds m (Suc a) bs" using Cons.prems [of "Suc _"] by (intro Cons.IH) auto
  moreover have "m a = b" using Cons.prems [of 0] by simp
  ultimately show ?case by simp
qed simp

abbreviation "zen4_cu \<equiv> length (encode CcxZen4AllCoreRegistersAfterApLaunch)"
abbreviation "zen4_cx \<equiv> zen4_cu + length (encode CcxZen4ComputeUnitRegistersAfterApLaunch)"

lemma zen4_memory_holds:
  "holds zen4_memory 0 (encode CcxZen4AllCoreRegistersAfterApLaunch)"
  "holds zen4_memory zen4_cu (encode CcxZen4ComputeUnitRegistersAfterApLaunch)"
  "holds zen4_memory zen4_cx (encode CcxZen4ComplexRegistersAfterApLaunch)"
proof -
  have "holds zen4_memory 0 zen4_bytes" by (rule holds_nth) (simp add: zen4_memory_def)
  then show "holds zen4_memory 0 (encode CcxZen4AllCoreRegistersAfterApLaunch)"
    "holds zen4_memory zen4_cu (encode CcxZen4ComputeUnitRegistersAfterApLaunch)"
    "holds zen4_memory zen4_cx (encode CcxZen4ComplexRegistersAfterApLaunch)"
    by (simp_all add: zen4_bytes_def)
qed

lemma table_sample_facts:
  "pure_reads (te_cpu table_sample)" "xUslGetThreadsPerCore (te_cpu table_sample) = 2"
  "te_cpu table_sample = msr_file genoa_cpuid"
  by (simp_all add: table_sample_def xUslGetThreadsPerCore_def msr_file_def genoa_cpuid_def pure_reads_def)

lemma sample_roles:
  "xUslIsComputeUnitPrimary (te_cpu table_sample)" "xUslIsCoreComplexPrimary (te_cpu table_sample)"
  "xUslIsDiePrimary (te_cpu table_sample)" "xUslIsSocketPrimary (te_cpu table_sample)"
  by (simp_all add: xUslIsComputeUnitPrimary_def xUslIsCoreComplexPrimary_def xUslIsDiePrimary_def
      xUslIsSocketPrimary_def xUslGetInitialApicId_def xUslGetThreadsPerCore_def table_sample_def msr_file_def genoa_cpuid_def)

definition sample_criteria :: ENTRY_CRITERIA where
  "sample_criteria = \<lparr>SocLogicalId = \<lparr>id_Family = AMD_FAMILY_GENOA, id_Revision = AMD_REV_F19_GENOA_B1\<rparr>,
     CoreLogicalId = \<lparr>id_Family = AMD_CORE_FAMILY_19_ZEN4, id_Revision = AMD_CORE_F19_ZEN4_B1\<rparr>,
     ProfileFeats = 0, PlatformFeats = 0\<rparr>"

section \<open>Properties\<close>



text \<open>
  C11: a register table written with the macros of \<^verbatim>\<open>AmdTable.h\<close>. When the bytes of the entries and the
  terminator are in memory and the entries pass the assertions, \<^verbatim>\<open>SetRegistersFromTable\<close> ends and has
  performed, in order, the read-modify-write of exactly the entries whose criteria match.
\<close>

theorem register_table_refines:
  assumes "holds m a (encode es)" and "\<forall>e \<in> set es. entry_ok e"
  shows "SetRegistersFromTable env C m a s =
    Some (s\<lparr>ts_hw := fold (apply_entry (te_cpu env) C) es (ts_hw s)\<rparr>)"
  using assms by (rule table_encoded)

theorem register_table_refines_witness:
  "SetRegistersFromTable table_sample sample_criteria zen4_memory zen4_cu \<lparr>ts_SystemDieNumber = 0xFF, ts_hw = (\<lambda>_. 0)\<rparr> =
     Some \<lparr>ts_SystemDieNumber = 0xFF, ts_hw = (\<lambda>_. 0)(SIL_RESERVED2_926 := 0x8680000000000000)\<rparr>"
  using register_table_refines [OF zen4_memory_holds(2) zen4_tables_ok(2), of table_sample sample_criteria
      "\<lparr>ts_SystemDieNumber = 0xFF, ts_hw = (\<lambda>_. 0)\<rparr>"]
  by (simp add: CcxZen4ComputeUnitRegistersAfterApLaunch_def apply_entry_def table_sample_facts xUslMsrAndThenOr_def
      msr_file_def)

section \<open>The Zen4 tables on a Genoa core\<close>

lemma genoa_criteria:
  assumes "SocFamilyIdCheck (te_cpu env) l AMD_FAMILY_GENOA = Some True"
  shows "\<exists>C. entry_criteria env C0 cfg = Some C \<and> id_Family (SocLogicalId C) = AMD_FAMILY_GENOA
    \<and> id_match (SocLogicalId C) AMD_FAMILY_GENOA AMD_REV_F19_GENOA_ALL
    \<and> PlatformFeats C = GetPlatformFeatures (AmdApicMode cfg) (AmdIbrsEn cfg) (AmdBranchSampling cfg)"
proof -
  let ?raw = "xUslGetRawIdOnExecutingCore (te_cpu env)"
  obtain f r where fr: "SocFindApplicableLogicalTableEntries ?raw = Some (Some (f, r))"
    and "f = hd SocLogicalFamilyTable" and r: "r \<in> set (butlast SocLogicalRevisionTable)"
    using assms
    by (auto simp: SocFamilyIdCheck_def GetSocLogicalIdOnCurrentCore_def id_service_def SocConvertRawToLogical_def
        SocFindApplicableLogicalTableEntries_def find_family_genoa find_revision_genoa Let_def
        SocLogicalRevisionTable_def split: if_splits option.splits)
  then have "LogicalFamily f = AMD_FAMILY_GENOA" by (simp add: SocLogicalFamilyTable_def)
  moreover have "LogicalRevision r AND AMD_REV_F19_GENOA_ALL \<noteq> 0"
    using r by (auto simp: SocLogicalRevisionTable_def genoa_ids)
  ultimately show ?thesis
    using fr by (auto simp: entry_criteria_def GetSocLogicalIdOnCurrentCore_def GetCoreLogicalIdOnCurrentCore_def
        id_service_def SocConvertRawToLogical_def BaseCoreConvertRawToLogical_def id_match_def AMD_FAMILY_GENOA_def)
qed

lemma x2apic_feature:
  "DoesEntryTypeSpecificInfoMatch (GetPlatformFeatures mode ibrs bs) AMD_PF_X2APIC \<longleftrightarrow> mode = 2"
  by (cases ibrs; cases bs) (auto simp: DoesEntryTypeSpecificInfoMatch_def GetPlatformFeatures_def GetBasePlatformFeatures_def
      AMD_PF_X2APIC_def set_field_def Let_def)

text \<open>The entries a core with given roles applies.\<close>

definition zen4_entries :: "'h cpu_ops \<Rightarrow> msr_entry list" where
  "zen4_entries cpu = CcxZen4AllCoreRegistersAfterApLaunch
     @ (if xUslIsComputeUnitPrimary cpu then CcxZen4ComputeUnitRegistersAfterApLaunch else [])
     @ (if xUslIsCoreComplexPrimary cpu then CcxZen4ComplexRegistersAfterApLaunch else [])"

lemma zen4_run:
  assumes pure: "pure_reads (te_cpu env)" and threads: "xUslGetThreadsPerCore (te_cpu env) \<le> 2"
    and h: "holds m all (encode CcxZen4AllCoreRegistersAfterApLaunch)"
      "holds m cu (encode CcxZen4ComputeUnitRegistersAfterApLaunch)"
      "holds m cx (encode CcxZen4ComplexRegistersAfterApLaunch)"
  shows "SetRegistersFromTableList env C m (CcxZen4RegisterTablesAfterApLaunch all cu cx) s =
    Some (s\<lparr>ts_hw := fold (apply_entry (te_cpu env) C) (zen4_entries (te_cpu env)) (ts_hw s)\<rparr>)"
proof -
  let ?tabs = "CcxZen4RegisterTablesAfterApLaunch all cu cx"
  have bsc: "\<forall>t \<in> set ?tabs. fst t \<noteq> selector_val BscCore" by (simp add: CcxZen4RegisterTablesAfterApLaunch_def)
  have roles: "tables_for (table_roles (te_cpu env) (ts_hw s)) ?tabs = [(0, all)]
      @ (if xUslIsComputeUnitPrimary (te_cpu env) then [(1, cu)] else [])
      @ (if xUslIsCoreComplexPrimary (te_cpu env) then [(2, cx)] else [])"
    by (simp add: tables_for_def table_roles_def CcxZen4RegisterTablesAfterApLaunch_def)
  show ?thesis
    unfolding table_list_by_role [OF pure threads bsc] roles zen4_entries_def
    by (simp add: table_encoded [OF h(1) zen4_tables_ok(1)] table_encoded [OF h(2) zen4_tables_ok(2)]
        table_encoded [OF h(3) zen4_tables_ok(3)])
qed

definition zen4_msrs :: "u32 set" where
  "zen4_msrs = {MSR_APIC_BAR, MSR_HWCR, MCA_CTL_MASK_LS_ADDRESS, MCA_CTL_MASK_IF_ADDRESS, MCA_CTL_MASK_L2_ADDRESS,
     MCA_CTL_MASK_FP_ADDRESS, SIL_RESERVED2_919, SIL_RESERVED2_918, SIL_RESERVED2_917, MSR_OSVW_ID_Length,
     MSR_OSVW_Status, SIL_RESERVED2_926, SIL_RESERVED2_908, SIL_RESERVED2_922}"

lemma zen4_entries_msrs: "e \<in> set (zen4_entries cpu) \<Longrightarrow> fst (entry_data e) \<in> zen4_msrs"
  by (auto simp: zen4_entries_def zen4_tables zen4_msrs_def split: if_splits)

lemma zen4_other_msrs:
  assumes "x \<notin> zen4_msrs"
  shows "updates_of C (zen4_entries cpu) x = []"
  using assms zen4_entries_msrs [of _ cpu] by (auto simp: updates_of_def filter_empty_conv)

lemma zen4_updates:
  assumes "id_Family (SocLogicalId C) = AMD_FAMILY_GENOA"
    and "id_match (SocLogicalId C) AMD_FAMILY_GENOA AMD_REV_F19_GENOA_ALL"
  shows "updates_of C (zen4_entries cpu) MSR_HWCR = [(0x8000000, 0x8000000)]"
    and "updates_of C (zen4_entries cpu) MSR_APIC_BAR =
      (0x800, 0x800) # (if DoesEntryTypeSpecificInfoMatch (PlatformFeats C) AMD_PF_X2APIC then [(0x400, 0x400)] else [])"
    and "updates_of C (zen4_entries cpu) MCA_CTL_MASK_L2_ADDRESS = [(8, 8), (0, 8)]"
    and "updates_of C (zen4_entries cpu) MSR_OSVW_ID_Length = [(5, 0xFFFFFFFFFFFFFFFF)]"
    and "updates_of C (zen4_entries cpu) MSR_OSVW_Status = [(0, 0xFFFFFFFFFFFFFFFF)]"
    and "updates_of C (zen4_entries cpu) SIL_RESERVED2_926 =
      (if xUslIsComputeUnitPrimary cpu then [(0x8680000000000000, 0x8680000000000000)] else [])"
proof -
  have "\<not> id_match (SocLogicalId C) AMD_PF_APIC AMD_REV_F19_GENOA_ALL"
    using assms(1) by (simp add: id_match_def AMD_FAMILY_GENOA_def AMD_PF_APIC_def)
  note [simp] = this assms(2)
  show "updates_of C (zen4_entries cpu) MSR_HWCR = [(0x8000000, 0x8000000)]"
    "updates_of C (zen4_entries cpu) MSR_APIC_BAR =
      (0x800, 0x800) # (if DoesEntryTypeSpecificInfoMatch (PlatformFeats C) AMD_PF_X2APIC then [(0x400, 0x400)] else [])"
    "updates_of C (zen4_entries cpu) MCA_CTL_MASK_L2_ADDRESS = [(8, 8), (0, 8)]"
    "updates_of C (zen4_entries cpu) MSR_OSVW_ID_Length = [(5, 0xFFFFFFFFFFFFFFFF)]"
    "updates_of C (zen4_entries cpu) MSR_OSVW_Status = [(0, 0xFFFFFFFFFFFFFFFF)]"
    "updates_of C (zen4_entries cpu) SIL_RESERVED2_926 =
      (if xUslIsComputeUnitPrimary cpu then [(0x8680000000000000, 0x8680000000000000)] else [])"
    by (simp_all add: updates_of_def zen4_entries_def zen4_tables msr_addrs)
qed

lemma update_msr_set: "update_msr (d, d) v = v OR d"
  by (rule bit_eqI) (auto simp: update_msr_def bit_simps)

lemma update_msr_clear: "update_msr (0, d) (v OR d) = v AND NOT d"
  by (rule bit_eqI) (auto simp: update_msr_def bit_simps)

lemma update_msr_all: "update_msr (d, 0xFFFFFFFFFFFFFFFF) v = d"
proof -
  have "(0xFFFFFFFFFFFFFFFF :: u64) = - 1" by simp
  then show ?thesis by (simp only: update_msr_def fst_conv snd_conv) simp
qed

text \<open>
  C12: the Zen4 tables at the time point after the application processors were launched. On a Genoa core with
  one or two threads and a file of model-specific registers, with the bytes of the tables in memory, the call
  passes; the local APIC is enabled, in x2APIC mode exactly when configured; the OS visible workaround
  registers are set; the errata mask of the second-level cache ends up clear; the compute unit register is
  only set by primary threads; and no register outside the tables changes. In \<^verbatim>\<open>HWCR\<close> only bit 27 is set: the
  entry that should set \<^verbatim>\<open>RsmSpCycDis\<close> and \<^verbatim>\<open>SmiSpCycDis\<close> names the platform feature \<^verbatim>\<open>AMD_PF_APIC\<close> as its family
  and never applies.
\<close>

theorem zen4_after_ap_launch:
  assumes cpu: "te_cpu env = msr_file cpuid" and threads: "xUslGetThreadsPerCore (te_cpu env) \<le> 2"
    and genoa: "SocFamilyIdCheck (te_cpu env) l AMD_FAMILY_GENOA = Some True"
    and tables: "holds m all (encode CcxZen4AllCoreRegistersAfterApLaunch)"
      "holds m cu (encode CcxZen4ComputeUnitRegistersAfterApLaunch)"
      "holds m cx (encode CcxZen4ComplexRegistersAfterApLaunch)"
  shows "\<exists>f. SetRegistersFromTablesAtGivenTimePoint env C0 m (CcxZen4RegTableListAtGivenTP all cu cx)
        AmdRegisterTableTpAfterApLaunch None cfg s = Some (SilPass, s\<lparr>ts_hw := f\<rparr>)
    \<and> f MSR_APIC_BAR = ts_hw s MSR_APIC_BAR OR (if AmdApicMode cfg = 2 then 0xC00 else 0x800)
    \<and> f MSR_HWCR = ts_hw s MSR_HWCR OR 0x8000000
    \<and> f MCA_CTL_MASK_L2_ADDRESS = ts_hw s MCA_CTL_MASK_L2_ADDRESS AND NOT 8
    \<and> f MSR_OSVW_ID_Length = 5 \<and> f MSR_OSVW_Status = 0
    \<and> f SIL_RESERVED2_926 =
        (if xUslIsComputeUnitPrimary (te_cpu env) then ts_hw s SIL_RESERVED2_926 OR 0x8680000000000000
         else ts_hw s SIL_RESERVED2_926)
    \<and> (\<forall>x. x \<in> zen4_msrs \<or> f x = ts_hw s x)"
proof -
  obtain C where C: "entry_criteria env C0 cfg = Some C" "id_Family (SocLogicalId C) = AMD_FAMILY_GENOA"
    "id_match (SocLogicalId C) AMD_FAMILY_GENOA AMD_REV_F19_GENOA_ALL"
    "PlatformFeats C = GetPlatformFeatures (AmdApicMode cfg) (AmdIbrsEn cfg) (AmdBranchSampling cfg)"
    using genoa_criteria [OF genoa, of C0 cfg] by blast
  let ?f = "fold (apply_entry (te_cpu env) C) (zen4_entries (te_cpu env)) (ts_hw s)"
  have pure: "pure_reads (te_cpu env)" by (simp add: cpu)
  have run: "SetRegistersFromTablesAtGivenTimePoint env C0 m (CcxZen4RegTableListAtGivenTP all cu cx)
        AmdRegisterTableTpAfterApLaunch None cfg s = Some (SilPass, s\<lparr>ts_hw := ?f\<rparr>)"
    using zen4_run [OF pure threads tables, of C s]
    by (simp add: SetRegistersFromTablesAtGivenTimePoint_def CcxZen4RegTableListAtGivenTP_def C(1))
  have val: "?f x = fold update_msr (updates_of C (zen4_entries (te_cpu env)) x) (ts_hw s x)" for x
    unfolding cpu by (rule fold_msr_file)
  have apic: "?f MSR_APIC_BAR = ts_hw s MSR_APIC_BAR OR (if AmdApicMode cfg = 2 then 0xC00 else 0x800)"
    by (simp add: val zen4_updates(2) [OF C(2,3)] C(4) x2apic_feature update_msr_set or.assoc)
  have rest: "x \<in> zen4_msrs \<or> ?f x = ts_hw s x" for x
    by (cases "x \<in> zen4_msrs") (simp_all add: val zen4_other_msrs)
  show ?thesis
    using run apic rest
    by (intro exI [of _ ?f]) (simp add: val zen4_updates [OF C(2,3)] update_msr_set update_msr_clear update_msr_all)
qed

theorem zen4_after_ap_launch_witness:
  "\<exists>f. SetRegistersFromTablesAtGivenTimePoint table_sample sample_criteria zen4_memory
        (CcxZen4RegTableListAtGivenTP 0 zen4_cu zen4_cx) AmdRegisterTableTpAfterApLaunch None
        \<lparr>AmdApicMode = 2, AmdIbrsEn = True, AmdBranchSampling = False\<rparr>
        \<lparr>ts_SystemDieNumber = 0xFF, ts_hw = (\<lambda>_. 0x10)\<rparr> = Some (SilPass, \<lparr>ts_SystemDieNumber = 0xFF, ts_hw = f\<rparr>)
    \<and> f MSR_APIC_BAR = 0xC10 \<and> f MSR_HWCR = 0x8000010 \<and> f SIL_RESERVED2_926 = 0x8680000000000010 \<and> f 0x10 = 0x10"
proof -
  have t: "xUslGetThreadsPerCore (te_cpu table_sample) \<le> 2" unfolding table_sample_facts(2) by simp
  have g: "SocFamilyIdCheck (te_cpu table_sample) (SocLogicalId sample_criteria) AMD_FAMILY_GENOA = Some True"
    by (simp add: SocFamilyIdCheck_def GetSocLogicalIdOnCurrentCore_def id_service_def SocConvertRawToLogical_def
        SocFindApplicableLogicalTableEntries_def find_family_genoa find_revision_genoa xUslGetRawIdOnExecutingCore_def
        table_sample_facts msr_file_def genoa_cpuid_def SocLogicalFamilyTable_def)
  have x: "(0x10 :: u32) \<notin> zen4_msrs" by (simp add: zen4_msrs_def msr_addrs)
  show ?thesis
    using zen4_after_ap_launch [OF table_sample_facts(3) t g zen4_memory_holds, of sample_criteria
        "\<lparr>AmdApicMode = 2, AmdIbrsEn = True, AmdBranchSampling = False\<rparr>"
        "\<lparr>ts_SystemDieNumber = 0xFF, ts_hw = (\<lambda>_. 0x10)\<rparr>"] x sample_roles(1)
    by auto
qed

end
