(* ===== verification/Sil_Cpu_Props.thy ===== *)
theory Sil_Cpu_Props
  imports Ccx_Props
begin

text \<open>
  Properties of logical identifiers, P-states and the copy of bit fields between registers.
\<close>

section \<open>P-states\<close>

lemma unat_ucast_field:
  fixes v :: u64
  assumes "w \<le> 32"
  shows "unat (ucast (get_field lo w v) :: u32) = unat (get_field lo w v)"
proof -
  have "unat (get_field lo w v) < 2 ^ w" by (rule get_field_small)
  also have "(2 :: nat) ^ w \<le> 2 ^ 32" using assms by (intro power_increasing) auto
  finally show ?thesis by (simp add: unsigned_ucast_eq take_bit_nat_eq_self)
qed

lemma odd_unat: "odd (unat x) \<longleftrightarrow> odd x" for x :: u32
  unfolding bit_0 [symmetric] by (simp add: bit_unsigned_iff del: bit_0)

lemma pstate_frequency_exact:
  assumes "unat fid < 256" and "unat dfs < 64"
  shows "unat (pstate_frequency fid dfs) =
    (if unat dfs = 0 then 0 else if 8 \<le> unat dfs \<and> unat dfs \<le> 60 then 200 * unat fid div unat dfs else 25 * unat fid)"
  using assms
  by (auto simp: pstate_frequency_def unat_eq_zero word_le_nat_alt unat_div unat_word_ariths)

lemma pstate_voltage_exact:
  assumes "unat vid < 256"
  shows "unat (pstate_voltage vid) = (if 248 \<le> unat vid then 0 else 1550000 - 6250 * unat vid)"
proof -
  have m: "unat (6250 * vid) = 6250 * unat vid" using assms by (simp add: unat_word_ariths)
  show ?thesis
  proof (cases "248 \<le> unat vid")
    case False
    then have "unat (6250 * vid) \<le> unat (1550000 :: u32)" unfolding m by simp
    then have "unat (1550000 - 6250 * vid) = unat (1550000 :: u32) - unat (6250 * vid)" by (rule unat_minus_small)
    then show ?thesis using False assms m by (simp add: pstate_voltage_def word_le_nat_alt)
  qed (use assms in \<open>simp add: pstate_voltage_def word_le_nat_alt\<close>)
qed

lemma pstate_power_exact:
  assumes "unat (v :: u32) \<le> 1550000" and "unat (i :: u32) < 256"
  shows "unat (v div 10 * i) = unat v div 10 * unat i" and "unat v div 10 * unat i \<le> 155000 * 255"
proof -
  have "unat v div 10 \<le> 155000" using assms(1) by simp
  then show m: "unat v div 10 * unat i \<le> 155000 * 255" using assms(2) by (intro mult_le_mono) auto
  then show "unat (v div 10 * i) = unat v div 10 * unat i" by (simp add: unat_div unat_word_ariths)
qed

text \<open>
  C14: the P-state arithmetic is exact. For an enabled P-state with a valid frequency divisor and a defined
  current divisor, \<^verbatim>\<open>GetPstateInfo\<close> passes and its 32-bit results are the values of the formulas over the
  natural numbers: no intermediate product wraps and the voltage does not go below zero. Frequency, voltage
  and power are bounded.
\<close>

theorem pstate_info_exact:
  assumes msr: "cpu_rdmsr cpu (MSR_PSTATE_DEF_ADDRESS + n) h = (v, h')"
    and en: "pstate_En v \<noteq> 0"
    and dfs: "unat (pstate_CpuDfsId v) \<le> 0x1A \<or> even (unat (pstate_CpuDfsId v))"
    and idd: "unat (pstate_IddDiv v) < 3"
  shows "\<exists>info. GetPstateInfo dbg cpu n out h = Some (SilPass, info, h') \<and> ps_Status info
    \<and> (let fid = unat (pstate_CpuFid v); d = unat (pstate_CpuDfsId v); vid = unat (pstate_CpuVid v)
       in unat (ps_Frequency info) = (if d = 0 then 0 else if 8 \<le> d \<and> d \<le> 60 then 200 * fid div d else 25 * fid)
        \<and> unat (ps_VoltageInuV info) = (if 248 \<le> vid then 0 else 1550000 - 6250 * vid)
        \<and> unat (ps_PowerInmW info) =
            unat (ps_VoltageInuV info) div 10 * unat (pstate_IddValue v) div 10 ^ (2 + unat (pstate_IddDiv v)))
    \<and> unat (ps_Frequency info) \<le> 6375 \<and> unat (ps_VoltageInuV info) \<le> 1550000 \<and> unat (ps_PowerInmW info) \<le> 395250"
proof -
  let ?fid = "ucast (pstate_CpuFid v) :: u32" and ?d = "ucast (pstate_CpuDfsId v) :: u32"
    and ?vid = "ucast (pstate_CpuVid v) :: u32" and ?i = "ucast (pstate_IddValue v) :: u32"
    and ?div = "ucast (pstate_IddDiv v) :: u32"
  have u: "unat ?fid = unat (pstate_CpuFid v)" "unat ?d = unat (pstate_CpuDfsId v)" "unat ?vid = unat (pstate_CpuVid v)"
    "unat ?i = unat (pstate_IddValue v)" "unat ?div = unat (pstate_IddDiv v)"
    unfolding pstate_CpuFid_def pstate_CpuDfsId_def pstate_CpuVid_def pstate_IddValue_def pstate_IddDiv_def
    by (simp_all add: unat_ucast_field)
  have b: "unat ?fid < 256" "unat ?d < 64" "unat ?vid < 256" "unat ?i < 256"
    unfolding u using get_field_small [of 0 8 v] get_field_small [of 8 6 v] get_field_small [of 14 8 v] get_field_small [of 22 8 v]
    by (simp_all add: pstate_CpuFid_def pstate_CpuDfsId_def pstate_CpuVid_def pstate_IddValue_def)
  have ok: "\<not> (0x1A < ?d \<and> ?d AND 1 = 1)"
    using dfs odd_unat [of ?d] by (auto simp: word_less_nat_alt u and_one_eq mod_2_eq_odd)
  define p where "p = pstate_voltage ?vid div 10 * ?i"
  have volt: "unat (pstate_voltage ?vid) \<le> 1550000" using pstate_voltage_exact [OF b(3)] by auto
  have p: "unat p = unat (pstate_voltage ?vid) div 10 * unat ?i"
    unfolding p_def by (rule pstate_power_exact(1) [OF volt b(4)])
  then have pb: "unat p \<le> 155000 * 255" using pstate_power_exact(2) [OF volt b(4)] by (simp only:)
  have fb: "unat (pstate_frequency ?fid ?d) \<le> 6375"
  proof (cases "8 \<le> unat ?d \<and> unat ?d \<le> 60")
    case True
    then have "200 * unat ?fid div unat ?d \<le> 200 * unat ?fid div 8" by (intro div_le_mono2) auto
    then show ?thesis using True b(1) pstate_frequency_exact [OF b(1,2)] by auto
  qed (use b(1) pstate_frequency_exact [OF b(1,2)] in auto)
  let ?info = "\<lambda>q. out\<lparr>ps_Frequency := pstate_frequency ?fid ?d, ps_VoltageInuV := pstate_voltage ?vid,
    ps_PowerInmW := p div q, ps_Status := True\<rparr>"
  have run: "\<exists>q. GetPstateInfo dbg cpu n out h = Some (SilPass, ?info q, h') \<and> unat q = 10 ^ (2 + unat (pstate_IddDiv v))"
  proof -
    have "unat ?div = 0 \<or> unat ?div = 1 \<or> unat ?div = 2" using idd u(5) by linarith
    then have "?div = 0 \<or> ?div = 1 \<or> ?div = 2" by (simp add: word_unat_eq_iff)
    then show ?thesis
      by (elim disjE) (use msr en ok in \<open>auto simp: GetPstateInfo_def Let_def p_def u(5) [symmetric] intro!: exI\<close>)
  qed
  then obtain q where q: "GetPstateInfo dbg cpu n out h = Some (SilPass, ?info q, h')"
    "unat q = 10 ^ (2 + unat (pstate_IddDiv v))" by blast
  have P: "unat (p div q) = unat (pstate_voltage ?vid) div 10 * unat (pstate_IddValue v) div 10 ^ (2 + unat (pstate_IddDiv v))"
    by (simp only: unat_div q(2) p u(4))
  have "unat (p div q) \<le> unat p div 100"
    unfolding unat_div q(2) by (intro div_le_mono2) (auto intro: power_increasing [of 2 _ "10 :: nat", simplified])
  then have Pb: "unat (p div q) \<le> 395250" using pb by simp
  let ?i = "?info q"
  have i: "ps_Status ?i" "ps_Frequency ?i = pstate_frequency ?fid ?d" "ps_VoltageInuV ?i = pstate_voltage ?vid"
    "ps_PowerInmW ?i = p div q" by simp_all
  show ?thesis
    using q(1) i(1) fb volt P Pb pstate_frequency_exact [OF b(1,2), unfolded u] pstate_voltage_exact [OF b(3), unfolded u]
    unfolding Let_def by (intro exI [of _ ?i]) (simp only: i simp_thms)
qed

definition pstate_sample :: "(u32 \<Rightarrow> u64) cpu_ops" where "pstate_sample = msr_file genoa_cpuid"

theorem pstate_info_exact_witness:
  "\<exists>info. GetPstateInfo True pstate_sample 0 \<lparr>ps_Frequency = 0, ps_VoltageInuV = 0, ps_PowerInmW = 0, ps_Status = False\<rparr>
      (\<lambda>_. 0x8000000019120860) = Some (SilPass, info, \<lambda>_. 0x8000000019120860)
    \<and> ps_Status info \<and> unat (ps_Frequency info) = 2400 \<and> unat (ps_VoltageInuV info) = 1100000
    \<and> unat (ps_PowerInmW info) = 110000"
proof -
  let ?v = "0x8000000019120860 :: u64"
  have r: "cpu_rdmsr pstate_sample (MSR_PSTATE_DEF_ADDRESS + 0) (\<lambda>_. ?v) = (?v, \<lambda>_. ?v)"
    by (simp add: pstate_sample_def msr_file_def)
  have f: "unat (pstate_CpuFid ?v) = 96" "unat (pstate_CpuDfsId ?v) = 8" "unat (pstate_CpuVid ?v) = 72"
    "unat (pstate_IddValue ?v) = 100" "unat (pstate_IddDiv ?v) = 0" "pstate_En ?v = 1"
    unfolding pstate_CpuFid_def pstate_CpuDfsId_def pstate_CpuVid_def pstate_IddValue_def pstate_IddDiv_def pstate_En_def
      get_field_def by (simp_all add: drop_bit_eq_div take_bit_eq_mod)
  show ?thesis
    using pstate_info_exact [OF r, of True "\<lparr>ps_Frequency = 0, ps_VoltageInuV = 0, ps_PowerInmW = 0, ps_Status = False\<rparr>"]
    by (auto simp: f Let_def)
qed

section \<open>Copying a bit field\<close>

text \<open>The width of a field from its bounds.\<close>

definition field_width :: "u8 \<Rightarrow> u8 \<Rightarrow> nat" where "field_width MSB LSB = unat MSB - unat LSB + 1"

lemma SetMsrEntry_stack:
  assumes "Mask \<noteq> 0"
  shows "SetMsrEntry env C (write64 (write64 (write32 st 0 Address) 4 Data) 12 Mask) 0 s =
    Some (20, s\<lparr>ts_hw := xUslMsrAndThenOr (te_cpu env) Address (NOT Mask) Data (ts_hw s)\<rparr>)"
  using assms by (simp add: SetMsrEntry_def xUslMsrAndThenOr_def mem_apart apart_def Let_def split: prod.splits)

text \<open>What the code does between two model-specific registers, whatever the widths.\<close>

lemma copy_msr_field:
  assumes cpu: "te_cpu env = msr_file cpuid"
    and types: "read16 m (Entry + 8) = 3" "read16 m Entry = 3"
    and src: "read32 m (Entry + 10) = src" "m (Entry + 14) = sm" "m (Entry + 15) = sl"
    and dst: "read32 m (Entry + 2) = dst" "m (Entry + 6) = dm" "m (Entry + 7) = dl"
    and bounds: "sl \<le> sm" "unat sl < 64" "dl \<le> dm" "unat dl < 64" "field_width sm sl < 31" "field_width dm dl < 31"
    and fits: "mask (field_width sm sl) \<le> (push_bit (unat dl) (mask (field_width dm dl)) :: u64)"
  shows "CopyBitFieldEntry env C m Entry s = Some (Entry + 16, s\<lparr>ts_hw := (ts_hw s)(dst :=
      (ts_hw s dst AND NOT (push_bit (unat dl) (mask (field_width dm dl))))
        OR push_bit (unat dl) (get_field (unat sl) (field_width sm sl) (ts_hw s src)))\<rparr>)"
proof -
  let ?M = "push_bit (unat dl) (mask (field_width dm dl)) :: u64"
  have "(mask (field_width sm sl) :: u64) \<noteq> 0" by (simp add: field_width_def)
  then have nz: "?M \<noteq> 0" using fits by auto
  have rd: "cpu_rdmsr (te_cpu env) src (ts_hw s) = (ts_hw s src, ts_hw s)" by (simp add: cpu msr_file_def)
  have fb: "field_bounds dbg m (Entry + 8) = Some (sm, sl)" "field_bounds dbg m Entry = Some (dm, dl)" for dbg
    using bounds src(2,3) dst(2,3) by (simp_all add: field_bounds_def Let_def add.commute [of Entry])
  define sw dw where "sw = field_width sm sl" and "dw = field_width dm dl"
  have im: "int_mask (Suc (unat sm - unat sl)) = Some (mask sw)" "int_mask (Suc (unat dm - unat dl)) = Some (mask dw)"
    using bounds(5,6) by (simp_all add: int_mask_def sw_def dw_def field_width_def)
  have gf: "drop_bit (unat sl) (ts_hw s src) AND mask sw = get_field (unat sl) sw (ts_hw s src)"
    by (simp add: get_field_def take_bit_eq_mask)
  have rds: "read16 m (Entry + 8) = 3" "read16 m Entry = 3" "read32 m (10 + Entry) = src" "read32 m (Suc (Suc Entry)) = dst"
    using types src(1) dst(1) by (simp_all add: add.commute)
  show ?thesis
    unfolding sw_def [symmetric] dw_def [symmetric]
    by (subst CopyBitFieldEntry.simps)
      (use bounds(2,4) fits nz in \<open>simp add: rds rd fb im Let_def shr64_def shl64_def gf not_less SetMsrEntry_stack
        sw_def [symmetric] dw_def [symmetric] xUslMsrAndThenOr_def, simp add: cpu msr_file_def\<close>)
qed

lemma mask_le_push_mask:
  assumes "sw \<le> dw" and "lo + dw \<le> 64" and "dw < 64"
  shows "(mask sw :: u64) \<le> push_bit lo (mask dw)"
proof -
  have "(2 :: nat) ^ sw - 1 \<le> 2 ^ dw - 1" using assms(1) by (intro diff_le_mono power_increasing) auto
  also have "\<dots> \<le> 2 ^ lo * (2 ^ dw - 1)" by (cases "(2 :: nat) ^ lo") auto
  finally have "(2 :: nat) ^ sw - 1 \<le> 2 ^ lo * (2 ^ dw - 1)" .
  moreover have "unat (push_bit lo (mask dw) :: u64) = 2 ^ lo * (2 ^ dw - 1)"
  proof -
    have "(2 :: nat) ^ lo * (2 ^ dw - 1) < 2 ^ (lo + dw)" by (simp add: power_add right_diff_distrib')
    also have "(2 :: nat) ^ (lo + dw) \<le> 2 ^ 64" using assms(2) by (intro power_increasing) auto
    finally have "(2 :: nat) ^ lo * (2 ^ dw - 1) < 2 ^ 64" .
    moreover have "unat (mask dw :: u64) = 2 ^ dw - 1" using assms(3) by (intro unat_mask_u64) simp
    ultimately show ?thesis
      unfolding unsigned_push_bit_eq push_bit_nat_def by (simp add: mult.commute take_bit_nat_eq_self)
  qed
  moreover have "unat (mask sw :: u64) = 2 ^ sw - 1" using assms by (intro unat_mask_u64) simp
  ultimately show ?thesis by (simp only: word_le_nat_alt)
qed

text \<open>
  The copy of a bit field between model-specific registers. When the bounds of both fields are in order,
  the fields are less than 31 bits wide and the source is not wider than the destination,
  \<^verbatim>\<open>CopyBitFieldEntry\<close> writes the source field, extended with zeros, into exactly the destination field and
  advances to the next entry.
\<close>

theorem copy_bit_field:
  assumes "te_cpu env = msr_file cpuid"
    and "read16 m (Entry + 8) = 3" and "read16 m Entry = 3"
    and "read32 m (Entry + 10) = src" and "m (Entry + 14) = sm" and "m (Entry + 15) = sl"
    and "read32 m (Entry + 2) = dst" and "m (Entry + 6) = dm" and "m (Entry + 7) = dl"
    and "sl \<le> sm" and "unat sm < 64" and "dl \<le> dm" and "unat dm < 64"
    and "field_width sm sl \<le> field_width dm dl" and "field_width dm dl < 31"
  shows "CopyBitFieldEntry env C m Entry s = Some (Entry + 16, s\<lparr>ts_hw := (ts_hw s)(dst :=
      set_field (unat dl) (field_width dm dl) (get_field (unat sl) (field_width sm sl) (ts_hw s src)) (ts_hw s dst))\<rparr>)"
proof -
  have le: "unat sl \<le> unat sm" "unat dl \<le> unat dm" using assms by (simp_all add: word_le_nat_alt)
  have fits: "mask (field_width sm sl) \<le> (push_bit (unat dl) (mask (field_width dm dl)) :: u64)"
    using assms le by (intro mask_le_push_mask) (auto simp: field_width_def)
  have "take_bit (field_width dm dl) (get_field (unat sl) (field_width sm sl) (ts_hw s src))
      = get_field (unat sl) (field_width sm sl) (ts_hw s src)"
    using assms(14) by (simp add: get_field_def min_def take_bit_take_bit)
  then show ?thesis
    using copy_msr_field [OF assms(1-10) _ assms(12) _ _ assms(15) fits, of C s] assms le
    by (simp add: set_field_def)
qed

definition copy_memory :: memory where
  "copy_memory = write8 (write8 (write32 (write16
     (write8 (write8 (write32 (write16 (\<lambda>_. 0) 0 3) 2 0x200) 6 11) 7 8) 8 3) 10 0x100) 14 3) 15 0"

lemma copy_memory_facts:
  "read16 copy_memory (0 + 8) = 3" "read16 copy_memory 0 = 3" "read32 copy_memory (0 + 10) = 0x100"
  "copy_memory (0 + 14) = 3" "copy_memory (0 + 15) = 0" "read32 copy_memory (0 + 2) = 0x200"
  "copy_memory (0 + 6) = 11" "copy_memory (0 + 7) = 8"
proof -
  show "read16 copy_memory (0 + 8) = 3" "read16 copy_memory 0 = 3" "read32 copy_memory (0 + 10) = 0x100"
    "read32 copy_memory (0 + 2) = 0x200"
    by (simp_all add: copy_memory_def mem_apart apart_def del: add_2_eq_Suc add_2_eq_Suc')
  show "copy_memory (0 + 14) = 3" "copy_memory (0 + 15) = 0" "copy_memory (0 + 6) = 11" "copy_memory (0 + 7) = 8"
    by (simp_all add: copy_memory_def write8_def write_other apart_def)
qed

theorem copy_bit_field_witness:
  "CopyBitFieldEntry table_sample sample_criteria copy_memory 0 \<lparr>ts_SystemDieNumber = 0, ts_hw = (\<lambda>_. 0xF0F5)\<rparr> =
     Some (0 + 16, \<lparr>ts_SystemDieNumber = 0, ts_hw = (\<lambda>_. 0xF0F5)(0x200 := 0xF5F5)\<rparr>)"
  using copy_bit_field [OF table_sample_facts(3) copy_memory_facts, of sample_criteria
      "\<lparr>ts_SystemDieNumber = 0, ts_hw = (\<lambda>_. 0xF0F5)\<rparr>"]
  by (simp add: field_width_def set_field_def get_field_def mask_eq_exp_minus_1)

text \<open>
  The test of the code compares the mask of the source with the shifted mask of the destination, so a source
  wider than a destination at a higher position passes, and bits outside the destination field change: here
  an eight-bit source into the four bits 8 to 11.
\<close>

lemma copy_bit_field_spills:
  assumes "te_cpu env = msr_file cpuid"
    and "read16 m (Entry + 8) = 3" and "read16 m Entry = 3"
    and "read32 m (Entry + 10) = src" and "m (Entry + 14) = 7" and "m (Entry + 15) = 0"
    and "read32 m (Entry + 2) = dst" and "m (Entry + 6) = 11" and "m (Entry + 7) = 8"
    and "ts_hw s src = 0xFF" and "ts_hw s dst = 0"
  shows "CopyBitFieldEntry env C m Entry s = Some (Entry + 16, s\<lparr>ts_hw := (ts_hw s)(dst := 0xFF00)\<rparr>)"
  using copy_msr_field [OF assms(1-9), of C s] assms(10,11) by (simp add: field_width_def get_field_def mask_eq_exp_minus_1)

section \<open>Logical identifiers\<close>

text \<open>Every processor of family 19h, models 10h to 1Fh, is Genoa; an unknown stepping counts as the newest one.\<close>

lemma soc_logical_id:
  "SocConvertRawToLogical RawId l = Some
     (if ucast (drop_bit 8 (RawId AND 0xF00) + drop_bit 20 (RawId AND 0xFF00000)) = (0x19 :: u16)
        \<and> ucast (drop_bit 16 (RawId AND 0xF0000)) = (1 :: u8)
      then (True, \<lparr>id_Family = AMD_FAMILY_GENOA, id_Revision =
        (let model = ucast (drop_bit 4 (RawId AND 0xF0)) :: u8; stepping = ucast (RawId AND 0xF) :: u8
         in if model = 0 \<and> stepping = 0 then AMD_REV_F19_GENOA_A0
            else if model = 0 \<and> stepping = 1 then AMD_REV_F19_GENOA_A1
            else if model = 1 \<and> stepping = 0 then AMD_REV_F19_GENOA_B0 else AMD_REV_F19_GENOA_B1)\<rparr>)
      else (False, l))"
  by (simp add: SocConvertRawToLogical_def SocFindApplicableLogicalTableEntries_def find_family_genoa find_revision_genoa
      Let_def) (simp add: SocLogicalFamilyTable_def SocLogicalRevisionTable_def)

end
