(* ===== verification/Ccx_Microcode.thy ===== *)
theory Ccx_Microcode
  imports Sil_Pci Sil_XSim Sil_Cpu
begin

text \<open>
  Loading a microcode patch (\<^verbatim>\<open>xUSL/CCX/Common/CcxMicrocodePatch.c\<close>): the patch block in memory is matched
  against the processor and against the PCI devices of bus 0, then handed to the processor.
\<close>

section \<open>The patch block\<close>

definition MPB_PatchLevel :: "memory \<Rightarrow> nat \<Rightarrow> u32" where "MPB_PatchLevel m p = read32 m (p + 4)"
definition MPB_NB_ID :: "memory \<Rightarrow> nat \<Rightarrow> u32" where "MPB_NB_ID m p = read32 m (p + 16)"
definition MPB_SB_ID :: "memory \<Rightarrow> nat \<Rightarrow> u32" where "MPB_SB_ID m p = read32 m (p + 20)"
definition ProcessorRevisionID :: "memory \<Rightarrow> nat \<Rightarrow> u16" where "ProcessorRevisionID m p = read16 m (p + 24)"
definition Chipset1RevisionID :: "memory \<Rightarrow> nat \<Rightarrow> u8" where "Chipset1RevisionID m p = read8 m (p + 26)"
definition Chipset2RevisionID :: "memory \<Rightarrow> nat \<Rightarrow> u8" where "Chipset2RevisionID m p = read8 m (p + 27)"

definition PCI_LIB_ADDRESS :: "u32 \<Rightarrow> u32 \<Rightarrow> u32 \<Rightarrow> u32 \<Rightarrow> u32" where
  "PCI_LIB_ADDRESS Bus Device Function Register =
     (Register AND 0xfff) OR push_bit 12 (Function AND 0x07) OR push_bit 15 (Device AND 0x1f) OR push_bit 20 (Bus AND 0xff)"

definition PCI_HEADER_TYPE_REG :: u32 where "PCI_HEADER_TYPE_REG = 0x0E"
definition PCI_REVISION_ID_REG :: u32 where "PCI_REVISION_ID_REG = 0x08"
definition MULTI_FUNC_DEVICE_MASK :: u8 where "MULTI_FUNC_DEVICE_MASK = 0x80"
definition MSR_PATCH_LEVEL :: u32 where "MSR_PATCH_LEVEL = 0x8B"
definition MSR_PATCH_LOADER :: u32 where "MSR_PATCH_LOADER = 0xC0010020"
definition SIL_RESERVED2_925 :: u32 where "SIL_RESERVED2_925 = 0xC001100C"

section \<open>Scanning bus 0\<close>

record match_state =
  MpbNbIdMatched :: bool
  MpbSbIdMatched :: bool

text \<open>The identifiers and revisions the scan looks for.\<close>

record mpb_ids =
  want_NB_ID :: u32
  want_SB_ID :: u32
  want_Rev1 :: u8
  want_Rev2 :: u8

definition match_device :: "mpb_ids \<Rightarrow> u32 \<Rightarrow> u8 \<Rightarrow> match_state \<Rightarrow> match_state" where
  "match_device ids VidDid Revision st =
     (let st = (if \<not> MpbNbIdMatched st \<and> VidDid = want_NB_ID ids \<and> Revision = want_Rev1 ids
                then st\<lparr>MpbNbIdMatched := True\<rparr> else st)
      in if \<not> MpbSbIdMatched st \<and> VidDid = want_SB_ID ids \<and> Revision = want_Rev2 ids
         then st\<lparr>MpbSbIdMatched := True\<rparr> else st)"

definition both_matched :: "match_state \<Rightarrow> bool" where
  "both_matched st \<longleftrightarrow> MpbNbIdMatched st \<and> MpbSbIdMatched st"

text \<open>The loop over the functions of a device, on the list of the functions left.\<close>

fun fun_loop ::
  "'h pci_ops \<Rightarrow> mpb_ids \<Rightarrow> nat \<Rightarrow> nat list \<Rightarrow> match_state \<Rightarrow> 'h \<Rightarrow> match_state \<times> 'h" where
  "fun_loop ops ids DevCount [] st h = (st, h)"
| "fun_loop ops ids DevCount (FunCount # fs) st h =
     (let PciAddress = PCI_LIB_ADDRESS 0 (of_nat DevCount) (of_nat FunCount) 0;
          (PciDeviceVidDid, h) = xUSLPciRead32 ops PciAddress h
      in if PciDeviceVidDid = 0xFFFFFFFF
         then if FunCount = 0 then (st, h) else fun_loop ops ids DevCount fs st h
         else let PciAddress = set_field 0 12 PCI_REVISION_ID_REG PciAddress;
                  (PciDeviceRevision, h) = xUSLPciRead8 ops PciAddress h;
                  st = match_device ids PciDeviceVidDid PciDeviceRevision st
         in if both_matched st then (st, h)
         else if FunCount = 0
         then let PciAddress = set_field 0 12 PCI_HEADER_TYPE_REG PciAddress;
                  (MulitFunction, h) = xUSLPciRead8 ops PciAddress h
              in if MulitFunction AND MULTI_FUNC_DEVICE_MASK = 0 then (st, h)
                 else fun_loop ops ids DevCount fs st h
         else fun_loop ops ids DevCount fs st h)"

fun dev_loop :: "'h pci_ops \<Rightarrow> mpb_ids \<Rightarrow> nat list \<Rightarrow> match_state \<Rightarrow> 'h \<Rightarrow> match_state \<times> 'h" where
  "dev_loop ops ids [] st h = (st, h)"
| "dev_loop ops ids (DevCount # ds) st h =
     (let (st, h) = fun_loop ops ids DevCount [0..<8] st h
      in if both_matched st then (st, h) else dev_loop ops ids ds st h)"

definition ValidateMicrocode :: "'h pci_ops \<Rightarrow> memory \<Rightarrow> nat \<Rightarrow> u32 \<Rightarrow> 'h \<Rightarrow> bool \<times> 'h" where
  "ValidateMicrocode ops m MpbPtr ProcessorId h =
     (if ucast (ProcessorRevisionID m MpbPtr) \<noteq> ProcessorId then (False, h)
      else let ids = \<lparr>want_NB_ID = MPB_NB_ID m MpbPtr, want_SB_ID = MPB_SB_ID m MpbPtr,
                      want_Rev1 = Chipset1RevisionID m MpbPtr, want_Rev2 = Chipset2RevisionID m MpbPtr\<rparr>;
               st = \<lparr>MpbNbIdMatched = MPB_NB_ID m MpbPtr = 0, MpbSbIdMatched = MPB_SB_ID m MpbPtr = 0\<rparr>;
               (st, h) = (if \<not> MpbNbIdMatched st \<or> \<not> MpbSbIdMatched st then dev_loop ops ids [0..<32] st h else (st, h))
      in (both_matched st, h))"

section \<open>Loading\<close>

definition GetMicrocodeVersion :: "'h cpu_ops \<Rightarrow> 'h \<Rightarrow> u32 \<times> 'h" where
  "GetMicrocodeVersion cpu h = (let (v, h) = cpu_rdmsr cpu MSR_PATCH_LEVEL h in (ucast v, h))"

text \<open>The read of the local APIC register for a trace message is left out.\<close>

definition LoadMicrocode :: "'h cpu_ops \<Rightarrow> memory \<Rightarrow> nat \<Rightarrow> 'h \<Rightarrow> bool \<times> 'h" where
  "LoadMicrocode cpu m MpbPtr h =
     (let PatchLoaderMsr = set_field 32 32 0 (of_nat MpbPtr) :: u64;
          h = cpu_wrmsr cpu MSR_PATCH_LOADER PatchLoaderMsr h;
          (MicrocodeVersion, h) = GetMicrocodeVersion cpu h
      in (MicrocodeVersion = MPB_PatchLevel m MpbPtr, h))"

definition UcodePatchEntryAddress :: "memory \<Rightarrow> nat \<Rightarrow> u64" where
  "UcodePatchEntryAddress m blk = read64 m (blk + 188)"

text \<open>The result is the status and the address stored through \<^verbatim>\<open>UcodePatchAddr\<close>.\<close>

definition LoadMicrocodePatch ::
  "bool \<Rightarrow> 'h cpu_ops \<Rightarrow> 'h pci_ops \<Rightarrow> sil_state \<Rightarrow> 'h \<Rightarrow> (bool \<times> u64 \<times> 'h) option" where
  "LoadMicrocodePatch dbg cpu ops s h =
     do { CcxData \<leftarrow> SilFindStructure (id_val SilId_CcxClass) 0 s;
          if CcxData = 0 then Some (False, 0, h)
          else let m = mem s; h = cpu_wrmsr cpu SIL_RESERVED2_925 0 h;
                   ProcessorId = xUslGetProcessorId cpu;
                   EntryAddress = ucast (ucast (UcodePatchEntryAddress m CcxData) :: u32) :: u64;
                   (ok, h) = ValidateMicrocode ops m (unat EntryAddress) ProcessorId h
          in if ok then
               do { c_assert dbg (EntryAddress AND 0xFFFFFFFF00000000 = 0);
                    let h = cpu_wrmsr cpu SIL_RESERVED2_925 EntryAddress h;
                    let (Status, h) = LoadMicrocode cpu m (unat EntryAddress) h;
                    Some (Status, EntryAddress, h) }
             else Some (False, 0, h) }"

end
