(* ===== verification/Ccx_Boot_Props.thy ===== *)
theory Ccx_Boot_Props
  imports Ccx_Microcode Ccx_Cache Ccx_Zen4
begin

text \<open>
  Properties of the code that prepares the cores: the choice and loading of a microcode patch.
\<close>

section \<open>Microcode\<close>

text \<open>A bus whose configuration space does not change while it is read.\<close>

definition static_bus :: "'h pci_ops \<Rightarrow> (u32 \<Rightarrow> u32) \<Rightarrow> (u32 \<Rightarrow> u8) \<Rightarrow> bool" where
  "static_bus ops c32 c8 \<longleftrightarrow> (\<forall>a h. bus_rd32 ops a h = (c32 a, h) \<and> bus_rd8 ops a h = (c8 a, h))"

definition dev_addr :: "nat \<Rightarrow> nat \<Rightarrow> u32 \<Rightarrow> u32" where
  "dev_addr d f r = PCI_LIB_ADDRESS 0 (of_nat d) (of_nat f) r"

text \<open>The functions of bus 0: function 0 of each device that answers, and the others of a multi-function device.\<close>

definition present :: "(u32 \<Rightarrow> u32) \<Rightarrow> nat \<Rightarrow> nat \<Rightarrow> bool" where
  "present c32 d f \<longleftrightarrow> c32 (dev_addr d f 0) \<noteq> 0xFFFFFFFF"

definition functions_of :: "(u32 \<Rightarrow> u32) \<Rightarrow> (u32 \<Rightarrow> u8) \<Rightarrow> nat \<Rightarrow> nat list" where
  "functions_of c32 c8 d =
     (if present c32 d 0
      then 0 # (if c8 (dev_addr d 0 PCI_HEADER_TYPE_REG) AND 0x80 = 0 then [] else filter (present c32 d) [1..<8])
      else [])"

definition bus0_functions :: "(u32 \<Rightarrow> u32) \<Rightarrow> (u32 \<Rightarrow> u8) \<Rightarrow> (nat \<times> nat) list" where
  "bus0_functions c32 c8 = concat (map (\<lambda>d. map (Pair d) (functions_of c32 c8 d)) [0..<32])"

definition chipset_is :: "(u32 \<Rightarrow> u32) \<Rightarrow> (u32 \<Rightarrow> u8) \<Rightarrow> u32 \<Rightarrow> u8 \<Rightarrow> nat \<times> nat \<Rightarrow> bool" where
  "chipset_is c32 c8 i r df \<longleftrightarrow>
     c32 (dev_addr (fst df) (snd df) 0) = i \<and> c8 (dev_addr (fst df) (snd df) PCI_REVISION_ID_REG) = r"

lemma set_register_dev_addr: "set_field 0 12 v (dev_addr d f r) = dev_addr d f v"
proof -
  have "(0xfff :: u32) = mask 12" by (simp add: mask_eq_exp_minus_1)
  then have "bit (0xfff :: u32) n \<longleftrightarrow> n < 12 \<and> n < 32" for n by (simp only: bit_mask_iff possible_bit_word) auto
  then show ?thesis
    by (intro bit_word_eqI)
      (simp only: dev_addr_def PCI_LIB_ADDRESS_def bit_set_field bit_or_iff bit_and_iff bit_push_bit_iff, auto)
qed

lemma match_device_flags:
  "MpbNbIdMatched (match_device ids v r st) \<longleftrightarrow> MpbNbIdMatched st \<or> v = want_NB_ID ids \<and> r = want_Rev1 ids"
  "MpbSbIdMatched (match_device ids v r st) \<longleftrightarrow> MpbSbIdMatched st \<or> v = want_SB_ID ids \<and> r = want_Rev2 ids"
  by (auto simp: match_device_def Let_def)

text \<open>The flags after a scan, for a list of functions: a chipset was matched before or is among them.\<close>

definition scan_result ::
  "(u32 \<Rightarrow> u32) \<Rightarrow> (u32 \<Rightarrow> u8) \<Rightarrow> mpb_ids \<Rightarrow> (nat \<times> nat) list \<Rightarrow> match_state \<Rightarrow> match_state \<Rightarrow> bool" where
  "scan_result c32 c8 ids dfs st st' \<longleftrightarrow>
     MpbNbIdMatched st' = (MpbNbIdMatched st \<or> (\<exists>df \<in> set dfs. chipset_is c32 c8 (want_NB_ID ids) (want_Rev1 ids) df))
     \<and> MpbSbIdMatched st' = (MpbSbIdMatched st \<or> (\<exists>df \<in> set dfs. chipset_is c32 c8 (want_SB_ID ids) (want_Rev2 ids) df))"

lemma scan_result_Cons:
  assumes "scan_result c32 c8 ids dfs (match_device ids (c32 (dev_addr d f 0)) (c8 (dev_addr d f PCI_REVISION_ID_REG)) st) st'"
  shows "scan_result c32 c8 ids ((d, f) # dfs) st st'"
  using assms by (auto simp: scan_result_def match_device_flags chipset_is_def)

lemma scan_result_done:
  assumes "both_matched st"
  shows "scan_result c32 c8 ids dfs st st"
  using assms by (simp add: scan_result_def both_matched_def)

lemma scan_result_append:
  "scan_result c32 c8 ids xs st st' \<Longrightarrow> scan_result c32 c8 ids ys st' st'' \<Longrightarrow> scan_result c32 c8 ids (xs @ ys) st st''"
  by (auto simp: scan_result_def)

lemma fun_loop_step:
  assumes "static_bus ops c32 c8"
  shows "fun_loop ops ids d (f # fs) st h =
    (if present c32 d f
     then let st = match_device ids (c32 (dev_addr d f 0)) (c8 (dev_addr d f PCI_REVISION_ID_REG)) st
          in if both_matched st \<or> f = 0 \<and> c8 (dev_addr d f PCI_HEADER_TYPE_REG) AND 0x80 = 0 then (st, h)
             else fun_loop ops ids d fs st h
     else if f = 0 then (st, h) else fun_loop ops ids d fs st h)"
proof -
  have "xUSLPciRead32 ops a h = (c32 a, h)" "xUSLPciRead8 ops a h = (c8 a, h)" for a
    using assms by (simp_all add: static_bus_def xUSLPciRead32_def xUSLPciRead8_def)
  then show ?thesis
    by (simp add: Let_def dev_addr_def [symmetric] set_register_dev_addr present_def MULTI_FUNC_DEVICE_MASK_def)
qed

declare fun_loop.simps(2) [simp del]

lemma fun_loop_rest:
  assumes bus: "static_bus ops c32 c8" and "0 \<notin> set fs"
  shows "\<exists>st'. fun_loop ops ids d fs st h = (st', h)
    \<and> scan_result c32 c8 ids (map (Pair d) (filter (present c32 d) fs)) st st'"
  using assms(2)
proof (induction fs arbitrary: st)
  case (Cons f fs)
  let ?st = "match_device ids (c32 (dev_addr d f 0)) (c8 (dev_addr d f PCI_REVISION_ID_REG)) st"
  have f: "f \<noteq> 0" "0 \<notin> set fs" using Cons.prems by auto
  show ?case
  proof (cases "present c32 d f \<and> both_matched ?st")
    case True
    then show ?thesis
      using f by (simp add: fun_loop_step [OF bus] Let_def scan_result_Cons scan_result_done)
  next
    case False
    then show ?thesis
      using Cons.IH [OF f(2), of st] Cons.IH [OF f(2), of ?st] f(1)
      by (auto simp: fun_loop_step [OF bus] Let_def intro: scan_result_Cons)
  qed
qed (simp add: scan_result_def)

lemma fun_loop_device:
  assumes bus: "static_bus ops c32 c8"
  shows "\<exists>st'. fun_loop ops ids d [0..<8] st h = (st', h)
    \<and> scan_result c32 c8 ids (map (Pair d) (functions_of c32 c8 d)) st st'"
proof -
  let ?st = "match_device ids (c32 (dev_addr d 0 0)) (c8 (dev_addr d 0 PCI_REVISION_ID_REG)) st"
  let ?single = "c8 (dev_addr d 0 PCI_HEADER_TYPE_REG) AND 0x80 = 0"
  have l: "[0..<8] = 0 # [1..<8 :: nat]" by (subst upt_conv_Cons) simp_all
  have r: "\<exists>st'. fun_loop ops ids d [1..<8] ?st h = (st', h)
    \<and> scan_result c32 c8 ids (map (Pair d) (filter (present c32 d) [1..<8])) ?st st'"
    by (rule fun_loop_rest [OF bus]) simp
  consider "\<not> present c32 d 0" | "present c32 d 0" "?single" | "present c32 d 0" "\<not> ?single" "both_matched ?st"
    | "present c32 d 0" "\<not> ?single" "\<not> both_matched ?st" by blast
  then show ?thesis
  proof cases
    case 1
    then show ?thesis by (simp only: l fun_loop_step [OF bus] functions_of_def) (simp add: scan_result_def)
  next
    case 2
    then show ?thesis
      unfolding l fun_loop_step [OF bus] functions_of_def Let_def
      by (simp add: scan_result_Cons scan_result_def [of _ _ _ "[]"])
  next
    case 3
    then show ?thesis
      unfolding l fun_loop_step [OF bus] functions_of_def Let_def
      by (simp add: scan_result_Cons scan_result_done del: upt_rec_numeral filter.simps)
  next
    case 4
    then show ?thesis
      using r unfolding l fun_loop_step [OF bus] functions_of_def Let_def
      by (auto intro: scan_result_Cons simp del: upt_rec_numeral filter.simps)
  qed
qed

lemma dev_loop_scan:
  assumes bus: "static_bus ops c32 c8"
  shows "\<exists>st'. dev_loop ops ids ds st h = (st', h)
    \<and> scan_result c32 c8 ids (concat (map (\<lambda>d. map (Pair d) (functions_of c32 c8 d)) ds)) st st'"
proof (induction ds arbitrary: st)
  case (Cons d ds)
  obtain st1 where 1: "fun_loop ops ids d [0..<8] st h = (st1, h)"
    "scan_result c32 c8 ids (map (Pair d) (functions_of c32 c8 d)) st st1"
    using fun_loop_device [OF bus] by blast
  show ?case
  proof (cases "both_matched st1")
    case True
    then show ?thesis
      using 1 by (auto simp del: upt_rec_numeral intro: scan_result_append scan_result_done)
  next
    case False
    obtain st2 where "dev_loop ops ids ds st1 h = (st2, h)"
      "scan_result c32 c8 ids (concat (map (\<lambda>d. map (Pair d) (functions_of c32 c8 d)) ds)) st1 st2"
      using Cons.IH by blast
    then show ?thesis
      using False 1 by (auto simp del: upt_rec_numeral intro: scan_result_append)
  qed
qed (simp add: scan_result_def)

text \<open>
  C15: which microcode patches are accepted. On a bus whose configuration space does not change,
  \<^verbatim>\<open>ValidateMicrocode\<close> returns true exactly when the patch is for this processor and each of the two chipset
  identifiers is zero or belongs, with its revision, to some function of bus 0 (function 0 of a device, or
  any function of a multi-function device); leaving the loops early loses no match, and the bus is not
  written.
\<close>

theorem validate_microcode_iff:
  assumes "static_bus ops c32 c8"
  shows "ValidateMicrocode ops m p ProcessorId h =
    (ucast (ProcessorRevisionID m p) = ProcessorId
      \<and> (MPB_NB_ID m p = 0
          \<or> (\<exists>df \<in> set (bus0_functions c32 c8). chipset_is c32 c8 (MPB_NB_ID m p) (Chipset1RevisionID m p) df))
      \<and> (MPB_SB_ID m p = 0
          \<or> (\<exists>df \<in> set (bus0_functions c32 c8). chipset_is c32 c8 (MPB_SB_ID m p) (Chipset2RevisionID m p) df)), h)"
proof -
  let ?ids = "\<lparr>want_NB_ID = MPB_NB_ID m p, want_SB_ID = MPB_SB_ID m p,
    want_Rev1 = Chipset1RevisionID m p, want_Rev2 = Chipset2RevisionID m p\<rparr>"
  let ?st = "\<lparr>MpbNbIdMatched = MPB_NB_ID m p = 0, MpbSbIdMatched = MPB_SB_ID m p = 0\<rparr>"
  obtain st' where "dev_loop ops ?ids [0..<32] ?st h = (st', h)"
    and "scan_result c32 c8 ?ids (bus0_functions c32 c8) ?st st'"
    using dev_loop_scan [OF assms, of ?ids "[0..<32]" ?st h] unfolding bus0_functions_def by blast
  then show ?thesis
    by (auto simp: ValidateMicrocode_def Let_def scan_result_def both_matched_def simp del: upt_rec_numeral split: if_splits)
qed

definition ucode_mem :: memory where
  "ucode_mem = write32 (write16 (write8 (\<lambda>_. 0) 26 1) 24 0xA111) 16 0x14A41022"

definition ucode_c32 :: "u32 \<Rightarrow> u32" where
  "ucode_c32 a = (if a = dev_addr 0 0 0 then 0x14A41022 else 0xFFFFFFFF)"

definition ucode_c8 :: "u32 \<Rightarrow> u8" where
  "ucode_c8 a = (if a = dev_addr 0 0 PCI_REVISION_ID_REG then 1 else 0)"

definition ucode_bus :: "unit pci_ops" where
  "ucode_bus = \<lparr>bus_rd8 = \<lambda>a h. (ucode_c8 a, h), bus_rd16 = \<lambda>a h. (0, h), bus_rd32 = \<lambda>a h. (ucode_c32 a, h),
     bus_rd64 = \<lambda>a h. (0, h), bus_wr8 = \<lambda>a v h. h, bus_wr16 = \<lambda>a v h. h, bus_wr32 = \<lambda>a v h. h, bus_wr64 = \<lambda>a v h. h\<rparr>"

theorem validate_microcode_iff_witness: "ValidateMicrocode ucode_bus ucode_mem 0 0xA111 () = (True, ())"
proof -
  have bus: "static_bus ucode_bus ucode_c32 ucode_c8" by (simp add: static_bus_def ucode_bus_def)
  have "0 \<in> set (functions_of ucode_c32 ucode_c8 0)"
    by (simp add: functions_of_def present_def ucode_c32_def del: upt_rec_numeral)
  then have "(0, 0) \<in> set (bus0_functions ucode_c32 ucode_c8)"
    unfolding bus0_functions_def set_concat set_map
    by (intro UN_I [of "map (Pair 0) (functions_of ucode_c32 ucode_c8 0)"] image_eqI [of _ _ 0]) (auto simp del: upt_rec_numeral)
  moreover have "chipset_is ucode_c32 ucode_c8 0x14A41022 1 (0, 0)"
    by (simp add: chipset_is_def ucode_c32_def ucode_c8_def)
  moreover have "ProcessorRevisionID ucode_mem 0 = 0xA111" "MPB_NB_ID ucode_mem 0 = 0x14A41022" "MPB_SB_ID ucode_mem 0 = 0"
    "Chipset1RevisionID ucode_mem 0 = 1"
    by (simp_all add: ProcessorRevisionID_def MPB_NB_ID_def MPB_SB_ID_def Chipset1RevisionID_def ucode_mem_def mem_apart apart_def)
      (simp add: read32_def numeral_eq_Suc)
  ultimately show ?thesis using validate_microcode_iff [OF bus, where m = ucode_mem and p = 0 and ProcessorId = "0xA111" and h = "()"] by auto
qed

section \<open>Memory types\<close>

definition mtrr_reg :: "nat \<Rightarrow> u32" where "mtrr_reg j = of_nat (0x200 + 2 * j)"

definition var_range_hit :: "(u32 \<Rightarrow> u64) \<Rightarrow> nat \<Rightarrow> u64 \<Rightarrow> bool" where
  "var_range_hit f j a \<longleftrightarrow> mtrr_hit (f (mtrr_reg j)) (f (mtrr_reg j + 1)) a"

lemma mtrr_reg_facts:
  assumes "j \<le> 8"
  shows "unat (mtrr_reg j) = 0x200 + 2 * j" "unat (mtrr_reg j + 1) = 0x201 + 2 * j"
    "mtrr_reg j + 1 + 1 = mtrr_reg (Suc j)" "mtrr_reg j + 2 = mtrr_reg (Suc j)" "mtrr_reg j mod 2 = 0"
proof -
  show u: "unat (mtrr_reg j) = 0x200 + 2 * j"
    unfolding mtrr_reg_def using assms by (intro unat_of_nat_small) simp
  show "unat (mtrr_reg j + 1) = 0x201 + 2 * j" using assms u by (subst unat_plus_small) simp_all
  show "mtrr_reg j + 1 + 1 = mtrr_reg (Suc j)" "mtrr_reg j + 2 = mtrr_reg (Suc j)" by (simp_all add: mtrr_reg_def)
  have "mtrr_reg j = 2 * of_nat (0x100 + j)" by (simp add: mtrr_reg_def)
  then have "even (mtrr_reg j)" by (metis dvd_triv_left)
  then show "mtrr_reg j mod 2 = 0" by (simp only: even_iff_mod_2_eq_zero)
qed

lemma mtrr_loop_covers:
  assumes "unat T < 2 ^ 16" and "i \<le> 7" and "aligned_below (unat T) (unat b) k"
  shows "\<exists>b' i' f'. mtrr_loop (msr_file c) T b lim (mtrr_reg i) f = Some (if i' = i then lim else b', mtrr_reg i', f')
    \<and> i \<le> i' \<and> i' \<le> 7 \<and> (i' = i \<longrightarrow> b' = b) \<and> (b' = T \<or> i' = 7) \<and> unat b \<le> unat b' \<and> unat b' \<le> unat T
    \<and> (b' = T \<longleftrightarrow> card {n. bit (T - b) n} \<le> 7 - i)
    \<and> (\<forall>a. unat a < 2 ^ 48 \<longrightarrow>
         (\<exists>j. i \<le> j \<and> j < i' \<and> var_range_hit f' j a) = (unat b * 2 ^ 16 \<le> unat a \<and> unat a < unat b' * 2 ^ 16))
    \<and> (\<forall>j. i \<le> j \<and> j < i' \<longrightarrow> unat (f' (mtrr_reg j)) mod 256 = 6)
    \<and> (\<forall>r. unat r < 0x200 + 2 * i \<or> 0x200 + 2 * i' \<le> unat r \<longrightarrow> f' r = f r)"
  using assms(2,3)
proof (induction "7 - i" arbitrary: i b lim f k)
  case 0
  then have i: "i = 7" by simp
  then have "\<not> mtrr_reg i < 0x20E" using mtrr_reg_facts(1) [of i] by (simp add: word_less_nat_alt)
  then have "mtrr_loop (msr_file c) T b lim (mtrr_reg i) f = Some (lim, mtrr_reg i, f)" by (simp add: mtrr_loop.simps)
  moreover have "b = T \<longleftrightarrow> card {n. bit (T - b) n} \<le> 0"
    using bit_eq_iff [of "T - b" 0] bit_imp_le_length [of "T - b"] by (auto simp: finite_bits)
  ultimately show ?case using 0 i by (intro exI [of _ b] exI [of _ i] exI [of _ f]) (auto simp: aligned_below_def)
next
  case (Suc m)
  then have i: "i < 7" "i \<le> 8" "Suc i \<le> 7" "Suc i \<le> 8" and m: "m = 7 - Suc i" by auto
  note reg = mtrr_reg_facts [OF i(2)] mtrr_reg_facts(1) [OF i(4)]
  show ?case
  proof (cases "unat b < unat T")
    case False
    then have "b = T" using Suc.prems by (auto simp: aligned_below_def word_unat_eq_iff)
    moreover from this have "mtrr_loop (msr_file c) T b lim (mtrr_reg i) f = Some (lim, mtrr_reg i, f)"
      by (simp add: mtrr_loop.simps)
    ultimately show ?thesis using i by (intro exI [of _ b] exI [of _ i] exI [of _ f]) (auto simp: bot_fun_def)
  next
    case True
    obtain q where q: "highest_bit (T - b) q" "next_region T b = Some (2 ^ q, b + 2 ^ q)"
      "unat (b + 2 ^ q) = unat b + 2 ^ q" "aligned_below (unat T) (unat (b + 2 ^ q)) q"
      using next_region_eq [OF _ True Suc.prems(2)] assms(1) by auto
    define f1 where "f1 = f(mtrr_reg i := mtrr_base b, mtrr_reg i + 1 := mtrr_mask (2 ^ q))"
    have "0x200 \<le> mtrr_reg i \<and> mtrr_reg i < 0x20E \<and> b < T"
      using reg(1) i True by (simp add: word_less_nat_alt word_le_nat_alt)
    then have step: "mtrr_loop (msr_file c) T b lim (mtrr_reg i) f =
      mtrr_loop (msr_file c) T (b + 2 ^ q) (b + 2 ^ q) (mtrr_reg (Suc i)) f1"
      unfolding mtrr_loop.simps [of _ T b] q(2) by (simp add: Let_def msr_file_def f1_def reg)
    obtain b' i' f' where r: "mtrr_loop (msr_file c) T (b + 2 ^ q) (b + 2 ^ q) (mtrr_reg (Suc i)) f1 =
        Some (if i' = Suc i then b + 2 ^ q else b', mtrr_reg i', f')"
      and i': "Suc i \<le> i'" "i' \<le> 7" "i' = Suc i \<longrightarrow> b' = b + 2 ^ q" "b' = T \<or> i' = 7"
      and b': "unat (b + 2 ^ q) \<le> unat b'" "unat b' \<le> unat T"
      and fin: "b' = T \<longleftrightarrow> card {n. bit (T - (b + 2 ^ q)) n} \<le> 7 - Suc i"
      and hits: "\<forall>a. unat a < 2 ^ 48 \<longrightarrow> (\<exists>j. Suc i \<le> j \<and> j < i' \<and> var_range_hit f' j a) =
          (unat (b + 2 ^ q) * 2 ^ 16 \<le> unat a \<and> unat a < unat b' * 2 ^ 16)"
      and wb: "\<forall>j. Suc i \<le> j \<and> j < i' \<longrightarrow> unat (f' (mtrr_reg j)) mod 256 = 6"
      and other: "\<forall>r. unat r < 0x200 + 2 * Suc i \<or> 0x200 + 2 * i' \<le> unat r \<longrightarrow> f' r = f1 r"
      using Suc.hyps(1) [OF m i(3) q(4), of "b + 2 ^ q" f1] by (elim exE conjE) blast
    have q16: "q < 16"
    proof -
      have "2 ^ q < (2 :: nat) ^ 16" using q(3) b' assms(1) by linarith
      then show ?thesis by (rule power_less_imp_less_exp [rotated]) simp
    qed
    have fi: "f' (mtrr_reg i) = mtrr_base b" "f' (mtrr_reg i + 1) = mtrr_mask (2 ^ q)"
      using other reg(1,2) by (auto simp: f1_def word_unat_eq_iff)
    have lt: "unat b < 2 ^ 16" using True assms(1) by simp
    have "2 ^ q dvd unat b" using q(3,4) by (simp add: aligned_below_def)
    note hit_i = mtrr_hit_region [OF q16 lt this]
    have "(\<exists>j. i \<le> j \<and> j < i' \<and> var_range_hit f' j a) = (unat b * 2 ^ 16 \<le> unat a \<and> unat a < unat b' * 2 ^ 16)"
      if a: "unat a < 2 ^ 48" for a
    proof -
      have "(\<exists>j. i \<le> j \<and> j < i' \<and> var_range_hit f' j a) \<longleftrightarrow>
          var_range_hit f' i a \<or> (\<exists>j. Suc i \<le> j \<and> j < i' \<and> var_range_hit f' j a)"
        using i'(1) by (metis Suc_le_eq le_neq_implies_less less_imp_le_nat order_refl)
      also have "\<dots> \<longleftrightarrow> unat b * 2 ^ 16 \<le> unat a \<and> unat a < (unat b + 2 ^ q) * 2 ^ 16
          \<or> (unat b + 2 ^ q) * 2 ^ 16 \<le> unat a \<and> unat a < unat b' * 2 ^ 16"
        using hits a hit_i [OF a] fi q(3) by (simp add: var_range_hit_def)
      also have "\<dots> \<longleftrightarrow> unat b * 2 ^ 16 \<le> unat a \<and> unat a < unat b' * 2 ^ 16"
        using b'(1) q(3) by auto
      finally show ?thesis .
    qed
    moreover have "b' = T \<longleftrightarrow> card {n. bit (T - b) n} \<le> 7 - i"
      using fin bits_without_highest [OF q(1)] i(1) finite_bits [of "T - b - 2 ^ q"]
      by (simp only: diff_diff_eq card_insert_disjoint mem_Collect_eq not_False_eq_True) linarith
    moreover have "\<forall>j. i \<le> j \<and> j < i' \<longrightarrow> unat (f' (mtrr_reg j)) mod 256 = 6"
    proof (intro allI impI)
      have byte: "(unat b * 65536 + 6) mod 256 = 6" by presburger
      fix j assume "i \<le> j \<and> j < i'"
      then show "unat (f' (mtrr_reg j)) mod 256 = 6"
        using wb fi(1) mtrr_base_value [OF lt] byte by (cases "j = i") auto
    qed
    moreover have "\<forall>r. unat r < 0x200 + 2 * i \<or> 0x200 + 2 * i' \<le> unat r \<longrightarrow> f' r = f r"
      using other i'(1) reg(1,2) by (auto simp: f1_def)
    ultimately show ?thesis
      using step r i' b' q(3) by (intro exI [of _ b'] exI [of _ i'] exI [of _ f']) auto
  qed
qed

lemma clear_mtrrs_clears:
  assumes "i \<le> 8"
  shows "clear_mtrrs (msr_file c) (mtrr_reg i) f r = (if 0x200 + 2 * i \<le> unat r \<and> unat r \<le> 0x20F then 0 else f r)"
  using assms
proof (induction "8 - i" arbitrary: i f)
  case 0
  then have "\<not> mtrr_reg i \<le> 0x20F" using mtrr_reg_facts(1) [of i] by (simp add: word_le_nat_alt)
  then show ?case using 0 by (auto simp: clear_mtrrs.simps)
next
  case (Suc m)
  then have i: "i \<le> 8" "i < 8" "Suc i \<le> 8" by auto
  note reg = mtrr_reg_facts [OF i(1)]
  have "0x200 \<le> mtrr_reg i \<and> mtrr_reg i \<le> 0x20F" using reg(1) i(2) by (simp add: word_le_nat_alt)
  then have "clear_mtrrs (msr_file c) (mtrr_reg i) f =
    clear_mtrrs (msr_file c) (mtrr_reg (Suc i)) (f(mtrr_reg i + 1 := 0, mtrr_reg i := 0))"
    unfolding clear_mtrrs.simps [of _ "mtrr_reg i"] by (simp add: Let_def msr_file_def reg)
  then show ?case
    using Suc.hyps(1) [of "Suc i"] Suc.hyps(2) i reg(1,2)
    by (auto simp: word_unat_eq_iff)
qed

text \<open>
  C16: the memory type ranges. With TOM below 4G, \<^verbatim>\<open>InitializeVariableMtrrs\<close> returns SilPass exactly when TOM,
  in units of 64 KB, is a sum of at most seven powers of two. Then an address is selected by a valid
  variable range exactly when it lies below TOM, every valid range is write-back, and no register outside
  the variable ranges changes. Otherwise the call reports SilOutOfResources, or fails its assertion.
\<close>

theorem variable_mtrrs_cover:
  fixes f :: "u32 \<Rightarrow> u64"
  defines "T \<equiv> drop_bit 16 (f MSR_TOM)"
  assumes tom: "unat (f MSR_TOM) < 2 ^ 32"
  shows "if card {n. bit T n} \<le> 7
    then \<exists>f'. InitializeVariableMtrrs dbg (msr_file c) f = Some (SilPass, f')
      \<and> (\<forall>a. unat a < 2 ^ 48 \<longrightarrow> (\<exists>j<8. var_range_hit f' j a) = (unat a < unat T * 2 ^ 16))
      \<and> (\<forall>j<8. bit (f' (mtrr_reg j + 1)) 11 \<longrightarrow> unat (f' (mtrr_reg j)) mod 256 = 6)
      \<and> (\<forall>r. unat r < 0x200 \<or> 0x20F < unat r \<longrightarrow> f' r = f r)
    else \<exists>f'. InitializeVariableMtrrs dbg (msr_file c) f = (if dbg then None else Some (SilOutOfResources, f'))"
proof -
  define top :: u32 where "top = ucast (T AND 0xFFFFFFFF)"
  have uT: "unat T = unat (f MSR_TOM) div 2 ^ 16" by (simp add: T_def unat_drop_bit_div)
  then have T16: "unat T < 2 ^ 16" using tom by (simp add: div_less_iff_less_mult)
  have "T AND 0xFFFFFFFF = T"
  proof -
    have "(0xFFFFFFFF :: u64) = mask 32" by (simp add: mask_eq_exp_minus_1)
    then show ?thesis using T16 by (simp only: take_bit_eq_mask [symmetric]) (simp add: take_bit_small_word)
  qed
  then have top: "unat top = unat T" "unat top < 2 ^ 16"
    using T16 by (simp_all add: top_def unsigned_ucast_eq take_bit_nat_eq_self)
  have bits: "{n. bit top n} = {n. bit T n}"
    using arg_cong [OF top(1), of bit] by (simp add: bit_unsigned_iff fun_eq_iff)
  have al: "aligned_below (unat top) (unat (0 :: u32)) 16" using top by (simp add: aligned_below_def)
  obtain b' i' f' where r: "mtrr_loop (msr_file c) top 0 top (mtrr_reg 0) f = Some (if i' = 0 then top else b', mtrr_reg i', f')"
    and i': "i' \<le> 7" "b' = top \<or> i' = 7" and b': "unat b' \<le> unat top" "b' = top \<longleftrightarrow> card {n. bit T n} \<le> 7"
    and hits: "\<forall>a. unat a < 2 ^ 48 \<longrightarrow> (\<exists>j\<ge>0. j < i' \<and> var_range_hit f' j a) = (unat (0 :: u32) * 2 ^ 16 \<le> unat a \<and> unat a < unat b' * 2 ^ 16)"
    and wb: "\<forall>j. 0 \<le> j \<and> j < i' \<longrightarrow> unat (f' (mtrr_reg j)) mod 256 = 6"
    and other: "\<forall>r. unat r < 0x200 + 2 * 0 \<or> 0x200 + 2 * i' \<le> unat r \<longrightarrow> f' r = f r"
    using mtrr_loop_covers [OF top(2) le0 al, of c top f, unfolded diff_zero bits] by (elim exE conjE) blast
  have base: "AMD_AP_MTRR_VARIABLE_BASE0 = mtrr_reg 0" by (simp add: AMD_AP_MTRR_VARIABLE_BASE0_def mtrr_reg_def)
  have run: "InitializeVariableMtrrs dbg (msr_file c) f =
     (if (if i' = 0 then top else b') < top then if dbg then None else Some (SilOutOfResources, f')
      else Some (SilPass, clear_mtrrs (msr_file c) (mtrr_reg i') f'))"
    unfolding InitializeVariableMtrrs_def base
    by (simp add: msr_file_def [of c, THEN arg_cong [of _ _ cpu_rdmsr]] T_def [symmetric] top_def [symmetric] r)
      (simp add: not_less)
  show ?thesis
  proof (cases "card {n. bit T n} \<le> 7")
    case True
    define f2 where "f2 = clear_mtrrs (msr_file c) (mtrr_reg i') f'"
    have f2: "f2 r = (if 0x200 + 2 * i' \<le> unat r \<and> unat r \<le> 0x20F then 0 else f' r)" for r
      unfolding f2_def using i'(1) by (intro clear_mtrrs_clears) simp
    have low: "f2 (mtrr_reg j) = f' (mtrr_reg j)" "f2 (mtrr_reg j + 1) = f' (mtrr_reg j + 1)" if "j < i'" for j
      using that i'(1) mtrr_reg_facts [of j] by (simp_all add: f2)
    have high: "f2 (mtrr_reg j + 1) = 0" if "i' \<le> j" "j < 8" for j
      using that mtrr_reg_facts [of j] by (simp add: f2)
    have "(\<exists>j<8. var_range_hit f2 j a) = (unat a < unat T * 2 ^ 16)" if "unat a < 2 ^ 48" for a
    proof -
      have "(\<exists>j<8. var_range_hit f2 j a) \<longleftrightarrow> (\<exists>j<i'. var_range_hit f' j a)"
      proof
        assume "\<exists>j<8. var_range_hit f2 j a"
        then obtain j where j: "j < 8" "var_range_hit f2 j a" by blast
        then have "j < i'" using high [of j] by (cases "j < i'") (auto simp: var_range_hit_def mtrr_hit_def)
        then show "\<exists>j<i'. var_range_hit f' j a" using j(2) low [of j] by (auto simp: var_range_hit_def)
      next
        assume "\<exists>j<i'. var_range_hit f' j a"
        then obtain j where "j < i'" "var_range_hit f' j a" by blast
        then show "\<exists>j<8. var_range_hit f2 j a"
          using low [of j] i'(1) by (intro exI [of _ j]) (simp add: var_range_hit_def)
      qed
      then show ?thesis using hits that b'(2) True top(1) by simp
    qed
    moreover have "\<forall>j<8. bit (f2 (mtrr_reg j + 1)) 11 \<longrightarrow> unat (f2 (mtrr_reg j)) mod 256 = 6"
      using low(1) high wb by (metis bit_0_eq bot_apply bot_bool_def not_le le0)
    moreover have "\<forall>r. unat r < 0x200 \<or> 0x20F < unat r \<longrightarrow> f2 r = f r"
      using i'(1) by (auto simp: f2 other)
    moreover have "InitializeVariableMtrrs dbg (msr_file c) f = Some (SilPass, f2)"
      using run b'(2) True by (simp add: f2_def)
    ultimately show ?thesis using True by auto
  next
    case False
    then have "b' < top" using b' by (simp add: word_less_nat_alt word_unat_eq_iff)
    moreover have "i' \<noteq> 0" using i'(2) b'(2) False by auto
    ultimately show ?thesis using False run by auto
  qed
qed

theorem variable_mtrrs_cover_witness:
  "\<exists>f'. InitializeVariableMtrrs True (msr_file genoa_cpuid) (\<lambda>_. 0x78000000) = Some (SilPass, f')
    \<and> (\<exists>j<8. var_range_hit f' j 0x77FFFFFF) \<and> \<not> (\<exists>j<8. var_range_hit f' j 0x78000000)"
proof -
  have d: "drop_bit 16 (0x78000000 :: u64) = 0x7800" by simp
  have "(0x7800 :: u64) = push_bit 11 (mask 4)" by (simp add: mask_eq_exp_minus_1 push_bit_eq_mult)
  then have "bit (0x7800 :: u64) n \<longleftrightarrow> n \<in> {11..<15}" for n
    by (simp only: bit_push_bit_iff bit_mask_iff possible_bit_word) auto
  then have "{n. bit (0x7800 :: u64) n} = {11..<15}" by blast
  then have few: "card {n. bit (0x7800 :: u64) n} \<le> 7" by (simp only: card_atLeastLessThan)
  have t: "unat ((\<lambda>_ :: u32. 0x78000000 :: u64) MSR_TOM) < 2 ^ 32" by simp
  from variable_mtrrs_cover [OF t, of True genoa_cpuid, unfolded d if_P [OF few]]
  obtain f' where f': "InitializeVariableMtrrs True (msr_file genoa_cpuid) (\<lambda>_. 0x78000000) = Some (SilPass, f')"
    and h: "\<forall>a. unat a < 2 ^ 48 \<longrightarrow> (\<exists>j<8. var_range_hit f' j a) = (unat a < unat (0x7800 :: u64) * 2 ^ 16)" by blast
  have "(\<exists>j<8. var_range_hit f' j 0x77FFFFFF)" "\<not> (\<exists>j<8. var_range_hit f' j 0x78000000)"
    using h [rule_format, of "0x77FFFFFF"] h [rule_format, of "0x78000000"] by simp_all
  then show ?thesis using f' by blast
qed

end
