(* ===== verification/Ccx_Misc.thy ===== *)
theory Ccx_Misc
  imports Ccx_Block Ccx_Cache Ccx_Microcode
begin

text \<open>
  The settings of a core before and while the other cores are started: miscellaneous registers
  (\<^verbatim>\<open>CcxMiscInit.c\<close>), C6 (\<^verbatim>\<open>CcxC6.c\<close>), machine check banks (\<^verbatim>\<open>CcxSetMca.c\<close>) and the two lists of
  registers the application processors take over from the boot processor (\<^verbatim>\<open>Ccx.c\<close>).
\<close>

section \<open>Registers\<close>

definition MSR_SPEC_CTRL :: u32 where "MSR_SPEC_CTRL = 0x48"
definition MSR_MCG_CAP :: u32 where "MSR_MCG_CAP = 0x179"
definition MSR_MCA_CFG_BANK0 :: u32 where "MSR_MCA_CFG_BANK0 = 0xC0002004"
definition MCA_IPID_LS_ADDRESS :: u32 where "MCA_IPID_LS_ADDRESS = 0xC0002005"
definition MCA_BANK_SIZE :: u32 where "MCA_BANK_SIZE = 0x10"
definition MCA_BANKS_VISIBLE_MASK :: u64 where "MCA_BANKS_VISIBLE_MASK = 0xFF"
definition CS_MCA_BANK_HARDWARE_ID :: u64 where "CS_MCA_BANK_HARDWARE_ID = 0x2E"
definition CS_MCA_TYPE :: u64 where "CS_MCA_TYPE = 2"
definition MSR_CSTATE_ADDRESS :: u32 where "MSR_CSTATE_ADDRESS = 0xC0010073"
definition MSR_CPUID_NAME_STRING0 :: u32 where "MSR_CPUID_NAME_STRING0 = 0xC0010030"
definition MSR_CPUID_NAME_STRING5 :: u32 where "MSR_CPUID_NAME_STRING5 = 0xC0010035"
definition SIL_RESERVED_9 :: u32 where "SIL_RESERVED_9 = 0xC0011023"
definition SIL_RESERVED2_899 :: u32 where "SIL_RESERVED2_899 = 0xC001102B"
definition SIL_RESERVED2_901 :: u32 where "SIL_RESERVED2_901 = 0xC0011077"
definition SIL_RESERVED2_909 :: u32 where "SIL_RESERVED2_909 = 0xC0011074"
definition SIL_RESERVED2_912 :: u32 where "SIL_RESERVED2_912 = 0xC0010296"
definition SIL_RESERVED2_915 :: u32 where "SIL_RESERVED2_915 = 0xC0011076"
definition MAX_CAC_WEIGHT_NUM :: nat where "MAX_CAC_WEIGHT_NUM = 23"
definition CPU_LIST_TERMINAL :: u32 where "CPU_LIST_TERMINAL = 0xFFFFFFFF"

abbreviation BIT_64 :: "nat \<Rightarrow> u64" where "BIT_64 n \<equiv> 2 ^ n"

section \<open>The lists for the application processors\<close>

record AP_MTRR_SETTINGS =
  mtrr_MsrAddr :: u32
  mtrr_MsrData :: u64

record AP_MSR_SYNC =
  MsrAddr :: u32
  MsrData :: u64
  MsrMask :: u64

definition ApMtrrSyncList :: "AP_MTRR_SETTINGS list" where
  "ApMtrrSyncList = map (\<lambda>a. \<lparr>mtrr_MsrAddr = a, mtrr_MsrData = 0\<rparr>)
     ([MSR_MMIO_Cfg_Base, 0x250, 0x258, 0x259, 0x268, 0x269, 0x26A, 0x26B, 0x26C, 0x26D, 0x26E, 0x26F]
      @ [0x200, 0x201, 0x202, 0x203, 0x204, 0x205, 0x206, 0x207, 0x208, 0x209, 0x20A, 0x20B, 0x20C, 0x20D, 0x20E, 0x20F]
      @ [0x2FF, CPU_LIST_TERMINAL])"

definition sync_entry :: "u32 \<Rightarrow> u64 \<Rightarrow> AP_MSR_SYNC" where
  "sync_entry a m = \<lparr>MsrAddr = a, MsrData = 0, MsrMask = m\<rparr>"

definition ApMsrSyncList :: "AP_MSR_SYNC list" where
  "ApMsrSyncList =
    [sync_entry MSR_CPUID_NAME_STRING0 0xFFFFFFFFFFFFFFFF,
     sync_entry 0xC0010031 0xFFFFFFFFFFFFFFFF,
     sync_entry 0xC0010032 0xFFFFFFFFFFFFFFFF,
     sync_entry 0xC0010033 0xFFFFFFFFFFFFFFFF,
     sync_entry 0xC0010034 0xFFFFFFFFFFFFFFFF,
     sync_entry MSR_CPUID_NAME_STRING5 0xFFFFFFFFFFFFFFFF,
     sync_entry SIL_RESERVED2_926 0xFFFFFFFFFFFFFFFF,
     sync_entry SIL_RESERVED2_899 0xFFFFFFFFFFFFFFFF,
     sync_entry MSR_SYS_CFG 0xFFFFFFFFFFFFFFFF,
     sync_entry SIL_RESERVED2_912 0xFFFFFFFFFFFFFFFF,
     sync_entry MSR_CSTATE_ADDRESS 0xFFFFFFFFFFFFFFFF,
     sync_entry MSR_HWCR 0xFFFFFFFFFFFFFFFF,
     sync_entry SIL_RESERVED2_919 (BIT_64 15),
     sync_entry 0xC00110DD (BIT_64 13),
     sync_entry 0xC00110DD (BIT_64 18),
     sync_entry MSR_HWCR (BIT_64 9),
     sync_entry CPU_LIST_TERMINAL 0]"

text \<open>The boot processor fills a list up to the terminal entry; a list without one is overrun.\<close>

fun fill_msr_list :: "'h cpu_ops \<Rightarrow> AP_MSR_SYNC list \<Rightarrow> 'h \<Rightarrow> (AP_MSR_SYNC list \<times> 'h) option" where
  "fill_msr_list cpu [] h = None"
| "fill_msr_list cpu (e # es) h =
     (if MsrAddr e = CPU_LIST_TERMINAL then Some (e # es, h)
      else let (v, h) = cpu_rdmsr cpu (MsrAddr e) h
           in do { (es, h) \<leftarrow> fill_msr_list cpu es h; Some (e\<lparr>MsrData := v\<rparr> # es, h) })"

fun fill_mtrr_list :: "'h cpu_ops \<Rightarrow> AP_MTRR_SETTINGS list \<Rightarrow> 'h \<Rightarrow> (AP_MTRR_SETTINGS list \<times> 'h) option" where
  "fill_mtrr_list cpu [] h = None"
| "fill_mtrr_list cpu (e # es) h =
     (if mtrr_MsrAddr e = CPU_LIST_TERMINAL then Some (e # es, h)
      else let (v, h) = cpu_rdmsr cpu (mtrr_MsrAddr e) h
           in do { (es, h) \<leftarrow> fill_mtrr_list cpu es h; Some (e\<lparr>mtrr_MsrData := v\<rparr> # es, h) })"

fun CcxSyncMiscMsrs :: "'h cpu_ops \<Rightarrow> AP_MSR_SYNC list \<Rightarrow> 'h \<Rightarrow> 'h option" where
  "CcxSyncMiscMsrs cpu [] h = None"
| "CcxSyncMiscMsrs cpu (e # es) h =
     (if MsrAddr e = CPU_LIST_TERMINAL then Some h
      else CcxSyncMiscMsrs cpu es (xUslMsrAndThenOr cpu (MsrAddr e) (NOT (MsrMask e)) (MsrData e AND MsrMask e) h))"

text \<open>The fixed ranges the host overrides, by register.\<close>

definition fixed_mtrr :: "CCXCLASS_INPUT_BLK \<Rightarrow> u32 \<Rightarrow> u64" where
  "fixed_mtrr b a =
     (if a = 0x250 then AmdFixedMtrr250 b else if a = 0x258 then AmdFixedMtrr258 b
      else if a = 0x259 then AmdFixedMtrr259 b else if a = 0x268 then AmdFixedMtrr268 b
      else if a = 0x269 then AmdFixedMtrr269 b else if a = 0x26A then AmdFixedMtrr26A b
      else if a = 0x26B then AmdFixedMtrr26B b else if a = 0x26C then AmdFixedMtrr26C b
      else if a = 0x26D then AmdFixedMtrr26D b else if a = 0x26E then AmdFixedMtrr26E b
      else if a = 0x26F then AmdFixedMtrr26F b else 0xFFFFFFFFFFFFFFFF)"

fun UpdateApMtrrSettings :: "CCXCLASS_INPUT_BLK \<Rightarrow> AP_MTRR_SETTINGS list \<Rightarrow> AP_MTRR_SETTINGS list option" where
  "UpdateApMtrrSettings b [] = None"
| "UpdateApMtrrSettings b (e # es) =
     (if mtrr_MsrAddr e = CPU_LIST_TERMINAL then Some (e # es)
      else let v = fixed_mtrr b (mtrr_MsrAddr e);
               e = (if v \<noteq> 0xFFFFFFFFFFFFFFFF then e\<lparr>mtrr_MsrData := v\<rparr> else e)
           in map_option ((#) e) (UpdateApMtrrSettings b es))"

section \<open>Miscellaneous registers\<close>

text \<open>The constant of the auto mode of the pause delay.\<close>

definition CPU_PAUSE_DELAY_AUTO :: u8 where "CPU_PAUSE_DELAY_AUTO = 0xFF"

definition Zen4SetMiscMsrs :: "bool \<Rightarrow> 'h cpu_ops \<Rightarrow> CCXCLASS_INPUT_BLK \<Rightarrow> 'h \<Rightarrow> 'h option" where
  "Zen4SetMiscMsrs dbg cpu b h =
     (let h = (if MonMwaitDis b \<noteq> 0xFF
               then xUslMsrAndThenOr cpu MSR_HWCR (NOT (BIT_64 9)) (if MonMwaitDis b \<noteq> 0 then BIT_64 9 else 0) h else h);
          h = xUslMsrOr cpu 0xC001102E (BIT_64 35) h;
          h = (if AmdReserved3 b = 0 then
                 let h = xUslMsrOr cpu 0xC00110E5 (BIT_64 26) h; h = xUslMsrAnd cpu 0xC00110E6 (NOT (BIT_64 38)) h;
                     h = xUslMsrAnd cpu 0xC00110EC (NOT (BIT_64 0)) h
                 in xUslMsrAnd cpu 0xC00110E2 (NOT (BIT_64 30)) h
               else if AmdReserved3 b = 1 then
                 let h = xUslMsrOr cpu 0xC00110E5 (BIT_64 26) h; h = xUslMsrOr cpu 0xC00110E6 (BIT_64 38) h;
                     h = xUslMsrOr cpu 0xC00110EC (BIT_64 0) h
                 in xUslMsrOr cpu 0xC00110E2 (BIT_64 30) h
               else if AmdReserved3 b = 2 then
                 let h = xUslMsrAnd cpu 0xC00110E5 (NOT (BIT_64 26)) h; h = xUslMsrOr cpu 0xC00110E6 (BIT_64 38) h;
                     h = xUslMsrOr cpu 0xC00110EC (BIT_64 0) h
                 in xUslMsrOr cpu 0xC00110E2 (BIT_64 30) h
               else h)
      in do { c_assert dbg (AmdCpuPauseDelay b = CPU_PAUSE_DELAY_AUTO);
              Some (if EnableSvmX2AVIC b then xUslMsrOr cpu 0xC00110DD (BIT_64 18) h
                    else xUslMsrAnd cpu 0xC00110DD (NOT (BIT_64 18)) h) })"

text \<open>\<open>SetMiscMsrs\<close> is the function of the processor revision in the transfer table; without a table nothing is set.\<close>

definition CcxSetMiscMsrs ::
  "bool \<Rightarrow> 'h cpu_ops \<Rightarrow> (CCXCLASS_INPUT_BLK \<Rightarrow> 'h \<Rightarrow> 'h option) \<Rightarrow> sil_state \<Rightarrow> CCXCLASS_INPUT_BLK \<Rightarrow> 'h \<Rightarrow> 'h option" where
  "CcxSetMiscMsrs dbg cpu SetMiscMsrs s b h =
     do { (Status, _) \<leftarrow> SilGetCommon2RevXferTable dbg (id_val SilId_CcxClass) s;
          if Status \<noteq> SilPass then Some h
          else let (LocalMsrRegister, h) = cpu_rdmsr cpu MSR_PSTATE_DEF_ADDRESS h;
                   h = cpu_wrmsr cpu MSR_PSTATE_DEF_ADDRESS LocalMsrRegister h;
                   h = (if EnableSvmAVIC b then xUslMsrOr cpu 0xC00110DD (BIT_64 13) h
                        else xUslMsrAnd cpu 0xC00110DD (NOT (BIT_64 13)) h);
                   h = xUslMsrAnd cpu 0xC00110DF (NOT (BIT_64 36)) h;
                   h = xUslMsrAnd cpu SIL_RESERVED2_919 (NOT (BIT_64 15)) h
               in SetMiscMsrs b h }"

definition CcxEnableSmee :: "'h cpu_ops \<Rightarrow> bool \<Rightarrow> 'h \<Rightarrow> 'h" where
  "CcxEnableSmee cpu SmeeEnable h = (if SmeeEnable then xUslMsrOr cpu MSR_SYS_CFG (BIT_64 23) h else h)"

definition CcxInitializeCpb :: "'h cpu_ops \<Rightarrow> u8 \<Rightarrow> 'h \<Rightarrow> 'h" where
  "CcxInitializeCpb cpu CpbEnable h = (if CpbEnable = 0 then xUslMsrOr cpu MSR_HWCR (BIT_64 25) h else h)"

fun cac_loop :: "'h cpu_ops \<Rightarrow> nat \<Rightarrow> u64 list \<Rightarrow> 'h \<Rightarrow> 'h" where
  "cac_loop cpu WeightIndex [] h = h"
| "cac_loop cpu WeightIndex (w # ws) h =
     (let h = cpu_wrmsr cpu SIL_RESERVED2_915 (of_nat WeightIndex) h; h = cpu_wrmsr cpu SIL_RESERVED2_901 w h
      in cac_loop cpu (Suc WeightIndex) ws h)"

text \<open>The weights are the array of \<open>MAX_CAC_WEIGHT_NUM\<close> entries in the shared data.\<close>

definition CcxSetCacWeights :: "'h cpu_ops \<Rightarrow> u64 list \<Rightarrow> 'h \<Rightarrow> 'h" where
  "CcxSetCacWeights cpu CacWeights h =
     (if xUslIsComputeUnitPrimary cpu
      then let (LocalMsr, h) = cpu_rdmsr cpu SIL_RESERVED2_909 h;
               h = cpu_wrmsr cpu SIL_RESERVED2_909 0 h;
               h = cac_loop cpu 0 CacWeights h
           in cpu_wrmsr cpu SIL_RESERVED2_909 (LocalMsr OR BIT_64 63) h
      else h)"

definition CcxInitializeC6 :: "'h cpu_ops \<Rightarrow> CCXCLASS_INPUT_BLK \<Rightarrow> 'h \<Rightarrow> 'h" where
  "CcxInitializeC6 cpu b h =
     (if AmdCStateMode b = 1
      then let h = (if xUslIsComputeUnitPrimary cpu
                    then let Data8 = ucast (AmdCc6Ctrl b AND 1) :: u64;
                             v = set_field 0 6 8 0; v = set_field 6 1 Data8 v;
                             v = set_field 8 6 8 v; v = set_field 14 1 Data8 v;
                             v = set_field 16 6 8 v; v = set_field 22 1 Data8 v
                         in cpu_wrmsr cpu SIL_RESERVED2_912 v h
                    else h)
           in cpu_wrmsr cpu MSR_CSTATE_ADDRESS (set_field 0 16 (ucast (AmdCStateIoBaseAddress b)) 0) h
      else h)"

section \<open>Machine check banks\<close>

definition mca_step :: "'h cpu_ops \<Rightarrow> u8 \<Rightarrow> nat \<Rightarrow> 'h \<Rightarrow> 'h" where
  "mca_step cpu McaCount McaIndex h =
     (let bank = MCA_BANK_SIZE * of_nat McaIndex;
          (McaCfg, h) = cpu_rdmsr cpu (MSR_MCA_CFG_BANK0 + bank) h;
          McaCfg = set_field 32 1 (if McaCount \<le> 32 then 1 else 0) McaCfg;
          McaCfg = (if get_field 2 1 McaCfg = 1 then set_field 34 1 1 McaCfg else McaCfg);
          h = cpu_wrmsr cpu (MSR_MCA_CFG_BANK0 + bank) McaCfg h;
          (McaIpId, h) = cpu_rdmsr cpu (MCA_IPID_LS_ADDRESS + bank) h
      in if get_field 32 12 McaIpId = CS_MCA_BANK_HARDWARE_ID \<and> get_field 48 16 McaIpId = CS_MCA_TYPE
         then let McaCtlMaskAddr = MCA_CTL_MASK_LS_ADDRESS + of_nat McaIndex;
                  (McaCtlMsk, h) = cpu_rdmsr cpu McaCtlMaskAddr h
              in cpu_wrmsr cpu McaCtlMaskAddr (set_field 1 1 1 McaCtlMsk) h
         else h)"

definition CcxSetMca :: "'h cpu_ops \<Rightarrow> 'h \<Rightarrow> 'h" where
  "CcxSetMca cpu h =
     (let (v, h) = cpu_rdmsr cpu MSR_MCG_CAP h; McaCount = ucast (v AND MCA_BANKS_VISIBLE_MASK) :: u8
      in fold (mca_step cpu McaCount) [0 ..< unat McaCount] h)"

section \<open>Before the next thread\<close>

text \<open>The result of CPUID is non-zero when SMT is on; the name of the C function says the opposite.\<close>

definition xUslIsSmtDisabled :: "'h cpu_ops \<Rightarrow> u32" where
  "xUslIsSmtDisabled cpu = drop_bit 14 (EAX (cpu_cpuid cpu 0x8000001D)) AND 0xFFF"

definition RegSettingBeforeLaunchingNextThread :: "'h cpu_ops \<Rightarrow> ENTRY_CRITERIA \<Rightarrow> 'h \<Rightarrow> 'h" where
  "RegSettingBeforeLaunchingNextThread cpu ResetTableCriteria h =
     (let IsSmtDisabled = xUslIsSmtDisabled cpu = 0;
          h = (if IsSmtDisabled \<or> \<not> xUslIsComputeUnitPrimary cpu then xUslMsrOr cpu SIL_RESERVED_9 (BIT_64 49) h else h)
      in if id_Family (CoreLogicalId ResetTableCriteria) AND AMD_CORE_FAMILY_19_ZEN4 \<noteq> 0
         then if \<not> xUslIsComputeUnitPrimary cpu then xUslMsrOr cpu MSR_SPEC_CTRL (BIT_64 2) h else h
         else h)"

end
