(* ===== verification/Ccx_Cmn2Zen4.thy ===== *)
theory Ccx_Cmn2Zen4
  imports Ccx_Misc Df_Topology Sil_Utils
begin

text \<open>
  The functions of the Zen4 transfer table (\<^verbatim>\<open>CCX/Zen4/CcxCmn2Zen4.c\<close>): the APIC identifier of a thread, the
  base of the reverse map table and the APIC mode; and the common code that sizes the table
  (\<^verbatim>\<open>GetRmpTableSize\<close> in \<^verbatim>\<open>Ccx.c\<close>).
\<close>

section \<open>The package register of the first enabled core\<close>

definition ZEN4_MAX_CORES_PER_CCD :: nat where "ZEN4_MAX_CORES_PER_CCD = 8"
definition ZEN4_MAX_CORES_PER_SKT :: nat where "ZEN4_MAX_CORES_PER_SKT = 128"
definition SMN_PMREG_INITPKG7_ADDRESS :: u32 where "SMN_PMREG_INITPKG7_ADDRESS = 0x20002FEC"
definition SMN_PMREG_INITPKG7_CDD_OFFSET :: u32 where "SMN_PMREG_INITPKG7_CDD_OFFSET = 0x800000"
definition SMN_PMREG_INITPKG7_CORE_OFFSET :: u32 where "SMN_PMREG_INITPKG7_CORE_OFFSET = 0x20000"
definition SMN_PMREG_INITPKG7_CCX_OFFSET :: u32 where "SMN_PMREG_INITPKG7_CCX_OFFSET = 0x400000"

definition pkg7_Apic16TMode :: "u32 \<Rightarrow> u8" where "pkg7_Apic16TMode v = ucast (get_field 11 1 v)"
definition pkg7_NumOfCores :: "u32 \<Rightarrow> u8" where "pkg7_NumOfCores v = ucast (get_field 16 4 v)"
definition pkg7_NumOfComplexes :: "u32 \<Rightarrow> u8" where "pkg7_NumOfComplexes v = ucast (get_field 20 1 v)"
definition pkg7_NumOfCcds :: "u32 \<Rightarrow> u8" where "pkg7_NumOfCcds v = ucast (get_field 21 4 v)"
definition pkg7_NumOfSockets :: "u32 \<Rightarrow> u8" where "pkg7_NumOfSockets v = ucast (get_field 25 2 v)"

fun read_core_enable :: "'h pci_ops \<Rightarrow> nat list \<Rightarrow> 'h \<Rightarrow> (u32 list \<times> 'h) option" where
  "read_core_enable ops [] h = Some ([], h)"
| "read_core_enable ops (Index # is) h =
     do { (v, h) \<leftarrow> DfXFabricRegisterAccRead ops 0 0x1 ((0x144 - 0x140) * of_nat Index + 0x140) FABRIC_REG_ACC_BC h;
          (vs, h) \<leftarrow> read_core_enable ops is h;
          Some (v # vs, h) }"

text \<open>The first core whose bit is set, or the number of cores.\<close>

definition first_enabled_core :: "u32 list \<Rightarrow> nat" where
  "first_enabled_core CoreEnable =
     length (takeWhile (\<lambda>i. CoreEnable ! (i div 32) AND push_bit (i mod 32) 1 = 0) [0 ..< ZEN4_MAX_CORES_PER_SKT])"

definition read_init_pkg7 :: "bool \<Rightarrow> 'h cpu_ops \<Rightarrow> 'h pci_ops \<Rightarrow> 'h \<Rightarrow> (u32 \<times> 'h) option" where
  "read_init_pkg7 dbg cpu ops h =
     do { (CoreEnable, h) \<leftarrow> read_core_enable ops [0 ..< 4] h;
          let CoreIdx = first_enabled_core CoreEnable;
          c_assert dbg (CoreIdx < ZEN4_MAX_CORES_PER_SKT);
          let MaxCcxPerCcd = (if xUslGetRawIdOnExecutingCore cpu AND RAW_FAMILY_ID_MASK = AMD_F19_GENOA_RAW_ID
                              then MAX_CCX_PER_CCD else MAX_CCX_PER_CCD_GENOA);
          let CcxIdx = CoreIdx div ZEN4_MAX_CORES_PER_CCD;
          let CoreIdx = CoreIdx mod ZEN4_MAX_CORES_PER_CCD;
          let CcdIdx = CcxIdx div MaxCcxPerCcd;
          let CcxIdx = CcxIdx mod MaxCcxPerCcd;
          Some (xUSLSmnRead ops 0 0 (SMN_PMREG_INITPKG7_ADDRESS + SMN_PMREG_INITPKG7_CDD_OFFSET * of_nat CcdIdx
            + SMN_PMREG_INITPKG7_CCX_OFFSET * of_nat CcxIdx + SMN_PMREG_INITPKG7_CORE_OFFSET * of_nat CoreIdx) h) }"

section \<open>APIC identifiers\<close>

text \<open>The positions of the five numbers in an identifier, from the counts less one.\<close>

record apic_shifts =
  CoreShift :: u8
  ComplexShift :: u8
  CcdShift :: u8
  SocketShift :: u8

definition apic_layout :: "u32 \<Rightarrow> u8 \<Rightarrow> apic_shifts" where
  "apic_layout pkg7 NumberOfThreads =
     (let CoreShift = NumberOfThreads;
          ComplexShift = xUslBitWidth (ucast (pkg7_NumOfCores pkg7)) + CoreShift;
          ComplexShift = (if pkg7_Apic16TMode pkg7 = 1 \<and> ComplexShift < 4 then 4 else ComplexShift);
          CcdShift = xUslBitWidth (ucast (pkg7_NumOfComplexes pkg7)) + ComplexShift;
          SocketShift = xUslBitWidth (ucast (pkg7_NumOfCcds pkg7)) + CcdShift
      in \<lparr>CoreShift = CoreShift, ComplexShift = ComplexShift, CcdShift = CcdShift, SocketShift = SocketShift\<rparr>)"

text \<open>Shifting by the width of the type or more is undefined in C.\<close>

definition shl32 :: "u32 \<Rightarrow> u8 \<Rightarrow> u32 option" where
  "shl32 x n = (if n < 32 then Some (push_bit (unat n) x) else None)"

definition apic_id :: "apic_shifts \<Rightarrow> u32 \<Rightarrow> u32 \<Rightarrow> u32 \<Rightarrow> u32 \<Rightarrow> u32 \<Rightarrow> u32 option" where
  "apic_id l Socket Ccd Complex Core Thread =
     do { s \<leftarrow> shl32 Socket (SocketShift l);
          d \<leftarrow> shl32 Ccd (CcdShift l);
          x \<leftarrow> shl32 Complex (ComplexShift l);
          c \<leftarrow> shl32 Core (CoreShift l);
          Some (s OR d OR x OR c OR Thread) }"

definition Zen4CalcLocalApic ::
  "bool \<Rightarrow> 'h cpu_ops \<Rightarrow> 'h pci_ops \<Rightarrow> u32 \<Rightarrow> u32 \<Rightarrow> u32 \<Rightarrow> u32 \<Rightarrow> u32 \<Rightarrow> u32 \<Rightarrow> 'h \<Rightarrow> (u32 \<times> 'h) option" where
  "Zen4CalcLocalApic dbg cpu ops Socket Die Ccd Complex Core Thread h =
     do { c_assert dbg (Socket < 2); c_assert dbg (Die = 0); c_assert dbg (Ccd < 12); c_assert dbg (Complex < 2);
          c_assert dbg (Core < 8); c_assert dbg (Thread < 2);
          (InitPkg7, h) \<leftarrow> read_init_pkg7 dbg cpu ops h;
          let NumberOfThreads = xUslGetThreadsPerCore cpu - 1;
          c_assert dbg (Socket \<le> ucast (pkg7_NumOfSockets InitPkg7));
          c_assert dbg (Complex \<le> ucast (pkg7_NumOfComplexes InitPkg7));
          c_assert dbg (Core \<le> ucast (pkg7_NumOfCores InitPkg7));
          c_assert dbg (Thread \<le> ucast NumberOfThreads);
          ApicId \<leftarrow> apic_id (apic_layout InitPkg7 NumberOfThreads) Socket Ccd Complex Core Thread;
          Some (ApicId, h) }"

text \<open>The mode chosen when the host asks for the automatic one.\<close>

definition SocZen4GetAmdApicMode :: "u32 \<Rightarrow> u32 \<Rightarrow> u32 \<Rightarrow> u32 \<Rightarrow> u32 \<Rightarrow> u8" where
  "SocZen4GetAmdApicMode NumberOfSockets NumberOfCcds NumberOfComplexes NumberOfCores NumberOfThreads = x2ApicMode"

section \<open>The reverse map table\<close>

definition DFX_NUMBER_OF_DRAM_REGIONS :: nat where "DFX_NUMBER_OF_DRAM_REGIONS = 20"
definition DFX_IOMS2_INSTANCE_ID :: u32 where "DFX_IOMS2_INSTANCE_ID = 34"
definition dram_base_reg :: "nat \<Rightarrow> u32" where "dram_base_reg i = 0xE00 + of_nat i * 0x10"
definition dram_limit_reg :: "nat \<Rightarrow> u32" where "dram_limit_reg i = 0xE04 + of_nat i * 0x10"
definition dram_ctl_reg :: "nat \<Rightarrow> u32" where "dram_ctl_reg i = 0xE08 + of_nat i * 0x10"
definition DramCtl_AddrRngVal :: "u32 \<Rightarrow> u32" where "DramCtl_AddrRngVal v = get_field 0 1 v"
definition DramCtl_DstFabricID :: "u32 \<Rightarrow> u32" where "DramCtl_DstFabricID v = get_field 16 12 v"

text \<open>
  The search for the first region on another socket than the first region. The base register is \<open>None\<close> as
  long as it has not been read; the limit register is read for a trace message.
\<close>

fun dram_loop ::
  "'h pci_ops \<Rightarrow> nat list \<Rightarrow> u32 \<Rightarrow> u32 \<Rightarrow> 'h \<Rightarrow> (u32 \<times> u32 \<times> u32 option \<times> 'h) option" where
  "dram_loop ops [] PrevSocketId NextSocketId h = Some (PrevSocketId, NextSocketId, None, h)"
| "dram_loop ops (DramMapIndex # is) PrevSocketId NextSocketId h =
     do { (DramAddressCtl, h) \<leftarrow> DfXFabricRegisterAccRead ops 0 7 (dram_ctl_reg DramMapIndex) DFX_IOMS2_INSTANCE_ID h;
          if DramCtl_AddrRngVal DramAddressCtl = 1
          then let NextSocketId = drop_bit 8 (DramCtl_DstFabricID DramAddressCtl) AND 1
               in if DramMapIndex = 0 then dram_loop ops is NextSocketId NextSocketId h
                  else if NextSocketId \<noteq> PrevSocketId
                  then do { (DramBaseAddr, h) \<leftarrow> DfXFabricRegisterAccRead ops 0 7 (dram_base_reg DramMapIndex) DFX_IOMS2_INSTANCE_ID h;
                            (_, h) \<leftarrow> DfXFabricRegisterAccRead ops 0 7 (dram_limit_reg DramMapIndex) DFX_IOMS2_INSTANCE_ID h;
                            Some (PrevSocketId, NextSocketId, Some DramBaseAddr, h) }
                  else dram_loop ops is PrevSocketId NextSocketId h
          else dram_loop ops is PrevSocketId NextSocketId h }"

text \<open>The result is the base; the size and the covered memory are only read.\<close>

definition Zen4CalculateRMPTableBase :: "'h pci_ops \<Rightarrow> u64 \<Rightarrow> u64 \<Rightarrow> u8 \<Rightarrow> 'h \<Rightarrow> (u64 \<times> 'h) option" where
  "Zen4CalculateRMPTableBase ops RmpTableSize SnpMemSizeToCover SplitRmpTableValue h =
     do { (Sockets, h) \<leftarrow> DfXGetNumberOfProcessorsPresent ops h;
          if 1 < Sockets \<and> 0 < SplitRmpTableValue
          then do { (PrevSocketId, NextSocketId, base, h) \<leftarrow> dram_loop ops [0 ..< DFX_NUMBER_OF_DRAM_REGIONS] 0 0 h;
                    if PrevSocketId = NextSocketId then Some (SnpMemSizeToCover, h)
                    else do { DramBaseAddr \<leftarrow> base;
                              let RmpTableBase = push_bit 28 (ucast DramBaseAddr) + RmpTableSize div 2;
                              Some (if SnpMemSizeToCover < RmpTableBase then SnpMemSizeToCover else RmpTableBase, h) } }
          else Some (SnpMemSizeToCover, h) }"

definition SNP_DISABLE :: u8 where "SNP_DISABLE = 0"
definition SNP_CUSTOM_MEMORY_ENABLE :: u8 where "SNP_CUSTOM_MEMORY_ENABLE = 2"
definition SIZE_1MB :: u64 where "SIZE_1MB = 0x00100000"
definition SIZE_16KB :: u64 where "SIZE_16KB = 0x00004000"
definition SIZE_16MB :: u64 where "SIZE_16MB = 0x01000000"

definition xUslGetSecureEncryption :: "'h cpu_ops \<Rightarrow> u32" where
  "xUslGetSecureEncryption cpu = EAX (cpu_cpuid cpu 0x8000001F)"

definition GetSnpSupportStatus :: "'h cpu_ops \<Rightarrow> bool" where
  "GetSnpSupportStatus cpu \<longleftrightarrow> get_field 4 1 (xUslGetSecureEncryption cpu) = 1"

text \<open>The memory to cover, from the top of memory and the custom size in megabytes.\<close>

definition snp_mem_size :: "u8 \<Rightarrow> u32 \<Rightarrow> u64 \<Rightarrow> u64" where
  "snp_mem_size SnpMemCover SnpMemSize Tom2 =
     (if SnpMemCover = SNP_CUSTOM_MEMORY_ENABLE
      then let SnpMemSizeToCover = push_bit 20 (ucast SnpMemSize)
           in if SnpMemSizeToCover = 0 \<or> SnpMemSizeToCover < SIZE_16MB then SIZE_16MB
              else if Tom2 < SnpMemSizeToCover then Tom2 else SnpMemSizeToCover
      else Tom2)"

definition rmp_table_bytes :: "u64 \<Rightarrow> u64" where
  "rmp_table_bytes SnpMemSizeToCover =
     (let RmpTableSize = SIZE_16KB + 16 * drop_bit 12 SnpMemSizeToCover
      in (RmpTableSize + SIZE_1MB - 1) AND NOT (SIZE_1MB - 1))"

definition GetRmpTableSize ::
  "bool \<Rightarrow> 'h cpu_ops \<Rightarrow> (u64 \<Rightarrow> u64 \<Rightarrow> u64 \<Rightarrow> u8 \<Rightarrow> 'h \<Rightarrow> (u64 \<times> 'h) option) \<Rightarrow> sil_state
     \<Rightarrow> CCXCLASS_DATA_BLK \<Rightarrow> 'h \<Rightarrow> (CCXCLASS_DATA_BLK \<times> 'h) option" where
  "GetRmpTableSize dbg cpu CalcRMPTableBase s blk h =
     do { (Status, CcxXfer) \<leftarrow> SilGetCommon2RevXferTable dbg (id_val SilId_CcxClass) s;
          let b = CcxInputBlock blk;
          let result = (\<lambda>size base h. Some (blk\<lparr>CcxOutputBlock :=
                (CcxOutputBlock blk)\<lparr>AmdRmpTableSize := size, AmdRmpTableBase := base\<rparr>\<rparr>, h));
          let table = (\<lambda>SnpMemSizeToCover h.
                let RmpTableSize = rmp_table_bytes SnpMemSizeToCover
                in do { (RmpTableBase, h) \<leftarrow> CalcRMPTableBase CcxXfer RmpTableSize SnpMemSizeToCover (AmdSplitRmpTable b) h;
                        result RmpTableSize RmpTableBase h });
          if Status \<noteq> SilPass then Some (blk, h)
          else if AmdSnpMemCover b = SNP_DISABLE then result 0 0 h
          else if \<not> AmdVmplEnable b then table 0 h
          else if get_field 5 1 (xUslGetSecureEncryption cpu) = 0 then Some (blk, h)
          else let h = xUslMsrOr cpu MSR_SYS_CFG (BIT_64 25) h;
                   (Tom2, h) = cpu_rdmsr cpu MSR_TOM2 h
               in table (snp_mem_size (AmdSnpMemCover b) (AmdSnpMemSize b) Tom2) h }"

definition UpdateCcxOutputData ::
  "bool \<Rightarrow> 'h cpu_ops \<Rightarrow> (u64 \<Rightarrow> u64 \<Rightarrow> u64 \<Rightarrow> u8 \<Rightarrow> 'h \<Rightarrow> (u64 \<times> 'h) option) \<Rightarrow> sil_state
     \<Rightarrow> CCXCLASS_DATA_BLK \<Rightarrow> 'h \<Rightarrow> (CCXCLASS_DATA_BLK \<times> 'h) option" where
  "UpdateCcxOutputData dbg cpu CalcRMPTableBase s blk h =
     GetRmpTableSize dbg cpu CalcRMPTableBase s
       (blk\<lparr>CcxOutputBlock := (CcxOutputBlock blk)\<lparr>AmdIsSnpSupported := GetSnpSupportStatus cpu\<rparr>\<rparr>) h"

end
