(* ===== verification/Ccx_ApLaunch.thy ===== *)
theory Ccx_ApLaunch
  imports Ccx_Misc Ccx_Encode
begin

text \<open>
  The region at the reset vector the application processors start from (\<^verbatim>\<open>CcxApLaunch64.c\<close>), and its
  restoration (\<^verbatim>\<open>RestoreResetVector\<close> in \<^verbatim>\<open>Ccx.c\<close>). The addresses of the assembly entry, of the stack and of the
  global descriptor table of the application processors, and of the local variables the code takes addresses
  of, are given by the linker and the stack frame: they are parameters.
\<close>

section \<open>Blocks of bytes\<close>

definition get_bytes :: "memory \<Rightarrow> nat \<Rightarrow> nat \<Rightarrow> u8 list" where
  "get_bytes m a n = map (\<lambda>i. m (a + i)) [0 ..< n]"

definition put_bytes :: "memory \<Rightarrow> nat \<Rightarrow> u8 list \<Rightarrow> memory" where
  "put_bytes m a bs = (\<lambda>x. if a \<le> x \<and> x < a + length bs then bs ! (x - a) else m x)"

lemma length_get_bytes [simp]: "length (get_bytes m a n) = n"
  by (simp add: get_bytes_def)

lemma get_put_same [simp]: "get_bytes (put_bytes m a bs) a (length bs) = bs"
  by (auto simp: get_bytes_def put_bytes_def intro: nth_equalityI)

lemma get_put_apart: "a + n \<le> b \<or> b + length bs \<le> a \<Longrightarrow> get_bytes (put_bytes m b bs) a n = get_bytes m a n"
  by (auto simp: get_bytes_def put_bytes_def)

lemma put_bytes_apart: "x < a \<or> a + length bs \<le> x \<Longrightarrow> put_bytes m a bs x = m x"
  by (auto simp: put_bytes_def)

lemma put_get_bytes: "put_bytes m a (get_bytes m' a n) x = (if a \<le> x \<and> x < a + n then m' x else m x)"
  by (auto simp: put_bytes_def get_bytes_def)

text \<open>Overwriting a part of an array.\<close>

definition put_list :: "nat \<Rightarrow> u8 list \<Rightarrow> u8 list \<Rightarrow> u8 list" where
  "put_list i bs xs = take i xs @ bs @ drop (i + length bs) xs"

lemma length_put_list [simp]: "i + length bs \<le> length xs \<Longrightarrow> length (put_list i bs xs) = length xs"
  by (simp add: put_list_def)

section \<open>Layout of the region\<close>

definition AP_STARTUP_CODE_SIZE :: nat where "AP_STARTUP_CODE_SIZE = 0x80"
definition BSP_MSR_SIZE :: nat where "BSP_MSR_SIZE = 0x170"
definition BSP_GDT_SIZE :: nat where "BSP_GDT_SIZE = 0x50"
definition AP_TEMP_BUFFER_SIZE :: nat where
  "AP_TEMP_BUFFER_SIZE = BSP_GDT_SIZE + BSP_MSR_SIZE + AP_STARTUP_CODE_SIZE + 0x10"
definition AP_STARTUP_CODE_OFFSET :: nat where
  "AP_STARTUP_CODE_OFFSET = BSP_GDT_SIZE + BSP_MSR_SIZE + AP_STARTUP_CODE_SIZE"
definition BSP_MSR_OFFSET :: nat where "BSP_MSR_OFFSET = BSP_GDT_SIZE + BSP_MSR_SIZE"
definition BSP_GDT_OFFSET :: nat where "BSP_GDT_OFFSET = BSP_GDT_SIZE"

lemmas ap_layout = AP_STARTUP_CODE_SIZE_def BSP_MSR_SIZE_def BSP_GDT_SIZE_def AP_TEMP_BUFFER_SIZE_def
  AP_STARTUP_CODE_OFFSET_def BSP_MSR_OFFSET_def BSP_GDT_OFFSET_def

definition ApStartupCode :: "u8 list" where
  "ApStartupCode =
    [0xBE, 0xF4, 0xFF,
     0x66,
     0x2E, 0x0F, 0x01, 0x14,
     0x0F, 0x20, 0xC0,
     0x66, 0x83, 0xC8, 0x03,
     0x0F, 0x22, 0xC0,
     0x0F, 0x20, 0xE0,
     0x66, 0x0D, 0x00, 0x06, 0x00, 0x00,
     0x0F, 0x22, 0xE0,
     0xB8, 0x18, 0x00,
     0x8E, 0xD8,
     0x8E, 0xC0,
     0x8E, 0xE0,
     0x8E, 0xE8,
     0x8E, 0xD0,
     0x66, 0x67, 0xEA,
     0x00, 0x00, 0x00, 0x00,
     0x10, 0x00,
     0x0F, 0x20, 0xE0,
     0x0F, 0xBA, 0xE8, 0x05,
     0x0F, 0x22, 0xE0,
     0xB9, 0x80, 0x00, 0x00, 0xC0,
     0x0F, 0x32,
     0x0F, 0xBA, 0xE8, 0x08,
     0x0F, 0x30,
     0xBE, 0xE8, 0xFF, 0x00, 0x00,
     0x8B, 0x0E,
     0x0F, 0x22, 0xD9,
     0x0F, 0x20, 0xC0,
     0x0F, 0xBA, 0xE8, 0x1F,
     0x0F, 0x22, 0xC0,
     0x67, 0xEA,
     0x00, 0x00, 0x00, 0x00,
     0x38, 0x00,
     0x48, 0xB8,
     0xFF, 0xFF, 0xFF, 0xFF,
     0xFF, 0xFF, 0xFF, 0xFF,
     0x48, 0xBF,
     0xFF, 0xFF, 0xFF, 0xFF,
     0xFF, 0xFF, 0xFF, 0xFF,
     0xFF, 0xE0]"

definition GdtEntries :: "u64 list" where
  "GdtEntries = [0x0000000000000000, 0x00CF92000000FFFF, 0x00CF9A000000FFFF, 0x00CF92000000FFFF, 0x00CF9A000000FFFF,
     0x0000000000000000, 0x00CF93000000FFFF, 0x00AF9B000000FFFF, 0x0000000000000000]"

definition gdt_bytes :: "u8 list" where
  "gdt_bytes = concat (map (\<lambda>e. le_bytes 8 (unat e)) GdtEntries)"

lemma length_le_bytes [simp]: "length (le_bytes k n) = k"
  by (induction k arbitrary: n) simp_all

lemma lengths [simp]: "length ApStartupCode = 125" "length gdt_bytes = 72"
  by (simp_all add: ApStartupCode_def gdt_bytes_def GdtEntries_def length_concat)

section \<open>Shared data\<close>

text \<open>
  \<^verbatim>\<open>mApLaunchGlobalData\<close>. The two lists are held by value; the tables of registers are an argument of the code
  that uses them.
\<close>

record AMD_CCX_AP_LAUNCH_GLOBAL_DATA =
  BspMsrLocation :: u32
  AllowToLaunchNextThreadLocation :: u32
  ApStackBasePtr :: u64
  ApGdtDescriptor_Limit :: u16
  ApGdtDescriptor_Base :: u64
  SleepType :: u8
  SizeOfApMtrr :: u32
  gd_ApMtrrSyncList :: "AP_MTRR_SETTINGS list"
  gd_ApMsrSyncList :: "AP_MSR_SYNC list"
  BspPatchLevel :: u64
  UcodePatchAddr :: u64
  ResetTableCriteria :: ENTRY_CRITERIA
  CacWeights :: "u64 list"

text \<open>
  Addresses: \<open>sa_ApLaunchGlobalData\<close> is the address of the parameter of that name, a variable on the stack;
  \<open>sa_ApMtrrSyncList\<close> is the address of the list; \<open>sa_above\<close> are the bytes on the stack behind the local
  variable \<^verbatim>\<open>Lcl64bData\<close>.
\<close>

record startup_env =
  sa_ApAsmCode :: u64
  sa_ApLaunchGlobalData :: u64
  sa_ApStack :: u64
  sa_ApGdt :: u64
  sa_ApMtrrSyncList :: u64
  sa_above :: "nat \<Rightarrow> u8"
  sa_Cr3 :: u64
  CONFIG_PSP_BIOS_BIN_BASE :: u64
  CONFIG_PSP_BIOS_BIN_SIZE :: u32

definition ap_startup_vector :: "startup_env \<Rightarrow> u64" where
  "ap_startup_vector E = CONFIG_PSP_BIOS_BIN_BASE E + ucast (CONFIG_PSP_BIOS_BIN_SIZE E) - 0x10"

text \<open>The code with the segment, the offsets of the two far jumps and the two addresses filled in.\<close>

definition fixed_startup_code :: "startup_env \<Rightarrow> u8 list" where
  "fixed_startup_code E =
     (let Segment = drop_bit 16 (ucast (CONFIG_PSP_BIOS_BIN_BASE E) + CONFIG_PSP_BIOS_BIN_SIZE E - 0x10000) :: u32;
          seg = le_bytes 2 (unat Segment);
          xs = put_list 99 seg (put_list 78 seg (put_list 48 seg ApStartupCode));
          xs = put_list 46 (le_bytes 2 (0xFFF0 - AP_STARTUP_CODE_OFFSET + 52)) xs;
          xs = put_list 97 (le_bytes 2 (0xFFF0 - AP_STARTUP_CODE_OFFSET + 103)) xs;
          xs = put_list 105 (le_bytes 8 (unat (sa_ApAsmCode E))) xs
      in put_list 115 (le_bytes 8 (unat (sa_ApLaunchGlobalData E))) xs)"

definition NearJmpOffset :: u16 where
  "NearJmpOffset = of_nat (0x10000 + (0xFFF0 - AP_STARTUP_CODE_OFFSET) - 0xFFF4)"

definition AsmNearJump :: "u8 list" where
  "AsmNearJump = put_list 2 (le_bytes 2 (unat NearJmpOffset)) [0x90, 0xE9, 0x00, 0x00]"

text \<open>
  The bytes copied as the list of MTRR settings: the source is the address of the local variable that
  holds the pointer, so they are the pointer and what lies behind it on the stack.
\<close>

definition copied_mtrr_list :: "startup_env \<Rightarrow> u32 \<Rightarrow> u8 list" where
  "copied_mtrr_list E len =
     take (unat len) (le_bytes 8 (unat (sa_ApMtrrSyncList E)) @ map (sa_above E) [0 ..< unat len - 8])"

lemma startup_lengths [simp]:
  "length (fixed_startup_code E) = 125" "length AsmNearJump = 4" "length (copied_mtrr_list E len) = unat len"
  by (simp_all add: fixed_startup_code_def Let_def AsmNearJump_def copied_mtrr_list_def)

text \<open>The writes to the region, in the order of the code; the settings come before the descriptor.\<close>

definition startup_region :: "startup_env \<Rightarrow> u32 \<Rightarrow> memory \<Rightarrow> memory" where
  "startup_region E len m =
     (let V = unat (ap_startup_vector E);
          m = memset_zero m (V - AP_STARTUP_CODE_OFFSET) AP_TEMP_BUFFER_SIZE;
          m = put_bytes m (V - AP_STARTUP_CODE_OFFSET) (fixed_startup_code E);
          m = put_bytes m V AsmNearJump;
          m = put_bytes m (V - BSP_GDT_OFFSET) gdt_bytes;
          m = put_bytes m (V - BSP_MSR_OFFSET) (copied_mtrr_list E len);
          m = put_bytes m (V + 4) (le_bytes 2 71 @ le_bytes 8 (unat (ap_startup_vector E - of_nat BSP_GDT_OFFSET)))
      in put_bytes m (V - 8) (le_bytes 8 (unat (sa_Cr3 E))))"

definition SetupApStartupRegion ::
  "bool \<Rightarrow> 'h cpu_ops \<Rightarrow> startup_env \<Rightarrow> CCXCLASS_INPUT_BLK \<Rightarrow> AMD_CCX_AP_LAUNCH_GLOBAL_DATA \<Rightarrow> memory \<Rightarrow> 'h
     \<Rightarrow> (AMD_CCX_AP_LAUNCH_GLOBAL_DATA \<times> u64 \<times> u8 list \<times> memory \<times> 'h) option" where
  "SetupApStartupRegion dbg cpu E b g m h =
     do { c_assert dbg (sa_Cr3 E < 0x100000000);
          let V = ap_startup_vector E;
          let MemoryContentCopy = get_bytes m (unat V - AP_STARTUP_CODE_OFFSET) AP_TEMP_BUFFER_SIZE;
          let h = xUslMsrOr cpu MSR_SYS_CFG (BIT_64 19) h;
          (mtrrs, h) \<leftarrow> fill_mtrr_list cpu (gd_ApMtrrSyncList g) h;
          mtrrs \<leftarrow> UpdateApMtrrSettings b mtrrs;
          let h = xUslMsrAnd cpu MSR_SYS_CFG (NOT SYS_CFG_MTRR_FIX_DRAM_MOD_EN) h;
          c_assert dbg (unat (SizeOfApMtrr g) \<le> BSP_MSR_SIZE);
          let m = startup_region E (SizeOfApMtrr g) m;
          let (level, h) = cpu_rdmsr cpu MSR_PATCH_LEVEL h;
          let m = put_bytes m (unat (sa_ApGdt E)) gdt_bytes;
          Some (g\<lparr>ApStackBasePtr := sa_ApStack E, AllowToLaunchNextThreadLocation := ucast (V + 0xE),
                  gd_ApMtrrSyncList := mtrrs, BspMsrLocation := ucast (V - of_nat BSP_MSR_OFFSET),
                  BspPatchLevel := level, ApGdtDescriptor_Limit := 71, ApGdtDescriptor_Base := sa_ApGdt E\<rparr>,
                V, MemoryContentCopy, m, h) }"

section \<open>Waiting for the other processors\<close>

text \<open>
  \<open>ap_run\<close> is what the other processors do to memory between two reads of the counter. A counter that never
  reaches the number is a loop that does not end.
\<close>

partial_function (option) wait_sync :: "('h \<Rightarrow> memory \<Rightarrow> memory) \<Rightarrow> nat \<Rightarrow> u32 \<Rightarrow> 'h \<Rightarrow> memory \<Rightarrow> memory option" where
  "wait_sync ap_run loc n h m =
     (if ucast (read16 m loc) = n then Some m else wait_sync ap_run loc n h (ap_run h m))"

definition RestoreResetVector ::
  "('h \<Rightarrow> memory \<Rightarrow> memory) \<Rightarrow> AMD_CCX_AP_LAUNCH_GLOBAL_DATA \<Rightarrow> u16 \<Rightarrow> u64 \<Rightarrow> u8 list \<Rightarrow> 'h \<Rightarrow> memory \<Rightarrow> memory option" where
  "RestoreResetVector ap_run g TotalApCoresLaunched ApStartupVector MemoryContentCopy h m =
     do { m \<leftarrow> wait_sync ap_run (unat (AllowToLaunchNextThreadLocation g)) (ucast TotalApCoresLaunched) h m;
          Some (put_bytes m (unat ApStartupVector - AP_STARTUP_CODE_OFFSET) MemoryContentCopy) }"

end
