(* ===== verification/Ccx_Start_Props.thy ===== *)
theory Ccx_Start_Props
  imports Ccx_Cmn2Zen4 Ccx_ApLaunch Ccx_Zen4
begin

text \<open>
  Properties of the code that starts the application processors: their identifiers, and the registers they
  take over from the boot processor.
\<close>

section \<open>APIC identifiers\<close>

lemma or_shift_inject:
  fixes x x' y y' :: u32
  assumes eq: "push_bit n x OR y = push_bit n x' OR y'"
    and y: "unat y < 2 ^ n" "unat y' < 2 ^ n" and x: "unat x < 2 ^ (32 - n)" "unat x' < 2 ^ (32 - n)"
  shows "x = x' \<and> y = y'"
proof -
  have low: "bit z i \<longleftrightarrow> i < k \<and> bit z i" if "unat z < 2 ^ k" for z :: u32 and i k
    by (metis bit_take_bit_iff take_bit_small_word [OF that])
  have b: "n \<le> i \<and> i < 32 \<and> bit x (i - n) \<or> bit y i \<longleftrightarrow> n \<le> i \<and> i < 32 \<and> bit x' (i - n) \<or> bit y' i" for i
    using arg_cong [OF eq, of "\<lambda>w. bit w i"] by (simp only: bit_or_iff bit_push_bit_iff possible_bit_word) auto
  have "y = y'"
  proof (rule bit_word_eqI)
    fix i show "bit y i \<longleftrightarrow> bit y' i" using b [of i] low [OF y(1), of i] low [OF y(2), of i] by linarith
  qed
  moreover have "x = x'"
  proof (rule bit_word_eqI)
    fix i
    show "bit x i \<longleftrightarrow> bit x' i"
      using b [of "n + i"] low [OF y(1), of "n + i"] low [OF y(2), of "n + i"] low [OF x(1), of i] low [OF x(2), of i] by auto
  qed
  ultimately show ?thesis by blast
qed

lemma or_shift_less:
  fixes x y :: u32
  assumes "unat y < 2 ^ n" "unat x < 2 ^ k"
  shows "unat (push_bit n x OR y) < 2 ^ (n + k)"
proof -
  have "take_bit (n + k) (push_bit n x OR y) = push_bit n x OR y"
  proof (rule bit_word_eqI)
    fix i
    have "bit y i \<Longrightarrow> i < n" "bit x (i - n) \<Longrightarrow> i - n < k"
      using assms by (metis bit_take_bit_iff take_bit_small_word)+
    then show "bit (take_bit (n + k) (push_bit n x OR y)) i \<longleftrightarrow> bit (push_bit n x OR y) i"
      by (simp only: bit_take_bit_iff bit_or_iff bit_push_bit_iff) auto
  qed
  then show ?thesis by (metis take_bit_nat_less_exp unsigned_take_bit_eq)
qed

text \<open>The conditions under which the fields of an identifier do not overlap.\<close>

definition apic_fits :: "u32 \<Rightarrow> u8 \<Rightarrow> u32 \<Rightarrow> u32 \<Rightarrow> u32 \<Rightarrow> u32 \<Rightarrow> u32 \<Rightarrow> bool" where
  "apic_fits pkg7 nt Socket Ccd Complex Core Thread \<longleftrightarrow>
     Socket < 4 \<and> Ccd \<le> ucast (pkg7_NumOfCcds pkg7) \<and> Complex \<le> ucast (pkg7_NumOfComplexes pkg7)
     \<and> Core \<le> ucast (pkg7_NumOfCores pkg7) \<and> Thread \<le> ucast nt"

lemma count_less_width:
  assumes "x \<le> (ucast (n :: u8) :: u32)"
  shows "unat x < 2 ^ unat (xUslBitWidth (ucast n))"
proof -
  have "unat (ucast n :: u32) = unat n" "unat (ucast n :: u64) = unat n" by (rule unat_ucast_widen, simp)+
  then show ?thesis using assms xUslBitWidth_bounds(1) [of "ucast n"] by (simp add: word_le_nat_alt)
qed

lemma width_le:
  assumes "unat (n :: u8) < 2 ^ k"
  shows "unat (xUslBitWidth (ucast n)) \<le> k"
proof (cases "(ucast n :: u64) = 0")
  case True
  then show ?thesis by (simp add: xUslBitWidth_def bit_width_loop.simps)
next
  case False
  have "unat (ucast n :: u64) = unat n" by (rule unat_ucast_widen) simp
  then have "2 ^ (unat (xUslBitWidth (ucast n)) - 1) < (2 :: nat) ^ k"
    using xUslBitWidth_bounds(2) [OF False] assms by linarith
  then have "unat (xUslBitWidth (ucast n)) - 1 < k" by (rule power_less_imp_less_exp [rotated]) simp
  then show ?thesis by simp
qed

lemma apic_layout_facts:
  fixes pkg7 :: u32 and nt :: u8
  assumes "nt \<le> 1"
  defines "l \<equiv> apic_layout pkg7 nt"
  shows "unat (CoreShift l) = unat nt"
    and "unat (CoreShift l) + unat (xUslBitWidth (ucast (pkg7_NumOfCores pkg7))) \<le> unat (ComplexShift l)"
    and "unat (CcdShift l) = unat (xUslBitWidth (ucast (pkg7_NumOfComplexes pkg7))) + unat (ComplexShift l)"
    and "unat (SocketShift l) = unat (xUslBitWidth (ucast (pkg7_NumOfCcds pkg7))) + unat (CcdShift l)"
    and "unat (SocketShift l) \<le> 10"
proof -
  have f: "unat (ucast (get_field lo w pkg7) :: u8) < 2 ^ w" for lo w
  proof -
    have "unat (ucast (get_field lo w pkg7) :: u8) \<le> unat (get_field lo w pkg7)"
      by (simp add: unsigned_ucast_eq take_bit_nat_less_eq_self)
    also have "\<dots> < 2 ^ w" by (rule get_field_small)
    finally show ?thesis .
  qed
  define cw xw dw where "cw = xUslBitWidth (ucast (pkg7_NumOfCores pkg7))"
    and "xw = xUslBitWidth (ucast (pkg7_NumOfComplexes pkg7))" and "dw = xUslBitWidth (ucast (pkg7_NumOfCcds pkg7))"
  have w: "unat cw \<le> 4" "unat xw \<le> 1" "unat dw \<le> 4"
    using width_le f [of 16 4] f [of 20 1] f [of 21 4]
    unfolding cw_def xw_def dw_def pkg7_NumOfCores_def pkg7_NumOfComplexes_def pkg7_NumOfCcds_def by blast+
  have nt: "unat nt \<le> 1" using assms(1) by (simp add: word_le_nat_alt)
  define xs where "xs = (if pkg7_Apic16TMode pkg7 = 1 \<and> cw + nt < 4 then 4 else cw + nt)"
  have c: "unat (cw + nt) = unat cw + unat nt" using w nt by (intro unat_plus_small) simp
  have xs: "unat cw + unat nt \<le> unat xs" "unat xs \<le> 5" using c w nt by (auto simp: xs_def word_less_nat_alt)
  have d: "unat (xw + xs) = unat xw + unat xs" using w xs by (intro unat_plus_small) simp
  have s: "unat (dw + (xw + xs)) = unat dw + unat (xw + xs)" using w xs d by (intro unat_plus_small) simp
  have l: "l = \<lparr>CoreShift = nt, ComplexShift = xs, CcdShift = xw + xs, SocketShift = dw + (xw + xs)\<rparr>"
    by (simp add: l_def apic_layout_def Let_def cw_def xw_def dw_def xs_def)
  show "unat (CoreShift l) = unat nt" "unat (CoreShift l) + unat (xUslBitWidth (ucast (pkg7_NumOfCores pkg7))) \<le> unat (ComplexShift l)"
    "unat (CcdShift l) = unat (xUslBitWidth (ucast (pkg7_NumOfComplexes pkg7))) + unat (ComplexShift l)"
    "unat (SocketShift l) = unat (xUslBitWidth (ucast (pkg7_NumOfCcds pkg7))) + unat (CcdShift l)"
    "unat (SocketShift l) \<le> 10"
    using xs d s w by (simp_all add: l flip: cw_def xw_def dw_def)
qed

lemma apic_id_inject:
  assumes nt: "nt \<le> 1" and fits: "apic_fits pkg7 nt S D X C T" "apic_fits pkg7 nt S' D' X' C' T'"
    and eq: "apic_id (apic_layout pkg7 nt) S D X C T = Some i" "apic_id (apic_layout pkg7 nt) S' D' X' C' T' = Some i"
  shows "S = S' \<and> D = D' \<and> X = X' \<and> C = C' \<and> T = T'"
proof -
  define cs xs ds ss where "cs = unat (CoreShift (apic_layout pkg7 nt))" and "xs = unat (ComplexShift (apic_layout pkg7 nt))"
    and "ds = unat (CcdShift (apic_layout pkg7 nt))" and "ss = unat (SocketShift (apic_layout pkg7 nt))"
  note f = apic_layout_facts [OF nt, of pkg7, folded cs_def xs_def ds_def ss_def]
  have sh: "cs < 32" "xs < 32" "ds < 32" "ss < 32" using f by linarith+
  have id: "apic_id (apic_layout pkg7 nt) S D X C T = Some (push_bit ss S OR (push_bit ds D OR (push_bit xs X OR (push_bit cs C OR T))))"
    for S D X C T
    using sh by (simp add: apic_id_def shl32_def word_less_nat_alt cs_def xs_def ds_def ss_def or.assoc)
  have grow: "unat y < 2 ^ m" if "unat y < 2 ^ n" "n \<le> m" for y :: u32 and n m
    using that by (meson less_le_trans one_le_numeral power_increasing)
  have part: "unat T < 2 ^ cs \<and> unat C < 2 ^ (xs - cs) \<and> unat X < 2 ^ (ds - xs) \<and> unat D < 2 ^ (ss - ds) \<and> unat S < 2 ^ 2"
    if "apic_fits pkg7 nt S D X C T" for S D X C T
  proof -
    have "unat (ucast nt :: u32) = unat nt" by (rule unat_ucast_widen) simp
    then have "unat T \<le> unat nt" using that by (simp add: apic_fits_def word_le_nat_alt)
    moreover have "unat nt = 0 \<or> unat nt = 1" using nt by (auto simp: word_le_nat_alt)
    ultimately have "unat T < 2 ^ cs" using f(1) by auto
    moreover have "unat C < 2 ^ (xs - cs)"
      by (rule grow [OF count_less_width [of C "pkg7_NumOfCores pkg7"]]) (use that f(2) in \<open>simp_all add: apic_fits_def\<close>)
    moreover have "unat X < 2 ^ unat (xUslBitWidth (ucast (pkg7_NumOfComplexes pkg7)))"
      "unat D < 2 ^ unat (xUslBitWidth (ucast (pkg7_NumOfCcds pkg7)))"
      using that by (intro count_less_width, simp add: apic_fits_def)+
    ultimately show ?thesis
      using f(3,4) that by (auto simp: apic_fits_def word_less_nat_alt)
  qed
  have le: "cs \<le> xs" "xs \<le> ds" "ds \<le> ss" using f by linarith+
  note p = part [OF fits(1)] part [OF fits(2)]
  have b1: "unat (push_bit cs C OR T) < 2 ^ xs" if "unat T < 2 ^ cs" "unat C < 2 ^ (xs - cs)" for C T :: u32
    using or_shift_less [OF that] le by simp
  have b2: "unat (push_bit xs X OR r) < 2 ^ ds" if "unat r < 2 ^ xs" "unat X < 2 ^ (ds - xs)" for X r :: u32
    using or_shift_less [OF that] le by simp
  have b3: "unat (push_bit ds D OR r) < 2 ^ ss" if "unat r < 2 ^ ds" "unat D < 2 ^ (ss - ds)" for D r :: u32
    using or_shift_less [OF that] le by simp
  define r1 r2 r3 where "r1 = push_bit cs C OR T" and "r2 = push_bit xs X OR r1" and "r3 = push_bit ds D OR r2"
  define r1' r2' r3' where "r1' = push_bit cs C' OR T'" and "r2' = push_bit xs X' OR r1'" and "r3' = push_bit ds D' OR r2'"
  note r = r1_def r2_def r3_def r1'_def r2'_def r3'_def
  have lt: "unat r1 < 2 ^ xs" "unat r1' < 2 ^ xs" "unat r2 < 2 ^ ds" "unat r2' < 2 ^ ds" "unat r3 < 2 ^ ss" "unat r3' < 2 ^ ss"
    unfolding r using p by (auto intro!: b1 b2 b3)
  have w: "unat z < 2 ^ (32 - k)" if "unat z < 2 ^ n" "n \<le> 10" "k \<le> 10" for z :: u32 and n k
    using that by (intro grow [OF that(1)]) simp
  have "push_bit ss S OR r3 = push_bit ss S' OR r3'" using eq by (simp add: id r)
  then have 1: "S = S' \<and> r3 = r3'" using p f(5) lt by (intro or_shift_inject [of ss]) (auto intro: w [of _ 2])
  then have "push_bit ds D OR r2 = push_bit ds D' OR r2'" by (simp add: r)
  then have 2: "D = D' \<and> r2 = r2'" using p f(5) le lt by (intro or_shift_inject [of ds]) (auto intro: w [of _ "ss - ds"])
  then have "push_bit xs X OR r1 = push_bit xs X' OR r1'" by (simp add: r)
  then have 3: "X = X' \<and> r1 = r1'" using p f(5) le lt by (intro or_shift_inject [of xs]) (auto intro: w [of _ "ds - xs"])
  then have "push_bit cs C OR T = push_bit cs C' OR T'" by (simp add: r)
  then have "C = C' \<and> T = T'" using p f(5) le by (intro or_shift_inject [of cs]) (auto intro: w [of _ "xs - cs"])
  then show ?thesis using 1 2 3 by blast
qed

text \<open>
  C17: threads have different APIC identifiers. With one or two threads per core, two calls of
  \<^verbatim>\<open>Zen4CalcLocalApic\<close> from the same state return the same identifier only for the same thread, as long as
  the CCD numbers do not exceed the count in the package register, which the code does not check.
\<close>

theorem apic_ids_distinct:
  assumes threads: "xUslGetThreadsPerCore cpu = 1 \<or> xUslGetThreadsPerCore cpu = 2"
    and pkg: "read_init_pkg7 True cpu ops h = Some (pkg7, h')"
    and ccd: "Ccd \<le> ucast (pkg7_NumOfCcds pkg7)" "Ccd' \<le> ucast (pkg7_NumOfCcds pkg7)"
    and id: "Zen4CalcLocalApic True cpu ops Socket Die Ccd Complex Core Thread h = Some (ApicId, h1)"
    and id': "Zen4CalcLocalApic True cpu ops Socket' Die' Ccd' Complex' Core' Thread' h = Some (ApicId, h2)"
  shows "(Socket, Die, Ccd, Complex, Core, Thread) = (Socket', Die', Ccd', Complex', Core', Thread')"
proof -
  let ?nt = "xUslGetThreadsPerCore cpu - 1"
  have nt: "?nt \<le> 1" using threads by auto
  have run: "Die = 0 \<and> apic_fits pkg7 ?nt Socket Ccd Complex Core Thread
      \<and> apic_id (apic_layout pkg7 ?nt) Socket Ccd Complex Core Thread = Some i"
    if "Zen4CalcLocalApic True cpu ops Socket Die Ccd Complex Core Thread h = Some (i, h1)"
      "Ccd \<le> ucast (pkg7_NumOfCcds pkg7)" for Socket Die Ccd Complex Core Thread i h1
  proof -
    have "Socket < 4" if "Socket < 2" using that by (simp add: word_less_nat_alt)
    then show ?thesis
      using that pkg by (auto simp: Zen4CalcLocalApic_def apic_fits_def Let_def split: if_splits Option.bind_splits)
  qed
  show ?thesis using apic_id_inject [OF nt] run [OF id ccd(1)] run [OF id' ccd(2)] by blast
qed

definition apic_cpu :: "unit cpu_ops" where
  "apic_cpu = \<lparr>cpu_cpuid = genoa_cpuid, cpu_rdmsr = (\<lambda>i h. (0, h)), cpu_wrmsr = (\<lambda>i v h. h)\<rparr>"

definition apic_bus :: "unit pci_ops" where
  "apic_bus = \<lparr>bus_rd8 = \<lambda>a h. (0, h), bus_rd16 = \<lambda>a h. (0, h), bus_rd32 = \<lambda>a h. (0x3670000, h),
     bus_rd64 = \<lambda>a h. (0, h), bus_wr8 = \<lambda>a v h. h, bus_wr16 = \<lambda>a v h. h, bus_wr32 = \<lambda>a v h. h, bus_wr64 = \<lambda>a v h. h\<rparr>"

theorem apic_ids_distinct_witness:
  "Zen4CalcLocalApic True apic_cpu apic_bus 0 0 3 0 2 1 () = Some (0x35, ())
   \<and> Zen4CalcLocalApic True apic_cpu apic_bus 1 0 3 0 2 0 () \<noteq> Some (0x35, ())"
proof -
  have t: "xUslGetThreadsPerCore apic_cpu = 1 \<or> xUslGetThreadsPerCore apic_cpu = 2" by code_simp
  have pkg: "read_init_pkg7 True apic_cpu apic_bus () = Some (0x3670000, ())" by code_simp
  have ccd: "(3 :: u32) \<le> ucast (pkg7_NumOfCcds 0x3670000)" by code_simp
  have id: "Zen4CalcLocalApic True apic_cpu apic_bus 0 0 3 0 2 1 () = Some (0x35, ())" by code_simp
  from apic_ids_distinct [OF t pkg ccd ccd id, of 1 0 0 2 0 "()"] id show ?thesis by auto
qed

section \<open>Registers of the application processors\<close>

text \<open>The entries before the terminal one.\<close>

definition live_entries :: "AP_MSR_SYNC list \<Rightarrow> AP_MSR_SYNC list" where
  "live_entries = takeWhile (\<lambda>e. MsrAddr e \<noteq> CPU_LIST_TERMINAL)"

lemma fill_msr_list_eq:
  assumes "CPU_LIST_TERMINAL \<in> MsrAddr ` set es"
  shows "fill_msr_list (msr_file c) es f =
    Some (map (\<lambda>e. e\<lparr>MsrData := f (MsrAddr e)\<rparr>) (live_entries es) @ dropWhile (\<lambda>e. MsrAddr e \<noteq> CPU_LIST_TERMINAL) es, f)"
  using assms by (induction es) (auto simp: live_entries_def msr_file_def)

lemma bit_sync_step:
  "bit (xUslMsrAndThenOr (msr_file c) a (NOT k) (v AND k) f x) n =
    (if x = a \<and> bit k n then bit v n else bit (f x) n)"
  using bit_imp_le_length [of "f x" n]
  by (auto simp: xUslMsrAndThenOr_def msr_file_def bit_or_iff bit_and_iff bit_not_iff)

lemma sync_entries:
  assumes "CPU_LIST_TERMINAL \<notin> MsrAddr ` set es" and "\<forall>e\<in>set es. MsrData e = g (MsrAddr e)"
    and "MsrAddr t = CPU_LIST_TERMINAL"
  shows "\<exists>f'. CcxSyncMiscMsrs (msr_file c) (es @ t # ts) f = Some f'
    \<and> (\<forall>x n. bit (f' x) n = (if \<exists>e\<in>set es. MsrAddr e = x \<and> bit (MsrMask e) n then bit (g x) n else bit (f x) n))"
  using assms(1,2)
proof (induction es arbitrary: f)
  case Nil
  then show ?case using assms(3) by simp
next
  case (Cons e es)
  let ?f = "xUslMsrAndThenOr (msr_file c) (MsrAddr e) (NOT (MsrMask e)) (MsrData e AND MsrMask e) f"
  obtain f' where f': "CcxSyncMiscMsrs (msr_file c) (es @ t # ts) ?f = Some f'"
    "\<And>x n. bit (f' x) n = (if \<exists>e\<in>set es. MsrAddr e = x \<and> bit (MsrMask e) n then bit (g x) n else bit (?f x) n)"
    using Cons.IH [of ?f] Cons.prems by auto
  have "bit (f' x) n = (if \<exists>e'\<in>set (e # es). MsrAddr e' = x \<and> bit (MsrMask e') n then bit (g x) n else bit (f x) n)" for x n
    using Cons.prems by (auto simp: f'(2) bit_sync_step)
  moreover have "CcxSyncMiscMsrs (msr_file c) ((e # es) @ t # ts) f = Some f'" using f'(1) Cons.prems by auto
  ultimately show ?case by blast
qed

lemma sync_list_terminated: "CPU_LIST_TERMINAL \<in> MsrAddr ` set ApMsrSyncList"
  by (simp add: ApMsrSyncList_def sync_entry_def)

text \<open>
  C18: the application processors agree with the boot processor. When the boot processor has filled the list
  of registers from its own and an application processor then runs \<^verbatim>\<open>CcxSyncMiscMsrs\<close>, every bit selected by
  the mask of an entry has the value it has on the boot processor, although some registers are listed twice
  with different masks, and every other bit of every register is unchanged.
\<close>

theorem ap_registers_synchronised:
  "\<exists>filled f'. fill_msr_list (msr_file c) ApMsrSyncList bsp = Some (filled, bsp)
    \<and> CcxSyncMiscMsrs (msr_file c') filled ap = Some f'
    \<and> (\<forall>x n. bit (f' x) n =
         (if \<exists>e\<in>set (live_entries ApMsrSyncList). MsrAddr e = x \<and> bit (MsrMask e) n then bit (bsp x) n else bit (ap x) n))"
proof -
  define es where "es = map (\<lambda>e. e\<lparr>MsrData := bsp (MsrAddr e)\<rparr>) (live_entries ApMsrSyncList)"
  have addr: "MsrAddr ` set es = MsrAddr ` set (live_entries ApMsrSyncList)" by (auto simp: es_def image_iff)
  have "CPU_LIST_TERMINAL \<notin> MsrAddr ` set es"
    unfolding addr live_entries_def by (auto dest: set_takeWhileD)
  moreover have "\<forall>e\<in>set es. MsrData e = bsp (MsrAddr e)" by (auto simp: es_def)
  moreover obtain t ts where rest: "dropWhile (\<lambda>e. MsrAddr e \<noteq> CPU_LIST_TERMINAL) ApMsrSyncList = t # ts"
    "MsrAddr t = CPU_LIST_TERMINAL"
    using sync_list_terminated
    by (cases "dropWhile (\<lambda>e. MsrAddr e \<noteq> CPU_LIST_TERMINAL) ApMsrSyncList")
      (auto simp: dropWhile_eq_Nil_conv dropWhile_eq_Cons_conv)
  ultimately obtain f' where f': "CcxSyncMiscMsrs (msr_file c') (es @ t # ts) ap = Some f'"
    "\<forall>x n. bit (f' x) n = (if \<exists>e\<in>set es. MsrAddr e = x \<and> bit (MsrMask e) n then bit (bsp x) n else bit (ap x) n)"
    using sync_entries [of es bsp t c' ts ap] by blast
  have "(\<exists>e\<in>set es. MsrAddr e = x \<and> bit (MsrMask e) n) = (\<exists>e\<in>set (live_entries ApMsrSyncList). MsrAddr e = x \<and> bit (MsrMask e) n)" for x n
    by (auto simp: es_def)
  then show ?thesis
    using fill_msr_list_eq [OF sync_list_terminated, of c bsp, folded es_def, unfolded rest(1)] f' by auto
qed

section \<open>The startup region\<close>

lemma fill_mtrr_list_Some:
  assumes "CPU_LIST_TERMINAL \<in> mtrr_MsrAddr ` set es"
  shows "\<exists>es' h'. fill_mtrr_list cpu es h = Some (es', h') \<and> map mtrr_MsrAddr es' = map mtrr_MsrAddr es"
  using assms
proof (induction es arbitrary: h)
  case (Cons e es)
  show ?case
  proof (cases "mtrr_MsrAddr e = CPU_LIST_TERMINAL")
    case False
    obtain v h1 where "cpu_rdmsr cpu (mtrr_MsrAddr e) h = (v, h1)" by fastforce
    then show ?thesis using Cons.IH [of h1] Cons.prems False by auto
  qed simp
qed simp

lemma UpdateApMtrrSettings_Some:
  assumes "CPU_LIST_TERMINAL \<in> mtrr_MsrAddr ` set es"
  shows "\<exists>es'. UpdateApMtrrSettings b es = Some es'"
  using assms by (induction es) (auto simp: Let_def)

lemma setup_runs:
  assumes "sa_Cr3 E < 0x100000000" and "CPU_LIST_TERMINAL \<in> mtrr_MsrAddr ` set (gd_ApMtrrSyncList g)"
    and "unat (SizeOfApMtrr g) \<le> BSP_MSR_SIZE"
  shows "\<exists>g' h'. SetupApStartupRegion dbg cpu E b g m h = Some (g', ap_startup_vector E,
      get_bytes m (unat (ap_startup_vector E) - AP_STARTUP_CODE_OFFSET) AP_TEMP_BUFFER_SIZE,
      put_bytes (startup_region E (SizeOfApMtrr g) m) (unat (sa_ApGdt E)) gdt_bytes, h')
    \<and> AllowToLaunchNextThreadLocation g' = ucast (ap_startup_vector E + 0xE)
    \<and> BspMsrLocation g' = ucast (ap_startup_vector E - of_nat BSP_MSR_OFFSET)"
proof -
  let ?h = "xUslMsrOr cpu MSR_SYS_CFG (BIT_64 19) h"
  obtain es h1 where 1: "fill_mtrr_list cpu (gd_ApMtrrSyncList g) ?h = Some (es, h1)"
    "map mtrr_MsrAddr es = map mtrr_MsrAddr (gd_ApMtrrSyncList g)"
    using fill_mtrr_list_Some [OF assms(2), of cpu ?h] by blast
  then have "mtrr_MsrAddr ` set es = mtrr_MsrAddr ` set (gd_ApMtrrSyncList g)" by (metis set_map)
  then obtain es' where 2: "UpdateApMtrrSettings b es = Some es'"
    using UpdateApMtrrSettings_Some [of es b] assms(2) by auto
  obtain v h2 where 3: "cpu_rdmsr cpu MSR_PATCH_LEVEL (xUslMsrAnd cpu MSR_SYS_CFG (NOT SYS_CFG_MTRR_FIX_DRAM_MOD_EN) h1) = (v, h2)"
    by fastforce
  show ?thesis using assms(1,3) by (simp add: SetupApStartupRegion_def Let_def 1(1) [simplified] 2 3)
qed





text \<open>
  C20: what the application processors find. With the descriptor table kept elsewhere, the region holds the start
  code, the jump, the descriptors, their location and CR3, each at the place the code and the assembly expect,
  and the counter is zero. But the place where the assembly expects the list of MTRR settings holds the
  address of that list and then bytes of the stack: the copy takes the address of the local variable that
  holds the pointer as its source.
\<close>

theorem startup_region_contents:
  fixes E :: startup_env
  defines "V \<equiv> unat (ap_startup_vector E)"
  assumes region: "0x240 \<le> V" "V + 0x10 < 2 ^ 32"
    and cr3: "sa_Cr3 E < 0x100000000" and list: "CPU_LIST_TERMINAL \<in> mtrr_MsrAddr ` set (gd_ApMtrrSyncList g)"
    and len: "SizeOfApMtrr g = 360"
    and gdt: "unat (sa_ApGdt E) + 72 \<le> V - 0x240 \<or> V + 0x10 \<le> unat (sa_ApGdt E)"
  shows "\<exists>g' copy m1 h1. SetupApStartupRegion dbg cpu E b g m h = Some (g', ap_startup_vector E, copy, m1, h1)
    \<and> get_bytes m1 (V - 0x240) 125 = fixed_startup_code E
    \<and> get_bytes m1 V 4 = AsmNearJump
    \<and> get_bytes m1 (V - 0x50) 72 = gdt_bytes
    \<and> get_bytes m1 (V + 4) 10 = le_bytes 2 71 @ le_bytes 8 (unat (ap_startup_vector E - 0x50))
    \<and> get_bytes m1 (V - 8) 8 = le_bytes 8 (unat (sa_Cr3 E))
    \<and> get_bytes m1 (unat (AllowToLaunchNextThreadLocation g')) 2 = [0, 0]
    \<and> get_bytes m1 (unat (BspMsrLocation g')) 360 =
        le_bytes 8 (unat (sa_ApMtrrSyncList E)) @ map (sa_above E) [0 ..< 352]"
proof -
  have len': "unat (SizeOfApMtrr g) \<le> BSP_MSR_SIZE" "unat (SizeOfApMtrr g) = 360" using len by (simp_all add: ap_layout)
  define m0 where "m0 = startup_region E (SizeOfApMtrr g) m"
  obtain g' h1 where init: "SetupApStartupRegion dbg cpu E b g m h = Some (g', ap_startup_vector E,
      get_bytes m (V - 0x240) 0x250, put_bytes m0 (unat (sa_ApGdt E)) gdt_bytes, h1)"
    and loc: "AllowToLaunchNextThreadLocation g' = ucast (ap_startup_vector E + 0xE)"
    and msr: "BspMsrLocation g' = ucast (ap_startup_vector E - of_nat BSP_MSR_OFFSET)"
    using setup_runs [OF cr3 list len'(1), of dbg cpu b m h] unfolding m0_def V_def by (auto simp: ap_layout)
  have "unat (ap_startup_vector E + 0xE) = V + 0xE" "unat (ap_startup_vector E - 0x1C0) = V - 0x1C0"
    using region unfolding V_def by (simp add: unat_plus_small, subst unat_minus_small) (simp_all add: word_le_nat_alt)
  then have locs: "unat (AllowToLaunchNextThreadLocation g') = V + 0xE" "unat (BspMsrLocation g') = V - 0x1C0"
    using region unfolding loc msr by (simp_all add: unsigned_ucast_eq take_bit_nat_eq_self ap_layout)
  have same: "get_bytes (put_bytes m0 (unat (sa_ApGdt E)) gdt_bytes) a n = get_bytes m0 a n"
    if "V - 0x240 \<le> a" "a + n \<le> V + 0x10" for a n
    using gdt that by (intro get_put_apart) auto
  have put_same: "get_bytes (put_bytes m' a bs) a n = bs" if "length bs = n" for m' a bs n
    using get_put_same [of m' a bs] that by simp
  obtain W where W: "V = W + 0x240" using region(1) by (metis le_add_diff_inverse2)
  note parts = m0_def startup_region_def Let_def V_def [symmetric] ap_layout W
  have "get_bytes m0 (V - 0x240) 125 = fixed_startup_code E" "get_bytes m0 V 4 = AsmNearJump"
    "get_bytes m0 (V - 0x50) 72 = gdt_bytes" "get_bytes m0 (V - 8) 8 = le_bytes 8 (unat (sa_Cr3 E))"
    "get_bytes m0 (V + 4) 10 = le_bytes 2 71 @ le_bytes 8 (unat (ap_startup_vector E - 0x50))"
    "get_bytes m0 (V - 0x1C0) 360 = copied_mtrr_list E (SizeOfApMtrr g)"
    using region len'(2) by (simp_all add: parts get_put_apart put_same)
  moreover have "get_bytes m0 (V + 0xE) 2 = [0, 0]"
    using region len'(2) by (simp add: parts get_put_apart) (simp add: get_bytes_def memset_zero_def numeral_2_eq_2)
  moreover have "copied_mtrr_list E (SizeOfApMtrr g) = le_bytes 8 (unat (sa_ApMtrrSyncList E)) @ map (sa_above E) [0 ..< 352]"
    using len'(2) by (simp add: copied_mtrr_list_def)
  ultimately show ?thesis using init locs region by (simp add: same)
qed

definition launch_sample :: startup_env where
  "launch_sample = \<lparr>sa_ApAsmCode = 0x9000, sa_ApLaunchGlobalData = 0x8000, sa_ApStack = 0x7000, sa_ApGdt = 0x2000,
     sa_ApMtrrSyncList = 0x6000, sa_above = \<lambda>_. 0, sa_Cr3 = 0x5000,
     CONFIG_PSP_BIOS_BIN_BASE = 0x1000, CONFIG_PSP_BIOS_BIN_SIZE = 0\<rparr>"

definition launch_data :: AMD_CCX_AP_LAUNCH_GLOBAL_DATA where
  "launch_data = \<lparr>BspMsrLocation = 0, AllowToLaunchNextThreadLocation = 0, ApStackBasePtr = 0, ApGdtDescriptor_Limit = 0,
     ApGdtDescriptor_Base = 0, SleepType = 0, SizeOfApMtrr = 360, gd_ApMtrrSyncList = ApMtrrSyncList,
     gd_ApMsrSyncList = ApMsrSyncList, BspPatchLevel = 0, UcodePatchAddr = 0,
     ResetTableCriteria = \<lparr>SocLogicalId = \<lparr>id_Family = 0, id_Revision = 0\<rparr>, CoreLogicalId = \<lparr>id_Family = 0, id_Revision = 0\<rparr>,
       ProfileFeats = 0, PlatformFeats = 0\<rparr>, CacWeights = replicate 23 0\<rparr>"


lemma launch_sample_facts:
  "unat (ap_startup_vector launch_sample) = 0xFF0" "sa_Cr3 launch_sample < 0x100000000"
  "CPU_LIST_TERMINAL \<in> mtrr_MsrAddr ` set (gd_ApMtrrSyncList launch_data)" "SizeOfApMtrr launch_data \<le> 0x170"
  by (simp_all add: ap_startup_vector_def launch_sample_def launch_data_def ApMtrrSyncList_def)



theorem startup_region_contents_witness:
  "\<exists>g' copy m1 h1. SetupApStartupRegion True apic_cpu launch_sample (CcxInputBlock (gCcxConfigData default_kconfig))
       launch_data (\<lambda>_. 7) () = Some (g', ap_startup_vector launch_sample, copy, m1, h1)
    \<and> get_bytes m1 0xFF0 4 = AsmNearJump
    \<and> get_bytes m1 (unat (BspMsrLocation g')) 360 = le_bytes 8 0x6000 @ replicate 352 0"
proof -
  have region: "0x240 \<le> unat (ap_startup_vector launch_sample)" "unat (ap_startup_vector launch_sample) + 0x10 < 2 ^ 32"
    by (simp_all add: launch_sample_facts)
  have len: "SizeOfApMtrr launch_data = 360" by (simp add: launch_data_def)
  have gdt: "unat (sa_ApGdt launch_sample) + 72 \<le> unat (ap_startup_vector launch_sample) - 0x240
      \<or> unat (ap_startup_vector launch_sample) + 0x10 \<le> unat (sa_ApGdt launch_sample)"
    unfolding launch_sample_facts by (simp add: launch_sample_def)
  from startup_region_contents [where dbg = True and cpu = apic_cpu
      and b = "CcxInputBlock (gCcxConfigData default_kconfig)" and m = "\<lambda>_. 7" and h = "()",
      OF region launch_sample_facts(2,3) len gdt]
  obtain g' copy m1 h1 where "SetupApStartupRegion True apic_cpu launch_sample (CcxInputBlock (gCcxConfigData default_kconfig))
       launch_data (\<lambda>_. 7) () = Some (g', ap_startup_vector launch_sample, copy, m1, h1)"
    "get_bytes m1 (unat (ap_startup_vector launch_sample)) 4 = AsmNearJump"
    "get_bytes m1 (unat (BspMsrLocation g')) 360 =
        le_bytes 8 (unat (sa_ApMtrrSyncList launch_sample)) @ map (sa_above launch_sample) [0 ..< 352]"
    by (elim exE conjE) blast
  moreover have "unat (sa_ApMtrrSyncList launch_sample) = 0x6000" "map (sa_above launch_sample) [0 ..< 352] = replicate 352 0"
    unfolding launch_sample_def by (simp_all add: map_replicate_const del: upt_rec_numeral)
  ultimately show ?thesis unfolding launch_sample_facts by auto
qed

end
