(* ===== verification/Ccx_DownCore.thy ===== *)
theory Ccx_DownCore
  imports Ccx_Cmn2Zen4 Sil_Smu_V13
begin

text \<open>
  Disabling cores and CCDs: \<^verbatim>\<open>CcxDownCoreInit.c\<close>, \<^verbatim>\<open>SocServices.c\<close> and \<^verbatim>\<open>Zen4DownCoreInit.c\<close>. The number of cores
  comes from the APOB, the fuses from the SMU; a request that is not met is written to the soft downcore register of
  each CCD and takes effect after a reset. \<open>None\<close> stands for a failed assertion, an index outside an array, an
  undefined shift, a call through a null pointer or a service that does not return. Variables the code declares
  without a value start with arbitrary ones, which are arguments.
\<close>

section \<open>Services\<close>

text \<open>
  The interface \<^verbatim>\<open>SMU_IP2IP_API\<close>, with the functions the CCX code calls. Results behind pointers are \<open>None\<close> when they
  are not written; \<open>SmuDisableSmt\<close> is \<open>None\<close> for a null function pointer.
\<close>

record 'h SMU_IP2IP_API =
  SmuServiceRequest :: "'h service"
  SmuReadBrandString :: "sil_state \<Rightarrow> u32 \<Rightarrow> u32 \<Rightarrow> 'h \<Rightarrow> (SIL_STATUS \<times> u8 list \<times> 'h) option"
  SmuLaunchThread :: "sil_state \<Rightarrow> u32 \<Rightarrow> u32 \<Rightarrow> u32 \<Rightarrow> u32 \<Rightarrow> u32 \<Rightarrow> u32 \<Rightarrow> APOBLIB_INFO \<Rightarrow> 'h
                        \<Rightarrow> (SIL_STATUS \<times> APOBLIB_INFO \<times> 'h) option"
  SmuReadBistInfo :: "sil_state \<Rightarrow> u8 \<Rightarrow> u8 \<Rightarrow> 'h \<Rightarrow> (SIL_STATUS \<times> u32 option \<times> 'h) option"
  SmuReadCacWeights :: "u64 list \<Rightarrow> SIL_STATUS \<times> u64 list"
  SmuRegisterWrite :: "sil_state \<Rightarrow> u32 \<Rightarrow> u32 \<Rightarrow> u32 \<Rightarrow> 'h \<Rightarrow> (SIL_STATUS \<times> 'h) option"
  SmuDisableSmt :: "('h \<Rightarrow> (SIL_STATUS \<times> 'h) option) option"
  SmuGetOpnCorePresence :: "sil_state \<Rightarrow> u32 \<Rightarrow> 'h
                        \<Rightarrow> (SIL_STATUS \<times> u32 option \<times> u32 option \<times> u32 option \<times> bool option \<times> 'h) option"
  SmuGetOpnCorePresenceEx :: "sil_state \<Rightarrow> u32 \<Rightarrow> u32 \<Rightarrow> u32 \<Rightarrow> 'h \<Rightarrow> (SIL_STATUS \<times> opn_result \<times> 'h) option"

text \<open>The table of the V13 services. It has no \<open>SmuDisableSmt\<close>, and no service to read CAC weights.\<close>

definition mSmuV13Api :: "'h smu_env \<Rightarrow> nat \<Rightarrow> fuse_vars \<Rightarrow> launch_vars \<Rightarrow> 'h SMU_IP2IP_API" where
  "mSmuV13Api env plat fv lv =
    \<lparr>SmuServiceRequest = SmuServiceRequestV13 (env_dbg env) (env_ops env),
     SmuReadBrandString = SmuReadBrandStringV13 env,
     SmuLaunchThread = SmuLaunchThreadV13 env plat lv,
     SmuReadBistInfo = (\<lambda>s InstanceId PhysicalCcx. SmuReadBistInfoV13 env s InstanceId PhysicalCcx True),
     SmuReadCacWeights = (\<lambda>CacWeights. (SmuReadCacWeightsV13, CacWeights)),
     SmuRegisterWrite = SmuRegisterWriteCommon env,
     SmuDisableSmt = None,
     SmuGetOpnCorePresence = (\<lambda>s die. SmuGetOpnCorePresenceV13 env fv s die True True True True),
     SmuGetOpnCorePresenceEx = (\<lambda>s die coreSize smtSize.
        SmuGetOpnCorePresenceExV13 env fv s die True True True (Some coreSize) True (Some smtSize))\<rparr>"

text \<open>What the code uses of its environment: assertions, the processor, PCI, the APOB address and the SMU.\<close>

record 'h ccx_env =
  ce_dbg :: bool
  ce_cpu :: "'h cpu_ops"
  ce_ops :: "'h pci_ops"
  ce_plat :: nat
  ce_SmuApi :: "'h SMU_IP2IP_API"

text \<open>\<^verbatim>\<open>DfGetProcessorInfo\<close> with a null pointer for the root bridges.\<close>

definition DfGetProcessorDies :: "'h pci_ops \<Rightarrow> nat \<Rightarrow> 'h \<Rightarrow> (nat option \<times> 'h) option" where
  "DfGetProcessorDies ops Socket h =
     do { (n, h) \<leftarrow> DfXGetNumberOfProcessorsPresent ops h;
          Some (if n \<le> Socket then None else Some DfGetNumberOfDiesOnSocket, h) }"

definition SocGetSoftDowncoreAddress :: "u32 \<Rightarrow> u32" where
  "SocGetSoftDowncoreAddress CcdIndex =
     (if CcdIndex < 8 then 0x30081020 + push_bit 25 CcdIndex else 0x4A081020 + push_bit 25 (CcdIndex - 8))"

definition SocIsOneCcdModeSupported :: bool where "SocIsOneCcdModeSupported \<longleftrightarrow> False"
definition SocIsS3Supported :: bool where "SocIsS3Supported \<longleftrightarrow> False"
definition SocIsGameModeSupported :: bool where "SocIsGameModeSupported \<longleftrightarrow> False"

section \<open>Modes\<close>

definition CCD_MODE_AUTO :: u8 where "CCD_MODE_AUTO = 0"
definition CCD_MODE_8_CCDS :: u8 where "CCD_MODE_8_CCDS = 8"
definition CCX_DOWN_CORE_AUTO :: u8 where "CCX_DOWN_CORE_AUTO = 0"
definition CCX_DOWN_CORE_7_0 :: u8 where "CCX_DOWN_CORE_7_0 = 10"
definition CCX_DOWN_CORE_4_4 :: u8 where "CCX_DOWN_CORE_4_4 = 11"
definition CCX_DOWN_CORE_MAX :: u8 where "CCX_DOWN_CORE_MAX = 16"

text \<open>The count and the mask of a CCD mode; mode 1 leaves the two variables of the caller as they are.\<close>

definition GetZen4DesiredCcdCount :: "u8 \<Rightarrow> u32 \<times> u32 \<Rightarrow> u32 \<times> u32" where
  "GetZen4DesiredCcdCount CcdMode old =
     (if CcdMode = 11 then (11, 0x800) else if CcdMode = 10 then (10, 0xC00)
      else if CcdMode = 9 then (9, 0xE00) else if CcdMode = 8 then (8, 0xF00)
      else if CcdMode = 7 then (7, 0xF80) else if CcdMode = 6 then (6, 0xFC0)
      else if CcdMode = 5 then (5, 0xFE0) else if CcdMode = 4 then (4, 0xFF0)
      else if CcdMode = 3 then (3, 0xFF8) else if CcdMode = 2 then (2, 0xFFC)
      else if CcdMode = 1 then (if SocIsOneCcdModeSupported then (1, 0xFFE) else old)
      else (0xFFFFFFFF, 0))"

text \<open>The count and the mask of a downcore mode, in the order of the enumeration; other modes keep the defaults.\<close>

definition desired_cores :: "u8 \<Rightarrow> u32 \<times> u32" where
  "desired_cores DownCoreMode =
     (let modes = [(0xFFFFFFFF, 0), (1, 0xFE), (1, 0xFEFE), (2, 0xFC), (3, 0xF8), (2, 0xFCFC), (4, 0xF0), (3, 0xF8F8),
                   (5, 0xE0), (6, 0xC0), (7, 0x80), (4, 0xF0F0), (5, 0xE0E0), (6, 0xC0C0), (7, 0x8080), (6, 0xE0C0)]
      in if unat DownCoreMode < length modes then modes ! unat DownCoreMode else (0xFFFFFFFF, 0))"

section \<open>Built-in self test\<close>

text \<open>One CCD: the test results of its cores that are not fused off, in the upper half, and of its L3 in bit 0.\<close>

definition bist_ccd ::
  "'h ccx_env \<Rightarrow> sil_state \<Rightarrow> u32 \<Rightarrow> u32 \<Rightarrow> u32 \<Rightarrow> u32 \<Rightarrow> nat \<Rightarrow> u32 \<times> bool \<times> 'h \<Rightarrow> (u32 \<times> bool \<times> 'h) option" where
  "bist_ccd env s SystemDieLoop CcdPresentFuse CoreDisFuse CoreCount Ccd = (\<lambda>(BistData, Failure, h).
     if bit CcdPresentFuse Ccd then
       do { (Status, r, h) \<leftarrow> SmuReadBistInfo (ce_SmuApi env) s (ucast SystemDieLoop) (of_nat Ccd) h;
            let BistData = out_value r BistData;
            c_assert (ce_dbg env) (Status = SilPass);
            sil_assert (CoreCount \<le> 32);
            let core_failed = list_ex (\<lambda>Core. \<not> bit CoreDisFuse Core \<and> \<not> bit (drop_bit 16 BistData) Core)
                                [0 ..< unat CoreCount];
            Some (BistData, Failure \<or> core_failed \<or> \<not> bit BistData 0, h) }
     else Some (BistData, Failure, h))"

record bist_vars =
  bv_DieCount :: nat
  bv_CoreCount :: u32
  bv_CcdPresentFuse :: u32
  bv_CoreDisFuse :: u32
  bv_BistData :: u32

definition bist_die ::
  "'h ccx_env \<Rightarrow> sil_state \<Rightarrow> nat \<Rightarrow> nat \<Rightarrow> bist_vars \<times> bool \<times> u32 \<times> APOBLIB_INFO \<times> 'h
     \<Rightarrow> (bist_vars \<times> bool \<times> u32 \<times> APOBLIB_INFO \<times> 'h) option" where
  "bist_die env s Socket Die = (\<lambda>(v, Failure, SystemDieLoop, g, h).
     do { (_, t, g) \<leftarrow> GetCoreTopologyOnDie (ce_plat env) (mem s) (of_nat Socket) (of_nat Die) g;
          let CoreCount = out_value (map_option (\<lambda>(_, _, n, _). n) t) (bv_CoreCount v);
          (Status, p, _, c, _, h) \<leftarrow> SmuGetOpnCorePresence (ce_SmuApi env) s SystemDieLoop h;
          c_assert (ce_dbg env) (Status = SilPass);
          let CcdPresentFuse = out_value p (bv_CcdPresentFuse v);
          let CoreDisFuse = out_value c (bv_CoreDisFuse v);
          (BistData, Failure, h) \<leftarrow> for_each (bist_ccd env s SystemDieLoop CcdPresentFuse CoreDisFuse CoreCount)
                                      [0 ..< unat MAX_CCDS_PER_DIE] (bv_BistData v, Failure, h);
          Some (v\<lparr>bv_CoreCount := CoreCount, bv_CcdPresentFuse := CcdPresentFuse, bv_CoreDisFuse := CoreDisFuse,
                  bv_BistData := BistData\<rparr>, Failure, SystemDieLoop + 1, g, h) })"

definition bist_socket ::
  "'h ccx_env \<Rightarrow> sil_state \<Rightarrow> nat \<Rightarrow> bist_vars \<times> bool \<times> u32 \<times> APOBLIB_INFO \<times> 'h
     \<Rightarrow> (bist_vars \<times> bool \<times> u32 \<times> APOBLIB_INFO \<times> 'h) option" where
  "bist_socket env s Socket = (\<lambda>(v, Failure, SystemDieLoop, g, h).
     do { (d, h) \<leftarrow> DfGetProcessorDies (ce_ops env) Socket h;
          let v = v\<lparr>bv_DieCount := out_value d (bv_DieCount v)\<rparr>;
          for_each (bist_die env s Socket) [0 ..< bv_DieCount v] (v, Failure, SystemDieLoop, g, h) })"

text \<open>The status of a missing DF interface is returned as the truth value of the function.\<close>

definition IsCcdBistFailure ::
  "'h ccx_env \<Rightarrow> bist_vars \<Rightarrow> sil_state \<Rightarrow> APOBLIB_INFO \<Rightarrow> 'h \<Rightarrow> (bool \<times> APOBLIB_INFO \<times> 'h) option" where
  "IsCcdBistFailure env v s g h =
     do { (Status, _) \<leftarrow> SilGetIp2IpApi (ce_dbg env) (id_val SilId_SmuClass) s;
          if Status \<noteq> SilPass then Some (False, g, h)
          else do { (Status, _) \<leftarrow> SilGetIp2IpApi (ce_dbg env) (id_val SilId_DfClass) s;
                    if Status \<noteq> SilPass then Some (status_code Status \<noteq> 0, g, h)
          else do { (Status, ActionOnBistFailure, g) \<leftarrow> ApobGetActionOnBistFailure (ce_plat env) (mem s) g;
                    if Status \<noteq> SilPass then Some (False, g, h)
                    else if ActionOnBistFailure = Some 0 then Some (False, g, h)
          else do { (SocketCount, h) \<leftarrow> DfXGetNumberOfProcessorsPresent (ce_ops env) h;
                    (_, CcdBistFailure, _, g, h) \<leftarrow> for_each (bist_socket env s) [0 ..< SocketCount] (v, False, 0, g, h);
                    Some (CcdBistFailure, g, h) } } } }"

section \<open>State of the downcore code\<close>

text \<open>
  The local variables of \<^verbatim>\<open>CcxDownCoreInit\<close>. A socket has one die (\<^verbatim>\<open>CCX_MAX_DIES_PER_SOCKET\<close>), so \<open>dv_PhysCcdNumber\<close>
  is indexed by the socket and the CCD.
\<close>

record downcore_vars =
  dv_DieCount :: nat
  dv_CcdCount :: u32
  dv_ComplexCount :: u32
  dv_CoreCount :: u32
  dv_ThreadCount :: u32
  dv_CcdDisMask :: u32
  dv_CoreDisMask :: u32
  dv_DesiredCcdCount :: u32
  dv_DesiredCoreCount :: u32
  dv_CcdPresentFuse :: u32
  dv_CcdDownFuse :: u32
  dv_CoreDisFuse :: "u32 list"
  dv_SmtEnabledByFuse :: "bool list"
  dv_ThrdPerCoreFuse :: u32
  dv_PhysCcdNumber :: "u8 list list"
  dv_DownCoreBitMap :: "u32 list"
  dv_DownCoreBitMapAvailable :: bool
  dv_AlreadyDownCored :: bool
  dv_Met :: bool
  dv_CcdAttainable :: bool
  dv_CoreAttainable :: bool
  dv_IssueReset :: bool
  dv_EnCoreLimit :: u32
  dv_CcdMode :: u8
  dv_DownCoreMode :: u8
  dv_SmuArg :: "u32 list"
  dv_SystemDieLoop :: u32

definition MaxCcdsPerSocket :: nat where "MaxCcdsPerSocket = 12"

section \<open>Topology and fuses of a die\<close>

definition phys_ccd_step ::
  "'h ccx_env \<Rightarrow> sil_state \<Rightarrow> nat \<Rightarrow> nat \<Rightarrow> nat \<Rightarrow> u8 list list \<times> APOBLIB_INFO \<Rightarrow> (u8 list list \<times> APOBLIB_INFO) option" where
  "phys_ccd_step env s Socket Die CcdLoop = (\<lambda>(nums, g).
     do { sil_assert (Socket < 2 \<and> Die < 1 \<and> CcdLoop < MaxCcdsPerSocket);
          (_, r, g) \<leftarrow> ApobGetPhysCcdNumber (ce_plat env) (mem s) (apob_instance (of_nat Socket) (of_nat Die)) CcdLoop g;
          let p = out_value r (nums ! Socket ! CcdLoop);
          Some (nums[Socket := (nums ! Socket)[CcdLoop := p]], g) })"

definition read_topology ::
  "'h ccx_env \<Rightarrow> sil_state \<Rightarrow> nat \<Rightarrow> nat \<Rightarrow> downcore_vars \<Rightarrow> APOBLIB_INFO \<Rightarrow> (downcore_vars \<times> APOBLIB_INFO) option" where
  "read_topology env s Socket Die v g =
     do { (_, t, g) \<leftarrow> GetCoreTopologyOnDie (ce_plat env) (mem s) (of_nat Socket) (of_nat Die) g;
          let v = (case t of None \<Rightarrow> v
                   | Some (c, x, n, t) \<Rightarrow>
                       v\<lparr>dv_CcdCount := c, dv_ComplexCount := x, dv_CoreCount := n, dv_ThreadCount := t\<rparr>);
          (nums, g) \<leftarrow> for_each (phys_ccd_step env s Socket Die) [0 ..< unat (dv_CcdCount v)] (dv_PhysCcdNumber v, g);
          Some (v\<lparr>dv_PhysCcdNumber := nums\<rparr>, g) }"

text \<open>The fuses of each CCD, or those of the die for all CCDs.\<close>

definition read_fuses ::
  "'h ccx_env \<Rightarrow> sil_state \<Rightarrow> downcore_vars \<Rightarrow> 'h \<Rightarrow> (downcore_vars \<times> 'h) option" where
  "read_fuses env s v h =
     do { (SilStatus, r, h) \<leftarrow> SmuGetOpnCorePresenceEx (ce_SmuApi env) s (dv_SystemDieLoop v) 48 12 h;
          let v = v\<lparr>dv_CcdPresentFuse := out_value (opn_CcdEnableMap r) (dv_CcdPresentFuse v),
                    dv_CcdDownFuse := out_value (opn_CcdDisableMap r) (dv_CcdDownFuse v),
                    dv_CoreDisFuse := out_value (opn_CoreDisMap r) (dv_CoreDisFuse v),
                    dv_SmtEnabledByFuse := out_value (opn_SmtEnable r) (dv_SmtEnabledByFuse v)\<rparr>;
          if SilStatus = SilPass then Some (v, h)
          else do { (SilStatus, p, d, c, t, h) \<leftarrow> SmuGetOpnCorePresence (ce_SmuApi env) s (dv_SystemDieLoop v) h;
                    c_assert (ce_dbg env) (SilStatus = SilPass);
                    Some (v\<lparr>dv_CcdPresentFuse := out_value p (dv_CcdPresentFuse v),
                            dv_CcdDownFuse := out_value d (dv_CcdDownFuse v),
                            dv_CoreDisFuse := replicate MaxCcdsPerSocket (out_value c (hd (dv_CoreDisFuse v))),
                            dv_SmtEnabledByFuse := replicate MaxCcdsPerSocket (out_value t (hd (dv_SmtEnabledByFuse v)))\<rparr>, h) } }"

definition CcdDownByFuseCount :: "downcore_vars \<Rightarrow> u32" where
  "CcdDownByFuseCount v = xUslGetSetBitCount (dv_CcdDownFuse v AND dv_CcdPresentFuse v)"

definition CcdPresentByFuseCount :: "downcore_vars \<Rightarrow> u32" where
  "CcdPresentByFuseCount v = xUslGetSetBitCount (dv_CcdPresentFuse v)"

definition CoreDisByFuseCount :: "downcore_vars \<Rightarrow> u32" where
  "CoreDisByFuseCount v = sum_list (map xUslGetSetBitCount (dv_CoreDisFuse v))"

text \<open>The least number of cores that are not fused off, over all complexes of all CCDs.\<close>

definition limit_step :: "nat \<Rightarrow> u32 \<Rightarrow> u32 \<Rightarrow> u32" where
  "limit_step CcxLoop CoreDisFuse EnCoreLimit =
     (let CoreDisByFuseCountInCcx = xUslGetSetBitCount (drop_bit (CcxLoop * 8) CoreDisFuse AND 0xFF)
      in if MAX_CORES_PER_COMPLEX - CoreDisByFuseCountInCcx < EnCoreLimit
         then MAX_CORES_PER_COMPLEX - CoreDisByFuseCountInCcx else EnCoreLimit)"

definition core_limit :: "downcore_vars \<Rightarrow> u32 option" where
  "core_limit v =
     do { sil_assert (dv_ComplexCount v \<le> 4);
          Some (fold (\<lambda>w. fold (\<lambda>CcxLoop. limit_step CcxLoop w) [0 ..< unat (dv_ComplexCount v)])
                  (dv_CoreDisFuse v) (dv_EnCoreLimit v)) }"

section \<open>Cores that are available\<close>

text \<open>The loops over the cores of a complex and the complexes of a CCD, which end at the first that is not present.\<close>

fun core_scan ::
  "nat \<Rightarrow> memory \<Rightarrow> u32 \<Rightarrow> nat \<Rightarrow> nat \<Rightarrow> nat list \<Rightarrow> APOBLIB_INFO \<Rightarrow> (u8 list \<times> APOBLIB_INFO) option" where
  "core_scan plat m inst CcdLoop CcxLoop [] g = Some ([], g)"
| "core_scan plat m inst CcdLoop CcxLoop (CoreLoop # is) g =
     do { (SilStatus, PhyCore, g) \<leftarrow> ApobGetPhysCoreNumber plat m inst CcdLoop CcxLoop CoreLoop g;
          case PhyCore of
            None \<Rightarrow> Some ([], g)
          | Some p \<Rightarrow> if SilStatus \<noteq> SilPass \<or> p = CCX_NOT_PRESENT then Some ([], g)
              else do { (ps, g) \<leftarrow> core_scan plat m inst CcdLoop CcxLoop is g; Some (p # ps, g) } }"

fun ccx_scan ::
  "nat \<Rightarrow> memory \<Rightarrow> u32 \<Rightarrow> nat \<Rightarrow> u32 \<Rightarrow> nat list \<Rightarrow> APOBLIB_INFO \<Rightarrow> ((u8 \<times> u8) list \<times> APOBLIB_INFO) option" where
  "ccx_scan plat m inst CcdLoop CoreCount [] g = Some ([], g)"
| "ccx_scan plat m inst CcdLoop CoreCount (CcxLoop # is) g =
     do { (SilStatus, PhyCcx, g) \<leftarrow> ApobGetPhysComplexNumber plat m inst CcdLoop CcxLoop g;
          case PhyCcx of
            None \<Rightarrow> Some ([], g)
          | Some x \<Rightarrow> if SilStatus \<noteq> SilPass \<or> x = CCX_NOT_PRESENT then Some ([], g)
              else do { (ps, g) \<leftarrow> core_scan plat m inst CcdLoop CcxLoop [0 ..< unat CoreCount] g;
                        (qs, g) \<leftarrow> ccx_scan plat m inst CcdLoop CoreCount is g;
                        Some (map (Pair x) ps @ qs, g) } }"

definition ccd_cores ::
  "'h ccx_env \<Rightarrow> sil_state \<Rightarrow> u32 \<Rightarrow> downcore_vars \<Rightarrow> nat \<Rightarrow> APOBLIB_INFO \<Rightarrow> ((u8 \<times> u8) list \<times> APOBLIB_INFO) option" where
  "ccd_cores env s inst v CcdLoop g =
     ccx_scan (ce_plat env) (mem s) inst CcdLoop (dv_CoreCount v) [0 ..< unat (dv_ComplexCount v)] g"

definition available_cores ::
  "'h ccx_env \<Rightarrow> sil_state \<Rightarrow> u32 \<Rightarrow> downcore_vars \<Rightarrow> APOBLIB_INFO \<Rightarrow> (u32 \<times> APOBLIB_INFO) option" where
  "available_cores env s inst v g =
     for_each (\<lambda>CcdLoop (AvailableCoreCount, g).
         do { (ps, g) \<leftarrow> ccd_cores env s inst v CcdLoop g; Some (AvailableCoreCount + of_nat (length ps), g) })
       [0 ..< unat (dv_CcdCount v)] (0, g)"

text \<open>The map of the available cores of a CCD; a shift out of the type is undefined.\<close>

fun core_map :: "(u8 \<times> u8) list \<Rightarrow> u32 \<Rightarrow> u32 option" where
  "core_map [] AvailableCoreMap = Some AvailableCoreMap"
| "core_map ((PhyCcx, PhyCore) # ps) AvailableCoreMap =
     do { sil_assert (unat PhyCore + unat PhyCcx * 8 < 31);
          core_map ps (AvailableCoreMap OR push_bit (unat PhyCcx * 8) (push_bit (unat PhyCore) 1)) }"

fun bitmap_met ::
  "'h ccx_env \<Rightarrow> sil_state \<Rightarrow> u32 \<Rightarrow> downcore_vars \<Rightarrow> nat list \<Rightarrow> APOBLIB_INFO \<Rightarrow> (bool \<times> APOBLIB_INFO) option" where
  "bitmap_met env s inst v [] g = Some (True, g)"
| "bitmap_met env s inst v (CcdLoop # is) g =
     do { (ps, g) \<leftarrow> ccd_cores env s inst v CcdLoop g;
          AvailableCoreMap \<leftarrow> core_map ps 0;
          if AvailableCoreMap \<noteq> NOT (dv_DownCoreBitMap v ! CcdLoop) AND 0xFFFF then Some (False, g)
          else bitmap_met env s inst v is g }"

section \<open>The request\<close>

definition set_desired :: "downcore_vars \<Rightarrow> downcore_vars" where
  "set_desired v = v\<lparr>
     dv_DesiredCcdCount := if dv_DesiredCcdCount v = 0xFFFFFFFF then dv_CcdCount v else dv_DesiredCcdCount v,
     dv_DesiredCoreCount := if dv_DesiredCoreCount v = 0xFFFFFFFF then dv_CoreCount v else dv_DesiredCoreCount v\<rparr>"

text \<open>Cores or CCDs that are missing and not fused off were removed by an earlier request.\<close>

definition downcored :: "downcore_vars \<Rightarrow> u32 \<Rightarrow> bool" where
  "downcored v AvailableCoreCount \<longleftrightarrow>
     dv_CcdCount v + CcdDownByFuseCount v < CcdPresentByFuseCount v
     \<or> AvailableCoreCount + CoreDisByFuseCount v < MAX_CORES_PER_COMPLEX * dv_ComplexCount v * dv_CcdCount v"

definition note_downcored :: "u32 \<Rightarrow> downcore_vars \<Rightarrow> downcore_vars" where
  "note_downcored AvailableCoreCount v =
     (if downcored v AvailableCoreCount then v\<lparr>dv_AlreadyDownCored := True, dv_CcdDisMask := 0, dv_CoreDisMask := 0\<rparr> else v)"

definition load_bitmap :: "CCXCLASS_INPUT_BLK \<Rightarrow> downcore_vars \<Rightarrow> downcore_vars option" where
  "load_bitmap b v =
     do { sil_assert (unat (dv_CcdCount v) \<le> MaxCcdsPerSocket);
          let n = unat (dv_CcdCount v);
          let bitmap = map ucast (take n (AmdCoreDisCcd b)) @ drop n (dv_DownCoreBitMap v);
          Some (v\<lparr>dv_DownCoreBitMap := bitmap,
                  dv_DownCoreBitMapAvailable := dv_DownCoreBitMapAvailable v \<or> list_ex (\<lambda>w. w \<noteq> 0) bitmap\<rparr>) }"

text \<open>The modes that stop the reset loop after cores were removed for the sake of the xAPIC mode.\<close>

definition xapic_modes :: "u8 \<Rightarrow> u32 \<Rightarrow> downcore_vars \<Rightarrow> downcore_vars" where
  "xapic_modes ApicMode SocketCount v =
     (let width = (\<lambda>n :: u32. unat (xUslBitWidth (ucast (n - 1))))
      in if ApicMode = xApicMode \<and> dv_CcdCount v = 8
            \<and> 4 < width SocketCount + width (CcdPresentByFuseCount v - CcdDownByFuseCount v) + width (dv_ComplexCount v)
         then v\<lparr>dv_CcdMode := CCD_MODE_8_CCDS,
                dv_DownCoreMode := if 1 < dv_ComplexCount v then CCX_DOWN_CORE_4_4 else CCX_DOWN_CORE_7_0,
                dv_DownCoreBitMapAvailable := False\<rparr>
         else v)"

definition check_counts :: "downcore_vars \<Rightarrow> downcore_vars" where
  "check_counts v =
     (let v = (if dv_CcdCount v < dv_DesiredCcdCount v then v\<lparr>dv_CcdAttainable := False, dv_CcdDisMask := 0\<rparr> else v);
          v = (if dv_DesiredCcdCount v = dv_CcdCount v then v\<lparr>dv_CcdDisMask := 0\<rparr> else v\<lparr>dv_Met := False\<rparr>);
          v = (if dv_CoreCount v < dv_DesiredCoreCount v then v\<lparr>dv_CoreAttainable := False, dv_CoreDisMask := 0\<rparr> else v)
      in if dv_DesiredCoreCount v = dv_CoreCount v then v\<lparr>dv_CoreDisMask := 0\<rparr> else v\<lparr>dv_Met := False\<rparr>)"

definition check_request ::
  "'h ccx_env \<Rightarrow> sil_state \<Rightarrow> u32 \<Rightarrow> downcore_vars \<Rightarrow> APOBLIB_INFO \<Rightarrow> (downcore_vars \<times> APOBLIB_INFO) option" where
  "check_request env s inst v g =
     (if \<not> dv_DownCoreBitMapAvailable v \<and> (dv_CcdDisMask v \<noteq> 0 \<or> dv_CoreDisMask v \<noteq> 0) then Some (check_counts v, g)
      else if dv_DownCoreBitMapAvailable v
      then do { (Met, g) \<leftarrow> bitmap_met env s inst v [0 ..< unat (dv_CcdCount v)] g; Some (v\<lparr>dv_Met := Met\<rparr>, g) }
      else Some (v, g))"

section \<open>Programming\<close>

text \<open>The mask of a CCD: all cores when the CCD is to go, else its bitmap or the common mask.\<close>

definition dis_mask :: "downcore_vars \<Rightarrow> u8 \<Rightarrow> u32 option" where
  "dis_mask v PhysCcd =
     do { sil_assert (PhysCcd < 31);
          if dv_CcdDisMask v AND push_bit (unat PhysCcd) 1 = 0
          then do { sil_assert (unat PhysCcd < MaxCcdsPerSocket);
                    let w = dv_DownCoreBitMap v ! unat PhysCcd;
                    Some (if w \<noteq> 0 then w AND 0xFFFF else dv_CoreDisMask v) }
          else do { sil_assert (dv_ComplexCount v \<le> 3);
                    Some (fold (\<lambda>CcxLoop DisMask. DisMask OR push_bit (8 * CcxLoop) 0xFF)
                            [0 ..< unat (dv_ComplexCount v)] 0) } }"

definition program_ccd ::
  "'h ccx_env \<Rightarrow> sil_state \<Rightarrow> nat \<Rightarrow> nat \<Rightarrow> downcore_vars \<times> 'h \<Rightarrow> (downcore_vars \<times> 'h) option" where
  "program_ccd env s Socket CcdLoop = (\<lambda>(v, h).
     do { let PhysCcd = dv_PhysCcdNumber v ! Socket ! CcdLoop;
          let SoftDowncoreAddr = SocGetSoftDowncoreAddress (ucast PhysCcd);
          DisMask \<leftarrow> dis_mask v PhysCcd;
          if DisMask = 0 then Some (v, h)
          else do { (_, h) \<leftarrow> SmuRegisterWrite (ce_SmuApi env) s (of_nat Socket) SoftDowncoreAddr DisMask h;
                    (_, SmuArg, h) \<leftarrow> SmuServiceRequest (ce_SmuApi env) (MAKE_SBDFO 0 (of_nat Socket) 0 0 0) 1
                                       ((dv_SmuArg v)[0 := 0xAA55AA55]) 0 h;
                    Some (v\<lparr>dv_SmuArg := SmuArg, dv_IssueReset := True\<rparr>, h) } })"

definition wants_programming :: "downcore_vars \<Rightarrow> bool" where
  "wants_programming v \<longleftrightarrow> \<not> dv_AlreadyDownCored v \<and> \<not> dv_Met v \<and> dv_CoreAttainable v \<and> dv_CcdAttainable v
     \<and> (dv_CcdDisMask v \<noteq> 0 \<or> dv_CoreDisMask v \<noteq> 0 \<or> dv_DownCoreBitMapAvailable v)"

definition downcore_die ::
  "'h ccx_env \<Rightarrow> CCXCLASS_INPUT_BLK \<Rightarrow> sil_state \<Rightarrow> u32 \<Rightarrow> nat \<Rightarrow> nat \<Rightarrow> downcore_vars \<times> APOBLIB_INFO \<times> 'h
     \<Rightarrow> (downcore_vars \<times> APOBLIB_INFO \<times> 'h) option" where
  "downcore_die env b s SocketCount Socket Die = (\<lambda>(v, g, h).
     do { let inst = apob_instance (of_nat Socket) (of_nat Die);
          (v, g) \<leftarrow> read_topology env s Socket Die v g;
          (v, h) \<leftarrow> read_fuses env s v h;
          let v = v\<lparr>dv_ThrdPerCoreFuse := if hd (dv_SmtEnabledByFuse v) then 2 else 1\<rparr>;
          EnCoreLimit \<leftarrow> core_limit v;
          let v = set_desired (v\<lparr>dv_EnCoreLimit := EnCoreLimit\<rparr>);
          (AvailableCoreCount, g) \<leftarrow> available_cores env s inst v g;
          let v = note_downcored AvailableCoreCount v;
          v \<leftarrow> load_bitmap b v;
          let v = xapic_modes (AmdApicMode b) SocketCount v;
          (v, g) \<leftarrow> check_request env s inst v g;
          (v, h) \<leftarrow> (if wants_programming v
                     then for_each (program_ccd env s Socket) [0 ..< unat (dv_CcdCount v)] (v, h) else Some (v, h));
          Some (v\<lparr>dv_SystemDieLoop := dv_SystemDieLoop v + 1\<rparr>, g, h) })"

definition downcore_socket ::
  "'h ccx_env \<Rightarrow> CCXCLASS_INPUT_BLK \<Rightarrow> sil_state \<Rightarrow> nat \<Rightarrow> nat \<Rightarrow> downcore_vars \<times> APOBLIB_INFO \<times> 'h
     \<Rightarrow> (downcore_vars \<times> APOBLIB_INFO \<times> 'h) option" where
  "downcore_socket env b s SocketCount Socket = (\<lambda>(v, g, h).
     do { (d, h) \<leftarrow> DfGetProcessorDies (ce_ops env) Socket h;
          let v = v\<lparr>dv_DieCount := out_value d (dv_DieCount v)\<rparr>;
          for_each (downcore_die env b s (of_nat SocketCount) Socket) [0 ..< dv_DieCount v] (v, g, h) })"

section \<open>The function\<close>

text \<open>The variables before the loop over the sockets; \<open>u\<close> holds those without a value.\<close>

definition downcore_start :: "CCXCLASS_INPUT_BLK \<Rightarrow> u32 \<Rightarrow> u32 \<Rightarrow> downcore_vars \<Rightarrow> downcore_vars" where
  "downcore_start b CcdDisMask DesiredCcdCount u =
     (let (DesiredCoreCount, CoreDisMask) = desired_cores (AmdDownCoreMode b);
          game = SocIsGameModeSupported \<and> AmdGameMode b
      in u\<lparr>dv_ThreadCount := 2,
           dv_CcdDisMask := if game then 0x00FB else CcdDisMask,
           dv_CoreDisMask := CoreDisMask,
           dv_DesiredCcdCount := if game then 1 else DesiredCcdCount,
           dv_DesiredCoreCount := DesiredCoreCount,
           dv_ThrdPerCoreFuse := 2,
           dv_PhysCcdNumber := replicate 2 (replicate MaxCcdsPerSocket 0xFF),
           dv_DownCoreBitMap := replicate MaxCcdsPerSocket 0,
           dv_DownCoreBitMapAvailable := False, dv_AlreadyDownCored := False, dv_Met := True,
           dv_CcdAttainable := True, dv_CoreAttainable := True, dv_IssueReset := False,
           dv_EnCoreLimit := MAX_CORES_PER_COMPLEX, dv_CcdMode := AmdCcdMode b, dv_DownCoreMode := AmdDownCoreMode b,
           dv_SmuArg := replicate 6 0, dv_SystemDieLoop := 0\<rparr>)"

definition disable_smt :: "'h ccx_env \<Rightarrow> u8 \<Rightarrow> downcore_vars \<Rightarrow> 'h \<Rightarrow> (downcore_vars \<times> 'h) option" where
  "disable_smt env SmtMode v h =
     (if SmtMode = 0 \<and> 1 < dv_ThreadCount v
      then do { f \<leftarrow> SmuDisableSmt (ce_SmuApi env);
                (Status, h) \<leftarrow> f h;
                Some (if Status = SilPass then v\<lparr>dv_IssueReset := True\<rparr> else v, h) }
      else Some (v, h))"

definition downcore_status :: "bool \<Rightarrow> u8 \<Rightarrow> downcore_vars \<Rightarrow> SIL_STATUS" where
  "downcore_status GameMode SmtMode v =
     (if (\<not> dv_Met v \<and> dv_AlreadyDownCored v)
        \<or> (\<not> GameMode \<and> dv_CcdMode v = CCD_MODE_AUTO \<and> dv_DownCoreMode v = CCX_DOWN_CORE_AUTO \<and> dv_AlreadyDownCored v
            \<and> \<not> dv_DownCoreBitMapAvailable v)
        \<or> (SmtMode = 1 \<and> dv_ThreadCount v \<noteq> dv_ThrdPerCoreFuse v)
      then SilResetRequestColdImm
      else if dv_IssueReset v then SilResetRequestWarmImm else SilPass)"

definition CcxDownCoreInit ::
  "'h ccx_env \<Rightarrow> bist_vars \<Rightarrow> downcore_vars \<Rightarrow> CCXCLASS_DATA_BLK \<Rightarrow> u32 \<Rightarrow> u32 \<Rightarrow> sil_state \<Rightarrow> APOBLIB_INFO \<Rightarrow> 'h
     \<Rightarrow> (SIL_STATUS \<times> CCXCLASS_DATA_BLK \<times> APOBLIB_INFO \<times> 'h) option" where
  "CcxDownCoreInit env bv u blk CcdDisMask DesiredCcdCount s g h =
     (let b = CcxInputBlock blk in
      do { (SilStatus, _) \<leftarrow> SilGetIp2IpApi (ce_dbg env) (id_val SilId_SmuClass) s;
           if SilStatus \<noteq> SilPass then Some (SilStatus, blk, g, h)
           else do { (SilStatus, _) \<leftarrow> SilGetIp2IpApi (ce_dbg env) (id_val SilId_DfClass) s;
                     if SilStatus \<noteq> SilPass then Some (SilStatus, blk, g, h)
           else do { (failed, g, h) \<leftarrow> IsCcdBistFailure env bv s g h;
                     if failed then Some (SilDeviceError, blk, g, h)
           else do { c_assert (ce_dbg env) (AmdDownCoreMode b < CCX_DOWN_CORE_MAX);
                     c_assert (ce_dbg env) (AmdSmtMode b \<le> 1);
                     (SocketCount, h) \<leftarrow> DfXGetNumberOfProcessorsPresent (ce_ops env) h;
                     (v, g, h) \<leftarrow> for_each (downcore_socket env b s SocketCount) [0 ..< SocketCount]
                                    (downcore_start b CcdDisMask DesiredCcdCount u, g, h);
                     (v, h) \<leftarrow> disable_smt env (AmdSmtMode b) v h;
                     let out = (CcxOutputBlock blk)\<lparr>AmdCcxCoreCount := dv_EnCoreLimit v\<rparr>;
                     let out = (if dv_AlreadyDownCored v \<or> dv_ThreadCount v \<noteq> dv_ThrdPerCoreFuse v \<or> \<not> SocIsS3Supported
                                then out\<lparr>AmdAcpiS3Support := False\<rparr> else out);
                     Some (downcore_status (SocIsGameModeSupported \<and> AmdGameMode b) (AmdSmtMode b) v,
                           blk\<lparr>CcxOutputBlock := out\<rparr>, g, h) } } } })"

end
