(* ===== verification/Ccx_Init.thy ===== *)
theory Ccx_Init
  imports Ccx_DownCore Ccx_ApLaunch
begin

text \<open>
  The sequence of the CCX initialisation: \<^verbatim>\<open>InitializeCcxAndLaunchAps\<close> and what it calls in \<^verbatim>\<open>Ccx.c\<close>, the brand
  string (\<^verbatim>\<open>CcxBrandString.c\<close>), the code each application processor runs and the entry of \<^verbatim>\<open>Zen4.c\<close>. The configuration block
  is passed by value; the bytes of the block in memory are only read for the microcode.
\<close>

section \<open>Environment and state\<close>

record 'h CCX_XFER_TABLE =
  SetMiscMsrs :: "CCXCLASS_INPUT_BLK \<Rightarrow> 'h \<Rightarrow> 'h option"
  GetAmdApicMode :: "u32 \<Rightarrow> u32 \<Rightarrow> u32 \<Rightarrow> u32 \<Rightarrow> u32 \<Rightarrow> u8"
  CalcRMPTableBase :: "u64 \<Rightarrow> u64 \<Rightarrow> u8 \<Rightarrow> 'h \<Rightarrow> (u64 \<times> 'h) option"

definition CcxXferZen4 :: "bool \<Rightarrow> 'h cpu_ops \<Rightarrow> 'h pci_ops \<Rightarrow> 'h CCX_XFER_TABLE" where
  "CcxXferZen4 dbg cpu ops = \<lparr>SetMiscMsrs = Zen4SetMiscMsrs dbg cpu, GetAmdApicMode = SocZen4GetAmdApicMode,
     CalcRMPTableBase = Zen4CalculateRMPTableBase ops\<rparr>"

text \<open>
  The environment: transfer table, register tables and the environment of their interpreter, the addresses of the
  start region, and what the other processors do to memory while the boot processor waits.
\<close>

record 'h init_env = "'h ccx_env" +
  ie_Xfer :: "'h CCX_XFER_TABLE"
  ie_table_env :: "sil_state \<Rightarrow> 'h table_env"
  ie_RegTableList :: "(REGISTER_TABLE_TIME_POINT \<times> table_list option) list"
  ie_startup :: startup_env
  ie_ap_run :: "'h \<Rightarrow> memory \<Rightarrow> memory"

record 'h init_state =
  is_sil :: sil_state
  is_gd :: AMD_CCX_AP_LAUNCH_GLOBAL_DATA
  is_apob :: APOBLIB_INFO
  is_die :: u32
  is_hw :: 'h

text \<open>The values of the variables declared without one.\<close>

record init_vars =
  iv_topo :: "u32 \<times> u32 \<times> u32 \<times> u32"
  iv_dies :: nat
  iv_name :: "u8 list"
  iv_bist :: bist_vars
  iv_downcore :: downcore_vars

section \<open>Brand string and CAC weights\<close>

definition str_Unprogrammed_Sample :: "u8 list" where
  "str_Unprogrammed_Sample = map of_char ''AMD Unprogrammed Engineering Sample'' @ replicate 13 0"

definition write_name :: "'h cpu_ops \<Rightarrow> u8 list \<Rightarrow> 'h \<Rightarrow> 'h" where
  "write_name cpu bytes h =
     (let m = put_bytes (\<lambda>_. 0) 0 bytes
      in fold (\<lambda>i. cpu_wrmsr cpu (MSR_CPUID_NAME_STRING0 + of_nat i) (read64 m (8 * i))) [0 ..< 6] h)"

text \<open>The array of 48 bytes: the last eight are zeroed, then 47 bytes are requested from the SMU.\<close>

definition CcxSetBrandString :: "'h ccx_env \<Rightarrow> u8 list \<Rightarrow> sil_state \<Rightarrow> 'h \<Rightarrow> (SIL_STATUS \<times> 'h) option" where
  "CcxSetBrandString env name s h =
     do { (_, SmuApi) \<leftarrow> SilGetIp2IpApi (ce_dbg env) (id_val SilId_SmuClass) s;
          if SmuApi = 0 then do { c_assert (ce_dbg env) False; Some (SilAborted, h) }
          else do { (Status, bytes, h) \<leftarrow> SmuReadBrandString (ce_SmuApi env) s 0 47 h;
                    Some (SilPass, write_name (ce_cpu env)
                      (if Status \<noteq> SilPass then str_Unprogrammed_Sample
                       else put_list 0 bytes (take 40 name @ replicate 8 0)) h) } }"

definition CcxGetCacWeights :: "'h ccx_env \<Rightarrow> sil_state \<Rightarrow> u64 list \<Rightarrow> (SIL_STATUS \<times> u64 list) option" where
  "CcxGetCacWeights env s weights =
     do { (_, SmuApi) \<leftarrow> SilGetIp2IpApi (ce_dbg env) (id_val SilId_SmuClass) s;
          if SmuApi = 0 then do { c_assert (ce_dbg env) False; Some (SilAborted, weights) }
          else Some (SilPass, snd (SmuReadCacWeights (ce_SmuApi env) weights)) }"

section \<open>Register tables\<close>

text \<open>The criteria are always given, so the configuration is not read; the table code keeps the die number.\<close>

definition CcxProgramTablesAtReset ::
  "'h init_env \<Rightarrow> u8 \<Rightarrow> ENTRY_CRITERIA \<Rightarrow> ccx_config \<Rightarrow> sil_state \<Rightarrow> 'h table_state \<Rightarrow> 'h table_state option" where
  "CcxProgramTablesAtReset env sleep Criteria cfg s ts =
     (let Timepoint = (if sleep = 0x03 then AmdRegisterTableTpAfterApLaunchSecureS3 else AmdRegisterTableTpAfterApLaunch)
      in map_option snd (SetRegistersFromTablesAtGivenTimePoint (ie_table_env env s) Criteria (mem s) (ie_RegTableList env)
           Timepoint (Some Criteria) cfg ts))"

text \<open>The criteria of the boot processor, shared with the others; a failed identification leaves the old identifier.\<close>

definition reset_table_criteria ::
  "'h cpu_ops \<Rightarrow> CCXCLASS_INPUT_BLK \<Rightarrow> ENTRY_CRITERIA \<Rightarrow> ENTRY_CRITERIA option" where
  "reset_table_criteria cpu b Criteria =
     do { (_, soc) \<leftarrow> GetSocLogicalIdOnCurrentCore cpu (Some (SocLogicalId Criteria));
          (_, core) \<leftarrow> GetCoreLogicalIdOnCurrentCore cpu (Some (CoreLogicalId Criteria));
          soc \<leftarrow> soc;
          core \<leftarrow> core;
          Some \<lparr>SocLogicalId = soc, CoreLogicalId = core, ProfileFeats = GetPerformanceFeatures,
            PlatformFeats = GetPlatformFeatures (AmdApicMode b) (AmdIbrsEn b) (AmdBranchSampling b)\<rparr> }"

section \<open>An application processor\<close>

text \<open>\<open>env\<close> is the environment on the application processor, whose registers are in \<open>ts\<close>.\<close>

definition ApEntryPointInC ::
  "'h init_env \<Rightarrow> sil_state \<Rightarrow> AMD_CCX_AP_LAUNCH_GLOBAL_DATA \<Rightarrow> ccx_config \<Rightarrow> 'h table_state \<Rightarrow> 'h table_state option" where
  "ApEntryPointInC env s gd cfg ts =
     do { let cpu = ce_cpu env;
          let ts = (if BspPatchLevel gd \<noteq> 0 \<and> UcodePatchAddr gd \<noteq> 0 \<and> xUslIsComputeUnitPrimary cpu
                    then ts\<lparr>ts_hw := cpu_wrmsr cpu MSR_PATCH_LOADER (UcodePatchAddr gd) (ts_hw ts)\<rparr> else ts);
          ts \<leftarrow> CcxProgramTablesAtReset env (SleepType gd) (ResetTableCriteria gd) cfg s ts;
          let h = CcxSetMca cpu (ts_hw ts);
          let h = CcxSetCacWeights cpu (CacWeights gd) h;
          h \<leftarrow> CcxSyncMiscMsrs cpu (gd_ApMsrSyncList gd) h;
          Some (ts\<lparr>ts_hw := h\<rparr>) }"

section \<open>The boot processor\<close>

text \<open>The mode of the interrupt controller, which may change the request for cores.\<close>

definition choose_apic_mode ::
  "bool \<Rightarrow> (u32 \<Rightarrow> u32 \<Rightarrow> u32 \<Rightarrow> u32 \<Rightarrow> u32 \<Rightarrow> u8) \<Rightarrow> u32 \<Rightarrow> u32 \<times> u32 \<times> u32 \<times> u32 \<Rightarrow> CCXCLASS_DATA_BLK
     \<Rightarrow> CCXCLASS_DATA_BLK option" where
  "choose_apic_mode dbg ApicModeOf NumberOfSockets = (\<lambda>(NumberOfCcds, NumberOfCoreComplexes, NumberOfCores, NumberOfThreads) blk.
     let mode = AmdApicMode (CcxInputBlock blk);
         total = NumberOfSockets * NumberOfCcds * NumberOfCoreComplexes * NumberOfCores * NumberOfThreads;
         set_mode = (\<lambda>m. blk\<lparr>CcxInputBlock := (CcxInputBlock blk)\<lparr>AmdApicMode := m\<rparr>,
                             CcxOutputBlock := (CcxOutputBlock blk)\<lparr>out_AmdApicMode := m\<rparr>\<rparr>)
     in if mode = xApicMode
        then Some (if XAPIC_ID_MAX \<le> total
                   then blk\<lparr>CcxInputBlock := (CcxInputBlock blk)\<lparr>AmdDownCoreMode := CCX_DOWN_CORE_7_0\<rparr>,
                           CcxOutputBlock := (CcxOutputBlock blk)\<lparr>out_AmdDownCoreMode := CCX_DOWN_CORE_7_0\<rparr>\<rparr>
                   else blk)
        else if mode = x2ApicMode then Some blk
        else if mode = ApicAutoMode
        then Some (set_mode (ApicModeOf NumberOfSockets NumberOfCcds NumberOfCoreComplexes NumberOfCores NumberOfThreads))
        else if mode = ApicCompatibilityMode
        then Some (set_mode (if total < XAPIC_ID_MAX then xApicMode else ApicCompatibilityMode))
        else do { c_assert dbg False; Some blk })"

text \<open>
  The registers of the boot processor, from the microcode to the list for the other processors: the middle part
  of \<^verbatim>\<open>InitializeCcxAndLaunchAps\<close>.
\<close>

definition setup_bsp :: "'h init_env \<Rightarrow> CCXCLASS_INPUT_BLK \<Rightarrow> 'h init_state \<Rightarrow> 'h init_state option" where
  "setup_bsp env b st =
     do { let cpu = ce_cpu env;
          let s = is_sil st;
          let gd = (is_gd st)\<lparr>gd_ApMtrrSyncList := ApMtrrSyncList, SizeOfApMtrr := 360, gd_ApMsrSyncList := ApMsrSyncList\<rparr>;
          (_, addr, h) \<leftarrow> LoadMicrocodePatch (ce_dbg env) cpu (ce_ops env) s (is_hw st);
          let (_, h) = cpu_rdmsr cpu MSR_PATCH_LEVEL h;
          Criteria \<leftarrow> reset_table_criteria cpu b (ResetTableCriteria gd);
          let gd = gd\<lparr>UcodePatchAddr := addr, ResetTableCriteria := Criteria\<rparr>;
          ts \<leftarrow> CcxProgramTablesAtReset env (SleepType gd) Criteria (table_config b) s
                 \<lparr>ts_SystemDieNumber = is_die st, ts_hw = h\<rparr>;
          let h = RegSettingBeforeLaunchingNextThread cpu Criteria (ts_hw ts);
          h \<leftarrow> CcxSetMiscMsrs (ce_dbg env) cpu (SetMiscMsrs (ie_Xfer env)) s b h;
          let h = CcxSetMca cpu h;
          (_, weights) \<leftarrow> CcxGetCacWeights (ccx_env.truncate env) s (CacWeights gd);
          let gd = gd\<lparr>CacWeights := weights\<rparr>;
          let h = CcxSetCacWeights cpu weights h;
          let h = CcxInitializeC6 cpu b h;
          let h = CcxInitializeCpb cpu (AmdCpbMode b) h;
          (msrs, h) \<leftarrow> fill_msr_list cpu (gd_ApMsrSyncList gd) h;
          Some (st\<lparr>is_gd := gd\<lparr>gd_ApMsrSyncList := msrs\<rparr>, is_die := ts_SystemDieNumber ts, is_hw := h\<rparr>) }"

section \<open>Starting the application processors\<close>

text \<open>The order in which the threads of a die are visited.\<close>

definition thread_list :: "u32 \<times> u32 \<times> u32 \<times> u32 \<Rightarrow> (nat \<times> nat \<times> nat \<times> nat) list" where
  "thread_list = (\<lambda>(NumberOfCcds, NumberOfCoreComplexes, NumberOfCores, NumberOfThreads).
     [(Ccd, Ccx, Core, Thread). Ccd \<leftarrow> [0 ..< unat NumberOfCcds], Ccx \<leftarrow> [0 ..< unat NumberOfCoreComplexes],
        Core \<leftarrow> [0 ..< unat NumberOfCores], Thread \<leftarrow> [0 ..< unat NumberOfThreads]])"

text \<open>One thread: all but the first of the system are started, and the counter is awaited.\<close>

definition launch_thread ::
  "'h init_env \<Rightarrow> nat \<Rightarrow> nat \<Rightarrow> nat \<times> nat \<times> nat \<times> nat \<Rightarrow> u32 \<times> 'h init_state \<Rightarrow> (u32 \<times> 'h init_state) option" where
  "launch_thread env Socket Die = (\<lambda>(Ccd, Ccx, Core, Thread) (ApNumBfLaunch, st).
     if Socket = 0 \<and> Die = 0 \<and> Ccd = 0 \<and> Ccx = 0 \<and> Core = 0 \<and> Thread = 0 then Some (ApNumBfLaunch, st)
     else do { let s = is_sil st;
               let ApNumBfLaunch = ApNumBfLaunch + 1;
               (_, g, h) \<leftarrow> SmuLaunchThread (ce_SmuApi env) s (of_nat Socket) (of_nat Die) (of_nat Ccd) (of_nat Ccx)
                             (of_nat Core) (of_nat Thread) (is_apob st) (is_hw st);
               let ApSyncFlag = unat (AllowToLaunchNextThreadLocation (is_gd st));
               m \<leftarrow> (if ApSyncFlag \<noteq> 0 then wait_sync (ie_ap_run env) ApSyncFlag ApNumBfLaunch h (mem s) else Some (mem s));
               Some (ApNumBfLaunch, st\<lparr>is_sil := s\<lparr>mem := m\<rparr>, is_apob := g, is_hw := h\<rparr>) })"

definition launch_die ::
  "'h init_env \<Rightarrow> nat \<Rightarrow> nat \<Rightarrow> (u32 \<times> u32 \<times> u32 \<times> u32) \<times> u32 \<times> 'h init_state
     \<Rightarrow> ((u32 \<times> u32 \<times> u32 \<times> u32) \<times> u32 \<times> 'h init_state) option" where
  "launch_die env Socket Die = (\<lambda>(topo, n, st).
     do { (_, t, g) \<leftarrow> GetCoreTopologyOnDie (ce_plat env) (mem (is_sil st)) (of_nat Socket) (of_nat Die) (is_apob st);
          let topo = out_value t topo;
          (n, st) \<leftarrow> for_each (launch_thread env Socket Die) (thread_list topo) (n, st\<lparr>is_apob := g\<rparr>);
          Some (topo, n, st) })"

definition launch_socket ::
  "'h init_env \<Rightarrow> nat \<Rightarrow> nat \<times> (u32 \<times> u32 \<times> u32 \<times> u32) \<times> u32 \<times> 'h init_state
     \<Rightarrow> (nat \<times> (u32 \<times> u32 \<times> u32 \<times> u32) \<times> u32 \<times> 'h init_state) option" where
  "launch_socket env Socket = (\<lambda>(NumberOfDies, topo, n, st).
     do { (d, h) \<leftarrow> DfGetProcessorDies (ce_ops env) Socket (is_hw st);
          let NumberOfDies = out_value d NumberOfDies;
          (topo, n, st) \<leftarrow> for_each (launch_die env Socket) [0 ..< NumberOfDies] (topo, n, st\<lparr>is_hw := h\<rparr>);
          Some (NumberOfDies, topo, n, st) })"

section \<open>The sequence\<close>

definition launch_aps :: "'h init_env \<Rightarrow> nat \<Rightarrow> nat \<Rightarrow> u32 \<times> u32 \<times> u32 \<times> u32 \<Rightarrow> 'h init_state \<Rightarrow> (u32 \<times> 'h init_state) option" where
  "launch_aps env NumberOfSockets NumberOfDies topo st =
     do { (_, _, n, st) \<leftarrow> for_each (launch_socket env) [0 ..< NumberOfSockets] (NumberOfDies, topo, 0, st);
          Some (n, st) }"

definition run_bsp ::
  "'h init_env \<Rightarrow> init_vars \<Rightarrow> CCXCLASS_DATA_BLK \<Rightarrow> u32 \<Rightarrow> u32 \<Rightarrow> 'h init_state
     \<Rightarrow> (SIL_STATUS \<times> CCXCLASS_DATA_BLK \<times> 'h init_state) option" where
  "run_bsp env iv blk CcdDisMask DesiredCcdCount st =
     do { let dbg = ce_dbg env;
          let cpu = ce_cpu env;
          let ce = ccx_env.truncate env;
          h \<leftarrow> (if SleepType (is_gd st) \<noteq> 3
                then map_option snd (CcxSetBrandString ce (iv_name iv) (is_sil st) (CcxCacheInit cpu (is_hw st)))
                else Some (is_hw st));
          (NumberOfSockets, h) \<leftarrow> DfXGetNumberOfProcessorsPresent (ce_ops env) h;
          (_, t, g) \<leftarrow> GetCoreTopologyOnDie (ce_plat env) (mem (is_sil st)) 0 0 (is_apob st);
          let topo = out_value t (iv_topo iv);
          blk \<leftarrow> choose_apic_mode dbg (GetAmdApicMode (ie_Xfer env)) (of_nat NumberOfSockets) topo blk;
          (Status, blk, g, h) \<leftarrow> CcxDownCoreInit ce (iv_bist iv) (iv_downcore iv) blk CcdDisMask DesiredCcdCount (is_sil st) g h;
          st \<leftarrow> setup_bsp env (CcxInputBlock blk) (st\<lparr>is_apob := g, is_hw := h\<rparr>);
          (gd, vector, copy, m, h) \<leftarrow> SetupApStartupRegion dbg cpu (ie_startup env) (CcxInputBlock blk) (is_gd st)
                                       (mem (is_sil st)) (is_hw st);
          let st = st\<lparr>is_sil := (is_sil st)\<lparr>mem := m\<rparr>, is_gd := gd, is_hw := h\<rparr>;
          (n, st) \<leftarrow> launch_aps env NumberOfSockets (iv_dies iv) topo st;
          let h = CcxEnableSmee cpu (AmdSmee (CcxInputBlock blk)) (is_hw st);
          m \<leftarrow> (if SleepType (is_gd st) \<noteq> 3
                then RestoreResetVector (ie_ap_run env) (is_gd st) (ucast n) vector copy h (mem (is_sil st))
                else Some (mem (is_sil st)));
          Some (Status, blk, st\<lparr>is_sil := (is_sil st)\<lparr>mem := m\<rparr>, is_hw := h\<rparr>) }"

definition InitializeCcxAndLaunchAps ::
  "'h init_env \<Rightarrow> init_vars \<Rightarrow> CCXCLASS_DATA_BLK \<Rightarrow> u32 \<Rightarrow> u32 \<Rightarrow> 'h init_state
     \<Rightarrow> (SIL_STATUS \<times> CCXCLASS_DATA_BLK \<times> 'h init_state) option" where
  "InitializeCcxAndLaunchAps env iv blk CcdDisMask DesiredCcdCount st =
     do { let dbg = ce_dbg env;
          (Status, _) \<leftarrow> SilGetCommon2RevXferTable dbg (id_val SilId_CcxClass) (is_sil st);
          if Status \<noteq> SilPass then Some (SilNotFound, blk, st)
          else do { (Status, _) \<leftarrow> SilGetIp2IpApi dbg (id_val SilId_SmuClass) (is_sil st);
                    if Status \<noteq> SilPass then Some (Status, blk, st)
          else do { (Status, _) \<leftarrow> SilGetIp2IpApi dbg (id_val SilId_DfClass) (is_sil st);
                    if Status \<noteq> SilPass then Some (Status, blk, st)
          else do { let (bsp, h) = xUslIsBsp (ce_cpu env) (is_hw st);
                    let st = st\<lparr>is_hw := h\<rparr>;
                    (Status, blk, st) \<leftarrow> (if bsp then run_bsp env iv blk CcdDisMask DesiredCcdCount st
                                         else Some (SilDeviceError, blk, st));
                    (blk, h) \<leftarrow> UpdateCcxOutputData dbg (ce_cpu env) (\<lambda>_. CalcRMPTableBase (ie_Xfer env)) (is_sil st) blk (is_hw st);
                    Some (Status, blk, st\<lparr>is_hw := h\<rparr>) } } } }"

text \<open>
  \<open>blk_at\<close> gives the contents of the block at an address. The pointer to the register tables is kept in the
  environment.
\<close>

definition InitializeCcx ::
  "'h init_env \<Rightarrow> init_vars \<Rightarrow> (sil_state \<Rightarrow> nat \<Rightarrow> CCXCLASS_DATA_BLK) \<Rightarrow> u32 \<Rightarrow> u32 \<Rightarrow> 'h init_state
     \<Rightarrow> (SIL_STATUS \<times> CCXCLASS_DATA_BLK option \<times> 'h init_state) option" where
  "InitializeCcx env iv blk_at CcdDisMask DesiredCcdCount st =
     do { LclCcxDataBlk \<leftarrow> SilFindStructure (id_val SilId_CcxClass) 0 (is_sil st);
          if LclCcxDataBlk = 0 then Some (SilNotFound, None, st)
          else do { (Status, blk, st) \<leftarrow> InitializeCcxAndLaunchAps env iv (blk_at (is_sil st) LclCcxDataBlk)
                                          CcdDisMask DesiredCcdCount st;
                    Some (Status, Some blk, st) } }"

text \<open>
  The entry at time point 1. The result of the lookup is used without a check: a missing block is a null pointer.
  \<open>old\<close> holds the two variables that a CCD mode of 1 leaves without a value.
\<close>

definition InitializeCcxZen4Tp1 ::
  "'h init_env \<Rightarrow> init_vars \<Rightarrow> (sil_state \<Rightarrow> nat \<Rightarrow> CCXCLASS_DATA_BLK) \<Rightarrow> u32 \<times> u32 \<Rightarrow> 'h init_state
     \<Rightarrow> (SIL_STATUS \<times> CCXCLASS_DATA_BLK option \<times> 'h init_state) option" where
  "InitializeCcxZen4Tp1 env iv blk_at old st =
     do { LclCcxDataBlk \<leftarrow> SilFindStructure (id_val SilId_CcxClass) 0 (is_sil st);
          sil_assert (LclCcxDataBlk \<noteq> 0);
          let (DesiredCcdCount, CcdDisMask) =
            GetZen4DesiredCcdCount (AmdCcdMode (CcxInputBlock (blk_at (is_sil st) LclCcxDataBlk))) old;
          InitializeCcx env iv blk_at CcdDisMask DesiredCcdCount st }"

definition InitializeCcxZen4Tp2 :: SIL_STATUS where "InitializeCcxZen4Tp2 = SilPass"
definition InitializeCcxZen4Tp3 :: SIL_STATUS where "InitializeCcxZen4Tp3 = SilPass"

text \<open>\<open>xfer\<close> and \<open>api\<close> are the addresses of \<^verbatim>\<open>CcxXferZen4\<close> and \<^verbatim>\<open>CcxIp2IpZen4\<close>.\<close>

definition InitializeApiZen4 ::
  "bool \<Rightarrow> u64 \<Rightarrow> u64 \<Rightarrow> 'x sil_state_scheme \<Rightarrow> (SIL_STATUS \<times> 'x sil_state_scheme) option" where
  "InitializeApiZen4 dbg xfer api s =
     do { (Status, s) \<leftarrow> SilInitCommon2RevXferTable dbg (id_val SilId_CcxClass) xfer s;
          if Status \<noteq> SilPass then Some (Status, s)
          else SilInitIp2IpApi dbg (id_val SilId_CcxClass) api s }"

end
