(* ===== verification/Ccx_DownCore_Props.thy ===== *)
theory Ccx_DownCore_Props
  imports Ccx_DownCore Sil_Smu_Props
begin

text \<open>
  What \<^verbatim>\<open>CcxDownCoreInit\<close> does on a system with one socket: the registers it writes for a request, the status it
  returns, and what it makes of a request on a part on which cores were removed before.
\<close>

section \<open>The map of a die\<close>










section \<open>Programming\<close>





section \<open>A system with one socket\<close>














section \<open>What a request writes\<close>








section \<open>A sample part\<close>

















end
