(* ===== verification/Ccx_Launch_Props.thy ===== *)
theory Ccx_Launch_Props
  imports Ccx_Init Ccx_DownCore_Props Ccx_Start_Props
begin

text \<open>
  The start of the application processors: which threads \<^verbatim>\<open>InitializeCcxAndLaunchAps\<close> starts and in which order, and what
  becomes of the boot processor when one of them does not start.
\<close>

section \<open>Threads\<close>



lemma thread_list_set:
  "set (thread_list (c, x, k, t)) = {0 ..< unat c} \<times> {0 ..< unat x} \<times> {0 ..< unat k} \<times> {0 ..< unat t}"
  by (auto simp: thread_list_def)






section \<open>One thread after the other\<close>




section \<open>All sockets\<close>



section \<open>A processor that does not start\<close>

lemma wait_sync_reached:
  assumes "wait_sync ap_run loc n h m = Some m'"
  shows "\<exists>k. ucast (read16 ((ap_run h ^^ k) m) loc) = n"
proof (rule wait_sync.raw_induct [OF _ assms, where P = "\<lambda>ap_run loc n h m _. \<exists>k. ucast (read16 ((ap_run h ^^ k) m) loc) = n"], goal_cases)
  case (1 ws ap_run loc n h m m')
  show ?case
  proof (cases "ucast (read16 m loc) = n")
    case True
    then show ?thesis by (intro exI [of _ 0]) simp
  next
    case False
    then obtain k where "ucast (read16 ((ap_run h ^^ k) (ap_run h m)) loc) = n" using 1(1) [of ap_run loc n h "ap_run h m" m'] 1(2) by auto
    then show ?thesis by (intro exI [of _ "Suc k"]) (simp add: funpow_swap1)
  qed
qed

text \<open>
  The status of the launch is dropped. When the thread does not start, for whatever reason, and the counter stays
  as it is, the boot processor waits forever.
\<close>

lemma lost_ap_hangs:
  assumes "(Socket, Die, c, x, k, t) \<noteq> (0, 0, 0, 0, 0, 0)" "AllowToLaunchNextThreadLocation (is_gd st) \<noteq> 0"
    and "SmuLaunchThread (ce_SmuApi env) (is_sil st) (of_nat Socket) (of_nat Die) (of_nat c) (of_nat x) (of_nat k) (of_nat t)
           (is_apob st) (is_hw st) = Some (Status, g, h)"
    and "\<And>j. ucast (read16 ((ie_ap_run env h ^^ j) (mem (is_sil st))) (unat (AllowToLaunchNextThreadLocation (is_gd st)))) \<noteq> n + 1"
  shows "launch_thread env Socket Die (c, x, k, t) (n, st) = None"
proof -
  have "wait_sync (ie_ap_run env) (unat (AllowToLaunchNextThreadLocation (is_gd st))) (n + 1) h (mem (is_sil st)) = None"
    using wait_sync_reached assms(4) by (metis option.exhaust)
  then show ?thesis using assms(1-3) by (auto simp: launch_thread_def Let_def unat_eq_0)
qed

section \<open>A sample system\<close>










end
