(* ===== verification/Df_Domains.thy ===== *)
theory Df_Domains
  imports Df_Topology Sil_Apob Sil_Cpu
begin

text \<open>
  The NUMA domains of \<^verbatim>\<open>FabricAcpiDomainInfo.c\<close>: the physical domains, which divide the memory channels (coherent stations,
  CS), the domains reported to the operating system, and the translation of a core to its domain. The information is
  kept in the output block of the resource manager and in six variables of the module. Counts that index arrays are
  natural numbers, none exceeds 32. \<open>None\<close> stands for a failed assertion, an index outside an array or a query that does not
  return.
\<close>

section \<open>State\<close>

datatype FABRIC_DOMAIN_TYPE2 = NumaDram | NumaSLink | NumaCxl | MaxNumaDomainType2

record FABRIC_DOMAIN_INFO2 =
  dom_Type :: FABRIC_DOMAIN_TYPE2
  dom_SocketMap :: u32
  dom_PhysicalDomain :: nat

record FABRIC_PHYS_DOMAIN_INFO =
  NormalizedCsMap :: u32
  SharingEntityCount :: u32
  SharingEntityMap :: u32

record DFX_RCMGR_OUTPUT_BLK =
  AmdFabricCcxAsNumaDomain :: bool
  CcdCount :: "nat list"
  CcxPerCcd :: "nat list"
  LogToPhysCcd :: "nat list list"
  ReportedDomainCcxMap :: "u32 list"
  ReportedDomainInfo :: "FABRIC_DOMAIN_INFO2 list"
  PhysicalDomainInfo :: "FABRIC_PHYS_DOMAIN_INFO list"
  DomainInfoValid :: bool
  out_NumberOfReportedDomains :: nat

record domain_vars =
  NumberOfPhysicalDomains :: nat
  PhysNps :: u32
  SystemCxlCount :: nat
  NumberOfReportedDomains :: nat
  CcxAsNuma :: bool
  MaxCcxPerCcd :: nat

definition DFX_NUM_CS_UMC_BLOCKS :: nat where "DFX_NUM_CS_UMC_BLOCKS = 12"
definition DFX_NUM_CCM_BLOCKS :: nat where "DFX_NUM_CCM_BLOCKS = 8"
definition DFX_CCM0_INSTANCE_ID :: nat where "DFX_CCM0_INSTANCE_ID = 16"
definition DFX_MAX_CCD_PER_SOCKET :: nat where "DFX_MAX_CCD_PER_SOCKET = 12"
definition NORMALIZED_SOCKET_SHIFT :: nat where "NORMALIZED_SOCKET_SHIFT = 16"
definition SOCKET_CS_MAP :: u32 where "SOCKET_CS_MAP = 0xFFFF"
definition CS_CMP_SYSTEM_MAP :: u32 where "CS_CMP_SYSTEM_MAP = 0xF000F000"
definition MAX_REPORTED_DOMAINS :: nat where "MAX_REPORTED_DOMAINS = 32"
definition MAX_PHYSICAL_DOMAINS :: nat where "MAX_PHYSICAL_DOMAINS = 16"
definition APOB_FABRIC :: u32 where "APOB_FABRIC = 9"
definition APOB_SYS_NPS_INFO_TYPE :: u32 where "APOB_SYS_NPS_INFO_TYPE = 19"
definition APOB_SYS_CXL_INFO_TYPE :: u32 where "APOB_SYS_CXL_INFO_TYPE = 24"
definition CXL_ADDR_SUCCESS :: u32 where "CXL_ADDR_SUCCESS = 0"

text \<open>An assignment to an element of an array.\<close>

definition array_upd :: "nat \<Rightarrow> ('a \<Rightarrow> 'a) \<Rightarrow> 'a list \<Rightarrow> 'a list option" where
  "array_upd i f xs = (if i < length xs then Some (xs[i := f (xs ! i)]) else None)"

section \<open>CCDs\<close>

definition CCDEn :: "u32 \<Rightarrow> u32" where "CCDEn v = get_field 0 2 v"
definition CCXEn :: "u32 \<Rightarrow> u32" where "CCXEn v = get_field 16 2 v"
definition SdpWideEn :: "u32 \<Rightarrow> u32" where "SdpWideEn v = get_field 26 1 v"

definition ccm_step :: "'h pci_ops \<Rightarrow> nat \<Rightarrow> nat \<Rightarrow> u32 \<times> nat \<times> 'h \<Rightarrow> (u32 \<times> nat \<times> 'h) option" where
  "ccm_step ops i j = (\<lambda>(CcdMap, PerCcd, h).
     do { (CcmConfig4, h) \<leftarrow> DfXFabricRegisterAccRead ops i 3 0x510 (of_nat (DFX_CCM0_INSTANCE_ID + j)) h;
          (CcdEnable, h) \<leftarrow> DfXFabricRegisterAccRead ops i 1 0x104 (of_nat (DFX_CCM0_INSTANCE_ID + j)) h;
          let CcdMap = CcdMap OR push_bit j (CCDEn CcdEnable AND 1);
          let CcdMap = (if SdpWideEn CcmConfig4 = 0
                        then CcdMap OR push_bit j (push_bit DFX_NUM_CCM_BLOCKS (drop_bit 1 (CCDEn CcdEnable) AND 1)) else CcdMap);
          Some (CcdMap, if CCXEn CcdEnable = 3 then 2 else PerCcd, h) })"

text \<open>The numbers of the bits that are set, lowest first; the loop clears each bit it has looked at.\<close>

function log_ccds :: "u32 \<Rightarrow> nat \<Rightarrow> nat list option" where
  "log_ccds CcdMap j =
     (if CcdMap = 0 then Some []
      else if 31 < j then None
      else do { sil_assert (bit CcdMap j \<longrightarrow> j < DFX_MAX_CCD_PER_SOCKET);
                js \<leftarrow> log_ccds (CcdMap AND NOT (push_bit j 1)) (j + 1);
                Some (if bit CcdMap j then j # js else js) })"
  by pat_completeness auto
termination by (relation "measure (\<lambda>(_, j). 32 - j)") auto

declare log_ccds.simps [simp del]

definition build_ccd_socket ::
  "'h pci_ops \<Rightarrow> nat \<Rightarrow> DFX_RCMGR_OUTPUT_BLK \<times> 'h \<Rightarrow> (DFX_RCMGR_OUTPUT_BLK \<times> 'h) option" where
  "build_ccd_socket ops i = (\<lambda>(b, h).
     do { (CcdMap, PerCcd, h) \<leftarrow> for_each (ccm_step ops i) [0 ..< DFX_NUM_CCM_BLOCKS] (0, 1, h);
          js \<leftarrow> log_ccds CcdMap 0;
          per \<leftarrow> array_upd i (\<lambda>_. PerCcd) (CcxPerCcd b);
          count \<leftarrow> array_upd i (\<lambda>_. length js) (CcdCount b);
          phys \<leftarrow> array_upd i (\<lambda>row. js @ drop (length js) row) (LogToPhysCcd b);
          Some (b\<lparr>CcxPerCcd := per, CcdCount := count, LogToPhysCcd := phys\<rparr>, h) })"

definition BuildCcdInfo :: "'h pci_ops \<Rightarrow> nat \<Rightarrow> DFX_RCMGR_OUTPUT_BLK \<Rightarrow> 'h \<Rightarrow> (DFX_RCMGR_OUTPUT_BLK \<times> 'h) option" where
  "BuildCcdInfo ops SocketCount b h = for_each (build_ccd_socket ops) [0 ..< SocketCount] (b, h)"

section \<open>Maps\<close>

text \<open>The table \<^verbatim>\<open>CcdToCsMap\<close> of the function only gives the bound; the number of the CCD is taken for that of a CS.\<close>

definition GetPhysDomainOfCcd :: "bool \<Rightarrow> nat \<Rightarrow> DFX_RCMGR_OUTPUT_BLK \<Rightarrow> nat \<Rightarrow> nat \<Rightarrow> nat option" where
  "GetPhysDomainOfCcd dbg n b Socket PhysCcd =
     (if 12 \<le> PhysCcd then do { c_assert dbg False; Some 0xFF }
      else do { sil_assert (n \<le> length (PhysicalDomainInfo b));
                let d = length (takeWhile (\<lambda>d. NormalizedCsMap (PhysicalDomainInfo b ! d)
                                   AND push_bit (Socket * NORMALIZED_SOCKET_SHIFT) (push_bit PhysCcd 1) = 0) [0 ..< n]);
                c_assert dbg (d < n);
                Some d })"

definition GetSocketMapFromNormalizedCsMap :: "u32 \<Rightarrow> u32" where
  "GetSocketMapFromNormalizedCsMap CsMap =
     fold (\<lambda>i SocketMap. SocketMap OR (if CsMap AND push_bit (i * NORMALIZED_SOCKET_SHIFT) SOCKET_CS_MAP \<noteq> 0 then push_bit i 1 else 0))
       [0 ..< 2] 0"

text \<open>An entry of the CXL map in the APOB: size, status and socket at offsets 8, 16 and 20 of 32 bytes.\<close>

definition cxl_attached :: "memory \<Rightarrow> nat \<Rightarrow> nat \<Rightarrow> bool" where
  "cxl_attached m CxlMap Socket \<longleftrightarrow>
     list_ex (\<lambda>i. let e = CxlMap + 48 + 32 * i
                  in read64 m (e + 8) \<noteq> 0 \<and> read32 m (e + 16) = CXL_ADDR_SUCCESS \<and> unat (m (e + 20)) = Socket) [0 ..< 8]"

definition BuildCxlInfo ::
  "nat \<Rightarrow> memory \<Rightarrow> nat \<Rightarrow> DFX_RCMGR_OUTPUT_BLK \<Rightarrow> APOBLIB_INFO \<Rightarrow> (nat \<times> DFX_RCMGR_OUTPUT_BLK \<times> APOBLIB_INFO) option" where
  "BuildCxlInfo plat m Index b g =
     do { (Status, CxlMap, g) \<leftarrow> AmdGetApobEntryInstance plat m APOB_FABRIC APOB_SYS_CXL_INFO_TYPE 0 0 g;
          let CxlDeviceAttached = (\<lambda>i. Status = SilPass \<and> cxl_attached m CxlMap i);
          (ActiveCxlCount, phys) \<leftarrow> for_each (\<lambda>i (ActiveCxlCount, phys).
              if CxlDeviceAttached i
              then do { phys \<leftarrow> array_upd (Index + ActiveCxlCount)
                          (\<lambda>d. d\<lparr>NormalizedCsMap := push_bit (i * NORMALIZED_SOCKET_SHIFT) 0xF000\<rparr>) phys;
                        Some (ActiveCxlCount + 1, phys) }
              else Some (ActiveCxlCount, phys)) [0 ..< 2] (0, PhysicalDomainInfo b);
          Some (ActiveCxlCount, b\<lparr>PhysicalDomainInfo := phys\<rparr>, g) }"

section \<open>Physical domains\<close>

definition set_cs_map :: "nat \<Rightarrow> u32 \<Rightarrow> DFX_RCMGR_OUTPUT_BLK \<Rightarrow> DFX_RCMGR_OUTPUT_BLK option" where
  "set_cs_map n CsMap b =
     do { phys \<leftarrow> array_upd n (\<lambda>d. d\<lparr>NormalizedCsMap := CsMap\<rparr>) (PhysicalDomainInfo b); Some (b\<lparr>PhysicalDomainInfo := phys\<rparr>) }"

definition set_ccx_map :: "bool \<Rightarrow> nat \<Rightarrow> u32 \<Rightarrow> DFX_RCMGR_OUTPUT_BLK \<Rightarrow> DFX_RCMGR_OUTPUT_BLK option" where
  "set_ccx_map asNuma n CcxMap b =
     (if asNuma then Some b
      else do { maps \<leftarrow> array_upd n (\<lambda>_. CcxMap) (ReportedDomainCcxMap b); Some (b\<lparr>ReportedDomainCcxMap := maps\<rparr>) })"

text \<open>One domain with its two maps; the second version is that of NPS4, which counts the domain twice.\<close>

definition add_domain :: "bool \<Rightarrow> u32 \<Rightarrow> u32 \<Rightarrow> nat \<times> DFX_RCMGR_OUTPUT_BLK \<Rightarrow> (nat \<times> DFX_RCMGR_OUTPUT_BLK) option" where
  "add_domain asNuma CsMap CcxMap = (\<lambda>(n, b).
     do { b \<leftarrow> set_cs_map n CsMap b; b \<leftarrow> set_ccx_map asNuma n CcxMap b; Some (n + 1, b) })"

definition add_domain_nps4 :: "bool \<Rightarrow> u32 \<Rightarrow> u32 \<Rightarrow> nat \<times> DFX_RCMGR_OUTPUT_BLK \<Rightarrow> (nat \<times> DFX_RCMGR_OUTPUT_BLK) option" where
  "add_domain_nps4 asNuma CsMap CcxMap = (\<lambda>(n, b).
     do { b \<leftarrow> set_cs_map n CsMap b;
          let n = n + 1;
          b \<leftarrow> set_ccx_map asNuma n CcxMap b;
          Some (n + 1, b) })"

definition Nps0CcxMap :: u32 where "Nps0CcxMap = 0x0FFF0FFF"
definition Nps1CcxMap :: u32 where "Nps1CcxMap = 0x0FFF"
definition Nps2CcxMap :: "u32 list" where "Nps2CcxMap = [0x0555, 0x0AAA]"
definition Nps4CcxMap :: "u32 list" where "Nps4CcxMap = [0x0111, 0x0444, 0x0888, 0x0222]"

definition cs_blocks :: "nat \<Rightarrow> nat \<Rightarrow> nat \<Rightarrow> u32" where
  "cs_blocks parts part Socket =
     push_bit (Socket * NORMALIZED_SOCKET_SHIFT) (push_bit (part * (DFX_NUM_CS_UMC_BLOCKS div parts)) (2 ^ (DFX_NUM_CS_UMC_BLOCKS div parts) - 1))"

definition on_socket :: "nat \<Rightarrow> u32 \<Rightarrow> u32" where
  "on_socket Socket CcxMap = push_bit (Socket * NORMALIZED_SOCKET_SHIFT) CcxMap"

text \<open>The domains of a memory interleaving mode, in the cases of the switch; \<open>None\<close> in the result for an invalid mode.\<close>

definition physical_domains ::
  "bool \<Rightarrow> bool \<Rightarrow> u8 \<Rightarrow> nat \<Rightarrow> DFX_RCMGR_OUTPUT_BLK \<Rightarrow> (nat \<times> u32 \<times> DFX_RCMGR_OUTPUT_BLK) option option" where
  "physical_domains dbg asNuma ActualNps NumberOfCpus b =
     (if ActualNps = 0 then
        do { c_assert dbg (NumberOfCpus = 2);
             (n, b) \<leftarrow> add_domain asNuma (cs_blocks 1 0 0 OR cs_blocks 1 0 1) Nps0CcxMap (0, b);
             Some (Some (n, 0, b)) }
      else if ActualNps = 1 then
        do { (n, b) \<leftarrow> for_each (\<lambda>Socket. add_domain asNuma (cs_blocks 1 0 Socket) (on_socket Socket Nps1CcxMap)) [0 ..< NumberOfCpus] (0, b);
             Some (Some (n, 1, b)) }
      else if ActualNps = 2 then
        do { (n, b) \<leftarrow> for_each (\<lambda>Socket. for_each (\<lambda>Half.
                 add_domain asNuma (cs_blocks 2 Half Socket) (on_socket Socket (Nps2CcxMap ! Half))) [0 ..< 2]) [0 ..< NumberOfCpus] (0, b);
             Some (Some (n, 2, b)) }
      else if ActualNps = 3 then
        do { (n, b) \<leftarrow> for_each (\<lambda>Socket. for_each (\<lambda>Quad.
                 add_domain_nps4 asNuma (cs_blocks 4 Quad Socket) (on_socket Socket (Nps4CcxMap ! Quad))) [0 ..< 4]) [0 ..< NumberOfCpus] (0, b);
             Some (Some (n, 4, b)) }
      else do { c_assert dbg False; Some None })"

section \<open>Reported domains\<close>

definition report_domain ::
  "FABRIC_DOMAIN_TYPE2 \<Rightarrow> nat \<Rightarrow> (nat \<Rightarrow> FABRIC_PHYS_DOMAIN_INFO \<Rightarrow> FABRIC_PHYS_DOMAIN_INFO) \<Rightarrow> nat \<times> DFX_RCMGR_OUTPUT_BLK
     \<Rightarrow> (nat \<times> DFX_RCMGR_OUTPUT_BLK) option" where
  "report_domain Type PhysicalDomain share = (\<lambda>(ReportedIndex, b).
     do { sil_assert (PhysicalDomain < length (PhysicalDomainInfo b));
          let SocketMap = GetSocketMapFromNormalizedCsMap (NormalizedCsMap (PhysicalDomainInfo b ! PhysicalDomain));
          infos \<leftarrow> array_upd ReportedIndex
            (\<lambda>_. \<lparr>dom_Type = Type, dom_SocketMap = SocketMap, dom_PhysicalDomain = PhysicalDomain\<rparr>) (ReportedDomainInfo b);
          phys \<leftarrow> array_upd PhysicalDomain (share ReportedIndex) (PhysicalDomainInfo b);
          Some (ReportedIndex + 1, b\<lparr>ReportedDomainInfo := infos, PhysicalDomainInfo := phys\<rparr>) })"

definition share_more :: "nat \<Rightarrow> FABRIC_PHYS_DOMAIN_INFO \<Rightarrow> FABRIC_PHYS_DOMAIN_INFO" where
  "share_more i d = d\<lparr>SharingEntityCount := SharingEntityCount d + 1, SharingEntityMap := SharingEntityMap d OR push_bit i 1\<rparr>"

definition share_only :: "nat \<Rightarrow> FABRIC_PHYS_DOMAIN_INFO \<Rightarrow> FABRIC_PHYS_DOMAIN_INFO" where
  "share_only i d = d\<lparr>SharingEntityCount := 1, SharingEntityMap := push_bit i 1\<rparr>"

text \<open>A domain for each complex, then one for each CXL device.\<close>

definition report_ccx ::
  "bool \<Rightarrow> nat \<Rightarrow> nat \<Rightarrow> nat \<Rightarrow> nat \<times> DFX_RCMGR_OUTPUT_BLK \<Rightarrow> (nat \<times> DFX_RCMGR_OUTPUT_BLK) option" where
  "report_ccx dbg n Socket Ccd = (\<lambda>(ReportedIndex, b).
     for_each (\<lambda>Ccx (ReportedIndex, b).
         do { d \<leftarrow> GetPhysDomainOfCcd dbg n b Socket (LogToPhysCcd b ! Socket ! Ccd);
              report_domain NumaDram d share_more (ReportedIndex, b) })
       [0 ..< CcxPerCcd b ! Socket] (ReportedIndex, b))"

definition report_socket ::
  "bool \<Rightarrow> nat \<Rightarrow> nat \<Rightarrow> nat \<times> DFX_RCMGR_OUTPUT_BLK \<Rightarrow> (nat \<times> DFX_RCMGR_OUTPUT_BLK) option" where
  "report_socket dbg n Socket = (\<lambda>(ReportedIndex, b). for_each (report_ccx dbg n Socket) [0 ..< CcdCount b ! Socket] (ReportedIndex, b))"

definition report_as_numa ::
  "bool \<Rightarrow> nat \<Rightarrow> domain_vars \<Rightarrow> DFX_RCMGR_OUTPUT_BLK \<Rightarrow> DFX_RCMGR_OUTPUT_BLK option" where
  "report_as_numa dbg NumberOfCpus v b =
     do { let b = b\<lparr>PhysicalDomainInfo := map (\<lambda>d. d\<lparr>SharingEntityCount := 0, SharingEntityMap := 0\<rparr>) (PhysicalDomainInfo b)\<rparr>;
          (i, b) \<leftarrow> for_each (report_socket dbg (NumberOfPhysicalDomains v)) [0 ..< NumberOfCpus] (0, b);
          let CxlBase = NumberOfPhysicalDomains v - SystemCxlCount v;
          (i, b) \<leftarrow> for_each (\<lambda>k. report_domain NumaCxl (k + CxlBase) share_only) [0 ..< SystemCxlCount v] (i, b);
          c_assert dbg (i = NumberOfReportedDomains v);
          Some b }"

definition report_step :: "nat \<Rightarrow> nat \<times> DFX_RCMGR_OUTPUT_BLK \<Rightarrow> (nat \<times> DFX_RCMGR_OUTPUT_BLK) option" where
  "report_step DomainNo = (\<lambda>(i, b).
     do { sil_assert (DomainNo < length (PhysicalDomainInfo b));
          report_domain (if NormalizedCsMap (PhysicalDomainInfo b ! DomainNo) AND CS_CMP_SYSTEM_MAP \<noteq> 0 then NumaCxl else NumaDram)
            DomainNo share_only (i, b) })"

definition report_physical :: "nat \<Rightarrow> DFX_RCMGR_OUTPUT_BLK \<Rightarrow> DFX_RCMGR_OUTPUT_BLK option" where
  "report_physical n b = do { (_, b) \<leftarrow> for_each report_step [0 ..< n] (0, b); Some b }"

section \<open>The two functions\<close>

text \<open>
  \<open>blk\<close> is the output block of the resource manager when \<^verbatim>\<open>SilFindStructure\<close> finds one. The result has the block and the
  variables as the function leaves them. \<^verbatim>\<open>ActualNps\<close> is the second byte after the header of 48 bytes.
\<close>

definition DfXBuildDomainInfo ::
  "bool \<Rightarrow> 'h cpu_ops \<Rightarrow> 'h pci_ops \<Rightarrow> nat \<Rightarrow> memory \<Rightarrow> DFX_RCMGR_OUTPUT_BLK option \<Rightarrow> domain_vars \<Rightarrow> APOBLIB_INFO \<Rightarrow> 'h
     \<Rightarrow> (SIL_STATUS \<times> DFX_RCMGR_OUTPUT_BLK option \<times> domain_vars \<times> APOBLIB_INFO \<times> 'h) option" where
  "DfXBuildDomainInfo dbg cpu ops plat m blk v g h =
     (case blk of None \<Rightarrow> Some (SilUnsupported, None, v, g, h)
      | Some b \<Rightarrow>
        do { let b = b\<lparr>DomainInfoValid := False\<rparr>;
             (Status, NpsInfo, g) \<leftarrow> AmdGetApobEntryInstance plat m APOB_FABRIC APOB_SYS_NPS_INFO_TYPE 0 0 g;
             if Status \<noteq> SilPass then Some (SilUnsupported, Some b, v, g, h)
             else do {
               (NumberOfCpus, h) \<leftarrow> DfXGetNumberOfProcessorsPresent ops h;
               let v = v\<lparr>CcxAsNuma := AmdFabricCcxAsNumaDomain b\<rparr>;
               (b, h) \<leftarrow> BuildCcdInfo ops NumberOfCpus b h;
               let v = v\<lparr>NumberOfPhysicalDomains := 0,
                         MaxCcxPerCcd := if xUslGetRawIdOnExecutingCore cpu AND RAW_FAMILY_ID_MASK = AMD_F19_GENOA_RAW_ID
                                         then MAX_CCX_PER_CCD else MAX_CCX_PER_CCD_GENOA\<rparr>;
               let b = b\<lparr>ReportedDomainCcxMap := replicate (length (ReportedDomainCcxMap b)) 0\<rparr>;
               r \<leftarrow> physical_domains dbg (CcxAsNuma v) (m (NpsInfo + 49)) NumberOfCpus b;
               case r of None \<Rightarrow> Some (SilUnsupported, Some b, v, g, h)
               | Some (n, nps, b) \<Rightarrow>
                 do { (cxl, b, g) \<leftarrow> BuildCxlInfo plat m n b g;
                      let v = v\<lparr>PhysNps := nps, SystemCxlCount := cxl, NumberOfPhysicalDomains := n + cxl\<rparr>;
                      let v = v\<lparr>NumberOfReportedDomains :=
                                 if CcxAsNuma v then sum_list (map (\<lambda>Socket. CcdCount b ! Socket * CcxPerCcd b ! Socket) [0 ..< NumberOfCpus])
                                 else NumberOfPhysicalDomains v\<rparr>;
                      c_assert dbg (NumberOfReportedDomains v \<le> MAX_REPORTED_DOMAINS);
                      b \<leftarrow> (if CcxAsNuma v then report_as_numa dbg NumberOfCpus v b else report_physical (NumberOfPhysicalDomains v) b);
                      Some (SilPass, Some (b\<lparr>DomainInfoValid := True, out_NumberOfReportedDomains := NumberOfReportedDomains v\<rparr>), v, g, h) } } })"

text \<open>The translation; bits shifted out of the word are lost. \<open>ptr\<close> tells whether the caller gave a pointer for the result.\<close>

definition ccx_bit :: "domain_vars \<Rightarrow> nat \<Rightarrow> nat \<Rightarrow> nat \<Rightarrow> u32" where
  "ccx_bit v Socket PhysCcd Ccx =
     push_bit (Socket * NORMALIZED_SOCKET_SHIFT) (push_bit (PhysCcd * MaxCcxPerCcd v) (push_bit Ccx 1))"

definition DfDomainXlat ::
  "bool \<Rightarrow> 'h pci_ops \<Rightarrow> DFX_RCMGR_OUTPUT_BLK option \<Rightarrow> domain_vars \<Rightarrow> nat \<Rightarrow> nat \<Rightarrow> nat \<Rightarrow> nat \<Rightarrow> bool \<Rightarrow> 'h
     \<Rightarrow> (SIL_STATUS \<times> nat option \<times> 'h) option" where
  "DfDomainXlat dbg ops blk v Socket Die Ccd Ccx ptr h =
     (case blk of None \<Rightarrow> Some (SilUnsupported, None, h)
      | Some b \<Rightarrow>
        do { c_assert dbg (DomainInfoValid b);
             (n, h) \<leftarrow> DfXGetNumberOfProcessorsPresent ops h;
             if n \<le> Socket then Some (SilInvalidParameter, None, h)
             else if DfGetNumberOfDiesOnSocket \<le> Die then Some (SilInvalidParameter, None, h)
             else if CcdCount b ! Socket \<le> Ccd then Some (SilInvalidParameter, None, h)
             else if CcxPerCcd b ! Socket \<le> Ccx then Some (SilInvalidParameter, None, h)
             else if \<not> ptr then Some (SilInvalidParameter, None, h)
             else do {
               c_assert dbg (out_NumberOfReportedDomains b < MAX_REPORTED_DOMAINS);
               sil_assert (out_NumberOfReportedDomains b \<le> length (ReportedDomainCcxMap b));
               let i = length (takeWhile (\<lambda>i. ReportedDomainCcxMap b ! i AND ccx_bit v Socket (LogToPhysCcd b ! Socket ! Ccd) Ccx = 0)
                         [0 ..< out_NumberOfReportedDomains b]);
               if out_NumberOfReportedDomains b \<le> i then do { c_assert dbg False; Some (SilInvalidParameter, None, h) }
               else Some (SilPass, Some i, h) } })"

end
