(* ===== verification/Df_Init.thy ===== *)
theory Df_Init
  imports Df_Domains Sil_Store
begin

text \<open>
  The initialisation of the data fabric: clock gating (\<^verbatim>\<open>FabricDfClkGatingInit.c\<close>), hardware assertions and watchdog timers
  (\<^verbatim>\<open>FabricPieRasInit.c\<close>, \<^verbatim>\<open>DfXFabricWdt.c\<close>), the registration of the interfaces (\<^verbatim>\<open>DfX.c\<close>) and the time points (\<^verbatim>\<open>Df.c\<close>).
\<close>

section \<open>Loops over the sockets\<close>

text \<open>The number of processors is read from the register before every turn.\<close>

partial_function (option) socket_loop :: "'h pci_ops \<Rightarrow> (nat \<Rightarrow> 'h \<Rightarrow> 'h option) \<Rightarrow> nat \<Rightarrow> 'h \<Rightarrow> 'h option" where
  "socket_loop ops body i h =
     do { (n, h) \<leftarrow> DfXGetNumberOfProcessorsPresent ops h;
          if i < n then do { h \<leftarrow> body i h; socket_loop ops body (i + 1) h } else Some h }"

definition FabricClockGatingInit :: "'h pci_ops \<Rightarrow> 'h \<Rightarrow> 'h option" where
  "FabricClockGatingInit ops h =
     socket_loop ops (\<lambda>i. for_each (\<lambda>j h.
        do { (DfGlblClkGater, h) \<leftarrow> DfXFabricRegisterAccRead ops i 5 0x104 FABRIC_REG_ACC_BC h;
             let TmpDfGlblClkGater = DfGlblClkGater;
             if TmpDfGlblClkGater \<noteq> DfGlblClkGater
             then DfXFabricRegisterAccWrite ops i 5 0x104 FABRIC_REG_ACC_BC DfGlblClkGater h else Some h })
        [0 ..< DfGetNumberOfDiesOnSocket]) 0 h"

section \<open>Hardware assertions and watchdog timers\<close>

record DFCLASS_INPUT_BLK =
  AmdFabricWdtCfg :: u32
  AmdFabricWdtCntSel :: u32
  DfGlblCtrlInstanceIds :: "u32 list"
  AmdFabricImmSyncFloodOnFatalErrCtrl :: bool
  AmdFabricNumOfScrubber :: u32
  AmdFabricNumSeqScrubsCstateExit :: u32
  AmdFabricEccScrubRedirection :: u32
  FabricEccScrubPoisoned :: u32
  AmdFabricDramScrubTime :: u32
  AmdFabricEccScrubRedirectionLimit :: u32
  AmdFabricPeriodicDirRinse :: bool

text \<open>The instances whose control register is set up, in the order of \<^verbatim>\<open>SilDfGlblCtrlInstanceIds\<close>.\<close>

definition SilDfGlblCtrlInstanceIds :: "u32 list" where
  "SilDfGlblCtrlInstanceIds = map of_nat ([0 ..< 57] @ [65 ..< 97]) @ [0xFFFFFFFF]"

definition mDfClassDflts :: DFCLASS_INPUT_BLK where
  "mDfClassDflts = \<lparr>AmdFabricWdtCfg = 0xFF, AmdFabricWdtCntSel = 0xFF, DfGlblCtrlInstanceIds = SilDfGlblCtrlInstanceIds,
     AmdFabricImmSyncFloodOnFatalErrCtrl = False, AmdFabricNumOfScrubber = 0xFF, AmdFabricNumSeqScrubsCstateExit = 0xFF,
     AmdFabricEccScrubRedirection = 1, FabricEccScrubPoisoned = 1, AmdFabricDramScrubTime = 0xFF,
     AmdFabricEccScrubRedirectionLimit = 0xFF, AmdFabricPeriodicDirRinse = True\<rparr>"

definition HARDWAREASSERTSTATUSLOW_REG :: u32 where "HARDWAREASSERTSTATUSLOW_REG = 0x8F0"
definition HARDWAREASSERTSTATUSHIGH_REG :: u32 where "HARDWAREASSERTSTATUSHIGH_REG = 0x8F4"
definition HARDWAREASSERTMASKLOW_REG :: u32 where "HARDWAREASSERTMASKLOW_REG = 0x8F8"
definition HARDWAREASSERTMASKHIGH_REG :: u32 where "HARDWAREASSERTMASKHIGH_REG = 0x8FC"
definition DFGLOBALCTRL_REG :: u32 where "DFGLOBALCTRL_REG = 0x044"

text \<open>One status register: unmasked assertions are traced and cleared.\<close>

definition clear_assert :: "'h pci_ops \<Rightarrow> nat \<Rightarrow> u32 \<Rightarrow> u32 \<Rightarrow> u32 \<Rightarrow> 'h \<Rightarrow> 'h option" where
  "clear_assert ops i StatusReg MaskReg Instance h =
     do { (HwaSts, h) \<leftarrow> DfXFabricRegisterAccRead ops i 3 StatusReg Instance h;
          if HwaSts = 0 then Some h
          else do { (HwaMask, h) \<leftarrow> DfXFabricRegisterAccRead ops i 3 MaskReg Instance h;
                    let HwaSts = HwaSts AND NOT HwaMask;
                    let HwaSts = (if HwaSts \<noteq> 0 then 0 else HwaSts);
                    DfXFabricRegisterAccWrite ops i 3 StatusReg Instance HwaSts h } }"

definition clear_asserts :: "'h pci_ops \<Rightarrow> nat \<Rightarrow> nat \<Rightarrow> 'h \<Rightarrow> 'h option" where
  "clear_asserts ops i InstancesAccountedFor h =
     do { h \<leftarrow> clear_assert ops i HARDWAREASSERTSTATUSLOW_REG HARDWAREASSERTMASKLOW_REG (of_nat InstancesAccountedFor) h;
          clear_assert ops i HARDWAREASSERTSTATUSHIGH_REG HARDWAREASSERTMASKHIGH_REG (of_nat InstancesAccountedFor) h }"

definition DisImmSyncFloodOnFatalErr :: "u32 \<Rightarrow> u32 \<Rightarrow> u32" where "DisImmSyncFloodOnFatalErr x = set_field 3 1 x"
definition WDTBaseSel :: "u32 \<Rightarrow> u32" where "WDTBaseSel v = get_field 4 2 v"
definition CCMWDTCntSel :: "u32 \<Rightarrow> u32" where "CCMWDTCntSel v = get_field 16 3 v"

text \<open>The new value of a control register \<^verbatim>\<open>DF_GLOBAL_CTRL_REGISTER\<close>.\<close>

definition global_ctrl :: "DFCLASS_INPUT_BLK \<Rightarrow> u32 \<Rightarrow> u32" where
  "global_ctrl b v =
     (let WdtCntSelRequest = (if AmdFabricWdtCntSel b = 0xFF then 6 else AmdFabricWdtCntSel b);
          v = (if AmdFabricWdtCfg b \<le> 3 then set_field 4 2 (AmdFabricWdtCfg b) v else v);
          v = (if WdtCntSelRequest \<le> 7
               then set_field 16 3 WdtCntSelRequest (set_field 12 3 WdtCntSelRequest (set_field 8 3 WdtCntSelRequest v)) else v)
      in DisImmSyncFloodOnFatalErr (if AmdFabricImmSyncFloodOnFatalErrCtrl b then 0 else 1) v)"

text \<open>The list of instances ends with a marker; without one the loop leaves the array.\<close>

fun set_global_ctrl :: "'h pci_ops \<Rightarrow> DFCLASS_INPUT_BLK \<Rightarrow> nat \<Rightarrow> u32 list \<Rightarrow> 'h \<Rightarrow> 'h option" where
  "set_global_ctrl ops b i [] h = None"
| "set_global_ctrl ops b i (k # ks) h =
     (if k = 0xFFFFFFFF then Some h
      else do { (DfGlblCtrl, h) \<leftarrow> DfXFabricRegisterAccRead ops i 3 DFGLOBALCTRL_REG k h;
                h \<leftarrow> DfXFabricRegisterAccWrite ops i 3 DFGLOBALCTRL_REG k (global_ctrl b DfGlblCtrl) h;
                set_global_ctrl ops b i ks h })"

definition FabricPieRasInit :: "'h pci_ops \<Rightarrow> DFCLASS_INPUT_BLK \<Rightarrow> 'h \<Rightarrow> 'h option" where
  "FabricPieRasInit ops b h =
     socket_loop ops (\<lambda>i h.
        do { (FabricBlkInstCount, h) \<leftarrow> DfXFabricRegisterAccRead ops i 0 0x40 FABRIC_REG_ACC_BC h;
             h \<leftarrow> for_each (\<lambda>j. for_each (clear_asserts ops i) [0 ..< unat (get_field 0 8 FabricBlkInstCount)])
                    [0 ..< DfGetNumberOfDiesOnSocket] h;
             set_global_ctrl ops b i (DfGlblCtrlInstanceIds b) h }) 0 h"

section \<open>Watchdog information\<close>

definition DfWdtCntSelDecode :: "u32 list" where "DfWdtCntSelDecode = [31, 127, 255, 511, 1023, 2047, 4095, 16383]"
definition DfWdtBaseSelDecode :: "u64 list" where "DfWdtBaseSelDecode = [1310000, 1280, 10, 0]"
definition TIMER_DISABLE :: u32 where "TIMER_DISABLE = 3"

text \<open>The two assertions of the code cannot fail, since the fields have two and three bits.\<close>

definition DfXGetWdtInfo :: "'h pci_ops \<Rightarrow> u16 \<Rightarrow> u16 \<Rightarrow> 'h \<Rightarrow> (bool \<times> u64 \<times> 'h) option" where
  "DfXGetWdtInfo ops DfGlobalCntlFunc DfGlobalCntlReg h =
     do { (v, h) \<leftarrow> DfXFabricRegisterAccRead ops 0 (ucast DfGlobalCntlFunc) (ucast DfGlobalCntlReg) FABRIC_REG_ACC_BC h;
          Some (if WDTBaseSel v < TIMER_DISABLE
                then (True, DfWdtBaseSelDecode ! unat (WDTBaseSel v) * ucast (DfWdtCntSelDecode ! unat (CCMWDTCntSel v)), h)
                else (False, 0, h)) }"

section \<open>Time points\<close>

definition FabricSocInit :: "'h pci_ops \<Rightarrow> DFCLASS_INPUT_BLK \<Rightarrow> 'h \<Rightarrow> 'h option" where
  "FabricSocInit ops b h = do { h \<leftarrow> FabricClockGatingInit ops h; FabricPieRasInit ops b h }"

text \<open>\<open>xfer\<close> and \<open>api\<close> are the addresses of \<^verbatim>\<open>DfCmn2Rev4Xfer\<close> and \<^verbatim>\<open>DfIp2IpApiRev4\<close>.\<close>

definition DfInitApiRev4 ::
  "bool \<Rightarrow> u64 \<Rightarrow> u64 \<Rightarrow> 'x sil_state_scheme \<Rightarrow> (SIL_STATUS \<times> 'x sil_state_scheme) option" where
  "DfInitApiRev4 dbg xfer api s =
     do { (Status, s) \<leftarrow> SilInitCommon2RevXferTable dbg (id_val SilId_DfClass) xfer s;
          if Status \<noteq> SilPass then Some (Status, s)
          else SilInitIp2IpApi dbg (id_val SilId_DfClass) api s }"

definition DfXBaseFabricTopologyConstructor :: SIL_STATUS where "DfXBaseFabricTopologyConstructor = SilPass"

text \<open>
  \<open>blk\<close> is the input block when one is found, \<open>out\<close> the output block of the resource manager. The status of
  \<^verbatim>\<open>DfBuildDomainInfo\<close> is dropped.
\<close>

definition InitializeDataFabricTp1 ::
  "bool \<Rightarrow> 'h cpu_ops \<Rightarrow> 'h pci_ops \<Rightarrow> nat \<Rightarrow> sil_state \<Rightarrow> DFCLASS_INPUT_BLK option \<Rightarrow> DFX_RCMGR_OUTPUT_BLK option \<Rightarrow> domain_vars
     \<Rightarrow> APOBLIB_INFO \<Rightarrow> 'h \<Rightarrow> (SIL_STATUS \<times> DFX_RCMGR_OUTPUT_BLK option \<times> domain_vars \<times> APOBLIB_INFO \<times> 'h) option" where
  "InitializeDataFabricTp1 dbg cpu ops plat s blk out v g h =
     do { (Status, _) \<leftarrow> SilGetCommon2RevXferTable dbg (id_val SilId_DfClass) s;
          sil_assert (Status = SilPass);
          case blk of None \<Rightarrow> Some (SilNotFound, out, v, g, h)
          | Some b \<Rightarrow>
            do { h \<leftarrow> FabricSocInit ops b h;
                 (_, out, v, g, h) \<leftarrow> DfXBuildDomainInfo dbg cpu ops plat (mem s) out v g h;
                 Some (Status, out, v, g, h) } }"

definition InitializeDataFabricTp2 :: SIL_STATUS where "InitializeDataFabricTp2 = SilPass"
definition InitializeDataFabricTp3 :: SIL_STATUS where "InitializeDataFabricTp3 = SilPass"

end
