(* ===== verification/Df_Domain_Props.thy ===== *)
theory Df_Domain_Props
  imports Df_Init Ccx_DownCore_Props
begin

text \<open>
  The NUMA domains on a fabric whose registers keep their values: which domain a core is translated to, and which memory
  belongs to it.
\<close>

section \<open>Registers\<close>










section \<open>The CCDs of the sockets\<close>







section \<open>Domains\<close>




section \<open>The domain of a core\<close>









lemma nps2_bits: "p < 12 \<Longrightarrow> part < 2 \<Longrightarrow> bit (Nps2CcxMap ! part) p \<longleftrightarrow> p mod 2 = part"
proof -
  have "\<forall>p \<in> set [0 ..< 12]. \<forall>part \<in> set [0 ..< 2]. bit (Nps2CcxMap ! part) p \<longleftrightarrow> p mod 2 = part" by code_simp
  then show "p < 12 \<Longrightarrow> part < 2 \<Longrightarrow> bit (Nps2CcxMap ! part) p \<longleftrightarrow> p mod 2 = part" by auto
qed










section \<open>Four domains per socket\<close>






section \<open>A sample fabric\<close>














end
