(* ===== verification/Rc_Props.thy ===== *)
theory Rc_Props
  imports Rc_Sample
begin

text \<open>
  The properties of the resource manager, each with an instance on the sample system where it has
  hypotheses.
\<close>

section \<open>Reservations\<close>

text \<open>
  C6: any sequence of reservations from the non-PCI pool of a region (\<^verbatim>\<open>FabricGetBaseAddress\<close>) hands out
  addresses that are aligned, lie inside the unused part of the pool, and are pairwise disjoint, whatever
  the lengths, alignments and refusals in between.
\<close>

theorem mmio_reservations_disjoint:
  assumes "pool_ok (BaseNonPci r) (SizeNonPci r) (UsedSizeNonPci r)" and "BaseNonPci r \<noteq> 0"
    and "\<forall>q\<in>set qs. request_ok q (BaseNonPci r) (SizeNonPci r)"
    and "alloc_all (\<lambda>r len m. FabricGetBaseAddress r len m NON_PCI_DEVICE_BELOW_4G) qs r = (as, r')"
  shows "length as = length qs
    \<and> (\<forall>i<length qs. as ! i \<noteq> 0 \<longrightarrow>
       unat (BaseNonPci r) + unat (UsedSizeNonPci r) \<le> unat (as ! i)
       \<and> unat (as ! i) + unat (fst (qs ! i)) \<le> unat (BaseNonPci r) + unat (SizeNonPci r)
       \<and> as ! i AND snd (qs ! i) = 0)
    \<and> (\<forall>i j. i < j \<longrightarrow> j < length qs \<longrightarrow> as ! i \<noteq> 0 \<longrightarrow> as ! j \<noteq> 0 \<longrightarrow>
         unat (as ! i) + unat (fst (qs ! i)) \<le> unat (as ! j))"
  by (rule non_pci.alloc_all_ranges [OF assms])

definition sample_pool :: FABRIC_MMIO_REGION where
  "sample_pool = empty_region\<lparr>BaseNonPci := 0xE0000800, SizeNonPci := 0x500000\<rparr>"

lemma align_mask_64K: "align_mask 16 0xFFFF"
  by (simp add: align_mask_def mask_eq_exp_minus_1)

theorem mmio_reservations_disjoint_witness:
  "let (as, r') = alloc_all (\<lambda>r len m. FabricGetBaseAddress r len m NON_PCI_DEVICE_BELOW_4G)
       [(0x1000, 0xFFFF), (0x600000, 0xFFFF), (0x2000, 0xFFFF)] sample_pool
   in as = [0xE0010000, 0, 0xE0020000] \<and> unat (as ! 0) + 0x1000 \<le> unat (as ! 2)"
proof -
  let ?qs = "[(0x1000, 0xFFFF), (0x600000, 0xFFFF), (0x2000, 0xFFFF)] :: (u64 \<times> u64) list"
  obtain as r' where run: "alloc_all (\<lambda>r len m. FabricGetBaseAddress r len m NON_PCI_DEVICE_BELOW_4G) ?qs sample_pool
      = (as, r')" by force
  have fst: "fst (alloc_all (\<lambda>r len m. FabricGetBaseAddress r len m NON_PCI_DEVICE_BELOW_4G) ?qs sample_pool)
      = [0xE0010000, 0, 0xE0020000]" by code_simp
  have pool: "pool_ok (BaseNonPci sample_pool) (SizeNonPci sample_pool) (UsedSizeNonPci sample_pool)"
    "BaseNonPci sample_pool \<noteq> 0"
    by (simp_all add: pool_ok_def sample_pool_def empty_region_def)
  have req: "\<forall>q\<in>set ?qs. request_ok q (BaseNonPci sample_pool) (SizeNonPci sample_pool)"
    using align_mask_64K by (auto simp: request_ok_def sample_pool_def)
  from mmio_reservations_disjoint [OF pool req run] fst run show ?thesis
    by (fastforce simp: Let_def)
qed

text \<open>
  A reservation above 4G for a root bridge that was given such space either fails with
  \<^verbatim>\<open>SilOutOfResources\<close> and base 0, or succeeds with an aligned range inside the non-PCI pool of that root
  bridge, and only the used size of that pool changes.
\<close>

theorem reserve_above_inside:
  assumes "reserve_above4G mgr here Length Alignment NON_PCI_DEVICE_ABOVE_4G = Some (b, SizeA, SizeB, mgr')"
    and "r = MmioRegionAbove4G mgr (fst here) (snd here)"
    and "pool_ok (BaseNonPci r) (SizeNonPci r) (UsedSizeNonPci r)" and "BaseNonPci r \<noteq> 0" and "Length \<noteq> 0"
    and "request_ok (Length, Alignment) (BaseNonPci r) (SizeNonPci r)"
  shows "if Length \<le> SizeA
    then b \<noteq> 0 \<and> unat (BaseNonPci r) + unat (UsedSizeNonPci r) \<le> unat b
      \<and> unat b + unat Length \<le> unat (BaseNonPci r) + unat (SizeNonPci r) \<and> b AND Alignment = 0
      \<and> (\<forall>p. p \<noteq> here \<longrightarrow> MmioRegionAbove4G mgr' (fst p) (snd p) = MmioRegionAbove4G mgr (fst p) (snd p))
    else b = 0 \<and> mgr' = mgr"
proof -
  let ?alloc = "\<lambda>r len m. FabricGetBaseAddress r len m NON_PCI_DEVICE_ABOVE_4G"
  have s: "FabricGetRemainingSizeForThisRegion r Alignment NON_PCI_DEVICE_ABOVE_4G = Some SizeA"
    and res: "(b, mgr') = (if Length \<le> SizeA
        then (fst (?alloc r Length Alignment),
              mgr\<lparr>MmioRegionAbove4G := rb_upd (MmioRegionAbove4G mgr) (fst here) (snd here)
                    (snd (?alloc r Length Alignment))\<rparr>)
        else (0, mgr))"
    using assms(1) by (auto simp: reserve_above4G_def assms(2) alloc_at_def Let_def split_def
        Option.bind_eq_Some_conv split: if_splits)
  show ?thesis
  proof (cases "Length \<le> SizeA")
    case True
    have "0 < unat (BaseNonPci r)" using assms(4) by (simp add: unat_gt_0)
    moreover have "unat (BaseNonPci r + UsedSizeNonPci r) = unat (BaseNonPci r) + unat (UsedSizeNonPci r)"
      using assms(3) by (intro unat_plus_small) (simp add: pool_ok_def)
    ultimately have nz: "BaseNonPci r + UsedSizeNonPci r \<noteq> 0" by (metis add_gr_0 less_nat_zero_code unat_0)
    have b: "b \<noteq> 0"
      using non_pci_above.remaining_reservable [OF assms(3,6) s True assms(5) nz] res True by simp
    have run: "?alloc r Length Alignment = (b, snd (?alloc r Length Alignment))" using res True by simp
    show ?thesis
      using non_pci_above.alloc_inside(1,2,3) [OF assms(3,6) run b] b res True by (auto simp: prod_eq_iff)
  next
    case False
    then show ?thesis using res by simp
  qed
qed

definition sample_mgr :: FABRIC_MMIO_MANAGER where
  "sample_mgr = (MmioRcMgr sample_blk)\<lparr>MmioRegionAbove4G := \<lambda>s r. sample_pool\<rparr>"

theorem reserve_above_inside_witness:
  "\<exists>b SizeA SizeB mgr'. reserve_above4G sample_mgr (0, 1) 0x1000 0xFFFF NON_PCI_DEVICE_ABOVE_4G
       = Some (b, SizeA, SizeB, mgr')
     \<and> b = 0xE0010000 \<and> unat b + 0x1000 \<le> unat (0xE0000800 :: u64) + 0x500000"
proof -
  let ?run = "reserve_above4G sample_mgr (0, 1) 0x1000 0xFFFF NON_PCI_DEVICE_ABOVE_4G"
  have ev: "map_option (\<lambda>(b, SizeA, SizeB, m). (b, SizeA)) ?run = Some (0xE0010000, 0x4F0800)" by code_simp
  then obtain SizeB mgr' where run: "?run = Some (0xE0010000, 0x4F0800, SizeB, mgr')" by auto
  have r: "sample_pool = MmioRegionAbove4G sample_mgr (fst (0, 1)) (snd (0, 1))" by (simp add: sample_mgr_def)
  have pool: "pool_ok (BaseNonPci sample_pool) (SizeNonPci sample_pool) (UsedSizeNonPci sample_pool)"
    "BaseNonPci sample_pool \<noteq> 0"
    by (simp_all add: pool_ok_def sample_pool_def empty_region_def)
  have "request_ok (0x1000, 0xFFFF) (BaseNonPci sample_pool) (SizeNonPci sample_pool)"
    using align_mask_64K by (auto simp: request_ok_def sample_pool_def)
  from reserve_above_inside [OF run r pool _ this] run show ?thesis by (simp add: sample_pool_def)
qed

section \<open>MMIO above 4G\<close>




section \<open>MMIO below 4G\<close>

text \<open>
  The layout \<^verbatim>\<open>SilTryThisCombination\<close> computes for a root bridge holds what was asked for in each
  pool, in all four orders of the pools: they lie between the base and the ceiling, do not overlap and
  start at aligned addresses.
\<close>

theorem below4G_layout:
  assumes "\<exists>i. align_mask i (ap_Alignment np)" and "\<exists>j. align_mask j (ap_Alignment p)"
    and "unat MmioBaseAddr + below_need np p n < 2 ^ 64"
  shows "below_layout_ok MmioBaseAddr np p n (layout_below BigAlignFirst MmioBaseAddr np p n)"
  using layout_below_ok assms by blast

theorem below4G_layout_witness:
  "below_layout_ok 0xF0000000 (aperture 0x100000 0xFFFFF) (aperture 0x200000 0x1FFFFF) 0x500000
     (layout_below False 0xF0000000 (aperture 0x100000 0xFFFFF) (aperture 0x200000 0x1FFFFF) 0x500000)"
proof (rule below4G_layout)
  show "\<exists>i. align_mask i (ap_Alignment (aperture 0x100000 0xFFFFF))"
    by (rule exI [of _ 20]) (simp add: align_mask_def aperture_def mask_eq_exp_minus_1)
  show "\<exists>j. align_mask j (ap_Alignment (aperture 0x200000 0x1FFFFF))"
    by (rule exI [of _ 21]) (simp add: align_mask_def aperture_def mask_eq_exp_minus_1)
qed (simp add: below_need_def aperture_def RCMGR_NON_PCI_MMIO_ALIGN_MASK_def)

text \<open>
  Starting from the first arrangement, \<^verbatim>\<open>SilGetNextCombination\<close> goes through every arrangement of
  \<open>n\<close> of \<open>N\<close> root bridges below the configuration space exactly once and then reports the end.
\<close>

theorem combinations_enumerated:
  assumes "n \<le> N"
  shows "\<exists>cs. distinct cs \<and> set cs = {c. length c = N \<and> count_list c False = n}
    \<and> hd cs = replicate (N - n) True @ replicate n False
    \<and> (\<forall>i. Suc i < length cs \<longrightarrow> SilGetNextCombination dbg n N (cs ! i @ zs) = Some (True, cs ! Suc i @ zs))
    \<and> SilGetNextCombination dbg n N (last cs @ zs) = Some (False, last cs @ zs)"
proof (intro exI conjI)
  show "SilGetNextCombination dbg n N (last (combos N n) @ zs) = Some (False, last (combos N n) @ zs)"
    by (rule SilGetNextCombination_last [where zs = "replicate (N - n) True @ zs"])
      (simp add: combos_ends(3) [OF assms])
qed (use distinct_combos set_combos combos_ends(2) [OF assms] SilGetNextCombination_combos in auto)

theorem combinations_enumerated_witness:
  "(\<exists>cs. distinct cs \<and> set cs = {c. length c = 4 \<and> count_list c False = 2}
     \<and> hd cs = [True, True, False, False])
   \<and> SilGetNextCombination True 2 4 [False, True, False, True] = Some (True, [False, False, True, True])"
proof
  have "replicate (4 - 2) True @ replicate 2 False = [True, True, False, False]"
    by (simp add: numeral_2_eq_2)
  with combinations_enumerated [of 2 4 True "[]"]
  show "\<exists>cs. distinct cs \<and> set cs = {c. length c = 4 \<and> count_list c False = 2}
     \<and> hd cs = [True, True, False, False]" by auto
qed code_simp




text \<open>
  C31: a dry run predicts the final run. When a try that programs the registers returns, its result is
  the one the calculation alone gives, so a combination found by the search is not refused later.
\<close>

theorem dry_run_predicts:
  assumes "SilTryThisCombination dbg ops d BaseAbove BaseBelow xs True acc h = Some (ok, acc', d', h')"
    and "SilTryThisCombination dbg ops' d BaseAbove BaseBelow xs False acc2 h2 = Some (ok2, acc2', d2', h2')"
  shows "ok = ok2 \<and> d2' = d \<and> h2' = h2"
proof -
  let ?start = "\<lambda>h. \<lparr>br_st = below_start BaseAbove BaseBelow, br_mgr = MmioRcMgr d, br_reserved = False, br_h = h\<rparr>"
  let ?calc = "calc_all d (0, 2) xs (placement_order d (0, 2)) (below_start BaseAbove BaseBelow)"
  obtain rn where run: "for_each (try_rb dbg ops d (0, 2) xs True) (placement_order d (0, 2)) (?start h) = Some rn"
    and ok: "ok = (\<not> b_over (br_st rn))"
    using assms(1) by (auto simp: SilTryThisCombination_def SilGetPrimaryRb_eq Let_def Option.bind_eq_Some_conv
        split: if_splits)
  obtain rn2 where run2: "for_each (try_rb dbg ops' d (0, 2) xs False) (placement_order d (0, 2)) (?start h2) = Some rn2"
    and ok2: "ok2 = (\<not> b_over (br_st rn2))" "d2' = d\<lparr>MmioRcMgr := br_mgr rn2\<rparr>" "h2' = br_h rn2"
    using assms(2) by (auto simp: SilTryThisCombination_def SilGetPrimaryRb_eq Let_def Option.bind_eq_Some_conv
        split: if_splits)
  have keep: "br_mgr rn2 = MmioRcMgr d \<and> br_h rn2 = h2"
    by (rule for_each_invariant [OF run2])
      (auto simp: try_rb_def Let_def split: if_splits prod.splits option.splits)
  show ?thesis
    using final_run_over [OF run] final_run_over [OF run2] ok ok2 keep by simp
qed

theorem dry_run_predicts_witness:
  "\<exists>acc d' h' acc2. SilTryThisCombination True idle_bus sample_blk 0xF0000000 0xC0000000 (replicate 8 True) True (0, 0) ()
      = Some (True, acc, d', h')
    \<and> SilTryThisCombination True idle_bus sample_blk 0xF0000000 0xC0000000 (replicate 8 True) False (0, 0) ()
      = Some (True, acc2, sample_blk, ())"
proof -
  let ?final = "SilTryThisCombination True idle_bus sample_blk 0xF0000000 0xC0000000 (replicate 8 True) True (0, 0) ()"
  let ?dry = "SilTryThisCombination True idle_bus sample_blk 0xF0000000 0xC0000000 (replicate 8 True) False (0, 0) ()"
  have "map_option fst ?final = Some True" by code_simp
  then obtain acc d' h' where f: "?final = Some (True, acc, d', h')" by auto
  have "map_option fst ?dry = Some True" by code_simp
  then obtain ok2 acc2 d2 h2 where g: "?dry = Some (ok2, acc2, d2, h2)" by auto
  from dry_run_predicts [OF f g] f g show ?thesis by auto
qed

end
