(* ===== verification/Rc_Props2.thy ===== *)
theory Rc_Props2
  imports Rc_Sample
begin

text \<open>
  Further properties of the resource manager: the window above 4G, IO ports, bus numbers, equal shares
  and the status of time point 1.
\<close>

section \<open>The window above 4G\<close>

text \<open>
  With the PCI configuration space below 4G, the window \<^verbatim>\<open>SilInitMmioBasedOnNvVariable4\<close> uses above
  4G, unless it is empty, starts above 4G and above memory, respects the limit, and avoids the reserved
  hole from \<^verbatim>\<open>0xFD_0000_0000\<close> to \<^verbatim>\<open>0x100_0000_0000\<close>.
\<close>

theorem window_avoids_hole:
  assumes "nv_window dbg d cpu = Some (b, l)" and "b < l" and "PciExpressBaseAddress d < 0x100000000"
  shows "0x100000000 \<le> b \<and> TOM2 cpu \<le> b \<and> l \<le> nv_limit d cpu \<and> (l \<le> 0xFD00000000 \<or> 0x10000000000 \<le> b)"
proof -
  have "fd_hole cpu (above4G_start cpu, nv_limit d cpu) = (b, l)"
    using assms(1,3) by (simp add: nv_window_def pcie_hole_def not_le [symmetric])
  moreover have "0x100000000 \<le> above4G_start cpu" "TOM2 cpu \<le> above4G_start cpu"
    by (auto simp: above4G_start_def)
  moreover have "0x10000000000 < TOM2 cpu \<Longrightarrow> 0x100000000 \<le> TOM2 cpu"
    by (simp add: word_less_nat_alt word_le_nat_alt)
  ultimately show ?thesis
    using assms(2) by (auto simp: fd_hole_def Let_def not_less split: if_splits)
qed

theorem window_avoids_hole_witness:
  "nv_window True sample_blk sample_cpu = Some (0x10000000000, 0xFFFD00000000)
     \<and> TOM2 sample_cpu \<le> 0x10000000000"
proof
  show run: "nv_window True sample_blk sample_cpu = Some (0x10000000000, 0xFFFD00000000)" by code_simp
  have "PciExpressBaseAddress sample_blk < 0x100000000" by (simp add: sample_blk_def)
  from window_avoids_hole [OF run _ this] show "TOM2 sample_cpu \<le> 0x10000000000" by simp
qed

text \<open>
  With the PCI configuration space above the hole, the choice of the side of the hole forgets the
  choice of the side of the configuration space: there is an input for which the window contains the
  whole configuration space.
\<close>

definition high_cfg_blk :: RCMGR_INPUT_BLK where
  "high_cfg_blk = sample_blk\<lparr>PciExpressBaseAddress := 0x30000000000\<rparr>"

lemma pcie_space_in_window:
  "\<exists>d cpu b l. nv_window True d cpu = Some (b, l) \<and> 0x100000000 \<le> PciExpressBaseAddress d
     \<and> b \<le> PciExpressBaseAddress d \<and> PciExpressBaseAddress d + PciCfgSpace cpu \<le> l"
proof (intro exI conjI)
  show "nv_window True high_cfg_blk sample_cpu = Some (0x10000000000, 0xFFFD00000000)" by code_simp
  have "PciExpressBaseAddress high_cfg_blk = 0x30000000000" by (simp add: high_cfg_blk_def)
  moreover have "PciCfgSpace sample_cpu = 0x10000000" by code_simp
  ultimately show "0x100000000 \<le> PciExpressBaseAddress high_cfg_blk"
    "0x10000000000 \<le> PciExpressBaseAddress high_cfg_blk"
    "PciExpressBaseAddress high_cfg_blk + PciCfgSpace sample_cpu \<le> 0xFFFD00000000"
    by simp_all
qed

section \<open>IO ports and buses\<close>


lemma idle_count: "stable_count idle_bus 4"
  by (simp add: stable_count_def idle_counts)





text \<open>
  On a single-socket system the turn of the loop that would extend the last range to bus 255 is the
  one skipped for the primary root bridge: no range is extended, and the buses after the requested ones
  belong to no root bridge.
\<close>

lemma single_socket_not_extended:
  assumes "SocketNumber d = 1" and "RbsPerSocket d = 4"
    and "\<forall>s r. 0 < unat (PciBusNumber (ResourceSizeForEachRb d) s r)"
    and "unat (bus_count d (0, 2)) + unat (bus_count d (0, 0)) + unat (bus_count d (0, 1)) + unat (bus_count d (0, 3)) \<le> x"
    and "x < 256"
  shows "\<not> owner (map bus_span (bus_ranges d (bus_order d (0, 2)) (bus_count d (0, 2) - 1))) x p"
proof -
  let ?l = "bus_count d (0, 2) - 1" and ?es = "bus_order d (0, 2)"
  have pos: "\<forall>e\<in>set ?es. 0 < unat (bus_count d (fst e))" and p0: "0 < unat (bus_count d (0, 2))"
    using assms(3) by (simp_all add: bus_count_def)
  have l: "Suc (unat ?l) = unat (bus_count d (0, 2))"
    using p0 by (subst unat_minus_small) simp_all
  note order = bus_order_one_socket [OF assms(1,2)]
  have fl: "\<forall>e\<in>set (butlast ?es). \<not> snd e" "\<not> snd (last ?es)" by (auto simp: order)
  have sum: "sum_list (map (\<lambda>e. unat (bus_count d (fst e))) ?es)
      = unat (bus_count d (0, 0)) + unat (bus_count d (0, 1)) + unat (bus_count d (0, 3))"
    by (simp add: order)
  have "consecutive (Suc (unat ?l)) (Suc (unat ?l) + sum_list (map (\<lambda>e. unat (bus_count d (fst e))) ?es))
      (map bus_span (bus_ranges d ?es ?l))"
    using bus_ranges_consecutive [OF pos fl(1), of ?l] fl(2) assms(4,5) l sum by simp
  from owner_in_window(2) [OF this] show ?thesis using assms(4) l sum by fastforce
qed

lemma single_socket_not_extended_witness:
  "\<forall>p. \<not> owner (map bus_span (bus_ranges sample_blk (bus_order sample_blk (0, 2))
     (bus_count sample_blk (0, 2) - 1))) 0x80 p"
  by (rule allI, rule single_socket_not_extended) (simp_all add: sample_blk_def sample_request_def bus_count_def)

text \<open>
  C35: the first call of \<^verbatim>\<open>DfXSilGetPhySktRbNum\<close> keeps a map with the entries collected from the hardware in
  the order of their first bus, and answers with the entry at the logical position; a later call with
  the kept map answers from it without changing it. The number of root bridges per socket is a
  hypothesis on the hardware.
\<close>

theorem log_to_phy_sorted:
  assumes "DfXSilGetPhySktRbNum ops s r None h = Some (p, Some m, h')" and "stable_count ops k"
  shows "(\<exists>m0 h0. log_to_phy_init ops h = Some (m0, h0) \<and> mset m = mset m0)
    \<and> sorted (map PciBusBase m) \<and> s * k + r < length m \<and> p = phy_pair (m ! (s * k + r))
    \<and> (\<forall>s' r'. s' * k + r' < length m \<longrightarrow>
          (\<exists>h''. DfXSilGetPhySktRbNum ops s' r' (Some m) h' = Some (phy_pair (m ! (s' * k + r')), Some m, h'')))"
proof -
  obtain m0 h0 where m0: "log_to_phy_init ops h = Some (m0, h0)"
    using assms(1) by (auto simp: DfXSilGetPhySktRbNum_def Option.bind_eq_Some_conv)
  moreover from this obtain h1 where c: "DfXGetNumberOfRootBridgesOnSocket ops 0 h0 = Some (k, h1)"
    using assms(2) by (auto simp: stable_count_def)
  ultimately have rest: "m = bus_sort PciBusBase m0" "s * k + r < length m" "p = phy_pair (m ! (s * k + r))"
    using assms(1) by (auto simp: DfXSilGetPhySktRbNum_def Let_def phy_pair_def split: if_splits)
  have "\<exists>h''. DfXSilGetPhySktRbNum ops s' r' (Some m) h' = Some (phy_pair (m ! (s' * k + r')), Some m, h'')"
    if "s' * k + r' < length m" for s' r'
  proof -
    obtain h2 where "DfXGetNumberOfRootBridgesOnSocket ops 0 h' = Some (k, h2)"
      using assms(2) by (auto simp: stable_count_def)
    with that show ?thesis by (simp add: DfXSilGetPhySktRbNum_def phy_pair_def Let_def)
  qed
  with m0 rest show ?thesis by (auto simp: bus_sort_mset bus_sort_sorted)
qed

theorem log_to_phy_sorted_witness:
  "DfXSilGetPhySktRbNum idle_bus 0 3 None () = Some ((0, 3), Some idle_map, ())
     \<and> sorted (map PciBusBase idle_map)"
proof
  show run: "DfXSilGetPhySktRbNum idle_bus 0 3 None () = Some ((0, 3), Some idle_map, ())"
    by (simp add: idle_phy)
  from log_to_phy_sorted [OF run idle_count] show "sorted (map PciBusBase idle_map)" by blast
qed

section \<open>Equal shares\<close>

text \<open>
  An equal share below 4G is tiled by its three pools, without overlap, and they use it up to a rest
  of less than 64 KB, provided the share holds the non-PCI pool and starts at a 64 KB boundary.
\<close>

theorem equal_share_tiled:
  assumes "unat base + unat sz < 2 ^ 64" and "unat sz < 2 ^ 62" and "2 ^ 16 dvd unat base"
    and "unat (MmioSizePerRbForNonPciDevice d) \<le> unat sz" and "r = region_equally d base sz"
  shows "BasePrefetch r = base
    \<and> unat (BaseNonPrefetch r) = unat base + unat (SizePrefetch r)
    \<and> unat (BaseNonPci r) = unat (BaseNonPrefetch r) + unat (SizeNonPrefetch r)
    \<and> unat (BaseNonPci r) + unat (SizeNonPci r) \<le> unat base + unat sz
    \<and> unat base + unat sz < unat (BaseNonPci r) + unat (SizeNonPci r) + 2 ^ 16"
  using region_equally_tiles [OF assms(1-4)] assms(5) by simp

theorem equal_share_tiled_witness:
  "SizePrefetch (region_equally sample_blk 0xE0000000 0x8000000) = 0x6000000
   \<and> unat (BaseNonPrefetch (region_equally sample_blk 0xE0000000 0x8000000)) = 0xE6000000"
proof
  show s: "SizePrefetch (region_equally sample_blk 0xE0000000 0x8000000) = 0x6000000" by code_simp
  show "unat (BaseNonPrefetch (region_equally sample_blk 0xE0000000 0x8000000)) = 0xE6000000"
    using equal_share_tiled [OF _ _ _ _ refl, of "0xE0000000" "0x8000000" sample_blk] s
    by (simp add: sample_blk_def)
qed

text \<open>
  Above 4G there is no such guarantee: the only check is that the share is not smaller than the
  non-PCI pool, but that pool is moved up to a 256 MB boundary first. There is a share that passes the
  check for which the prefetchable pool ends past the share.
\<close>

lemma equal_share_above_overflows:
  "\<exists>d base sz. MMIO_MIN_NON_PCI_SIZE_ABOVE4G \<le> sz \<and> unat base + unat sz < 2 ^ 64
     \<and> (let r = region_above_equally d base sz
        in unat base + unat sz < unat (BasePrefetch r) + unat (SizePrefetch r))"
proof -
  let ?base = "0x261000000 :: u64" and ?sz = "0x21000000 :: u64"
  have "MMIO_MIN_NON_PCI_SIZE_ABOVE4G \<le> ?sz \<and> unat ?base + unat ?sz < 2 ^ 64"
    by (simp add: MMIO_MIN_NON_PCI_SIZE_ABOVE4G_def)
  moreover have "BasePrefetch (region_above_equally sample_blk ?base ?sz) = 0x290200000
      \<and> SizePrefetch (region_above_equally sample_blk ?base ?sz) = 0x3333333327000000" by code_simp
  ultimately show ?thesis by (intro exI [of _ sample_blk] exI [of _ ?base] exI [of _ ?sz]) (simp add: Let_def)
qed

section \<open>Time point 1\<close>

text \<open>
  C38: unless the configuration is taken from the NV variable with MCTP enabled, the status of
  \<^verbatim>\<open>InitializeResourceManagerDfXTp1\<close> is \<^verbatim>\<open>SilPass\<close> whatever became of the MMIO space: the IO and bus steps
  always pass, and their status replaces the one of the MMIO step.
\<close>

theorem tp1_status_masked:
  assumes "InitializeResourceManagerDfXTp1 dbg ops cpu (Some d) h = Some (st, d', h')"
    and "\<not> (SetRcBasedOnNv d \<and> McptEnable d)"
  shows "st = SilPass"
proof -
  obtain c s1 d1 h1 s2 d2 h2 where m: "mmio_phase dbg ops cpu d h = Some (c, s1, d1, h1)"
    and i: "io_phase dbg ops c s1 d1 h1 = Some (s2, d2, h2)" and b: "bus_phase dbg ops s2 d2 h2 = Some (st, h')"
    using assms(1) by (auto simp: InitializeResourceManagerDfXTp1_def Option.bind_eq_Some_conv split: if_splits)
  note flags = same_input_flags [OF mmio_phase_flags [OF m]] same_input_flags [OF io_phase_flags(1) [OF i]]
  show ?thesis
    using bus_phase_status [OF b] io_phase_flags(2) [OF i] flags assms(2) by (auto split: if_splits)
qed

text \<open>An input without MMIO space: memory, configuration space and the reserved region are adjacent.\<close>

definition no_space_blk :: RCMGR_INPUT_BLK where
  "no_space_blk = sample_blk\<lparr>PciExpressBaseAddress := 0xC0000000, BottomMmioReservedForPrimaryRb := 0xD0000000,
     SetRcBasedOnNv := False\<rparr>"

theorem tp1_status_masked_witness:
  "(\<exists>d' h'. InitializeResourceManagerDfXTp1 True idle_bus sample_cpu (Some no_space_blk) () = Some (SilPass, d', h'))
   \<and> map_option fst (SilInitMmioEqually4 True idle_bus sample_cpu no_space_blk ()) = Some SilOutOfResources"
proof
  have eq: "map_option (\<lambda>(s, d, h). (s, SetRcBasedOnNv d, SocketNumber d, RbsPerSocket d))
      (SilInitMmioEqually4 True idle_bus sample_cpu no_space_blk ()) = Some (SilOutOfResources, False, 1, 4)"
    by code_simp
  then obtain d1 where d1: "SilInitMmioEqually4 True idle_bus sample_cpu no_space_blk () = Some (SilOutOfResources, d1, ())"
    "\<not> SetRcBasedOnNv d1" "SocketNumber d1 = 1" "RbsPerSocket d1 = 4" by auto
  obtain d2 where d2: "SilInitIoEqually4 idle_bus d1 () = Some (SilPass, d2, ())"
    using idle_io_equally [OF d1(3,4)] by blast
  have "\<not> SetRcBasedOnNv d2"
    using same_input_flags [OF init_io_equally(1) [OF d2]] d1(2) by simp
  then obtain st d' h' where
    run: "InitializeResourceManagerDfXTp1 True idle_bus sample_cpu (Some no_space_blk) () = Some (st, d', h')"
    using d1 d2
    by (simp add: InitializeResourceManagerDfXTp1_def mmio_phase_def io_phase_def bus_phase_def no_space_blk_def
        sample_blk_def MAX_SOCKETS_SUPPORTED_def MAX_RBS_PER_SOCKET_def)
  have "st = SilPass" by (rule tp1_status_masked [OF run]) (simp add: no_space_blk_def sample_blk_def)
  with run show "\<exists>d' h'. InitializeResourceManagerDfXTp1 True idle_bus sample_cpu (Some no_space_blk) ()
      = Some (SilPass, d', h')" by blast
  show "map_option fst (SilInitMmioEqually4 True idle_bus sample_cpu no_space_blk ()) = Some SilOutOfResources"
    by code_simp
qed

end
