(* ===== verification/Spec2Isabelle.thy ===== *)
theory Spec2Isabelle
  imports Sil_Core_Props Sil_Device_Props Nbio_Base_Props Nbio_Option_Props Nbio_Tom_Props Sil_Smu_Props Sil_Cpu_Props Ccx_Boot_Props Ccx_Start_Props Ccx_Launch_Props Df_Domain_Props Rc_Props Rc_Props2
begin

text \<open>
  A verification library for openSIL, the silicon initialisation library that a host firmware links and
  calls at three time points to bring up an AMD system on chip.

  \<^bold>\<open>How the program works.\<close> The host asks for the size of one block of memory
  (\<^verbatim>\<open>xSimQueryMemoryRequirements\<close>), hands the block over (\<^verbatim>\<open>xSimAssignMemoryTp1\<close>), edits the input blocks it
  finds in it and starts the time points (\<^verbatim>\<open>InitializeSiTp1\<close> to \<^verbatim>\<open>Tp3\<close>). The core walks a table of IPs
  (\<^verbatim>\<open>xSIM/SoC/F19M10\<close>) and calls their entry points. IPs call each other through two tables of interface
  pointers kept in the same block. The first IP of the table is the resource manager
  (\<^verbatim>\<open>xUSL/RcMgr\<close>): it divides MMIO space, IO ports and PCI bus numbers among the root bridges and programs
  the data fabric, whose registers it reaches through PCI configuration accesses (\<^verbatim>\<open>xUSL/DF\<close>,
  \<^verbatim>\<open>xUSL/CommonLib\<close>). The NBIO blocks share a tree of descriptors of the PCIe links, the SMU services send
  messages to the power management firmware, and the core complex code (\<^verbatim>\<open>xUSL/CCX\<close>) applies tables of
  register values on every core.

  \<^bold>\<open>Conventions.\<close> Machine integers are words of their C width and wrap. A function that may fail an
  assertion, index past a table or not return gives an option: \<open>None\<close> is the failed assertion of a debug
  build or the missing return. Where assertions are compiled out and the code goes on, the definition has
  a flag \<open>dbg\<close>. Loops that may not end are \<open>partial_function (option)\<close>; there is no fuel. Status codes are
  the datatype \<open>SIL_STATUS\<close>. Hardware (PCI bus, model specific registers, CPUID) and the entry points of
  the IPs are parameters; a variable or structure the code reads before it is written is an argument.
  Where a theorem needs a device (a register file, a mailbox with its firmware, an index/data pair), the
  device is described by its documented behaviour and the witness has a concrete one. Trace output is left out, as are the assertions that the interface tables were
  registered.

  \<^bold>\<open>The theories.\<close>

  \<^item> \<open>Sil_Prelude\<close>: word types, status codes, assertions, the \<open>for_each\<close> loop, alignment and range lemmas;
    \<open>Sil_Bitfield\<close>: C bit fields; \<open>Sil_Memory\<close>: byte memory with little-endian fields and the
    read-over-write laws.
  \<^item> \<open>Sil_Utils\<close>: the bit searches of \<^verbatim>\<open>CommonLib/Utils.c\<close>.
  \<^item> \<open>Sil_Store\<close>: the host block (\<^verbatim>\<open>SIL_BLOCK_VARIABLES\<close>, \<^verbatim>\<open>SIL_INFO_BLOCK_HEADER\<close>), \<^verbatim>\<open>SilCreateInfoBlock\<close>,
    \<^verbatim>\<open>xUslFindStructure\<close> and the interface tables of \<^verbatim>\<open>SilServices.c\<close>. The invariant \<open>store_ok\<close> relates the
    bytes to an abstract list of blocks; creation appends to it, lookup searches it.
  \<^item> \<open>Sil_Interfaces\<close>: the contracts \<open>api_table\<close> and \<open>block_store\<close> as locales, interpreted on the two
    interface tables and on the store.
  \<^item> \<open>Sil_XSim\<close>: the IP tables and the loops of \<^verbatim>\<open>xSIM.c\<close>, with the deferred reset as a step relation;
    \<open>Sil_Inputs\<close>: the \<^verbatim>\<open>SetInput\<close> functions of the IPs.
  \<^item> \<open>Sil_Apob\<close>: the APOB container of \<^verbatim>\<open>Apob.c\<close> and its queries.
  \<^item> \<open>Sil_Pci\<close>: PCI, SMN and MMIO access, with the locale \<open>rmw_port\<close> for read-modify-write, interpreted
    on the eight routines of the library.
  \<^item> \<open>Df_Topology\<close>: data fabric register access, the Genoa topology tables and the information queries;
    \<open>Df_Domains\<close>: the NUMA domains of \<^verbatim>\<open>FabricAcpiDomainInfo.c\<close> and the translation of cores to them; \<open>Df_Init\<close>: clock gating,
    hardware assertions, watchdog and the time points of \<^verbatim>\<open>Df.c\<close>.
  \<^item> \<open>Rc_Types\<close>, \<open>Rc_Regs\<close>, \<open>Rc_Layout\<close>: records, register writes and memory map of the resource manager;
    \<open>Rc_Pool\<close>: reservation (\<^verbatim>\<open>FabricResourceManager.c\<close>), with the locale \<open>mmio_pool\<close> for the pools;
    \<open>Rc_Above4G\<close>, \<open>Rc_Combination\<close>, \<open>Rc_Below4G\<close>, \<open>Rc_Io\<close>: distribution by NV variable
    (\<^verbatim>\<open>FabricRcInitBasedOnNv4.c\<close>); \<open>Rc_Equally\<close>: equal shares; \<open>Rc_Init\<close>: the time points
    (\<^verbatim>\<open>FabricRcInitDfX.c\<close>); \<open>Rc_Sample\<close>: a concrete system for the witnesses.
  \<^item> \<open>Nbio_Topology\<close>: the descriptors of \<^verbatim>\<open>NbioPcieTopologyHelper.c\<close> over byte memory; \<open>peer_chain\<close> relates the
    bytes to a list, and the locale \<open>header_predicate\<close> gives the contract of the selection functions the
    walks are called with, interpreted on the three of the code.
  \<^item> \<open>Nbio_Smn\<close>: the interpreter of the NBIO register tables (\<^verbatim>\<open>NbioSmnTable.c\<close>) over byte memory, and a table as the list of
    its entries; \<open>Nbio_Regs\<close>: the register addresses, masks and offsets it uses; \<open>Nbio_Tables\<close>: the tables of
    \<^verbatim>\<open>NbioSmnTables.c\<close> with the headers they are made of; \<open>Nbio_Nbif\<close>: the rows of \<^verbatim>\<open>NbifConfigureCommonOptions\<close>; \<open>Nbio_Base\<close>: base
    configuration, IOMMU, IOAPIC, top of memory and the time points of \<^verbatim>\<open>Nbio.c\<close>; \<open>Nbio_Sample\<close>: concrete inputs for the witnesses.
  \<^item> \<open>Sil_Smu\<close>, \<open>Sil_Smu_V13\<close>: the mailbox protocol and the services of \<^verbatim>\<open>SmuCommon.c\<close> and \<^verbatim>\<open>SmuV13.c\<close>.
  \<^item> \<open>Sil_Cpu\<close>: CPUID queries, MSR updates, roles of a core, logical identifiers and P-states.
  \<^item> \<open>Ccx_Table\<close>: the register table interpreter of \<^verbatim>\<open>AmdTable.c\<close>; \<open>Ccx_Encode\<close>: the macros that write a table as
    bytes and the meaning of an entry; \<open>Ccx_Zen4\<close>: the tables of \<^verbatim>\<open>CcxResetTablesZen4.c\<close>; \<open>Sil_MsrReg\<close>: the numbers and fields of the
    model specific registers.
  \<^item> \<open>Ccx_Microcode\<close>: validation and loading of a microcode patch; \<open>Ccx_Cache\<close>: memory type ranges; \<open>Ccx_Block\<close>: the input block;
    \<open>Ccx_Misc\<close>: CAC weights, machine check banks, C6 and the synchronisation of registers; \<open>Ccx_Cmn2Zen4\<close>: APIC identifiers and the reverse map
    table; \<open>Ccx_ApLaunch\<close>: the start code and its region in memory (\<^verbatim>\<open>CcxApLaunch64.c\<close>); \<open>Ccx_DownCore\<close>: removal of cores
    (\<^verbatim>\<open>CcxDownCoreInit.c\<close>); \<open>Ccx_Init\<close>: \<^verbatim>\<open>InitializeCcxAndLaunchAps\<close> and the time points.

  \<^bold>\<open>What is shown.\<close> \<open>Sil_Core_Props\<close>: the reported memory size is enough; creation and lookup of blocks
  refine an abstract list; interface tables return what was registered; IPs run in table order and
  reset requests escalate; where the loop does not end. \<open>Rc_Props\<close> and \<open>Rc_Props2\<close>: reserved and
  distributed MMIO ranges are aligned, disjoint and inside their window; the search over combinations is
  exhaustive and ends; IO ports and buses are partitioned; the cases in which windows, shares or the status are
  wrong. \<open>Sil_Device_Props\<close>: APOB lookups and where they do not end, PCI and SMN access, root bridge
  queries. \<open>Nbio_Props\<close>: which descriptors the walks visit and with which status. \<open>Nbio_Base_Props\<close>: a register
  table has the effect of its entries as masked updates, which bits the tables leave alone, and when clock gating is programmed.
  \<open>Nbio_Option_Props\<close>: the bit of every option is its flag, with two exceptions. \<open>Nbio_Tom_Props\<close>: the limits of memory in every root
  complex. \<open>Sil_Smu_Props\<close>: the
  mailbox implements a remote procedure call; which bit a thread launch sets; brand strings and core presence.
  \<open>Ccx_Props\<close>: the interpreter on the bytes of a table performs exactly the matching entries, a core runs
  exactly the tables of its roles, and the values the Zen4 tables leave in the registers. \<open>Sil_Cpu_Props\<close>:
  P-state arithmetic without overflow, and the copy of bit fields. \<open>Ccx_Boot_Props\<close>: which microcode patches are accepted, and what memory the
  variable ranges cover. \<open>Ccx_Start_Props\<close>: distinct APIC identifiers, synchronised registers, the contents of the start region and its
  restoration. \<open>Ccx_DownCore_Props\<close>: which registers a request to remove cores programs, and when it is ignored.
  \<open>Ccx_Launch_Props\<close>: every thread is started once, in order. \<open>Df_Domain_Props\<close>: domains and the cores and memory in them.

  \<^bold>\<open>Not modelled.\<close> Of CCX the assembly code the application processors execute (a parameter) and the 32-bit variant of the
  launch; of NBIO the input parser, the search for the southbridge engine, the building of the topology descriptors by
  \<^verbatim>\<open>PcieConfigurationInit\<close> (a parameter) and the hiding of PCIe cores; the internals of MPIO, FCH, RAS, CXL and SDCI beyond their input
  blocks (register programming sequences); the platform reference library \<^verbatim>\<open>xPRF\<close>, which re-exports calls to the host; and the
  build system.
\<close>

end
